(* ===== verification/Prelude.thy ===== *)
theory Prelude
  imports
    Main
    "HOL-Library.List_Lexorder"
    "HOL-Library.Char_ord"
    "HOL-Library.Option_ord"
begin

text \<open>
  Shared vocabulary of the development: the exceptions of the Python code as values, the string
  operations of the language that the components use, the order of Python strings (and of SQLite
  \<open>TEXT\<close> columns with the default \<open>BINARY\<close> collation), which is the lexicographic order of
  code points, decimal rendering of numbers, and lemmas about lists that several components need.
  A \<^typ>\<open>char\<close> is a code point below 256.
\<close>

section \<open>Exceptions\<close>

datatype exc =
    ValueError string
  | RuntimeError string
  | PermissionError string
  | OSError string
  | KeyError string
  | TypeError string
  | AssertionError string
  | OtherError string

type_synonym 'a res = "exc + 'a"

text \<open>\<open>OtherError\<close> stands for the exceptions of third-party libraries. \<open>str(exc)\<close>:\<close>

fun exc_msg :: "exc \<Rightarrow> string" where
  "exc_msg (ValueError m) = m"
| "exc_msg (RuntimeError m) = m"
| "exc_msg (PermissionError m) = m"
| "exc_msg (OSError m) = m"
| "exc_msg (KeyError m) = m"
| "exc_msg (TypeError m) = m"
| "exc_msg (OtherError m) = m"
| "exc_msg (AssertionError m) = m"

named_theorems table_simps "facts about the tables of the state database"
named_theorems frame_simps "what an operation leaves alone"

section \<open>Strings\<close>

definition starts_with :: "string \<Rightarrow> string \<Rightarrow> bool" where
  "starts_with p s \<longleftrightarrow> take (length p) s = p"

lemma starts_with_Nil [simp]: "starts_with [] s"
  by (simp add: starts_with_def)

lemma starts_with_Cons [simp]:
  "starts_with (c # p) (d # s) \<longleftrightarrow> c = d \<and> starts_with p s" "\<not> starts_with (c # p) []"
  by (auto simp: starts_with_def)

lemma starts_with_append [simp]: "starts_with p (p @ s)"
  by (simp add: starts_with_def)

lemma starts_with_iff: "starts_with p s \<longleftrightarrow> (\<exists>r. s = p @ r)"
  by (metis append_take_drop_id starts_with_append starts_with_def)

lemma starts_with_same_prefix [simp]: "starts_with (p @ q) (p @ s) \<longleftrightarrow> starts_with q s"
  by (simp add: starts_with_def)

text \<open>\<open>sep.join(xs)\<close>.\<close>

fun join :: "string \<Rightarrow> string list \<Rightarrow> string" where
  "join sep [] = []"
| "join sep [x] = x"
| "join sep (x # y # ys) = x @ sep @ join sep (y # ys)"

text \<open>\<open>s.split(c)\<close> for a one-character separator.\<close>

fun split_on :: "char \<Rightarrow> string \<Rightarrow> string list" where
  "split_on c [] = [[]]"
| "split_on c (x # xs) =
     (if x = c then [] # split_on c xs
      else case split_on c xs of [] \<Rightarrow> [[x]] | w # ws \<Rightarrow> (x # w) # ws)"

lemma split_on_nonempty [simp]: "split_on c s \<noteq> []"
  by (induction s) (auto split: list.split)

lemma join_split_on: "join [c] (split_on c s) = s"
proof (induction s)
  case Nil
  then show ?case by simp
next
  case (Cons x xs)
  obtain w ws where *: "split_on c xs = w # ws" by (cases "split_on c xs") auto
  have "join [c] ((x # w) # ws) = x # join [c] (w # ws)" by (cases ws) auto
  with * Cons show ?case by auto
qed

lemma split_on_no_sep: "w \<in> set (split_on c s) \<Longrightarrow> c \<notin> set w"
  by (induction s arbitrary: w) (auto split: if_splits list.splits)

lemma split_on_plain: "c \<notin> set w \<Longrightarrow> split_on c w = [w]"
  by (induction w) auto

lemma split_on_append: "c \<notin> set w \<Longrightarrow> split_on c (w @ c # r) = w # split_on c r"
  by (induction w) auto

lemma split_on_join: "ws \<noteq> [] \<Longrightarrow> list_all (\<lambda>w. c \<notin> set w) ws \<Longrightarrow> split_on c (join [c] ws) = ws"
proof (induction ws)
  case (Cons w ws)
  then show ?case by (cases ws) (auto simp: split_on_plain split_on_append)
qed simp

text \<open>\<open>s.lstrip(cs)\<close>, \<open>s.rstrip(cs)\<close>, \<open>s.strip(cs)\<close>.\<close>

definition lstrip :: "char list \<Rightarrow> string \<Rightarrow> string" where
  "lstrip cs s = dropWhile (\<lambda>c. List.member cs c) s"

definition rstrip :: "char list \<Rightarrow> string \<Rightarrow> string" where
  "rstrip cs s = rev (lstrip cs (rev s))"

definition strip :: "char list \<Rightarrow> string \<Rightarrow> string" where
  "strip cs s = rstrip cs (lstrip cs s)"

lemma lstrip_hd: "lstrip cs s = c # r \<Longrightarrow> c \<notin> set cs"
  by (auto simp: lstrip_def dropWhile_eq_Cons_conv)

lemma set_lstrip: "set (lstrip cs s) \<subseteq> set s"
  by (auto simp: lstrip_def dest: set_dropWhileD)

lemma set_rstrip: "set (rstrip cs s) \<subseteq> set s"
  using set_lstrip by (fastforce simp: rstrip_def)

lemma set_strip: "set (strip cs s) \<subseteq> set s"
  using set_lstrip set_rstrip by (fastforce simp: strip_def)

text \<open>The whitespace that \<open>s.strip()\<close> removes, and \<open>s.lower()\<close>, on the ASCII characters.\<close>

definition whitespace :: "char list" where
  "whitespace = [CHR 0x20, CHR 0x09, CHR 0x0A, CHR 0x0B, CHR 0x0C, CHR 0x0D,
     CHR 0x1C, CHR 0x1D, CHR 0x1E, CHR 0x1F]"

definition lower_char :: "char \<Rightarrow> char" where
  "lower_char c = (if CHR ''A'' \<le> c \<and> c \<le> CHR ''Z'' then char_of (of_char c + (32::nat)) else c)"

definition lower :: "string \<Rightarrow> string" where
  "lower s = map lower_char s"

section \<open>The order of strings\<close>

lemma append_less_iff:
  fixes xs ys :: "'a::order list"
  shows "length xs = length ys \<Longrightarrow>
    (xs @ us < ys @ vs) = (xs < ys \<or> xs = ys \<and> us < vs)"
proof (induction xs ys rule: list_induct2)
  case Nil
  then show ?case by simp
next
  case (Cons x xs y ys)
  then show ?case by auto
qed

lemma append_less_mono [simp]:
  fixes xs :: "'a::order list"
  shows "(xs @ us < xs @ vs) = (us < vs)"
  by (induction xs) auto

section \<open>Decimal numbers\<close>

definition digit_char :: "nat \<Rightarrow> char" where
  "digit_char d = char_of (48 + d)"

fun show_nat :: "nat \<Rightarrow> string" where
  "show_nat n = (if n < 10 then [digit_char n] else show_nat (n div 10) @ [digit_char (n mod 10)])"

declare show_nat.simps [simp del]

definition show_int :: "int \<Rightarrow> string" where
  "show_int i = (if i < 0 then ''-'' @ show_nat (nat (- i)) else show_nat (nat i))"

text \<open>\<open>format(n, "0wd")\<close> for an \<open>n\<close> of at most \<open>w\<close> digits.\<close>

fun pad :: "nat \<Rightarrow> nat \<Rightarrow> string" where
  "pad 0 n = []"
| "pad (Suc w) n = digit_char (n div 10 ^ w mod 10) # pad w (n mod 10 ^ w)"

lemma length_pad [simp]: "length (pad w n) = w"
  by (induction w arbitrary: n) auto

lemma digit_char_less_iff: "a < 10 \<Longrightarrow> b < 10 \<Longrightarrow> (digit_char a < digit_char b) = (a < b)"
  by (simp add: digit_char_def less_char_def)

lemma digit_char_eq_iff: "a < 10 \<Longrightarrow> b < 10 \<Longrightarrow> (digit_char a = digit_char b) = (a = b)"
  by (metis digit_char_less_iff less_irrefl linorder_neqE_nat)

lemma digit_bound: "n < 10 ^ Suc w \<Longrightarrow> n div 10 ^ w < (10::nat)"
  by (simp add: less_mult_imp_div_less mult.commute)

lemma div_mod_less_iff:
  "(a < b) = (a div p < b div p \<or> a div p = b div p \<and> a mod p < b mod (p::nat))"
proof (cases "a div p" "b div p" rule: linorder_cases)
  case less
  then have "\<not> b \<le> a" by (meson div_le_mono leD)
  with less show ?thesis by simp
next
  case equal
  then have "(a < b) = (b div p * p + a mod p < b div p * p + b mod p)"
    by (metis div_mult_mod_eq)
  then have "(a < b) = (a mod p < b mod p)" by (simp only: nat_add_left_cancel_less)
  with equal show ?thesis by simp
next
  case greater
  then have "\<not> a \<le> b" by (meson div_le_mono leD)
  with greater show ?thesis by simp
qed

lemma pad_less_iff: "a < 10 ^ w \<Longrightarrow> b < 10 ^ w \<Longrightarrow> (pad w a < pad w b) = (a < b)"
proof (induction w arbitrary: a b)
  case 0
  then show ?case by simp
next
  case (Suc w)
  let ?p = "10 ^ w :: nat"
  have da: "a div ?p < 10" and db: "b div ?p < 10"
    using Suc.prems by (blast intro: digit_bound)+
  have m: "a mod ?p < ?p" "b mod ?p < ?p" by simp_all
  have "(a < b) = (a div ?p < b div ?p \<or> a div ?p = b div ?p \<and> a mod ?p < b mod ?p)"
    by (rule div_mod_less_iff)
  with da db Suc.IH [OF m] show ?case
    by (simp add: digit_char_less_iff digit_char_eq_iff)
qed

lemma pad_eq_iff: "a < 10 ^ w \<Longrightarrow> b < 10 ^ w \<Longrightarrow> (pad w a = pad w b) = (a = b)"
  by (metis less_irrefl linorder_neqE_nat pad_less_iff)

text \<open>\<open>int(s)\<close> for a string of decimal digits.\<close>

definition digit_val :: "char \<Rightarrow> nat option" where
  "digit_val c = (if CHR ''0'' \<le> c \<and> c \<le> CHR ''9'' then Some (of_char c - 48) else None)"

fun read_digits :: "nat \<Rightarrow> string \<Rightarrow> nat option" where
  "read_digits acc [] = Some acc"
| "read_digits acc (c # cs) =
     (case digit_val c of None \<Rightarrow> None | Some d \<Rightarrow> read_digits (10 * acc + d) cs)"

lemma digit_val_digit_char [simp]: "d < 10 \<Longrightarrow> digit_val (digit_char d) = Some d"
  by (simp add: digit_val_def digit_char_def less_eq_char_def)

lemma read_digits_append:
  "read_digits acc (xs @ ys) =
     (case read_digits acc xs of None \<Rightarrow> None | Some a \<Rightarrow> read_digits a ys)"
  by (induction xs arbitrary: acc) (auto split: option.splits)

lemma read_digits_pad: "n < 10 ^ w \<Longrightarrow> read_digits acc (pad w n) = Some (acc * 10 ^ w + n)"
proof (induction w arbitrary: n acc)
  case 0
  then show ?case by simp
next
  case (Suc w)
  let ?p = "10 ^ w :: nat"
  have "n div ?p < 10" using Suc.prems by (rule digit_bound)
  then have "read_digits acc (pad (Suc w) n)
      = Some ((10 * acc + n div ?p) * ?p + n mod ?p)"
    using Suc.IH [of "n mod ?p"] by simp
  also have "(10 * acc + n div ?p) * ?p + n mod ?p = acc * 10 ^ Suc w + n"
    using div_mult_mod_eq [of n ?p] by (simp add: algebra_simps)
  finally show ?case .
qed

lemma read_digits_show_nat: "read_digits 0 (show_nat n) = Some n"
proof (induction n rule: show_nat.induct)
  case (1 n)
  show ?case
  proof (cases "n < 10")
    case True
    then show ?thesis by (simp add: show_nat.simps [of n])
  next
    case False
    with 1 have "read_digits 0 (show_nat (n div 10)) = Some (n div 10)" by simp
    then have "read_digits 0 (show_nat n) = Some (10 * (n div 10) + n mod 10)"
      using False by (simp add: show_nat.simps [of n] read_digits_append)
    then show ?thesis by simp
  qed
qed

lemma show_nat_eq_iff [simp]: "show_nat a = show_nat b \<longleftrightarrow> a = b"
  by (metis option.inject read_digits_show_nat)

section \<open>Lists\<close>

text \<open>\<open>next((x for x in xs if p(x)), None)\<close>, and the loops that return the first match.\<close>

lemma find_Some_set: "find p xs = Some x \<Longrightarrow> x \<in> set xs \<and> p x"
  by (metis find_Some_iff nth_mem)

lemma find_None_all: "find p xs = None \<longleftrightarrow> (\<forall>x. x \<in> set xs \<longrightarrow> \<not> p x)"
  by (simp add: find_None_iff)

text \<open>\<open>ORDER BY k DESC\<close>: a stable sort with the greatest key first.\<close>

definition sort_desc :: "('a \<Rightarrow> 'k::linorder) \<Rightarrow> 'a list \<Rightarrow> 'a list" where
  "sort_desc k xs = rev (sort_key k (rev xs))"

lemma set_sort_desc [simp]: "set (sort_desc k xs) = set xs"
  by (simp add: sort_desc_def)

lemma length_sort_desc [simp]: "length (sort_desc k xs) = length xs"
  by (simp add: sort_desc_def)

lemma sorted_sort_desc: "sorted (rev (map k (sort_desc k xs)))"
  by (simp add: sort_desc_def rev_map [symmetric])

lemma sort_desc_Nil_iff [simp]: "sort_desc k xs = [] \<longleftrightarrow> xs = []"
  by (metis length_0_conv length_sort_desc)

lemma hd_sort_desc_max:
  assumes "x \<in> set xs"
  shows "k x \<le> k (hd (sort_desc k xs))"
proof -
  let ?ys = "sort_desc k xs"
  have "?ys \<noteq> []" using assms by auto
  then obtain y ys where ys: "?ys = y # ys" by (cases ?ys) auto
  have "x \<in> set ?ys" using assms by simp
  moreover have "sorted (rev (map k ys) @ [k y])"
    using sorted_sort_desc [of k xs] ys by simp
  ultimately show ?thesis using ys by (auto simp: sorted_append)
qed

text \<open>\<open>dict\<close> literals and \<open>dict.get\<close>: the last binding of a key wins.\<close>

definition dict_get :: "('k \<times> 'v) list \<Rightarrow> 'k \<Rightarrow> 'v option" where
  "dict_get d k = map_of (rev d) k"

end
