(* ===== verification/Tables.thy ===== *)
theory Tables
  imports Prelude
begin

text \<open>
  The SQL statements of the state database on tables as lists of rows in rowid order:
  \<open>INSERT\<close> into a table with an autoincremented id, \<open>UPDATE ... WHERE\<close>,
  \<open>INSERT OR REPLACE\<close>, \<open>INSERT ... ON CONFLICT DO UPDATE\<close> and the \<open>SELECT\<close>s by
  key. The locale \<open>keyed_table\<close> is the contract of a table with a primary key that its users
  rely on; the tables of the catalog are instances of it.
\<close>

section \<open>Autoincremented ids\<close>

definition next_rowid :: "('r \<Rightarrow> nat) \<Rightarrow> 'r list \<Rightarrow> nat" where
  "next_rowid rid rows = Suc (foldr (\<lambda>r m. max (rid r) m) rows 0)"

definition insert_row :: "('r \<Rightarrow> nat) \<Rightarrow> (nat \<Rightarrow> 'r) \<Rightarrow> 'r list \<Rightarrow> nat \<times> 'r list" where
  "insert_row rid mk rows = (let i = next_rowid rid rows in (i, rows @ [mk i]))"

lemma next_rowid_greater: "r \<in> set rows \<Longrightarrow> rid r < next_rowid rid rows"
  by (induction rows) (auto simp: next_rowid_def less_Suc_eq_le le_max_iff_disj)

lemma next_rowid_fresh: "next_rowid rid rows \<notin> rid ` set rows"
  by (metis imageE less_irrefl next_rowid_greater)

section \<open>Updates\<close>

definition update_where :: "('r \<Rightarrow> bool) \<Rightarrow> ('r \<Rightarrow> 'r) \<Rightarrow> 'r list \<Rightarrow> 'r list" where
  "update_where p f rows = map (\<lambda>r. if p r then f r else r) rows"

lemma update_where_Nil [simp]: "update_where p f [] = []"
  by (simp add: update_where_def)

lemma length_update_where [simp]: "length (update_where p f rows) = length rows"
  by (simp add: update_where_def)

lemma set_update_where: "set (update_where p f rows) = (\<lambda>r. if p r then f r else r) ` set rows"
  by (simp add: update_where_def)

lemma map_update_where [table_simps]:
  "(\<And>r. p r \<Longrightarrow> g (f r) = g r) \<Longrightarrow> map g (update_where p f rows) = map g rows"
  by (simp add: update_where_def)

lemma update_where_none: "(\<And>r. r \<in> set rows \<Longrightarrow> \<not> p r) \<Longrightarrow> update_where p f rows = rows"
  by (auto simp: update_where_def intro: map_idI)

section \<open>Rows by key\<close>

definition row_by :: "('r \<Rightarrow> 'k) \<Rightarrow> 'k \<Rightarrow> 'r list \<Rightarrow> 'r option" where
  "row_by key k rows = find (\<lambda>r. key r = k) rows"

lemma row_by_Nil [simp]: "row_by key k [] = None"
  by (simp add: row_by_def)

lemma row_by_Cons [simp]: "row_by key k (r # rows) = (if key r = k then Some r else row_by key k rows)"
  by (simp add: row_by_def)

lemma row_by_Some: "row_by key k rows = Some r \<Longrightarrow> r \<in> set rows \<and> key r = k"
  by (auto simp: row_by_def dest: find_Some_set)

lemma row_by_None: "row_by key k rows = None \<longleftrightarrow> k \<notin> key ` set rows"
  by (auto simp: row_by_def find_None_all)

lemma row_by_unique:
  "distinct (map key rows) \<Longrightarrow> r \<in> set rows \<Longrightarrow> row_by key (key r) rows = Some r"
  by (induction rows) auto

lemma row_by_append:
  "row_by key k (xs @ ys) = (case row_by key k xs of None \<Rightarrow> row_by key k ys | Some r \<Rightarrow> Some r)"
  by (induction xs) auto

lemma row_by_update_where [table_simps]:
  "(\<And>r. p r \<Longrightarrow> key (f r) = key r) \<Longrightarrow>
   row_by key k (update_where p f rows)
     = map_option (\<lambda>r. if p r then f r else r) (row_by key k rows)"
  by (induction rows) (auto simp: update_where_def)

lemma row_by_filter_other:
  "row_by key k (filter (\<lambda>r. key r \<noteq> k') rows) = (if k = k' then None else row_by key k rows)"
  by (induction rows) auto

lemma row_by_insert_row:
  "row_by rid (next_rowid rid rows) (rows @ [mk (next_rowid rid rows)])
     = (if rid (mk (next_rowid rid rows)) = next_rowid rid rows
        then Some (mk (next_rowid rid rows)) else None)"
proof -
  have "row_by rid (next_rowid rid rows) rows = None"
    by (simp add: row_by_None next_rowid_fresh)
  then show ?thesis by (simp add: row_by_append)
qed

text \<open>\<open>INSERT OR REPLACE\<close>: the old row is deleted and the new one appended.\<close>

definition replace_row :: "('r \<Rightarrow> 'k) \<Rightarrow> 'r \<Rightarrow> 'r list \<Rightarrow> 'r list" where
  "replace_row key r rows = filter (\<lambda>x. key x \<noteq> key r) rows @ [r]"

text \<open>\<open>INSERT ... ON CONFLICT(key) DO UPDATE\<close> of every other column: in place.\<close>

definition upsert_row :: "('r \<Rightarrow> 'k) \<Rightarrow> 'r \<Rightarrow> 'r list \<Rightarrow> 'r list" where
  "upsert_row key r rows =
     (if List.member (map key rows) (key r) then update_where (\<lambda>x. key x = key r) (\<lambda>_. r) rows
      else rows @ [r])"

lemma row_by_replace_row [table_simps]:
  "row_by key k (replace_row key r rows) = (if k = key r then Some r else row_by key k rows)"
  by (auto simp: replace_row_def row_by_append row_by_filter_other split: option.split)

lemma row_by_overwrite:
  "row_by key k (update_where (\<lambda>x. key x = key r) (\<lambda>_. r) rows)
     = (if k = key r \<and> k \<in> key ` set rows then Some r else row_by key k rows)"
  by (induction rows) (auto simp: update_where_def)

lemma map_key_overwrite: "map key (update_where (\<lambda>x. key x = key r) (\<lambda>_. r) rows) = map key rows"
  by (rule map_update_where) simp

lemma row_by_upsert_row [table_simps]:
  "row_by key k (upsert_row key r rows) = (if k = key r then Some r else row_by key k rows)"
proof (cases "key r \<in> key ` set rows")
  case True
  then show ?thesis by (auto simp: upsert_row_def row_by_overwrite)
next
  case False
  then have "row_by key (key r) rows = None" by (simp add: row_by_None)
  with False show ?thesis by (auto simp: upsert_row_def row_by_append split: option.split)
qed

lemma distinct_replace_row:
  "distinct (map key rows) \<Longrightarrow> distinct (map key (replace_row key r rows))"
  by (auto simp: replace_row_def intro: distinct_map_filter)

lemma distinct_upsert_row:
  "distinct (map key rows) \<Longrightarrow> distinct (map key (upsert_row key r rows))"
  by (auto simp: upsert_row_def map_key_overwrite)

section \<open>The contract of a keyed table\<close>

text \<open>
  \<open>put\<close> stores a row under its key, \<open>get\<close> reads the row of a key, \<open>ok\<close> is the primary
  key constraint. The client facts are about one \<open>put\<close> and about any sequence of them.
\<close>

locale keyed_table =
  fixes key :: "'r \<Rightarrow> 'k"
    and put :: "'r \<Rightarrow> 't \<Rightarrow> 't"
    and get :: "'k \<Rightarrow> 't \<Rightarrow> 'r option"
    and ok :: "'t \<Rightarrow> bool"
  assumes get_put: "get k (put r t) = (if k = key r then Some r else get k t)"
    and ok_put: "ok t \<Longrightarrow> ok (put r t)"
begin

lemma get_same: "get (key r) (put r t) = Some r"
  by (simp add: get_put)

lemma get_other: "k \<noteq> key r \<Longrightarrow> get k (put r t) = get k t"
  by (simp add: get_put)

lemma put_last_wins: "key r = key s \<Longrightarrow> get k (put r (put s t)) = get k (put r t)"
  by (simp add: get_put)

lemma ok_puts: "ok t \<Longrightarrow> ok (fold put rs t)"
  by (induction rs arbitrary: t) (auto intro: ok_put)

lemma get_puts:
  "get k (fold put rs t) =
     (case find (\<lambda>r. key r = k) (rev rs) of Some r \<Rightarrow> Some r | None \<Rightarrow> get k t)"
proof (induction rs rule: rev_induct)
  case Nil
  then show ?case by simp
next
  case (snoc r rs)
  then show ?case by (simp add: get_put)
qed

lemma get_puts_other: "(\<And>r. r \<in> set rs \<Longrightarrow> key r \<noteq> k) \<Longrightarrow> get k (fold put rs t) = get k t"
  by (induction rs arbitrary: t) (auto simp: get_put)

end

text \<open>Rows stored either way satisfy the contract.\<close>

interpretation replacing: keyed_table key "replace_row key" "row_by key" "\<lambda>t. distinct (map key t)"
  for key :: "'r \<Rightarrow> 'k"
  by unfold_locales (simp_all add: row_by_replace_row distinct_replace_row)

interpretation upserting: keyed_table key "upsert_row key" "row_by key" "\<lambda>t. distinct (map key t)"
  for key :: "'r \<Rightarrow> 'k"
  by unfold_locales (simp_all add: row_by_upsert_row distinct_upsert_row)

end
