(* ===== verification/Clock.thy ===== *)
theory Clock
  imports Prelude
begin

text \<open>
  Points in time and their textual form. The code stores every timestamp as the text of
  \<open>datetime.now(timezone.utc).isoformat()\<close> and compares these texts, in SQL
  (\<open>immutable_until > ?\<close>, \<open>ORDER BY created_at\<close>) and in Python
  (\<open>max(current, immutable_until)\<close>). An instant is a number of microseconds since
  2000-01-01T00:00:00Z; \<open>isoformat\<close> renders it in the proleptic Gregorian calendar, without
  the fraction when the microseconds are zero, as Python does. The main result is that the texts
  are ordered as the instants are, in the years 400 to 9999.
\<close>

type_synonym instant = int

definition second_us :: int where "second_us = 1000000"
definition minute_us :: int where "minute_us = 60 * 1000000"
definition day_us :: int where "day_us = 86400 * 1000000"

text \<open>\<open>now + timedelta(days=n)\<close> and \<open>now + timedelta(minutes=n)\<close>.\<close>

definition plus_days :: "instant \<Rightarrow> int \<Rightarrow> instant" where
  "plus_days t n = t + n * day_us"

lemma plus_days_mono: "m \<le> n \<Longrightarrow> plus_days t m \<le> plus_days t n"
  by (simp add: plus_days_def day_us_def)

lemma int_div_mod_less_iff:
  fixes a b p :: int
  assumes "0 < p"
  shows "(a < b) = (a div p < b div p \<or> a div p = b div p \<and> a mod p < b mod p)"
proof (cases "a div p" "b div p" rule: linorder_cases)
  case less
  then have "\<not> b \<le> a" using assms by (meson zdiv_mono1 leD)
  with less show ?thesis by simp
next
  case equal
  then have "(a < b) = (b div p * p + a mod p < b div p * p + b mod p)"
    by (metis div_mult_mod_eq)
  then have "(a < b) = (a mod p < b mod p)" by (simp only: add_less_cancel_left)
  with equal show ?thesis by simp
next
  case greater
  then have "\<not> a \<le> b" using assms by (meson zdiv_mono1 leD)
  with greater show ?thesis by simp
qed

section \<open>Locating a number in a row of segments\<close>

text \<open>
  The index of the segment that holds position \<open>n\<close> and the offset inside it: years in the
  400-year cycle, months in a year.
\<close>

fun locate :: "nat list \<Rightarrow> nat \<Rightarrow> nat \<times> nat" where
  "locate [] n = (0, n)"
| "locate (l # ls) n =
     (if n < l then (0, n) else (let (i, r) = locate ls (n - l) in (Suc i, r)))"

lemma locate_sum: "locate ls n = (i, r) \<Longrightarrow> sum_list (take i ls) + r = n"
proof (induction ls arbitrary: n i r)
  case Nil
  then show ?case by simp
next
  case (Cons l ls)
  then show ?case
    by (cases "n < l") (force split: prod.splits dest!: Cons.IH)+
qed

lemma locate_in_range:
  "n < sum_list ls \<Longrightarrow> locate ls n = (i, r) \<Longrightarrow> i < length ls \<and> r < ls ! i"
proof (induction ls arbitrary: n i r)
  case Nil
  then show ?case by simp
next
  case (Cons l ls)
  show ?case
  proof (cases "n < l")
    case True
    with Cons.prems show ?thesis by auto
  next
    case False
    obtain j where j: "locate ls (n - l) = (j, r)" "i = Suc j"
      using Cons.prems(2) False by (auto split: prod.splits)
    have "n - l < sum_list ls" using Cons.prems(1) False by simp
    from Cons.IH [OF this j(1)] show ?thesis by (simp add: j(2))
  qed
qed

text \<open>Positions are ordered as the pairs (segment, offset) are.\<close>

lemma locate_less:
  "m < n \<Longrightarrow> locate ls m = (i, r) \<Longrightarrow> locate ls n = (j, s) \<Longrightarrow> i < j \<or> i = j \<and> r < s"
proof (induction ls arbitrary: m n i r j s)
  case Nil
  then show ?case by simp
next
  case (Cons l ls)
  show ?case
  proof (cases "m < l")
    case True
    with Cons.prems show ?thesis by (auto split: if_splits prod.splits)
  next
    case False
    with Cons.prems(1) have "\<not> n < l" "m - l < n - l" by simp_all
    moreover obtain i' j' where "locate ls (m - l) = (i', r)" "i = Suc i'"
        "locate ls (n - l) = (j', s)" "j = Suc j'"
      using Cons.prems(2,3) False \<open>\<not> n < l\<close> by (auto split: prod.splits)
    ultimately show ?thesis using Cons.IH by auto
  qed
qed

section \<open>The calendar\<close>

text \<open>Years are counted from 2000, the first of a 400-year cycle of 146097 days.\<close>

definition leap_index :: "nat \<Rightarrow> bool" where
  "leap_index i \<longleftrightarrow> i mod 4 = 0 \<and> (i mod 100 \<noteq> 0 \<or> i mod 400 = 0)"

definition year_len :: "nat \<Rightarrow> nat" where
  "year_len i = (if leap_index i then 366 else 365)"

definition cycle_lens :: "nat list" where
  "cycle_lens = map year_len [0..<400]"

definition month_lens :: "bool \<Rightarrow> nat list" where
  "month_lens leap = [31, if leap then 29 else 28, 31, 30, 31, 30, 31, 31, 30, 31, 30, 31]"

lemma length_cycle_lens: "length cycle_lens = 400"
  by (simp add: cycle_lens_def)

lemma sum_cycle_lens: "sum_list cycle_lens = 146097"
  by (simp add: cycle_lens_def upt_rec year_len_def leap_index_def)

lemma length_month_lens: "length (month_lens b) = 12"
  by (simp add: month_lens_def)

lemma sum_month_lens: "sum_list (month_lens (leap_index i)) = year_len i"
  by (simp add: month_lens_def year_len_def)

lemma month_lens_bound: "m < 12 \<Longrightarrow> month_lens b ! m \<le> 31"
proof -
  assume "m < 12"
  then have "month_lens b ! m \<in> set (month_lens b)" by (simp add: length_month_lens)
  moreover have "set (month_lens b) \<subseteq> {28, 29, 30, 31}" by (auto simp: month_lens_def)
  ultimately show ?thesis by auto
qed

text \<open>The date of day number \<open>n\<close>, counted from 2000-01-01.\<close>

definition civil :: "int \<Rightarrow> int \<times> nat \<times> nat" where
  "civil n =
     (let (i, r) = locate cycle_lens (nat (n mod 146097));
          (m, d) = locate (month_lens (leap_index i)) r
      in (2000 + 400 * (n div 146097) + int i, Suc m, Suc d))"

lemma civil_bounds:
  assumes "civil n = (y, m, d)"
  shows "2000 + 400 * (n div 146097) \<le> y" "y < 2400 + 400 * (n div 146097)" "m < 13" "d < 32"
proof -
  obtain i r where ir: "locate cycle_lens (nat (n mod 146097)) = (i, r)" by fastforce
  have "nat (n mod 146097) < sum_list cycle_lens" by (simp add: sum_cycle_lens nat_less_iff)
  from locate_in_range [OF this ir] have i: "i < 400" and r: "r < year_len i"
    by (auto simp: length_cycle_lens) (simp add: cycle_lens_def)
  obtain m' d' where md: "locate (month_lens (leap_index i)) r = (m', d')" by fastforce
  from locate_in_range [OF _ md] r have m': "m' < 12" and "d' < month_lens (leap_index i) ! m'"
    by (simp_all add: sum_month_lens length_month_lens)
  with month_lens_bound [OF m'] have d': "d' < 31" by (meson less_le_trans)
  from assms ir md have "y = 2000 + 400 * (n div 146097) + int i" "m = Suc m'" "d = Suc d'"
    by (simp_all add: civil_def)
  with i m' d' show "2000 + 400 * (n div 146097) \<le> y" "y < 2400 + 400 * (n div 146097)"
    "m < 13" "d < 32" by simp_all
qed

lemma civil_less:
  assumes "a < b" and a: "civil a = (y, m, d)" and b: "civil b = (y', m', d')"
  shows "y < y' \<or> y = y' \<and> (m < m' \<or> m = m' \<and> d < d')"
proof (cases "a div 146097 = b div 146097")
  case False
  then have "a div 146097 < b div 146097"
    using assms(1) int_div_mod_less_iff [of 146097 a b] by simp
  with civil_bounds(2) [OF a] civil_bounds(1) [OF b] show ?thesis by linarith
next
  case True
  then have "a mod 146097 < b mod 146097"
    using assms(1) int_div_mod_less_iff [of 146097 a b] by simp
  then have *: "nat (a mod 146097) < nat (b mod 146097)" by (simp add: zless_nat_eq_int_zless)
  obtain i r where i: "locate cycle_lens (nat (a mod 146097)) = (i, r)" by fastforce
  obtain j s where j: "locate cycle_lens (nat (b mod 146097)) = (j, s)" by fastforce
  obtain k e where k: "locate (month_lens (leap_index i)) r = (k, e)" by fastforce
  obtain l f where l: "locate (month_lens (leap_index j)) s = (l, f)" by fastforce
  from a b i j k l have eqs: "y = 2000 + 400 * (b div 146097) + int i" "m = Suc k" "d = Suc e"
    "y' = 2000 + 400 * (b div 146097) + int j" "m' = Suc l" "d' = Suc f"
    by (simp_all add: civil_def True)
  from locate_less [OF * i j] show ?thesis
  proof
    assume "i < j"
    then show ?thesis by (simp add: eqs)
  next
    assume ij: "i = j \<and> r < s"
    then have "k < l \<or> k = l \<and> e < f" using locate_less [OF _ k] l by blast
    with ij show ?thesis by (simp add: eqs)
  qed
qed

lemma clock_digits:
  fixes n :: nat
  shows "n < 86400 \<Longrightarrow> n div 3600 < 10 ^ 2" and "n mod 3600 div 60 < 10 ^ 2" and "n mod 60 < 10 ^ 2"
proof -
  show "n div 3600 < 10 ^ 2" if "n < 86400"
    using that by (simp add: div_less_iff_less_mult)
  have "n mod 3600 < 3600" by simp
  then have "n mod 3600 < 6000" by linarith
  then show "n mod 3600 div 60 < 10 ^ 2" by (simp add: div_less_iff_less_mult)
  have "n mod 60 < 60" by simp
  then show "n mod 60 < 10 ^ 2" by simp
qed

lemma dvd_60_3600: "(60::nat) dvd 3600"
  by presburger

section \<open>ISO texts\<close>

text \<open>\<open>datetime.isoformat()\<close> of an aware UTC datetime.\<close>

definition iso_frac :: "int \<Rightarrow> string" where
  "iso_frac us = (if us = 0 then ''+00:00'' else ''.'' @ pad 6 (nat us) @ ''+00:00'')"

definition iso_time :: "int \<Rightarrow> string" where
  "iso_time u =
     (let s = nat (u div second_us)
      in pad 2 (s div 3600) @ '':'' @ pad 2 (s mod 3600 div 60) @ '':'' @ pad 2 (s mod 60)
         @ iso_frac (u mod second_us))"

definition iso_date :: "int \<Rightarrow> string" where
  "iso_date n = (let (y, m, d) = civil n in pad 4 (nat y) @ ''-'' @ pad 2 m @ ''-'' @ pad 2 d)"

definition isoformat :: "instant \<Rightarrow> string" where
  "isoformat t = iso_date (t div day_us) @ ''T'' @ iso_time (t mod day_us)"

text \<open>\<open>now.strftime("%Y%m%dT%H%M%SZ")\<close>.\<close>

definition stamp :: "instant \<Rightarrow> string" where
  "stamp t =
     (let (y, m, d) = civil (t div day_us); s = nat (t mod day_us div second_us)
      in pad 4 (nat y) @ pad 2 m @ pad 2 d @ ''T''
         @ pad 2 (s div 3600) @ pad 2 (s mod 3600 div 60) @ pad 2 (s mod 60) @ ''Z'')"

text \<open>The instants whose year has four digits (from year 400 to year 9999).\<close>

definition in_calendar :: "instant \<Rightarrow> bool" where
  "in_calendar t \<longleftrightarrow> - (4 * 146097 * day_us) \<le> t \<and> t < 20 * 146097 * day_us"

lemma length_iso_date [simp]: "length (iso_date n) = 10"
  by (simp add: iso_date_def split: prod.split)

lemma iso_date_less:
  assumes "a < b" and "-4 * 146097 \<le> a" and "b < 20 * 146097"
  shows "iso_date a < iso_date b"
proof -
  obtain y m d where a: "civil a = (y, m, d)" using prod_cases3 by blast
  obtain y' m' d' where b: "civil b = (y', m', d')" using prod_cases3 by blast
  have "-4 \<le> a div 146097" "b div 146097 \<le> 19" using assms(2,3) by simp_all
  with civil_bounds [OF a] civil_bounds [OF b] assms(1)
  have yb: "0 \<le> y" "0 \<le> y'" "y' < 10000" and bm: "m < 100" "m' < 100" "d < 100" "d' < 100"
    by linarith+
  from civil_less [OF assms(1) a b] have "y \<le> y'" by auto
  with yb have "nat y < 10 ^ 4" "nat y' < 10 ^ 4" by simp_all
  moreover have "m < 10 ^ 2" "m' < 10 ^ 2" "d < 10 ^ 2" "d' < 10 ^ 2" using bm by simp_all
  ultimately show ?thesis
    using civil_less [OF assms(1) a b] yb
    by (auto simp: iso_date_def a b append_less_iff pad_less_iff pad_eq_iff simp del: power_numeral)
qed

lemma iso_frac_less:
  assumes "a < b" "0 \<le> a" "b < 1000000"
  shows "iso_frac a < iso_frac b"
proof -
  have "nat a < 10 ^ 6" "nat b < 10 ^ 6" using assms by simp_all
  then show ?thesis using assms
    by (auto simp: iso_frac_def append_less_iff pad_less_iff less_char_def)
qed

lemma iso_time_less:
  assumes "a < b" "0 \<le> a" "b < day_us"
  shows "iso_time a < iso_time b"
proof -
  let ?s = "nat (a div second_us)" and ?t = "nat (b div second_us)"
  have s: "?s < 86400" "?t < 86400" using assms by (simp_all add: second_us_def day_us_def nat_less_iff)
  note h = clock_digits(1) [OF s(1)] clock_digits(1) [OF s(2)] clock_digits(2) [of ?s] clock_digits(2) [of ?t]
    clock_digits(3) [of ?s] clock_digits(3) [of ?t]
  have us: "0 \<le> a mod second_us" "b mod second_us < 1000000" by (simp_all add: second_us_def)
  have "0 \<le> a div second_us" using assms(2) by (simp add: second_us_def)
  then have "?s < ?t \<or> ?s = ?t \<and> a mod second_us < b mod second_us"
    using assms(1) int_div_mod_less_iff [of second_us a b] by (auto simp: second_us_def)
  moreover have "(?s < ?t) = (?s div 3600 < ?t div 3600 \<or> ?s div 3600 = ?t div 3600 \<and>
      (?s mod 3600 div 60 < ?t mod 3600 div 60 \<or> ?s mod 3600 div 60 = ?t mod 3600 div 60 \<and>
        ?s mod 60 < ?t mod 60))"
    using div_mod_less_iff [of ?s ?t 3600] div_mod_less_iff [of "?s mod 3600" "?t mod 3600" 60]
    by (simp only: mod_mod_cancel [of 60 3600 "?s"] mod_mod_cancel [of 60 3600 "?t"] dvd_60_3600)
  ultimately have lex: "?s div 3600 < ?t div 3600 \<or> ?s div 3600 = ?t div 3600 \<and>
      (?s mod 3600 div 60 < ?t mod 3600 div 60 \<or> ?s mod 3600 div 60 = ?t mod 3600 div 60 \<and>
        (?s mod 60 < ?t mod 60 \<or> ?s mod 60 = ?t mod 60 \<and> a mod second_us < b mod second_us))"
    by metis
  show ?thesis
    unfolding iso_time_def Let_def
    using lex iso_frac_less [OF _ us]
    by (simp add: append_less_iff pad_less_iff [OF h(1,2)] pad_less_iff [OF h(3,4)]
        pad_less_iff [OF h(5,6)] pad_eq_iff [OF h(1,2)] pad_eq_iff [OF h(3,4)] pad_eq_iff [OF h(5,6)]
        del: pad.simps power_numeral) metis
qed

lemma isoformat_less:
  assumes "t < u" "in_calendar t" "in_calendar u"
  shows "isoformat t < isoformat u"
proof -
  have d: "0 < day_us" by (simp add: day_us_def)
  have lo: "-4 * 146097 \<le> t div day_us" and hi: "u div day_us < 20 * 146097"
    using assms by (simp_all add: in_calendar_def day_us_def)
  have "t div day_us < u div day_us \<or> t div day_us = u div day_us \<and> t mod day_us < u mod day_us"
    using assms(1) int_div_mod_less_iff [OF d, of t u] by simp
  moreover have "0 \<le> t mod day_us" "u mod day_us < day_us" using d by simp_all
  ultimately show ?thesis
    using iso_date_less [OF _ lo hi] iso_time_less
    by (auto simp: isoformat_def append_less_iff)
qed

lemma isoformat_less_iff:
  "in_calendar t \<Longrightarrow> in_calendar u \<Longrightarrow> (isoformat t < isoformat u) = (t < u)"
  by (metis isoformat_less less_asym linorder_neqE)

lemma isoformat_le_iff:
  "in_calendar t \<Longrightarrow> in_calendar u \<Longrightarrow> (isoformat t \<le> isoformat u) = (t \<le> u)"
  by (metis isoformat_less_iff linorder_not_less)

lemma isoformat_eq_iff:
  "in_calendar t \<Longrightarrow> in_calendar u \<Longrightarrow> (isoformat t = isoformat u) = (t = u)"
  by (metis isoformat_less less_irrefl linorder_neqE)

lemma isoformat_max:
  "in_calendar t \<Longrightarrow> in_calendar u \<Longrightarrow> max (isoformat t) (isoformat u) = isoformat (max t u)"
  by (auto simp: max_def isoformat_le_iff)

end
