(* ===== verification/Json.thy ===== *)
theory Json
  imports Prelude
begin

text \<open>
  JSON values as the code builds them (dictionaries as association lists with distinct keys), the
  text \<open>json.dumps(value, sort_keys=True, separators=(",", ":"))\<close> with its ASCII escapes, and a
  decoder of JSON strings that gives back the text and what follows it. The decoder makes the
  canonical audit payload unambiguous: two records with the same text are the same record.
\<close>

datatype json =
    JNull
  | JBool bool
  | JInt int
  | JFloat string
  | JStr string
  | JList "json list"
  | JObj "(string \<times> json) list"

text \<open>\<open>value.get(key)\<close> on an object; \<open>None\<close> for a missing key or another kind of value.\<close>

fun jget :: "string \<Rightarrow> json \<Rightarrow> json option" where
  "jget k (JObj kvs) = map_of kvs k"
| "jget k _ = None"

text \<open>\<open>dict(value)[key] = v\<close>.\<close>

fun jset :: "string \<Rightarrow> json \<Rightarrow> (string \<times> json) list \<Rightarrow> (string \<times> json) list" where
  "jset k v [] = [(k, v)]"
| "jset k v ((k', v') # kvs) = (if k = k' then (k, v) # kvs else (k', v') # jset k v kvs)"

lemma map_of_jset [simp]: "map_of (jset k v kvs) = (map_of kvs)(k \<mapsto> v)"
  by (induction kvs) auto

text \<open>A float is kept as the text of its literal. Python truth of a JSON value:\<close>

definition float_zero :: "string \<Rightarrow> bool" where
  "float_zero t = list_all (\<lambda>c. List.member ''0.-'' c) (takeWhile (\<lambda>c. c \<noteq> CHR ''e'' \<and> c \<noteq> CHR ''E'') t)"

fun jtruthy :: "json \<Rightarrow> bool" where
  "jtruthy JNull = False"
| "jtruthy (JBool b) = b"
| "jtruthy (JInt i) = (i \<noteq> 0)"
| "jtruthy (JFloat t) = (\<not> float_zero t)"
| "jtruthy (JStr s) = (s \<noteq> [])"
| "jtruthy (JList xs) = (xs \<noteq> [])"
| "jtruthy (JObj kvs) = (kvs \<noteq> [])"

section \<open>Strings\<close>

definition hex_digit :: "nat \<Rightarrow> char" where
  "hex_digit n = (if n < 10 then char_of (48 + n) else char_of (87 + n))"

definition hex_val :: "char \<Rightarrow> nat" where
  "hex_val c = (let n = of_char c in if n < (58::nat) then n - 48 else n - 87)"

lemma hex_val_hex_digit [simp]: "n < 16 \<Longrightarrow> hex_val (hex_digit n) = n"
  by (simp add: hex_val_def hex_digit_def Let_def)

text \<open>The escapes of \<open>json.encoder.py_encode_basestring_ascii\<close>: the table \<open>ESCAPE_DCT\<close>, and
  \<open>\u00xx\<close> for every other character outside \<open>' '..'~'\<close>.\<close>

definition escape_dct :: "(char \<times> char) list" where
  "escape_dct =
     [(CHR 0x5C, CHR 0x5C), (CHR 0x22, CHR 0x22), (CHR 0x08, CHR ''b''), (CHR 0x0C, CHR ''f''),
      (CHR 0x0A, CHR ''n''), (CHR 0x0D, CHR ''r''), (CHR 0x09, CHR ''t'')]"

definition esc :: "char \<Rightarrow> string" where
  "esc c =
     (case map_of escape_dct c of
        Some e \<Rightarrow> [CHR 0x5C, e]
      | None \<Rightarrow>
          if CHR 0x20 \<le> c \<and> c \<le> CHR 0x7E then [c]
          else [CHR 0x5C, CHR ''u'', CHR ''0'', CHR ''0'',
                hex_digit (of_char c div 16), hex_digit (of_char c mod 16)])"

definition dumps_str :: "string \<Rightarrow> string" where
  "dumps_str s = CHR 0x22 # concat (map esc s) @ [CHR 0x22]"

text \<open>Reading one escaped character.\<close>

definition unescape_dct :: "(char \<times> char) list" where
  "unescape_dct = map (\<lambda>(c, e). (e, c)) escape_dct"

fun unesc :: "string \<Rightarrow> (char \<times> string) option" where
  "unesc [] = None"
| "unesc (c # r) =
     (if c \<noteq> CHR 0x5C then Some (c, r)
      else case r of
        [] \<Rightarrow> None
      | e # r' \<Rightarrow>
          if e \<noteq> CHR ''u'' then map_option (\<lambda>d. (d, r')) (map_of unescape_dct e)
          else (case r' of
            _ # _ # h # l # r'' \<Rightarrow> Some (char_of (16 * hex_val h + hex_val l), r'')
          | _ \<Rightarrow> None))"

lemma escape_dct_inverse:
  "map_of escape_dct c = Some e \<Longrightarrow> map_of unescape_dct e = Some c \<and> e \<noteq> CHR ''u''"
  by (auto simp: escape_dct_def unescape_dct_def split: if_splits)

lemma escape_dct_None: "map_of escape_dct c = None \<Longrightarrow> c \<noteq> CHR 0x5C \<and> c \<noteq> CHR 0x22"
  by (auto simp: escape_dct_def)

lemma hex_digits_char:
  "char_of (16 * hex_val (hex_digit (of_char c div 16)) + hex_val (hex_digit (of_char c mod (16::nat)))) = c"
proof -
  have "of_char c div 16 < (16::nat)" by (simp add: div_less_iff_less_mult)
  then show ?thesis by simp
qed

lemma unesc_esc: "unesc (esc c @ r) = Some (c, r)"
proof (cases "map_of escape_dct c")
  case None
  then show ?thesis using escape_dct_None [OF None] hex_digits_char [of c] by (simp add: esc_def)
next
  case (Some e)
  then show ?thesis using escape_dct_inverse [OF Some] by (simp add: esc_def)
qed

lemma esc_hd: "\<exists>e r. esc c = e # r \<and> e \<noteq> CHR 0x22"
proof (cases "map_of escape_dct c")
  case None
  then show ?thesis using escape_dct_None [OF None] by (simp add: esc_def)
next
  case (Some e)
  then show ?thesis by (simp add: esc_def)
qed

lemma esc_append_cancel: "esc c @ r = esc d @ s \<Longrightarrow> c = d \<and> r = s"
  by (metis unesc_esc option.inject prod.inject)

lemma escs_cancel:
  "concat (map esc s) @ CHR 0x22 # r = concat (map esc t) @ CHR 0x22 # q \<Longrightarrow> s = t \<and> r = q"
proof (induction s arbitrary: t)
  case Nil
  show ?case
  proof (cases t)
    case (Cons d t')
    with Nil esc_hd [of d] show ?thesis by auto
  qed (use Nil in auto)
next
  case (Cons c s)
  show ?case
  proof (cases t)
    case Nil
    with Cons.prems esc_hd [of c] show ?thesis by auto
  next
    case (Cons d t')
    with Cons.prems
    have "esc c @ (concat (map esc s) @ CHR 0x22 # r) = esc d @ (concat (map esc t') @ CHR 0x22 # q)"
      by simp
    from esc_append_cancel [OF this] Cons.IH [of t'] \<open>t = d # t'\<close> show ?thesis by simp
  qed
qed

lemma dumps_str_cancel [simp]: "dumps_str s @ r = dumps_str t @ q \<longleftrightarrow> s = t \<and> r = q"
  using escs_cancel [of s r t q] by (auto simp: dumps_str_def)

lemma dumps_str_eq_iff [simp]: "dumps_str s = dumps_str t \<longleftrightarrow> s = t"
  using dumps_str_cancel [of s "[]" t "[]"] by simp

section \<open>Canonical text\<close>

text \<open>\<open>sort_keys=True\<close>; keys are distinct, so the sort compares keys only.\<close>

fun dumps :: "json \<Rightarrow> string" where
  "dumps JNull = ''null''"
| "dumps (JBool b) = (if b then ''true'' else ''false'')"
| "dumps (JInt i) = show_int i"
| "dumps (JFloat t) = t"
| "dumps (JStr s) = dumps_str s"
| "dumps (JList xs) = ''['' @ join '','' (map dumps xs) @ '']''"
| "dumps (JObj kvs) = ''{'' @ join '','' (map (\<lambda>(k, t). dumps_str k @ '':'' @ t)
      (sort_key fst (map (\<lambda>(k, v). (k, dumps v)) kvs))) @ ''}''"

text \<open>
  The other forms of \<open>json.dumps\<close> that the code uses: without \<open>sort_keys\<close>, with the item and key separators as
  arguments; and with \<open>indent=2\<close>, with or without \<open>sort_keys\<close>.
\<close>

fun dumps_with :: "string \<Rightarrow> string \<Rightarrow> json \<Rightarrow> string" where
  "dumps_with item key JNull = ''null''"
| "dumps_with item key (JBool b) = (if b then ''true'' else ''false'')"
| "dumps_with item key (JInt i) = show_int i"
| "dumps_with item key (JFloat t) = t"
| "dumps_with item key (JStr s) = dumps_str s"
| "dumps_with item key (JList xs) = ''['' @ join item (map (dumps_with item key) xs) @ '']''"
| "dumps_with item key (JObj kvs) =
     ''{'' @ join item (map (\<lambda>(k, v). dumps_str k @ key @ dumps_with item key v) kvs) @ ''}''"

definition dumps_compact :: "json \<Rightarrow> string" where
  "dumps_compact = dumps_with '','' '':''"

definition dumps_plain :: "json \<Rightarrow> string" where
  "dumps_plain = dumps_with '', '' '': ''"

definition new_line :: "nat \<Rightarrow> string" where
  "new_line n = CHR 0x0A # replicate n (CHR '' '')"

fun dumps_indent :: "bool \<Rightarrow> nat \<Rightarrow> json \<Rightarrow> string" where
  "dumps_indent sorts n (JList xs) =
     (if xs = [] then ''[]''
      else ''['' @ new_line (n + 2) @ join ('','' @ new_line (n + 2)) (map (dumps_indent sorts (n + 2)) xs) @ new_line n @ '']'')"
| "dumps_indent sorts n (JObj kvs) =
     (if kvs = [] then ''{}''
      else ''{'' @ new_line (n + 2) @ join ('','' @ new_line (n + 2)) (map (\<lambda>(k, t). dumps_str k @ '': '' @ t)
        ((if sorts then sort_key fst else id) (map (\<lambda>(k, v). (k, dumps_indent sorts (n + 2) v)) kvs))) @ new_line n @ ''}'')"
| "dumps_indent sorts n v = dumps v"

end
