(* ===== verification/State_Db.thy ===== *)
theory State_Db
  imports Tables Clock Json
begin

text \<open>
  The state database of \<open>state.py\<close>: one record per table with the columns of \<open>SCHEMA\<close>
  (a nullable column is an \<open>option\<close>; a column that holds JSON text the code only reads back
  through \<open>json.loads\<close> is the value that call gives, \<open>None\<close> for text it rejects), the
  database as the record of its tables in rowid order, and the clock: \<open>clock db n\<close> is what the
  \<open>n\<close>-th call of \<open>datetime.now(timezone.utc)\<close> returns, and \<open>reads db\<close> counts the calls
  made.
\<close>

section \<open>Rows\<close>

record job =
  j_id :: nat
  j_started_at :: string
  j_finished_at :: "string option"
  j_platform :: string
  j_vm_id :: string
  j_vm_name :: string
  j_status :: string
  j_snapshot_id :: "string option"
  j_error :: "string option"

record point =
  p_snapshot_id :: string
  p_created_at :: string
  p_platform :: string
  p_platform_type :: string
  p_vm_id :: string
  p_vm_name :: string
  p_power_state :: string
  p_source_path :: string
  p_backup_bytes :: int
  p_data_added :: int
  p_file_count :: int
  p_manifest_sha256 :: "string option"
  p_immutable_until :: string
  p_suspicious :: bool
  p_suspicious_reason :: "string option"
  p_verified :: bool
  p_verified_at :: "string option"
  p_metadata :: "json option"
  p_expired :: bool
  p_expired_at :: "string option"

record copy =
  c_snapshot_id :: string
  c_target_name :: string
  c_backend :: string
  c_provider :: "string option"
  c_repository :: string
  c_status :: string
  c_copied_at :: "string option"
  c_verified :: bool
  c_verified_at :: "string option"
  c_immutable_until :: "string option"
  c_object_lock :: "json option"
  c_error :: "string option"

record restore_request =
  q_id :: nat
  q_created_at :: string
  q_requester :: string
  q_snapshot_id :: string
  q_source_platform :: string
  q_vm_id :: string
  q_vm_name :: string
  q_target_platform :: string
  q_target_name :: string
  q_options :: "(string \<times> json) list"
  q_status :: string
  q_approved_by :: "string option"
  q_approved_at :: "string option"
  q_started_at :: "string option"
  q_finished_at :: "string option"
  q_result :: "json option"
  q_error :: "string option"

record dr_run =
  d_id :: nat
  d_started_at :: string
  d_finished_at :: "string option"
  d_direction :: string
  d_source_site :: string
  d_target_site :: string
  d_status :: string
  d_details :: "json option"
  d_error :: "string option"

record dr_workload =
  w_id :: nat
  w_run_id :: nat
  w_workload_name :: string
  w_snapshot_id :: "string option"
  w_source_platform :: string
  w_target_platform :: string
  w_target_name :: "string option"
  w_status :: string
  w_result :: "json option"
  w_error :: "string option"

record health_row =
  h_name :: string
  h_checked_at :: string
  h_healthy :: bool
  h_consecutive_failures :: nat
  h_detail :: "json option"

record audit_event =
  e_id :: nat
  e_created_at :: string
  e_actor :: string
  e_action :: string
  e_object_type :: string
  e_object_id :: string
  e_details_json :: string
  e_prev_hash :: "string option"
  e_event_hash :: "string option"

section \<open>The database\<close>

record db =
  jobs :: "job list"
  recovery_points :: "point list"
  recovery_copies :: "copy list"
  restore_requests :: "restore_request list"
  dr_runs :: "dr_run list"
  dr_workloads :: "dr_workload list"
  dr_health :: "health_row list"
  audit_events :: "audit_event list"
  clock :: "nat \<Rightarrow> instant"
  reads :: nat

text \<open>\<open>StateDB.__init__\<close> on a path with no database: the tables of \<open>SCHEMA\<close>, empty.\<close>

definition create_schema :: "(nat \<Rightarrow> instant) \<Rightarrow> db" where
  "create_schema clk =
     \<lparr>jobs = [], recovery_points = [], recovery_copies = [], restore_requests = [], dr_runs = [],
      dr_workloads = [], dr_health = [], audit_events = [], clock = clk, reads = 0\<rparr>"

text \<open>\<open>datetime.now(timezone.utc)\<close> and \<open>utcnow()\<close>.\<close>

definition now_utc :: "db \<Rightarrow> instant \<times> db" where
  "now_utc s = (clock s (reads s), s\<lparr>reads := Suc (reads s)\<rparr>)"

definition utcnow :: "db \<Rightarrow> string \<times> db" where
  "utcnow s = (let (t, s') = now_utc s in (isoformat t, s'))"

lemma utcnow_eq: "utcnow s = (isoformat (clock s (reads s)), s\<lparr>reads := Suc (reads s)\<rparr>)"
  by (simp add: utcnow_def now_utc_def)

end
