(* ===== verification/Sha256.thy ===== *)
theory Sha256
  imports Json "HOL-Library.Word"
begin

text \<open>
  The digest functions of the standard library that the code calls: \<open>hashlib.sha256(...)\<close> (FIPS
  180-4) on byte strings, its \<open>hexdigest()\<close>, and \<open>hmac.new(key, msg, hashlib.sha256)\<close> (RFC
  2104). Bytes are \<^typ>\<open>8 word\<close>, the state words \<^typ>\<open>32 word\<close> with their wrap-around
  addition. Nothing is assumed of the digest: where a result depends on its strength, the theorem
  names the collision.
\<close>

unbundle bit_operations_syntax

type_synonym byte = "8 word"
type_synonym u32 = "32 word"

definition encode :: "string \<Rightarrow> byte list" where
  "encode s = map (\<lambda>c. word_of_nat (of_char c)) s"

lemma encode_eq_iff [simp]: "encode s = encode t \<longleftrightarrow> s = t"
proof
  assume "encode s = encode t"
  moreover have "inj (\<lambda>c. word_of_nat (of_char c) :: byte)"
    by (rule injI) (simp add: word_of_nat_eq_iff take_bit_eq_mod)
  ultimately show "s = t" by (simp add: encode_def inj_map_eq_map)
qed simp

section \<open>The compression function\<close>

text \<open>The first 32 bits of the fractional parts of the cube roots of the first 64 primes.\<close>

definition sha_k :: "u32 list" where
  "sha_k =
    [1116352408, 1899447441, 3049323471, 3921009573, 961987163, 1508970993, 2453635748, 2870763221,
     3624381080, 310598401, 607225278, 1426881987, 1925078388, 2162078206, 2614888103, 3248222580,
     3835390401, 4022224774, 264347078, 604807628, 770255983, 1249150122, 1555081692, 1996064986,
     2554220882, 2821834349, 2952996808, 3210313671, 3336571891, 3584528711, 113926993, 338241895,
     666307205, 773529912, 1294757372, 1396182291, 1695183700, 1986661051, 2177026350, 2456956037,
     2730485921, 2820302411, 3259730800, 3345764771, 3516065817, 3600352804, 4094571909, 275423344,
     430227734, 506948616, 659060556, 883997877, 958139571, 1322822218, 1537002063, 1747873779,
     1955562222, 2024104815, 2227730452, 2361852424, 2428436474, 2756734187, 3204031479, 3329325298]"

record sha_state =
  h_a :: u32
  h_b :: u32
  h_c :: u32
  h_d :: u32
  h_e :: u32
  h_f :: u32
  h_g :: u32
  h_h :: u32

definition sha_init :: sha_state where
  "sha_init = \<lparr>h_a = 1779033703, h_b = 3144134277, h_c = 1013904242, h_d = 2773480762,
     h_e = 1359893119, h_f = 2600822924, h_g = 528734635, h_h = 1541459225\<rparr>"

definition big_sigma0 :: "u32 \<Rightarrow> u32" where
  "big_sigma0 x = word_rotr 2 x XOR word_rotr 13 x XOR word_rotr 22 x"

definition big_sigma1 :: "u32 \<Rightarrow> u32" where
  "big_sigma1 x = word_rotr 6 x XOR word_rotr 11 x XOR word_rotr 25 x"

definition small_sigma0 :: "u32 \<Rightarrow> u32" where
  "small_sigma0 x = word_rotr 7 x XOR word_rotr 18 x XOR drop_bit 3 x"

definition small_sigma1 :: "u32 \<Rightarrow> u32" where
  "small_sigma1 x = word_rotr 17 x XOR word_rotr 19 x XOR drop_bit 10 x"

text \<open>The message schedule, most recent word first.\<close>

fun sha_extend :: "nat \<Rightarrow> u32 list \<Rightarrow> u32 list" where
  "sha_extend 0 ws = ws"
| "sha_extend (Suc n) ws =
     sha_extend n ((small_sigma1 (ws ! 1) + ws ! 6 + small_sigma0 (ws ! 14) + ws ! 15) # ws)"

fun be_word :: "byte list \<Rightarrow> u32" where
  "be_word [a, b, c, d] =
     word_of_nat (((unat a * 256 + unat b) * 256 + unat c) * 256 + unat d)"
| "be_word _ = 0"

fun chunks :: "nat \<Rightarrow> nat \<Rightarrow> 'a list \<Rightarrow> 'a list list" where
  "chunks 0 n xs = []"
| "chunks (Suc k) n xs = take n xs # chunks k n (drop n xs)"

definition sha_round :: "u32 \<times> u32 \<Rightarrow> sha_state \<Rightarrow> sha_state" where
  "sha_round kw s =
     (let t1 = h_h s + big_sigma1 (h_e s) + ((h_e s AND h_f s) XOR (NOT (h_e s) AND h_g s)) + fst kw + snd kw;
          t2 = big_sigma0 (h_a s) + ((h_a s AND h_b s) XOR (h_a s AND h_c s) XOR (h_b s AND h_c s))
      in \<lparr>h_a = t1 + t2, h_b = h_a s, h_c = h_b s, h_d = h_c s, h_e = h_d s + t1, h_f = h_e s, h_g = h_f s, h_h = h_g s\<rparr>)"

definition sha_block :: "byte list \<Rightarrow> sha_state \<Rightarrow> sha_state" where
  "sha_block blk s =
     (let ws = rev (sha_extend 48 (rev (map be_word (chunks 16 4 blk))));
          t = fold sha_round (zip sha_k ws) s
      in \<lparr>h_a = h_a s + h_a t, h_b = h_b s + h_b t, h_c = h_c s + h_c t, h_d = h_d s + h_d t,
          h_e = h_e s + h_e t, h_f = h_f s + h_f t, h_g = h_g s + h_g t, h_h = h_h s + h_h t\<rparr>)"

fun be_bytes :: "nat \<Rightarrow> nat \<Rightarrow> byte list" where
  "be_bytes 0 n = []"
| "be_bytes (Suc w) n = word_of_nat (n div 256 ^ w) # be_bytes w n"

definition sha_pad :: "byte list \<Rightarrow> byte list" where
  "sha_pad m = m @ [0x80] @ replicate ((119 - length m mod 64) mod 64) 0 @ be_bytes 8 (8 * length m)"

definition sha256 :: "byte list \<Rightarrow> byte list" where
  "sha256 m =
     (let p = sha_pad m; s = fold sha_block (chunks (length p div 64) 64 p) sha_init
      in concat (map (\<lambda>w. be_bytes 4 (unat w)) [h_a s, h_b s, h_c s, h_d s, h_e s, h_f s, h_g s, h_h s]))"

lemma length_be_bytes [simp]: "length (be_bytes w n) = w"
  by (induction w) auto

lemma length_sha256 [simp]: "length (sha256 m) = 32"
  by (simp add: sha256_def Let_def)

section \<open>Hexadecimal text and HMAC\<close>

definition hexdigest :: "byte list \<Rightarrow> string" where
  "hexdigest bs = concat (map (\<lambda>b. [hex_digit (unat b div 16), hex_digit (unat b mod 16)]) bs)"

definition sha256_hex :: "string \<Rightarrow> string" where
  "sha256_hex s = hexdigest (sha256 (encode s))"

lemma length_sha256_hex [simp]: "length (sha256_hex s) = 64"
proof -
  have "length (hexdigest bs) = 2 * length bs" for bs
    by (induction bs) (auto simp: hexdigest_def)
  then show ?thesis by (simp add: sha256_hex_def)
qed

lemma sha256_hex_nonempty [simp]: "sha256_hex s \<noteq> []"
  by (metis length_sha256_hex list.size(3) zero_neq_numeral)

definition hmac_sha256 :: "byte list \<Rightarrow> byte list \<Rightarrow> byte list" where
  "hmac_sha256 key m =
     (let k0 = if length key > 64 then sha256 key else key;
          k = k0 @ replicate (64 - length k0) 0
      in sha256 (map (\<lambda>b. b XOR 0x5C) k @ sha256 (map (\<lambda>b. b XOR 0x36) k @ m)))"

lemma length_hmac_sha256 [simp]: "length (hmac_sha256 k m) = 32"
  by (simp add: hmac_sha256_def Let_def)

end
