(* ===== verification/Audit_Log.thy ===== *)
theory Audit_Log
  imports State_Db Sha256
begin

text \<open>
  The hash-chained audit log of \<open>state.py\<close>: \<open>_audit_hash\<close>, \<open>audit\<close>,
  \<open>verify_audit_chain\<close>, \<open>list_audit\<close> and the start-up migration
  \<open>_backfill_audit_hashes\<close>. The lemmas show that the canonical payload is injective, that every
  logged event extends a valid chain to a valid chain, that the migration makes an unhashed log
  valid and keeps existing hashes, and that two valid chains with the same last hash are the same
  log unless two payloads collide under SHA-256.
\<close>

section \<open>The canonical payload\<close>

definition audit_payload ::
  "string \<Rightarrow> string \<Rightarrow> string \<Rightarrow> string \<Rightarrow> string \<Rightarrow> string \<Rightarrow> string \<Rightarrow> string" where
  "audit_payload created_at actor action object_type object_id details_json prev_hash =
     dumps (JObj
       [(''created_at'', JStr created_at), (''actor'', JStr actor), (''action'', JStr action),
        (''object_type'', JStr object_type), (''object_id'', JStr object_id),
        (''details_json'', JStr details_json), (''prev_hash'', JStr prev_hash)])"

definition audit_hash ::
  "string \<Rightarrow> string \<Rightarrow> string \<Rightarrow> string \<Rightarrow> string \<Rightarrow> string \<Rightarrow> string \<Rightarrow> string" where
  "audit_hash created_at actor action object_type object_id details_json prev_hash =
     sha256_hex (audit_payload created_at actor action object_type object_id details_json prev_hash)"

text \<open>The keys in sorted order.\<close>

lemma audit_payload_eq:
  "audit_payload ca ac an ot oi dj ph =
     ''{'' @ dumps_str ''action'' @ '':'' @ dumps_str an @ '',''
     @ dumps_str ''actor'' @ '':'' @ dumps_str ac @ '',''
     @ dumps_str ''created_at'' @ '':'' @ dumps_str ca @ '',''
     @ dumps_str ''details_json'' @ '':'' @ dumps_str dj @ '',''
     @ dumps_str ''object_id'' @ '':'' @ dumps_str oi @ '',''
     @ dumps_str ''object_type'' @ '':'' @ dumps_str ot @ '',''
     @ dumps_str ''prev_hash'' @ '':'' @ dumps_str ph @ ''}''"
  by (simp add: audit_payload_def sort_key_def)

lemma audit_payload_inject:
  "audit_payload ca ac an ot oi dj ph = audit_payload ca' ac' an' ot' oi' dj' ph' \<longleftrightarrow>
     ca = ca' \<and> ac = ac' \<and> an = an' \<and> ot = ot' \<and> oi = oi' \<and> dj = dj' \<and> ph = ph'"
  by (auto simp: audit_payload_eq)

section \<open>Appending and verifying\<close>

definition genesis :: string where "genesis = ''GENESIS''"

text \<open>\<open>str(x) if x else d\<close> on a nullable text column.\<close>

definition text_or :: "string option \<Rightarrow> string \<Rightarrow> string" where
  "text_or x d = (case x of None \<Rightarrow> d | Some s \<Rightarrow> if s = [] then d else s)"

lemma text_or_Some [simp]: "s \<noteq> [] \<Longrightarrow> text_or (Some s) d = s"
  by (simp add: text_or_def)

definition row_hash :: "audit_event \<Rightarrow> string \<Rightarrow> string" where
  "row_hash e prev =
     audit_hash (e_created_at e) (e_actor e) (e_action e) (e_object_type e) (e_object_id e)
       (e_details_json e) prev"

lemma row_hash_nonempty [simp]: "row_hash e prev \<noteq> []"
  by (simp add: row_hash_def audit_hash_def)

definition audit :: "string \<Rightarrow> string \<Rightarrow> string \<Rightarrow> string \<Rightarrow> json \<Rightarrow> db \<Rightarrow> db" where
  "audit actor action object_type object_id details s =
     (let (created_at, s) = utcnow s;
          details_json = dumps details;
          prev_hash = (case audit_events s of [] \<Rightarrow> genesis
                       | _ # _ \<Rightarrow> text_or (e_event_hash (last (audit_events s))) genesis);
          event_hash = audit_hash created_at actor action object_type object_id details_json prev_hash;
          (_, rows) = insert_row e_id (\<lambda>i.
            \<lparr>e_id = i, e_created_at = created_at, e_actor = actor, e_action = action,
             e_object_type = object_type, e_object_id = object_id, e_details_json = details_json,
             e_prev_hash = Some prev_hash, e_event_hash = Some event_hash\<rparr>) (audit_events s)
      in s\<lparr>audit_events := rows\<rparr>)"

fun chain_errors :: "string \<Rightarrow> audit_event list \<Rightarrow> string list" where
  "chain_errors prev [] = []"
| "chain_errors prev (e # es) =
     (let expected = row_hash e prev
      in (if text_or (e_prev_hash e) [] \<noteq> prev
          then [''audit event '' @ show_nat (e_id e) @ '' previous hash mismatch''] else [])
       @ (if text_or (e_event_hash e) [] \<noteq> expected
          then [''audit event '' @ show_nat (e_id e) @ '' hash mismatch''] else [])
       @ chain_errors (text_or (e_event_hash e) expected) es)"

definition verify_audit_chain :: "db \<Rightarrow> bool \<times> string list" where
  "verify_audit_chain s = (let errors = chain_errors genesis (audit_events s) in (errors = [], errors))"

definition list_audit :: "nat \<Rightarrow> db \<Rightarrow> audit_event list" where
  "list_audit limit s = take limit (rev (audit_events s))"

fun backfill_rows :: "string \<Rightarrow> audit_event list \<Rightarrow> audit_event list" where
  "backfill_rows prev [] = []"
| "backfill_rows prev (e # es) =
     (let expected = row_hash e prev
      in if text_or (e_event_hash e) [] = []
         then e\<lparr>e_prev_hash := Some prev, e_event_hash := Some expected\<rparr> # backfill_rows expected es
         else e # backfill_rows (text_or (e_event_hash e) []) es)"

definition backfill_audit_hashes :: "db \<Rightarrow> db" where
  "backfill_audit_hashes s = s\<lparr>audit_events := backfill_rows genesis (audit_events s)\<rparr>"

section \<open>Valid chains\<close>

text \<open>The abstract log: every event carries the hash of its predecessor and its own.\<close>

fun chained :: "string \<Rightarrow> audit_event list \<Rightarrow> bool" where
  "chained prev [] = True"
| "chained prev (e # es) \<longleftrightarrow>
     e_prev_hash e = Some prev \<and> e_event_hash e = Some (row_hash e prev) \<and>
     chained (row_hash e prev) es"

fun head_hash :: "string \<Rightarrow> audit_event list \<Rightarrow> string" where
  "head_hash prev [] = prev"
| "head_hash prev (e # es) = head_hash (row_hash e prev) es"

lemma text_or_eq_nonempty: "s \<noteq> [] \<Longrightarrow> text_or x [] = s \<longleftrightarrow> x = Some s"
  by (auto simp: text_or_def split: option.split)

lemma chain_errors_Nil_iff: "prev \<noteq> [] \<Longrightarrow> chain_errors prev es = [] \<longleftrightarrow> chained prev es"
  by (induction es arbitrary: prev) (auto simp: Let_def text_or_eq_nonempty)

lemma genesis_nonempty [simp]: "genesis \<noteq> []"
  by (simp add: genesis_def)

lemma verify_iff_chained: "fst (verify_audit_chain s) \<longleftrightarrow> chained genesis (audit_events s)"
  by (simp add: verify_audit_chain_def Let_def chain_errors_Nil_iff)

lemma chained_append: "chained prev (xs @ ys) \<longleftrightarrow> chained prev xs \<and> chained (head_hash prev xs) ys"
  by (induction xs arbitrary: prev) auto

lemma last_event_hash:
  "chained prev es \<Longrightarrow> es \<noteq> [] \<Longrightarrow> e_event_hash (last es) = Some (head_hash prev es)"
  by (induction es arbitrary: prev) auto

lemma head_hash_nonempty [simp]: "prev \<noteq> [] \<Longrightarrow> head_hash prev es \<noteq> []"
  by (induction es arbitrary: prev) auto

text \<open>What one call of \<open>audit\<close> appends.\<close>

definition next_prev :: "audit_event list \<Rightarrow> string" where
  "next_prev es = (if es = [] then genesis else text_or (e_event_hash (last es)) genesis)"

lemma audit_events_audit:
  "\<exists>e. audit_events (audit actor action ot oi d s) = audit_events s @ [e] \<and>
       e_id e = next_rowid e_id (audit_events s) \<and> e_actor e = actor \<and> e_action e = action \<and>
       e_object_type e = ot \<and> e_object_id e = oi \<and> e_details_json e = dumps d \<and>
       e_created_at e = isoformat (clock s (reads s)) \<and>
       e_prev_hash e = Some (next_prev (audit_events s)) \<and>
       e_event_hash e = Some (row_hash e (next_prev (audit_events s)))"
  by (auto simp: audit_def utcnow_eq insert_row_def Let_def next_prev_def row_hash_def
      split: list.splits)

lemma next_prev_chained: "chained genesis es \<Longrightarrow> next_prev es = head_hash genesis es"
  by (auto simp: next_prev_def last_event_hash)

lemma audit_frame [frame_simps]:
  "jobs (audit a b c d e s) = jobs s"
  "recovery_points (audit a b c d e s) = recovery_points s"
  "recovery_copies (audit a b c d e s) = recovery_copies s"
  "restore_requests (audit a b c d e s) = restore_requests s"
  "dr_runs (audit a b c d e s) = dr_runs s"
  "dr_workloads (audit a b c d e s) = dr_workloads s"
  "dr_health (audit a b c d e s) = dr_health s"
  "clock (audit a b c d e s) = clock s"
  "reads (audit a b c d e s) = Suc (reads s)"
  by (simp_all add: audit_def utcnow_eq insert_row_def Let_def)

lemma audit_chained:
  "chained genesis (audit_events s) \<Longrightarrow> chained genesis (audit_events (audit a b c d e s))"
  using audit_events_audit [of a b c d e s] by (auto simp: chained_append next_prev_chained)

section \<open>The contract of an append-only log\<close>

text \<open>
  What the components that write to the log rely on: an append adds one entry at the end and keeps
  the log intact. A \<open>log_step\<close> is any change of the database that only appends.
\<close>

locale event_log =
  fixes append :: "'e \<Rightarrow> 's \<Rightarrow> 's"
    and entries :: "'s \<Rightarrow> 'r list"
    and intact :: "'s \<Rightarrow> bool"
  assumes append_extends: "\<exists>r. entries (append e s) = entries s @ [r]"
    and append_intact: "intact s \<Longrightarrow> intact (append e s)"
begin

lemma appends_extend:
  "\<exists>rs. entries (fold append es s) = entries s @ rs \<and> length rs = length es"
proof (induction es arbitrary: s)
  case Nil
  then show ?case by simp
next
  case (Cons e es)
  obtain r where r: "entries (append e s) = entries s @ [r]" using append_extends by blast
  obtain rs where "entries (fold append es (append e s)) = entries (append e s) @ rs"
      "length rs = length es"
    using Cons.IH by blast
  with r show ?case by (intro exI [of _ "r # rs"]) simp
qed

lemma appends_intact: "intact s \<Longrightarrow> intact (fold append es s)"
  by (induction es arbitrary: s) (auto intro: append_intact)

lemma appends_keep: "take (length (entries s)) (entries (fold append es s)) = entries s"
  using appends_extend [of es s] by auto

end

type_synonym event = "string \<times> string \<times> string \<times> string \<times> json"

definition audit_one :: "event \<Rightarrow> db \<Rightarrow> db" where
  "audit_one ev s = (case ev of (a, b, c, d, e) \<Rightarrow> audit a b c d e s)"

interpretation al: event_log audit_one audit_events "\<lambda>s. fst (verify_audit_chain s)"
proof
  show "\<exists>r. audit_events (audit_one e s) = audit_events s @ [r]" for e s
    using audit_events_audit by (cases e) (fastforce simp: audit_one_def)
  show "fst (verify_audit_chain s) \<Longrightarrow> fst (verify_audit_chain (audit_one e s))" for e s
    by (cases e) (simp add: audit_one_def verify_iff_chained audit_chained)
qed

definition log_step :: "db \<Rightarrow> db \<Rightarrow> bool" where
  "log_step s t \<longleftrightarrow>
     (\<exists>es. audit_events t = audit_events s @ es) \<and>
     (fst (verify_audit_chain s) \<longrightarrow> fst (verify_audit_chain t))"

lemma log_step_refl: "audit_events t = audit_events s \<Longrightarrow> log_step s t"
  by (simp add: log_step_def verify_iff_chained)

lemma log_step_trans [trans]: "log_step s t \<Longrightarrow> log_step t u \<Longrightarrow> log_step s u"
  by (auto simp: log_step_def)

lemma log_step_audit: "log_step s (audit a b c d e s)"
  using al.append_extends [of "(a, b, c, d, e)" s] al.append_intact [of s "(a, b, c, d, e)"]
  by (auto simp: log_step_def audit_one_def)

lemma log_step_same: "audit_events t = audit_events s \<Longrightarrow> log_step r t = log_step r s"
  by (simp add: log_step_def verify_iff_chained)

lemma log_step_from_same: "audit_events t = audit_events s \<Longrightarrow> log_step t r = log_step s r"
  by (simp add: log_step_def verify_iff_chained)

lemma log_step_audit_same: "audit_events t = audit_events s \<Longrightarrow> log_step s (audit a b c d e t)"
  using log_step_audit [of t a b c d e] log_step_from_same by blast

lemma log_step_audit_after: "log_step r s \<Longrightarrow> log_step r (audit a b c d e s)"
  by (rule log_step_trans [OF _ log_step_audit])

lemma log_step_into: "log_step r s \<Longrightarrow> audit_events t = audit_events s \<Longrightarrow> log_step r t"
  using log_step_same by blast

lemmas log_steps = log_step_refl log_step_audit_same log_step_audit_after

section \<open>Tamper evidence\<close>

text \<open>The texts whose digests the chain stores, and an event without its row id.\<close>

fun chain_payloads :: "string \<Rightarrow> audit_event list \<Rightarrow> string list" where
  "chain_payloads prev [] = []"
| "chain_payloads prev (e # es) =
     audit_payload (e_created_at e) (e_actor e) (e_action e) (e_object_type e) (e_object_id e)
       (e_details_json e) prev # chain_payloads (row_hash e prev) es"

definition without_id :: "audit_event \<Rightarrow> audit_event" where
  "without_id e = e\<lparr>e_id := 0\<rparr>"

definition colliding :: "string list \<Rightarrow> string list \<Rightarrow> bool" where
  "colliding xs ys \<longleftrightarrow> (\<exists>x y. x \<in> set xs \<and> y \<in> set ys \<and> x \<noteq> y \<and> sha256_hex x = sha256_hex y)"

lemma chain_payloads_append:
  "chain_payloads prev (xs @ ys) = chain_payloads prev xs @ chain_payloads (head_hash prev xs) ys"
  by (induction xs arbitrary: prev) auto

lemma head_hash_snoc [simp]: "head_hash prev (es @ [e]) = row_hash e (head_hash prev es)"
  by (induction es arbitrary: prev) auto

lemma row_hash_not_genesis [simp]: "row_hash e prev \<noteq> genesis" "genesis \<noteq> row_hash e prev"
proof -
  have "length (row_hash e prev) = 64" "length genesis = 7"
    by (simp_all add: row_hash_def audit_hash_def genesis_def)
  then show "row_hash e prev \<noteq> genesis" "genesis \<noteq> row_hash e prev" by force+
qed

lemma colliding_appendL: "colliding xs ys \<Longrightarrow> colliding (xs @ us) (ys @ vs)"
  unfolding colliding_def by auto

lemma row_hash_eq:
  assumes "row_hash e p = row_hash f q" "chained p [e]" "chained q [f]"
    and "\<not> colliding (chain_payloads p [e]) (chain_payloads q [f])"
  shows "without_id e = without_id f \<and> p = q"
  using assms
  by (auto simp: colliding_def row_hash_def audit_hash_def audit_payload_inject without_id_def
      intro!: audit_event.equality)

lemma chain_determined:
  assumes "chained genesis xs" "chained genesis ys" "head_hash genesis xs = head_hash genesis ys"
    and "\<not> colliding (chain_payloads genesis xs) (chain_payloads genesis ys)"
  shows "map without_id xs = map without_id ys"
  using assms
proof (induction xs arbitrary: ys rule: rev_induct)
  case Nil
  then show ?case by (cases ys rule: rev_cases) auto
next
  case (snoc x xs)
  show ?case
  proof (cases ys rule: rev_cases)
    case Nil
    with snoc.prems show ?thesis by simp
  next
    case (snoc zs y)
    let ?p = "head_hash genesis xs" and ?q = "head_hash genesis zs"
    have "\<not> colliding (chain_payloads ?p [x]) (chain_payloads ?q [y])"
      using snoc.prems(4) unfolding \<open>ys = zs @ [y]\<close> chain_payloads_append colliding_def by auto
    then have "without_id x = without_id y" "?p = ?q"
      using row_hash_eq [of x ?p y ?q] snoc.prems(1-3) unfolding \<open>ys = zs @ [y]\<close>
      by (simp_all add: chained_append)
    moreover have "map without_id xs = map without_id zs"
      using snoc.IH [of zs] snoc.prems(1,2,4) \<open>?p = ?q\<close> unfolding \<open>ys = zs @ [y]\<close>
      by (auto simp: chained_append chain_payloads_append dest: colliding_appendL)
    ultimately show ?thesis using \<open>ys = zs @ [y]\<close> by simp
  qed
qed

lemma last_hash_head:
  assumes "chained genesis xs" "chained genesis ys"
    and "map e_event_hash (take 1 (rev xs)) = map e_event_hash (take 1 (rev ys))"
  shows "head_hash genesis xs = head_hash genesis ys"
  using assms
  by (cases xs rule: rev_cases; cases ys rule: rev_cases) (auto simp: chained_append)

section \<open>The migration\<close>

lemma backfill_chained: "chained prev es \<Longrightarrow> backfill_rows prev es = es"
  by (induction es arbitrary: prev) (auto simp: Let_def text_or_def)

lemma backfill_append:
  "chained prev xs \<Longrightarrow> backfill_rows prev (xs @ ys) = xs @ backfill_rows (head_hash prev xs) ys"
  by (induction xs arbitrary: prev) (auto simp: Let_def text_or_def)

lemma row_hash_update [simp]:
  "row_hash (e\<lparr>e_prev_hash := p, e_event_hash := h\<rparr>) prev = row_hash e prev"
  by (simp add: row_hash_def)

lemma backfill_unhashed:
  "list_all (\<lambda>e. text_or (e_event_hash e) [] = []) es \<Longrightarrow> chained prev (backfill_rows prev es)"
  by (induction es arbitrary: prev) (auto simp: Let_def)

lemma backfill_idem: "backfill_rows prev (backfill_rows prev es) = backfill_rows prev es"
  by (induction es arbitrary: prev) (auto simp: Let_def)

lemma backfill_keeps:
  "list_all2 (\<lambda>e e'. if text_or (e_event_hash e) [] = []
      then e'\<lparr>e_prev_hash := e_prev_hash e, e_event_hash := e_event_hash e\<rparr> = e else e' = e)
    es (backfill_rows prev es)"
  by (induction es arbitrary: prev) (auto simp: Let_def)

lemma backfill_other_columns:
  "map (\<lambda>e. e\<lparr>e_prev_hash := None, e_event_hash := None\<rparr>) (backfill_rows prev es) =
   map (\<lambda>e. e\<lparr>e_prev_hash := None, e_event_hash := None\<rparr>) es"
  by (induction es arbitrary: prev) (auto simp: Let_def)

section \<open>Properties\<close>

text \<open>
  Whatever sequence of events is logged, a log that \<open>verify_audit_chain\<close> accepts is still
  accepted afterwards, the earlier events are untouched, and one event is added per call.
\<close>

lemma audit_keeps_chain_valid:
  assumes "verify_audit_chain s = (True, [])"
  shows "verify_audit_chain (fold audit_one evs s) = (True, []) \<and>
    take (length (audit_events s)) (audit_events (fold audit_one evs s)) = audit_events s \<and>
    length (audit_events (fold audit_one evs s)) = length (audit_events s) + length evs"
proof -
  have ok: "verify_audit_chain t = (True, []) \<longleftrightarrow> fst (verify_audit_chain t)" for t
    by (auto simp: verify_audit_chain_def Let_def)
  obtain rs where "audit_events (fold audit_one evs s) = audit_events s @ rs" "length rs = length evs"
    using al.appends_extend by blast
  with assms show ?thesis by (simp add: ok al.appends_intact)
qed

text \<open>
  C28. Tamper evidence: if two databases both pass \<open>verify_audit_chain\<close> and report the same
  hash for the newest event (\<open>list_audit(1)\<close>), then their logs agree on every column but the
  row id, unless two of the texts hashed in the two chains collide under SHA-256. An edited,
  removed, inserted or reordered event therefore shows in the last hash.
\<close>

theorem audit_chain_tamper_evident:
  assumes "fst (verify_audit_chain s)" "fst (verify_audit_chain t)"
    and "map e_event_hash (list_audit 1 s) = map e_event_hash (list_audit 1 t)"
    and "\<not> colliding (chain_payloads genesis (audit_events s)) (chain_payloads genesis (audit_events t))"
  shows "map without_id (audit_events s) = map without_id (audit_events t)"
  using assms last_hash_head chain_determined by (metis verify_iff_chained list_audit_def)

text \<open>One logged event, and the same log with another row id.\<close>

lemma colliding_self_single [simp]: "\<not> colliding [x] [x]"
  by (simp add: colliding_def)

lemma chained_single_log:
  "chained genesis (audit_events (audit a b c d e (create_schema clk)))"
  "chain_payloads genesis (audit_events (audit a b c d e (create_schema clk))) =
     [audit_payload (isoformat (clk 0)) a b c d (dumps e) genesis]"
proof -
  show "chained genesis (audit_events (audit a b c d e (create_schema clk)))"
    by (rule audit_chained) (simp add: create_schema_def)
  show "chain_payloads genesis (audit_events (audit a b c d e (create_schema clk))) =
     [audit_payload (isoformat (clk 0)) a b c d (dumps e) genesis]"
    by (simp add: audit_def create_schema_def utcnow_eq insert_row_def Let_def)
qed

theorem audit_chain_tamper_evident_witness:
  "map without_id (audit_events (audit ''a'' ''b'' ''c'' ''d'' (JObj []) (create_schema (\<lambda>n. 5)))) =
   map without_id (audit_events (audit ''a'' ''b'' ''c'' ''d'' (JObj []) (create_schema (\<lambda>n. 5 + int n))))"
  by (rule audit_chain_tamper_evident)
    (simp_all add: verify_iff_chained chained_single_log list_audit_def,
     simp add: audit_def create_schema_def utcnow_eq insert_row_def Let_def)

text \<open>
  The start-up migration: a log whose events have no hash becomes a valid chain, nothing but
  the two hash columns is written, and running the migration again changes nothing.
\<close>

lemma backfill_makes_chain_valid:
  assumes "list_all (\<lambda>e. e_event_hash e = None) (audit_events s)"
  shows "verify_audit_chain (backfill_audit_hashes s) = (True, []) \<and>
    map (\<lambda>e. e\<lparr>e_prev_hash := None, e_event_hash := None\<rparr>) (audit_events (backfill_audit_hashes s)) =
      map (\<lambda>e. e\<lparr>e_prev_hash := None, e_event_hash := None\<rparr>) (audit_events s) \<and>
    backfill_audit_hashes (backfill_audit_hashes s) = backfill_audit_hashes s"
proof -
  have "list_all (\<lambda>e. text_or (e_event_hash e) [] = []) (audit_events s)"
    using assms by (simp add: list_all_iff text_or_def)
  then have "chained genesis (audit_events (backfill_audit_hashes s))"
    by (simp add: backfill_audit_hashes_def backfill_unhashed)
  then have "verify_audit_chain (backfill_audit_hashes s) = (True, [])"
    by (simp add: verify_audit_chain_def Let_def chain_errors_Nil_iff)
  then show ?thesis
    by (simp add: backfill_audit_hashes_def backfill_idem backfill_other_columns)
qed

end
