(* ===== verification/Catalog.thy ===== *)
theory Catalog
  imports Audit_Log
begin

text \<open>
  The recovery catalog of \<open>state.py\<close>: recovery points and their copies. Operations follow the
  methods of \<open>StateDB\<close>; a method that raises returns the exception with the database it left.
  The lemmas show what each operation stores and reads back, that expired points disappear from
  every reader, that the set of protected snapshots is exactly the live points whose horizon lies
  in the future, and that holds only ever extend a horizon.
\<close>

section \<open>Recovery points\<close>

text \<open>\<open>INSERT OR REPLACE\<close> without the columns \<open>expired\<close> and \<open>expired_at\<close>, which take
  their defaults.\<close>

definition upsert_recovery_point :: "point \<Rightarrow> db \<Rightarrow> db" where
  "upsert_recovery_point p s =
     s\<lparr>recovery_points :=
         replace_row p_snapshot_id (p\<lparr>p_expired := False, p_expired_at := None\<rparr>) (recovery_points s)\<rparr>"

definition live_points :: "db \<Rightarrow> point list" where
  "live_points s = filter (\<lambda>p. \<not> p_expired p) (recovery_points s)"

definition get_point :: "string \<Rightarrow> db \<Rightarrow> point option" where
  "get_point sid s = row_by p_snapshot_id sid (live_points s)"

definition latest_point :: "string \<Rightarrow> string \<Rightarrow> db \<Rightarrow> point option" where
  "latest_point platform vm_id s =
     (case sort_desc p_created_at
             (filter (\<lambda>p. p_platform p = platform \<and> p_vm_id p = vm_id) (live_points s)) of
        [] \<Rightarrow> None
      | p # _ \<Rightarrow> Some p)"

definition protected_snapshot_ids :: "string \<Rightarrow> db \<Rightarrow> string list" where
  "protected_snapshot_ids at s =
     map p_snapshot_id (filter (\<lambda>p. at < p_immutable_until p) (live_points s))"

text \<open>\<open>if platform:\<close> is false for \<open>None\<close> and for the empty string.\<close>

definition opt_match :: "string option \<Rightarrow> string \<Rightarrow> bool" where
  "opt_match x v \<longleftrightarrow> (case x of None \<Rightarrow> True | Some w \<Rightarrow> w = [] \<or> v = w)"

definition list_points :: "string option \<Rightarrow> string option \<Rightarrow> nat \<Rightarrow> db \<Rightarrow> point list" where
  "list_points platform vm_id limit s =
     take limit (sort_desc p_created_at
       (filter (\<lambda>p. opt_match platform (p_platform p) \<and> opt_match vm_id (p_vm_id p)) (live_points s)))"

definition mark_points_expired :: "string list \<Rightarrow> db \<Rightarrow> db" where
  "mark_points_expired sids s =
     (if sids = [] then s
      else let (now, s) = utcnow s
           in s\<lparr>recovery_points :=
                 update_where (\<lambda>p. List.member sids (p_snapshot_id p))
                   (\<lambda>p. p\<lparr>p_expired := True, p_expired_at := Some now\<rparr>) (recovery_points s)\<rparr>)"

definition extend_immutability ::
  "string \<Rightarrow> string \<Rightarrow> string \<Rightarrow> string \<Rightarrow> db \<Rightarrow> string res \<times> db" where
  "extend_immutability sid immutable_until actor reason s =
     (case get_point sid s of
        None \<Rightarrow> (Inl (ValueError ''unknown recovery point''), s)
      | Some row \<Rightarrow>
          let new_until = max (p_immutable_until row) immutable_until;
              s = s\<lparr>recovery_points :=
                     update_where (\<lambda>p. p_snapshot_id p = sid)
                       (\<lambda>p. p\<lparr>p_immutable_until := new_until\<rparr>) (recovery_points s)\<rparr>;
              s = audit actor ''recovery.hold'' ''recovery_point'' sid
                    (JObj [(''immutable_until'', JStr new_until), (''reason'', JStr reason)]) s
          in (Inr new_until, s))"

text \<open>\<open>metadata["verification"] = details or {}\<close> on what \<open>json.loads\<close> gives for the column,
  \<open>{}\<close> when it is not JSON. The column is written by \<open>json.dumps\<close> of a dictionary.\<close>

definition with_verification :: "json option \<Rightarrow> (string \<times> json) list \<Rightarrow> json" where
  "with_verification m details =
     JObj (jset ''verification'' (JObj details) (case m of Some (JObj kvs) \<Rightarrow> kvs | _ \<Rightarrow> []))"

definition mark_verified ::
  "string \<Rightarrow> bool \<Rightarrow> (string \<times> json) list \<Rightarrow> db \<Rightarrow> unit res \<times> db" where
  "mark_verified sid verified details s =
     (case row_by p_snapshot_id sid (recovery_points s) of
        None \<Rightarrow> (Inl (ValueError ''unknown recovery point''), s)
      | Some row \<Rightarrow>
          let metadata = with_verification (p_metadata row) details;
              (at, s) = (if verified then (let (t, s) = utcnow s in (Some t, s)) else (None, s))
          in (Inr (), s\<lparr>recovery_points :=
                update_where (\<lambda>p. p_snapshot_id p = sid)
                  (\<lambda>p. p\<lparr>p_verified := verified, p_verified_at := at, p_metadata := Some metadata\<rparr>)
                  (recovery_points s)\<rparr>))"

section \<open>Copies\<close>

definition copy_key :: "copy \<Rightarrow> string \<times> string" where
  "copy_key c = (c_snapshot_id c, c_target_name c)"

definition put_copy :: "copy \<Rightarrow> db \<Rightarrow> db" where
  "put_copy c s = s\<lparr>recovery_copies := upsert_row copy_key c (recovery_copies s)\<rparr>"

definition get_recovery_copy :: "string \<times> string \<Rightarrow> db \<Rightarrow> copy option" where
  "get_recovery_copy k s = row_by copy_key k (recovery_copies s)"

definition upsert_recovery_copy ::
  "string \<Rightarrow> string \<Rightarrow> string \<Rightarrow> string \<Rightarrow> string option \<Rightarrow> string \<Rightarrow> string option \<Rightarrow> json \<Rightarrow>
   string option \<Rightarrow> bool \<Rightarrow> db \<Rightarrow> db" where
  "upsert_recovery_copy sid target backend repository provider status immutable_until object_lock
     error verified s =
     (let (copied_at, s) = (if status = ''success'' then (let (t, s) = utcnow s in (Some t, s)) else (None, s));
          (verified_at, s) = (if verified then (let (t, s) = utcnow s in (Some t, s)) else (None, s))
      in put_copy
           \<lparr>c_snapshot_id = sid, c_target_name = target, c_backend = backend, c_provider = provider,
            c_repository = repository, c_status = status, c_copied_at = copied_at,
            c_verified = verified, c_verified_at = verified_at, c_immutable_until = immutable_until,
            c_object_lock = Some object_lock, c_error = error\<rparr> s)"

definition list_recovery_copies :: "string \<Rightarrow> db \<Rightarrow> copy list" where
  "list_recovery_copies sid s =
     sort_key c_target_name (filter (\<lambda>c. c_snapshot_id c = sid) (recovery_copies s))"

definition mark_copy_verified :: "string \<Rightarrow> string \<Rightarrow> bool \<Rightarrow> string option \<Rightarrow> db \<Rightarrow> db" where
  "mark_copy_verified sid target verified error s =
     (let (at, s) = (if verified then (let (t, s) = utcnow s in (Some t, s)) else (None, s))
      in s\<lparr>recovery_copies :=
            update_where (\<lambda>c. copy_key c = (sid, target))
              (\<lambda>c. c\<lparr>c_verified := verified, c_verified_at := at, c_error := error\<rparr>)
              (recovery_copies s)\<rparr>)"

section \<open>Primary keys\<close>

definition catalog_ok :: "db \<Rightarrow> bool" where
  "catalog_ok s \<longleftrightarrow> distinct (map p_snapshot_id (recovery_points s)) \<and>
     distinct (map copy_key (recovery_copies s))"

text \<open>Both tables satisfy the contract of a keyed table, on the database itself.\<close>

definition put_point :: "point \<Rightarrow> db \<Rightarrow> db" where
  "put_point p s = s\<lparr>recovery_points := replace_row p_snapshot_id p (recovery_points s)\<rparr>"

definition find_point :: "string \<Rightarrow> db \<Rightarrow> point option" where
  "find_point sid s = row_by p_snapshot_id sid (recovery_points s)"

interpretation points: keyed_table p_snapshot_id put_point find_point catalog_ok
  by unfold_locales
    (auto simp: put_point_def find_point_def catalog_ok_def row_by_replace_row
      intro: distinct_replace_row)

interpretation copies: keyed_table copy_key put_copy get_recovery_copy catalog_ok
  by unfold_locales
    (auto simp: put_copy_def get_recovery_copy_def catalog_ok_def row_by_upsert_row
      intro: distinct_upsert_row)

lemma upsert_point_put:
  "upsert_recovery_point p s = put_point (p\<lparr>p_expired := False, p_expired_at := None\<rparr>) s"
  by (simp add: upsert_recovery_point_def put_point_def)

section \<open>Readers\<close>

lemma row_by_live:
  assumes "distinct (map p_snapshot_id rows)"
  shows "row_by p_snapshot_id sid (filter (\<lambda>p. \<not> p_expired p) rows) =
    (case row_by p_snapshot_id sid rows of None \<Rightarrow> None | Some p \<Rightarrow> if p_expired p then None else Some p)"
  using assms
proof (induction rows)
  case Nil
  then show ?case by simp
next
  case (Cons r rows)
  show ?case
  proof (cases "p_snapshot_id r = sid")
    case True
    with Cons.prems have "row_by p_snapshot_id sid rows = None" by (simp add: row_by_None)
    with True Cons show ?thesis by auto
  qed (use Cons in auto)
qed

lemma get_point_find:
  "catalog_ok s \<Longrightarrow> get_point sid s =
     (case find_point sid s of None \<Rightarrow> None | Some p \<Rightarrow> if p_expired p then None else Some p)"
  by (simp add: get_point_def live_points_def find_point_def row_by_live catalog_ok_def)

lemma get_point_live: "get_point sid s = Some p \<Longrightarrow> p \<in> set (recovery_points s) \<and> \<not> p_expired p \<and> p_snapshot_id p = sid"
  by (auto simp: get_point_def live_points_def dest: row_by_Some)

lemma set_live_points: "set (live_points s) = {p \<in> set (recovery_points s). \<not> p_expired p}"
  by (auto simp: live_points_def)

lemma set_protected:
  "set (protected_snapshot_ids at s) =
     {p_snapshot_id p |p. p \<in> set (recovery_points s) \<and> \<not> p_expired p \<and> at < p_immutable_until p}"
  by (auto simp: protected_snapshot_ids_def live_points_def)

lemma latest_point_None:
  "latest_point platform vm s = None \<longleftrightarrow>
     (\<forall>p. p \<in> set (live_points s) \<longrightarrow> \<not> (p_platform p = platform \<and> p_vm_id p = vm))"
proof -
  have "(case xs of [] \<Rightarrow> None | p # _ \<Rightarrow> Some p) = None \<longleftrightarrow> xs = []" for xs :: "point list"
    by (cases xs) auto
  then show ?thesis by (auto simp: latest_point_def filter_empty_conv)
qed

lemma latest_point_Some:
  assumes "latest_point platform vm s = Some p"
  shows "p \<in> set (live_points s)" "p_platform p = platform" "p_vm_id p = vm"
    "q \<in> set (live_points s) \<Longrightarrow> p_platform q = platform \<Longrightarrow> p_vm_id q = vm \<Longrightarrow>
       p_created_at q \<le> p_created_at p"
proof -
  let ?xs = "filter (\<lambda>p. p_platform p = platform \<and> p_vm_id p = vm) (live_points s)"
  obtain ys where ys: "sort_desc p_created_at ?xs = p # ys"
    using assms by (auto simp: latest_point_def split: list.splits)
  then have "p \<in> set (sort_desc p_created_at ?xs)" by simp
  then show "p \<in> set (live_points s)" "p_platform p = platform" "p_vm_id p = vm" by auto
  show "p_created_at q \<le> p_created_at p"
    if "q \<in> set (live_points s)" "p_platform q = platform" "p_vm_id q = vm"
    using hd_sort_desc_max [of q ?xs p_created_at] that ys by simp
qed

lemma set_list_points:
  "p \<in> set (list_points platform vm n s) \<Longrightarrow>
     p \<in> set (live_points s) \<and> opt_match platform (p_platform p) \<and> opt_match vm (p_vm_id p)"
  by (auto simp: list_points_def dest!: in_set_takeD)

lemma sorted_list_points: "sorted (rev (map p_created_at (list_points platform vm n s)))"
  by (simp add: list_points_def take_map [symmetric] rev_take sorted_sort_desc sorted_wrt_drop)

section \<open>Effects\<close>

lemma get_point_upsert:
  "catalog_ok s \<Longrightarrow> get_point k (upsert_recovery_point p s) =
     (if k = p_snapshot_id p then Some (p\<lparr>p_expired := False, p_expired_at := None\<rparr>) else get_point k s)"
  by (simp add: get_point_find points.ok_put upsert_point_put points.get_put)

lemma upsert_point_frame [frame_simps]:
  "jobs (upsert_recovery_point p s) = jobs s"
  "recovery_copies (upsert_recovery_point p s) = recovery_copies s"
  "restore_requests (upsert_recovery_point p s) = restore_requests s"
  "dr_runs (upsert_recovery_point p s) = dr_runs s"
  "audit_events (upsert_recovery_point p s) = audit_events s"
  "clock (upsert_recovery_point p s) = clock s"
  "reads (upsert_recovery_point p s) = reads s"
  by (simp_all add: upsert_recovery_point_def)

lemma upsert_copy_frame [frame_simps]:
  "jobs (upsert_recovery_copy a b c d e f g h i v s) = jobs s"
  "recovery_points (upsert_recovery_copy a b c d e f g h i v s) = recovery_points s"
  "restore_requests (upsert_recovery_copy a b c d e f g h i v s) = restore_requests s"
  "dr_runs (upsert_recovery_copy a b c d e f g h i v s) = dr_runs s"
  "audit_events (upsert_recovery_copy a b c d e f g h i v s) = audit_events s"
  "clock (upsert_recovery_copy a b c d e f g h i v s) = clock s"
  by (simp_all add: upsert_recovery_copy_def put_copy_def utcnow_eq Let_def)

lemma expire_frame [frame_simps]:
  "jobs (mark_points_expired ids s) = jobs s"
  "recovery_copies (mark_points_expired ids s) = recovery_copies s"
  "restore_requests (mark_points_expired ids s) = restore_requests s"
  "dr_runs (mark_points_expired ids s) = dr_runs s"
  "audit_events (mark_points_expired ids s) = audit_events s"
  "clock (mark_points_expired ids s) = clock s"
  by (simp_all add: mark_points_expired_def utcnow_eq)

lemma mark_verified_frame [frame_simps]:
  "jobs (snd (mark_verified a b c s)) = jobs s"
  "recovery_copies (snd (mark_verified a b c s)) = recovery_copies s"
  "restore_requests (snd (mark_verified a b c s)) = restore_requests s"
  "dr_runs (snd (mark_verified a b c s)) = dr_runs s"
  "audit_events (snd (mark_verified a b c s)) = audit_events s"
  "clock (snd (mark_verified a b c s)) = clock s"
  by (simp_all add: mark_verified_def utcnow_eq Let_def split: option.split)

lemma extend_frame [frame_simps]:
  "jobs (snd (extend_immutability a b c d s)) = jobs s"
  "recovery_copies (snd (extend_immutability a b c d s)) = recovery_copies s"
  "restore_requests (snd (extend_immutability a b c d s)) = restore_requests s"
  "dr_runs (snd (extend_immutability a b c d s)) = dr_runs s"
  "clock (snd (extend_immutability a b c d s)) = clock s"
  by (simp_all add: extend_immutability_def Let_def audit_frame split: option.split)

lemma recovery_points_expire:
  "recovery_points (mark_points_expired ids s) =
     update_where (\<lambda>p. List.member ids (p_snapshot_id p))
       (\<lambda>p. p\<lparr>p_expired := True, p_expired_at := Some (isoformat (clock s (reads s)))\<rparr>) (recovery_points s)"
  by (auto simp: mark_points_expired_def utcnow_eq update_where_def)

text \<open>The operations only touch the columns they name, so keys stay keys.\<close>

lemma keys_expire: "map p_snapshot_id (recovery_points (mark_points_expired ids s)) = map p_snapshot_id (recovery_points s)"
  by (simp add: recovery_points_expire map_update_where)

lemma keys_mark_verified:
  "map p_snapshot_id (recovery_points (snd (mark_verified a b c s))) = map p_snapshot_id (recovery_points s)"
  by (simp add: mark_verified_def utcnow_eq Let_def map_update_where split: option.split)

lemma keys_extend:
  "map p_snapshot_id (recovery_points (snd (extend_immutability a b c d s))) = map p_snapshot_id (recovery_points s)"
  by (simp add: extend_immutability_def Let_def audit_frame map_update_where split: option.split)

lemma catalog_ok_frame:
  "recovery_points t = recovery_points s \<Longrightarrow> recovery_copies t = recovery_copies s \<Longrightarrow> catalog_ok t = catalog_ok s"
  by (simp add: catalog_ok_def)

lemma upsert_copy_put:
  "\<exists>c t. upsert_recovery_copy sid target a b p st im lock err v s = put_copy c t \<and>
     recovery_points t = recovery_points s \<and> recovery_copies t = recovery_copies s \<and>
     copy_key c = (sid, target) \<and> c_status c = st \<and> c_immutable_until c = im \<and>
     c_error c = err \<and> c_verified c = v"
  by (cases "st = ''success''"; cases v)
    ((simp add: upsert_recovery_copy_def utcnow_eq Let_def copy_key_def,
      rule exI, rule exI, rule conjI, rule refl, simp)+)

lemma catalog_ok_upsert_copy:
  "catalog_ok s \<Longrightarrow> catalog_ok (upsert_recovery_copy a b c d e f g h i v s)"
  using upsert_copy_put [of a b c d e f g h i v s] copies.ok_put catalog_ok_frame by metis

lemma catalog_ok_ops:
  "catalog_ok s \<Longrightarrow> catalog_ok (upsert_recovery_point p s)"
  "catalog_ok s \<Longrightarrow> catalog_ok (mark_points_expired ids s)"
  "catalog_ok s \<Longrightarrow> catalog_ok (snd (mark_verified k v d s))"
  "catalog_ok s \<Longrightarrow> catalog_ok (snd (extend_immutability k t a r s))"
  "catalog_ok s \<Longrightarrow> catalog_ok (audit x1 x2 x3 x4 x5 s)"
  by (simp_all add: upsert_point_put points.ok_put)
    (simp_all add: catalog_ok_def keys_expire keys_mark_verified keys_extend frame_simps)

lemma get_copy_upsert:
  "\<exists>c. get_recovery_copy k (upsert_recovery_copy sid target a b p st im lock err v s) =
     (if k = (sid, target) then Some c else get_recovery_copy k s) \<and>
     c_status c = st \<and> c_immutable_until c = im \<and> c_error c = err \<and> c_verified c = v \<and>
     copy_key c = (sid, target)"
proof -
  obtain c t where *: "upsert_recovery_copy sid target a b p st im lock err v s = put_copy c t"
    "recovery_copies t = recovery_copies s" "copy_key c = (sid, target)" "c_status c = st"
    "c_immutable_until c = im" "c_error c = err" "c_verified c = v"
    using upsert_copy_put by blast
  have "get_recovery_copy k t = get_recovery_copy k s" by (simp add: get_recovery_copy_def *)
  with * show ?thesis by (intro exI [of _ c]) (auto simp: copies.get_put)
qed

section \<open>Holds\<close>

lemma extend_known:
  assumes "get_point sid s = Some row"
  shows "fst (extend_immutability sid until actor reason s) = Inr (max (p_immutable_until row) until)"
    and "find_point k (snd (extend_immutability sid until actor reason s)) =
      map_option (\<lambda>p. if p_snapshot_id p = sid then p\<lparr>p_immutable_until := max (p_immutable_until row) until\<rparr> else p)
        (find_point k s)"
  using assms
  by (simp_all add: extend_immutability_def Let_def audit_frame find_point_def row_by_update_where)

lemma extend_never_shortens:
  assumes "catalog_ok s" "find_point k s = Some p"
    and "find_point k (snd (extend_immutability sid until actor reason s)) = Some q"
  shows "p_immutable_until p \<le> p_immutable_until q"
proof (cases "get_point sid s")
  case None
  with assms show ?thesis by (simp add: extend_immutability_def)
next
  case (Some row)
  then have "row \<in> set (recovery_points s)" "p_snapshot_id row = sid" by (auto dest: get_point_live)
  then have "find_point sid s = Some row"
    using row_by_unique [of p_snapshot_id "recovery_points s" row] assms(1)
    by (simp add: find_point_def catalog_ok_def)
  moreover have "p_snapshot_id p = k" using assms(2) by (auto simp: find_point_def dest: row_by_Some)
  moreover have "q = (if p_snapshot_id p = sid
      then p\<lparr>p_immutable_until := max (p_immutable_until row) until\<rparr> else p)"
    using assms(2,3) extend_known(2) [OF Some, of k] by simp
  ultimately show ?thesis using assms(2) by (cases "k = sid") simp_all
qed

lemma filter_live_update:
  "filter (\<lambda>p. \<not> p_expired p)
     (update_where P (\<lambda>p. p\<lparr>p_expired := True, p_expired_at := t\<rparr>) rows) =
   filter (\<lambda>p. \<not> P p) (filter (\<lambda>p. \<not> p_expired p) rows)"
  by (induction rows) (auto simp: update_where_def)

lemma get_point_expire:
  assumes "catalog_ok s"
  shows "get_point sid (mark_points_expired ids s) = (if List.member ids sid then None else get_point sid s)"
  using assms catalog_ok_ops(2) [OF assms, of ids]
  by (auto simp: get_point_find find_point_def recovery_points_expire row_by_update_where
      dest: row_by_Some split: option.splits)

lemma get_point_same: "recovery_points t = recovery_points s \<Longrightarrow> get_point sid t = get_point sid s"
  by (simp add: get_point_def live_points_def)

section \<open>Properties\<close>

text \<open>
  C30. Retention is exact in real time although the database stores texts and compares texts: when
  every horizon was written by \<open>isoformat\<close>, a snapshot is in \<open>protected_snapshot_ids\<close> for the
  text of \<open>now\<close> exactly when some live recovery point of it has a horizon later than \<open>now\<close>.
\<close>

theorem protected_exact_in_time:
  assumes "in_calendar now"
    and "list_all (\<lambda>p. in_calendar (horizon p) \<and> p_immutable_until p = isoformat (horizon p)) (live_points s)"
  shows "sid \<in> set (protected_snapshot_ids (isoformat now) s) \<longleftrightarrow>
    (\<exists>p. p \<in> set (recovery_points s) \<and> \<not> p_expired p \<and> p_snapshot_id p = sid \<and> now < horizon p)"
proof -
  have "isoformat now < p_immutable_until p \<longleftrightarrow> now < horizon p" if "p \<in> set (live_points s)" for p
    using assms that by (auto simp: list_all_iff isoformat_less_iff)
  then show ?thesis by (auto simp: set_protected set_live_points)
qed

definition sample_point :: "string \<Rightarrow> string \<Rightarrow> instant \<Rightarrow> instant \<Rightarrow> point" where
  "sample_point sid vm created until =
     \<lparr>p_snapshot_id = sid, p_created_at = isoformat created, p_platform = ''vsphere'',
      p_platform_type = ''vmware'', p_vm_id = vm, p_vm_name = vm, p_power_state = ''on'',
      p_source_path = ''/stage'', p_backup_bytes = 1024, p_data_added = 512, p_file_count = 3,
      p_manifest_sha256 = None, p_immutable_until = isoformat until, p_suspicious = False,
      p_suspicious_reason = None, p_verified = False, p_verified_at = None, p_metadata = None,
      p_expired = False, p_expired_at = None\<rparr>"

theorem protected_exact_in_time_witness:
  "''s1'' \<in> set (protected_snapshot_ids (isoformat 100)
      ((create_schema int)\<lparr>recovery_points := [sample_point ''s1'' ''vm-1'' 0 day_us]\<rparr>))"
  using protected_exact_in_time
    [of 100 "\<lambda>p. day_us" "(create_schema int)\<lparr>recovery_points := [sample_point ''s1'' ''vm-1'' 0 day_us]\<rparr>" "''s1''"]
  by (simp add: in_calendar_def day_us_def live_points_def sample_point_def)

text \<open>
  C31. A legal hold only extends: \<open>extend_immutability\<close> rejects an unknown or expired snapshot
  with the database unchanged; otherwise it returns and stores the later of the two horizons; and
  no recovery point ever gets an earlier horizon than it had.
\<close>

theorem hold_only_extends:
  assumes "catalog_ok s"
  shows "(case get_point sid s of
      None \<Rightarrow> extend_immutability sid until actor reason s = (Inl (ValueError ''unknown recovery point''), s)
    | Some row \<Rightarrow>
        fst (extend_immutability sid until actor reason s) = Inr (max (p_immutable_until row) until) \<and>
        get_point sid (snd (extend_immutability sid until actor reason s)) =
          Some (row\<lparr>p_immutable_until := max (p_immutable_until row) until\<rparr>)) \<and>
    (\<forall>k p q. find_point k s = Some p \<longrightarrow>
      find_point k (snd (extend_immutability sid until actor reason s)) = Some q \<longrightarrow>
      p_immutable_until p \<le> p_immutable_until q)"
proof -
  have "get_point sid (snd (extend_immutability sid until actor reason s)) =
      Some (row\<lparr>p_immutable_until := max (p_immutable_until row) until\<rparr>)" if "get_point sid s = Some row" for row
    using that assms extend_known(2) [OF that, of sid] get_point_live [OF that]
      catalog_ok_ops(4) [OF assms] by (auto simp: get_point_find split: option.splits if_splits)
  then show ?thesis
    using extend_never_shortens [OF assms] extend_known(1)
    by (auto simp: extend_immutability_def split: option.split)
qed

theorem hold_only_extends_witness:
  "fst (extend_immutability ''s1'' (isoformat 0) ''alice'' ''case 7''
      ((create_schema int)\<lparr>recovery_points := [sample_point ''s1'' ''vm-1'' 0 day_us]\<rparr>)) =
    Inr (isoformat day_us)"
proof -
  have "max (isoformat day_us) (isoformat 0) = isoformat day_us"
    by (simp add: isoformat_max in_calendar_def day_us_def)
  then show ?thesis
    using hold_only_extends [of "(create_schema int)\<lparr>recovery_points := [sample_point ''s1'' ''vm-1'' 0 day_us]\<rparr>"
        "''s1''" "isoformat 0" "''alice''" "''case 7''"]
    by (simp add: catalog_ok_def create_schema_def get_point_def live_points_def sample_point_def)
qed

text \<open>
  An expired recovery point is gone for every reader: after \<open>mark_points_expired(ids)\<close> none
  of the ids can be looked up, is the latest point of a machine, is listed or is protected, while
  every other live point is still found unchanged.
\<close>

lemma expired_points_disappear:
  assumes "catalog_ok s"
  shows "get_point sid (mark_points_expired ids s) = (if List.member ids sid then None else get_point sid s) \<and>
    (List.member ids sid \<longrightarrow>
      (\<forall>p. latest_point platform vm (mark_points_expired ids s) = Some p \<longrightarrow> p_snapshot_id p \<noteq> sid) \<and>
      sid \<notin> p_snapshot_id ` set (list_points plat vmf n (mark_points_expired ids s)) \<and>
      sid \<notin> set (protected_snapshot_ids now (mark_points_expired ids s)))"
proof -
  let ?t = "mark_points_expired ids s"
  have live: "live_points ?t = filter (\<lambda>p. \<not> List.member ids (p_snapshot_id p)) (live_points s)"
    by (simp add: live_points_def recovery_points_expire filter_live_update)
  then have gone: "p_snapshot_id p \<noteq> sid" if "p \<in> set (live_points ?t)" "List.member ids sid" for p
    using that by auto
  have "get_point sid ?t = (if List.member ids sid then None else get_point sid s)"
    using assms by (rule get_point_expire)
  moreover have "sid \<notin> set (protected_snapshot_ids now ?t)" if "List.member ids sid"
    using gone that by (auto simp: set_protected set_live_points)
  ultimately show ?thesis
    using gone latest_point_Some(1) by (fastforce dest: set_list_points)
qed

text \<open>
  \<open>latest_point\<close> returns a live point of the machine that was created no earlier than any
  other live point of it, and returns nothing only when the machine has no live point.
\<close>

lemma latest_point_is_newest:
  "(latest_point platform vm s = None \<longleftrightarrow>
      (\<nexists>p. p \<in> set (recovery_points s) \<and> \<not> p_expired p \<and> p_platform p = platform \<and> p_vm_id p = vm)) \<and>
   (\<forall>p. latest_point platform vm s = Some p \<longrightarrow>
      p \<in> set (recovery_points s) \<and> \<not> p_expired p \<and> p_platform p = platform \<and> p_vm_id p = vm \<and>
      (\<forall>q. q \<in> set (recovery_points s) \<and> \<not> p_expired q \<and> p_platform q = platform \<and> p_vm_id q = vm \<longrightarrow>
         p_created_at q \<le> p_created_at p))"
proof (intro conjI allI impI)
  show "latest_point platform vm s = None \<longleftrightarrow>
      (\<nexists>p. p \<in> set (recovery_points s) \<and> \<not> p_expired p \<and> p_platform p = platform \<and> p_vm_id p = vm)"
    by (auto simp: latest_point_None set_live_points)
  fix p assume "latest_point platform vm s = Some p"
  note * = latest_point_Some [OF this]
  show "p \<in> set (recovery_points s)" "\<not> p_expired p" "p_platform p = platform" "p_vm_id p = vm"
    using *(1-3) by (simp_all add: set_live_points)
  show "p_created_at q \<le> p_created_at p"
    if "q \<in> set (recovery_points s) \<and> \<not> p_expired q \<and> p_platform q = platform \<and> p_vm_id q = vm" for q
    using that by (intro *(4)) (simp_all add: set_live_points)
qed

end
