(* ===== verification/Requests.thy ===== *)
theory Requests
  imports Audit_Log
begin

text \<open>
  The jobs and restore requests of \<open>state.py\<close>. A restore request moves through
  \<open>pending_approval\<close>, \<open>approved\<close> or \<open>ready\<close>, \<open>running\<close> and \<open>success\<close> or
  \<open>failed\<close>; \<open>approve_restore\<close> and \<open>start_restore\<close> check the status they leave, and the
  four-eyes rule is checked at approval.
\<close>

section \<open>Jobs\<close>

definition start_job :: "string \<Rightarrow> string \<Rightarrow> string \<Rightarrow> db \<Rightarrow> nat \<times> db" where
  "start_job platform vm_id vm_name s =
     (let (now, s) = utcnow s;
          (i, rows) = insert_row j_id (\<lambda>i.
            \<lparr>j_id = i, j_started_at = now, j_finished_at = None, j_platform = platform, j_vm_id = vm_id,
             j_vm_name = vm_name, j_status = ''running'', j_snapshot_id = None, j_error = None\<rparr>) (jobs s)
      in (i, s\<lparr>jobs := rows\<rparr>))"

definition finish_job :: "nat \<Rightarrow> string \<Rightarrow> string option \<Rightarrow> string option \<Rightarrow> db \<Rightarrow> db" where
  "finish_job i status snapshot_id error s =
     (let (now, s) = utcnow s
      in s\<lparr>jobs := update_where (\<lambda>j. j_id j = i)
             (\<lambda>j. j\<lparr>j_finished_at := Some now, j_status := status, j_snapshot_id := snapshot_id,
                   j_error := error\<rparr>) (jobs s)\<rparr>)"

definition get_job :: "nat \<Rightarrow> db \<Rightarrow> job option" where
  "get_job i s = row_by j_id i (jobs s)"

section \<open>Restore requests\<close>

definition get_restore_request :: "nat \<Rightarrow> db \<Rightarrow> restore_request option" where
  "get_restore_request i s = row_by q_id i (restore_requests s)"

definition list_restore_requests :: "nat \<Rightarrow> db \<Rightarrow> restore_request list" where
  "list_restore_requests limit s = take limit (sort_desc q_created_at (restore_requests s))"

definition create_restore_request ::
  "string \<Rightarrow> point \<Rightarrow> string \<Rightarrow> string \<Rightarrow> (string \<times> json) list \<Rightarrow> string \<Rightarrow> db \<Rightarrow> nat \<times> db" where
  "create_restore_request requester p target_platform target_name options status s =
     (let (now, s) = utcnow s;
          (i, rows) = insert_row q_id (\<lambda>i.
            \<lparr>q_id = i, q_created_at = now, q_requester = requester, q_snapshot_id = p_snapshot_id p,
             q_source_platform = p_platform p, q_vm_id = p_vm_id p, q_vm_name = p_vm_name p,
             q_target_platform = target_platform, q_target_name = target_name, q_options = options,
             q_status = status, q_approved_by = None, q_approved_at = None, q_started_at = None,
             q_finished_at = None, q_result = None, q_error = None\<rparr>) (restore_requests s);
          s = s\<lparr>restore_requests := rows\<rparr>
      in (i, audit requester ''restore.request'' ''restore_request'' (show_nat i)
               (JObj [(''snapshot_id'', JStr (p_snapshot_id p))]) s))"

definition update_request :: "nat \<Rightarrow> (restore_request \<Rightarrow> restore_request) \<Rightarrow> db \<Rightarrow> db" where
  "update_request i f s = s\<lparr>restore_requests := update_where (\<lambda>q. q_id q = i) f (restore_requests s)\<rparr>"

definition approve_restore :: "nat \<Rightarrow> string \<Rightarrow> bool \<Rightarrow> db \<Rightarrow> unit res \<times> db" where
  "approve_restore i approver four_eyes s =
     (case get_restore_request i s of
        None \<Rightarrow> (Inl (ValueError ''restore request not found''), s)
      | Some req \<Rightarrow>
          if q_status req \<noteq> ''pending_approval''
          then (Inl (ValueError (''restore request is not pending approval: '' @ q_status req)), s)
          else if four_eyes \<and> q_requester req = approver
          then (Inl (PermissionError ''four-eyes policy requires a different approver''), s)
          else let (now, s) = utcnow s;
                   s = update_request i (\<lambda>q. q\<lparr>q_status := ''approved'', q_approved_by := Some approver,
                         q_approved_at := Some now\<rparr>) s
               in (Inr (), audit approver ''restore.approve'' ''restore_request'' (show_nat i) (JObj []) s))"

definition start_restore :: "nat \<Rightarrow> string \<Rightarrow> db \<Rightarrow> restore_request res \<times> db" where
  "start_restore i actor s =
     (case get_restore_request i s of
        None \<Rightarrow> (Inl (ValueError ''restore request not found''), s)
      | Some req \<Rightarrow>
          if q_status req \<noteq> ''approved'' \<and> q_status req \<noteq> ''ready''
          then (Inl (ValueError (''restore request cannot execute from status '' @ q_status req)), s)
          else let (now, s) = utcnow s;
                   s = update_request i (\<lambda>q. q\<lparr>q_status := ''running'', q_started_at := Some now\<rparr>) s;
                   s = audit actor ''restore.execute'' ''restore_request'' (show_nat i) (JObj []) s
               in (Inr (case get_restore_request i s of None \<Rightarrow> req | Some q \<Rightarrow> q), s))"

definition finish_restore :: "nat \<Rightarrow> bool \<Rightarrow> json \<Rightarrow> string option \<Rightarrow> db \<Rightarrow> db" where
  "finish_restore i success result error s =
     (let (now, s) = utcnow s
      in update_request i (\<lambda>q. q\<lparr>q_status := (if success then ''success'' else ''failed''),
           q_finished_at := Some now, q_result := Some result, q_error := error\<rparr>) s)"

section \<open>Ids\<close>

definition requests_ok :: "db \<Rightarrow> bool" where
  "requests_ok s \<longleftrightarrow> distinct (map q_id (restore_requests s)) \<and> distinct (map j_id (jobs s))"

lemma requests_ok_frame:
  "restore_requests t = restore_requests s \<Longrightarrow> jobs t = jobs s \<Longrightarrow> requests_ok t = requests_ok s"
  by (simp add: requests_ok_def)

lemma get_request_id: "get_restore_request i s = Some q \<Longrightarrow> q_id q = i"
  by (auto simp: get_restore_request_def dest: row_by_Some)

lemma get_request_update [simp]:
  "(\<And>q. q_id (f q) = q_id q) \<Longrightarrow>
   get_restore_request k (update_request i f s) =
     (if k = i then map_option f (get_restore_request k s) else get_restore_request k s)"
  by (cases "get_restore_request k s")
    (auto simp: get_restore_request_def update_request_def row_by_update_where dest: row_by_Some)

lemma get_request_same:
  "restore_requests t = restore_requests s \<Longrightarrow> get_restore_request k t = get_restore_request k s"
  by (simp add: get_restore_request_def)

lemma get_request_audit [simp]: "get_restore_request k (audit a b c d e s) = get_restore_request k s"
  by (rule get_request_same) (rule audit_frame)

lemma get_request_reads [simp]: "get_restore_request k (s\<lparr>reads := n\<rparr>) = get_restore_request k s"
  by (rule get_request_same) simp

lemma update_request_frame [frame_simps]:
  "jobs (update_request i f s) = jobs s"
  "recovery_points (update_request i f s) = recovery_points s"
  "recovery_copies (update_request i f s) = recovery_copies s"
  "dr_runs (update_request i f s) = dr_runs s"
  "dr_workloads (update_request i f s) = dr_workloads s"
  "dr_health (update_request i f s) = dr_health s"
  "audit_events (update_request i f s) = audit_events s"
  "clock (update_request i f s) = clock s"
  "reads (update_request i f s) = reads s"
  by (simp_all add: update_request_def)

lemma ids_update_request:
  "(\<And>q. q_id (f q) = q_id q) \<Longrightarrow>
   map q_id (restore_requests (update_request i f s)) = map q_id (restore_requests s)"
  by (simp add: update_request_def map_update_where)

section \<open>Creating\<close>

lemma create_request_get:
  assumes "create_restore_request requester p tp tn opts st s = (i, t)"
  shows "get_restore_request i s = None"
    and "\<exists>q. get_restore_request i t = Some q \<and> q_id q = i \<and> q_requester q = requester \<and>
      q_snapshot_id q = p_snapshot_id p \<and> q_target_platform q = tp \<and> q_target_name q = tn \<and>
      q_options q = opts \<and> q_status q = st \<and> q_approved_by q = None"
    and "k \<noteq> i \<Longrightarrow> get_restore_request k t = get_restore_request k s"
    and "log_step s t"
    and "recovery_points t = recovery_points s" "recovery_copies t = recovery_copies s" "jobs t = jobs s"
    and "clock t = clock s"
    and "requests_ok s \<Longrightarrow> requests_ok t"
proof -
  let ?i = "next_rowid q_id (restore_requests s)"
  from assms have i: "i = ?i" by (simp add: create_restore_request_def utcnow_eq insert_row_def Let_def)
  show "get_restore_request i s = None"
    by (simp add: get_restore_request_def i row_by_None next_rowid_fresh)
  then have fresh: "row_by q_id i (restore_requests s) = None" by (simp add: get_restore_request_def)
  obtain q where q: "restore_requests t = restore_requests s @ [q]" "q_id q = i" "q_requester q = requester"
    "q_snapshot_id q = p_snapshot_id p" "q_target_platform q = tp" "q_target_name q = tn"
    "q_options q = opts" "q_status q = st" "q_approved_by q = None"
    using assms by (auto simp: create_restore_request_def utcnow_eq insert_row_def Let_def audit_frame)
  then show "\<exists>q. get_restore_request i t = Some q \<and> q_id q = i \<and> q_requester q = requester \<and>
      q_snapshot_id q = p_snapshot_id p \<and> q_target_platform q = tp \<and> q_target_name q = tn \<and>
      q_options q = opts \<and> q_status q = st \<and> q_approved_by q = None"
    using fresh by (intro exI [of _ q]) (simp add: get_restore_request_def row_by_append)
  show "get_restore_request k t = get_restore_request k s" if "k \<noteq> i"
    using that q(1,2) by (auto simp: get_restore_request_def row_by_append split: option.split)
  show "log_step s t"
    using assms
    by (auto simp: create_restore_request_def utcnow_eq insert_row_def Let_def
        intro!: log_step_audit_same)
  show "recovery_points t = recovery_points s" "recovery_copies t = recovery_copies s" "jobs t = jobs s"
    "clock t = clock s"
    using assms by (auto simp: create_restore_request_def utcnow_eq insert_row_def Let_def audit_frame)
  show "requests_ok t" if "requests_ok s"
    using that q(1,2) next_rowid_fresh [of q_id "restore_requests s"] \<open>jobs t = jobs s\<close>
    by (simp add: requests_ok_def i)
qed

section \<open>Approving, starting, finishing\<close>

lemma approve_effect:
  assumes "approve_restore i approver four_eyes s = (r, t)"
  shows "log_step s t" "recovery_points t = recovery_points s" "recovery_copies t = recovery_copies s"
    "jobs t = jobs s" "clock t = clock s" "k \<noteq> i \<Longrightarrow> get_restore_request k t = get_restore_request k s"
    "requests_ok s \<Longrightarrow> requests_ok t"
  using assms
  by (auto simp: approve_restore_def utcnow_eq Let_def audit_frame update_request_frame
      requests_ok_def ids_update_request log_step_refl log_step_audit_same
      split: option.splits if_splits)

lemma approve_Inr_iff:
  "(\<exists>t. approve_restore i approver four_eyes s = (Inr (), t)) \<longleftrightarrow>
     (\<exists>q. get_restore_request i s = Some q \<and> q_status q = ''pending_approval'' \<and>
        \<not> (four_eyes \<and> q_requester q = approver))"
  by (auto simp: approve_restore_def Let_def split: option.split prod.split)

lemma approve_Inl: "approve_restore i approver four_eyes s = (Inl e, t) \<Longrightarrow> t = s"
  by (auto simp: approve_restore_def Let_def split: option.splits if_splits prod.splits)

lemma approve_get:
  assumes "approve_restore i approver four_eyes s = (Inr (), t)" "get_restore_request i s = Some q"
  shows "get_restore_request i t =
    Some (q\<lparr>q_status := ''approved'', q_approved_by := Some approver,
      q_approved_at := Some (isoformat (clock s (reads s)))\<rparr>)"
  using assms by (auto simp: approve_restore_def utcnow_eq Let_def split: if_splits)

lemma start_effect:
  assumes "start_restore i actor s = (r, t)"
  shows "log_step s t" "recovery_points t = recovery_points s" "recovery_copies t = recovery_copies s"
    "jobs t = jobs s" "clock t = clock s" "k \<noteq> i \<Longrightarrow> get_restore_request k t = get_restore_request k s"
    "requests_ok s \<Longrightarrow> requests_ok t"
  using assms
  by (auto simp: start_restore_def utcnow_eq Let_def audit_frame update_request_frame
      requests_ok_def ids_update_request log_step_refl log_step_audit_same
      split: option.splits if_splits)

lemma start_Inl: "start_restore i actor s = (Inl e, t) \<Longrightarrow> t = s"
  by (auto simp: start_restore_def Let_def split: option.splits if_splits prod.splits)

lemma start_Inr:
  assumes "start_restore i actor s = (Inr q', t)"
  shows "\<exists>q. get_restore_request i s = Some q \<and> (q_status q = ''approved'' \<or> q_status q = ''ready'') \<and>
    q' = q\<lparr>q_status := ''running'', q_started_at := Some (isoformat (clock s (reads s)))\<rparr> \<and>
    get_restore_request i t = Some q'"
  using assms by (auto simp: start_restore_def utcnow_eq Let_def split: option.splits if_splits)

lemma finish_get:
  "get_restore_request k (finish_restore i success result error s) =
     (if k = i then map_option (\<lambda>q. q\<lparr>q_status := (if success then ''success'' else ''failed''),
           q_finished_at := Some (isoformat (clock s (reads s))), q_result := Some result, q_error := error\<rparr>)
         (get_restore_request k s)
      else get_restore_request k s)"
  by (simp add: finish_restore_def utcnow_eq)

lemma finish_restore_frame [frame_simps]:
  "jobs (finish_restore i b r e s) = jobs s"
  "recovery_points (finish_restore i b r e s) = recovery_points s"
  "recovery_copies (finish_restore i b r e s) = recovery_copies s"
  "audit_events (finish_restore i b r e s) = audit_events s"
  "clock (finish_restore i b r e s) = clock s"
  "requests_ok (finish_restore i b r e s) = requests_ok s"
  by (simp_all add: finish_restore_def utcnow_eq update_request_frame requests_ok_def ids_update_request)

section \<open>Jobs\<close>

lemma start_job_get:
  assumes "start_job platform vm name s = (i, t)"
  shows "get_job i s = None"
    and "\<exists>j. get_job i t = Some j \<and> j_id j = i \<and> j_status j = ''running'' \<and> j_platform j = platform \<and>
      j_vm_id j = vm \<and> j_snapshot_id j = None"
    and "k \<noteq> i \<Longrightarrow> get_job k t = get_job k s"
    and "recovery_points t = recovery_points s" "recovery_copies t = recovery_copies s"
    "restore_requests t = restore_requests s" "audit_events t = audit_events s" "clock t = clock s"
proof -
  let ?i = "next_rowid j_id (jobs s)"
  from assms have i: "i = ?i" by (simp add: start_job_def utcnow_eq insert_row_def Let_def)
  show "get_job i s = None" by (simp add: get_job_def i row_by_None next_rowid_fresh)
  then have fresh: "row_by j_id i (jobs s) = None" by (simp add: get_job_def)
  obtain j where j: "jobs t = jobs s @ [j]" "j_id j = i" "j_status j = ''running''"
    "j_platform j = platform" "j_vm_id j = vm" "j_snapshot_id j = None"
    using assms by (auto simp: start_job_def utcnow_eq insert_row_def Let_def)
  then show "\<exists>j. get_job i t = Some j \<and> j_id j = i \<and> j_status j = ''running'' \<and> j_platform j = platform \<and>
      j_vm_id j = vm \<and> j_snapshot_id j = None"
    using fresh by (intro exI [of _ j]) (simp add: get_job_def row_by_append)
  show "get_job k t = get_job k s" if "k \<noteq> i"
    using that j(1,2) by (auto simp: get_job_def row_by_append split: option.split)
  show "recovery_points t = recovery_points s" "recovery_copies t = recovery_copies s"
    "restore_requests t = restore_requests s" "audit_events t = audit_events s" "clock t = clock s"
    using assms by (auto simp: start_job_def utcnow_eq insert_row_def Let_def)
qed

lemma get_job_same: "jobs t = jobs s \<Longrightarrow> get_job i t = get_job i s"
  by (simp add: get_job_def)

lemma get_job_finish:
  "get_job k (finish_job i status sid err s) =
     (if k = i then map_option (\<lambda>j. j\<lparr>j_finished_at := Some (isoformat (clock s (reads s))),
        j_status := status, j_snapshot_id := sid, j_error := err\<rparr>) (get_job k s) else get_job k s)"
  by (cases "get_job k s")
    (auto simp: finish_job_def get_job_def utcnow_eq row_by_update_where dest: row_by_Some)

lemma finish_job_frame [frame_simps]:
  "recovery_points (finish_job i a b c s) = recovery_points s"
  "recovery_copies (finish_job i a b c s) = recovery_copies s"
  "restore_requests (finish_job i a b c s) = restore_requests s"
  "audit_events (finish_job i a b c s) = audit_events s"
  "clock (finish_job i a b c s) = clock s"
  by (simp_all add: finish_job_def utcnow_eq)

section \<open>Properties\<close>

text \<open>
  The approval guard: \<open>approve_restore\<close> accepts exactly a pending request and, under the
  four-eyes policy, only from somebody else than the requester. A refusal leaves the database as it
  was; an acceptance sets the request to \<open>approved\<close> with the approver's name, keeps every other
  request, and extends a valid audit chain to a valid one.
\<close>

lemma approve_guard:
  assumes "approve_restore i approver four_eyes s = (r, t)"
  shows "(r = Inr () \<longleftrightarrow>
      (\<exists>q. get_restore_request i s = Some q \<and> q_status q = ''pending_approval'' \<and>
         (four_eyes \<longrightarrow> q_requester q \<noteq> approver))) \<and>
    (r \<noteq> Inr () \<longrightarrow> t = s) \<and>
    (r = Inr () \<longrightarrow> (\<exists>q. get_restore_request i t = Some q \<and> q_status q = ''approved'' \<and>
        q_approved_by q = Some approver)) \<and>
    (k \<noteq> i \<longrightarrow> get_restore_request k t = get_restore_request k s) \<and> log_step s t"
proof -
  have "r = Inr () \<longleftrightarrow> (\<exists>t. approve_restore i approver four_eyes s = (Inr (), t))"
    using assms by auto
  moreover have "t = s" if "r \<noteq> Inr ()"
    using that assms approve_Inl by (cases r) auto
  moreover have "\<exists>q. get_restore_request i t = Some q \<and> q_status q = ''approved'' \<and> q_approved_by q = Some approver"
    if r: "r = Inr ()"
  proof -
    have eq: "approve_restore i approver four_eyes s = (Inr (), t)" using assms r by simp
    then obtain q where "get_restore_request i s = Some q" using approve_Inr_iff by blast
    from approve_get [OF eq this] show ?thesis by simp
  qed
  ultimately show ?thesis
    using approve_effect(1,6) [OF assms] unfolding approve_Inr_iff by auto
qed

definition sample_request :: "nat \<Rightarrow> string \<Rightarrow> string \<Rightarrow> restore_request" where
  "sample_request i requester status =
     \<lparr>q_id = i, q_created_at = ''2026-01-01T00:00:00+00:00'', q_requester = requester,
      q_snapshot_id = ''s1'', q_source_platform = ''vsphere'', q_vm_id = ''vm-1'', q_vm_name = ''db'',
      q_target_platform = ''vsphere'', q_target_name = ''db-restored'', q_options = [],
      q_status = status, q_approved_by = None, q_approved_at = None, q_started_at = None,
      q_finished_at = None, q_result = None, q_error = None\<rparr>"

text \<open>
  The execution guard: \<open>start_restore\<close> accepts exactly a request that is \<open>approved\<close> or
  \<open>ready\<close>. A refusal leaves the database as it was; an acceptance marks the request
  \<open>running\<close>, so a second start of the same request is refused.
\<close>

lemma start_guard:
  assumes "start_restore i actor s = (r, t)"
  shows "((\<exists>q. r = Inr q) \<longleftrightarrow>
      (\<exists>q. get_restore_request i s = Some q \<and> q_status q \<in> {''approved'', ''ready''})) \<and>
    (\<forall>e. r = Inl e \<longrightarrow> t = s) \<and>
    (\<forall>q. r = Inr q \<longrightarrow> get_restore_request i t = Some q \<and> q_status q = ''running'' \<and>
       start_restore i actor' t =
         (Inl (ValueError ''restore request cannot execute from status running''), t))"
proof -
  have eq: "(\<exists>q. r = Inr q) \<longleftrightarrow>
      (\<exists>q. get_restore_request i s = Some q \<and> q_status q \<in> {''approved'', ''ready''})"
    using assms by (auto simp: start_restore_def Let_def split: option.splits if_splits prod.splits)
  have "get_restore_request i t = Some q \<and> q_status q = ''running''" if "r = Inr q" for q
    using start_Inr [of i actor s q t] assms that by auto
  then show ?thesis
    using eq assms start_Inl [of i actor s] by (auto simp: start_restore_def [of i actor' t])
qed

end
