(* ===== verification/Json_Read.thy ===== *)
theory Json_Read
  imports Json "HOL-Library.Multiset"
begin

text \<open>
  \<open>json.loads\<close>: whitespace, the literals, numbers by the module's \<open>NUMBER_RE\<close>, strings with
  their escapes and the two containers; a repeated key of an object keeps its first place and its last
  value, as in a Python dictionary. Texts with a code point above 255 or with \<open>NaN\<close> are
  outside the model and are rejected. Reading back what \<open>dumps\<close> wrote gives the value with the
  keys of every object sorted.
\<close>

section \<open>Strings and numbers\<close>

definition skip :: "string \<Rightarrow> string" where
  "skip s = dropWhile (\<lambda>c. List.member [CHR 0x20, CHR 0x09, CHR 0x0A, CHR 0x0D] c) s"

definition is_hex :: "char \<Rightarrow> bool" where
  "is_hex c \<longleftrightarrow> List.member ''0123456789abcdef'' c"

definition read_char :: "string \<Rightarrow> (char \<times> string) option" where
  "read_char s =
     (if starts_with [CHR 0x5C, CHR ''/''] s then Some (CHR ''/'', drop 2 s)
      else if starts_with [CHR 0x5C, CHR ''u''] s \<and>
        \<not> (starts_with ''00'' (drop 2 s) \<and>
           list_all is_hex (take 2 (drop 4 s)))
      then None
      else unesc s)"

lemma unesc_shorter: "unesc s = Some (c, r) \<Longrightarrow> length r < length s"
  by (cases s rule: unesc.cases) (auto split: if_splits list.splits)

lemma read_char_shorter: "read_char s = Some (c, r) \<Longrightarrow> length r < length s"
  by (auto simp: read_char_def starts_with_iff dest: unesc_shorter split: if_splits)

function read_chars :: "string \<Rightarrow> (string \<times> string) option" where
  "read_chars s =
     (case s of
        [] \<Rightarrow> None
      | c # r \<Rightarrow>
          if c = CHR 0x22 then Some ([], r)
          else if c < CHR 0x20 then None
          else case read_char s of
            None \<Rightarrow> None
          | Some (d, q) \<Rightarrow> map_option (\<lambda>(ds, z). (d # ds, z)) (read_chars q))"
  by pat_completeness auto
termination by (relation "measure length") (auto dest: read_char_shorter)

declare read_chars.simps [simp del]

definition is_digit :: "char \<Rightarrow> bool" where
  "is_digit c \<longleftrightarrow> CHR ''0'' \<le> c \<and> c \<le> CHR ''9''"

definition span_digits :: "string \<Rightarrow> string \<times> string" where
  "span_digits s = (takeWhile is_digit s, dropWhile is_digit s)"

text \<open>The fraction and the exponent of a number, empty when the text does not go on as one.\<close>

definition read_frac :: "string \<Rightarrow> string \<times> string" where
  "read_frac s =
     (case s of
        c # r \<Rightarrow> (let (ds, q) = span_digits r in
                   if c = CHR ''.'' \<and> ds \<noteq> [] then (c # ds, q) else ([], s))
      | [] \<Rightarrow> ([], s))"

definition read_exp :: "string \<Rightarrow> string \<times> string" where
  "read_exp s =
     (case s of
        c # r \<Rightarrow>
          (let (sg, r') = (case r of d # q \<Rightarrow> if d = CHR ''+'' \<or> d = CHR ''-'' then ([d], q) else ([], r)
                           | [] \<Rightarrow> ([], r));
               (ds, q) = span_digits r'
           in if (c = CHR ''e'' \<or> c = CHR ''E'') \<and> ds \<noteq> [] then (c # sg @ ds, q) else ([], s))
      | [] \<Rightarrow> ([], s))"

definition read_number :: "string \<Rightarrow> (json \<times> string) option" where
  "read_number s =
     (let (neg, r) = (case s of c # q \<Rightarrow> if c = CHR ''-'' then (True, q) else (False, s) | [] \<Rightarrow> (False, s));
          (ds, q) = (case r of c # z \<Rightarrow> if c = CHR ''0'' then (''0'', z) else span_digits r | [] \<Rightarrow> ([], r));
          (fr, q1) = read_frac q;
          (ex, q2) = read_exp q1
      in if ds = [] then None
         else if fr @ ex = []
         then map_option (\<lambda>n. (JInt (if neg then - int n else int n), q2)) (read_digits 0 ds)
         else Some (JFloat ((if neg then ''-'' else []) @ ds @ fr @ ex), q2))"

section \<open>Values\<close>

text \<open>\<open>dict(pairs)\<close>.\<close>

definition obj_of :: "(string \<times> json) list \<Rightarrow> json" where
  "obj_of kvs = JObj (foldl (\<lambda>d (k, v). jset k v d) [] kvs)"

fun read_value :: "nat \<Rightarrow> string \<Rightarrow> (json \<times> string) option"
  and read_items :: "nat \<Rightarrow> string \<Rightarrow> (json list \<times> string) option"
  and read_members :: "nat \<Rightarrow> string \<Rightarrow> ((string \<times> json) list \<times> string) option"
where
  "read_value 0 s = None"
| "read_value (Suc n) s =
     (if starts_with [CHR 0x22] s then map_option (\<lambda>(t, q). (JStr t, q)) (read_chars (tl s))
      else if starts_with ''['' s then
        (if starts_with '']'' (skip (tl s)) then Some (JList [], tl (skip (tl s)))
         else map_option (\<lambda>(vs, q). (JList vs, q)) (read_items n (skip (tl s))))
      else if starts_with ''{'' s then
        (if starts_with ''}'' (skip (tl s)) then Some (JObj [], tl (skip (tl s)))
         else map_option (\<lambda>(kvs, q). (obj_of kvs, q)) (read_members n (skip (tl s))))
      else if starts_with ''null'' s then Some (JNull, drop 4 s)
      else if starts_with ''true'' s then Some (JBool True, drop 4 s)
      else if starts_with ''false'' s then Some (JBool False, drop 5 s)
      else read_number s)"
| "read_items 0 s = None"
| "read_items (Suc n) s =
     (case read_value n s of
        None \<Rightarrow> None
      | Some (v, q) \<Rightarrow>
          if starts_with '','' (skip q)
          then map_option (\<lambda>(vs, z). (v # vs, z)) (read_items n (skip (tl (skip q))))
          else if starts_with '']'' (skip q) then Some ([v], tl (skip q))
          else None)"
| "read_members 0 s = None"
| "read_members (Suc n) s =
     (if starts_with [CHR 0x22] s then
        (case read_chars (tl s) of
           None \<Rightarrow> None
         | Some (k, q) \<Rightarrow>
             if starts_with '':'' (skip q) then
               (case read_value n (skip (tl (skip q))) of
                  None \<Rightarrow> None
                | Some (v, z) \<Rightarrow>
                    if starts_with '','' (skip z)
                    then map_option (\<lambda>(kvs, y). ((k, v) # kvs, y)) (read_members n (skip (tl (skip z))))
                    else if starts_with ''}'' (skip z) then Some ([(k, v)], tl (skip z))
                    else None)
             else None)
      else None)"

text \<open>Every level of nesting takes at least one character, and two calls.\<close>

definition loads :: "string \<Rightarrow> json option" where
  "loads s =
     (case read_value (2 * length s + 2) (skip s) of
        None \<Rightarrow> None
      | Some (v, r) \<Rightarrow> if skip r = [] then Some v else None)"

section \<open>Reading back what was written\<close>

text \<open>The value with the keys of every object in order, and the values the code builds: distinct
  keys, and floats whose text is a float literal.\<close>

fun canon :: "json \<Rightarrow> json" where
  "canon (JList xs) = JList (map canon xs)"
| "canon (JObj kvs) = JObj (sort_key fst (map (\<lambda>(k, v). (k, canon v)) kvs))"
| "canon v = v"

fun jwf :: "json \<Rightarrow> bool" where
  "jwf (JList xs) \<longleftrightarrow> list_all jwf xs"
| "jwf (JObj kvs) \<longleftrightarrow> distinct (map fst kvs) \<and> list_all (\<lambda>(k, v). jwf v) kvs"
| "jwf (JFloat t) \<longleftrightarrow> read_number t = Some (JFloat t, [])"
| "jwf v \<longleftrightarrow> True"

text \<open>What may follow a value inside a text: nothing that could continue a number.\<close>

definition ends_value :: "string \<Rightarrow> bool" where
  "ends_value r \<longleftrightarrow> (case r of [] \<Rightarrow> True | c # _ \<Rightarrow> \<not> is_digit c \<and> \<not> List.member ''.eE+-'' c)"

lemma hex_digits_are_hex: "list_all (\<lambda>n. is_hex (hex_digit n)) [0..<16]"
  by code_simp

lemma digit_char_0: "digit_char 0 = CHR ''0''"
  by code_simp

lemma esc_read:
  "read_char (esc c @ r) = Some (c, r) \<and> (\<exists>e q. esc c = e # q \<and> e \<noteq> CHR 0x22 \<and> \<not> e < CHR 0x20)"
proof (cases "map_of escape_dct c")
  case None
  have hex: "is_hex (hex_digit n)" if "n < 16" for n
    using hex_digits_are_hex that by (simp add: list_all_iff)
  have "of_char c div 16 < (16::nat)" by (simp add: div_less_iff_less_mult)
  then have "read_char (esc c @ r) = Some (c, r)"
    using None escape_dct_None [OF None] hex_digits_char [of c] unesc_esc [of c r]
    by (auto simp: read_char_def esc_def starts_with_def hex)
  then show ?thesis using None escape_dct_None [OF None] by (simp add: esc_def not_less)
next
  case (Some e)
  then have "e \<noteq> CHR ''/''" "e \<noteq> CHR ''u''" by (auto simp: escape_dct_def split: if_splits)
  then show ?thesis
    using Some unesc_esc [of c r] by (simp add: read_char_def esc_def starts_with_def)
qed

lemma read_chars_escs: "read_chars (concat (map esc s) @ CHR 0x22 # r) = Some (s, r)"
proof (induction s)
  case Nil
  then show ?case by (simp add: read_chars.simps)
next
  case (Cons c s)
  let ?q = "concat (map esc s) @ CHR 0x22 # r"
  obtain e z where "esc c = e # z" "e \<noteq> CHR 0x22" "\<not> e < CHR 0x20" using esc_read by blast
  moreover have "read_char (esc c @ ?q) = Some (c, ?q)" using esc_read by blast
  ultimately show ?case using Cons by (subst read_chars.simps) simp
qed

lemma read_chars_dumps [simp]: "read_chars (tl (dumps_str s @ r)) = Some (s, r)"
  using read_chars_escs by (simp add: dumps_str_def)

lemma starts_dumps_str [simp]: "starts_with [CHR 0x22] (dumps_str s @ r)"
  by (simp add: dumps_str_def starts_with_def)

lemma skip_dumps_str [simp]: "skip (dumps_str s @ r) = dumps_str s @ r"
  by (simp add: dumps_str_def skip_def)

lemma span_ext: "ends_value r \<Longrightarrow> span_digits (s @ r) = (fst (span_digits s), snd (span_digits s) @ r)"
proof (induction s)
  case Nil
  then show ?case by (cases r) (auto simp: span_digits_def ends_value_def)
next
  case (Cons c s)
  then show ?case by (simp add: span_digits_def)
qed

lemma read_frac_ext: "ends_value r \<Longrightarrow> read_frac (s @ r) = (fst (read_frac s), snd (read_frac s) @ r)"
proof (cases s)
  case Nil
  then show "ends_value r \<Longrightarrow> ?thesis"
    by (cases r) (auto simp: read_frac_def ends_value_def span_digits_def)
next
  case (Cons c q)
  then show "ends_value r \<Longrightarrow> ?thesis"
    by (simp add: read_frac_def span_ext split: prod.split)
qed

lemma read_exp_ext: "ends_value r \<Longrightarrow> read_exp (s @ r) = (fst (read_exp s), snd (read_exp s) @ r)"
proof (cases s)
  case Nil
  then show "ends_value r \<Longrightarrow> ?thesis"
    by (cases r) (auto simp: read_exp_def ends_value_def split: prod.split)
next
  case (Cons c q)
  assume r: "ends_value r"
  show ?thesis
  proof (cases q)
    case Nil
    with Cons r show ?thesis
      by (cases r) (auto simp: read_exp_def ends_value_def span_digits_def split: prod.split)
  next
    case (Cons d z)
    then show ?thesis
      using \<open>s = c # q\<close> r span_ext [OF r, of q] span_ext [OF r, of z]
      by (simp add: read_exp_def Let_def split: prod.split)
  qed
qed

lemma read_number_ext:
  assumes "read_number s = Some (v, q)" "ends_value r"
  shows "read_number (s @ r) = Some (v, q @ r)"
proof -
  obtain neg z where nz: "(case s of c # q \<Rightarrow> if c = CHR ''-'' then (True, q) else (False, s) | [] \<Rightarrow> (False, s)) = (neg, z)"
    by fastforce
  have "z \<noteq> []"
    using assms(1) nz by (auto simp: read_number_def span_digits_def read_frac_def read_exp_def)
  then have nz': "(case s @ r of c # q \<Rightarrow> if c = CHR ''-'' then (True, q) else (False, s @ r) | [] \<Rightarrow> (False, s @ r)) = (neg, z @ r)"
    using nz by (cases s) (auto split: if_splits)
  obtain c z' where z: "z = c # z'" using \<open>z \<noteq> []\<close> by (cases z) auto
  then show ?thesis
    using assms span_ext [OF assms(2), of z] read_frac_ext [OF assms(2)] read_exp_ext [OF assms(2)]
    unfolding read_number_def nz nz'
    by (auto simp: Let_def split: prod.splits if_splits option.splits)
qed

lemma show_nat_digits: "list_all is_digit (show_nat n) \<and> show_nat n \<noteq> [] \<and> (0 < n \<longrightarrow> hd (show_nat n) \<noteq> CHR ''0'')"
proof (induction n rule: show_nat.induct)
  case (1 n)
  have d: "is_digit (digit_char m)" if "m < 10" for m
    using that by (simp add: is_digit_def digit_char_def less_eq_char_def)
  have z: "digit_char m \<noteq> CHR ''0''" if "m < 10" "0 < m" for m
    using that digit_char_eq_iff [of m 0] by (simp add: digit_char_0)
  show ?case
  proof (cases "n < 10")
    case True
    then show ?thesis using d z by (subst (1 2 3) show_nat.simps) simp
  next
    case False
    with 1 d show ?thesis by (subst (1 2 3) show_nat.simps) simp
  qed
qed

lemma read_show_int: "read_number (show_int i) = Some (JInt i, [])"
proof -
  have dig: "\<not> is_digit CHR ''-''" by (simp add: is_digit_def)
  have *: "\<exists>c q. show_nat n = c # q \<and> c \<noteq> CHR ''-'' \<and> (c = CHR ''0'' \<longrightarrow> show_nat n = ''0'') \<and>
      span_digits (c # q) = (show_nat n, [])" for n
  proof (cases "n = 0")
    case True
    then show ?thesis by (simp add: show_nat.simps [of 0] digit_char_0 span_digits_def is_digit_def)
  next
    case False
    then have "hd (show_nat n) \<noteq> CHR ''0''" "list_all is_digit (show_nat n)" "show_nat n \<noteq> []"
      using show_nat_digits by auto
    moreover from this have "span_digits (show_nat n) = (show_nat n, [])"
      by (simp add: span_digits_def takeWhile_eq_all_conv list_all_iff)
    ultimately show ?thesis using dig by (cases "show_nat n") auto
  qed
  obtain c q where nn: "show_nat (nat \<bar>i\<bar>) = c # q" "c \<noteq> CHR ''-''"
    "c = CHR ''0'' \<longrightarrow> show_nat (nat \<bar>i\<bar>) = ''0''" "span_digits (c # q) = (show_nat (nat \<bar>i\<bar>), [])"
    using * by blast
  have rd: "read_digits 0 (c # q) = Some (nat \<bar>i\<bar>)"
    using read_digits_show_nat [of "nat \<bar>i\<bar>"] nn(1) by simp
  show ?thesis
  proof (cases "i < 0")
    case True
    then have "show_int i = CHR ''-'' # c # q" using nn(1) by (simp add: show_int_def)
    then show ?thesis
      using True nn rd by (auto simp: read_number_def read_frac_def read_exp_def simp del: read_digits.simps)
  next
    case False
    then have "show_int i = c # q" using nn(1) by (simp add: show_int_def)
    then show ?thesis
      using False nn rd by (auto simp: read_number_def read_frac_def read_exp_def simp del: read_digits.simps)
  qed
qed

text \<open>The first character of a written value: not a blank, and not the end of a container.\<close>

lemma read_number_hd:
  "read_number t = Some x \<Longrightarrow> \<exists>c q. t = c # q \<and> (c = CHR ''-'' \<or> is_digit c)"
proof (cases t)
  case Nil
  then show "read_number t = Some x \<Longrightarrow> ?thesis" by (simp add: read_number_def split: prod.split)
next
  case (Cons c q)
  assume *: "read_number t = Some x"
  have "is_digit CHR ''0''" by (simp add: is_digit_def)
  moreover have "fst (span_digits (c # q)) = [] \<longleftrightarrow> \<not> is_digit c" by (simp add: span_digits_def)
  ultimately have "c = CHR ''-'' \<or> is_digit c"
    using * Cons by (cases "c = CHR ''-''"; cases "c = CHR ''0''")
      (auto simp: read_number_def split: prod.splits if_splits)
  with Cons show ?thesis by blast
qed

lemma dumps_hd:
  "jwf j \<Longrightarrow> \<exists>c q. dumps j = c # q \<and> \<not> List.member [CHR 0x20, CHR 0x09, CHR 0x0A, CHR 0x0D] c \<and>
     c \<noteq> CHR '']'' \<and> c \<noteq> CHR ''}''"
proof (cases j)
  case (JInt i)
  have "\<exists>c q. show_int i = c # q \<and> (is_digit c \<or> c = CHR ''-'')"
    using show_nat_digits [of "nat i"] show_nat_digits [of "nat (- i)"]
    by (cases "show_nat (nat i)"; cases "show_nat (nat (- i))") (auto simp: show_int_def)
  with JInt show ?thesis by (auto simp: is_digit_def)
next
  case (JFloat t)
  assume "jwf j"
  with JFloat have "read_number t = Some (JFloat t, [])" by simp
  from read_number_hd [OF this] obtain c q where "t = c # q" "c = CHR ''-'' \<or> is_digit c" by blast
  with JFloat show ?thesis by (auto simp: is_digit_def)
qed (auto simp: dumps_str_def)

lemma skip_dumps [simp]: "jwf j \<Longrightarrow> skip (dumps j @ r) = dumps j @ r"
  using dumps_hd [of j] by (auto simp: skip_def)

text \<open>The number of calls the reader makes on a written value.\<close>

fun cost :: "json \<Rightarrow> nat" where
  "cost (JList xs) = 2 + sum_list (map (\<lambda>x. Suc (cost x)) xs)"
| "cost (JObj kvs) = 2 + sum_list (map (\<lambda>(k, v). Suc (cost v)) kvs)"
| "cost v = 1"

definition reads_back :: "json \<Rightarrow> bool" where
  "reads_back j \<longleftrightarrow> (\<forall>n r. cost j \<le> n \<longrightarrow> ends_value r \<longrightarrow> read_value n (dumps j @ r) = Some (canon j, r))"

lemma read_items_dumps:
  assumes "xs \<noteq> []" "list_all reads_back xs" "list_all jwf xs"
    and "sum_list (map (\<lambda>x. Suc (cost x)) xs) \<le> n"
  shows "read_items n (join '','' (map dumps xs) @ CHR '']'' # r) = Some (map canon xs, r)"
  using assms
proof (induction xs arbitrary: n)
  case Nil
  then show ?case by simp
next
  case (Cons x xs)
  obtain m where n: "n = Suc m" using Cons.prems by (cases n) auto
  show ?case
  proof (cases xs)
    case Nil
    have "read_value m (dumps x @ CHR '']'' # r) = Some (canon x, CHR '']'' # r)"
      using Cons.prems n by (simp add: reads_back_def ends_value_def is_digit_def)
    then show ?thesis using Nil n by (simp add: skip_def starts_with_def)
  next
    case (Cons y ys)
    let ?q = "join '','' (map dumps xs) @ CHR '']'' # r"
    have "read_value m (dumps x @ CHR '','' # ?q) = Some (canon x, CHR '','' # ?q)"
      using Cons.prems(2,4) n by (simp add: reads_back_def ends_value_def is_digit_def)
    moreover have "read_items m ?q = Some (map canon xs, r)"
      using Cons.IH Cons.prems \<open>xs = y # ys\<close> n by simp
    moreover have "\<exists>z. ?q = dumps y @ z" "jwf y"
      using Cons.prems(3) \<open>xs = y # ys\<close> by (cases ys; simp)+
    then have "skip ?q = ?q" by (metis skip_dumps)
    ultimately show ?thesis using Cons n by (simp add: skip_def starts_with_def)
  qed
qed

text \<open>Members of an object, in the order they are written.\<close>

definition member_text :: "string \<times> json \<Rightarrow> string" where
  "member_text kv = dumps_str (fst kv) @ '':'' @ dumps (snd kv)"

lemma starts_with_single: "starts_with [c] (d # z) \<longleftrightarrow> c = d"
  by (auto simp: starts_with_def)

lemma insort_key_map:
  "insort_key fst (k, h v) (map (\<lambda>(k, v). (k, h v)) xs) = map (\<lambda>(k, v). (k, h v)) (insort_key fst (k, v) xs)"
  by (induction xs) (auto split: prod.split)

lemma sort_key_map:
  "sort_key fst (map (\<lambda>(k, v). (k, h v)) xs) = map (\<lambda>(k, v). (k, h v)) (sort_key fst xs)"
  by (induction xs) (auto simp: insort_key_map split: prod.split)

lemma dumps_obj:
  "dumps (JObj kvs) = ''{'' @ join '','' (map member_text (sort_key fst kvs)) @ ''}''"
proof -
  have "map (\<lambda>(k, t). dumps_str k @ '':'' @ t) (map (\<lambda>(k, v). (k, dumps v)) xs) = map member_text xs" for xs
    by (induction xs) (auto simp: member_text_def)
  then show ?thesis by (simp only: dumps.simps sort_key_map)
qed

lemma read_members_dumps:
  assumes "kvs \<noteq> []" "list_all (\<lambda>kv. reads_back (snd kv) \<and> jwf (snd kv)) kvs"
    and "sum_list (map (\<lambda>kv. Suc (cost (snd kv))) kvs) \<le> n"
  shows "read_members n (join '','' (map member_text kvs) @ CHR ''}'' # r) =
    Some (map (\<lambda>(k, v). (k, canon v)) kvs, r)"
  using assms
proof (induction kvs arbitrary: n)
  case Nil
  then show ?case by simp
next
  case (Cons x kvs)
  obtain m where n: "n = Suc m" using Cons.prems by (cases n) auto
  obtain k v where x: "x = (k, v)" by (cases x)
  have v: "reads_back v" "jwf v" "cost v \<le> m" using Cons.prems n x by simp_all
  have sk: "skip (CHR '':'' # z) = CHR '':'' # z" "skip (CHR '','' # z) = CHR '','' # z"
    "skip (CHR ''}'' # z) = CHR ''}'' # z" for z
    by (simp_all add: skip_def)
  show ?case
  proof (cases kvs)
    case Nil
    have "read_value m (dumps v @ CHR ''}'' # r) = Some (canon v, CHR ''}'' # r)"
      using v by (simp add: reads_back_def ends_value_def is_digit_def)
    then show ?thesis using Nil n x v(2) by (simp add: member_text_def sk starts_with_single)
  next
    case (Cons y ys)
    let ?q = "join '','' (map member_text kvs) @ CHR ''}'' # r"
    have "read_value m (dumps v @ CHR '','' # ?q) = Some (canon v, CHR '','' # ?q)"
      using v by (simp add: reads_back_def ends_value_def is_digit_def)
    moreover have "read_members m ?q = Some (map (\<lambda>(k, v). (k, canon v)) kvs, r)"
      using Cons.IH Cons.prems \<open>kvs = y # ys\<close> n by simp
    moreover have "\<exists>z. ?q = dumps_str (fst y) @ z"
      using \<open>kvs = y # ys\<close> by (cases ys) (simp_all add: member_text_def)
    then have "skip ?q = ?q" by (metis skip_dumps_str)
    moreover have "join '','' (map member_text (x # kvs)) @ CHR ''}'' # r =
        dumps_str k @ CHR '':'' # dumps v @ CHR '','' # ?q"
      using \<open>kvs = y # ys\<close> x by (simp add: member_text_def [of "(k, v)"])
    ultimately show ?thesis unfolding n x using v(2) by (simp add: sk del: join.simps list.map) simp
  qed
qed

lemma foldl_jset:
  "distinct (map fst (xs @ ys)) \<Longrightarrow> foldl (\<lambda>d (k, v). jset k v d) xs ys = xs @ ys"
proof (induction ys arbitrary: xs)
  case Nil
  then show ?case by simp
next
  case (Cons y ys)
  obtain k v where y: "y = (k, v)" by (cases y)
  have "k \<notin> fst ` set xs \<Longrightarrow> jset k v xs = xs @ [(k, v)]"
    by (induction xs) auto
  then have "jset k v xs = xs @ [y]" using Cons.prems y by simp
  then show ?case using Cons.IH [of "xs @ [y]"] Cons.prems y by simp
qed

lemma obj_of_distinct: "distinct (map fst kvs) \<Longrightarrow> obj_of kvs = JObj kvs"
  using foldl_jset [of "[]" kvs] by (simp add: obj_of_def)

lemma sum_list_sort_key: "sum_list (map f (sort_key k xs)) = (sum_list (map f xs) :: nat)"
  by (simp only: sum_mset_sum_list [symmetric] mset_map mset_sort)

lemma member_text_append: "member_text kv @ z = CHR 0x22 # tl (member_text kv @ z)"
  by (simp add: member_text_def dumps_str_def)

lemma reads_back_list:
  assumes "list_all reads_back xs" "list_all jwf xs"
  shows "reads_back (JList xs)"
  unfolding reads_back_def
proof (intro allI impI)
  fix n r assume n: "cost (JList xs) \<le> n" and r: "ends_value r"
  then obtain m where m: "n = Suc m" by (cases n) auto
  show "read_value n (dumps (JList xs) @ r) = Some (canon (JList xs), r)"
  proof (cases xs)
    case Nil
    then show ?thesis using m by (simp add: skip_def)
  next
    case (Cons x ys)
    let ?q = "join '','' (map dumps xs) @ CHR '']'' # r"
    have "jwf x" using Cons assms(2) by simp
    have "\<exists>z. ?q = dumps x @ z" using Cons by (cases ys; simp)
    then have "skip ?q = ?q" "\<not> starts_with '']'' ?q"
      using skip_dumps [OF \<open>jwf x\<close>] dumps_hd [OF \<open>jwf x\<close>] by auto
    moreover have "read_items m ?q = Some (map canon xs, r)"
      using read_items_dumps [OF _ assms] n m Cons by simp
    ultimately show ?thesis using m by (simp add: map_option_case)
  qed
qed

lemma reads_back_obj:
  assumes "list_all (\<lambda>kv. reads_back (snd kv) \<and> jwf (snd kv)) kvs" "distinct (map fst kvs)"
  shows "reads_back (JObj kvs)"
  unfolding reads_back_def
proof (intro allI impI)
  fix n r assume n: "cost (JObj kvs) \<le> n" and r: "ends_value r"
  then obtain m where m: "n = Suc m" by (cases n) auto
  let ?xs = "sort_key fst kvs"
  let ?q = "join '','' (map member_text ?xs) @ CHR ''}'' # r"
  have can: "canon (JObj kvs) = JObj (map (\<lambda>(k, v). (k, canon v)) ?xs)"
    by (simp add: sort_key_map)
  have "list_all (\<lambda>kv. reads_back (snd kv) \<and> jwf (snd kv)) ?xs" using assms(1) by (simp add: list_all_iff)
  have dum: "dumps (JObj kvs) @ r = CHR ''{'' # ?q" by (simp add: dumps_obj del: dumps.simps)
  show "read_value n (dumps (JObj kvs) @ r) = Some (canon (JObj kvs), r)"
  proof (cases ?xs)
    case Nil
    then show ?thesis unfolding dum can using m by (simp add: skip_def)
  next
    case (Cons x ys)
    have "\<exists>z. ?q = member_text x @ z" using Cons by (cases ys; simp)
    then have "skip ?q = ?q" "\<not> starts_with ''}'' ?q"
      using member_text_append [of x] by (auto simp: member_text_def dumps_str_def skip_def)
    moreover have "sum_list (map (\<lambda>kv. Suc (cost (snd kv))) ?xs) = sum_list (map (\<lambda>kv. Suc (cost (snd kv))) kvs)"
      by (rule sum_list_sort_key)
    then have "read_members m ?q = Some (map (\<lambda>(k, v). (k, canon v)) ?xs, r)"
      using \<open>list_all _ ?xs\<close> n m Cons by (intro read_members_dumps) (simp_all add: case_prod_unfold)
    moreover have "distinct (map fst (map (\<lambda>(k, v). (k, canon v)) ?xs))"
    proof -
      have "map fst (map (\<lambda>(k, v). (k, canon v)) ?xs) = map fst ?xs" by (auto simp: case_prod_unfold)
      moreover have "mset (map fst ?xs) = mset (map fst kvs)" by simp
      ultimately show ?thesis using assms(2) by (metis mset_eq_imp_distinct_iff)
    qed
    ultimately show ?thesis unfolding dum can using m by (simp add: obj_of_distinct)
  qed
qed

lemma reads_back_number: "read_number t = Some (v, []) \<Longrightarrow> ends_value r \<Longrightarrow> read_value (Suc m) (t @ r) = Some (v, r)"
proof -
  assume t: "read_number t = Some (v, [])" and r: "ends_value r"
  obtain c q where "t = c # q" "c = CHR ''-'' \<or> is_digit c" using read_number_hd [OF t] by blast
  then have "CHR 0x22 \<noteq> c" "CHR ''['' \<noteq> c" "CHR ''{'' \<noteq> c" "CHR ''n'' \<noteq> c" "CHR ''t'' \<noteq> c" "CHR ''f'' \<noteq> c"
    by (auto simp: is_digit_def)
  then show ?thesis using read_number_ext [OF t r] \<open>t = c # q\<close> by simp
qed

lemma reads_back_all: "jwf j \<Longrightarrow> reads_back j"
proof (induction j)
  case (JList xs)
  then show ?case by (intro reads_back_list) (auto simp: list_all_iff)
next
  case (JObj kvs)
  then show ?case by (intro reads_back_obj) (fastforce simp: list_all_iff)+
next
  case (JInt i)
  show ?case using reads_back_number [OF read_show_int] by (auto simp: reads_back_def dest!: Suc_le_D)
next
  case (JFloat t)
  then show ?case using reads_back_number [of t] by (auto simp: reads_back_def dest!: Suc_le_D)
next
  case (JStr t)
  have "read_value (Suc m) (dumps_str t @ r) = Some (JStr t, r)" for m r by simp
  then show ?case by (auto simp: reads_back_def dest!: Suc_le_D simp del: read_value.simps)
qed (auto simp: reads_back_def dest!: Suc_le_D)

lemma length_join: "xs \<noteq> [] \<Longrightarrow> Suc (length (join [c] xs)) = sum_list (map (\<lambda>x. Suc (length x)) xs)"
proof (induction xs)
  case (Cons x xs)
  then show ?case by (cases xs) auto
qed simp

lemma sum_list_double: "sum_list (map (\<lambda>x. 2 * f x) xs) = (2 * sum_list (map f xs) :: nat)"
  by (induction xs) auto

lemma sum_list_le: "(\<And>x. x \<in> set xs \<Longrightarrow> f x \<le> g x) \<Longrightarrow> sum_list (map f xs) \<le> (sum_list (map g xs) :: nat)"
  by (induction xs) (auto intro: add_mono)

lemma length_dumps_pos: "jwf j \<Longrightarrow> 0 < length (dumps j)"
  using dumps_hd [of j] by auto

lemma cost_bound: "jwf j \<Longrightarrow> cost j \<le> 2 * length (dumps j)"
proof (induction j)
  case (JList xs)
  have "sum_list (map (\<lambda>x. Suc (cost x)) xs) \<le> sum_list (map (\<lambda>x. 2 * Suc (length (dumps x))) xs)"
    using JList by (intro sum_list_le) (fastforce simp: list_all_iff)
  also have "\<dots> = 2 * sum_list (map (\<lambda>x. Suc (length x)) (map dumps xs))"
    by (simp only: sum_list_double map_map comp_def)
  finally show ?case
    using length_join [of "map dumps xs" "CHR '',''"] by (cases "xs = []") auto
next
  case (JObj kvs)
  let ?xs = "sort_key fst kvs"
  have "sum_list (map (\<lambda>(k, v). Suc (cost v)) kvs) \<le> sum_list (map (\<lambda>kv. 2 * Suc (length (member_text kv))) kvs)"
    using JObj by (intro sum_list_le) (fastforce simp: list_all_iff member_text_def)
  also have "\<dots> = sum_list (map (\<lambda>kv. 2 * Suc (length (member_text kv))) ?xs)"
    by (rule sum_list_sort_key [symmetric])
  also have "\<dots> = 2 * sum_list (map (\<lambda>x. Suc (length x)) (map member_text ?xs))"
    by (simp only: sum_list_double map_map comp_def)
  finally have *: "cost (JObj kvs) \<le> 2 + 2 * sum_list (map (\<lambda>x. Suc (length x)) (map member_text ?xs))" by simp
  show ?case
  proof (cases "map member_text ?xs = []")
    case True
    then have "kvs = []" by (metis length_0_conv length_map length_sort)
    then show ?thesis by simp
  next
    case False
    with * length_join [OF False, of "CHR '',''"] show ?thesis unfolding dumps_obj by simp
  qed
next
  case (JInt i)
  then show ?case using length_dumps_pos [of "JInt i"] by (simp add: Suc_le_eq)
next
  case (JFloat t)
  then show ?case using length_dumps_pos [of "JFloat t"] by (simp add: Suc_le_eq)
qed (simp_all add: dumps_str_def)

text \<open>Reading back what \<open>dumps\<close> wrote; so two values with the same text are the same value.\<close>

lemma loads_dumps: "jwf j \<Longrightarrow> loads (dumps j) = Some (canon j)"
proof -
  assume j: "jwf j"
  have "read_value (2 * length (dumps j) + 2) (dumps j @ []) = Some (canon j, [])"
    using reads_back_all [OF j, unfolded reads_back_def, rule_format, of "2 * length (dumps j) + 2" "[]"]
      cost_bound [OF j] by (simp add: ends_value_def)
  moreover have "skip (dumps j) = dumps j" using skip_dumps [OF j, of "[]"] by simp
  ultimately show ?thesis by (simp add: loads_def skip_def)
qed

lemma dumps_inject: "jwf a \<Longrightarrow> jwf b \<Longrightarrow> dumps a = dumps b \<Longrightarrow> canon a = canon b"
  by (metis loads_dumps option.inject)

end
