(* ===== verification/Integrity.thy ===== *)
theory Integrity
  imports Json_Read Sha256 "HOL-Library.Option_ord"
begin

text \<open>
  The backup manifests of \<open>integrity.py\<close>. A directory is the list of its regular files (path
  components below the root, contents as bytes, modification time), what \<open>json.loads\<close> gives for the
  manifest file at its root, and the files that a manifest path leaving the root (absolute, or with a
  \<open>..\<close> component) leads to. The lemmas show that a directory verifies against the manifest built
  from it, and characterise exactly which other directories verify: the files above the hash limit
  are compared by size only, and additional files are not looked at.
\<close>

record file_entry =
  f_parts :: "string list"
  f_data :: string
  f_mtime_ns :: nat

datatype manifest_file = No_Manifest | Bad_Manifest | Manifest json

record dir =
  d_files :: "file_entry list"
  d_manifest :: manifest_file
  d_outside :: "string \<Rightarrow> file_entry option"

definition SMALL_FILE_HASH_LIMIT :: nat where
  "SMALL_FILE_HASH_LIMIT = 64 * 1024 * 1024"

definition MANIFEST_NAME :: string where
  "MANIFEST_NAME = ''.immutavault-manifest.json''"

definition sha256_file :: "file_entry \<Rightarrow> string" where
  "sha256_file f = sha256_hex (f_data f)"

definition rel_path :: "file_entry \<Rightarrow> string" where
  "rel_path f = join ''/'' (f_parts f)"

section \<open>Building\<close>

record manifest_row =
  m_path :: string
  m_size :: nat
  m_mtime_ns :: nat
  m_sha256 :: "string option"

definition manifest_row_of :: "file_entry \<Rightarrow> manifest_row" where
  "manifest_row_of f =
     \<lparr>m_path = rel_path f, m_size = length (f_data f), m_mtime_ns = f_mtime_ns f,
      m_sha256 = (if length (f_data f) \<le> SMALL_FILE_HASH_LIMIT then Some (sha256_file f) else None)\<rparr>"

definition row_json :: "manifest_row \<Rightarrow> json" where
  "row_json r = JObj
     [(''path'', JStr (m_path r)), (''size'', JInt (int (m_size r))), (''mtime_ns'', JInt (int (m_mtime_ns r))),
      (''sha256'', (case m_sha256 r of None \<Rightarrow> JNull | Some h \<Rightarrow> JStr h))]"

definition manifest_json :: "manifest_row list \<Rightarrow> json" where
  "manifest_json rows = JObj
     [(''version'', JInt 1), (''files'', JList (map row_json rows)),
      (''total_bytes'', JInt (int (sum_list (map m_size rows)))), (''file_count'', JInt (int (length rows)))]"

text \<open>\<open>sorted(p for p in root.rglob("*") if p.is_file() and p.name != MANIFEST_NAME)\<close>; paths are
  ordered by their components.\<close>

definition manifest_files :: "file_entry list \<Rightarrow> file_entry list" where
  "manifest_files fs = sort_key f_parts (filter (\<lambda>f. last (f_parts f) \<noteq> MANIFEST_NAME) fs)"

definition manifest_rows :: "file_entry list \<Rightarrow> manifest_row list" where
  "manifest_rows fs = map manifest_row_of (manifest_files fs)"

definition build_manifest :: "dir \<Rightarrow> (json \<times> string) \<times> dir" where
  "build_manifest d =
     (let manifest = manifest_json (manifest_rows (d_files d));
          digest = sha256_hex (dumps manifest)
      in ((manifest, digest), d\<lparr>d_manifest := Manifest manifest\<rparr>))"

section \<open>Verifying\<close>

text \<open>\<open>root / path\<close> as a file: \<open>.\<close> and empty components are dropped.\<close>

definition path_parts :: "string \<Rightarrow> string list" where
  "path_parts p = filter (\<lambda>c. c \<noteq> [] \<and> c \<noteq> ''.'') (split_on (CHR ''/'') p)"

definition lookup_file :: "dir \<Rightarrow> string \<Rightarrow> file_entry option" where
  "lookup_file d p =
     (if starts_with ''/'' p \<or> List.member (split_on (CHR ''/'') p) ''..'' then d_outside d p
      else find (\<lambda>f. f_parts f = path_parts p) (d_files d))"

text \<open>\<open>int(value)\<close> on what the manifest holds for a size.\<close>

definition size_of_item :: "json \<Rightarrow> int res" where
  "size_of_item v =
     (case v of JInt i \<Rightarrow> Inr i | JBool b \<Rightarrow> Inr (if b then 1 else 0)
      | JStr t \<Rightarrow> (case read_digits 0 t of
            Some n \<Rightarrow> if t = [] then Inl (ValueError ''invalid literal for int()'') else Inr (int n)
          | None \<Rightarrow> Inl (ValueError ''invalid literal for int()''))
      | _ \<Rightarrow> Inl (TypeError ''int() argument must be a string or a number''))"

definition check_item :: "dir \<Rightarrow> json \<Rightarrow> string list res" where
  "check_item d item =
     (case jget ''path'' item of
        Some (JStr p) \<Rightarrow>
          (case lookup_file d p of
             None \<Rightarrow> Inr [''missing: '' @ p]
           | Some f \<Rightarrow>
               (case jget ''size'' item of
                  None \<Rightarrow> Inl (KeyError ''size'')
                | Some sz \<Rightarrow>
                    (case size_of_item sz of
                       Inl e \<Rightarrow> Inl e
                     | Inr n \<Rightarrow>
                         if int (length (f_data f)) \<noteq> n then Inr [''size mismatch: '' @ p]
                         else (case jget ''sha256'' item of
                             Some h \<Rightarrow> if jtruthy h \<and> JStr (sha256_file f) \<noteq> h
                                       then Inr [''hash mismatch: '' @ p] else Inr []
                           | None \<Rightarrow> Inr []))))
      | Some _ \<Rightarrow> Inl (TypeError ''unsupported operand type(s) for /'')
      | None \<Rightarrow> Inl (KeyError ''path''))"

fun check_items :: "dir \<Rightarrow> json list \<Rightarrow> string list res" where
  "check_items d [] = Inr []"
| "check_items d (i # is) =
     (case check_item d i of
        Inl e \<Rightarrow> Inl e
      | Inr es \<Rightarrow> (case check_items d is of Inl e \<Rightarrow> Inl e | Inr es' \<Rightarrow> Inr (es @ es')))"

definition verify_manifest :: "dir \<Rightarrow> string option \<Rightarrow> (bool \<times> string list) res" where
  "verify_manifest d expected_digest =
     (case d_manifest d of
        No_Manifest \<Rightarrow> Inr (False, [''manifest missing''])
      | Bad_Manifest \<Rightarrow> Inl (ValueError ''invalid JSON'')
      | Manifest (JObj kvs) \<Rightarrow>
          (let manifest = JObj kvs;
               errors = (case expected_digest of
                   Some dg \<Rightarrow> if dg \<noteq> [] \<and> sha256_hex (dumps manifest) \<noteq> dg
                              then [''manifest digest mismatch''] else []
                 | None \<Rightarrow> [])
           in case jget ''files'' manifest of
                None \<Rightarrow> Inr (errors = [], errors)
              | Some (JList items) \<Rightarrow>
                  (case check_items d items of
                     Inl e \<Rightarrow> Inl e
                   | Inr es \<Rightarrow> Inr (errors @ es = [], errors @ es))
              | Some _ \<Rightarrow> Inl (TypeError ''object is not iterable''))
      | Manifest _ \<Rightarrow> Inl (OtherError ''object has no attribute get''))"

section \<open>Paths\<close>

definition plain_parts :: "string list \<Rightarrow> bool" where
  "plain_parts ps \<longleftrightarrow> ps \<noteq> [] \<and>
     list_all (\<lambda>c. c \<noteq> [] \<and> c \<noteq> ''.'' \<and> c \<noteq> ''..'' \<and> CHR ''/'' \<notin> set c) ps"

definition dir_ok :: "dir \<Rightarrow> bool" where
  "dir_ok d \<longleftrightarrow> distinct (map f_parts (d_files d)) \<and> list_all (\<lambda>f. plain_parts (f_parts f)) (d_files d)"

lemma path_parts_join:
  assumes "plain_parts ps"
  shows "split_on (CHR ''/'') (join ''/'' ps) = ps" "path_parts (join ''/'' ps) = ps"
    "\<not> starts_with ''/'' (join ''/'' ps)"
proof -
  show sp: "split_on (CHR ''/'') (join ''/'' ps) = ps"
    using assms by (intro split_on_join) (auto simp: plain_parts_def list_all_iff)
  show "path_parts (join ''/'' ps) = ps"
    using assms by (simp add: path_parts_def sp plain_parts_def list_all_iff filter_id_conv)
  obtain w ws where ws: "ps = w # ws" "w \<noteq> []" "CHR ''/'' \<notin> set w"
    using assms by (cases ps) (auto simp: plain_parts_def)
  then have "\<exists>r. join ''/'' ps = w @ r" by (cases ws) auto
  with ws(2,3) show "\<not> starts_with ''/'' (join ''/'' ps)" by (cases w) auto
qed

lemma lookup_rel_path:
  assumes "plain_parts ps"
  shows "lookup_file d (join ''/'' ps) = find (\<lambda>f. f_parts f = ps) (d_files d)"
  using assms path_parts_join [OF assms]
  by (auto simp: lookup_file_def plain_parts_def list_all_iff)

lemma find_parts:
  assumes "distinct (map f_parts fs)" "f \<in> set fs"
  shows "find (\<lambda>g. f_parts g = f_parts f) fs = Some f"
  using assms by (induction fs) (auto simp: rev_image_eqI)

section \<open>What verification compares\<close>

text \<open>A file agrees with a recorded one: the same size, and for files up to the limit the same digest.\<close>

definition agrees :: "file_entry \<Rightarrow> file_entry \<Rightarrow> bool" where
  "agrees f g \<longleftrightarrow> length (f_data g) = length (f_data f) \<and>
     (length (f_data f) \<le> SMALL_FILE_HASH_LIMIT \<longrightarrow> sha256_file g = sha256_file f)"

lemma sha256_file_nonempty [simp]: "sha256_file f \<noteq> []"
  by (simp add: sha256_file_def)

lemma check_item_row:
  assumes "plain_parts (f_parts f)"
  shows "\<exists>es. check_item d (row_json (manifest_row_of f)) = Inr es \<and>
    (es = [] \<longleftrightarrow> (\<exists>g. find (\<lambda>g. f_parts g = f_parts f) (d_files d) = Some g \<and> agrees f g))"
  using lookup_rel_path [OF assms, of d]
  by (cases "find (\<lambda>g. f_parts g = f_parts f) (d_files d)")
    (auto simp: check_item_def row_json_def manifest_row_of_def rel_path_def size_of_item_def agrees_def)

lemma check_items_rows:
  assumes "list_all (\<lambda>f. plain_parts (f_parts f)) fs"
  shows "\<exists>es. check_items d (map row_json (map manifest_row_of fs)) = Inr es \<and>
    (es = [] \<longleftrightarrow> list_all (\<lambda>f. \<exists>g. find (\<lambda>g. f_parts g = f_parts f) (d_files d) = Some g \<and> agrees f g) fs)"
  using assms
proof (induction fs)
  case Nil
  then show ?case by simp
next
  case (Cons f fs)
  obtain es where "check_item d (row_json (manifest_row_of f)) = Inr es"
    "es = [] \<longleftrightarrow> (\<exists>g. find (\<lambda>g. f_parts g = f_parts f) (d_files d) = Some g \<and> agrees f g)"
    using check_item_row [of f d] Cons.prems by auto
  moreover obtain es' where "check_items d (map row_json (map manifest_row_of fs)) = Inr es'"
    "es' = [] \<longleftrightarrow> list_all (\<lambda>f. \<exists>g. find (\<lambda>g. f_parts g = f_parts f) (d_files d) = Some g \<and> agrees f g) fs"
    using Cons by auto
  ultimately show ?case by simp
qed

lemma verify_built:
  assumes "list_all (\<lambda>f. plain_parts (f_parts f)) (d_files d)"
    and "d_manifest e = Manifest (fst (fst (build_manifest d)))"
  shows "\<exists>es. verify_manifest e (Some (snd (fst (build_manifest d)))) = Inr (es = [], es) \<and>
    (es = [] \<longleftrightarrow> list_all (\<lambda>f. \<exists>g. find (\<lambda>g. f_parts g = f_parts f) (d_files e) = Some g \<and> agrees f g)
       (manifest_files (d_files d)))"
proof -
  have "list_all (\<lambda>f. plain_parts (f_parts f)) (manifest_files (d_files d))"
    using assms(1) by (auto simp: manifest_files_def list_all_iff)
  from check_items_rows [OF this, of e] show ?thesis
    using assms(2)
    by (auto simp: verify_manifest_def build_manifest_def manifest_json_def manifest_rows_def Let_def)
qed

lemma agrees_refl: "agrees f f"
  by (simp add: agrees_def)

lemma row_json_wf: "jwf (row_json r)"
  by (simp add: row_json_def split: option.split)

lemma manifest_json_wf: "jwf (manifest_json rows)"
  by (simp add: manifest_json_def list_all_iff row_json_wf)

section \<open>Properties\<close>

text \<open>
  C20. Verification of a restored directory against the recorded digest and the manifest of the
  original succeeds exactly when every file of the original is there with the same size and, up to
  64 MiB, the same SHA-256. So a directory verifies right after its manifest is built; the contents of
  a larger file may change without notice as long as its size does not, and additional files
  are never reported.
\<close>

theorem verify_manifest_exact:
  assumes "dir_ok d" "dir_ok e" "d_manifest e = Manifest (fst (fst (build_manifest d)))"
  shows "verify_manifest e (Some (snd (fst (build_manifest d)))) = Inr (True, []) \<longleftrightarrow>
    (\<forall>f. f \<in> set (d_files d) \<and> last (f_parts f) \<noteq> MANIFEST_NAME \<longrightarrow>
      (\<exists>g. g \<in> set (d_files e) \<and> f_parts g = f_parts f \<and> length (f_data g) = length (f_data f) \<and>
         (length (f_data f) \<le> SMALL_FILE_HASH_LIMIT \<longrightarrow> sha256_file g = sha256_file f)))"
proof -
  have "(\<exists>g. find (\<lambda>g. f_parts g = f_parts f) (d_files e) = Some g \<and> agrees f g) \<longleftrightarrow>
      (\<exists>g. g \<in> set (d_files e) \<and> f_parts g = f_parts f \<and> agrees f g)" for f
  proof
    assume "\<exists>g. g \<in> set (d_files e) \<and> f_parts g = f_parts f \<and> agrees f g"
    then obtain g where g: "g \<in> set (d_files e)" "f_parts g = f_parts f" "agrees f g" by blast
    then have "find (\<lambda>g. f_parts g = f_parts f) (d_files e) = Some g"
      using find_parts [of "d_files e" g] assms(2) by (simp add: dir_ok_def)
    with g(3) show "\<exists>g. find (\<lambda>g. f_parts g = f_parts f) (d_files e) = Some g \<and> agrees f g" by blast
  qed (blast dest: find_Some_set)
  moreover obtain es where "verify_manifest e (Some (snd (fst (build_manifest d)))) = Inr (es = [], es)"
    "es = [] \<longleftrightarrow> list_all (\<lambda>f. \<exists>g. find (\<lambda>g. f_parts g = f_parts f) (d_files e) = Some g \<and> agrees f g)
       (manifest_files (d_files d))"
    using verify_built [OF _ assms(3)] assms(1) by (auto simp: dir_ok_def)
  ultimately show ?thesis by (auto simp: list_all_iff manifest_files_def agrees_def)
qed

definition sample_file :: "string \<Rightarrow> string \<Rightarrow> file_entry" where
  "sample_file name contents = \<lparr>f_parts = [name], f_data = contents, f_mtime_ns = 0\<rparr>"

definition sample_dir :: "file_entry list \<Rightarrow> dir" where
  "sample_dir fs = \<lparr>d_files = fs, d_manifest = No_Manifest, d_outside = (\<lambda>p. None)\<rparr>"

theorem verify_manifest_exact_witness:
  "verify_manifest (snd (build_manifest (sample_dir [sample_file ''a.vmdk'' ''xyz''])))
     (Some (snd (fst (build_manifest (sample_dir [sample_file ''a.vmdk'' ''xyz'']))))) = Inr (True, [])"
proof -
  let ?d = "sample_dir [sample_file ''a.vmdk'' ''xyz'']"
  have ok: "dir_ok ?d" "dir_ok (snd (build_manifest ?d))"
    "d_manifest (snd (build_manifest ?d)) = Manifest (fst (fst (build_manifest ?d)))"
    "d_files (snd (build_manifest ?d)) = d_files ?d"
    by (simp_all add: dir_ok_def plain_parts_def sample_dir_def sample_file_def build_manifest_def Let_def)
  show ?thesis unfolding verify_manifest_exact [OF ok(1-3)] ok(4) by blast
qed

text \<open>
  C32. The recorded digest pins the manifest: when a directory verifies against the digest of the
  original's manifest, its own manifest has the same content (up to the order of keys), unless the two
  manifest texts collide under SHA-256.
\<close>

theorem manifest_digest_binds:
  assumes "verify_manifest e (Some (snd (fst (build_manifest d)))) = Inr (True, es)"
    and "d_manifest e = Manifest m" "jwf m"
  shows "canon m = canon (fst (fst (build_manifest d))) \<or>
    (dumps m \<noteq> dumps (fst (fst (build_manifest d))) \<and>
     sha256_hex (dumps m) = sha256_hex (dumps (fst (fst (build_manifest d)))))"
proof -
  let ?o = "fst (fst (build_manifest d))"
  have dg: "snd (fst (build_manifest d)) = sha256_hex (dumps ?o)" and wf: "jwf ?o"
    by (simp_all add: build_manifest_def Let_def manifest_json_wf)
  have "sha256_hex (dumps m) = sha256_hex (dumps ?o)"
    using assms(1,2) unfolding dg
    by (cases m) (auto simp: verify_manifest_def Let_def split: option.splits json.splits sum.splits if_splits)
  then show ?thesis using dumps_inject [OF assms(3) wf] by blast
qed

theorem manifest_digest_binds_witness:
  "canon (fst (fst (build_manifest (sample_dir [])))) = canon (manifest_json []) \<or>
   (dumps (manifest_json []) \<noteq> dumps (fst (fst (build_manifest (sample_dir [])))) \<and>
     sha256_hex (dumps (manifest_json [])) = sha256_hex (dumps (fst (fst (build_manifest (sample_dir []))))))"
proof -
  let ?e = "snd (build_manifest (sample_dir []))"
  have "verify_manifest ?e (Some (snd (fst (build_manifest (sample_dir []))))) = Inr (True, [])"
    by (simp add: build_manifest_def sample_dir_def verify_manifest_def Let_def manifest_rows_def
        manifest_files_def manifest_json_def)
  moreover have "d_manifest ?e = Manifest (manifest_json [])"
    by (simp add: build_manifest_def sample_dir_def Let_def manifest_rows_def manifest_files_def)
  ultimately show ?thesis using manifest_digest_binds manifest_json_wf by metis
qed

end
