(* ===== verification/Py_Values.thy ===== *)
theory Py_Values
  imports Json_Read Complex_Main
begin

text \<open>
  The conversions of Python that the code applies to values of unknown shape (parsed YAML or JSON):
  \<open>str\<close>, \<open>int\<close>, \<open>float\<close> and \<open>bool\<close>. Integer texts with underscores are outside the model
  and are rejected.
\<close>

section \<open>str\<close>

text \<open>\<open>repr\<close> of a text: single quotes unless only the other kind avoids an escape.\<close>

definition repr_char :: "char \<Rightarrow> char \<Rightarrow> string" where
  "repr_char q c =
     (if c = q \<or> c = CHR 0x5C then [CHR 0x5C, c]
      else if c = CHR 0x0A then [CHR 0x5C, CHR ''n'']
      else if c = CHR 0x0D then [CHR 0x5C, CHR ''r'']
      else if c = CHR 0x09 then [CHR 0x5C, CHR ''t'']
      else if c < CHR 0x20 \<or> CHR 0x7F \<le> c \<and> c \<le> CHR 0xA0 \<or> c = CHR 0xAD
      then [CHR 0x5C, CHR ''x'', hex_digit (of_char c div 16), hex_digit (of_char c mod 16)]
      else [c])"

definition repr_str :: "string \<Rightarrow> string" where
  "repr_str s =
     (let q = (if List.member s (CHR 0x27) \<and> \<not> List.member s (CHR 0x22) then CHR 0x22 else CHR 0x27)
      in q # concat (map (repr_char q) s) @ [q])"

fun py_repr :: "json \<Rightarrow> string" where
  "py_repr JNull = ''None''"
| "py_repr (JBool b) = (if b then ''True'' else ''False'')"
| "py_repr (JInt i) = show_int i"
| "py_repr (JFloat t) = t"
| "py_repr (JStr s) = repr_str s"
| "py_repr (JList xs) = ''['' @ join '', '' (map py_repr xs) @ '']''"
| "py_repr (JObj kvs) = ''{'' @ join '', '' (map (\<lambda>(k, t). repr_str k @ '': '' @ t)
      (map (\<lambda>(k, v). (k, py_repr v)) kvs)) @ ''}''"

definition py_str :: "json \<Rightarrow> string" where
  "py_str v = (case v of JStr s \<Rightarrow> s | _ \<Rightarrow> py_repr v)"

lemma py_str_JStr [simp]: "py_str (JStr s) = s"
  by (simp add: py_str_def)

section \<open>int and float\<close>

text \<open>A decimal literal as a rational: mantissa digits, fraction digits, exponent.\<close>

definition digits_nat :: "string \<Rightarrow> nat" where
  "digits_nat ds = (case read_digits 0 ds of Some n \<Rightarrow> n | None \<Rightarrow> 0)"

definition float_rat :: "string \<Rightarrow> rat" where
  "float_rat t =
     (let neg = starts_with ''-'' t;
          (ds, q) = span_digits (if neg then tl t else t);
          (fr, q1) = read_frac q;
          (ex, q2) = read_exp q1;
          m = of_nat (digits_nat (ds @ drop 1 fr)) / 10 ^ (length fr - 1);
          es = drop 1 ex;
          e = digits_nat (filter is_digit es);
          v = (if starts_with ''-'' es then m / 10 ^ e else m * 10 ^ e)
      in if neg then - v else v)"

definition truncate_rat :: "rat \<Rightarrow> int" where
  "truncate_rat r = (if r < 0 then \<lceil>r\<rceil> else \<lfloor>r\<rfloor>)"

definition int_of_text :: "string \<Rightarrow> int option" where
  "int_of_text s =
     (let t = strip whitespace s;
          neg = starts_with ''-'' t;
          ds = (if neg \<or> starts_with ''+'' t then tl t else t)
      in if ds = [] then None
         else map_option (\<lambda>n. if neg then - int n else int n) (read_digits 0 ds))"

definition py_int :: "json \<Rightarrow> int res" where
  "py_int v =
     (case v of
        JInt i \<Rightarrow> Inr i
      | JBool b \<Rightarrow> Inr (if b then 1 else 0)
      | JFloat t \<Rightarrow> Inr (truncate_rat (float_rat t))
      | JStr s \<Rightarrow> (case int_of_text s of Some i \<Rightarrow> Inr i
                   | None \<Rightarrow> Inl (ValueError (''invalid literal for int() with base 10: '' @ repr_str s)))
      | _ \<Rightarrow> Inl (TypeError ''int() argument must be a string, a bytes-like object or a real number''))"

definition py_float :: "json \<Rightarrow> rat res" where
  "py_float v =
     (case v of
        JInt i \<Rightarrow> Inr (of_int i)
      | JBool b \<Rightarrow> Inr (if b then 1 else 0)
      | JFloat t \<Rightarrow> Inr (float_rat t)
      | JStr s \<Rightarrow>
          (case read_number (strip whitespace s) of
             Some (JInt i, []) \<Rightarrow> Inr (of_int i)
           | Some (JFloat t, []) \<Rightarrow> Inr (float_rat t)
           | _ \<Rightarrow> Inl (ValueError (''could not convert string to float: '' @ repr_str s)))
      | _ \<Rightarrow> Inl (TypeError ''float() argument must be a string or a real number''))"

lemma py_int_JInt [simp]: "py_int (JInt i) = Inr i"
  by (simp add: py_int_def)

section \<open>Objects\<close>

text \<open>\<open>d.get(k, default)\<close> and \<open>d.get(k) or default\<close>.\<close>

definition get_or :: "(string \<times> json) list \<Rightarrow> string \<Rightarrow> json \<Rightarrow> json" where
  "get_or d k v = (case map_of d k of Some x \<Rightarrow> x | None \<Rightarrow> v)"

definition or_else :: "json option \<Rightarrow> json \<Rightarrow> json" where
  "or_else x v = (case x of Some y \<Rightarrow> if jtruthy y then y else v | None \<Rightarrow> v)"

text \<open>\<open>str(x) if x else None\<close>.\<close>

definition text_opt :: "json option \<Rightarrow> string option" where
  "text_opt x = (case x of Some y \<Rightarrow> if jtruthy y then Some (py_str y) else None | None \<Rightarrow> None)"

text \<open>\<open>d[k] = v\<close>, and the dictionary that a sequence of such assignments builds.\<close>

definition put_key :: "string \<Rightarrow> 'a \<Rightarrow> (string \<times> 'a) list \<Rightarrow> (string \<times> 'a) list" where
  "put_key k v d = (if map_of d k = None then d @ [(k, v)] else map (\<lambda>(k', v'). (k', if k' = k then v else v')) d)"

definition dict_of :: "(string \<times> 'a) list \<Rightarrow> (string \<times> 'a) list" where
  "dict_of kvs = foldl (\<lambda>d (k, v). put_key k v d) [] kvs"

section \<open>Sequencing of fallible computations\<close>

definition bind_res :: "'a res \<Rightarrow> ('a \<Rightarrow> 'b res) \<Rightarrow> 'b res" where
  "bind_res r f = (case r of Inl e \<Rightarrow> Inl e | Inr x \<Rightarrow> f x)"

definition check_res :: "bool \<Rightarrow> exc \<Rightarrow> 'a res \<Rightarrow> 'a res" where
  "check_res b e r = (if b then r else Inl e)"

fun map_res :: "('a \<Rightarrow> 'b res) \<Rightarrow> 'a list \<Rightarrow> 'b list res" where
  "map_res f [] = Inr []"
| "map_res f (x # xs) = bind_res (f x) (\<lambda>y. bind_res (map_res f xs) (\<lambda>ys. Inr (y # ys)))"

lemma bind_res_Inr [simp]: "bind_res r f = Inr y \<longleftrightarrow> (\<exists>x. r = Inr x \<and> f x = Inr y)"
  by (auto simp: bind_res_def split: sum.split)

lemma bind_res_simps [simp]: "bind_res (Inr x) f = f x" "bind_res (Inl e) f = Inl e"
  by (simp_all add: bind_res_def)

lemma check_res_Inr [simp]: "check_res b e r = Inr y \<longleftrightarrow> b \<and> r = Inr y"
  by (simp add: check_res_def)

lemma map_res_Inr: "map_res f xs = Inr ys \<longleftrightarrow> list_all2 (\<lambda>x y. f x = Inr y) xs ys"
  by (induction xs arbitrary: ys) (auto simp: list_all2_Cons1)

end
