(* ===== verification/World.thy ===== *)
theory World
  imports Catalog Requests Integrity Py_Values
begin

text \<open>
  The program together with what it talks to. A \<open>call\<close> is one interaction with the outside (a
  subprocess, the file system, a hypervisor adapter, an object store); the trace records the calls
  in order. The environment answers a call from the whole trace so far, so the same call may answer
  differently each time and nothing is assumed about the answers. An \<^emph>\<open>action\<close> is a Python function
  that may raise: it maps the state to a result or an exception and the state it left.
  The locale \<open>step_relation\<close> is the contract of a reflexive and transitive relation that every
  primitive action respects; composed actions then respect it too.
\<close>

section \<open>Calls and answers\<close>

record vm =
  v_id :: string
  v_name :: string
  v_power_state :: string
  v_kind :: string

datatype adapter_op =
    Doctor
  | PlatformInfo
  | Inventory
  | Export string string bool
  | RestoreVm string string "(string \<times> json) list"
  | PowerOn json
  | PowerOff json

datatype s3_op =
    HeadBucket
  | GetLockConfiguration
  | ListObjects string
  | GetRetention string
  | PutRetention string string instant

datatype call =
    Run "string list" "(string \<times> string) list"
  | MkDir string
  | RmTree string
  | DiskUsage string
  | PathExists string
  | ReadTree string
  | WriteText string string
  | Unlink string
  | Sleep nat
  | Adapter string adapter_op
  | S3 string s3_op
  | R2 string string json
  | RunInput "string list" "(string \<times> string) list" string
  | Glob string string
  | TcpConnect string int
  | HttpGet string
  | CopyDatabase string
  | LockFile string
  | UnlockFile string
  | ReadText string
  | Probe string
  | IsFile string
  | IsDir string
  | Resolve string
  | Rename string string
  | Chmod string nat
  | IsSymlink string
  | Which string
  | Link string string
  | CopyFile string string
  | Executable string
  | ReadXml string
  | MakeTar string "string list"
  | TempDir
  | TempFile string
  | RandomBytes nat
  | Monotonic
  | HttpFetch string "string option"

text \<open>An element of an XML tree: its tag, attributes, text and children. A missing text is the empty one.\<close>

datatype xml = Xml string "(string \<times> string) list" string "xml list"

text \<open>What \<open>subprocess.run\<close> returns: the return code and the two output texts.\<close>

type_synonym run_output = "int \<times> string \<times> string"

text \<open>
  One field per type of answer. \<open>getenv\<close> is the process environment. \<open>xml_of\<close> is the XML parser, of which
  nothing is assumed: \<open>None\<close> for a text that is not well-formed.
\<close>

record env =
  getenv :: "string \<Rightarrow> string option"
  done_reply :: "call list \<Rightarrow> call \<Rightarrow> unit res"
  bool_reply :: "call list \<Rightarrow> call \<Rightarrow> bool res"
  text_reply :: "call list \<Rightarrow> call \<Rightarrow> string res"
  texts_reply :: "call list \<Rightarrow> call \<Rightarrow> string list res"
  json_reply :: "call list \<Rightarrow> call \<Rightarrow> json res"
  run_reply :: "call list \<Rightarrow> call \<Rightarrow> run_output res"
  usage_reply :: "call list \<Rightarrow> call \<Rightarrow> (nat \<times> nat) res"
  vms_reply :: "call list \<Rightarrow> call \<Rightarrow> vm list res"
  tree_reply :: "call list \<Rightarrow> call \<Rightarrow> dir res"
  until_reply :: "call list \<Rightarrow> call \<Rightarrow> instant option res"
  int_reply :: "call list \<Rightarrow> call \<Rightarrow> int res"
  listing_reply :: "call list \<Rightarrow> call \<Rightarrow> (string \<times> int) list res"
  xml_of :: "string \<Rightarrow> xml option"

section \<open>Actions\<close>

text \<open>\<open>memory\<close> holds what the objects of the process memorize between calls, by name.\<close>

record sys =
  database :: db
  trace :: "call list"
  memory :: "(string \<times> json) list"

type_synonym 'a act = "sys \<Rightarrow> 'a res \<times> sys"

definition ret :: "'a \<Rightarrow> 'a act" where
  "ret x s = (Inr x, s)"

definition throw :: "exc \<Rightarrow> 'a act" where
  "throw e s = (Inl e, s)"

definition bind_act :: "'a act \<Rightarrow> ('a \<Rightarrow> 'b act) \<Rightarrow> 'b act" where
  "bind_act m f s = (case m s of (Inl e, t) \<Rightarrow> (Inl e, t) | (Inr x, t) \<Rightarrow> f x t)"

definition then_act :: "'a act \<Rightarrow> 'b act \<Rightarrow> 'b act" where
  "then_act m n = bind_act m (\<lambda>_. n)"

text \<open>\<open>try: m\<close> with \<open>except Exception as exc: h exc\<close>, and \<open>try: m\<close> with \<open>finally: n\<close>.\<close>

definition catch :: "'a act \<Rightarrow> (exc \<Rightarrow> 'a act) \<Rightarrow> 'a act" where
  "catch m h s = (case m s of (Inl e, t) \<Rightarrow> h e t | (Inr x, t) \<Rightarrow> (Inr x, t))"

definition finally_act :: "'a act \<Rightarrow> unit act \<Rightarrow> 'a act" where
  "finally_act m n s = (case m s of (r, t) \<Rightarrow> (case n t of (Inl e, u) \<Rightarrow> (Inl e, u) | (Inr _, u) \<Rightarrow> (r, u)))"

definition check :: "bool \<Rightarrow> exc \<Rightarrow> unit act" where
  "check b e = (if b then ret () else throw e)"

text \<open>\<open>except OSError\<close> also catches its subclass \<open>PermissionError\<close>.\<close>

definition os_error :: "exc \<Rightarrow> bool" where
  "os_error e \<longleftrightarrow> (case e of OSError m \<Rightarrow> True | PermissionError m \<Rightarrow> True | _ \<Rightarrow> False)"

text \<open>\<open>if b: m\<close>, and a loop that collects the results of its body.\<close>

definition when_act :: "bool \<Rightarrow> unit act \<Rightarrow> unit act" where
  "when_act b m = (if b then m else ret ())"

primrec each :: "('a \<Rightarrow> 'b act) \<Rightarrow> 'a list \<Rightarrow> 'b list act" where
  "each f [] = ret []"
| "each f (x # xs) = bind_act (f x) (\<lambda>y. bind_act (each f xs) (\<lambda>ys. ret (y # ys)))"

definition ask :: "(call list \<Rightarrow> call \<Rightarrow> 'a res) \<Rightarrow> call \<Rightarrow> 'a act" where
  "ask f c s = (f (trace s) c, s\<lparr>trace := trace s @ [c]\<rparr>)"

text \<open>\<open>shutil.rmtree(path, ignore_errors=True)\<close> and other calls whose failure is ignored.\<close>

definition ask_ignore :: "(call list \<Rightarrow> call \<Rightarrow> unit res) \<Rightarrow> call \<Rightarrow> unit act" where
  "ask_ignore f c = catch (ask f c) (\<lambda>_. ret ())"

definition query :: "(db \<Rightarrow> 'a) \<Rightarrow> 'a act" where
  "query f s = (Inr (f (database s)), s)"

definition change :: "(db \<Rightarrow> db) \<Rightarrow> unit act" where
  "change f s = (Inr (), s\<lparr>database := f (database s)\<rparr>)"

definition call_db :: "(db \<Rightarrow> 'a \<times> db) \<Rightarrow> 'a act" where
  "call_db f s = (case f (database s) of (x, d) \<Rightarrow> (Inr x, s\<lparr>database := d\<rparr>))"

definition try_db :: "(db \<Rightarrow> 'a res \<times> db) \<Rightarrow> 'a act" where
  "try_db f s = (case f (database s) of (r, d) \<Rightarrow> (r, s\<lparr>database := d\<rparr>))"

definition recall :: "string \<Rightarrow> json option act" where
  "recall k s = (Inr (map_of (memory s) k), s)"

definition memorize :: "string \<Rightarrow> json \<Rightarrow> unit act" where
  "memorize k v s = (Inr (), s\<lparr>memory := jset k v (memory s)\<rparr>)"

text \<open>A value that an option may lack.\<close>

definition need :: "'a option \<Rightarrow> exc \<Rightarrow> 'a act" where
  "need x e = (case x of None \<Rightarrow> throw e | Some y \<Rightarrow> ret y)"

section \<open>Composition\<close>

text \<open>\<open>steps R m\<close>: whatever state \<open>m\<close> starts in, it leaves a state in relation \<open>R\<close> to it.\<close>

definition steps :: "(sys \<Rightarrow> sys \<Rightarrow> bool) \<Rightarrow> 'a act \<Rightarrow> bool" where
  "steps R m \<longleftrightarrow> (\<forall>s. R s (snd (m s)))"

lemma stepsD: "steps R m \<Longrightarrow> m s = (r, t) \<Longrightarrow> R s t"
  by (metis snd_conv steps_def)

locale step_relation =
  fixes R :: "sys \<Rightarrow> sys \<Rightarrow> bool"
  assumes R_refl: "R s s"
    and R_trans: "R s t \<Longrightarrow> R t u \<Longrightarrow> R s u"
begin

lemma steps_ret [intro]: "steps R (ret x)"
  by (simp add: steps_def ret_def R_refl)

lemma steps_throw [intro]: "steps R (throw e)"
  by (simp add: steps_def throw_def R_refl)

lemma steps_bind [intro]: "steps R m \<Longrightarrow> (\<And>x. steps R (f x)) \<Longrightarrow> steps R (bind_act m f)"
proof (unfold steps_def, intro allI)
  fix s assume *: "\<forall>s. R s (snd (m s))" "\<And>x. \<forall>s. R s (snd (f x s))"
  obtain r t where "m s = (r, t)" by (cases "m s")
  with * have "R s t" "\<And>x. R t (snd (f x t))" by (metis snd_conv)+
  with \<open>m s = (r, t)\<close> show "R s (snd (bind_act m f s))"
    by (cases r) (auto simp: bind_act_def intro: R_trans [of s t])
qed

text \<open>The same at one state, where the continuation may use what the first action did.\<close>

lemma bind_at:
  assumes "R s (snd (m s))" "\<And>x t. m s = (Inr x, t) \<Longrightarrow> R t (snd (f x t))"
  shows "R s (snd (bind_act m f s))"
proof -
  obtain r t where m: "m s = (r, t)" by (cases "m s")
  then show ?thesis
    using assms(1) assms(2) [of _ t] by (cases r) (auto simp: bind_act_def intro: R_trans [of s t])
qed

lemma then_at:
  "R s (snd (m s)) \<Longrightarrow> (\<And>x t. m s = (Inr x, t) \<Longrightarrow> R t (snd (n t))) \<Longrightarrow> R s (snd (then_act m n s))"
  unfolding then_act_def by (rule bind_at)

lemma catch_at:
  assumes "R s (snd (m s))" "\<And>e t. m s = (Inl e, t) \<Longrightarrow> R t (snd (h e t))"
  shows "R s (snd (catch m h s))"
proof -
  obtain r t where m: "m s = (r, t)" by (cases "m s")
  then show ?thesis
    using assms(1) assms(2) [of _ t] by (cases r) (auto simp: catch_def intro: R_trans [of s t])
qed

lemma stepsI: "(\<And>s. R s (snd (m s))) \<Longrightarrow> steps R m"
  by (simp add: steps_def)

lemma steps_at: "steps R m \<Longrightarrow> R s (snd (m s))"
  by (simp add: steps_def)

lemma steps_then [intro]: "steps R m \<Longrightarrow> steps R n \<Longrightarrow> steps R (then_act m n)"
  unfolding then_act_def by blast

lemma steps_catch [intro]: "steps R m \<Longrightarrow> (\<And>e. steps R (h e)) \<Longrightarrow> steps R (catch m h)"
proof (unfold steps_def, intro allI)
  fix s assume *: "\<forall>s. R s (snd (m s))" "\<And>x. \<forall>s. R s (snd (h x s))"
  obtain r t where "m s = (r, t)" by (cases "m s")
  with * have "R s t" "\<And>x. R t (snd (h x t))" by (metis snd_conv)+
  with \<open>m s = (r, t)\<close> show "R s (snd (catch m h s))"
    by (cases r) (auto simp: catch_def intro: R_trans [of s t])
qed

lemma steps_finally [intro]: "steps R m \<Longrightarrow> steps R n \<Longrightarrow> steps R (finally_act m n)"
proof (unfold steps_def, intro allI)
  fix s assume *: "\<forall>s. R s (snd (m s))" "\<forall>s. R s (snd (n s))"
  obtain r t where "m s = (r, t)" by (cases "m s")
  obtain q u where "n t = (q, u)" by (cases "n t")
  from * \<open>m s = (r, t)\<close> \<open>n t = (q, u)\<close> have "R s t" "R t u" by (metis snd_conv)+
  then have "R s u" by (rule R_trans)
  with \<open>m s = (r, t)\<close> \<open>n t = (q, u)\<close> show "R s (snd (finally_act m n s))"
    by (cases q) (auto simp: finally_act_def)
qed

lemma steps_check [intro]: "steps R (check b e)"
  by (simp add: check_def steps_ret steps_throw)

lemma steps_when [intro]: "steps R m \<Longrightarrow> steps R (when_act b m)"
  by (simp add: when_act_def steps_ret)

lemma steps_each [intro]: "(\<And>x. x \<in> set xs \<Longrightarrow> steps R (f x)) \<Longrightarrow> steps R (each f xs)"
  by (induction xs) auto

lemma steps_recall [intro]: "steps R (recall k)"
  by (simp add: steps_def recall_def R_refl)

lemma steps_query [intro]: "steps R (query f)"
  by (simp add: steps_def query_def R_refl)

lemma steps_need [intro]: "steps R (need x e)"
  by (simp add: need_def steps_ret steps_throw split: option.split)

lemma steps_ignore [intro]: "steps R (ask f c) \<Longrightarrow> steps R (ask_ignore f c)"
  unfolding ask_ignore_def by blast

lemma steps_if [intro]: "(b \<Longrightarrow> steps R m) \<Longrightarrow> (\<not> b \<Longrightarrow> steps R n) \<Longrightarrow> steps R (if b then m else n)"
  by simp

lemma steps_option [intro]:
  "(x = None \<Longrightarrow> steps R m) \<Longrightarrow> (\<And>y. x = Some y \<Longrightarrow> steps R (n y)) \<Longrightarrow>
   steps R (case x of None \<Rightarrow> m | Some y \<Rightarrow> n y)"
  by (simp split: option.split)

lemma steps_sum [intro]:
  "(\<And>e. x = Inl e \<Longrightarrow> steps R (m e)) \<Longrightarrow> (\<And>y. x = Inr y \<Longrightarrow> steps R (n y)) \<Longrightarrow>
   steps R (case x of Inl e \<Rightarrow> m e | Inr y \<Rightarrow> n y)"
  by (simp split: sum.split)

lemma steps_let [intro]: "(\<And>x. x = y \<Longrightarrow> steps R (f x)) \<Longrightarrow> steps R (let x = y in f x)"
  by simp

lemma steps_prod [intro]: "(\<And>x y. p = (x, y) \<Longrightarrow> steps R (f x y)) \<Longrightarrow> steps R (case p of (x, y) \<Rightarrow> f x y)"
  by (simp split: prod.split)

end

text \<open>The calls made are never forgotten.\<close>

definition traced :: "sys \<Rightarrow> sys \<Rightarrow> bool" where
  "traced s t \<longleftrightarrow> (\<exists>cs. trace t = trace s @ cs)"

text \<open>The audit log only grows and stays valid.\<close>

definition logged :: "sys \<Rightarrow> sys \<Rightarrow> bool" where
  "logged s t \<longleftrightarrow> log_step (database s) (database t)"

interpretation traced: step_relation traced
  by unfold_locales (auto simp: traced_def)

interpretation logged: step_relation logged
  by unfold_locales (auto simp: logged_def log_step_refl intro: log_step_trans)

lemma traced_prims [intro]:
  "steps traced (ask f c)" "steps traced (change g)" "steps traced (call_db h)" "steps traced (try_db k)"
  "steps traced (memorize m v)"
  by (auto simp: steps_def traced_def ask_def change_def call_db_def try_db_def memorize_def split: prod.split)

lemma logged_ask [intro]: "steps logged (ask f c)"
  by (simp add: steps_def logged_def ask_def log_step_refl)

lemma logged_memorize [intro]: "steps logged (memorize k v)"
  by (simp add: steps_def logged_def memorize_def log_step_refl)

lemma logged_change [intro]: "(\<And>d. log_step d (f d)) \<Longrightarrow> steps logged (change f)"
  by (simp add: steps_def logged_def change_def)

lemma logged_call_db [intro]: "(\<And>d. log_step d (snd (f d))) \<Longrightarrow> steps logged (call_db f)"
  by (simp add: steps_def logged_def call_db_def split: prod.split) (metis snd_conv)

lemma logged_try_db [intro]: "(\<And>d. log_step d (snd (f d))) \<Longrightarrow> steps logged (try_db f)"
  by (simp add: steps_def logged_def try_db_def split: prod.split) (metis snd_conv)

section \<open>Reading off a run\<close>

lemma bind_Inr:
  "bind_act m f s = (Inr y, t) \<longleftrightarrow> (\<exists>x u. m s = (Inr x, u) \<and> f x u = (Inr y, t))"
  by (auto simp: bind_act_def split: prod.split sum.split)

lemma bind_Inl:
  "bind_act m f s = (Inl e, t) \<longleftrightarrow>
     m s = (Inl e, t) \<or> (\<exists>x u. m s = (Inr x, u) \<and> f x u = (Inl e, t))"
  by (auto simp: bind_act_def split: prod.split sum.split)

lemma act_simps [simp]:
  "ret x s = (Inr x, s)" "throw e s = (Inl e, s)" "query g s = (Inr (g (database s)), s)"
  "change d s = (Inr (), s\<lparr>database := d (database s)\<rparr>)"
  by (simp_all add: ret_def throw_def query_def change_def)

lemma bind_simps [simp]:
  "bind_act (ret x) f s = f x s" "bind_act (throw e) g s = (Inl e, s)"
  "bind_act (query q) h s = h (q (database s)) s"
  "bind_act (change d) k s = k () (s\<lparr>database := d (database s)\<rparr>)"
  "then_act (ret x) n s = n s" "then_act (change d) n' s = n' (s\<lparr>database := d (database s)\<rparr>)"
  by (simp_all add: bind_act_def then_act_def)

lemma check_bind [simp]:
  "bind_act (check b e) f s = (if b then f () s else (Inl e, s))"
  "then_act (check b e) n s = (if b then n s else (Inl e, s))"
  by (simp_all add: check_def then_act_def)

lemma need_bind [simp]:
  "bind_act (need x e) f s = (case x of None \<Rightarrow> (Inl e, s) | Some y \<Rightarrow> f y s)"
  by (simp add: need_def split: option.split)

end
