(* ===== verification/Settings.thy ===== *)
theory Settings
  imports Json Complex_Main
begin

text \<open>
  The configuration dataclasses of \<open>config.py\<close> and \<open>dr_config.py\<close>, one record each with the
  fields in source order and the defaults as values. A field typed \<open>Any\<close> or
  \<open>dict[str, Any]\<close> holds a JSON value; the two ratios are exact rationals.
\<close>

section \<open>Repository, runtime and protection\<close>

record retention_config =
  keep_within_days :: int
  keep_daily :: int
  keep_weekly :: int
  keep_monthly :: int
  keep_yearly :: int
  min_restore_points :: int

definition default_retention :: retention_config where
  "default_retention = \<lparr>keep_within_days = 30, keep_daily = 30, keep_weekly = 8, keep_monthly = 12,
     keep_yearly = 3, min_restore_points = 2\<rparr>"

record repository_config =
  repo_url :: string
  local_path :: string
  staging_path :: string
  retention_days :: int
  verify_percent :: int
  repo_cacert :: "string option"
  lock_file :: string
  repo_retention :: retention_config

record runtime_config =
  state_db :: string
  command_timeout_seconds :: int
  keep_staging_on_failure :: bool
  restore_staging_path :: string
  verify_staging_path :: string
  staging_min_free_percent :: int
  state_backup_path :: string
  state_backup_keep :: int

record platform_config =
  pl_name :: string
  pl_type :: string
  pl_endpoint :: string
  pl_enabled :: bool
  pl_mode :: string
  pl_ssh_user :: "string option"
  pl_include :: "string list"
  pl_exclude :: "string list"
  pl_options :: "(string \<times> json) list"

record protection_config =
  rpo_target_minutes :: int
  anomaly_data_added_ratio :: rat
  anomaly_size_change_ratio :: rat
  preserve_suspicious_points_days :: int
  verify_after_backup :: bool
  require_four_eyes_restore :: bool

section \<open>Portal, file-level recovery, replicas\<close>

record portal_user_config =
  pu_name :: string
  pu_role :: string
  pu_token_env :: string
  pu_sources :: "string list"
  pu_vm_patterns :: "string list"

record portal_config =
  po_enabled :: bool
  po_listen :: string
  po_port :: int
  po_tls_cert :: "string option"
  po_tls_key :: "string option"
  po_users :: "portal_user_config list"

record flr_config =
  flr_enabled :: bool
  mount_root :: string
  session_ttl_minutes :: int
  max_download_bytes :: int
  max_sessions_per_user :: int
  max_disks :: int
  mount_wait_seconds :: int

record replica_config =
  rp_name :: string
  rp_backend :: string
  rp_url :: "string option"
  rp_path :: "string option"
  rp_enabled :: bool
  rp_cacert :: "string option"
  rp_password_env :: string
  rp_provider :: string
  rp_endpoint :: "string option"
  rp_bucket :: "string option"
  rp_prefix :: string
  rp_region :: "string option"
  rp_access_key_env :: string
  rp_secret_key_env :: string
  rp_session_token_env :: "string option"
  rp_bucket_lookup :: string
  rp_connections :: int
  rp_mount_required :: bool
  rp_mount_type :: "string option"
  rp_mount_source :: "string option"
  rp_object_lock_enabled :: bool
  rp_object_lock_mode :: string
  rp_object_lock_days :: int
  rp_r2_bucket_lock_enabled :: bool
  rp_r2_bucket_lock_days :: int
  rp_r2_lock_rule_id :: string
  rp_r2_account_id_env :: string
  rp_r2_api_token_env :: string

text \<open>\<open>ReplicaConfig(name)\<close>.\<close>

definition default_replica :: "string \<Rightarrow> replica_config" where
  "default_replica name =
     \<lparr>rp_name = name, rp_backend = ''rest'', rp_url = None, rp_path = None, rp_enabled = True,
      rp_cacert = None, rp_password_env = ''RESTIC_REPLICA_PASSWORD'', rp_provider = ''custom'',
      rp_endpoint = None, rp_bucket = None, rp_prefix = ''immutavault'', rp_region = None,
      rp_access_key_env = ''AWS_ACCESS_KEY_ID'', rp_secret_key_env = ''AWS_SECRET_ACCESS_KEY'',
      rp_session_token_env = None, rp_bucket_lookup = ''path'', rp_connections = 10,
      rp_mount_required = False, rp_mount_type = None, rp_mount_source = None,
      rp_object_lock_enabled = False, rp_object_lock_mode = ''COMPLIANCE'', rp_object_lock_days = 30,
      rp_r2_bucket_lock_enabled = False, rp_r2_bucket_lock_days = 30,
      rp_r2_lock_rule_id = ''immutavault-retention'',
      rp_r2_account_id_env = ''CLOUDFLARE_ACCOUNT_ID'', rp_r2_api_token_env = ''CLOUDFLARE_API_TOKEN''\<rparr>"

section \<open>Disaster recovery\<close>

record health_check_config =
  hc_type :: string
  hc_host :: "string option"
  hc_port :: "int option"
  hc_url :: "string option"
  hc_timeout_seconds :: int
  hc_expected_status :: int
  hc_attempts :: int
  hc_interval_seconds :: int

record dr_gateway_config =
  gw_host :: string
  gw_ssh_user :: "string option"
  gw_local :: bool
  gw_underlay_interface :: string
  gw_trunk_interface :: string
  gw_vtep_ip :: string
  gw_router_id :: string
  gw_ospf_area :: string
  gw_ospf_cost :: int
  gw_ospf_auth_key_env :: "string option"
  gw_ospf_auth_key_id :: int

record dr_site_config =
  st_name :: string
  st_gateway :: dr_gateway_config

record dr_network_config =
  nw_name :: string
  nw_vlan_id :: int
  nw_vni :: int
  nw_subnet :: string
  nw_gateway_cidr :: string
  nw_mtu :: int
  nw_enabled :: bool

record dr_vm_config =
  wl_name :: string
  wl_source_platform :: string
  wl_target_platform :: string
  wl_boot_order :: int
  wl_target_name :: "string option"
  wl_health_checks :: "health_check_config list"
  wl_restore_options :: "(string \<times> json) list"

record fence_config =
  fn_mode :: string
  fn_command_env :: "string option"
  fn_verify_command_env :: "string option"

record dr_config =
  dr_enabled :: bool
  primary_site :: string
  dr_site :: string
  dr_replica :: string
  rpo_max_minutes :: int
  auto_failover :: bool
  failure_threshold :: int
  check_interval_seconds :: int
  control_plane_site :: string
  primary_failure_quorum :: int
  maintenance_file :: string
  primary_probes :: "health_check_config list"
  fence :: fence_config
  sites :: "dr_site_config list"
  networks :: "dr_network_config list"
  workloads :: "dr_vm_config list"

record config =
  repository :: repository_config
  runtime :: runtime_config
  platforms :: "platform_config list"
  protection :: protection_config
  portal :: portal_config
  flr :: flr_config
  replicas :: "replica_config list"
  dr :: dr_config

section \<open>Defaults of the dataclasses\<close>

definition default_runtime :: runtime_config where
  "default_runtime =
     \<lparr>state_db = ''/var/lib/immutavault/state.db'', command_timeout_seconds = 14400, keep_staging_on_failure = True,
      restore_staging_path = ''/srv/immutavault/restore-staging'',
      verify_staging_path = ''/srv/immutavault/verify-staging'', staging_min_free_percent = 10,
      state_backup_path = ''/var/lib/immutavault/state-backups'', state_backup_keep = 288\<rparr>"

definition default_protection :: protection_config where
  "default_protection =
     \<lparr>rpo_target_minutes = 1440, anomaly_data_added_ratio = 7 / 10, anomaly_size_change_ratio = 5 / 10,
      preserve_suspicious_points_days = 90, verify_after_backup = False, require_four_eyes_restore = True\<rparr>"

definition default_portal :: portal_config where
  "default_portal =
     \<lparr>po_enabled = True, po_listen = ''127.0.0.1'', po_port = 8787, po_tls_cert = None, po_tls_key = None,
      po_users = []\<rparr>"

definition default_flr :: flr_config where
  "default_flr =
     \<lparr>flr_enabled = True, mount_root = ''/srv/immutavault/flr'', session_ttl_minutes = 30,
      max_download_bytes = 5 * 1024 * 1024 * 1024, max_sessions_per_user = 2, max_disks = 16,
      mount_wait_seconds = 30\<rparr>"

definition default_fence :: fence_config where
  "default_fence = \<lparr>fn_mode = ''manual'', fn_command_env = None, fn_verify_command_env = None\<rparr>"

definition default_dr :: dr_config where
  "default_dr =
     \<lparr>dr_enabled = False, primary_site = ''primary'', dr_site = ''dr'', dr_replica = [], rpo_max_minutes = 1440,
      auto_failover = False, failure_threshold = 5, check_interval_seconds = 60, control_plane_site = [],
      primary_failure_quorum = 0, maintenance_file = ''/var/lib/immutavault/dr-maintenance'', primary_probes = [],
      fence = default_fence, sites = [], networks = [], workloads = []\<rparr>"

definition default_platform :: "string \<Rightarrow> string \<Rightarrow> string \<Rightarrow> platform_config" where
  "default_platform name type endpoint =
     \<lparr>pl_name = name, pl_type = type, pl_endpoint = endpoint, pl_enabled = True, pl_mode = ''export'',
      pl_ssh_user = None, pl_include = [''*''], pl_exclude = [], pl_options = []\<rparr>"

definition default_repository :: "string \<Rightarrow> string \<Rightarrow> string \<Rightarrow> repository_config" where
  "default_repository url local staging =
     \<lparr>repo_url = url, local_path = local, staging_path = staging, retention_days = 30, verify_percent = 5,
      repo_cacert = None, lock_file = ''/run/lock/immutavault.lock'', repo_retention = default_retention\<rparr>"

definition default_config :: "repository_config \<Rightarrow> platform_config list \<Rightarrow> config" where
  "default_config repo pls =
     \<lparr>repository = repo, runtime = default_runtime, platforms = pls, protection = default_protection,
      portal = default_portal, flr = default_flr, replicas = [], dr = default_dr\<rparr>"

end
