(* ===== verification/Clock_Read.thy ===== *)
theory Clock_Read
  imports Clock
begin

text \<open>
  \<open>datetime.fromisoformat\<close> on the extended format \<open>YYYY-MM-DD[THH:MM[:SS[.ffffff]]][offset]\<close>, with
  the offset \<open>Z\<close> or \<open>+HH:MM\<close>. The result is the local reading in microseconds and the offset, which is
  \<open>None\<close> for a naive datetime. The other formats that newer interpreters accept (basic format, week
  dates) are outside the model and rejected. Reading back what \<open>isoformat\<close> wrote gives the instant.
\<close>

section \<open>Dates\<close>

definition civil_days :: "nat \<Rightarrow> nat \<Rightarrow> nat \<Rightarrow> int option" where
  "civil_days y m d =
     (let c = (int y - 2000) div 400; i = nat ((int y - 2000) mod 400); ls = month_lens (leap_index i)
      in if 1 \<le> y \<and> 1 \<le> m \<and> m \<le> 12 \<and> 1 \<le> d \<and> d \<le> ls ! (m - 1)
         then Some (c * 146097 + int (sum_list (take i cycle_lens) + (sum_list (take (m - 1) ls) + (d - 1))))
         else None)"

lemma civil_days_civil:
  assumes "civil n = (y, m, d)" "-4 * 146097 \<le> n"
  shows "civil_days (nat y) m d = Some n"
proof -
  obtain i r where ir: "locate cycle_lens (nat (n mod 146097)) = (i, r)" by fastforce
  obtain k e where ke: "locate (month_lens (leap_index i)) r = (k, e)" by fastforce
  have "nat (n mod 146097) < sum_list cycle_lens" by (simp add: sum_cycle_lens nat_less_iff)
  from locate_in_range [OF this ir] have i: "i < 400" and r: "r < year_len i"
    by (auto simp: length_cycle_lens) (simp add: cycle_lens_def)
  have k: "k < 12" "e < month_lens (leap_index i) ! k"
    using locate_in_range [OF _ ke] r by (simp_all add: sum_month_lens length_month_lens)
  have eqs: "y = 2000 + 400 * (n div 146097) + int i" "m = Suc k" "d = Suc e"
    using assms(1) ir ke by (simp_all add: civil_def)
  have q: "-4 \<le> n div 146097" using assms(2) by simp
  then have y: "int (nat y) = y" "1 \<le> nat y" using eqs(1) by linarith+
  have "y - 2000 = 400 * (n div 146097) + int i" by (simp add: eqs)
  then have c: "(y - 2000) div 400 = n div 146097" "(y - 2000) mod 400 = int i"
    using i by simp_all
  have "sum_list (take i cycle_lens) + (sum_list (take k (month_lens (leap_index i))) + e) = nat (n mod 146097)"
    using locate_sum [OF ir] locate_sum [OF ke] by simp
  then have "n div 146097 * 146097 + int (sum_list (take i cycle_lens) + (sum_list (take k (month_lens (leap_index i))) + e)) = n"
    by simp
  then show ?thesis using y k by (simp add: civil_days_def eqs(2,3) y c Let_def)
qed

section \<open>The format\<close>

definition read_fixed :: "nat \<Rightarrow> string \<Rightarrow> (nat \<times> string) option" where
  "read_fixed w s =
     (if length s < w then None else map_option (\<lambda>n. (n, drop w s)) (read_digits 0 (take w s)))"

definition expect :: "char \<Rightarrow> string \<Rightarrow> string option" where
  "expect c s = (case s of [] \<Rightarrow> None | d # r \<Rightarrow> if d = c then Some r else None)"

lemma read_fixed_pad: "n < 10 ^ w \<Longrightarrow> read_fixed w (pad w n @ r) = Some (n, r)"
  using read_digits_pad [of n w 0] by (simp add: read_fixed_def)

lemma expect_same [simp]: "expect c (c # r) = Some r"
  by (simp add: expect_def)

definition read_date :: "string \<Rightarrow> (int \<times> string) option" where
  "read_date s =
     Option.bind (read_fixed 4 s) (\<lambda>(y, s). Option.bind (expect (CHR ''-'') s) (\<lambda>s.
     Option.bind (read_fixed 2 s) (\<lambda>(m, s). Option.bind (expect (CHR ''-'') s) (\<lambda>s.
     Option.bind (read_fixed 2 s) (\<lambda>(d, s). map_option (\<lambda>n. (n, s)) (civil_days y m d))))))"

definition read_seconds :: "string \<Rightarrow> (int \<times> string) option" where
  "read_seconds s =
     (case expect (CHR '':'') s of
        None \<Rightarrow> Some (0, s)
      | Some s \<Rightarrow>
          Option.bind (read_fixed 2 s) (\<lambda>(sec, s).
            if 60 \<le> sec then None
            else (case expect (CHR ''.'') s of
                None \<Rightarrow> Some (int sec * second_us, s)
              | Some s \<Rightarrow>
                  (let ds = takeWhile (\<lambda>c. digit_val c \<noteq> None) s; q = drop (length ds) s
                   in if length ds = 6 then map_option (\<lambda>n. (int sec * second_us + int n, q)) (read_digits 0 ds)
                      else if length ds = 3 then map_option (\<lambda>n. (int sec * second_us + 1000 * int n, q)) (read_digits 0 ds)
                      else None))))"

definition read_time :: "string \<Rightarrow> (int \<times> string) option" where
  "read_time s =
     Option.bind (read_fixed 2 s) (\<lambda>(h, s). Option.bind (expect (CHR '':'') s) (\<lambda>s.
     Option.bind (read_fixed 2 s) (\<lambda>(mi, s). Option.bind (read_seconds s) (\<lambda>(us, s).
       if h < 24 \<and> mi < 60 then Some (int h * 60 * minute_us + int mi * minute_us + us, s) else None))))"

definition read_offset :: "string \<Rightarrow> int option option" where
  "read_offset s =
     (if s = [] then Some None
      else if s = ''Z'' then Some (Some 0)
      else if starts_with ''+'' s \<or> starts_with ''-'' s then
        Option.bind (read_fixed 2 (tl s)) (\<lambda>(h, r). Option.bind (expect (CHR '':'') r) (\<lambda>r.
        Option.bind (read_fixed 2 r) (\<lambda>(mi, r).
          if r = [] \<and> h < 24 \<and> mi < 60
          then Some (Some ((if starts_with ''-'' s then -1 else 1) * (int h * 60 + int mi) * minute_us))
          else None)))
      else None)"

definition fromisoformat :: "string \<Rightarrow> (instant \<times> int option) option" where
  "fromisoformat s =
     Option.bind (read_date s) (\<lambda>(n, r).
       case r of
         [] \<Rightarrow> Some (n * day_us, None)
       | _ # r \<Rightarrow> Option.bind (read_time r) (\<lambda>(us, r).
           map_option (\<lambda>off. (n * day_us + us, off)) (read_offset r)))"

text \<open>The instant of an aware datetime, and of a naive one taken as UTC
  (\<open>dt.replace(tzinfo=timezone.utc)\<close>).\<close>

definition as_utc :: "instant \<times> int option \<Rightarrow> instant" where
  "as_utc dt = (case dt of (t, None) \<Rightarrow> t | (t, Some off) \<Rightarrow> t - off)"

lemma read_date_iso:
  assumes "-4 * 146097 \<le> n" "n < 20 * 146097"
  shows "read_date (iso_date n @ r) = Some (n, r)"
proof -
  obtain y m d where c: "civil n = (y, m, d)" using prod_cases3 by blast
  have "-4 \<le> n div 146097" "n div 146097 \<le> 19" using assms by simp_all
  with civil_bounds [OF c] have "0 \<le> y" "y < 10000" "m < 100" "d < 100" by linarith+
  then have "nat y < 10 ^ 4" "m < 10 ^ 2" "d < 10 ^ 2" by simp_all
  then show ?thesis
    using civil_days_civil [OF c assms(1)]
    by (simp add: read_date_def iso_date_def c read_fixed_pad del: pad.simps power_numeral)
qed

lemma digits_pad: "list_all (\<lambda>c. digit_val c \<noteq> None) (pad w n)"
  by (induction w arbitrary: n) auto

lemma takeWhile_pad: "digit_val c = None \<Longrightarrow> takeWhile (\<lambda>c. digit_val c \<noteq> None) (pad w n @ c # r) = pad w n"
  using digits_pad [of w n] by (simp add: list_all_iff takeWhile_append2)

lemma read_seconds_iso:
  assumes "s < 60" "0 \<le> us" "us < 1000000"
  shows "read_seconds (CHR '':'' # pad 2 s @ iso_frac us) = Some (int s * second_us + us, ''+00:00'')"
proof -
  have s: "s < 10 ^ 2" using assms(1) by simp
  have us: "nat us < 10 ^ 6" using assms by simp
  have plus: "digit_val CHR ''+'' = None" by (simp add: digit_val_def)
  show ?thesis
  proof (cases "us = 0")
    case True
    then show ?thesis using assms(1)
      by (simp add: read_seconds_def iso_frac_def read_fixed_pad [OF s] expect_def del: pad.simps)
  next
    case False
    then show ?thesis using assms read_digits_pad [OF us, of 0] takeWhile_pad [OF plus, of 6 "nat us" "''00:00''"]
      by (simp add: read_seconds_def iso_frac_def read_fixed_pad [OF s] expect_def Let_def del: pad.simps power_numeral)
  qed
qed

lemma read_time_iso:
  assumes "0 \<le> u" "u < day_us"
  shows "read_time (iso_time u) = Some (u, ''+00:00'')"
proof -
  let ?s = "nat (u div second_us)"
  have s: "?s < 86400" using assms by (simp add: second_us_def day_us_def nat_less_iff)
  note h = clock_digits(1) [OF s] clock_digits(2) [of ?s] clock_digits(3) [of ?s]
  have us: "0 \<le> u mod second_us" "u mod second_us < 1000000" by (simp_all add: second_us_def)
  have b: "?s div 3600 < 24" "?s mod 3600 div 60 < 60" "?s mod 60 < 60"
    using s by (simp_all add: less_mult_imp_div_less)
  have "u = int ?s * second_us + u mod second_us"
    using assms(1) pos_imp_zdiv_nonneg_iff [of second_us u] by (simp add: second_us_def)
  also have "int ?s = int (?s div 3600) * 3600 + int (?s mod 3600 div 60) * 60 + int (?s mod 60)"
  proof -
    have "?s mod 3600 mod 60 = ?s mod 60" by (simp only: mod_mod_cancel [OF dvd_60_3600])
    then have "?s = ?s div 3600 * 3600 + (?s mod 3600 div 60 * 60 + ?s mod 60)"
      by (metis div_mult_mod_eq)
    then show ?thesis by (metis of_nat_add of_nat_mult of_nat_numeral add.assoc)
  qed
  finally have u: "int (?s div 3600) * 60 * minute_us + int (?s mod 3600 div 60) * minute_us +
      (int (?s mod 60) * second_us + u mod second_us) = u"
    by (simp add: minute_us_def second_us_def algebra_simps)
  show ?thesis
    using read_seconds_iso [OF b(3) us] b u
    by (simp add: read_time_def iso_time_def Let_def read_fixed_pad [OF h(1)] read_fixed_pad [OF h(2)]
        del: pad.simps power_numeral)
qed

lemma read_offset_utc: "read_offset ''+00:00'' = Some (Some 0)"
  by (simp add: read_offset_def read_fixed_def expect_def digit_val_def)

lemma fromisoformat_isoformat:
  assumes "in_calendar t"
  shows "fromisoformat (isoformat t) = Some (t, Some 0)"
proof -
  have b: "- (4 * 146097 * 86400000000) \<le> t" "t < 20 * 146097 * 86400000000"
    using assms by (simp_all add: in_calendar_def day_us_def)
  have "-4 * 146097 \<le> t div 86400000000" "t div 86400000000 < 20 * 146097"
    using zdiv_mono1 [OF b(1), of 86400000000]
      zdiv_mono1 [of t "20 * 146097 * 86400000000 - 1" 86400000000] b(2) by simp_all
  then have d: "-4 * 146097 \<le> t div day_us" "t div day_us < 20 * 146097" by (simp_all add: day_us_def)
  have u: "0 \<le> t mod day_us" "t mod day_us < day_us" by (simp_all add: day_us_def)
  show ?thesis
    by (simp add: fromisoformat_def isoformat_def read_date_iso [OF d] read_time_iso [OF u] read_offset_utc)
qed

lemma as_utc_isoformat: "in_calendar t \<Longrightarrow> map_option as_utc (fromisoformat (isoformat t)) = Some t"
  by (simp add: fromisoformat_isoformat as_utc_def)

end
