(* ===== verification/Naming.thy ===== *)
theory Naming
  imports Prelude
begin

text \<open>
  \<open>util.safe_component\<close>, which turns machine and platform names into directory names, and the joining
  of POSIX paths as \<open>pathlib\<close> does it. A safe component can never leave its parent directory, but
  different names may give the same component.
\<close>

definition safe_char :: "char \<Rightarrow> bool" where
  "safe_char c \<longleftrightarrow> CHR ''A'' \<le> c \<and> c \<le> CHR ''Z'' \<or> CHR ''a'' \<le> c \<and> c \<le> CHR ''z'' \<or>
     CHR ''0'' \<le> c \<and> c \<le> CHR ''9'' \<or> List.member ''._-'' c"

text \<open>\<open>re.sub(r"[^A-Za-z0-9._-]+", "_", s)\<close>: each run of other characters becomes one underscore.\<close>

fun sub_unsafe :: "bool \<Rightarrow> string \<Rightarrow> string" where
  "sub_unsafe in_run [] = []"
| "sub_unsafe in_run (c # cs) =
     (if safe_char c then c # sub_unsafe False cs
      else if in_run then sub_unsafe True cs
      else CHR ''_'' # sub_unsafe True cs)"

definition safe_component :: "string \<Rightarrow> string \<Rightarrow> string" where
  "safe_component fallback name =
     (let cleaned = take 160 (strip ''._-'' (sub_unsafe False (strip whitespace name)))
      in if cleaned = [] then fallback else cleaned)"

abbreviation unnamed :: string where
  "unnamed \<equiv> ''unnamed''"

lemma safe_sub_unsafe: "c \<in> set (sub_unsafe b s) \<Longrightarrow> safe_char c"
  by (induction b s rule: sub_unsafe.induct) (auto simp: safe_char_def split: if_splits)

text \<open>\<open>str(Path(s))\<close>: empty and \<open>.\<close> components vanish. \<open>a / b\<close>: an absolute \<open>b\<close> wins.\<close>

definition norm_path :: "string \<Rightarrow> string" where
  "norm_path s =
     (let ps = filter (\<lambda>c. c \<noteq> [] \<and> c \<noteq> ''.'') (split_on (CHR ''/'') s)
      in if starts_with ''/'' s then ''/'' @ join ''/'' ps
         else if ps = [] then ''.'' else join ''/'' ps)"

definition path_div :: "string \<Rightarrow> string \<Rightarrow> string" where
  "path_div a b = (if starts_with ''/'' b then norm_path b else norm_path (a @ ''/'' @ b))"

section \<open>Properties\<close>

lemma strip_ends:
  "strip cs s = c # r \<Longrightarrow> c \<notin> set cs"
proof -
  have "lstrip cs s = c # q \<Longrightarrow> c \<notin> set cs" for q by (rule lstrip_hd)
  moreover assume "strip cs s = c # r"
  then have "\<exists>q. lstrip cs s = c # q"
  proof -
    have "\<exists>p. lstrip cs s = strip cs s @ p"
      unfolding strip_def rstrip_def lstrip_def
      by (metis rev_append rev_rev_ident takeWhile_dropWhile_id)
    with \<open>strip cs s = c # r\<close> show ?thesis by auto
  qed
  ultimately show ?thesis by blast
qed

text \<open>
  A directory name made by \<open>safe_component\<close> is never empty, at most 160 characters long, has no
  path separator and does not start with a dot (so it is neither \<open>.\<close> nor \<open>..\<close> nor hidden),
  whatever the name of the machine is, provided the fallback is such a name.
\<close>

lemma safe_component_contained:
  assumes "fallback \<noteq> []" "length fallback \<le> 160" "list_all safe_char fallback" "hd fallback \<noteq> CHR ''.''"
  shows "safe_component fallback name \<noteq> [] \<and> length (safe_component fallback name) \<le> 160 \<and>
    CHR ''/'' \<notin> set (safe_component fallback name) \<and> hd (safe_component fallback name) \<noteq> CHR ''.'' \<and>
    list_all safe_char (safe_component fallback name)"
proof -
  let ?t = "strip ''._-'' (sub_unsafe False (strip whitespace name))"
  have safe: "list_all safe_char (take 160 ?t)"
    using set_strip safe_sub_unsafe by (fastforce simp: list_all_iff dest!: in_set_takeD)
  have "hd (take 160 ?t) \<noteq> CHR ''.''" if "take 160 ?t \<noteq> []"
    using that strip_ends [of "''._-''" "sub_unsafe False (strip whitespace name)"] by (cases ?t) auto
  moreover have "CHR ''/'' \<notin> set x" if "list_all safe_char x" for x
    using that by (induction x) (auto simp: safe_char_def)
  ultimately show ?thesis using assms safe by (simp add: safe_component_def Let_def)
qed

text \<open>Different machines can share a directory name.\<close>

lemma safe_component_not_injective:
  "safe_component unnamed ''db 01'' = safe_component unnamed ''db_01''"
  by code_simp

end
