(* ===== verification/Storage.thy ===== *)
theory Storage
  imports World Settings Clock_Read Naming
begin

text \<open>
  The replica targets of \<open>storage.py\<close>: addresses and environments for restic, health checks,
  S3 Object Lock on the objects of a repository and Cloudflare R2 bucket-lock rules; and the command
  runner of \<open>runner.py\<close>. Third-party code (boto3, the R2 HTTP API, restic itself) answers through
  the environment. The lemmas show that retention is only ever extended, that restic's own
  lock objects stay deletable, and that after \<open>ensure_r2_bucket_lock\<close> every persistent namespace is
  covered.
\<close>

section \<open>Commands\<close>

text \<open>\<open>run(command, env=..., check=...)\<close>; the environment given is merged into the process's own.\<close>

definition run_command ::
  "env \<Rightarrow> string list \<Rightarrow> (string \<times> string) list \<Rightarrow> bool \<Rightarrow> run_output act" where
  "run_command E cmd envs chk =
     bind_act (ask (run_reply E) (Run cmd envs)) (\<lambda>(code, out, err).
       if chk \<and> code \<noteq> 0
       then throw (RuntimeError (''command failed ('' @ show_int code @ ''): '' @ join '' '' cmd
              @ [CHR 0x0A] @ strip whitespace err))
       else ret (code, out, err))"

section \<open>Addresses\<close>

definition opt_nonempty :: "string option \<Rightarrow> bool" where
  "opt_nonempty x = (case x of None \<Rightarrow> False | Some s \<Rightarrow> s \<noteq> [])"

definition restic_target_url :: "replica_config \<Rightarrow> string res" where
  "restic_target_url cfg =
     (if rp_backend cfg = ''rest'' then
        (if opt_nonempty (rp_url cfg) then Inr (the (rp_url cfg))
         else Inl (ValueError (''replica '' @ rp_name cfg @ '': missing REST repository url'')))
      else if rp_backend cfg = ''filesystem'' then
        (if opt_nonempty (rp_path cfg) then Inr (the (rp_path cfg))
         else Inl (ValueError (''replica '' @ rp_name cfg @ '': missing filesystem path'')))
      else if rp_backend cfg = ''s3'' then
        (if opt_nonempty (rp_endpoint cfg) \<and> opt_nonempty (rp_bucket cfg)
         then Inr (''s3:'' @ rstrip ''/'' (the (rp_endpoint cfg)) @ ''/'' @ the (rp_bucket cfg)
                @ (if rp_prefix cfg \<noteq> [] then ''/'' @ strip ''/'' (rp_prefix cfg) else []))
         else Inl (ValueError (''replica '' @ rp_name cfg @ '': missing S3 endpoint/bucket'')))
      else Inl (ValueError (''unsupported replica backend: '' @ rp_backend cfg)))"

definition target_env :: "env \<Rightarrow> replica_config \<Rightarrow> (string \<times> string) list res" where
  "target_env E cfg =
     (if \<not> opt_nonempty (getenv E (rp_password_env cfg))
      then Inl (RuntimeError (rp_password_env cfg @ '' is not set for replica '' @ rp_name cfg))
      else bind_res (restic_target_url cfg) (\<lambda>url.
        let base = [(''RESTIC_PASSWORD'', the (getenv E (rp_password_env cfg))), (''RESTIC_REPOSITORY'', url)]
              @ (if opt_nonempty (rp_cacert cfg) then [(''RESTIC_CACERT'', the (rp_cacert cfg))] else [])
        in if rp_backend cfg \<noteq> ''s3'' then Inr base
           else let key = getenv E (rp_access_key_env cfg); secret = getenv E (rp_secret_key_env cfg)
                in if \<not> opt_nonempty key \<or> \<not> opt_nonempty secret
                   then Inl (RuntimeError (''S3 credentials are missing for '' @ rp_name cfg @ '': set ''
                          @ rp_access_key_env cfg @ '' and '' @ rp_secret_key_env cfg))
                   else Inr (base
                     @ [(''AWS_ACCESS_KEY_ID'', the key), (''AWS_SECRET_ACCESS_KEY'', the secret)]
                     @ (case rp_session_token_env cfg of
                          Some n \<Rightarrow> if n \<noteq> [] \<and> opt_nonempty (getenv E n)
                                    then [(''AWS_SESSION_TOKEN'', the (getenv E n))] else []
                        | None \<Rightarrow> [])
                     @ (if opt_nonempty (rp_region cfg)
                        then [(''AWS_DEFAULT_REGION'', the (rp_region cfg))] else []))))"

definition restic_options :: "replica_config \<Rightarrow> string list" where
  "restic_options cfg =
     (if rp_backend cfg \<noteq> ''s3'' then []
      else [''-o'', ''s3.bucket-lookup='' @ rp_bucket_lookup cfg,
            ''-o'', ''s3.connections='' @ show_int (rp_connections cfg)]
         @ (if opt_nonempty (rp_region cfg) then [''-o'', ''s3.region='' @ the (rp_region cfg)] else []))"

section \<open>Health\<close>

definition lift_res :: "'a res \<Rightarrow> 'a act" where
  "lift_res r s = (r, s)"

definition opt_text :: "json option \<Rightarrow> string option" where
  "opt_text x = (case x of Some (JStr s) \<Rightarrow> Some s | _ \<Rightarrow> None)"

text \<open>\<open>_mount_info\<close>: what \<open>findmnt\<close> reports for the file system that holds the path.\<close>

definition mount_info :: "env \<Rightarrow> string \<Rightarrow> (bool \<times> string option \<times> string option) act" where
  "mount_info E path =
     then_act (ask (done_reply E) (MkDir path))
       (bind_act (run_command E [''findmnt'', ''-J'', ''-T'', norm_path path, ''-o'', ''TARGET,SOURCE,FSTYPE''] [] False)
         (\<lambda>(code, out, err).
            ret (if code \<noteq> 0 then (False, None, None)
                 else case loads (if out = [] then ''{}'' else out) of
                     Some (JObj kvs) \<Rightarrow>
                       (case map_of kvs ''filesystems'' of
                          Some (JList (row # _)) \<Rightarrow> (case row of
                              JObj _ \<Rightarrow> (True, opt_text (jget ''source'' row), opt_text (jget ''fstype'' row))
                            | _ \<Rightarrow> (False, None, None))
                        | _ \<Rightarrow> (False, None, None))
                   | _ \<Rightarrow> (False, None, None))))"

text \<open>\<open>sub in text\<close>.\<close>

fun contains :: "string \<Rightarrow> string \<Rightarrow> bool" where
  "contains sub [] \<longleftrightarrow> sub = []"
| "contains sub (c # cs) \<longleftrightarrow> starts_with sub (c # cs) \<or> contains sub cs"

definition mount_problems :: "replica_config \<Rightarrow> bool \<times> string option \<times> string option \<Rightarrow> string list" where
  "mount_problems cfg info =
     (case info of (mounted, src, fstype) \<Rightarrow>
        (if rp_mount_required cfg \<and> \<not> mounted
         then [''filesystem target is configured mount_required=true but is not a separate mounted filesystem'']
         else [])
      @ (if opt_nonempty (rp_mount_type cfg) \<and> opt_nonempty fstype \<and>
            \<not> contains (lower (the (rp_mount_type cfg))) (lower (the fstype))
         then [''mounted filesystem type is '' @ the fstype @ '', expected '' @ the (rp_mount_type cfg)] else [])
      @ (if opt_nonempty (rp_mount_source cfg) \<and> opt_nonempty src \<and>
            \<not> contains (the (rp_mount_source cfg)) (the src)
         then [''mounted source is '' @ the src @ '', expected to contain '' @ the (rp_mount_source cfg)] else []))"

section \<open>S3 Object Lock\<close>

definition OBJECT_LOCK_UNSUPPORTED :: "string list" where
  "OBJECT_LOCK_UNSUPPORTED = [''cloudflare_r2'']"

definition s3_client :: "env \<Rightarrow> replica_config \<Rightarrow> unit act" where
  "s3_client E cfg =
     (if rp_backend cfg \<noteq> ''s3'' then throw (ValueError ''S3 client requested for a non-S3 replica'')
      else if List.member OBJECT_LOCK_UNSUPPORTED (rp_provider cfg)
      then throw (RuntimeError (rp_provider cfg @ '' does not support S3 Object Lock''))
      else then_act (catch (ask (done_reply E) (Probe ''boto3''))
               (\<lambda>_. throw (RuntimeError ''boto3 is required for S3 Object Lock support'')))
           (check (opt_nonempty (getenv E (rp_access_key_env cfg)) \<and> opt_nonempty (getenv E (rp_secret_key_env cfg)))
              (RuntimeError (''missing S3 credentials for '' @ rp_name cfg))))"

definition bucket_name :: "replica_config \<Rightarrow> string" where
  "bucket_name cfg = (case rp_bucket cfg of Some b \<Rightarrow> b | None \<Rightarrow> ''None'')"

definition opt_json :: "string option \<Rightarrow> json" where
  "opt_json x = (case x of None \<Rightarrow> JNull | Some s \<Rightarrow> JStr s)"

definition s3_preflight :: "env \<Rightarrow> replica_config \<Rightarrow> (string \<times> json) list act" where
  "s3_preflight E cfg =
     (let base = [(''name'', JStr (rp_name cfg)), (''provider'', JStr (rp_provider cfg)),
                  (''bucket'', opt_json (rp_bucket cfg)), (''endpoint'', opt_json (rp_endpoint cfg)),
                  (''object_lock_requested'', JBool (rp_object_lock_enabled cfg))]
      in then_act (check (rp_backend cfg = ''s3'') (ValueError ''S3 preflight requires backend=s3''))
        (then_act (s3_client E cfg)
        (then_act (ask (done_reply E) (S3 (bucket_name cfg) HeadBucket))
          (if \<not> rp_object_lock_enabled cfg then ret base
           else bind_act (catch (ask (json_reply E) (S3 (bucket_name cfg) GetLockConfiguration))
                   (\<lambda>e. throw (RuntimeError (''cannot confirm Object Lock on bucket '' @ bucket_name cfg @ '': '' @ exc_msg e))))
                (\<lambda>lock. then_act
                   (check (case jget ''ObjectLockConfiguration'' lock of
                             Some c \<Rightarrow> jget ''ObjectLockEnabled'' c = Some (JStr ''Enabled'') | None \<Rightarrow> False)
                      (RuntimeError (''S3 Object Lock is not enabled on bucket '' @ bucket_name cfg)))
                   (ret (base @ [(''object_lock_enabled'', JBool True)])))))))"

text \<open>The prefix of the repository's objects and of restic's transient lock objects.\<close>

definition list_prefix :: "replica_config \<Rightarrow> string" where
  "list_prefix cfg = (let base = strip ''/'' (rp_prefix cfg) in if base = [] then [] else base @ ''/'')"

definition transient_prefix :: "replica_config \<Rightarrow> string" where
  "transient_prefix cfg = list_prefix cfg @ ''locks/''"

text \<open>One object: \<open>True\<close> when its retention was set, \<open>False\<close> when it was skipped.\<close>

definition lock_object :: "env \<Rightarrow> replica_config \<Rightarrow> instant \<Rightarrow> string \<Rightarrow> bool act" where
  "lock_object E cfg retain_until key =
     (if key = [] \<or> starts_with (transient_prefix cfg) key then ret False
      else bind_act (catch (ask (until_reply E) (S3 (bucket_name cfg) (GetRetention key))) (\<lambda>_. ret None))
        (\<lambda>existing.
           if (case existing of Some u \<Rightarrow> retain_until \<le> u | None \<Rightarrow> False) then ret False
           else then_act (ask (done_reply E)
                   (S3 (bucket_name cfg) (PutRetention key (rp_object_lock_mode cfg) retain_until)))
                 (ret True)))"

definition lock_days :: "int \<Rightarrow> int option \<Rightarrow> int" where
  "lock_days days minimum_days = max days (case minimum_days of None \<Rightarrow> 0 | Some d \<Rightarrow> d)"

definition apply_object_lock :: "env \<Rightarrow> replica_config \<Rightarrow> int option \<Rightarrow> (string \<times> json) list act" where
  "apply_object_lock E cfg minimum_days =
     (if \<not> rp_object_lock_enabled cfg
      then ret [(''enabled'', JBool False), (''locked'', JInt 0), (''skipped'', JInt 0)]
      else then_act (check (rp_backend cfg = ''s3'') (ValueError ''provider Object Lock is only available for S3 replicas''))
        (then_act (s3_client E cfg)
        (bind_act (s3_preflight E cfg) (\<lambda>_.
         bind_act (call_db now_utc) (\<lambda>now.
           let days = lock_days (rp_object_lock_days cfg) minimum_days;
               retain_until = plus_days now days
           in bind_act (ask (texts_reply E) (S3 (bucket_name cfg) (ListObjects (list_prefix cfg)))) (\<lambda>keys.
              bind_act (each (lock_object E cfg retain_until) keys) (\<lambda>done.
                ret [(''enabled'', JBool True), (''mode'', JStr (rp_object_lock_mode cfg)), (''days'', JInt days),
                     (''retain_until'', JStr (isoformat retain_until)),
                     (''locked'', JInt (int (length (filter (\<lambda>b. b) done)))),
                     (''skipped'', JInt (int (length (filter (\<lambda>b. \<not> b) done))))])))))))"

section \<open>Cloudflare R2 bucket locks\<close>

text \<open>\<open>_r2_api\<close>. The transport answers the parsed response or raises: \<open>OSError\<close> for
  \<open>URLError\<close>, any other exception for an HTTP status.\<close>

definition r2_api :: "env \<Rightarrow> replica_config \<Rightarrow> string \<Rightarrow> json \<Rightarrow> (string \<times> json) list act" where
  "r2_api E cfg meth payload =
     (if rp_provider cfg \<noteq> ''cloudflare_r2''
      then throw (ValueError ''Cloudflare R2 API requested for a non-R2 target'')
      else if \<not> opt_nonempty (getenv E (rp_r2_account_id_env cfg)) \<or> \<not> opt_nonempty (getenv E (rp_r2_api_token_env cfg))
      then throw (RuntimeError (''Cloudflare R2 rolling retention requires '' @ rp_r2_account_id_env cfg @ '' and ''
             @ rp_r2_api_token_env cfg @ ''; store a dedicated bucket-configuration token in the protected controller environment because the Date horizon must be refreshed after successful replica copies''))
      else if \<not> opt_nonempty (rp_bucket cfg) then throw (ValueError ''R2 bucket is missing'')
      else bind_act (catch (ask (json_reply E) (R2 (bucket_name cfg) meth payload))
             (\<lambda>e. throw (case e of
                OSError m \<Rightarrow> RuntimeError (''Cloudflare R2 lock API is unreachable: '' @ m)
              | _ \<Rightarrow> RuntimeError (''Cloudflare R2 lock API returned '' @ exc_msg e))))
           (\<lambda>data. case data of
              JObj kvs \<Rightarrow>
                if map_of kvs ''success'' = Some (JBool False)
                then throw (RuntimeError (''Cloudflare R2 lock API failed: ''
                       @ (case map_of kvs ''errors'' of None \<Rightarrow> ''None'' | Some v \<Rightarrow> py_str v)))
                else (case map_of kvs ''result'' of
                    None \<Rightarrow> ret kvs
                  | Some (JObj r) \<Rightarrow> ret r
                  | Some v \<Rightarrow> ret [(''result'', v)])
            | _ \<Rightarrow> throw (OtherError ''object has no attribute get'')))"

text \<open>\<open>value.replace("Z", "+00:00")\<close>, and \<open>_r2_date\<close>.\<close>

definition expand_z :: "string \<Rightarrow> string" where
  "expand_z s = concat (map (\<lambda>c. if c = CHR ''Z'' then ''+00:00'' else [c]) s)"

definition r2_date :: "json \<Rightarrow> instant option" where
  "r2_date condition =
     (let v = strip whitespace (case jget ''date'' condition of None \<Rightarrow> [] | Some d \<Rightarrow> py_str d)
      in if v = [] then None else map_option as_utc (fromisoformat (expand_z v)))"

definition namespaces :: "(string \<times> string) list" where
  "namespaces = [(''data/'', ''data''), (''index/'', ''index''), (''snapshots/'', ''snapshots''),
     (''keys/'', ''keys''), (''config'', ''config'')]"

text \<open>\<open>isoformat().replace("+00:00", "Z")\<close> of a UTC datetime.\<close>

definition isoformat_z :: "instant \<Rightarrow> string" where
  "isoformat_z t = (let s = isoformat t in take (length s - 6) s @ ''Z'')"

definition lock_rule :: "string \<Rightarrow> string \<Rightarrow> string \<Rightarrow> json" where
  "lock_rule i prefix date = JObj
     [(''id'', JStr i), (''enabled'', JBool True), (''prefix'', JStr prefix),
      (''condition'', JObj [(''type'', JStr ''Date''), (''date'', JStr date)])]"

definition rule_id :: "replica_config \<Rightarrow> string \<Rightarrow> string" where
  "rule_id cfg suffix = rp_r2_lock_rule_id cfg @ ''-'' @ suffix"

definition r2_persistent_lock_specs :: "replica_config \<Rightarrow> instant \<Rightarrow> (string \<times> string \<times> json) list" where
  "r2_persistent_lock_specs cfg retain_until =
     map (\<lambda>(namespace, suffix).
            (rule_id cfg suffix, list_prefix cfg @ namespace,
             lock_rule (rule_id cfg suffix) (list_prefix cfg @ namespace) (isoformat_z retain_until)))
       namespaces"

definition r2_rule_covers_until :: "json \<Rightarrow> instant \<Rightarrow> bool" where
  "r2_rule_covers_until rule desired_until =
     (if \<not> (case jget ''enabled'' rule of None \<Rightarrow> True | Some v \<Rightarrow> jtruthy v) then False
      else let condition = or_else (jget ''condition'' rule) (JObj []);
               ctype = jget ''type'' condition
           in if ctype = Some (JStr ''Indefinite'') then True
              else if ctype \<noteq> Some (JStr ''Date'') then False
              else (case r2_date condition of None \<Rightarrow> False | Some d \<Rightarrow> desired_until \<le> d))"

text \<open>\<open>str(r.get("id"))\<close> and \<open>str(r.get("prefix", ""))\<close>.\<close>

definition rule_key :: "json \<Rightarrow> string" where
  "rule_key r = (case jget ''id'' r of None \<Rightarrow> ''None'' | Some v \<Rightarrow> py_str v)"

definition rule_prefix :: "json \<Rightarrow> string" where
  "rule_prefix r = (case jget ''prefix'' r of None \<Rightarrow> [] | Some v \<Rightarrow> py_str v)"

text \<open>The last rule with an id, as the dictionary built from the list has it.\<close>

definition last_index :: "string \<Rightarrow> json list \<Rightarrow> nat option" where
  "last_index i rules = map_of (rev (map (\<lambda>(n, r). (rule_key r, n)) (enumerate 0 rules))) i"

definition place_rule :: "instant \<Rightarrow> (string \<Rightarrow> nat option) \<Rightarrow> string \<times> string \<times> json \<Rightarrow>
    json list \<times> json list \<times> bool \<Rightarrow> json list \<times> json list \<times> bool" where
  "place_rule retain_until current_by_id wanted acc =
     (case wanted of (wid, wprefix, wrule) \<Rightarrow> case acc of (rules, effective, changed) \<Rightarrow>
        case current_by_id wid of
          None \<Rightarrow> (rules @ [wrule], effective @ [wrule], True)
        | Some idx \<Rightarrow>
            let existing = rules ! idx
            in if r2_rule_covers_until existing retain_until \<and> rule_prefix existing = wprefix
               then (rules, effective @ [existing], changed)
               else (rules[idx := wrule], effective @ [wrule], True))"

definition drop_legacy :: "replica_config \<Rightarrow> json list \<Rightarrow> json list" where
  "drop_legacy cfg rules =
     filter (\<lambda>r. \<not> (rule_key r = rp_r2_lock_rule_id cfg \<and> rule_prefix r = list_prefix cfg)) rules"

definition plan_r2_rules ::
  "replica_config \<Rightarrow> instant \<Rightarrow> json list \<Rightarrow> json list \<times> json list \<times> bool" where
  "plan_r2_rules cfg retain_until rules =
     (let kept = drop_legacy cfg rules
      in foldl (\<lambda>acc w. place_rule retain_until (\<lambda>i. last_index i kept) w acc) (kept, [], False)
           (r2_persistent_lock_specs cfg retain_until))"

definition rules_of :: "(string \<times> json) list \<Rightarrow> json list" where
  "rules_of kvs = (case map_of kvs ''rules'' of Some (JList rs) \<Rightarrow> rs | _ \<Rightarrow> [])"

definition ensure_r2_bucket_lock :: "env \<Rightarrow> replica_config \<Rightarrow> int option \<Rightarrow> (string \<times> json) list act" where
  "ensure_r2_bucket_lock E cfg minimum_days =
     (if rp_provider cfg \<noteq> ''cloudflare_r2'' \<or> \<not> rp_r2_bucket_lock_enabled cfg
      then throw (ValueError ''Cloudflare R2 Bucket Lock is not enabled for this target'')
      else bind_act (r2_api E cfg ''GET'' JNull) (\<lambda>result.
        bind_act (call_db now_utc) (\<lambda>now.
          let days = lock_days (rp_r2_bucket_lock_days cfg) minimum_days;
              retain_until = plus_days now days
          in case plan_r2_rules cfg retain_until (rules_of result) of (rules, effective, changed) \<Rightarrow>
             then_act (if changed then bind_act (r2_api E cfg ''PUT'' (JObj [(''rules'', JList rules)])) (\<lambda>_. ret ())
                       else ret ())
               (ret [(''enabled'', JBool True), (''kind'', JStr ''cloudflare_r2_bucket_lock''),
                     (''strength'', JStr ''provider_bucket_policy_admin_mutable''),
                     (''rule_id_base'', JStr (rp_r2_lock_rule_id cfg)), (''days'', JInt days),
                     (''retain_until'', JStr (isoformat retain_until)), (''changed'', JBool changed),
                     (''protected_prefixes'', JList (map (\<lambda>(i, p, r). JStr p) (r2_persistent_lock_specs cfg retain_until))),
                     (''transient_prefix_excluded'', JStr (list_prefix cfg @ ''locks/'')),
                     (''rules'', JList effective)]))))"

definition matched_rules :: "replica_config \<Rightarrow> instant \<Rightarrow> json list \<Rightarrow> (string \<times> json option) list" where
  "matched_rules cfg desired_until rules =
     map (\<lambda>(i, p, w). (p, map_option (\<lambda>n. rules ! n) (last_index i rules))) (r2_persistent_lock_specs cfg desired_until)"

definition r2_bucket_lock_status :: "env \<Rightarrow> replica_config \<Rightarrow> (string \<times> json) list act" where
  "r2_bucket_lock_status E cfg =
     (if rp_provider cfg \<noteq> ''cloudflare_r2''
      then throw (ValueError ''R2 bucket-lock status requires provider=cloudflare_r2'')
      else bind_act (r2_api E cfg ''GET'' JNull) (\<lambda>result.
        bind_act (call_db now_utc) (\<lambda>now.
          let rules = rules_of result;
              desired_until = plus_days now (max 0 (rp_r2_bucket_lock_days cfg - 1));
              matched = matched_rules cfg desired_until rules;
              enabled = list_all (\<lambda>(p, m). case m of None \<Rightarrow> False
                  | Some r \<Rightarrow> jtruthy r \<and> rule_prefix r = p \<and> r2_rule_covers_until r desired_until) matched;
              found = List.map_filter snd matched;
              dates = List.map_filter (\<lambda>r. case or_else (jget ''condition'' r) (JObj []) of c \<Rightarrow>
                  if jget ''type'' c = Some (JStr ''Date'') then r2_date c else None) found
          in ret [(''enabled'', JBool enabled), (''kind'', JStr ''cloudflare_r2_bucket_lock''),
                  (''strength'', JStr ''provider_bucket_policy_admin_mutable''),
                  (''rule_id_base'', JStr (rp_r2_lock_rule_id cfg)),
                  (''protected_prefixes'', JList (map (\<lambda>(p, m). JStr p) matched)),
                  (''transient_prefix_excluded'', JStr (list_prefix cfg @ ''locks/'')),
                  (''minimum_retain_until'', (if dates = [] then JNull else JStr (isoformat (fold min dates (hd dates))))),
                  (''matched_rules'', JList found), (''rules'', JList rules)])))"

section \<open>Health and initialisation of a target\<close>

definition filesystem_health :: "env \<Rightarrow> replica_config \<Rightarrow> (string list \<times> (string \<times> json) list) act" where
  "filesystem_health E cfg =
     (if rp_backend cfg \<noteq> ''filesystem'' then ret ([], [])
      else let path = norm_path (case rp_path cfg of None \<Rightarrow> [] | Some p \<Rightarrow> p)
           in bind_act (catch (then_act (ask (done_reply E) (MkDir path)) (ret []))
                 (\<lambda>e. if os_error e then ret [''filesystem path unavailable: '' @ exc_msg e] else throw e)) (\<lambda>p1.
              bind_act (mount_info E path) (\<lambda>info. case info of (mounted, src, fstype) \<Rightarrow>
                ret (p1 @ mount_problems cfg info,
                     [(''mounted'', JBool mounted), (''mount_source'', opt_json src), (''mount_type'', opt_json fstype)]))))"

definition restic_probe :: "env \<Rightarrow> replica_config \<Rightarrow> (string \<times> string) list \<Rightarrow> (string list \<times> (string \<times> json) list) act" where
  "restic_probe E cfg envs =
     bind_act (ask (bool_reply E) (Probe ''restic'')) (\<lambda>present.
       if \<not> present then ret ([''restic is not installed''], [])
       else bind_act (run_command E ([''restic''] @ restic_options cfg @ [''snapshots'', ''--json'']) envs False)
         (\<lambda>(code, out, err).
            ret (if code \<noteq> 0 then [''restic repository is not initialized or not reachable''] else [],
                 [(''restic_repository_reachable'', JBool (code = 0))])))"

definition provider_lock_health :: "env \<Rightarrow> replica_config \<Rightarrow> (string list \<times> (string \<times> json) list) act" where
  "provider_lock_health E cfg =
     (if rp_provider cfg = ''cloudflare_r2'' \<and> rp_r2_bucket_lock_enabled cfg then
        (if opt_nonempty (getenv E (rp_r2_account_id_env cfg)) \<and> opt_nonempty (getenv E (rp_r2_api_token_env cfg))
         then catch (bind_act (r2_bucket_lock_status E cfg) (\<lambda>lock.
                ret (if map_of lock ''enabled'' = Some (JBool True) then []
                     else [''Cloudflare R2 Bucket Lock rules are incomplete or disabled''],
                     [(''provider_lock'', JObj lock)])))
              (\<lambda>e. ret ([''Cloudflare R2 Bucket Lock verification failed: '' @ exc_msg e], []))
         else ret ([], [(''provider_lock'', JObj
                [(''configured'', JBool True), (''verified'', JBool False),
                 (''note'', JStr ''admin Cloudflare credentials are not loaded in this service environment'')])]))
      else ret ([], []))"

record target_health =
  th_ok :: bool
  th_problems :: "string list"
  th_details :: "(string \<times> json) list"

definition target_health_of :: "env \<Rightarrow> replica_config \<Rightarrow> target_health act" where
  "target_health_of E cfg =
     bind_act (lift_res (restic_target_url cfg)) (\<lambda>url.
       let details = [(''name'', JStr (rp_name cfg)), (''backend'', JStr (rp_backend cfg)), (''repository'', JStr url)]
       in case target_env E cfg of
            Inl e \<Rightarrow> ret \<lparr>th_ok = False, th_problems = [exc_msg e], th_details = details\<rparr>
          | Inr envs \<Rightarrow>
              bind_act (filesystem_health E cfg) (\<lambda>(p1, d1).
              bind_act (restic_probe E cfg envs) (\<lambda>(p2, d2).
              bind_act (provider_lock_health E cfg) (\<lambda>(p3, d3).
                ret \<lparr>th_ok = (p1 @ p2 @ p3 = []), th_problems = p1 @ p2 @ p3,
                     th_details = details @ d1 @ d2 @ d3\<rparr>))))"

definition init_target :: "env \<Rightarrow> replica_config \<Rightarrow> (string \<times> json) list act" where
  "init_target E cfg =
     bind_act (lift_res (target_env E cfg)) (\<lambda>envs.
     then_act (when_act (rp_backend cfg = ''filesystem'')
        (ask (done_reply E) (MkDir (norm_path (case rp_path cfg of None \<Rightarrow> [] | Some p \<Rightarrow> p)))))
     (bind_act (run_command E ([''restic''] @ restic_options cfg @ [''snapshots'', ''--json'']) envs False)
        (\<lambda>(code, out, err).
        bind_act (if code \<noteq> 0
           then bind_act (run_command E ([''restic''] @ restic_options cfg @ [''init'']) envs True) (\<lambda>_. ret True)
           else ret False) (\<lambda>created.
        bind_act (lift_res (restic_target_url cfg)) (\<lambda>url.
          ret [(''name'', JStr (rp_name cfg)), (''repository'', JStr url), (''created'', JBool created)])))))"

section \<open>The horizon of Object Lock\<close>

text \<open>Every retention that is set is that of the configured mode until \<open>u\<close>, for an object of the repository
  outside \<open>locks/\<close>, directly after asking for its current one, and not when the answer was a date at or
  after \<open>u\<close>.\<close>

definition put_ok :: "env \<Rightarrow> replica_config \<Rightarrow> instant \<Rightarrow> call list \<Rightarrow> call list \<Rightarrow> bool" where
  "put_ok E cfg u before cs \<longleftrightarrow>
     (\<forall>xs b k m v ys. cs = xs @ S3 b (PutRetention k m v) # ys \<longrightarrow>
        rp_object_lock_enabled cfg \<and> b = bucket_name cfg \<and> m = rp_object_lock_mode cfg \<and> v = u \<and>
        k \<noteq> [] \<and> \<not> starts_with (transient_prefix cfg) k \<and>
        (\<exists>ws. xs = ws @ [S3 b (GetRetention k)] \<and>
           (\<forall>u'. until_reply E (before @ ws) (S3 b (GetRetention k)) = Inr (Some u') \<longrightarrow> u' < u)))"

definition lock_safe :: "env \<Rightarrow> replica_config \<Rightarrow> instant \<Rightarrow> sys \<Rightarrow> sys \<Rightarrow> bool" where
  "lock_safe E cfg u s t \<longleftrightarrow> (\<exists>cs. trace t = trace s @ cs \<and> put_ok E cfg u (trace s) cs)"

lemma put_ok_append:
  assumes "put_ok E cfg u p cs" "put_ok E cfg u (p @ cs) ds"
  shows "put_ok E cfg u p (cs @ ds)"
  unfolding put_ok_def
proof (intro allI impI)
  fix xs b k m v ys
  let ?put = "S3 b (PutRetention k m v)" and ?get = "S3 b (GetRetention k)"
  let ?ok = "rp_object_lock_enabled cfg \<and> b = bucket_name cfg \<and> m = rp_object_lock_mode cfg \<and> v = u \<and>
      k \<noteq> [] \<and> \<not> starts_with (transient_prefix cfg) k"
  assume eq: "cs @ ds = xs @ ?put # ys"
  then obtain us where "cs = xs @ us \<and> us @ ds = ?put # ys \<or> xs = cs @ us \<and> ds = us @ ?put # ys"
    by (auto simp: append_eq_append_conv2)
  then consider zs where "cs = xs @ ?put # zs" | zs where "xs = cs @ zs" "ds = zs @ ?put # ys"
    by (cases us) auto
  then have "?ok \<and> (\<exists>ws. xs = ws @ [?get] \<and> (\<forall>u'. until_reply E (p @ ws) ?get = Inr (Some u') \<longrightarrow> u' < u))"
  proof cases
    case 1
    then show ?thesis using assms(1) unfolding put_ok_def by blast
  next
    case 2
    then obtain ws where "?ok" "zs = ws @ [?get]" "\<forall>u'. until_reply E ((p @ cs) @ ws) ?get = Inr (Some u') \<longrightarrow> u' < u"
      using assms(2) unfolding put_ok_def by blast
    then show ?thesis using 2 by (intro conjI exI [of _ "cs @ ws"]) simp_all
  qed
  then show "rp_object_lock_enabled cfg \<and> b = bucket_name cfg \<and> m = rp_object_lock_mode cfg \<and> v = u \<and>
      k \<noteq> [] \<and> \<not> starts_with (transient_prefix cfg) k \<and>
      (\<exists>ws. xs = ws @ [?get] \<and> (\<forall>u'. until_reply E (p @ ws) ?get = Inr (Some u') \<longrightarrow> u' < u))"
    by blast
qed

interpretation lock_safe: step_relation "lock_safe E cfg u" for E cfg u
proof
  show "lock_safe E cfg u s s" for s :: sys by (simp add: lock_safe_def put_ok_def)
  show "lock_safe E cfg u s w" if "lock_safe E cfg u s t" "lock_safe E cfg u t w" for s t w :: sys
    using that put_ok_append unfolding lock_safe_def by (metis append.assoc)
qed

lemma lock_safe_ask [intro]:
  "(\<And>b k m v. c \<noteq> S3 b (PutRetention k m v)) \<Longrightarrow> steps (lock_safe E cfg u) (ask f c)"
  by (auto simp: steps_def lock_safe_def ask_def put_ok_def Cons_eq_append_conv)

lemma lock_safe_now [intro]: "steps (lock_safe E cfg u) (call_db f)"
  by (auto simp: steps_def lock_safe_def call_db_def put_ok_def split: prod.split)

lemma lock_safe_object:
  assumes "rp_object_lock_enabled cfg"
  shows "steps (lock_safe E cfg u) (lock_object E cfg u key)"
  unfolding steps_def
proof
  fix s :: sys
  let ?g = "S3 (bucket_name cfg) (GetRetention key)"
  let ?p = "S3 (bucket_name cfg) (PutRetention key (rp_object_lock_mode cfg) u)"
  let ?a = "until_reply E (trace s) ?g"
  have one: "put_ok E cfg u (trace s) [?g]" by (auto simp: put_ok_def Cons_eq_append_conv)
  have two: "put_ok E cfg u (trace s) [?g, ?p]"
    if "key \<noteq> []" "\<not> starts_with (transient_prefix cfg) key" "\<forall>u'. ?a = Inr (Some u') \<longrightarrow> u' < u"
    using that assms by (auto simp: put_ok_def Cons_eq_append_conv append_eq_Cons_conv)
  show "lock_safe E cfg u s (snd (lock_object E cfg u key s))"
    using one two
    by (cases ?a)
      (auto simp: lock_object_def bind_act_def then_act_def catch_def ask_def lock_safe_def put_ok_def [of _ _ _ _ "[]"]
        split: option.split sum.split)
qed

lemma lock_safe_preflight: "steps (lock_safe E cfg u) (s3_client E cfg)" "steps (lock_safe E cfg u) (s3_preflight E cfg)"
  unfolding s3_preflight_def s3_client_def Let_def
  by (intro lock_safe.steps_if lock_safe.steps_then lock_safe.steps_bind lock_safe.steps_ret lock_safe.steps_check
      lock_safe.steps_throw lock_safe.steps_catch lock_safe_ask; simp)+

text \<open>An object is settled by the calls \<open>cs\<close> when they set its retention to \<open>u\<close>, or read one that lasts as long.\<close>

definition lock_settled :: "env \<Rightarrow> replica_config \<Rightarrow> instant \<Rightarrow> call list \<Rightarrow> call list \<Rightarrow> string \<Rightarrow> bool" where
  "lock_settled E cfg u before cs k \<longleftrightarrow>
     S3 (bucket_name cfg) (PutRetention k (rp_object_lock_mode cfg) u) \<in> set cs \<or>
     (\<exists>ws vs u'. cs = ws @ S3 (bucket_name cfg) (GetRetention k) # vs \<and>
        until_reply E (before @ ws) (S3 (bucket_name cfg) (GetRetention k)) = Inr (Some u') \<and> u \<le> u')"

lemma lock_settled_append: "lock_settled E cfg u before cs k \<Longrightarrow> lock_settled E cfg u before (cs @ ds) k"
  unfolding lock_settled_def by (metis Un_iff append.assoc append_Cons set_append)

lemma lock_settled_later: "lock_settled E cfg u (before @ cs) ds k \<Longrightarrow> lock_settled E cfg u before (cs @ ds) k"
  unfolding lock_settled_def by (metis Un_iff append.assoc set_append)

lemma lock_object_settles:
  assumes "lock_object E cfg u k s = (Inr b, t)" "k \<noteq> []" "\<not> starts_with (transient_prefix cfg) k"
  shows "\<exists>cs. trace t = trace s @ cs \<and> lock_settled E cfg u (trace s) cs k"
proof -
  let ?get = "S3 (bucket_name cfg) (GetRetention k)"
  have kept: "lock_settled E cfg u (trace s) [?get] k" if "until_reply E (trace s) ?get = Inr (Some u')" "u \<le> u'" for u'
    using that unfolding lock_settled_def by (metis append_Nil append_Nil2)
  have put: "lock_settled E cfg u (trace s) [?get, S3 (bucket_name cfg) (PutRetention k (rp_object_lock_mode cfg) u)] k"
    by (simp add: lock_settled_def)
  show ?thesis
    using assms kept put
    by (cases "until_reply E (trace s) ?get")
      (auto simp: lock_object_def bind_act_def then_act_def catch_def ask_def split: option.splits sum.splits if_splits)
qed

lemma lock_all_settles:
  assumes "each (lock_object E cfg u) keys s = (Inr ys, t)"
  shows "\<exists>cs. trace t = trace s @ cs \<and>
    (\<forall>k\<in>set keys. k = [] \<or> starts_with (transient_prefix cfg) k \<or> lock_settled E cfg u (trace s) cs k)"
  using assms
proof (induction keys arbitrary: s ys)
  case (Cons k ks)
  then obtain b v zs where k: "lock_object E cfg u k s = (Inr b, v)" and ks: "each (lock_object E cfg u) ks v = (Inr zs, t)"
    by (auto simp: bind_Inr)
  obtain ds where ds: "trace t = trace v @ ds"
    "\<forall>k\<in>set ks. k = [] \<or> starts_with (transient_prefix cfg) k \<or> lock_settled E cfg u (trace v) ds k"
    using Cons.IH [OF ks] by blast
  show ?case
  proof (cases "k = [] \<or> starts_with (transient_prefix cfg) k")
    case True
    then have "v = s" using k by (auto simp: lock_object_def)
    with ds True show ?thesis by auto
  next
    case False
    then obtain cs where cs: "trace v = trace s @ cs" "lock_settled E cfg u (trace s) cs k"
      using lock_object_settles [OF k] by auto
    with ds have "\<forall>k\<in>set ks. k = [] \<or> starts_with (transient_prefix cfg) k \<or> lock_settled E cfg u (trace s) (cs @ ds) k"
      by (metis lock_settled_later)
    with cs ds(1) show ?thesis by (intro exI [of _ "cs @ ds"]) (auto intro: lock_settled_append)
  qed
qed simp

lemma client_keeps: "s3_client E cfg s = (r, t) \<Longrightarrow> database t = database s"
  by (auto simp: s3_client_def then_act_def bind_act_def catch_def ask_def throw_def check_def split: if_splits sum.splits)

lemma preflight_keeps: "s3_preflight E cfg s = (r, t) \<Longrightarrow> database t = database s"
  unfolding s3_preflight_def Let_def then_act_def
  by (auto simp: bind_act_def catch_def ask_def throw_def check_def split: if_splits sum.splits prod.splits
      dest!: client_keeps)

section \<open>What \<open>ensure_r2_bucket_lock\<close> leaves in the bucket\<close>

lemma digits_not_blank: "list_all (\<lambda>k. \<not> List.member whitespace (digit_char k)) [0..<10]"
  by code_simp

lemma hd_pad: "hd (pad (Suc w) n) = digit_char (n div 10 ^ w mod 10)"
  by simp

lemma isoformat_parts:
  "\<exists>p. isoformat u = p @ ''+00:00'' \<and> CHR ''Z'' \<notin> set p \<and> p \<noteq> [] \<and> \<not> List.member whitespace (hd p)"
proof -
  have dig: "c \<in> set (pad w n) \<Longrightarrow> digit_val c \<noteq> None" for c w n
    using digits_pad [of w n] by (simp add: list_all_iff)
  have nz: "CHR ''Z'' \<notin> set (pad w n)" for w n using dig [of "CHR ''Z''" w n] by (auto simp: digit_val_def)
  obtain y m d where c: "civil (u div day_us) = (y, m, d)" using prod_cases3 by blast
  let ?us = "u mod day_us mod second_us" and ?s = "nat (u mod day_us div second_us)"
  obtain q where q: "iso_frac ?us = q @ ''+00:00''" "CHR ''Z'' \<notin> set q"
    using nz [of 6 "nat ?us"] by (cases "?us = 0") (auto simp: iso_frac_def simp del: pad.simps)
  let ?p = "pad 4 (nat y) @ ''-'' @ pad 2 m @ ''-'' @ pad 2 d @ ''T'' @ pad 2 (?s div 3600) @ '':''
    @ pad 2 (?s mod 3600 div 60) @ '':'' @ pad 2 (?s mod 60) @ q"
  have "isoformat u = ?p @ ''+00:00''"
    using q(1) by (simp add: isoformat_def iso_date_def iso_time_def c Let_def del: pad.simps)
  moreover have "CHR ''Z'' \<notin> set ?p" using nz q(2) by (simp del: pad.simps)
  moreover have "hd ?p = digit_char (nat y div 10 ^ 3 mod 10)"
    using hd_pad [of 3 "nat y"] length_pad [of 4 "nat y"]
    by (cases "pad 4 (nat y)") (simp_all del: pad.simps)
  moreover have "\<not> List.member whitespace (digit_char k)" if "k < 10" for k
    using digits_not_blank that by (simp only: list_all_iff set_upt Ball_def atLeastLessThan_iff le0 simp_thms)
  ultimately have "\<not> List.member whitespace (hd ?p)" "isoformat u = ?p @ ''+00:00''" "CHR ''Z'' \<notin> set ?p"
    by (simp_all only: mod_less_divisor zero_less_numeral not_False_eq_True)
  moreover have "?p \<noteq> []" by (simp del: pad.simps)
  ultimately show ?thesis by blast
qed

lemma rule_covers_new:
  assumes "in_calendar u"
  shows "r2_rule_covers_until (lock_rule i p (isoformat_z u)) u' \<longleftrightarrow> u' \<le> u"
proof -
  obtain p where p: "isoformat u = p @ ''+00:00''" "CHR ''Z'' \<notin> set p" "p \<noteq> []" "\<not> List.member whitespace (hd p)"
    using isoformat_parts by blast
  have z: "isoformat_z u = p @ ''Z''" using p(1) by (simp add: isoformat_z_def Let_def)
  have "\<not> List.member whitespace CHR ''Z''" by code_simp
  then have "rstrip whitespace (p @ ''Z'') = p @ ''Z''"
    by (simp only: rstrip_def lstrip_def rev_append rev.simps append.simps dropWhile.simps if_False
        rev_rev_ident append_Nil)
  moreover have "lstrip whitespace (p @ ''Z'') = p @ ''Z''"
    using p(3,4) by (cases p) (simp_all add: lstrip_def del: List.member_iff)
  ultimately have "strip whitespace (p @ ''Z'') = p @ ''Z''" by (simp only: strip_def)
  moreover have "concat (map (\<lambda>c. if c = CHR ''Z'' then ''+00:00'' else [c]) xs) = xs" if "CHR ''Z'' \<notin> set xs" for xs
    using that by (induction xs) auto
  then have "expand_z (p @ ''Z'') = isoformat u" using p(1,2) by (simp add: expand_z_def)
  ultimately show ?thesis
    using fromisoformat_isoformat [OF assms] p(3)
    by (simp add: r2_rule_covers_until_def lock_rule_def or_else_def r2_date_def z Let_def as_utc_def)
qed

text \<open>Positions of rules by id.\<close>

lemma map_of_index:
  "map_of (rev (map (\<lambda>(n, r). (key r, n)) (enumerate k rs))) i = Some n \<longleftrightarrow>
     k \<le> n \<and> n < k + length rs \<and> key (rs ! (n - k)) = i \<and>
     (\<forall>m. n < m \<and> m < k + length rs \<longrightarrow> key (rs ! (m - k)) \<noteq> i)"
proof (induction rs rule: rev_induct)
  case Nil
  then show ?case by simp
next
  case (snoc r rs)
  then show ?case
    by (cases "key r = i") (auto simp: enumerate_append_eq nth_append less_Suc_eq)
qed

lemma last_index_Some:
  "last_index i rules = Some n \<longleftrightarrow>
     n < length rules \<and> rule_key (rules ! n) = i \<and> (\<forall>m. n < m \<and> m < length rules \<longrightarrow> rule_key (rules ! m) \<noteq> i)"
  using map_of_index [of rule_key 0 rules i n] by (simp add: last_index_def)

text \<open>The plan in closed form: each kept rule with its replacement, if it has one, and the rules that
  were missing.\<close>

definition replaced :: "instant \<Rightarrow> (string \<times> string \<times> json) list \<Rightarrow> json list \<Rightarrow> nat \<Rightarrow> json \<Rightarrow> json" where
  "replaced u specs kept n r =
     (case find (\<lambda>(i, p, w). last_index i kept = Some n) specs of
        None \<Rightarrow> r
      | Some (i, p, w) \<Rightarrow> if r2_rule_covers_until r u \<and> rule_prefix r = p then r else w)"

definition added :: "(string \<times> string \<times> json) list \<Rightarrow> json list \<Rightarrow> json list" where
  "added specs kept = map (\<lambda>(i, p, w). w) (filter (\<lambda>(i, p, w). last_index i kept = None) specs)"

definition planned :: "instant \<Rightarrow> (string \<times> string \<times> json) list \<Rightarrow> json list \<Rightarrow> json list" where
  "planned u specs kept = map (\<lambda>(n, r). replaced u specs kept n r) (enumerate 0 kept) @ added specs kept"

lemma find_snoc: "find P (xs @ [x]) = (case find P xs of Some y \<Rightarrow> Some y | None \<Rightarrow> if P x then Some x else None)"
  by (induction xs) auto

lemma foldl_place:
  assumes "distinct (map fst specs)"
  shows "fst (foldl (\<lambda>acc w. place_rule u (\<lambda>i. last_index i kept) w acc) (kept, [], False) specs) =
    planned u specs kept"
  using assms
proof (induction specs rule: rev_induct)
  case Nil
  have "map (\<lambda>(n, r). r) (enumerate 0 kept) = kept"
    by (rule nth_equalityI) (auto simp: nth_enumerate_eq)
  then show ?case by (simp add: planned_def replaced_def added_def)
next
  case (snoc s specs)
  let ?acc = "foldl (\<lambda>acc w. place_rule u (\<lambda>i. last_index i kept) w acc) (kept, [], False) specs"
  obtain i p w where s: "s = (i, p, w)" by (cases s) auto
  obtain rules eff ch where acc: "?acc = (rules, eff, ch)" by (cases ?acc) auto
  have rules: "rules = planned u specs kept" using snoc acc by simp
  have i: "i \<notin> fst ` set specs" using snoc.prems s by auto
  show ?case
  proof (cases "last_index i kept")
    case None
    have "replaced u (specs @ [s]) kept n r = replaced u specs kept n r" for n r
      using None by (simp add: replaced_def find_snoc s split: option.split)
    then show ?thesis using None acc by (simp add: place_rule_def s rules planned_def added_def)
  next
    case (Some idx)
    then have idx: "idx < length kept" by (simp add: last_index_Some)
    have none: "find (\<lambda>(i, p, w). last_index i kept = Some idx) specs = None"
      using i Some by (force simp: find_None_iff last_index_Some)
    have new: "replaced u (specs @ [s]) kept n r =
        (if n = idx then (if r2_rule_covers_until r u \<and> rule_prefix r = p then r else w) else replaced u specs kept n r)" for n r
      using Some none by (auto simp: replaced_def find_snoc s split: option.split)
    have old: "rules ! idx = kept ! idx"
      using idx none by (simp add: rules planned_def nth_append nth_enumerate_eq replaced_def)
    have add: "added (specs @ [s]) kept = added specs kept" using Some by (simp add: added_def s)
    have "planned u (specs @ [s]) kept =
        rules[idx := (if r2_rule_covers_until (kept ! idx) u \<and> rule_prefix (kept ! idx) = p then kept ! idx else w)]"
      unfolding rules planned_def add using idx
      by (intro nth_equalityI) (auto simp: nth_append nth_list_update nth_enumerate_eq new)
    moreover have "rules[idx := kept ! idx] = rules" by (simp add: old [symmetric])
    ultimately show ?thesis using Some acc old by (auto simp: place_rule_def s Let_def)
  qed
qed

lemma specs_ids: "map fst (r2_persistent_lock_specs cfg u) = map (\<lambda>(n, s). rule_id cfg s) namespaces"
  by (simp add: r2_persistent_lock_specs_def case_prod_unfold)

lemma specs_distinct: "distinct (map fst (r2_persistent_lock_specs cfg u))"
  unfolding specs_ids by (simp add: namespaces_def rule_id_def)

lemma plan_rules: "fst (plan_r2_rules cfg u rules) = planned u (r2_persistent_lock_specs cfg u) (drop_legacy cfg rules)"
  using foldl_place [OF specs_distinct] by (simp add: plan_r2_rules_def Let_def)

lemma spec_rule:
  "(i, p, w) \<in> set (r2_persistent_lock_specs cfg u) \<Longrightarrow>
     w = lock_rule i p (isoformat_z u) \<and> rule_key w = i \<and> rule_prefix w = p \<and> jtruthy w"
  by (auto simp: r2_persistent_lock_specs_def lock_rule_def rule_key_def rule_prefix_def)

lemma find_unique:
  assumes "distinct (map fst specs)" "(i, p, w) \<in> set specs" "last_index i kept = Some n"
  shows "find (\<lambda>(i, p, w). last_index i kept = Some n) specs = Some (i, p, w)"
proof (cases "find (\<lambda>(i, p, w). last_index i kept = Some n) specs")
  case None
  with assms(2,3) show ?thesis by (auto simp: find_None_iff)
next
  case (Some x)
  obtain j q v where x: "x = (j, q, v)" by (cases x) auto
  have "x \<in> set specs" "last_index j kept = Some n" using find_Some_set [OF Some] x by auto
  moreover have "j = i" using \<open>last_index j kept = Some n\<close> assms(3) by (simp add: last_index_Some)
  ultimately show ?thesis using assms(1,2) Some x by (metis eq_key_imp_eq_value)
qed

lemma replaced_key:
  assumes "\<And>i p w. (i, p, w) \<in> set specs \<Longrightarrow> rule_key w = i" "n < length kept"
  shows "rule_key (replaced u specs kept n (kept ! n)) = rule_key (kept ! n)"
proof (cases "find (\<lambda>(i, p, w). last_index i kept = Some n) specs")
  case None
  then show ?thesis by (simp add: replaced_def)
next
  case (Some x)
  obtain i p w where x: "x = (i, p, w)" by (cases x) auto
  from find_Some_set [OF Some] x have "(i, p, w) \<in> set specs" "last_index i kept = Some n" by auto
  then have "rule_key w = rule_key (kept ! n)" using assms(1) by (simp add: last_index_Some)
  then show ?thesis by (simp add: replaced_def Some x)
qed

lemma planned_keys:
  assumes "\<And>i p w. (i, p, w) \<in> set specs \<Longrightarrow> rule_key w = i"
  shows "map rule_key (planned u specs kept) =
    map rule_key kept @ map fst (filter (\<lambda>s. last_index (fst s) kept = None) specs)"
proof -
  have "map rule_key (map (\<lambda>(n, r). replaced u specs kept n r) (enumerate 0 kept)) = map rule_key kept"
    by (rule nth_equalityI) (auto simp: nth_enumerate_eq replaced_key [OF assms])
  moreover have "map rule_key (added specs kept) = map fst (filter (\<lambda>s. last_index (fst s) kept = None) specs)"
    using assms unfolding added_def by (induction specs) (auto split: prod.splits)
  ultimately show ?thesis by (simp add: planned_def)
qed

lemma last_index_nth:
  "last_index i rules = Some n \<longleftrightarrow> n < length rules \<and> map rule_key rules ! n = i \<and>
     (\<forall>m. n < m \<and> m < length rules \<longrightarrow> map rule_key rules ! m \<noteq> i)"
  by (auto simp: last_index_Some)

lemma planned_last:
  assumes sp: "\<And>i p w. (i, p, w) \<in> set specs \<Longrightarrow> rule_key w = i \<and> rule_prefix w = p \<and> r2_rule_covers_until w u"
    and d: "distinct (map fst specs)" and s: "(i, p, w) \<in> set specs"
  shows "\<exists>n. last_index i (planned u specs kept) = Some n \<and> rule_prefix (planned u specs kept ! n) = p \<and>
    r2_rule_covers_until (planned u specs kept ! n) u"
proof -
  let ?new = "filter (\<lambda>s. last_index (fst s) kept = None) specs"
  let ?R = "planned u specs kept"
  have keys: "map rule_key ?R = map rule_key kept @ map fst ?new" using sp by (intro planned_keys) auto
  then have len: "length ?R = length kept + length ?new" by (metis length_append length_map)
  show ?thesis
  proof (cases "last_index i kept")
    case (Some n)
    then have n: "n < length kept" by (simp add: last_index_Some)
    have "map fst ?new ! m \<noteq> i" if "m < length ?new" for m
    proof
      assume "map fst ?new ! m = i"
      then have "i \<in> set (map fst ?new)" using that nth_mem by (metis length_map)
      then show False using Some by auto
    qed
    then have "last_index i ?R = Some n"
      using Some n unfolding last_index_nth keys len by (auto simp: nth_append)
    moreover have "?R ! n = (if r2_rule_covers_until (kept ! n) u \<and> rule_prefix (kept ! n) = p then kept ! n else w)"
      using n find_unique [OF d s Some]
      by (simp add: planned_def nth_append nth_enumerate_eq replaced_def)
    ultimately show ?thesis using sp [OF s] by auto
  next
    case None
    then have "(i, p, w) \<in> set ?new" using s by simp
    then obtain m where m: "m < length ?new" "?new ! m = (i, p, w)" by (metis in_set_conv_nth)
    have "distinct (map fst ?new)" using d by (rule distinct_map_filter)
    then have other: "map fst ?new ! k \<noteq> i" if "k < length ?new" "k \<noteq> m" for k
      using nth_eq_iff_index_eq [of "map fst ?new" k m] m that by simp
    have "map fst ?new ! (k - length kept) \<noteq> i" if "length kept + m < k" "k < length kept + length ?new" for k
      using that by (intro other) linarith+
    moreover have "map fst ?new ! m = i" using m by simp
    ultimately have "last_index i ?R = Some (length kept + m)"
      using m unfolding last_index_nth keys len by (auto simp: nth_append simp del: nth_map)
    moreover have "?R ! (length kept + m) = w"
      using m by (simp add: planned_def nth_append added_def case_prod_unfold)
    ultimately show ?thesis using sp [OF s] by auto
  qed
qed

lemma covers_mono: "r2_rule_covers_until r u \<Longrightarrow> u' \<le> u \<Longrightarrow> r2_rule_covers_until r u'"
  by (auto simp: r2_rule_covers_until_def Let_def split: if_splits option.splits)

lemma covers_truthy: "r2_rule_covers_until r u \<Longrightarrow> jtruthy r \<or> r = JNull"
  by (cases r) (auto simp: r2_rule_covers_until_def or_else_def split: if_splits)

text \<open>Rules of other administrators are kept.\<close>

lemma filter_planned:
  assumes sp: "\<And>i p w. (i, p, w) \<in> set specs \<Longrightarrow> rule_key w = i"
  shows "filter (\<lambda>r. rule_key r \<notin> fst ` set specs) (planned u specs kept) =
    filter (\<lambda>r. rule_key r \<notin> fst ` set specs) kept"
proof -
  have "filter P (map (\<lambda>(n, r). replaced u specs kept n r) (enumerate 0 kept)) = filter P kept"
    if P: "P = (\<lambda>r. rule_key r \<notin> fst ` set specs)" for P
  proof -
    have "replaced u specs kept n (kept ! n) = kept ! n" if "n < length kept" "P (kept ! n)" for n
    proof -
      have "find (\<lambda>(i, p, w). last_index i kept = Some n) specs = None"
        using that(2) P by (force simp: find_None_iff last_index_Some)
      then show ?thesis by (simp add: replaced_def)
    qed
    moreover have "P (replaced u specs kept n (kept ! n)) = P (kept ! n)" if "n < length kept" for n
      using replaced_key [OF sp that] P by simp
    ultimately have "list_all2 (\<lambda>x y. P x = P y \<and> (P y \<longrightarrow> x = y))
        (map (\<lambda>(n, r). replaced u specs kept n r) (enumerate 0 kept)) kept"
      by (auto simp: list_all2_conv_all_nth nth_enumerate_eq)
    then show ?thesis by (induction rule: list_all2_induct) auto
  qed
  moreover have "filter (\<lambda>r. rule_key r \<notin> fst ` set specs) (added specs kept) = []"
    using sp by (force simp: filter_empty_conv added_def)
  ultimately show ?thesis by (simp add: planned_def)
qed

lemma specs_ok:
  assumes "in_calendar u" "(i, p, w) \<in> set (r2_persistent_lock_specs cfg u)"
  shows "rule_key w = i \<and> rule_prefix w = p \<and> r2_rule_covers_until w u"
  using spec_rule [OF assms(2)] rule_covers_new [OF assms(1), of i p u] by (metis order_refl)

lemma matched_planned:
  assumes u: "in_calendar u" and le: "u' \<le> u"
    and m: "m \<in> set (matched_rules cfg u' (fst (plan_r2_rules cfg u rules)))"
  shows "\<exists>r. snd m = Some r \<and> rule_prefix r = fst m \<and> r2_rule_covers_until r u'"
proof -
  let ?R = "fst (plan_r2_rules cfg u rules)"
  obtain i p w where iw: "(i, p, w) \<in> set (r2_persistent_lock_specs cfg u')"
    "m = (p, map_option (\<lambda>n. ?R ! n) (last_index i ?R))"
    using m by (auto simp: matched_rules_def)
  then have "(i, p, lock_rule i p (isoformat_z u)) \<in> set (r2_persistent_lock_specs cfg u)"
    by (force simp: r2_persistent_lock_specs_def)
  from planned_last [where kept = "drop_legacy cfg rules", OF _ specs_distinct this, of u] specs_ok [OF u]
  obtain n where "last_index i ?R = Some n" "rule_prefix (?R ! n) = p" "r2_rule_covers_until (?R ! n) u"
    unfolding plan_rules by blast
  then show ?thesis using iw(2) covers_mono [OF _ le] by auto
qed

section \<open>Properties\<close>

text \<open>The date to which \<open>apply_object_lock\<close> locks: the days of the replica, or more if asked for, from the one
  reading of the clock.\<close>

definition lock_horizon :: "replica_config \<Rightarrow> int option \<Rightarrow> sys \<Rightarrow> instant" where
  "lock_horizon cfg days s =
     plus_days (clock (database s) (reads (database s))) (max (rp_object_lock_days cfg) (case days of None \<Rightarrow> 0 | Some d \<Rightarrow> d))"

definition locks_listed :: "env \<Rightarrow> replica_config \<Rightarrow> instant \<Rightarrow> sys \<Rightarrow> sys \<Rightarrow> bool" where
  "locks_listed E cfg u s t \<longleftrightarrow>
     (\<exists>pre post keys. trace t = trace s @ pre @ S3 (bucket_name cfg) (ListObjects (list_prefix cfg)) # post \<and>
        texts_reply E (trace s @ pre) (S3 (bucket_name cfg) (ListObjects (list_prefix cfg))) = Inr keys \<and>
        (\<forall>k\<in>set keys. k = [] \<or> starts_with (transient_prefix cfg) k \<or>
           lock_settled E cfg u (trace s @ pre @ [S3 (bucket_name cfg) (ListObjects (list_prefix cfg))]) post k))"

lemma horizon_read:
  assumes "s3_client E cfg s = (Inr x, t)" "s3_preflight E cfg t = (Inr y, v)" "call_db now_utc v = (Inr now, w)"
  shows "plus_days now (lock_days (rp_object_lock_days cfg) days) = lock_horizon cfg days s"
  using assms(3) client_keeps [OF assms(1)] preflight_keeps [OF assms(2)]
  by (simp add: call_db_def now_utc_def lock_horizon_def lock_days_def)

lemma lock_apply_safe: "lock_safe E cfg (lock_horizon cfg days s) s (snd (apply_object_lock E cfg days s))"
proof (cases "rp_object_lock_enabled cfg \<and> rp_backend cfg = ''s3''")
  case True
  then have enabled: "rp_object_lock_enabled cfg" and backend: "(rp_backend cfg = ''s3'') = True" by simp_all
  show ?thesis
    unfolding apply_object_lock_def Let_def
    apply (simp only: enabled backend not_True_eq_False if_False if_True check_bind)
    apply (rule lock_safe.then_at, rule lock_safe.steps_at, rule lock_safe_preflight)
    apply (rule lock_safe.bind_at, rule lock_safe.steps_at, rule lock_safe_preflight)
    apply (rule lock_safe.bind_at, rule lock_safe.steps_at, rule lock_safe_now)
    subgoal premises prems
      unfolding horizon_read [OF prems]
      by (intro lock_safe.steps_at lock_safe.steps_bind lock_safe.steps_each lock_safe.steps_ret lock_safe_object enabled lock_safe_ask)
        simp
    done
next
  case False
  then show ?thesis by (auto simp: apply_object_lock_def lock_safe.R_refl)
qed

lemma does_apply_lock_lists:
  assumes "apply_object_lock E cfg days s = (Inr v, t)" "rp_object_lock_enabled cfg"
  shows "locks_listed E cfg (lock_horizon cfg days s) s t"
proof -
  let ?list = "S3 (bucket_name cfg) (ListObjects (list_prefix cfg))"
  let ?u = "lock_horizon cfg days s"
  have backend: "(rp_backend cfg = ''s3'') = True"
    using assms by (auto simp: apply_object_lock_def split: if_splits)
  obtain x1 s1 x2 s2 now s3 keys s4 ys where
    s1: "s3_client E cfg s = (Inr x1, s1)" and s2: "s3_preflight E cfg s1 = (Inr x2, s2)" and
    s3: "call_db now_utc s2 = (Inr now, s3)" and s4: "ask (texts_reply E) ?list s3 = (Inr keys, s4)" and
    t: "each (lock_object E cfg (plus_days now (lock_days (rp_object_lock_days cfg) days))) keys s4 = (Inr ys, t)"
    using assms(1) unfolding apply_object_lock_def Let_def
    by (simp only: assms(2) backend not_True_eq_False if_False if_True check_bind) (auto simp: bind_Inr then_act_def)
  have "lock_safe E cfg ?u s s3"
    by (intro lock_safe.R_trans [OF stepsD [OF lock_safe_preflight(1) s1]] lock_safe.R_trans [OF stepsD [OF lock_safe_preflight(2) s2]]
        stepsD [OF lock_safe_now s3])
  then obtain pre where pre: "trace s3 = trace s @ pre" by (auto simp: lock_safe_def)
  obtain post where post: "trace t = trace s4 @ post"
    "\<forall>k\<in>set keys. k = [] \<or> starts_with (transient_prefix cfg) k \<or> lock_settled E cfg ?u (trace s4) post k"
    using lock_all_settles [OF t] unfolding horizon_read [OF s1 s2 s3] by blast
  have "trace s4 = trace s @ pre @ [?list]" "texts_reply E (trace s @ pre) ?list = Inr keys"
    using s4 pre by (auto simp: ask_def)
  with post show ?thesis
    unfolding locks_listed_def by (intro exI [of _ pre] exI [of _ post] exI [of _ keys]) simp
qed

text \<open>
  C14. What \<open>apply_object_lock\<close> locks, and until when. It sets a retention only if Object Lock is enabled for
  the replica, in its bucket and its mode, until the horizon computed from its one reading of the clock, for
  an object with a name outside the transient \<open>locks/\<close> prefix, and directly after asking for the current
  retention of that object; it does not when the answer is a date at or after the horizon. (It does when the
  answer is an error, whatever its cause, so a retention that cannot be read may be shortened as far as the
  provider allows.) When it returns with Object Lock enabled, every object listed outside that prefix got
  the horizon or had a retention at least as long.
\<close>

theorem object_lock_horizon:
  assumes "apply_object_lock E cfg days s = (r, t)"
  shows "(\<exists>cs. trace t = trace s @ cs \<and>
    (\<forall>xs b k m u ys. cs = xs @ S3 b (PutRetention k m u) # ys \<longrightarrow>
       rp_object_lock_enabled cfg \<and> b = bucket_name cfg \<and> m = rp_object_lock_mode cfg \<and> u = lock_horizon cfg days s \<and>
       k \<noteq> [] \<and> \<not> starts_with (transient_prefix cfg) k \<and>
       (\<exists>ws. xs = ws @ [S3 b (GetRetention k)] \<and>
          (\<forall>u'. until_reply E (trace s @ ws) (S3 b (GetRetention k)) = Inr (Some u') \<longrightarrow> u' < u)))) \<and>
    (\<forall>v. r = Inr v \<longrightarrow> rp_object_lock_enabled cfg \<longrightarrow> locks_listed E cfg (lock_horizon cfg days s) s t)"
proof
  have "lock_safe E cfg (lock_horizon cfg days s) s t" using lock_apply_safe [of E cfg days s] assms by simp
  then show "\<exists>cs. trace t = trace s @ cs \<and>
    (\<forall>xs b k m u ys. cs = xs @ S3 b (PutRetention k m u) # ys \<longrightarrow>
       rp_object_lock_enabled cfg \<and> b = bucket_name cfg \<and> m = rp_object_lock_mode cfg \<and> u = lock_horizon cfg days s \<and>
       k \<noteq> [] \<and> \<not> starts_with (transient_prefix cfg) k \<and>
       (\<exists>ws. xs = ws @ [S3 b (GetRetention k)] \<and>
          (\<forall>u'. until_reply E (trace s @ ws) (S3 b (GetRetention k)) = Inr (Some u') \<longrightarrow> u' < u)))"
    unfolding lock_safe_def put_ok_def by blast
qed (use does_apply_lock_lists assms in blast)

definition sample_env :: env where
  "sample_env =
     \<lparr>getenv = (\<lambda>n. Some ''x''), done_reply = (\<lambda>h c. Inr ()), bool_reply = (\<lambda>h c. Inr True),
      text_reply = (\<lambda>h c. Inr []), texts_reply = (\<lambda>h c. Inr [''immutavault/data/a'', ''immutavault/locks/b'']),
      json_reply = (\<lambda>h c. Inr (JObj [(''ObjectLockConfiguration'', JObj [(''ObjectLockEnabled'', JStr ''Enabled'')])])),
      run_reply = (\<lambda>h c. Inr (0, [], [])), usage_reply = (\<lambda>h c. Inr (50, 100)), vms_reply = (\<lambda>h c. Inr []),
      tree_reply = (\<lambda>h c. Inr (sample_dir [])), until_reply = (\<lambda>h c. Inr None),
      int_reply = (\<lambda>h c. Inr 200), listing_reply = (\<lambda>h c. Inr []), xml_of = (\<lambda>t. None)\<rparr>"

definition sample_sys :: sys where
  "sample_sys = \<lparr>database = create_schema int, trace = [], memory = []\<rparr>"

definition locked_replica :: replica_config where
  "locked_replica = (default_replica ''r'')
     \<lparr>rp_object_lock_enabled := True, rp_backend := ''s3'', rp_bucket := Some ''b''\<rparr>"

lemma locked_run:
  "\<exists>v h. apply_object_lock sample_env locked_replica (Some 3) sample_sys =
     (Inr v, sample_sys\<lparr>database := snd (now_utc (database sample_sys)), trace := h\<rparr>) \<and>
     S3 ''b'' (PutRetention ''immutavault/data/a'' ''COMPLIANCE'' (30 * day_us)) \<in> set h"
proof -
  have "list_prefix locked_replica = ''immutavault/''" "transient_prefix locked_replica = ''immutavault/locks/''"
    by code_simp+
  moreover have "rp_object_lock_enabled locked_replica" "rp_backend locked_replica = ''s3''" "rp_provider locked_replica = ''custom''"
    "bucket_name locked_replica = ''b''" "rp_object_lock_mode locked_replica = ''COMPLIANCE''"
    "rp_object_lock_days locked_replica = 30"
    by (simp_all add: locked_replica_def default_replica_def bucket_name_def)
  ultimately show ?thesis
    by (simp add: apply_object_lock_def s3_client_def s3_preflight_def lock_object_def bind_act_def then_act_def catch_def
        ask_def call_db_def now_utc_def lock_days_def plus_days_def sample_env_def sample_sys_def check_def
        create_schema_def opt_nonempty_def OBJECT_LOCK_UNSUPPORTED_def Let_def)
qed

theorem object_lock_horizon_witness:
  "\<exists>v t ws ys. apply_object_lock sample_env locked_replica (Some 3) sample_sys = (Inr v, t) \<and>
     trace t = ws @ S3 ''b'' (GetRetention ''immutavault/data/a'') #
       S3 ''b'' (PutRetention ''immutavault/data/a'' ''COMPLIANCE'' (30 * day_us)) # ys \<and>
     locks_listed sample_env locked_replica (lock_horizon locked_replica (Some 3) sample_sys) sample_sys t"
proof -
  obtain v h where run: "apply_object_lock sample_env locked_replica (Some 3) sample_sys =
      (Inr v, sample_sys\<lparr>database := snd (now_utc (database sample_sys)), trace := h\<rparr>)"
    and put: "S3 ''b'' (PutRetention ''immutavault/data/a'' ''COMPLIANCE'' (30 * day_us)) \<in> set h"
    using locked_run by blast
  obtain xs ys where h: "h = xs @ S3 ''b'' (PutRetention ''immutavault/data/a'' ''COMPLIANCE'' (30 * day_us)) # ys"
    using put by (meson split_list)
  note claim = object_lock_horizon [OF run]
  have "trace sample_sys = []" by (simp add: sample_sys_def)
  then have t: "trace (sample_sys\<lparr>database := snd (now_utc (database sample_sys)), trace := h\<rparr>) = trace sample_sys @
      xs @ S3 ''b'' (PutRetention ''immutavault/data/a'' ''COMPLIANCE'' (30 * day_us)) # ys" using h by simp
  from conjunct1 [OF claim, unfolded t]
  obtain ws where ws: "xs = ws @ [S3 ''b'' (GetRetention ''immutavault/data/a'')]" by blast
  have "rp_object_lock_enabled locked_replica" by (simp add: locked_replica_def)
  with conjunct2 [OF claim] have "locks_listed sample_env locked_replica (lock_horizon locked_replica (Some 3) sample_sys) sample_sys
      (sample_sys\<lparr>database := snd (now_utc (database sample_sys)), trace := h\<rparr>)" by blast
  moreover have "trace (sample_sys\<lparr>database := snd (now_utc (database sample_sys)), trace := h\<rparr>) =
      ws @ S3 ''b'' (GetRetention ''immutavault/data/a'') #
        S3 ''b'' (PutRetention ''immutavault/data/a'' ''COMPLIANCE'' (30 * day_us)) # ys" by (simp add: h ws)
  ultimately show ?thesis using run by blast
qed



text \<open>
  C34. The new rule list keeps every rule of another administrator in its place (all rules but the five
  of this target and the legacy catch-all), no rule it wants for itself covers an object under
  \<open>locks/\<close>, and a present rule is replaced only when it does not cover the horizon or has another
  prefix; so an indefinite or later rule of the right prefix is never shortened.
\<close>

theorem r2_rules_preserve:
  "filter (\<lambda>r. \<not> List.member (map fst (r2_persistent_lock_specs cfg u)) (rule_key r))
     (fst (plan_r2_rules cfg u rules)) =
   filter (\<lambda>r. \<not> List.member (map fst (r2_persistent_lock_specs cfg u)) (rule_key r) \<and>
     \<not> (rule_key r = rp_r2_lock_rule_id cfg \<and> rule_prefix r = list_prefix cfg)) rules \<and>
   list_all (\<lambda>(i, p, w). \<not> starts_with p (transient_prefix cfg @ x)) (r2_persistent_lock_specs cfg u) \<and>
   (\<forall>i p w n. (i, p, w) \<in> set (r2_persistent_lock_specs cfg u) \<and> last_index i (drop_legacy cfg rules) = Some n \<and>
      r2_rule_covers_until (drop_legacy cfg rules ! n) u \<and> rule_prefix (drop_legacy cfg rules ! n) = p \<longrightarrow>
      fst (plan_r2_rules cfg u rules) ! n = drop_legacy cfg rules ! n)"
proof (intro conjI allI impI)
  let ?S = "r2_persistent_lock_specs cfg u"
  have mem: "List.member (map fst ?S) i \<longleftrightarrow> i \<in> fst ` set ?S" for i by simp
  show "filter (\<lambda>r. \<not> List.member (map fst ?S) (rule_key r)) (fst (plan_r2_rules cfg u rules)) =
   filter (\<lambda>r. \<not> List.member (map fst ?S) (rule_key r) \<and>
     \<not> (rule_key r = rp_r2_lock_rule_id cfg \<and> rule_prefix r = list_prefix cfg)) rules"
    unfolding plan_rules mem using spec_rule
    by (subst filter_planned) (auto simp: drop_legacy_def conj_commute)
  show "list_all (\<lambda>(i, p, w). \<not> starts_with p (transient_prefix cfg @ x)) ?S"
    by (simp add: r2_persistent_lock_specs_def namespaces_def transient_prefix_def)
  fix i p w n
  assume *: "(i, p, w) \<in> set ?S \<and> last_index i (drop_legacy cfg rules) = Some n \<and>
      r2_rule_covers_until (drop_legacy cfg rules ! n) u \<and> rule_prefix (drop_legacy cfg rules ! n) = p"
  then have "n < length (drop_legacy cfg rules)" by (simp add: last_index_Some)
  then show "fst (plan_r2_rules cfg u rules) ! n = drop_legacy cfg rules ! n"
    using * find_unique [OF specs_distinct, of i p w cfg u "drop_legacy cfg rules" n]
    by (simp add: plan_rules planned_def nth_append nth_enumerate_eq replaced_def)
qed

theorem r2_rules_preserve_witness:
  "filter (\<lambda>r. \<not> List.member (map fst (r2_persistent_lock_specs (default_replica ''r'') 0)) (rule_key r))
     (fst (plan_r2_rules (default_replica ''r'') 0 [JObj [(''id'', JStr ''other'')]])) =
   [JObj [(''id'', JStr ''other'')]]"
proof -
  have "\<not> List.member (map fst (r2_persistent_lock_specs (default_replica ''r'') 0)) ''other''"
    by (simp add: specs_ids namespaces_def rule_id_def default_replica_def)
  then show ?thesis
    using r2_rules_preserve [of "default_replica ''r''" 0 "[JObj [(''id'', JStr ''other'')]]", THEN conjunct1]
    by (simp add: rule_key_def default_replica_def)
qed

end
