(* ===== verification/Restic.thy ===== *)
theory Restic
  imports Storage
begin

text \<open>
  The restic repository driver of \<open>restic.py\<close>: the environments and command lines it builds, the
  reading of restic's JSON output, retention against the protected snapshots of the catalog, and the
  replication of a snapshot. The lemmas show that retention never asks restic to forget a
  protected snapshot, and that a replica counts as copied only after restic has shown the snapshot
  there and the provider lock has been applied.
\<close>

section \<open>The source address with credentials\<close>

definition url_safe :: "char \<Rightarrow> bool" where
  "url_safe c \<longleftrightarrow> CHR ''A'' \<le> c \<and> c \<le> CHR ''Z'' \<or> CHR ''a'' \<le> c \<and> c \<le> CHR ''z'' \<or>
     CHR ''0'' \<le> c \<and> c \<le> CHR ''9'' \<or> List.member ''_.-~'' c"

definition hex_upper :: "nat \<Rightarrow> char" where
  "hex_upper n = (if n < 10 then char_of (48 + n) else char_of (55 + n))"

text \<open>The UTF-8 bytes of a character below 256, and \<open>urllib.parse.quote(s, safe='')\<close>.\<close>

definition utf8_bytes :: "char \<Rightarrow> nat list" where
  "utf8_bytes c = (let n = of_char c in if n < 128 then [n] else [192 + n div 64, 128 + n mod 64])"

definition url_quote :: "string \<Rightarrow> string" where
  "url_quote s = concat (map (\<lambda>c. if url_safe c then [c]
     else concat (map (\<lambda>b. [CHR ''%'', hex_upper (b div 16), hex_upper (b mod 16)]) (utf8_bytes c))) s)"

text \<open>\<open>urlsplit\<close> as scheme, network location and the rest, and the parts of the location.\<close>

definition url_split :: "string \<Rightarrow> string \<times> string \<times> string" where
  "url_split raw =
     (let pre = takeWhile (\<lambda>c. c \<noteq> CHR '':'') raw;
          has = (length pre < length raw \<and> pre \<noteq> [] \<and>
                 list_all (\<lambda>c. url_safe c \<and> c \<noteq> CHR ''_'' \<and> c \<noteq> CHR ''~'' \<or> c = CHR ''+'') pre \<and>
                 \<not> is_digit (hd pre) \<and> \<not> List.member ''+-.'' (hd pre));
          scheme = (if has then lower pre else []);
          r = (if has then drop (Suc (length pre)) raw else raw)
      in if starts_with ''//'' r
         then (let loc = takeWhile (\<lambda>c. \<not> List.member ''/?#'' c) (drop 2 r)
               in (scheme, loc, drop (2 + length loc) r))
         else (scheme, [], r))"

definition after_last :: "char \<Rightarrow> string \<Rightarrow> string" where
  "after_last c s = last (split_on c s)"

definition url_host_port :: "string \<Rightarrow> string \<times> string" where
  "url_host_port loc =
     (let hp = after_last (CHR ''@'') loc
      in if starts_with ''['' hp
         then (let h = takeWhile (\<lambda>c. c \<noteq> CHR '']'') (tl hp); r = drop (length h + 2) hp
               in (lower h, if starts_with '':'' r then tl r else []))
         else (let h = takeWhile (\<lambda>c. c \<noteq> CHR '':'') hp in (lower h, drop (Suc (length h)) hp)))"

definition url_join :: "string \<Rightarrow> string \<Rightarrow> string \<Rightarrow> string" where
  "url_join scheme loc r =
     (if scheme = [] then [] else scheme @ '':'') @ ''//'' @ loc
       @ (if r = [] \<or> List.member ''/?#'' (hd r) then r else ''/'' @ r)"

definition source_repository_with_auth :: "env \<Rightarrow> repository_config \<Rightarrow> string" where
  "source_repository_with_auth E cfg =
     (let url = repo_url cfg; user = getenv E ''REST_SERVER_USER''; password = getenv E ''REST_SERVER_PASSWORD''
      in if \<not> (starts_with ''rest:'' url \<and> opt_nonempty user \<and> opt_nonempty password) then url
         else case url_split (drop 5 url) of (scheme, loc, r) \<Rightarrow>
              case url_host_port loc of (host, port) \<Rightarrow>
              let h = (if port \<noteq> [] \<and> digits_nat port \<noteq> 0 then host @ '':'' @ show_nat (digits_nat port) else host)
              in ''rest:'' @ url_join scheme (url_quote (the user) @ '':'' @ url_quote (the password) @ ''@'' @ h) r)"

section \<open>Environments and commands\<close>

definition restic_env :: "env \<Rightarrow> repository_config \<Rightarrow> bool \<Rightarrow> (string \<times> string) list res" where
  "restic_env E cfg local =
     (if getenv E ''RESTIC_PASSWORD'' = None then Inl (RuntimeError ''RESTIC_PASSWORD is not set'')
      else Inr ((if local then [(''RESTIC_REPOSITORY'', local_path cfg)]
             else (''RESTIC_REPOSITORY'', repo_url cfg)
               # (if opt_nonempty (getenv E ''REST_SERVER_USER'') \<and> opt_nonempty (getenv E ''REST_SERVER_PASSWORD'')
                  then [(''RESTIC_REST_USERNAME'', the (getenv E ''REST_SERVER_USER'')),
                        (''RESTIC_REST_PASSWORD'', the (getenv E ''REST_SERVER_PASSWORD''))] else []))
           @ (if opt_nonempty (repo_cacert cfg) then [(''RESTIC_CACERT'', the (repo_cacert cfg))] else [])))"

definition restic_run :: "env \<Rightarrow> repository_config \<Rightarrow> bool \<Rightarrow> string list \<Rightarrow> bool \<Rightarrow> run_output act" where
  "restic_run E cfg local args chk =
     bind_act (lift_res (restic_env E cfg local)) (\<lambda>envs. run_command E (''restic'' # args) envs chk)"

definition init_if_needed :: "env \<Rightarrow> repository_config \<Rightarrow> bool \<Rightarrow> unit act" where
  "init_if_needed E cfg local =
     then_act (ask (done_reply E) (MkDir (norm_path (local_path cfg))))
       (bind_act (restic_run E cfg local [''snapshots'', ''--json''] False) (\<lambda>(code, out, err).
          when_act (code \<noteq> 0) (bind_act (restic_run E cfg local [''init''] True) (\<lambda>_. ret ()))))"

section \<open>Backup\<close>

record backup_summary =
  bs_snapshot_id :: string
  bs_total_bytes :: int
  bs_total_files :: int
  bs_data_added :: int

definition empty_summary :: backup_summary where
  "empty_summary = \<lparr>bs_snapshot_id = [], bs_total_bytes = 0, bs_total_files = 0, bs_data_added = 0\<rparr>"

text \<open>\<open>int(event.get(k, 0) or 0)\<close>, and one line of the output.\<close>

definition count_field :: "string \<Rightarrow> json \<Rightarrow> int res" where
  "count_field k event = py_int (or_else (jget k event) (JInt 0))"

definition read_event :: "string \<Rightarrow> backup_summary \<Rightarrow> backup_summary res" where
  "read_event line acc =
     (case loads line of
        None \<Rightarrow> Inr acc
      | Some (JObj kvs) \<Rightarrow>
          if map_of kvs ''message_type'' \<noteq> Some (JStr ''summary'') then Inr acc
          else bind_res (count_field ''total_bytes_processed'' (JObj kvs)) (\<lambda>tb.
               bind_res (count_field ''total_files_processed'' (JObj kvs)) (\<lambda>tf.
               bind_res (count_field ''data_added'' (JObj kvs)) (\<lambda>da.
                 Inr \<lparr>bs_snapshot_id = (let v = get_or kvs ''snapshot_id'' (JStr []) in if jtruthy v then py_str v else []),
                      bs_total_bytes = tb, bs_total_files = tf, bs_data_added = da\<rparr>)))
      | Some _ \<Rightarrow> Inl (OtherError ''object has no attribute get''))"

fun read_events :: "string list \<Rightarrow> backup_summary \<Rightarrow> backup_summary res" where
  "read_events [] acc = Inr acc"
| "read_events (l # ls) acc = bind_res (read_event l acc) (read_events ls)"

text \<open>\<open>str.splitlines()\<close>: the line boundaries below code point 256; \<open>\r\n\<close> is one of them.\<close>

definition line_ends :: "char list" where
  "line_ends = [CHR 0x0A, CHR 0x0B, CHR 0x0C, CHR 0x0D, CHR 0x1C, CHR 0x1D, CHR 0x1E, CHR 0x85]"

fun lines_from :: "string \<Rightarrow> string \<Rightarrow> string list" where
  "lines_from w [] = (if w = [] then [] else [w])"
| "lines_from w (c # cs) =
     (if c = CHR 0x0D then w # lines_from [] (if starts_with [CHR 0x0A] cs then tl cs else cs)
      else if List.member line_ends c then w # lines_from [] cs
      else lines_from (w @ [c]) cs)"

definition splitlines :: "string \<Rightarrow> string list" where
  "splitlines s = lines_from [] s"

definition repo_backup :: "env \<Rightarrow> repository_config \<Rightarrow> string \<Rightarrow> string list \<Rightarrow> backup_summary act" where
  "repo_backup E cfg path tags =
     bind_act (restic_run E cfg False
        ([''backup'', path, ''--json'', ''--one-file-system''] @ concat (map (\<lambda>t. [''--tag'', t]) tags)) True)
       (\<lambda>(code, out, err).
        bind_act (lift_res (read_events (splitlines out) empty_summary)) (\<lambda>v.
          then_act (check (bs_snapshot_id v \<noteq> []) (RuntimeError ''restic backup completed without returning a snapshot id''))
            (ret v)))"

section \<open>Restore, retention, check\<close>

definition repo_restore :: "env \<Rightarrow> repository_config \<Rightarrow> string \<Rightarrow> string \<Rightarrow> replica_config option \<Rightarrow> unit act" where
  "repo_restore E cfg sid target replica =
     then_act (ask (done_reply E) (MkDir target))
       (case replica of
          None \<Rightarrow> bind_act (restic_run E cfg False [''restore'', sid, ''--target'', target] True) (\<lambda>_. ret ())
        | Some r \<Rightarrow>
            bind_act (lift_res (target_env E r)) (\<lambda>envs.
            bind_act (run_command E ([''restic''] @ restic_options r @ [''restore'', sid, ''--target'', target]) envs True)
              (\<lambda>_. ret ())))"

definition retention_policy :: "retention_config \<Rightarrow> string list" where
  "retention_policy r =
     [''--group-by'', ''tags'', ''--keep-within'', show_int (keep_within_days r) @ ''d'',
      ''--keep-daily'', show_int (keep_daily r), ''--keep-weekly'', show_int (keep_weekly r),
      ''--keep-monthly'', show_int (keep_monthly r), ''--keep-yearly'', show_int (keep_yearly r),
      ''--keep-last'', show_int (min_restore_points r)]"

text \<open>The snapshots restic would remove: an entry per element of the groups' \<open>remove\<close> lists.\<close>

definition snapshot_id_of :: "json \<Rightarrow> string res" where
  "snapshot_id_of snap =
     (case snap of JObj kvs \<Rightarrow> Inr (py_str (get_or kvs ''id'' (JStr [])))
      | _ \<Rightarrow> Inl (OtherError ''object has no attribute get''))"

definition group_removals :: "json \<Rightarrow> string list res" where
  "group_removals grp =
     (case grp of
        JObj kvs \<Rightarrow>
          (case get_or kvs ''remove'' (JList []) of
             JList snaps \<Rightarrow> map_res snapshot_id_of snaps
           | _ \<Rightarrow> Inl (TypeError ''object is not iterable''))
      | _ \<Rightarrow> Inl (OtherError ''object has no attribute get''))"

definition removal_candidates :: "string \<Rightarrow> string list res" where
  "removal_candidates out =
     (case loads (if out = [] then ''[]'' else out) of
        None \<Rightarrow> Inl (ValueError ''invalid JSON'')
      | Some (JList groups) \<Rightarrow> bind_res (map_res group_removals groups) (\<lambda>xs. Inr (concat xs))
      | Some (JObj kvs) \<Rightarrow> if kvs = [] then Inr [] else Inl (OtherError ''object has no attribute get'')
      | Some _ \<Rightarrow> Inl (TypeError ''object is not iterable''))"

text \<open>\<open>sorted(set(remove))\<close>.\<close>

definition to_remove :: "string list \<Rightarrow> string list \<Rightarrow> string list" where
  "to_remove protected ids = sort (remdups (filter (\<lambda>sid. sid \<noteq> [] \<and> \<not> List.member protected sid) ids))"

definition restic_retention :: "env \<Rightarrow> repository_config \<Rightarrow> string list \<Rightarrow> string list act" where
  "restic_retention E cfg protected =
     bind_act (restic_run E cfg True ([''forget'', ''--dry-run'', ''--json''] @ retention_policy (repo_retention cfg)) True)
       (\<lambda>(code, out, err).
        bind_act (lift_res (removal_candidates out)) (\<lambda>ids.
          let remove = to_remove protected ids
          in then_act (when_act (remove \<noteq> [])
               (bind_act (restic_run E cfg True (''forget'' # remove) True) (\<lambda>_.
                bind_act (restic_run E cfg True [''prune''] True) (\<lambda>_. ret ()))))
             (ret remove)))"

definition repo_check :: "env \<Rightarrow> repository_config \<Rightarrow> unit act" where
  "repo_check E cfg =
     bind_act (restic_run E cfg True
        (''check'' # (if verify_percent cfg > 0 then [''--read-data-subset'', show_int (verify_percent cfg) @ ''%''] else []))
        True) (\<lambda>_. ret ())"

definition repo_snapshots :: "env \<Rightarrow> repository_config \<Rightarrow> json act" where
  "repo_snapshots E cfg =
     bind_act (restic_run E cfg False [''snapshots'', ''--json''] True) (\<lambda>(code, out, err).
       need (loads (if out = [] then ''[]'' else out)) (ValueError ''invalid JSON''))"

section \<open>Replication\<close>

definition provider_lock :: "env \<Rightarrow> replica_config \<Rightarrow> int option \<Rightarrow> (string \<times> json) list act" where
  "provider_lock E replica days =
     (if rp_provider replica = ''cloudflare_r2'' \<and> rp_r2_bucket_lock_enabled replica
      then ensure_r2_bucket_lock E replica days
      else apply_object_lock E replica days)"

definition copy_snapshot ::
  "env \<Rightarrow> repository_config \<Rightarrow> string \<Rightarrow> replica_config \<Rightarrow> int option \<Rightarrow> (string \<times> json) list act" where
  "copy_snapshot E cfg sid replica immutable_days =
     (if \<not> rp_enabled replica then ret [(''status'', JStr ''disabled'')]
      else if \<not> opt_nonempty (getenv E ''RESTIC_PASSWORD'') then throw (RuntimeError ''RESTIC_PASSWORD is not set'')
      else bind_act (lift_res (target_env E replica)) (\<lambda>envs0.
        then_act (when_act (rp_backend replica = ''s3'' \<and> rp_object_lock_enabled replica)
          (bind_act (s3_preflight E replica) (\<lambda>_. ret ())))
        (let envs = envs0 @ [(''RESTIC_FROM_REPOSITORY'', source_repository_with_auth E cfg),
                             (''RESTIC_FROM_PASSWORD'', the (getenv E ''RESTIC_PASSWORD''))]
         in bind_act (run_command E ([''restic''] @ restic_options replica @ [''copy'', sid]) envs True) (\<lambda>_.
            bind_act (run_command E ([''restic''] @ restic_options replica @ [''snapshots'', sid, ''--json'']) envs True)
              (\<lambda>(code, out, err).
            bind_act (need (loads (if out = [] then ''[]'' else out)) (ValueError ''invalid JSON'')) (\<lambda>shown.
            then_act (check (jtruthy shown)
              (RuntimeError (''replica '' @ rp_name replica @ '' did not expose copied snapshot '' @ sid)))
            (bind_act (provider_lock E replica immutable_days) (\<lambda>lock_result.
             bind_act (lift_res (restic_target_url replica)) (\<lambda>url.
               ret [(''status'', JStr ''success''), (''repository'', JStr url), (''backend'', JStr (rp_backend replica)),
                    (''provider'', if rp_backend replica = ''s3'' then JStr (rp_provider replica) else JNull),
                    (''object_lock'', JObj lock_result)]))))))))) "

definition replica_health :: "env \<Rightarrow> replica_config \<Rightarrow> (string \<times> json) list act" where
  "replica_health E replica =
     bind_act (target_health_of E replica) (\<lambda>h.
       ret ([(''ok'', JBool (th_ok h)), (''problems'', JList (map JStr (th_problems h)))] @ th_details h))"

end
