(* ===== verification/Anomaly.thy ===== *)
theory Anomaly
  imports Prelude Complex_Main
begin

text \<open>
  \<open>anomaly.detect_backup_anomaly\<close> and the percent texts it reports. The two ratios are exact
  rationals; Python's division rounds monotonically, so a ratio at or above a threshold here is at
  or above it there.
\<close>

text \<open>\<open>f"{x:.0%}"\<close>: the nearest integer percentage, ties to even.\<close>

definition round_even :: "rat \<Rightarrow> int" where
  "round_even r =
     (let f = \<lfloor>r\<rfloor>; d = r - of_int f
      in if d < 1 / 2 then f else if 1 / 2 < d then f + 1 else if even f then f else f + 1)"

definition percent :: "rat \<Rightarrow> string" where
  "percent r = show_int (round_even (100 * r)) @ ''%''"

definition detect_backup_anomaly ::
  "int option \<Rightarrow> int \<Rightarrow> int \<Rightarrow> rat \<Rightarrow> rat \<Rightarrow> bool \<times> string option" where
  "detect_backup_anomaly previous_bytes current_bytes data_added added_threshold size_threshold =
     (let churn =
        (case previous_bytes of
           Some p \<Rightarrow>
             if p > 0 \<and> current_bytes > 0 \<and> data_added > 0 then
               (let ratio = of_int data_added / of_int current_bytes
                in if ratio \<ge> added_threshold
                   then [''high repository churn ('' @ percent ratio @ '' new data)''] else [])
             else []
         | None \<Rightarrow> []);
        size =
        (case previous_bytes of
           Some p \<Rightarrow>
             if p > 0 then
               (let delta = of_int \<bar>current_bytes - p\<bar> / of_int p
                in if delta \<ge> size_threshold
                   then [''unusual backup size change ('' @ percent delta @ '')''] else [])
             else []
         | None \<Rightarrow> []);
        reasons = churn @ size
      in (reasons \<noteq> [], if reasons = [] then None else Some (join ''; '' reasons)))"

section \<open>Properties\<close>

text \<open>
  A backup is flagged exactly when a previous point of positive size exists and either the new
  data reaches the churn threshold of the current size or the size changed by at least the size
  threshold of the previous size; a reason is given exactly when it is flagged. In particular a first
  backup, or one after an empty one, is never flagged.
\<close>

lemma anomaly_exact:
  "(fst (detect_backup_anomaly prev cur added thr_added thr_size) \<longleftrightarrow>
     (\<exists>p. prev = Some p \<and> p > 0 \<and>
        (cur > 0 \<and> added > 0 \<and> thr_added * of_int cur \<le> of_int added \<or>
         thr_size * of_int p \<le> of_int \<bar>cur - p\<bar>))) \<and>
   (snd (detect_backup_anomaly prev cur added thr_added thr_size) \<noteq> None \<longleftrightarrow>
     fst (detect_backup_anomaly prev cur added thr_added thr_size))"
proof (cases prev)
  case None
  then show ?thesis by (simp add: detect_backup_anomaly_def)
next
  case (Some p)
  show ?thesis
  proof (cases "p > 0")
    case True
    have churn: "thr_added \<le> of_int added / of_int cur \<longleftrightarrow> thr_added * of_int cur \<le> of_int added" if "cur > 0"
      using that by (simp add: pos_le_divide_eq)
    have size: "thr_size \<le> of_int \<bar>cur - p\<bar> / of_int p \<longleftrightarrow> thr_size * of_int p \<le> of_int \<bar>cur - p\<bar>"
      using True by (simp add: pos_le_divide_eq)
    show ?thesis
      using True Some churn by (auto simp: detect_backup_anomaly_def Let_def size simp del: of_int_abs of_int_diff)
  next
    case False
    with Some show ?thesis by (simp add: detect_backup_anomaly_def)
  qed
qed

end
