(* ===== verification/Consistency.thy ===== *)
theory Consistency
  imports Py_Values
begin

text \<open>
  The application-consistency attestations of \<open>consistency.py\<close>: the dataclass, what is written
  next to a backup, how a provider's answer is normalised and what is shown for a recovery point.
\<close>

definition APPLICATION_STATES :: "string list" where
  "APPLICATION_STATES = [''application-consistent'', ''guest-quiesced'']"

record application_consistency =
  ac_state :: string
  ac_method :: string
  ac_requested :: bool
  ac_strict :: bool
  ac_provider_attested :: bool
  ac_detail :: "string option"

definition application_consistent :: "application_consistency \<Rightarrow> bool" where
  "application_consistent a \<longleftrightarrow> List.member APPLICATION_STATES (ac_state a)"

definition as_dict :: "application_consistency \<Rightarrow> (string \<times> json) list" where
  "as_dict a =
     [(''state'', JStr (ac_state a)), (''method'', JStr (ac_method a)),
      (''requested'', JBool (ac_requested a)), (''strict'', JBool (ac_strict a)),
      (''provider_attested'', JBool (ac_provider_attested a)),
      (''detail'', (case ac_detail a of None \<Rightarrow> JNull | Some t \<Rightarrow> JStr t)),
      (''application_consistent'', JBool (application_consistent a))]"

text \<open>\<open>read_consistency\<close> on what the file holds: \<open>None\<close> for no file or unreadable text.\<close>

definition read_consistency :: "string option \<Rightarrow> json option" where
  "read_consistency contents =
     (case contents of
        None \<Rightarrow> None
      | Some t \<Rightarrow> (case loads t of Some (JObj kvs) \<Rightarrow> Some (JObj kvs) | _ \<Rightarrow> None))"

definition normalize_provider_consistency :: "json \<Rightarrow> bool \<Rightarrow> bool \<Rightarrow> application_consistency" where
  "normalize_provider_consistency v requested strict =
     (case v of
        JObj kvs \<Rightarrow>
          (let state = lower (strip whitespace (py_str (or_else (map_of kvs ''state'') (JStr ''unattested''))));
               meth = strip whitespace (py_str (or_else (map_of kvs ''method'') (JStr ''provider'')));
               detail = (case map_of kvs ''detail'' of
                   None \<Rightarrow> None
                 | Some v \<Rightarrow> if v = JNull \<or> v = JStr [] then None else Some (py_str v))
           in \<lparr>ac_state = state, ac_method = meth, ac_requested = requested, ac_strict = strict,
               ac_provider_attested = True, ac_detail = detail\<rparr>)
      | _ \<Rightarrow>
          \<lparr>ac_state = ''unattested'', ac_method = ''provider'', ac_requested = requested,
           ac_strict = strict, ac_provider_attested = False,
           ac_detail = Some ''provider did not return a consistency attestation''\<rparr>)"

text \<open>\<open>d.setdefault(k, v)\<close>.\<close>

definition setdefault :: "string \<Rightarrow> json \<Rightarrow> (string \<times> json) list \<Rightarrow> (string \<times> json) list" where
  "setdefault k v d = (if map_of d k = None then d @ [(k, v)] else d)"

definition point_consistency :: "json option \<Rightarrow> (string \<times> json) list" where
  "point_consistency metadata =
     (case (case metadata of Some (JObj kvs) \<Rightarrow> map_of kvs ''application_consistency'' | _ \<Rightarrow> None) of
        Some (JObj v) \<Rightarrow>
          (let result = setdefault ''method'' (JStr ''recorded'') (setdefault ''state'' (JStr ''unknown'') v)
           in setdefault ''application_consistent''
                (JBool (List.member APPLICATION_STATES (lower (py_str (get_or result ''state'' JNull))))) result)
      | _ \<Rightarrow>
          [(''state'', JStr ''unknown''), (''method'', JStr ''legacy-point''), (''requested'', JBool False),
           (''strict'', JBool False), (''provider_attested'', JBool False),
           (''application_consistent'', JBool False),
           (''detail'', JStr ''recovery point predates v0.8 consistency metadata'')])"

lemma setdefault_get [simp]:
  "map_of (setdefault k v d) k' = (if map_of d k' = None \<and> k' = k then Some v else map_of d k')"
  by (auto simp: setdefault_def map_add_def split: option.split)

section \<open>Properties\<close>

text \<open>
  What a provider attests is what the portal shows: recording the normalised answer of a provider
  in the metadata of a point and displaying that point gives back its state, its method and its
  attestation flags; the point counts as application-consistent exactly for one of the two attested
  states, and a provider that gave no object never makes a point application-consistent.
\<close>

lemma recorded_consistency_shown:
  "(let a = normalize_provider_consistency v requested strict;
        shown = point_consistency (Some (JObj [(''application_consistency'', JObj (as_dict a))]))
    in shown = as_dict a \<and>
       map_of shown ''application_consistent'' =
         Some (JBool (ac_state a = ''application-consistent'' \<or> ac_state a = ''guest-quiesced'')) \<and>
       map_of shown ''requested'' = Some (JBool requested) \<and> map_of shown ''strict'' = Some (JBool strict) \<and>
       (map_of shown ''provider_attested'' = Some (JBool True) \<longleftrightarrow> (\<exists>kvs. v = JObj kvs)) \<and>
       ((\<nexists>kvs. v = JObj kvs) \<longrightarrow> map_of shown ''application_consistent'' = Some (JBool False)))"
proof -
  let ?a = "normalize_provider_consistency v requested strict"
  have "point_consistency (Some (JObj [(''application_consistency'', JObj (as_dict ?a))])) = as_dict ?a"
    by (simp add: point_consistency_def as_dict_def setdefault_def)
  then show ?thesis
    by (cases v) (auto simp: Let_def as_dict_def application_consistent_def APPLICATION_STATES_def
        normalize_provider_consistency_def)
qed

end
