(* ===== verification/Dr_State.thy ===== *)
theory Dr_State
  imports Catalog Requests Json_Read "HOL-Library.Product_Lexorder"
begin

text \<open>
  The disaster-recovery tables of \<open>state.py\<close> (runs, recovered workloads, probe counters) and the
  reports over the whole database (\<open>list_vms\<close>, \<open>status_summary\<close>). The lemmas show that a run is
  recorded and closed without touching other runs, that the failure counter of a probe is exactly the
  number of failures since the last success, and that the status report counts every row once.
\<close>

section \<open>Runs\<close>

text \<open>\<open>json.dumps(details or {}, sort_keys=True)\<close> as the value it reads back to.\<close>

definition stored_json :: "(string \<times> json) list \<Rightarrow> json" where
  "stored_json kvs = canon (JObj kvs)"

definition create_dr_run :: "string \<Rightarrow> string \<Rightarrow> string \<Rightarrow> (string \<times> json) list \<Rightarrow> db \<Rightarrow> nat \<times> db" where
  "create_dr_run direction source_site target_site details s =
     (let (now, s) = utcnow s;
          (i, rows) = insert_row d_id (\<lambda>i.
            \<lparr>d_id = i, d_started_at = now, d_finished_at = None, d_direction = direction,
             d_source_site = source_site, d_target_site = target_site, d_status = ''running'',
             d_details = Some (stored_json details), d_error = None\<rparr>) (dr_runs s)
      in (i, s\<lparr>dr_runs := rows\<rparr>))"

definition finish_dr_run :: "nat \<Rightarrow> bool \<Rightarrow> (string \<times> json) list \<Rightarrow> string option \<Rightarrow> db \<Rightarrow> db" where
  "finish_dr_run i success details error s =
     (let (now, s) = utcnow s
      in s\<lparr>dr_runs := update_where (\<lambda>r. d_id r = i)
            (\<lambda>r. r\<lparr>d_finished_at := Some now, d_status := (if success then ''success'' else ''failed''),
                   d_details := Some (stored_json details), d_error := error\<rparr>) (dr_runs s)\<rparr>)"

definition latest_dr_run :: "string option \<Rightarrow> string option \<Rightarrow> db \<Rightarrow> dr_run option" where
  "latest_dr_run direction status s =
     (case sort_desc d_started_at
             (filter (\<lambda>r. opt_match direction (d_direction r) \<and> opt_match status (d_status r)) (dr_runs s)) of
        [] \<Rightarrow> None
      | r # _ \<Rightarrow> Some r)"

section \<open>Recovered workloads\<close>

definition add_dr_workload ::
  "nat \<Rightarrow> string \<Rightarrow> string \<Rightarrow> string \<Rightarrow> string \<Rightarrow> string option \<Rightarrow> string option \<Rightarrow> (string \<times> json) list \<Rightarrow>
   string option \<Rightarrow> db \<Rightarrow> nat \<times> db" where
  "add_dr_workload run_id name source_platform target_platform status snapshot_id target_name result error s =
     (let (i, rows) = insert_row w_id (\<lambda>i.
            \<lparr>w_id = i, w_run_id = run_id, w_workload_name = name, w_snapshot_id = snapshot_id,
             w_source_platform = source_platform, w_target_platform = target_platform,
             w_target_name = target_name, w_status = status, w_result = Some (stored_json result),
             w_error = error\<rparr>) (dr_workloads s)
      in (i, s\<lparr>dr_workloads := rows\<rparr>))"

text \<open>\<open>ORDER BY id\<close> is the order of insertion.\<close>

definition list_dr_workloads :: "nat \<Rightarrow> db \<Rightarrow> dr_workload list" where
  "list_dr_workloads run_id s = sort_key w_id (filter (\<lambda>w. w_run_id w = run_id) (dr_workloads s))"

section \<open>Probe counters\<close>

definition get_dr_health :: "string \<Rightarrow> db \<Rightarrow> health_row option" where
  "get_dr_health name s = row_by h_name name (dr_health s)"

definition put_health :: "health_row \<Rightarrow> db \<Rightarrow> db" where
  "put_health r s = s\<lparr>dr_health := upsert_row h_name r (dr_health s)\<rparr>"

text \<open>The returned row carries a second reading of the clock.\<close>

definition update_dr_health :: "string \<Rightarrow> bool \<Rightarrow> (string \<times> json) list \<Rightarrow> db \<Rightarrow> health_row \<times> db" where
  "update_dr_health name healthy detail s =
     (let failures = (if healthy then 0 else case get_dr_health name s of
              Some r \<Rightarrow> h_consecutive_failures r + 1 | None \<Rightarrow> 1);
          (now, s) = utcnow s;
          r = \<lparr>h_name = name, h_checked_at = now, h_healthy = healthy, h_consecutive_failures = failures,
               h_detail = Some (stored_json detail)\<rparr>;
          s = put_health r s;
          (later, s) = utcnow s
      in (r\<lparr>h_checked_at := later, h_detail := Some (JObj detail)\<rparr>, s))"

definition health_ok :: "db \<Rightarrow> bool" where
  "health_ok s \<longleftrightarrow> distinct (map h_name (dr_health s))"

interpretation probes: keyed_table h_name put_health get_dr_health health_ok
  by unfold_locales
    (auto simp: put_health_def get_dr_health_def health_ok_def row_by_upsert_row intro: distinct_upsert_row)

section \<open>Reports\<close>

record vm_summary =
  vs_platform :: string
  vs_platform_type :: string
  vs_vm_id :: string
  vs_vm_name :: string
  vs_latest_point :: string
  vs_restore_points :: nat
  vs_has_verified :: bool
  vs_has_suspicious :: bool

definition vm_group :: "point \<Rightarrow> string \<times> string \<times> string \<times> string" where
  "vm_group p = (p_platform p, p_platform_type p, p_vm_id p, p_vm_name p)"

text \<open>\<open>MAX\<close> of a group of texts, and one row per group.\<close>

definition max_text :: "string list \<Rightarrow> string" where
  "max_text ts = fold max ts []"

definition summary_of :: "point list \<Rightarrow> string \<times> string \<times> string \<times> string \<Rightarrow> vm_summary" where
  "summary_of ps g =
     (let rows = filter (\<lambda>p. vm_group p = g) ps
      in case g of (pl, ty, i, n) \<Rightarrow>
        \<lparr>vs_platform = pl, vs_platform_type = ty, vs_vm_id = i, vs_vm_name = n,
         vs_latest_point = max_text (map p_created_at rows), vs_restore_points = length rows,
         vs_has_verified = list_ex p_verified rows, vs_has_suspicious = list_ex p_suspicious rows\<rparr>)"

text \<open>SQL leaves the order of rows with the same platform and machine name open; here it is that of the
  grouping columns.\<close>

definition list_vms :: "db \<Rightarrow> vm_summary list" where
  "list_vms s =
     (let ps = live_points s; groups = sort (remdups (map vm_group ps))
      in sort_key (\<lambda>v. (vs_platform v, vs_vm_name v)) (map (summary_of ps) groups))"

text \<open>\<open>SELECT status, COUNT(*) ... GROUP BY status\<close>.\<close>

definition count_by :: "string list \<Rightarrow> (string \<times> nat) list" where
  "count_by ss = map (\<lambda>k. (k, count_list ss k)) (sort (remdups ss))"

record status_report =
  sr_jobs :: "(string \<times> nat) list"
  sr_total :: nat
  sr_verified :: nat
  sr_suspicious :: nat
  sr_restore_requests :: "(string \<times> nat) list"
  sr_dr_runs :: "(string \<times> nat) list"
  sr_last_dr_run :: "dr_run option"
  sr_last_success :: "job option"
  sr_last_failure :: "job option"

definition first_desc :: "('a \<Rightarrow> 'k::linorder) \<Rightarrow> 'a list \<Rightarrow> 'a option" where
  "first_desc k xs = (case sort_desc k xs of [] \<Rightarrow> None | x # _ \<Rightarrow> Some x)"

text \<open>\<open>finished_at\<close> is NULL while a job runs; NULL sorts last in descending order.\<close>

definition status_summary :: "db \<Rightarrow> status_report" where
  "status_summary s =
     \<lparr>sr_jobs = count_by (map j_status (jobs s)),
      sr_total = length (live_points s),
      sr_verified = length (filter p_verified (live_points s)),
      sr_suspicious = length (filter p_suspicious (live_points s)),
      sr_restore_requests = count_by (map q_status (restore_requests s)),
      sr_dr_runs = count_by (map d_status (dr_runs s)),
      sr_last_dr_run = first_desc d_started_at (dr_runs s),
      sr_last_success = first_desc (\<lambda>j. case j_finished_at j of None \<Rightarrow> [] | Some t \<Rightarrow> t)
        (filter (\<lambda>j. j_status j = ''success'') (jobs s)),
      sr_last_failure = first_desc (\<lambda>j. case j_finished_at j of None \<Rightarrow> [] | Some t \<Rightarrow> t)
        (filter (\<lambda>j. j_status j = ''failed'') (jobs s))\<rparr>"

section \<open>Frames\<close>

lemma dr_frames [frame_simps]:
  "audit_events (snd (create_dr_run a b c d s)) = audit_events s"
  "audit_events (finish_dr_run i x d e s) = audit_events s"
  "audit_events (snd (add_dr_workload i n sp tp st sid tn r e s)) = audit_events s"
  "audit_events (snd (update_dr_health n h d s)) = audit_events s"
  "restore_requests (snd (create_dr_run a b c d s)) = restore_requests s"
  "restore_requests (finish_dr_run i x d e s) = restore_requests s"
  "restore_requests (snd (add_dr_workload i n sp tp st sid tn r e s)) = restore_requests s"
  "restore_requests (snd (update_dr_health n h d s)) = restore_requests s"
  "recovery_points (snd (create_dr_run a b c d s)) = recovery_points s"
  "recovery_points (finish_dr_run i x d e s) = recovery_points s"
  "recovery_points (snd (add_dr_workload i n sp tp st sid tn r e s)) = recovery_points s"
  "recovery_points (snd (update_dr_health n h d s)) = recovery_points s"
  by (simp_all add: create_dr_run_def finish_dr_run_def add_dr_workload_def update_dr_health_def
      utcnow_eq insert_row_def put_health_def Let_def)

definition get_dr_run :: "nat \<Rightarrow> db \<Rightarrow> dr_run option" where
  "get_dr_run i s = row_by d_id i (dr_runs s)"

lemma create_dr_run_get:
  "create_dr_run dir src tgt details s = (i, t) \<Longrightarrow>
   get_dr_run i s = None \<and>
   (\<exists>r. dr_runs t = dr_runs s @ [r] \<and> d_id r = i \<and> d_direction r = dir \<and> d_source_site r = src \<and>
     d_target_site r = tgt \<and> d_status r = ''running'' \<and> d_finished_at r = None \<and>
     d_started_at r = isoformat (clock s (reads s)) \<and> get_dr_run i t = Some r)"
  by (auto simp: create_dr_run_def utcnow_eq insert_row_def Let_def get_dr_run_def row_by_append
      row_by_None next_rowid_fresh split: option.split dest!: row_by_Some)
    (metis next_rowid_fresh image_eqI)+

lemma finish_dr_run_get:
  "get_dr_run k (finish_dr_run i success details error s) =
     (if k = i then map_option (\<lambda>r. r\<lparr>d_finished_at := Some (isoformat (clock s (reads s))),
          d_status := (if success then ''success'' else ''failed''), d_details := Some (stored_json details),
          d_error := error\<rparr>) (get_dr_run k s) else get_dr_run k s)"
  by (simp add: finish_dr_run_def utcnow_eq Let_def get_dr_run_def row_by_update_where)
    (auto simp: map_option_case dest: row_by_Some split: option.split)

section \<open>Properties\<close>

definition failures :: "string \<Rightarrow> db \<Rightarrow> nat" where
  "failures name s = (case get_dr_health name s of None \<Rightarrow> 0 | Some r \<Rightarrow> h_consecutive_failures r)"

definition observe :: "string \<Rightarrow> (bool \<times> (string \<times> json) list) list \<Rightarrow> db \<Rightarrow> db" where
  "observe name obs s = fold (\<lambda>(healthy, detail) s. snd (update_dr_health name healthy detail s)) obs s"

lemma update_health_get:
  "get_dr_health k (snd (update_dr_health name healthy detail s)) =
     (if k = name then Some \<lparr>h_name = name, h_checked_at = isoformat (clock s (reads s)), h_healthy = healthy,
        h_consecutive_failures = (if healthy then 0 else Suc (failures name s)),
        h_detail = Some (stored_json detail)\<rparr>
      else get_dr_health k s)"
  by (simp add: update_dr_health_def utcnow_eq Let_def put_health_def get_dr_health_def failures_def
      row_by_upsert_row split: option.split)

lemma failures_update:
  "failures k (snd (update_dr_health name healthy detail s)) =
     (if k = name then if healthy then 0 else Suc (failures name s) else failures k s)"
  unfolding failures_def [of k] update_health_get by simp

text \<open>
  The failure counter of a probe: after any non-empty sequence of observations the stored counter is
  the number of failures since the last success, continuing the earlier counter when no observation
  succeeded; the counters of other probes are untouched.
\<close>

lemma probe_counter_exact:
  "failures k (observe name obs s) =
     (if k \<noteq> name then failures k s
      else if list_ex fst obs then length (takeWhile (\<lambda>p. \<not> fst p) (rev obs))
      else failures name s + length obs)"
proof (induction obs rule: rev_induct)
  case Nil
  then show ?case by (simp add: observe_def)
next
  case (snoc ob obs)
  obtain h d where "ob = (h, d)" by (cases ob)
  with snoc show ?case
    by (cases "list_ex fst obs") (simp_all add: observe_def failures_update split: if_splits)
qed

lemma map_of_count_by: "map_of (count_by ss) k = (if k \<in> set ss then Some (count_list ss k) else None)"
proof -
  have "map_of (map (\<lambda>k. (k, count_list ss k)) ks) k = (if k \<in> set ks then Some (count_list ss k) else None)" for ks
    by (induction ks) auto
  then show ?thesis by (simp add: count_by_def)
qed

lemma distinct_count_by: "distinct (map fst (count_by ss))"
  by (simp add: count_by_def comp_def)

lemma sum_groups:
  "finite A \<Longrightarrow> f ` set xs \<subseteq> A \<Longrightarrow> (\<Sum>g\<in>A. length (filter (\<lambda>x. f x = g) xs)) = length xs"
proof (induction xs)
  case (Cons x xs)
  have "(\<Sum>g\<in>A. length (filter (\<lambda>x. f x = g) (x # xs))) =
    (\<Sum>g\<in>A. (if g = f x then 1 else 0) + length (filter (\<lambda>x. f x = g) xs))"
    by (rule sum.cong) auto
  also have "\<dots> = 1 + length xs" using Cons by (simp add: sum.distrib)
  finally show ?case by simp
qed simp

lemma vm_rows: "set (list_vms s) = summary_of (live_points s) ` vm_group ` set (live_points s)"
  by (simp add: list_vms_def Let_def)

lemma vm_points_sum:
  "sum_list (map vs_restore_points (list_vms s)) = length (live_points s)"
proof -
  let ?ps = "live_points s"
  have pts: "vs_restore_points (summary_of ps g) = length (filter (\<lambda>p. vm_group p = g) ps)" for ps g
    by (simp add: summary_of_def Let_def split: prod.split)
  have sorted: "sum_list (map f (sort_key k xs)) = sum_list (map f xs)" for f :: "vm_summary \<Rightarrow> nat" and k :: "vm_summary \<Rightarrow> string \<times> string" and xs
    by (metis mset_map mset_sort sum_mset_sum_list)
  have "sum_list (map vs_restore_points (list_vms s)) =
    sum_list (map (\<lambda>g. length (filter (\<lambda>p. vm_group p = g) ?ps)) (sort (remdups (map vm_group ?ps))))"
    by (simp add: list_vms_def Let_def sorted pts comp_def)
  also have "\<dots> = (\<Sum>g\<in>vm_group ` set ?ps. length (filter (\<lambda>p. vm_group p = g) ?ps))"
    by (subst sum_list_distinct_conv_sum_set) simp_all
  also have "\<dots> = length ?ps" by (rule sum_groups) auto
  finally show ?thesis .
qed

text \<open>
  The status report counts every row exactly once: per status of jobs, restore requests and runs the
  count is the number of rows with it, every status that occurs is reported once, and the machine list has
  one row per protected machine whose restore points add up to the live recovery points.
\<close>

lemma status_report_counts:
  "map_of (sr_jobs (status_summary s)) st =
     (if st \<in> j_status ` set (jobs s) then Some (length (filter (\<lambda>j. j_status j = st) (jobs s))) else None) \<and>
   map_of (sr_restore_requests (status_summary s)) st =
     (if st \<in> q_status ` set (restore_requests s)
      then Some (length (filter (\<lambda>q. q_status q = st) (restore_requests s))) else None) \<and>
   distinct (map fst (sr_jobs (status_summary s))) \<and> distinct (map fst (sr_restore_requests (status_summary s))) \<and>
   sr_total (status_summary s) = sum_list (map vs_restore_points (list_vms s)) \<and>
   distinct (map (\<lambda>v. (vs_platform v, vs_platform_type v, vs_vm_id v, vs_vm_name v)) (list_vms s))"
proof -
  have cnt: "count_list (map f xs) k = length (filter (\<lambda>x. f x = k) xs)" for f :: "'r \<Rightarrow> string" and xs k
    by (induction xs) auto
  let ?g = "\<lambda>v. (vs_platform v, vs_platform_type v, vs_vm_id v, vs_vm_name v)"
  have key: "?g (summary_of ps g) = g" for ps g by (simp add: summary_of_def Let_def split: prod.split)
  have sorted: "distinct (map f (sort_key k xs)) = distinct (map f xs)"
    for f :: "vm_summary \<Rightarrow> string \<times> string \<times> string \<times> string" and k :: "vm_summary \<Rightarrow> string \<times> string" and xs
    by (metis mset_eq_imp_distinct_iff mset_map mset_sort)
  have "distinct (map ?g (list_vms s))" by (simp add: list_vms_def Let_def sorted key comp_def)
  then show ?thesis by (simp add: status_summary_def map_of_count_by distinct_count_by vm_points_sum cnt)
qed

lemma sort_desc_hd: "sort_desc k xs = x # r \<Longrightarrow> x \<in> set xs \<and> (\<forall>y\<in>set xs. k y \<le> k x)"
proof -
  assume a: "sort_desc k xs = x # r"
  then have sk: "sort_key k (rev xs) = rev r @ [x]"
    by (metis rev.simps(2) rev_swap sort_desc_def)
  then have "sorted (map k (rev r @ [x]))" by (metis sorted_sort_key)
  moreover have "set (rev r @ [x]) = set xs" using sk by (metis set_rev set_sort)
  ultimately show ?thesis by (auto simp: sorted_append)
qed

text \<open>
  The journal of failovers: a new run gets an id no run had and is stored running, closing it sets the
  outcome of that run alone, and \<open>latest_dr_run\<close> gives a run of the asked direction and status started no
  earlier than any other such run, \<open>None\<close> only when there is none.
\<close>

lemma dr_run_journal:
  "(\<forall>i t. create_dr_run dir src tgt details s = (i, t) \<longrightarrow>
      get_dr_run i s = None \<and>
      get_dr_run i (finish_dr_run i ok details' err t) =
        map_option (\<lambda>r. r\<lparr>d_finished_at := Some (isoformat (clock t (reads t))),
          d_status := (if ok then ''success'' else ''failed''), d_details := Some (stored_json details'),
          d_error := err\<rparr>) (get_dr_run i t) \<and>
      get_dr_run i t \<noteq> None \<and>
      (\<forall>k. k \<noteq> i \<longrightarrow> get_dr_run k (finish_dr_run i ok details' err t) = get_dr_run k s)) \<and>
   (case latest_dr_run direction status s of
      None \<Rightarrow> \<forall>r\<in>set (dr_runs s). \<not> (opt_match direction (d_direction r) \<and> opt_match status (d_status r))
    | Some r \<Rightarrow> r \<in> set (dr_runs s) \<and> opt_match direction (d_direction r) \<and> opt_match status (d_status r) \<and>
        (\<forall>q\<in>set (dr_runs s). opt_match direction (d_direction q) \<and> opt_match status (d_status q) \<longrightarrow>
           d_started_at q \<le> d_started_at r))"
proof (intro conjI allI impI)
  fix i t assume c: "create_dr_run dir src tgt details s = (i, t)"
  note g = create_dr_run_get [OF this]
  show "get_dr_run i s = None" "get_dr_run i t \<noteq> None" using g by auto
  show "get_dr_run i (finish_dr_run i ok details' err t) =
        map_option (\<lambda>r. r\<lparr>d_finished_at := Some (isoformat (clock t (reads t))),
          d_status := (if ok then ''success'' else ''failed''), d_details := Some (stored_json details'),
          d_error := err\<rparr>) (get_dr_run i t)"
    by (simp add: finish_dr_run_get)
  show "get_dr_run k (finish_dr_run i ok details' err t) = get_dr_run k s" if "k \<noteq> i" for k
    using that g by (auto simp: finish_dr_run_get) (auto simp: get_dr_run_def row_by_append split: option.split)
next
  let ?p = "\<lambda>r. opt_match direction (d_direction r) \<and> opt_match status (d_status r)"
  show "case latest_dr_run direction status s of
      None \<Rightarrow> \<forall>r\<in>set (dr_runs s). \<not> ?p r
    | Some r \<Rightarrow> r \<in> set (dr_runs s) \<and> opt_match direction (d_direction r) \<and> opt_match status (d_status r) \<and>
        (\<forall>q\<in>set (dr_runs s). ?p q \<longrightarrow> d_started_at q \<le> d_started_at r)"
  proof (cases "sort_desc d_started_at (filter ?p (dr_runs s))")
    case Nil
    then have "filter ?p (dr_runs s) = []" by (metis set_sort_desc set_empty)
    then show ?thesis using Nil by (simp add: latest_dr_run_def filter_empty_conv sort_desc_def)
  next
    case (Cons r rs)
    then show ?thesis using sort_desc_hd [OF Cons] by (auto simp: latest_dr_run_def)
  qed
qed

end
