(* ===== verification/Fnmatch.thy ===== *)
theory Fnmatch
  imports Prelude
begin

text \<open>
  \<open>fnmatch.fnmatch(name, pattern)\<close> on a POSIX system: \<open>*\<close>, \<open>?\<close>, \<open>[seq]\<close>, \<open>[!seq]\<close> with ranges, the way
  \<open>fnmatch.translate\<close> reads them (an unclosed bracket is itself, a range the wrong way round is dropped).
  The lemmas say what patterns without wildcards and the star match.
\<close>

section \<open>Reading a pattern\<close>

text \<open>A run of characters, from the first to the second.\<close>

type_synonym char_range = "char \<times> char"

datatype glob_item =
    Star
  | Any
  | Lit char
  | OneOf bool "char_range list"

text \<open>What stands between the brackets; a hyphen between two characters makes a range.\<close>

fun ranges_of :: "string \<Rightarrow> char_range list" where
  "ranges_of (a # b # c # cs) =
     (if b = CHR ''-'' then (a, c) # ranges_of cs else (a, a) # ranges_of (b # c # cs))"
| "ranges_of (a # cs) = (a, a) # ranges_of cs"
| "ranges_of [] = []"

definition class_of :: "string \<Rightarrow> glob_item" where
  "class_of body =
     (let raw = (if starts_with ''!'' body then (CHR ''!'', CHR ''!'') # ranges_of (tl body) else ranges_of body)
      in case filter (\<lambda>(a, b). a \<le> b) raw of
           (a, b) # rs \<Rightarrow>
             if a = CHR ''!''
             then OneOf False (if b = CHR ''!'' then rs else (CHR ''-'', CHR ''-'') # (b, b) # rs)
             else OneOf True ((a, b) # rs)
         | [] \<Rightarrow> OneOf True [])"

text \<open>The text inside a bracket expression and what follows it; the bracket may start with itself.\<close>

definition bracket :: "string \<Rightarrow> (string \<times> string) option" where
  "bracket p =
     (let n = (if starts_with ''!]'' p then 2 else if starts_with ''!'' p \<or> starts_with '']'' p then 1 else 0);
          rest = dropWhile (\<lambda>c. c \<noteq> CHR '']'') (drop n p)
      in if rest = [] then None
         else Some (take n p @ takeWhile (\<lambda>c. c \<noteq> CHR '']'') (drop n p), tl rest))"

lemma bracket_shorter: "bracket p = Some (body, rest) \<Longrightarrow> length rest < length p"
proof -
  assume "bracket p = Some (body, rest)"
  then obtain n where r: "rest = tl (dropWhile (\<lambda>c. c \<noteq> CHR '']'') (drop n p))" "dropWhile (\<lambda>c. c \<noteq> CHR '']'') (drop n p) \<noteq> []"
    unfolding bracket_def Let_def by (metis (no_types, lifting) option.distinct(1) option.inject prod.inject)
  have "length rest < length (dropWhile (\<lambda>c. c \<noteq> CHR '']'') (drop n p))" using r by simp
  also have "\<dots> \<le> length (drop n p)" by (rule length_dropWhile_le)
  also have "\<dots> \<le> length p" by simp
  finally show ?thesis .
qed

function glob_items :: "string \<Rightarrow> glob_item list" where
  "glob_items [] = []"
| "glob_items (c # p) =
     (if c = CHR ''*'' then Star # glob_items p
      else if c = CHR ''?'' then Any # glob_items p
      else if c = CHR ''['' then
        (case bracket p of
           None \<Rightarrow> Lit c # glob_items p
         | Some (body, rest) \<Rightarrow> class_of body # glob_items rest)
      else Lit c # glob_items p)"
  by pat_completeness auto
termination by (relation "measure length") (auto dest: bracket_shorter)

section \<open>Matching\<close>

definition one_char :: "glob_item \<Rightarrow> char \<Rightarrow> bool" where
  "one_char g c =
     (case g of
        Star \<Rightarrow> False
      | Any \<Rightarrow> True
      | Lit d \<Rightarrow> c = d
      | OneOf positive rs \<Rightarrow> list_ex (\<lambda>(a, b). a \<le> c \<and> c \<le> b) rs = positive)"

fun glob_match :: "glob_item list \<Rightarrow> string \<Rightarrow> bool" where
  "glob_match [] s = (s = [])"
| "glob_match (Star # gs) [] = glob_match gs []"
| "glob_match (Star # gs) (c # s) = (glob_match gs (c # s) \<or> glob_match (Star # gs) s)"
| "glob_match (g # gs) [] = False"
| "glob_match (g # gs) (c # s) = (one_char g c \<and> glob_match gs s)"

definition fnmatch :: "string \<Rightarrow> string \<Rightarrow> bool" where
  "fnmatch name pattern = glob_match (glob_items pattern) name"

section \<open>Plain names and the star\<close>

text \<open>A text without wildcard characters.\<close>

definition plain_name :: "string \<Rightarrow> bool" where
  "plain_name s \<longleftrightarrow> list_all (\<lambda>c. \<not> List.member ''*?['' c) s"

lemma glob_items_plain: "plain_name p \<Longrightarrow> glob_items p = map Lit p"
  by (induction p) (auto simp: plain_name_def)

lemma match_literals: "glob_match (map Lit p) s \<longleftrightarrow> s = p"
proof (induction p arbitrary: s)
  case (Cons c p)
  then show ?case by (cases s) (auto simp: one_char_def)
qed simp

lemma fnmatch_plain: "plain_name p \<Longrightarrow> fnmatch s p \<longleftrightarrow> s = p"
  by (simp add: fnmatch_def glob_items_plain match_literals)

lemma match_star: "glob_match [Star] s"
  by (induction s) auto

lemma fnmatch_star [simp]: "fnmatch s ''*''"
  by (simp add: fnmatch_def match_star)

end
