(* ===== verification/Engine.thy ===== *)
theory Engine
  imports Restic Anomaly Consistency Dr_State Naming Fnmatch
begin

text \<open>
  \<open>BackupEngine\<close> of \<open>engine.py\<close>: backups of one machine and of all machines, retention, holds,
  restore requests and their execution, verification of recovery points, storage targets and the
  status report. Every method is an action: the state database and the calls it makes outside are
  explicit, and every \<open>raise\<close> is a branch. A hypervisor adapter is known by the platform's name.
\<close>

section \<open>Paths, numbers and capacity\<close>

text \<open>\<open>Path(p).parent\<close>.\<close>

definition path_parent :: "string \<Rightarrow> string" where
  "path_parent p =
     (let q = norm_path p; ps = split_on (CHR ''/'') q
      in if length ps \<le> 1 then ''.'' else if ps ! 0 = [] \<and> length ps = 2 then ''/'' else join ''/'' (butlast ps))"

text \<open>\<open>f"{x:.1f}"\<close>, and \<open>usage.free / usage.total * 100 if usage.total else 0\<close> as an exact number.\<close>

definition fixed1 :: "rat \<Rightarrow> string" where
  "fixed1 r = (let n = round_even (10 * r)
     in (if n < 0 then ''-'' else []) @ show_nat (nat \<bar>n\<bar> div 10) @ ''.'' @ show_nat (nat \<bar>n\<bar> mod 10))"

definition free_percent :: "nat \<times> nat \<Rightarrow> rat" where
  "free_percent u = (case u of (avail, whole) \<Rightarrow> if whole = 0 then 0 else of_nat avail / of_nat whole * 100)"

definition ensure_path_capacity :: "env \<Rightarrow> config \<Rightarrow> string \<Rightarrow> string \<Rightarrow> unit act" where
  "ensure_path_capacity E cfg path action =
     then_act (ask (done_reply E) (MkDir (norm_path path)))
       (bind_act (ask (usage_reply E) (DiskUsage (norm_path path))) (\<lambda>usage.
          check (of_int (staging_min_free_percent (runtime cfg)) \<le> free_percent usage)
            (RuntimeError (action @ '' blocked: staging filesystem only has '' @ fixed1 (free_percent usage)
               @ ''% free; minimum is '' @ show_int (staging_min_free_percent (runtime cfg)) @ ''%''))))"

definition ensure_staging_capacity :: "env \<Rightarrow> config \<Rightarrow> unit act" where
  "ensure_staging_capacity E cfg = ensure_path_capacity E cfg (staging_path (repository cfg)) ''backup''"

text \<open>\<open>exclusive_lock\<close>: the body runs between taking and releasing the lock file.\<close>

definition exclusive_lock :: "env \<Rightarrow> string \<Rightarrow> 'a act \<Rightarrow> 'a act" where
  "exclusive_lock E path body =
     then_act (ask (done_reply E) (MkDir (path_parent path)))
       (then_act (ask (done_reply E) (LockFile (norm_path path)))
         (finally_act body (ask (done_reply E) (UnlockFile (norm_path path)))))"

section \<open>Adapters and lookups\<close>

definition build_adapter :: "platform_config \<Rightarrow> unit act" where
  "build_adapter pl =
     check (List.member [''vmware'', ''proxmox'', ''xcpng''] (pl_type pl))
       (ValueError (''unsupported platform: '' @ pl_type pl))"

definition engine_replica :: "config \<Rightarrow> string \<Rightarrow> replica_config act" where
  "engine_replica cfg name =
     need (find (\<lambda>r. rp_name r = name \<and> rp_enabled r) (replicas cfg))
       (ValueError (''unknown or disabled replica: '' @ name))"

definition engine_platform :: "config \<Rightarrow> string \<Rightarrow> platform_config act" where
  "engine_platform cfg name =
     need (find (\<lambda>p. pl_name p = name) (platforms cfg)) (ValueError (''unknown platform: '' @ name))"

definition platform_info_or_error :: "env \<Rightarrow> platform_config \<Rightarrow> json act" where
  "platform_info_or_error E pl =
     catch (ask (json_reply E) (Adapter (pl_name pl) PlatformInfo))
       (\<lambda>e. ret (JObj [(''error'', JStr (exc_msg e))]))"

text \<open>\<open>_selected\<close> of the adapters, and \<open>inventory\<close>: the machines the platform lists, in its order, as far as
  they are selected.\<close>

definition selected_vm :: "platform_config \<Rightarrow> string \<Rightarrow> bool" where
  "selected_vm pl name \<longleftrightarrow> list_ex (fnmatch name) (pl_include pl) \<and> \<not> list_ex (fnmatch name) (pl_exclude pl)"

definition adapter_inventory :: "env \<Rightarrow> platform_config \<Rightarrow> vm list act" where
  "adapter_inventory E pl =
     bind_act (ask (vms_reply E) (Adapter (pl_name pl) Inventory)) (\<lambda>vms.
       ret (filter (\<lambda>v. selected_vm pl (v_name v)) vms))"

definition adapter_doctor :: "env \<Rightarrow> platform_config \<Rightarrow> string list act" where
  "adapter_doctor E pl = ask (texts_reply E) (Adapter (pl_name pl) Doctor)"

definition rmtree :: "env \<Rightarrow> string \<Rightarrow> unit act" where
  "rmtree E path = ask_ignore (done_reply E) (RmTree path)"

section \<open>Verification of a recovery point\<close>

definition errors_json :: "string list \<Rightarrow> json" where
  "errors_json es = JList (map JStr es)"

text \<open>\<open>base / str(point["source_path"]).lstrip("/")\<close>.\<close>

definition restored_path :: "string \<Rightarrow> point \<Rightarrow> string" where
  "restored_path base p = path_div base (lstrip ''/'' (p_source_path p))"

definition read_tree :: "env \<Rightarrow> string \<Rightarrow> dir act" where
  "read_tree E path = ask (tree_reply E) (ReadTree path)"

definition check_tree :: "env \<Rightarrow> string \<Rightarrow> string option \<Rightarrow> (bool \<times> string list) act" where
  "check_tree E path digest = bind_act (read_tree E path) (\<lambda>d. lift_res (verify_manifest d digest))"

definition verify_recovery_point :: "env \<Rightarrow> config \<Rightarrow> string \<Rightarrow> string \<Rightarrow> bool act" where
  "verify_recovery_point E cfg sid actor =
     bind_act (query (get_point sid)) (\<lambda>found.
     bind_act (need found (ValueError ''unknown recovery point'')) (\<lambda>p.
     then_act (ensure_path_capacity E cfg (verify_staging_path (runtime cfg)) ''verification'')
     (let base = path_div (norm_path (verify_staging_path (runtime cfg))) (safe_component unnamed sid);
          expected = restored_path base p
      in then_act (rmtree E base)
        (finally_act
          (then_act (repo_restore E (repository cfg) sid base None)
            (bind_act (ask (bool_reply E) (PathExists expected)) (\<lambda>exists.
               if \<not> exists
               then then_act (try_db (mark_verified sid False [(''error'', JStr ''restored path missing'')])) (ret False)
               else bind_act (check_tree E expected (p_manifest_sha256 p)) (\<lambda>(ok, errors).
                 then_act (try_db (mark_verified sid ok [(''errors'', errors_json (take 20 errors))]))
                 (then_act (change (audit actor ''recovery.verify'' ''recovery_point'' sid
                     (JObj [(''success'', JBool ok), (''errors'', errors_json (take 20 errors))])))
                   (ret ok))))))
          (rmtree E base)))))"

section \<open>Backup of one machine\<close>

definition version :: string where
  "version = ''1.1.0''"

definition CONSISTENCY_FILE :: string where
  "CONSISTENCY_FILE = ''.immutavault-consistency.json''"

definition staging_root :: "config \<Rightarrow> platform_config \<Rightarrow> vm \<Rightarrow> instant \<Rightarrow> string" where
  "staging_root cfg pl v now =
     path_div (path_div (path_div (norm_path (staging_path (repository cfg))) (safe_component unnamed (pl_name pl)))
       (safe_component unnamed (v_name v))) (stamp now)"

definition unattested_consistency :: "platform_config \<Rightarrow> json" where
  "unattested_consistency pl = JObj
     [(''state'', JStr ''snapshot-consistent''), (''method'', JStr (pl_type pl @ ''-snapshot-export'')),
      (''requested'', JBool False), (''strict'', JBool False), (''provider_attested'', JBool False),
      (''application_consistent'', JBool False),
      (''detail'', JStr ''transport did not publish an application-consistency attestation'')]"

text \<open>\<open>read_consistency(exported) or {...}\<close>: an empty object counts as missing.\<close>

definition exported_consistency :: "env \<Rightarrow> platform_config \<Rightarrow> string \<Rightarrow> json act" where
  "exported_consistency E pl exported =
     (let target = path_div exported CONSISTENCY_FILE
      in bind_act (ask (bool_reply E) (PathExists target)) (\<lambda>found.
         if \<not> found then ret (unattested_consistency pl)
         else bind_act (catch (bind_act (ask (text_reply E) (ReadText target)) (\<lambda>t. ret (Some t)))
                (\<lambda>e. if os_error e then ret None else throw e)) (\<lambda>contents.
              ret (or_else (read_consistency contents) (unattested_consistency pl)))))"

text \<open>\<open>build_manifest\<close> with the file it writes; the indentation of the text is left out.\<close>

definition write_manifest :: "env \<Rightarrow> string \<Rightarrow> (json \<times> string) act" where
  "write_manifest E base =
     bind_act (read_tree E base) (\<lambda>d.
       case build_manifest d of ((manifest, digest), _) \<Rightarrow>
         then_act (ask (done_reply E) (WriteText (path_div base MANIFEST_NAME) (dumps_indent False 0 manifest)))
           (ret (manifest, digest)))"

definition int_field :: "string \<Rightarrow> json \<Rightarrow> int" where
  "int_field k m = (case jget k m of Some (JInt i) \<Rightarrow> i | _ \<Rightarrow> 0)"

definition backup_tags :: "platform_config \<Rightarrow> vm \<Rightarrow> string list" where
  "backup_tags pl v =
     [''immutavault:v'' @ version, ''platform:'' @ pl_type pl, ''source:'' @ pl_name pl,
      ''vm-id:'' @ v_id v, ''vm:'' @ v_name v, ''vm-kind:'' @ v_kind v]"

text \<open>How long a new point is immutable: a suspicious one at least the preservation window.\<close>

definition immutable_days_of :: "config \<Rightarrow> bool \<Rightarrow> int" where
  "immutable_days_of cfg suspicious =
     (let days = keep_within_days (repo_retention (repository cfg))
      in if suspicious then max days (preserve_suspicious_points_days (protection cfg)) else days)"

definition new_point ::
  "platform_config \<Rightarrow> vm \<Rightarrow> instant \<Rightarrow> string \<Rightarrow> backup_summary \<Rightarrow> json \<Rightarrow> string \<Rightarrow> string \<Rightarrow>
   bool \<times> string option \<Rightarrow> string \<Rightarrow> json \<Rightarrow> json \<Rightarrow> point" where
  "new_point pl v now base summary manifest digest immutable_until flagged exported info consistency =
     \<lparr>p_snapshot_id = bs_snapshot_id summary, p_created_at = isoformat now, p_platform = pl_name pl,
      p_platform_type = pl_type pl, p_vm_id = v_id v, p_vm_name = v_name v, p_power_state = v_power_state v,
      p_source_path = base, p_backup_bytes = int_field ''total_bytes'' manifest,
      p_data_added = bs_data_added summary, p_file_count = int_field ''file_count'' manifest,
      p_manifest_sha256 = Some digest, p_immutable_until = immutable_until,
      p_suspicious = fst flagged, p_suspicious_reason = snd flagged,
      p_verified = False, p_verified_at = None,
      p_metadata = Some (JObj [(''exported'', JStr exported), (''vm_kind'', JStr (v_kind v)),
        (''platform_info'', info), (''application_consistency'', consistency)]),
      p_expired = False, p_expired_at = None\<rparr>"

definition replica_provider :: "replica_config \<Rightarrow> string option" where
  "replica_provider r = (if rp_backend r = ''s3'' then Some (rp_provider r) else None)"

definition failed_result :: "exc \<Rightarrow> json" where
  "failed_result e = JObj [(''status'', JStr ''failed''), (''error'', JStr (exc_msg e))]"

definition object_lock_of :: "(string \<times> json) list \<Rightarrow> json" where
  "object_lock_of copied = or_else (map_of copied ''object_lock'') (JObj [])"

text \<open>One enabled replica; a failure is recorded and never fails the backup.\<close>

definition replicate_to ::
  "env \<Rightarrow> config \<Rightarrow> string \<Rightarrow> int \<Rightarrow> string \<Rightarrow> replica_config \<Rightarrow> (string \<times> json) act" where
  "replicate_to E cfg sid immutable_days immutable_until r =
     catch
       (bind_act (copy_snapshot E (repository cfg) sid r (Some immutable_days)) (\<lambda>copied.
        let lock_info = object_lock_of copied
        in bind_act (lift_res (restic_target_url r)) (\<lambda>url.
           then_act (change (upsert_recovery_copy sid (rp_name r) (rp_backend r) url (replica_provider r) ''success''
             (Some (py_str (or_else (jget ''retain_until'' lock_info) (JStr immutable_until)))) (canon lock_info) None False))
           (then_act (change (audit ''system'' ''replica.complete'' ''recovery_point'' sid
             (JObj [(''target'', JStr (rp_name r)), (''backend'', JStr (rp_backend r)),
                    (''provider'', JStr (rp_provider r)), (''object_lock'', lock_info)])))
             (ret (rp_name r, JObj copied))))))
       (\<lambda>e. let url = (case restic_target_url r of Inr u \<Rightarrow> u | Inl _ \<Rightarrow> ''unresolved'')
            in then_act (change (upsert_recovery_copy sid (rp_name r) (rp_backend r) url (replica_provider r) ''failed''
                 None (JObj []) (Some (exc_msg e)) False))
               (then_act (change (audit ''system'' ''replica.failed'' ''recovery_point'' sid
                 (JObj [(''target'', JStr (rp_name r)), (''error'', JStr (exc_msg e))])))
                 (ret (rp_name r, failed_result e))))"

definition enabled_replicas :: "config \<Rightarrow> replica_config list" where
  "enabled_replicas cfg = filter rp_enabled (replicas cfg)"

text \<open>The body of the \<open>try\<close> of \<open>_backup_vm\<close>, from the export to the catalog entry.\<close>

definition export_and_back_up ::
  "env \<Rightarrow> config \<Rightarrow> platform_config \<Rightarrow> vm \<Rightarrow> string \<Rightarrow> (string \<times> json \<times> json \<times> string \<times> backup_summary) act" where
  "export_and_back_up E cfg pl v base =
     bind_act (ask (text_reply E) (Adapter (pl_name pl) (Export (v_id v) base False))) (\<lambda>exported.
     bind_act (exported_consistency E pl exported) (\<lambda>consistency.
     bind_act (write_manifest E base) (\<lambda>(manifest, digest).
     bind_act (repo_backup E (repository cfg) base (backup_tags pl v)) (\<lambda>summary.
       ret (exported, consistency, manifest, digest, summary)))))"

definition flag_backup :: "config \<Rightarrow> point option \<Rightarrow> json \<Rightarrow> backup_summary \<Rightarrow> bool \<times> string option" where
  "flag_backup cfg previous manifest summary =
     detect_backup_anomaly (map_option p_backup_bytes previous) (int_field ''total_bytes'' manifest)
       (bs_data_added summary) (anomaly_data_added_ratio (protection cfg)) (anomaly_size_change_ratio (protection cfg))"

definition record_backup :: "config \<Rightarrow> platform_config \<Rightarrow> vm \<Rightarrow> nat \<Rightarrow> point \<Rightarrow> unit act" where
  "record_backup cfg pl v job_id p =
     (let sid = p_snapshot_id p
      in then_act (change (upsert_recovery_point p))
        (then_act (change (upsert_recovery_copy sid ''primary'' ''rest'' (repo_url (repository cfg)) None ''success''
            (Some (p_immutable_until p))
            (JObj [(''logical_immutability'', JBool True), (''type'', JStr ''append-only-vault'')]) None False))
        (then_act (change (finish_job job_id ''success'' (Some sid) None))
        (change (audit ''system'' ''backup.complete'' ''recovery_point'' sid
           (JObj [(''platform'', JStr (pl_name pl)), (''vm'', JStr (v_name v)), (''suspicious'', JBool (p_suspicious p)),
                  (''reason'', opt_json (p_suspicious_reason p))]))))))"

definition backup_body ::
  "env \<Rightarrow> config \<Rightarrow> platform_config \<Rightarrow> vm \<Rightarrow> json \<Rightarrow> instant \<Rightarrow> string \<Rightarrow> nat \<Rightarrow> (string \<times> json) list act" where
  "backup_body E cfg pl v info now base job_id =
     bind_act (export_and_back_up E cfg pl v base) (\<lambda>(exported, consistency, manifest, digest, summary).
     bind_act (query (latest_point (pl_name pl) (v_id v))) (\<lambda>previous.
     let flagged = flag_backup cfg previous manifest summary;
         days = immutable_days_of cfg (fst flagged);
         immutable_until = isoformat (plus_days now days);
         p = new_point pl v now base summary manifest digest immutable_until flagged exported info consistency;
         sid = bs_snapshot_id summary
     in then_act (record_backup cfg pl v job_id p)
       (bind_act (each (replicate_to E cfg sid days immutable_until) (enabled_replicas cfg)) (\<lambda>copies.
        bind_act (if verify_after_backup (protection cfg)
                  then bind_act (verify_recovery_point E cfg sid ''system'') (\<lambda>ok. ret (JBool ok))
                  else ret JNull) (\<lambda>verified.
        then_act (rmtree E base)
          (ret [(''platform'', JStr (pl_name pl)), (''vm'', JStr (v_name v)), (''status'', JStr ''success''),
                (''snapshot'', JStr sid), (''bytes'', JInt (int_field ''total_bytes'' manifest)),
                (''data_added'', JInt (bs_data_added summary)), (''immutable_until'', JStr immutable_until),
                (''suspicious'', JBool (fst flagged)), (''suspicious_reason'', opt_json (snd flagged)),
                (''replicas'', JObj (dict_of copies)), (''verified'', verified),
                (''application_consistency'', consistency)]))))))"

definition backup_failed :: "env \<Rightarrow> config \<Rightarrow> platform_config \<Rightarrow> vm \<Rightarrow> string \<Rightarrow> nat \<Rightarrow> exc \<Rightarrow> (string \<times> json) list act" where
  "backup_failed E cfg pl v base i e =
     then_act (change (finish_job i ''failed'' None (Some (exc_msg e))))
       (then_act (change (audit ''system'' ''backup.failed'' ''vm'' (pl_name pl @ '':'' @ v_id v)
          (JObj [(''error'', JStr (exc_msg e))])))
       (then_act (when_act (\<not> keep_staging_on_failure (runtime cfg)) (rmtree E base))
         (ret [(''platform'', JStr (pl_name pl)), (''vm'', JStr (v_name v)), (''status'', JStr ''failed''),
               (''error'', JStr (exc_msg e))])))"

definition backup_vm ::
  "env \<Rightarrow> config \<Rightarrow> platform_config \<Rightarrow> vm \<Rightarrow> json \<Rightarrow> bool \<Rightarrow> (string \<times> json) list act" where
  "backup_vm E cfg pl v info dry_run =
     bind_act (call_db now_utc) (\<lambda>now.
     let base = staging_root cfg pl v now
     in if dry_run
        then bind_act (ask (text_reply E) (Adapter (pl_name pl) (Export (v_id v) base True))) (\<lambda>exported.
               ret [(''platform'', JStr (pl_name pl)), (''vm'', JStr (v_name v)), (''status'', JStr ''dry-run''),
                    (''would_export'', JStr exported)])
        else then_act (ask (done_reply E) (MkDir base))
          (bind_act (call_db (start_job (pl_name pl) (v_id v) (v_name v))) (\<lambda>job_id.
           catch (backup_body E cfg pl v info now base job_id) (backup_failed E cfg pl v base job_id))))"

section \<open>Backup of all machines, inventory and status\<close>

definition enabled_platforms :: "config \<Rightarrow> platform_config list" where
  "enabled_platforms cfg = filter pl_enabled (platforms cfg)"

definition backup_platform :: "env \<Rightarrow> config \<Rightarrow> bool \<Rightarrow> platform_config \<Rightarrow> (string \<times> json) list list act" where
  "backup_platform E cfg dry_run pl =
     then_act (build_adapter pl)
       (bind_act (platform_info_or_error E pl) (\<lambda>info.
        bind_act (adapter_inventory E pl) (\<lambda>vms.
          each (\<lambda>v. backup_vm E cfg pl v info dry_run) vms)))"

definition backup_all :: "env \<Rightarrow> config \<Rightarrow> bool \<Rightarrow> (string \<times> json) list list act" where
  "backup_all E cfg dry_run =
     exclusive_lock E (lock_file (repository cfg))
       (then_act (ensure_staging_capacity E cfg)
         (bind_act (each (backup_platform E cfg dry_run) (enabled_platforms cfg)) (\<lambda>rs. ret (concat rs))))"

definition platform_infos :: "env \<Rightarrow> config \<Rightarrow> (string \<times> json) list act" where
  "platform_infos E cfg =
     bind_act (each (\<lambda>pl. then_act (build_adapter pl)
         (catch (bind_act (ask (json_reply E) (Adapter (pl_name pl) PlatformInfo)) (\<lambda>i. ret (pl_name pl, i)))
           (\<lambda>e. ret (pl_name pl, JObj [(''name'', JStr (pl_name pl)), (''type'', JStr (pl_type pl)),
                                        (''error'', JStr (exc_msg e))]))))
       (enabled_platforms cfg)) (\<lambda>kvs. ret (dict_of kvs))"

definition inventory :: "env \<Rightarrow> config \<Rightarrow> (string \<times> vm list) list act" where
  "inventory E cfg =
     bind_act (each (\<lambda>pl. then_act (build_adapter pl) (bind_act (adapter_inventory E pl) (\<lambda>vms. ret (pl_name pl, vms))))
       (enabled_platforms cfg)) (\<lambda>kvs. ret (dict_of kvs))"

text \<open>\<open>re.search(r"restic (\d+)\.(\d+)\.(\d+)", text)\<close>.\<close>

fun read_version :: "string \<Rightarrow> (nat \<times> nat \<times> nat) option" where
  "read_version [] = None"
| "read_version (c # cs) =
     (let (a, r1) = span_digits (drop 7 (c # cs)); (b, r2) = span_digits (drop 1 r1);
          (d, r3) = span_digits (drop 1 r2)
      in if starts_with ''restic '' (c # cs) \<and> a \<noteq> [] \<and> starts_with ''.'' r1 \<and> b \<noteq> [] \<and>
            starts_with ''.'' r2 \<and> d \<noteq> []
         then Some (digits_nat a, digits_nat b, digits_nat d) else read_version cs)"

definition older_than_0_19_1 :: "nat \<times> nat \<times> nat \<Rightarrow> bool" where
  "older_than_0_19_1 v =
     (case v of (a, b, c) \<Rightarrow> a = 0 \<and> (b < 19 \<or> b = 19 \<and> c < 1))"

definition version_problems :: "run_output \<Rightarrow> string list" where
  "version_problems r =
     (case r of (code, out, err) \<Rightarrow>
        case read_version (out @ err) of
          None \<Rightarrow> [''restic version/capability probe failed'']
        | Some (a, b, c) \<Rightarrow>
            if code \<noteq> 0 then [''restic version/capability probe failed'']
            else if older_than_0_19_1 (a, b, c)
            then [''restic '' @ show_nat a @ ''.'' @ show_nat b @ ''.'' @ show_nat c @ '' is older than the tested minimum 0.19.1'']
            else [])"

definition restic_problems :: "env \<Rightarrow> string list act" where
  "restic_problems E =
     bind_act (ask (bool_reply E) (Probe ''restic'')) (\<lambda>present.
       if \<not> present then ret [''restic is not installed'']
       else bind_act (run_command E [''restic'', ''version''] [] False) (\<lambda>r. ret (version_problems r)))"

definition staging_problems :: "env \<Rightarrow> config \<Rightarrow> string list act" where
  "staging_problems E cfg =
     (let path = norm_path (staging_path (repository cfg)); least = staging_min_free_percent (runtime cfg)
      in catch (then_act (ask (done_reply E) (MkDir path))
           (bind_act (ask (usage_reply E) (DiskUsage path)) (\<lambda>usage.
              ret (if free_percent usage < of_int least
                   then [''staging free space is '' @ fixed1 (free_percent usage) @ ''%, below configured minimum ''
                         @ show_int least @ ''%''] else []))))
         (\<lambda>e. if os_error e then ret [''staging path unavailable: '' @ exc_msg e] else throw e))"

definition replica_problems :: "env \<Rightarrow> replica_config \<Rightarrow> (string \<times> string list) act" where
  "replica_problems E r =
     catch (bind_act (target_health_of E r) (\<lambda>h. ret (''storage:'' @ rp_name r, th_problems h)))
       (\<lambda>e. ret (''storage:'' @ rp_name r, [exc_msg e]))"

definition doctor :: "env \<Rightarrow> config \<Rightarrow> (string \<times> string list) list act" where
  "doctor E cfg =
     bind_act (restic_problems E) (\<lambda>p1.
     bind_act (staging_problems E cfg) (\<lambda>p2.
     bind_act (each (replica_problems E) (enabled_replicas cfg)) (\<lambda>stores.
     bind_act (each (\<lambda>pl. then_act (build_adapter pl) (bind_act (adapter_doctor E pl) (\<lambda>ps. ret (pl_name pl, ps))))
        (enabled_platforms cfg)) (\<lambda>hosts.
       ret (dict_of ((''repository'', p1 @ p2) # stores @ hosts))))))"

record engine_status =
  es_healthy :: bool
  es_components :: "(string \<times> string list) list"
  es_audit_valid :: bool
  es_audit_errors :: "string list"
  es_catalog :: status_report

definition status :: "env \<Rightarrow> config \<Rightarrow> engine_status act" where
  "status E cfg =
     bind_act (doctor E cfg) (\<lambda>results.
     bind_act (query verify_audit_chain) (\<lambda>(audit_ok, audit_errors).
     bind_act (query status_summary) (\<lambda>catalog.
       ret \<lparr>es_healthy = (list_all (\<lambda>kv. snd kv = []) results \<and> audit_ok), es_components = results,
            es_audit_valid = audit_ok, es_audit_errors = audit_errors, es_catalog = catalog\<rparr>)))"

section \<open>Retention, listing, targets\<close>

definition retention :: "env \<Rightarrow> config \<Rightarrow> string list act" where
  "retention E cfg =
     bind_act (call_db utcnow) (\<lambda>now.
     bind_act (query (protected_snapshot_ids now)) (\<lambda>protected.
     bind_act (restic_retention E (repository cfg) protected) (\<lambda>removed.
       then_act (change (mark_points_expired removed))
       (then_act (change (audit ''root-maintenance'' ''retention.complete'' ''repository'' ''primary''
          (JObj [(''removed'', JList (map JStr removed)), (''protected_count'', JInt (int (length (remdups protected))))])))
         (ret removed)))))"

record shown_point =
  sp_point :: point
  sp_consistency :: "(string \<times> json) list"
  sp_score :: int
  sp_status :: string
  sp_copies :: "copy list"
  sp_sources :: "string list"

text \<open>\<open>fromisoformat(...) > now\<close>; a naive datetime cannot be compared (\<open>TypeError\<close>).\<close>

definition is_immutable :: "instant \<Rightarrow> point \<Rightarrow> bool" where
  "is_immutable now p =
     (case fromisoformat (p_immutable_until p) of
        Some (t, Some off) \<Rightarrow> now < t - off
      | _ \<Rightarrow> False)"

definition recovery_score :: "instant \<Rightarrow> point \<Rightarrow> int" where
  "recovery_score now p =
     max 0 (100 - (if p_verified p then 0 else 25) - (if p_suspicious p then 60 else 0)
              - (if is_immutable now p then 0 else 10))"

definition recovery_status :: "instant \<Rightarrow> point \<Rightarrow> string" where
  "recovery_status now p =
     (if p_suspicious p then ''avoid-suspicious''
      else if p_verified p \<and> is_immutable now p then ''preferred''
      else if \<not> p_verified p then ''verify-first'' else ''available'')"

definition show_point :: "instant \<Rightarrow> db \<Rightarrow> point \<Rightarrow> shown_point" where
  "show_point now s p =
     (let copies = list_recovery_copies (p_snapshot_id p) s
      in \<lparr>sp_point = p, sp_consistency = point_consistency (p_metadata p), sp_score = recovery_score now p,
          sp_status = recovery_status now p, sp_copies = copies,
          sp_sources = map c_target_name (filter (\<lambda>c. c_status c = ''success'') copies)\<rparr>)"

definition list_recovery_points :: "string option \<Rightarrow> string option \<Rightarrow> shown_point list act" where
  "list_recovery_points platform vm_id =
     bind_act (query (list_points platform vm_id 500)) (\<lambda>ps.
     bind_act (call_db now_utc) (\<lambda>now. query (\<lambda>s. map (show_point now s) ps)))"

definition primary_target :: "config \<Rightarrow> (string \<times> json) list" where
  "primary_target cfg =
     [(''name'', JStr ''primary''), (''backend'', JStr ''rest''), (''repository'', JStr (repo_url (repository cfg))),
      (''role'', JStr ''on-prem append-only primary''), (''enabled'', JBool True)]"

definition storage_target :: "env \<Rightarrow> replica_config \<Rightarrow> (string \<times> json) list act" where
  "storage_target E r =
     bind_act (lift_res (restic_target_url r)) (\<lambda>url.
       let entry = [(''name'', JStr (rp_name r)), (''backend'', JStr (rp_backend r)),
                    (''provider'', opt_json (replica_provider r)), (''repository'', JStr url),
                    (''enabled'', JBool (rp_enabled r)), (''object_lock_enabled'', JBool (rp_object_lock_enabled r)),
                    (''r2_bucket_lock_enabled'', JBool (rp_r2_bucket_lock_enabled r))]
       in if \<not> rp_enabled r then ret entry
          else bind_act (catch (replica_health E r)
                 (\<lambda>e. ret [(''ok'', JBool False), (''problems'', JList [JStr (exc_msg e)])])) (\<lambda>h.
               ret (entry @ [(''health'', JObj h)])))"

definition storage_targets :: "env \<Rightarrow> config \<Rightarrow> (string \<times> json) list list act" where
  "storage_targets E cfg =
     bind_act (each (storage_target E) (replicas cfg)) (\<lambda>ts. ret (primary_target cfg # ts))"

definition init_replica :: "env \<Rightarrow> config \<Rightarrow> string \<Rightarrow> (string \<times> json) list act" where
  "init_replica E cfg name =
     bind_act (engine_replica cfg name) (\<lambda>r.
     bind_act (init_target E r) (\<lambda>result.
       then_act (change (audit ''admin'' ''replica.init'' ''storage_target'' name (JObj result))) (ret result)))"

definition r2_locked :: "replica_config \<Rightarrow> bool" where
  "r2_locked r \<longleftrightarrow> rp_provider r = ''cloudflare_r2'' \<and> rp_r2_bucket_lock_enabled r"

definition init_replica_lock :: "env \<Rightarrow> config \<Rightarrow> string \<Rightarrow> (string \<times> json) list act" where
  "init_replica_lock E cfg name =
     bind_act (engine_replica cfg name) (\<lambda>r.
     bind_act (if r2_locked r
               then ensure_r2_bucket_lock E r (Some (keep_within_days (repo_retention (repository cfg))))
               else if rp_backend r = ''s3'' \<and> rp_object_lock_enabled r then s3_preflight E r
               else throw (ValueError (''replica '' @ name @ '' has no provider-side immutability configured''))) (\<lambda>result.
       then_act (change (audit ''admin'' ''replica.lock_init'' ''storage_target'' name (JObj result))) (ret result)))"

definition replica_lock_status :: "env \<Rightarrow> config \<Rightarrow> string \<Rightarrow> (string \<times> json) list act" where
  "replica_lock_status E cfg name =
     bind_act (engine_replica cfg name) (\<lambda>r.
       if r2_locked r then r2_bucket_lock_status E r
       else if rp_backend r = ''s3'' \<and> rp_object_lock_enabled r then s3_preflight E r
       else ret [(''enabled'', JBool False), (''kind'', JStr ''none'')])"

section \<open>Holds\<close>

definition provider_locked :: "replica_config \<Rightarrow> bool" where
  "provider_locked r \<longleftrightarrow> rp_enabled r \<and> rp_backend r = ''s3'' \<and> (rp_object_lock_enabled r \<or> r2_locked r)"

definition hold_on_replica :: "env \<Rightarrow> string \<Rightarrow> string \<Rightarrow> int \<Rightarrow> string \<Rightarrow> replica_config \<Rightarrow> unit act" where
  "hold_on_replica E sid actor days saved r =
     (if \<not> provider_locked r then ret ()
      else bind_act (query (get_recovery_copy (sid, rp_name r))) (\<lambda>found.
        if (case found of None \<Rightarrow> True | Some c \<Rightarrow> c_status c \<noteq> ''success'') then ret ()
        else catch
          (bind_act (provider_lock E r (Some days)) (\<lambda>lock.
             change (audit actor ''replica.hold_extended'' ''storage_target'' (rp_name r)
               (JObj [(''snapshot_id'', JStr sid), (''requested_until'', JStr saved), (''provider_lock'', JObj lock)]))))
          (\<lambda>e. change (audit actor ''replica.hold_extend_failed'' ''storage_target'' (rp_name r)
               (JObj [(''snapshot_id'', JStr sid), (''error'', JStr (exc_msg e))])))))"

definition hold_recovery_point :: "env \<Rightarrow> config \<Rightarrow> string \<Rightarrow> string \<Rightarrow> int \<Rightarrow> string \<Rightarrow> string act" where
  "hold_recovery_point E cfg sid actor days reason =
     then_act (check (1 \<le> days \<and> days \<le> 36500) (ValueError ''hold days must be between 1 and 36500''))
     (bind_act (query (get_point sid)) (\<lambda>found.
      then_act (check (found \<noteq> None) (ValueError ''unknown recovery point''))
      (bind_act (call_db now_utc) (\<lambda>now.
       bind_act (try_db (extend_immutability sid (isoformat (plus_days now days)) actor reason)) (\<lambda>saved.
       then_act (bind_act (each (hold_on_replica E sid actor days saved) (replicas cfg)) (\<lambda>_. ret ()))
         (ret saved))))))"

section \<open>Restores\<close>

definition request_restore ::
  "config \<Rightarrow> string \<Rightarrow> string \<Rightarrow> string \<Rightarrow> string option \<Rightarrow> (string \<times> json) list \<Rightarrow> nat act" where
  "request_restore cfg sid requester target_platform target_name options =
     bind_act (query (get_point sid)) (\<lambda>found.
     bind_act (need found (ValueError ''unknown recovery point'')) (\<lambda>p.
     bind_act (engine_platform cfg target_platform) (\<lambda>target.
     then_act (check (pl_enabled target) (ValueError ''target platform is disabled''))
     (then_act (check (pl_type target = p_platform_type p)
        (ValueError (''cross-hypervisor restore from '' @ p_platform_type p @ '' to '' @ pl_type target
          @ '' is not enabled in the safe core; restore to the same hypervisor family or install a tested conversion plugin'')))
     (let name = text_or target_name (p_vm_name p @ ''-restore-'' @ take 8 sid);
          status = (if require_four_eyes_restore (protection cfg) then ''pending_approval'' else ''ready'')
      in call_db (create_restore_request requester p (pl_name target) name options status))))))"

definition approve_request :: "config \<Rightarrow> nat \<Rightarrow> string \<Rightarrow> unit act" where
  "approve_request cfg i approver =
     try_db (approve_restore i approver (require_four_eyes_restore (protection cfg)))"

definition plannable :: "string \<Rightarrow> bool" where
  "plannable st \<longleftrightarrow> List.member [''pending_approval'', ''approved'', ''ready''] st"

text \<open>Where the snapshot comes from: the primary, or a replica that holds a successful copy.\<close>

definition restore_source :: "config \<Rightarrow> string \<Rightarrow> string \<Rightarrow> replica_config option act" where
  "restore_source cfg sid source_repository =
     (if source_repository = ''primary'' then ret None
      else bind_act (engine_replica cfg source_repository) (\<lambda>r.
        bind_act (query (get_recovery_copy (sid, source_repository))) (\<lambda>found.
          then_act (check (case found of None \<Rightarrow> False | Some c \<Rightarrow> c_status c = ''success'')
             (RuntimeError (''recovery point is not available on requested source repository '' @ source_repository)))
            (ret (Some r)))))"

definition source_of :: "(string \<times> json) list \<Rightarrow> string" where
  "source_of options = py_str (get_or options ''source_repository'' (JStr ''primary''))"

definition restore_root :: "config \<Rightarrow> nat \<Rightarrow> string" where
  "restore_root cfg i = path_div (norm_path (restore_staging_path (runtime cfg))) (''request-'' @ show_nat i)"

text \<open>The staging directory is emptied, filled from the repository and checked against the manifest.\<close>

definition stage_snapshot :: "env \<Rightarrow> config \<Rightarrow> string \<Rightarrow> nat \<Rightarrow> point \<Rightarrow> replica_config option \<Rightarrow> string act" where
  "stage_snapshot E cfg failure i p replica =
     (let base = restore_root cfg i; restored_source = restored_path base p
      in then_act (rmtree E base)
        (then_act (repo_restore E (repository cfg) (p_snapshot_id p) base replica)
        (bind_act (ask (bool_reply E) (PathExists restored_source)) (\<lambda>exists.
         then_act (check exists
           (RuntimeError (''restic restore completed but expected source path is missing: '' @ restored_source)))
         (bind_act (check_tree E restored_source (p_manifest_sha256 p)) (\<lambda>(ok, errors).
          then_act (check ok (RuntimeError (failure @ join ''; '' (take 10 errors))))
            (ret restored_source)))))))"

text \<open>\<open>result["source_repository"] = ...\<close> on a dictionary, and \<open>result or {}\<close>.\<close>

definition with_source :: "string \<Rightarrow> json \<Rightarrow> json" where
  "with_source src result =
     (case result of JObj kvs \<Rightarrow> JObj (jset ''source_repository'' (JStr src) kvs) | _ \<Rightarrow> result)"

definition json_or_empty :: "json \<Rightarrow> json" where
  "json_or_empty v = (if jtruthy v then v else JObj [])"

definition import_vm ::
  "env \<Rightarrow> config \<Rightarrow> nat \<Rightarrow> string \<Rightarrow> platform_config \<Rightarrow> point \<Rightarrow> restore_request \<Rightarrow> (string \<times> json) list \<Rightarrow>
   string \<Rightarrow> replica_config option \<Rightarrow> json act" where
  "import_vm E cfg i actor target p req options source_repository replica =
     catch
       (bind_act (stage_snapshot E cfg ''recovery point manifest verification failed: '' i p replica) (\<lambda>restored_source.
        bind_act (ask (json_reply E) (Adapter (pl_name target) (RestoreVm restored_source (q_target_name req) options)))
          (\<lambda>answer.
           let result = with_source source_repository answer
           in then_act (change (finish_restore i True (json_or_empty result) None))
             (then_act (change (audit actor ''restore.complete'' ''restore_request'' (show_nat i) result))
             (then_act (rmtree E (restore_root cfg i)) (ret result))))))
       (\<lambda>e. then_act (change (finish_restore i False (JObj []) (Some (exc_msg e))))
          (then_act (change (audit actor ''restore.failed'' ''restore_request'' (show_nat i)
             (JObj [(''error'', JStr (exc_msg e))])))
          (then_act (when_act (\<not> keep_staging_on_failure (runtime cfg)) (rmtree E (restore_root cfg i)))
            (throw e))))"

definition restore_plan :: "config \<Rightarrow> nat \<Rightarrow> point \<Rightarrow> platform_config \<Rightarrow> restore_request \<Rightarrow> string \<Rightarrow> json" where
  "restore_plan cfg i p target req source_repository =
     JObj [(''request_id'', JInt (int i)), (''snapshot'', JStr (p_snapshot_id p)),
       (''target_platform'', JStr (pl_name target)), (''target_name'', JStr (q_target_name req)),
       (''staging'', JStr (restored_path (restore_root cfg i) p)), (''source_repository'', JStr source_repository),
       (''note'', JStr ''execution will restore the encrypted snapshot to staging, validate its manifest, then import as a NEW VM'')]"

definition restore_preflight :: "env \<Rightarrow> config \<Rightarrow> nat \<Rightarrow> string \<Rightarrow> platform_config \<Rightarrow> unit act" where
  "restore_preflight E cfg i actor target =
     then_act (ensure_path_capacity E cfg (restore_staging_path (runtime cfg)) ''restore'')
       (bind_act (adapter_doctor E target) (\<lambda>problems.
          when_act (problems \<noteq> [])
            (then_act (change (audit actor ''restore.preflight_failed'' ''restore_request'' (show_nat i)
                (JObj [(''problems'', errors_json problems)])))
              (throw (RuntimeError (''restore target preflight failed: '' @ join ''; '' problems))))))"

definition execute_restore :: "env \<Rightarrow> config \<Rightarrow> nat \<Rightarrow> string \<Rightarrow> bool \<Rightarrow> json act" where
  "execute_restore E cfg i actor dry_run =
     bind_act (query (get_restore_request i)) (\<lambda>found.
     bind_act (need found (ValueError ''restore request not found'')) (\<lambda>req.
     then_act (check (dry_run \<longrightarrow> plannable (q_status req))
       (ValueError (''restore request cannot be planned from status '' @ q_status req)))
     (bind_act (query (get_point (q_snapshot_id req))) (\<lambda>known.
     bind_act (need known (RuntimeError ''recovery point metadata missing'')) (\<lambda>p.
     bind_act (engine_platform cfg (q_target_platform req)) (\<lambda>target.
     then_act (build_adapter target)
     (let options = q_options req; source_repository = source_of options
      in bind_act (restore_source cfg (p_snapshot_id p) source_repository) (\<lambda>replica.
         if dry_run then ret (restore_plan cfg i p target req source_repository)
         else then_act (restore_preflight E cfg i actor target)
           (bind_act (try_db (start_restore i actor)) (\<lambda>started.
              import_vm E cfg i actor target p started options source_repository replica))))))))))"

end
