(* ===== verification/Effects.thy ===== *)
theory Effects
  imports Restic
begin

text \<open>
  What actions may do to the database and which calls they may make. \<open>kept f\<close> leaves the projection
  \<open>f\<close> of the database alone, \<open>does Q\<close> makes only calls that satisfy \<open>Q\<close> given the calls before
  them, and \<open>service\<close> is what every storage and restic operation obeys: the database changes in
  nothing but the number of clock readings, no hypervisor is called, no lock file is touched and no
  snapshot is forgotten. All three are instances of \<open>step_relation\<close>.
\<close>

section \<open>Relations\<close>

definition kept :: "(db \<Rightarrow> 'b) \<Rightarrow> sys \<Rightarrow> sys \<Rightarrow> bool" where
  "kept f s t \<longleftrightarrow> f (database t) = f (database s)"

definition calls_ok :: "(call list \<Rightarrow> call \<Rightarrow> bool) \<Rightarrow> call list \<Rightarrow> call list \<Rightarrow> bool" where
  "calls_ok Q before cs \<longleftrightarrow> (\<forall>xs c ys. cs = xs @ c # ys \<longrightarrow> Q (before @ xs) c)"

definition does :: "(call list \<Rightarrow> call \<Rightarrow> bool) \<Rightarrow> sys \<Rightarrow> sys \<Rightarrow> bool" where
  "does Q s t \<longleftrightarrow> (\<exists>cs. trace t = trace s @ cs \<and> calls_ok Q (trace s) cs)"

lemma calls_ok_Nil [simp]: "calls_ok Q b []"
  by (simp add: calls_ok_def)

lemma calls_ok_one [simp]: "calls_ok Q b [c] \<longleftrightarrow> Q b c"
  by (auto simp: calls_ok_def Cons_eq_append_conv)

lemma calls_ok_append: "calls_ok Q b (cs @ ds) \<longleftrightarrow> calls_ok Q b cs \<and> calls_ok Q (b @ cs) ds"
proof
  assume a: "calls_ok Q b (cs @ ds)"
  have "Q (b @ xs) c" if "cs = xs @ c # ys" for xs c ys
    using a that unfolding calls_ok_def by (metis append.assoc append_Cons)
  moreover have "Q ((b @ cs) @ xs) c" if "ds = xs @ c # ys" for xs c ys
    using a that unfolding calls_ok_def by (metis append.assoc)
  ultimately show "calls_ok Q b cs \<and> calls_ok Q (b @ cs) ds" by (auto simp: calls_ok_def)
next
  assume a: "calls_ok Q b cs \<and> calls_ok Q (b @ cs) ds"
  show "calls_ok Q b (cs @ ds)"
    unfolding calls_ok_def
  proof (intro allI impI)
    fix xs c ys assume "cs @ ds = xs @ c # ys"
    then obtain us where "cs = xs @ us \<and> us @ ds = c # ys \<or> xs = cs @ us \<and> ds = us @ c # ys"
      by (auto simp: append_eq_append_conv2)
    then consider zs where "cs = xs @ c # zs" | zs where "xs = cs @ zs" "ds = zs @ c # ys"
      by (cases us) auto
    then show "Q (b @ xs) c" using a by cases (auto simp: calls_ok_def)
  qed
qed

lemma calls_ok_mono: "calls_ok Q b cs \<Longrightarrow> (\<And>h c. c \<in> set cs \<Longrightarrow> Q h c \<Longrightarrow> P h c) \<Longrightarrow> calls_ok P b cs"
  unfolding calls_ok_def by (metis in_set_conv_decomp)

interpretation kept: step_relation "kept f" for f
  by unfold_locales (simp_all add: kept_def)

interpretation does: step_relation "does Q" for Q
proof
  show "does Q s s" for s :: sys by (simp add: does_def)
  show "does Q s u" if "does Q s t" "does Q t u" for s t u :: sys
    using that unfolding does_def by (metis append.assoc calls_ok_append)
qed

lemma does_mono: "does P s t \<Longrightarrow> (\<And>h c. P h c \<Longrightarrow> Q h c) \<Longrightarrow> does Q s t"
  unfolding does_def calls_ok_def by blast

lemma steps_mono: "steps (does P) m \<Longrightarrow> (\<And>h c. P h c \<Longrightarrow> Q h c) \<Longrightarrow> steps (does Q) m"
  unfolding steps_def by (metis does_mono)

lemma kept_ask [intro]: "steps (kept f) (ask g c)"
  by (simp add: steps_def kept_def ask_def)

lemma kept_change [intro]: "(\<And>d. f (g d) = f d) \<Longrightarrow> steps (kept f) (change g)"
  by (simp add: steps_def kept_def)

lemma kept_call_db [intro]: "(\<And>d. f (snd (g d)) = f d) \<Longrightarrow> steps (kept f) (call_db g)"
  by (simp add: steps_def kept_def call_db_def split: prod.split) (metis snd_conv)

lemma kept_try_db [intro]: "(\<And>d. f (snd (g d)) = f d) \<Longrightarrow> steps (kept f) (try_db g)"
  by (simp add: steps_def kept_def try_db_def split: prod.split) (metis snd_conv)

lemma does_ask [intro]: "(\<And>h. Q h c) \<Longrightarrow> steps (does Q) (ask g c)"
  by (auto simp: steps_def does_def ask_def)

lemma does_ask_at: "Q (trace s) c \<Longrightarrow> does Q s (snd (ask g c s))"
  by (auto simp: does_def ask_def)

lemma does_db [intro]:
  "steps (does Q) (change g)" "steps (does Q) (call_db k)" "steps (does Q) (try_db l)" "steps (does Q) (memorize m v)"
  by (auto simp: steps_def does_def call_db_def try_db_def memorize_def split: prod.split)

lemma kept_memorize [intro]: "steps (kept f) (memorize k v)"
  by (simp add: steps_def kept_def memorize_def)

section \<open>Services\<close>

definition service_call :: "call \<Rightarrow> bool" where
  "service_call c \<longleftrightarrow>
     (case c of
        Adapter n op \<Rightarrow> False
      | LockFile p \<Rightarrow> False
      | UnlockFile p \<Rightarrow> False
      | Run cmd envs \<Rightarrow> take 2 cmd \<noteq> [''restic'', ''forget'']
      | _ \<Rightarrow> True)"

definition service :: "sys \<Rightarrow> sys \<Rightarrow> bool" where
  "service s t \<longleftrightarrow> (\<exists>n. database t = (database s)\<lparr>reads := n\<rparr> \<and> reads (database s) \<le> n) \<and>
     (\<exists>cs. trace t = trace s @ cs \<and> list_all service_call cs)"

interpretation service: step_relation service
proof
  show "service s s" for s
    by (auto simp: service_def intro!: exI [of _ "reads (database s)"])
  show "service s u" if "service s t" "service t u" for s t u
  proof -
    from that obtain n m cs ds where "database t = (database s)\<lparr>reads := n\<rparr>" "reads (database s) \<le> n"
      "database u = (database t)\<lparr>reads := m\<rparr>" "reads (database t) \<le> m"
      "trace t = trace s @ cs" "trace u = trace t @ ds" "list_all service_call cs" "list_all service_call ds"
      unfolding service_def by blast
    then show ?thesis by (auto simp: service_def intro!: exI [of _ m] exI [of _ "cs @ ds"])
  qed
qed

lemma service_ask: "service_call c \<Longrightarrow> steps service (ask f c)"
  by (auto simp: steps_def service_def ask_def intro!: exI [of _ "reads (database s)" for s])

lemma service_now: "steps service (call_db now_utc)"
  by (auto simp: steps_def service_def call_db_def now_utc_def intro!: exI [of _ "Suc (reads (database s))" for s])

lemma service_utcnow: "steps service (call_db utcnow)"
  by (auto simp: steps_def service_def call_db_def utcnow_eq intro!: exI [of _ "Suc (reads (database s))" for s])

lemma service_memorize: "steps service (memorize k v)"
  by (auto simp: steps_def service_def memorize_def intro!: exI [of _ "reads (database s)" for s])

lemma service_lift: "steps service (lift_res r)"
  by (simp add: steps_def lift_res_def service.R_refl)

lemma service_run: "take 2 cmd \<noteq> [''restic'', ''forget''] \<Longrightarrow> steps service (run_command E cmd envs chk)"
  unfolding run_command_def
  by (intro service.steps_bind service_ask service.steps_prod service.steps_if service.steps_throw service.steps_ret)
    (simp_all add: service_call_def)

lemmas service_rules =
  service.steps_bind service.steps_then service.steps_catch service.steps_finally service.steps_check service.steps_when
  service.steps_each service.steps_query service.steps_need service.steps_ignore service.steps_if service.steps_option
  service.steps_let service.steps_prod service.steps_sum service.steps_ret service.steps_throw
  service_ask service_now service_utcnow service_lift service_run service_memorize service.steps_recall

lemma first_argument [simp]:
  "take (Suc 0) (restic_options r) @ take (Suc 0 - length (restic_options r)) (c # x) =
     [if rp_backend r \<noteq> ''s3'' then c else ''-o'']"
  by (simp add: restic_options_def)

lemma service_mount: "steps service (mount_info E path)"
  unfolding mount_info_def by (intro service_rules) (simp_all add: service_call_def)

lemma service_s3_client: "steps service (s3_client E r)"
  unfolding s3_client_def by (intro service_rules) (simp_all add: service_call_def)

lemma service_s3_preflight: "steps service (s3_preflight E r)"
  unfolding s3_preflight_def by (intro service_rules service_s3_client) (simp_all add: service_call_def)

lemma service_lock_object: "steps service (lock_object E r u k)"
  unfolding lock_object_def by (intro service_rules) (simp_all add: service_call_def)

lemma service_apply_lock: "steps service (apply_object_lock E r d)"
  unfolding apply_object_lock_def
  by (intro service_rules service_s3_client service_s3_preflight service_lock_object) (simp_all add: service_call_def)

lemma service_r2_api: "steps service (r2_api E r m p)"
  unfolding r2_api_def
  by (intro service_rules)
    (auto simp: service_call_def service.steps_throw service.steps_ret split: json.split option.split)

lemma service_ensure_r2: "steps service (ensure_r2_bucket_lock E r d)"
  unfolding ensure_r2_bucket_lock_def by (intro service_rules service_r2_api)

lemma service_r2_status: "steps service (r2_bucket_lock_status E r)"
  unfolding r2_bucket_lock_status_def by (intro service_rules service_r2_api)

lemma service_fs_health: "steps service (filesystem_health E r)"
  unfolding filesystem_health_def by (intro service_rules service_mount) (simp_all add: service_call_def)

lemma service_probe: "steps service (restic_probe E r envs)"
  unfolding restic_probe_def by (intro service_rules) (simp_all add: service_call_def)

lemma service_lock_health: "steps service (provider_lock_health E r)"
  unfolding provider_lock_health_def by (intro service_rules service_r2_status service_s3_preflight)

lemma service_health: "steps service (target_health_of E r)"
  unfolding target_health_of_def by (intro service_rules service_fs_health service_probe service_lock_health)

lemma service_init_target: "steps service (init_target E r)"
  unfolding init_target_def
  by (intro service_rules service_ensure_r2 service_s3_preflight) (simp_all add: service_call_def)

lemma service_restic_run: "take 1 args \<noteq> [''forget''] \<Longrightarrow> steps service (restic_run E cfg local args chk)"
  unfolding restic_run_def by (intro service_rules) simp

lemma service_repo_backup: "steps service (repo_backup E cfg path tags)"
  unfolding repo_backup_def by (intro service_rules service_restic_run) simp

lemma service_repo_restore: "steps service (repo_restore E cfg sid target r)"
  unfolding repo_restore_def by (intro service_rules service_restic_run) (simp_all add: service_call_def)

lemma service_provider_lock: "steps service (provider_lock E r d)"
  unfolding provider_lock_def by (intro service_rules service_ensure_r2 service_apply_lock)

lemma service_copy: "steps service (copy_snapshot E cfg sid r d)"
  unfolding copy_snapshot_def by (intro service_rules service_s3_preflight service_provider_lock) simp_all

lemma service_replica_health: "steps service (replica_health E r)"
  unfolding replica_health_def by (intro service_rules service_health)

lemma service_init_if_needed: "steps service (init_if_needed E cfg local)"
  unfolding init_if_needed_def by (intro service_rules service_restic_run) (simp_all add: service_call_def)

lemma service_check: "steps service (repo_check E cfg)"
  unfolding repo_check_def by (intro service_rules service_restic_run) simp

lemma service_snapshots: "steps service (repo_snapshots E cfg)"
  unfolding repo_snapshots_def by (intro service_rules service_restic_run) simp

text \<open>What a service leaves alone, whatever the reader of the database.\<close>

lemma service_kept:
  "steps service m \<Longrightarrow> (\<And>d n. f (d\<lparr>reads := n\<rparr>) = f d) \<Longrightarrow> steps (kept f) m"
  unfolding steps_def service_def kept_def by metis

lemma service_logged: "steps service m \<Longrightarrow> steps logged m"
  unfolding steps_def
proof
  fix s assume "\<forall>s. service s (snd (m s))"
  then obtain n where "database (snd (m s)) = (database s)\<lparr>reads := n\<rparr>" unfolding service_def by blast
  then show "logged s (snd (m s))" by (simp add: logged_def log_step_refl)
qed

lemma service_does:
  "steps service m \<Longrightarrow> (\<And>h c. service_call c \<Longrightarrow> Q h c) \<Longrightarrow> steps (does Q) m"
proof -
  assume *: "steps service m" "\<And>h c. service_call c \<Longrightarrow> Q h c"
  have "calls_ok Q b cs" if "list_all service_call cs" for b cs
    using that *(2) by (auto simp: calls_ok_def)
  then show ?thesis using *(1) unfolding steps_def service_def does_def by blast
qed

section \<open>Runs that return\<close>

lemma then_Inr: "then_act m n s = (Inr y, t) \<longleftrightarrow> (\<exists>x u. m s = (Inr x, u) \<and> n u = (Inr y, t))"
  by (simp add: then_act_def bind_Inr)

lemma check_Inr: "check b e s = (Inr u, t) \<longleftrightarrow> b \<and> t = s"
  by (auto simp: check_def)

lemma lift_Inr: "lift_res r s = (Inr x, t) \<longleftrightarrow> r = Inr x \<and> t = s"
  by (auto simp: lift_res_def)

lemma need_Inr: "need x e s = (Inr y, t) \<longleftrightarrow> x = Some y \<and> t = s"
  by (auto simp: need_def split: option.split)

lemma ret_Inr: "ret x s = (Inr y, t) \<longleftrightarrow> y = x \<and> t = s"
  by auto

lemma finally_Inr: "finally_act m n s = (Inr x, t) \<Longrightarrow> \<exists>u. m s = (Inr x, u)"
  by (auto simp: finally_act_def split: prod.splits sum.splits)

lemmas run_Inr = bind_Inr then_Inr check_Inr lift_Inr need_Inr ret_Inr

text \<open>The results of a loop satisfy what each of its steps guarantees at the states the loop passes.\<close>

context step_relation
begin

lemma each_results:
  assumes "each f xs s = (Inr ys, t)" "\<And>x. steps R (f x)" "\<And>x u y v. R s u \<Longrightarrow> f x u = (Inr y, v) \<Longrightarrow> P x y"
  shows "list_all2 P xs ys"
  using assms(1,3)
proof (induction xs arbitrary: ys s)
  case (Cons x xs)
  from Cons.prems(1) obtain y u zs where *: "f x s = (Inr y, u)" "each f xs u = (Inr zs, t)" "ys = y # zs"
    by (auto simp: bind_Inr)
  have "R s u" using stepsD [OF assms(2) *(1)] .
  then have "list_all2 P xs zs" by (intro Cons.IH [OF *(2)] Cons.prems(2)) (auto intro: R_trans)
  moreover have "P x y" by (rule Cons.prems(2) [OF R_refl *(1)])
  ultimately show ?case by (simp add: *(3))
qed simp

end

end
