(* ===== verification/Engine_Safety.thy ===== *)
theory Engine_Safety
  imports Engine Effects
begin

text \<open>
  Safety of the engine's operations: the audit chain survives every one of them, retention never asks
  restic to forget a protected snapshot, a machine is imported only from a verified copy of an approved
  request, and the journal of jobs is always closed.
\<close>

section \<open>The audit log\<close>

lemma logged_db:
  "steps logged (change (audit a b c d e))"
  "steps logged (change (finish_job i st jsid err))"
  "steps logged (change (upsert_recovery_point p))"
  "steps logged (change (upsert_recovery_copy sid tg bk url pv st im lk err v))"
  "steps logged (change (mark_points_expired ids))"
  "steps logged (change (finish_restore k x r err))"
  "steps logged (change (finish_dr_run k x ds err))"
  "steps logged (call_db (start_job pl vi vn))"
  "steps logged (call_db (create_restore_request rq p tp tn os st))"
  "steps logged (call_db (create_dr_run di ss ts ds))"
  "steps logged (call_db (add_dr_workload k wn sp tp st si wtn res er))"
  "steps logged (call_db (update_dr_health hn h dt))"
  "steps logged (try_db (mark_verified sid v ds))"
  "steps logged (try_db (extend_immutability sid t ac re))"
  "steps logged (try_db (approve_restore k ap fe))"
  "steps logged (try_db (start_restore k ac))"
proof -
  have created: "log_step d (snd (create_restore_request rq p tp tn os st d))" for d
    using create_request_get(4) by (metis prod.collapse)
  have approved: "log_step d (snd (approve_restore k ap fe d))" for d using approve_effect(1) by (metis prod.collapse)
  have started: "log_step d (snd (start_restore k ac d))" for d using start_effect(1) by (metis prod.collapse)
  have held: "log_step d (snd (extend_immutability sid t ac re d))" for d
    by (auto simp: extend_immutability_def Let_def log_step_refl intro!: log_step_audit_same split: option.split)
  have job: "log_step d (snd (start_job pl vi vn d))" for d
    by (simp add: start_job_def utcnow_eq insert_row_def Let_def log_step_refl)
  show "steps logged (change (audit a b c d e))" by (rule logged_change) (rule log_step_audit)
  show "steps logged (change (finish_job i st jsid err))"
    "steps logged (change (upsert_recovery_point p))"
    "steps logged (change (upsert_recovery_copy sid tg bk url pv st im lk err v))"
    "steps logged (change (mark_points_expired ids))"
    "steps logged (change (finish_restore k x r err))"
    "steps logged (change (finish_dr_run k x ds err))"
    by (rule logged_change, simp add: log_step_refl frame_simps)+
  show "steps logged (call_db (create_dr_run di ss ts ds))"
    "steps logged (call_db (add_dr_workload k wn sp tp st si wtn res er))"
    "steps logged (call_db (update_dr_health hn h dt))"
    by (rule logged_call_db, simp add: log_step_refl frame_simps)+
  show "steps logged (try_db (mark_verified sid v ds))"
    by (rule logged_try_db) (simp add: log_step_refl frame_simps)
  show "steps logged (call_db (start_job pl vi vn))" using job by (rule logged_call_db)
  show "steps logged (call_db (create_restore_request rq p tp tn os st))" using created by (rule logged_call_db)
  show "steps logged (try_db (extend_immutability sid t ac re))" using held by (rule logged_try_db)
  show "steps logged (try_db (approve_restore k ap fe))" using approved by (rule logged_try_db)
  show "steps logged (try_db (start_restore k ac))" using started by (rule logged_try_db)
qed

lemmas logged_rules =
  logged.steps_bind logged.steps_then logged.steps_catch logged.steps_finally logged.steps_check logged.steps_when
  logged.steps_each logged.steps_query logged.steps_need logged.steps_ignore logged.steps_if logged.steps_option
  logged.steps_let logged.steps_prod logged.steps_sum logged.steps_ret logged.steps_throw
  logged_ask logged_db

lemma logged_now: "steps logged (call_db now_utc)" "steps logged (call_db utcnow)" "steps logged (lift_res r)"
  by (rule service_logged, rule service_now service_utcnow service_lift)+

lemma logged_services:
  "steps logged (copy_snapshot E rc sid r d)" "steps logged (repo_restore E rc sid t ro)"
  "steps logged (repo_backup E rc path tags)" "steps logged (provider_lock E r d)"
  "steps logged (target_health_of E r)" "steps logged (replica_health E r)" "steps logged (init_target E r)"
  "steps logged (s3_preflight E r)" "steps logged (ensure_r2_bucket_lock E r d)" "steps logged (r2_bucket_lock_status E r)"
  by (rule service_logged, rule service_copy service_repo_restore service_repo_backup service_provider_lock
      service_health service_replica_health service_init_target service_s3_preflight service_ensure_r2 service_r2_status)+

lemma logged_run: "steps logged (run_command E cmd envs chk)"
  unfolding run_command_def by (intro logged_rules)

lemma logged_restic_run: "steps logged (restic_run E rc l args chk)"
  unfolding restic_run_def by (intro logged_rules logged_now logged_run)

lemma logged_restic_retention: "steps logged (restic_retention E rc ids)"
  unfolding restic_retention_def by (intro logged_rules logged_now logged_restic_run)

lemma logged_capacity: "steps logged (ensure_path_capacity E cfg p a)"
  unfolding ensure_path_capacity_def by (intro logged_rules)

lemma logged_rmtree: "steps logged (rmtree E p)"
  unfolding rmtree_def by (intro logged_rules)

lemma logged_tree: "steps logged (check_tree E p dg)"
  unfolding check_tree_def read_tree_def by (intro logged_rules logged_now)

lemma logged_adapter:
  "steps logged (build_adapter pl)" "steps logged (adapter_doctor E pl)" "steps logged (adapter_inventory E pl)"
  "steps logged (platform_info_or_error E pl)" "steps logged (engine_replica cfg n)" "steps logged (engine_platform cfg n)"
  unfolding build_adapter_def adapter_doctor_def adapter_inventory_def platform_info_or_error_def
    engine_replica_def engine_platform_def
  by (intro logged_rules)+

lemmas logged_parts = logged_now logged_services logged_run logged_restic_run logged_restic_retention logged_capacity
  logged_rmtree logged_tree logged_adapter

lemma logged_verify: "steps logged (verify_recovery_point E cfg sid actor)"
  unfolding verify_recovery_point_def by (intro logged_rules logged_parts)

lemma logged_replicate: "steps logged (replicate_to E cfg sid d u r)"
  unfolding replicate_to_def by (intro logged_rules logged_parts)

lemma logged_backup_vm: "steps logged (backup_vm E cfg pl v info dry)"
  unfolding backup_vm_def backup_failed_def backup_body_def export_and_back_up_def exported_consistency_def write_manifest_def
    read_tree_def record_backup_def
  by (intro logged_rules logged_parts logged_verify logged_replicate)

lemma logged_backup_all: "steps logged (backup_all E cfg dry)"
  unfolding backup_all_def exclusive_lock_def ensure_staging_capacity_def backup_platform_def
  by (intro logged_rules logged_parts logged_backup_vm)

lemma logged_retention: "steps logged (retention E cfg)"
  unfolding retention_def by (intro logged_rules logged_parts)

lemma logged_hold: "steps logged (hold_recovery_point E cfg sid actor days reason)"
  unfolding hold_recovery_point_def hold_on_replica_def by (intro logged_rules logged_parts)

lemma logged_request: "steps logged (request_restore cfg sid rq tp tn os)"
  unfolding request_restore_def by (intro logged_rules logged_parts)

lemma logged_execute: "steps logged (execute_restore E cfg i actor dry)"
  unfolding execute_restore_def restore_source_def restore_preflight_def import_vm_def stage_snapshot_def
  by (intro logged_rules logged_parts)

lemma logged_init_replica: "steps logged (init_replica E cfg n)"
  unfolding init_replica_def by (intro logged_rules logged_parts)

lemma logged_init_lock: "steps logged (init_replica_lock E cfg n)"
  unfolding init_replica_lock_def by (intro logged_rules logged_parts)

section \<open>Retention\<close>

text \<open>A \<open>forget\<close> that is not a dry run names no protected snapshot.\<close>

definition spares :: "string list \<Rightarrow> call list \<Rightarrow> call \<Rightarrow> bool" where
  "spares protected h c \<longleftrightarrow>
     (\<forall>ids envs. c = Run (''restic'' # ''forget'' # ids) envs \<longrightarrow>
        take 1 ids = [''--dry-run''] \<or> (\<forall>sid\<in>set ids. \<not> List.member protected sid))"

lemma spares_forget:
  "spares P h (Run (''restic'' # ''forget'' # ids) envs) \<Longrightarrow> take 1 ids \<noteq> [''--dry-run''] \<Longrightarrow> sid \<in> set ids \<Longrightarrow>
     \<not> List.member P sid"
  by (simp add: spares_def)

lemma set_to_remove: "set (to_remove protected ids) = {sid \<in> set ids. sid \<noteq> [] \<and> \<not> List.member protected sid}"
  by (auto simp: to_remove_def)

lemma does_lift: "steps (does Q) (lift_res r)"
  by (simp add: steps_def lift_res_def does.R_refl)

lemmas does_rules =
  does.steps_bind does.steps_then does.steps_catch does.steps_finally does.steps_check does.steps_when
  does.steps_each does.steps_query does.steps_need does.steps_ignore does.steps_if does.steps_option
  does.steps_let does.steps_prod does.steps_sum does.steps_ret does.steps_throw does_db does_lift

lemma does_restic_run: "(\<And>h envs. Q h (Run (''restic'' # args) envs)) \<Longrightarrow> steps (does Q) (restic_run E rc l args chk)"
  unfolding restic_run_def run_command_def by (intro does_rules does_ask)

lemma spares_retention: "steps (does (spares protected)) (restic_retention E rc protected)"
  unfolding restic_retention_def
  by (intro does_rules does_restic_run) (auto simp: spares_def set_to_remove)

lemma restic_retention_result:
  assumes "restic_retention E rc protected s = (Inr removed, t)"
  shows "distinct removed \<and> sorted removed \<and> (\<forall>sid\<in>set removed. \<not> List.member protected sid) \<and>
    (removed = [] \<or> (\<exists>envs. Run (''restic'' # ''forget'' # removed) envs \<in> set (trace t)))"
proof -
  from assms obtain ids u where *: "removed = to_remove protected ids"
    "then_act (when_act (removed \<noteq> [])
       (bind_act (restic_run E rc True (''forget'' # removed) True) (\<lambda>_.
          bind_act (restic_run E rc True [''prune''] True) (\<lambda>_. ret ())))) (ret removed) u = (Inr removed, t)"
    by (auto simp: restic_retention_def bind_Inr Let_def then_act_def when_act_def)
  have "\<exists>envs. Run (''restic'' # ''forget'' # removed) envs \<in> set (trace t)" if "removed \<noteq> []"
  proof -
    from *(2) that obtain x v y where f: "restic_run E rc True (''forget'' # removed) True u = (Inr x, v)"
      "restic_run E rc True [''prune''] True v = (y, t)"
      by (auto simp: then_act_def when_act_def bind_Inr)
    from f(1) have "\<exists>envs. Run (''restic'' # ''forget'' # removed) envs \<in> set (trace v)"
      by (auto simp: restic_run_def run_command_def bind_Inr ask_def lift_res_def split: if_splits)
    moreover have "traced v t"
      using f(2) stepsD [of traced "restic_run E rc True [''prune''] True" v y t]
      unfolding restic_run_def run_command_def lift_res_def
      by (auto simp: traced_def bind_act_def ask_def split: prod.splits sum.splits if_splits)
    ultimately show ?thesis by (auto simp: traced_def)
  qed
  then show ?thesis by (auto simp: *(1) set_to_remove) (simp_all add: to_remove_def)
qed

lemma kept_retention:
  "(\<And>d n. f (d\<lparr>reads := n\<rparr>) = f d) \<Longrightarrow> steps (kept f) (restic_retention E rc ids)"
  unfolding restic_retention_def restic_run_def run_command_def
  by (intro kept.steps_bind kept.steps_if kept.steps_let kept.steps_prod kept.steps_throw kept.steps_ret
      kept.steps_when kept.steps_then kept_ask service_kept service_lift) simp_all

lemma protected_live:
  "p \<in> set (live_points d) \<Longrightarrow> now < p_immutable_until p \<Longrightarrow> p_snapshot_id p \<in> set (protected_snapshot_ids now d)"
  by (auto simp: protected_snapshot_ids_def)

lemma get_point_in_live: "get_point sid d = Some p \<Longrightarrow> p \<in> set (live_points d) \<and> p_snapshot_id p = sid"
  by (auto simp: get_point_def dest: row_by_Some)

text \<open>
  C2. Retention never loses a protected recovery point. Whatever restic answers, a real \<open>forget\<close> never
  names a snapshot of a live point whose horizon lies in the future, and every such point is still found
  unchanged afterwards; on success exactly the reported snapshots were forgotten and expired. If it raises,
  the catalog is unchanged, even when restic had already forgotten snapshots.
\<close>

theorem retention_spares_protected:
  assumes "catalog_ok (database s)" "retention E cfg s = (r, t)" "isoformat (clock (database s) (reads (database s))) = now"
  shows "(\<exists>cs. trace t = trace s @ cs \<and>
      (\<forall>ids envs p. Run (''restic'' # ''forget'' # ids) envs \<in> set cs \<longrightarrow> take 1 ids \<noteq> [''--dry-run''] \<longrightarrow>
         p \<in> set (live_points (database s)) \<longrightarrow> now < p_immutable_until p \<longrightarrow> p_snapshot_id p \<notin> set ids)) \<and>
    (\<forall>p. get_point sid (database s) = Some p \<longrightarrow> now < p_immutable_until p \<longrightarrow> get_point sid (database t) = Some p) \<and>
    (case r of
        Inl e \<Rightarrow> recovery_points (database t) = recovery_points (database s)
      | Inr removed \<Rightarrow>
          get_point sid (database t) = (if List.member removed sid then None else get_point sid (database s)) \<and>
          (removed = [] \<or> (\<exists>envs. Run (''restic'' # ''forget'' # removed) envs \<in> set (trace t))))"
proof -
  let ?s = "s\<lparr>database := (database s)\<lparr>reads := Suc (reads (database s))\<rparr>\<rparr>"
  let ?prot = "protected_snapshot_ids now (database ?s)"
  have prot: "?prot = protected_snapshot_ids now (database s)"
    by (simp add: protected_snapshot_ids_def live_points_def)
  obtain q u where run: "restic_retention E (repository cfg) ?prot ?s = (q, u)" by force
  have "does (spares ?prot) ?s u" using spares_retention run by (rule stepsD)
  then obtain cs where cs: "trace u = trace s @ cs" "calls_ok (spares ?prot) (trace s) cs" by (auto simp: does_def)
  have keep: "recovery_points (database u) = recovery_points (database s)"
    "recovery_copies (database u) = recovery_copies (database s)"
    using stepsD [OF kept_retention [of recovery_points] run] stepsD [OF kept_retention [of recovery_copies] run]
    by (simp_all add: kept_def)
  have res: "(r, t) = (case q of Inl e \<Rightarrow> (Inl e, u)
      | Inr removed \<Rightarrow> (Inr removed, u\<lparr>database := audit ''root-maintenance'' ''retention.complete'' ''repository'' ''primary''
          (JObj [(''removed'', JList (map JStr removed)), (''protected_count'', JInt (int (length (remdups ?prot))))])
          (mark_points_expired removed (database u))\<rparr>))"
    using assms(2,3) run
    by (cases q) (auto simp add: retention_def bind_act_def [of "call_db utcnow"] call_db_def utcnow_eq
        bind_act_def [of "restic_retention _ _ _"])
  have ok: "catalog_ok (database u)" using assms(1) keep by (simp add: catalog_ok_def)
  have cat: "case r of Inl e \<Rightarrow> recovery_points (database t) = recovery_points (database s)
      | Inr removed \<Rightarrow> get_point k (database t) = (if List.member removed k then None else get_point k (database s)) \<and>
          (removed = [] \<or> (\<exists>envs. Run (''restic'' # ''forget'' # removed) envs \<in> set (trace t)))" for k
    using res keep get_point_expire [OF ok] restic_retention_result [of E "repository cfg" ?prot ?s]
      get_point_same [OF keep(1)] run
    by (cases q) (simp_all add: get_point_same [OF audit_frame(2)])
  have "\<exists>cs. trace t = trace s @ cs \<and>
      (\<forall>ids envs p. Run (''restic'' # ''forget'' # ids) envs \<in> set cs \<longrightarrow> take 1 ids \<noteq> [''--dry-run''] \<longrightarrow>
         p \<in> set (live_points (database s)) \<longrightarrow> now < p_immutable_until p \<longrightarrow> p_snapshot_id p \<notin> set ids)"
  proof (intro exI conjI allI impI)
    show "trace t = trace s @ cs" using res cs(1) by (cases q) simp_all
    fix ids envs p
    assume c: "Run (''restic'' # ''forget'' # ids) envs \<in> set cs" "take 1 ids \<noteq> [''--dry-run'']"
      and p: "p \<in> set (live_points (database s))" "now < p_immutable_until p"
    from c(1) obtain xs ys where "cs = xs @ Run (''restic'' # ''forget'' # ids) envs # ys" by (meson split_list)
    then have "spares ?prot (trace s @ xs) (Run (''restic'' # ''forget'' # ids) envs)"
      using cs(2) unfolding calls_ok_def by blast
    note spared = spares_forget [OF this c(2)]
    have "List.member ?prot (p_snapshot_id p)" using protected_live [OF p] unfolding prot by simp
    then show "p_snapshot_id p \<notin> set ids" using spared by metis
  qed
  moreover have "get_point sid (database t) = Some p"
    if "get_point sid (database s) = Some p" "now < p_immutable_until p" for p
  proof (cases r)
    case (Inl e)
    then show ?thesis using cat [of sid] that(1) get_point_same [of "database t" "database s" sid] by simp
  next
    case (Inr removed)
    then have q: "q = Inr removed" using res by (auto split: sum.splits)
    have "\<not> List.member removed sid"
      using restic_retention_result [of E "repository cfg" ?prot ?s removed u] run q
        protected_live [of p "database s" now] get_point_in_live [OF that(1)] that(2) prot by auto
    then show ?thesis using cat [of sid] that(1) Inr by simp
  qed
  ultimately show ?thesis using cat [of sid] by blast
qed

definition sample_config :: config where
  "sample_config = default_config (default_repository ''rest:http://vault'' ''/srv/vault'' ''/srv/stage'')
     [default_platform ''vsphere'' ''vmware'' ''https://vc'', default_platform ''pve'' ''proxmox'' ''https://pve'']"

text \<open>Two points: the horizon of \<open>s1\<close> is over, that of \<open>s2\<close> is not; restic would remove both.\<close>

definition retention_sys :: sys where
  "retention_sys = \<lparr>database = (create_schema (\<lambda>n. day_us))\<lparr>recovery_points :=
     [sample_point ''s1'' ''vm-1'' 0 0, sample_point ''s2'' ''vm-1'' 0 (2 * day_us)]\<rparr>, trace = [], memory = []\<rparr>"

definition retention_env :: env where
  "retention_env = sample_env\<lparr>run_reply := (\<lambda>h c. Inr (0,
     dumps (JList [JObj [(''remove'', JList [JObj [(''id'', JStr ''s1'')], JObj [(''id'', JStr ''s2'')]])]]), []))\<rparr>"

theorem retention_spares_protected_witness:
  "get_point ''s2'' (database (snd (retention retention_env sample_config retention_sys))) =
     Some (sample_point ''s2'' ''vm-1'' 0 (2 * day_us))"
proof -
  let ?p = "sample_point ''s2'' ''vm-1'' 0 (2 * day_us)"
  have ok: "catalog_ok (database retention_sys)"
    by (simp add: catalog_ok_def retention_sys_def create_schema_def sample_point_def)
  have found: "get_point ''s2'' (database retention_sys) = Some ?p"
    by (simp add: retention_sys_def create_schema_def sample_point_def get_point_def live_points_def)
  have later: "isoformat (clock (database retention_sys) (reads (database retention_sys))) < p_immutable_until ?p"
    by (simp add: retention_sys_def create_schema_def sample_point_def isoformat_less_iff in_calendar_def day_us_def)
  show ?thesis
    using retention_spares_protected [OF ok surjective_pairing refl, of retention_env sample_config "''s2''"] found later
    by blast
qed

section \<open>Restores\<close>

text \<open>What staging a snapshot has established when it returns.\<close>

lemma stage_verified:
  assumes "stage_snapshot E cfg failure i p replica s = (Inr src, t)"
  shows "src = restored_path (restore_root cfg i) p \<and>
    (\<exists>ws d es. trace t = ws @ [ReadTree src] \<and> tree_reply E ws (ReadTree src) = Inr d \<and>
       verify_manifest d (p_manifest_sha256 p) = Inr (True, es))"
  using assms
  by (auto simp: stage_snapshot_def Let_def then_act_def bind_Inr check_def check_tree_def read_tree_def lift_res_def
      ask_def split: if_splits)

text \<open>An import is the next call after reading a tree that verifies against the recorded digest.\<close>

definition import_ok ::
  "env \<Rightarrow> string \<Rightarrow> string \<Rightarrow> string \<Rightarrow> (string \<times> json) list \<Rightarrow> string option \<Rightarrow> call list \<Rightarrow> call \<Rightarrow> bool" where
  "import_ok E src name target_name options digest h c \<longleftrightarrow>
     (\<forall>n x tn os. c = Adapter n (RestoreVm x tn os) \<longrightarrow>
        n = name \<and> x = src \<and> tn = target_name \<and> os = options \<and>
        (\<exists>ws d es. h = ws @ [ReadTree src] \<and> tree_reply E ws (ReadTree src) = Inr d \<and>
           verify_manifest d digest = Inr (True, es)))"

lemma import_ok_service: "service_call c \<Longrightarrow> import_ok E src name tn os digest h c"
  by (auto simp: import_ok_def service_call_def)

lemma does_service: "steps service m \<Longrightarrow> steps (does (import_ok E src name tn os digest)) m"
  by (erule service_does) (rule import_ok_service)

lemma service_rmtree: "steps service (rmtree E path)"
  unfolding rmtree_def by (intro service_rules) (simp add: service_call_def)

lemma service_capacity: "steps service (ensure_path_capacity E cfg path a)"
  unfolding ensure_path_capacity_def by (intro service_rules) (simp_all add: service_call_def)

lemma service_tree: "steps service (check_tree E path dg)"
  unfolding check_tree_def read_tree_def by (intro service_rules) (simp_all add: service_call_def)

lemma service_stage: "steps service (stage_snapshot E cfg failure i p replica)"
  unfolding stage_snapshot_def
  by (intro service_rules service_rmtree service_repo_restore service_tree) (simp_all add: service_call_def)

lemma import_calls:
  "steps (does (import_ok E (restored_path (restore_root cfg i) p) (pl_name target) (q_target_name req) options
      (p_manifest_sha256 p))) (import_vm E cfg i actor target p req options src replica)"
    (is "steps (does ?Q) _")
  unfolding import_vm_def
proof (rule does.steps_catch)
  show "steps (does ?Q) (then_act (change (finish_restore i False (JObj []) (Some (exc_msg e))))
     (then_act (change (audit actor ''restore.failed'' ''restore_request'' (show_nat i) (JObj [(''error'', JStr (exc_msg e))])))
       (then_act (when_act (\<not> keep_staging_on_failure (runtime cfg)) (rmtree E (restore_root cfg i))) (throw e))))" for e
    by (intro does_rules does_service service_rmtree)
next
  show "steps (does ?Q) (bind_act (stage_snapshot E cfg ''recovery point manifest verification failed: '' i p replica)
     (\<lambda>restored_source.
       bind_act (ask (json_reply E) (Adapter (pl_name target) (RestoreVm restored_source (q_target_name req) options)))
         (\<lambda>answer. let result = with_source src answer
           in then_act (change (finish_restore i True (json_or_empty result) None))
             (then_act (change (audit actor ''restore.complete'' ''restore_request'' (show_nat i) result))
               (then_act (rmtree E (restore_root cfg i)) (ret result))))))"
  proof (intro does.stepsI does.bind_at)
    show "does ?Q s (snd (stage_snapshot E cfg ''recovery point manifest verification failed: '' i p replica s))" for s
      by (rule does.steps_at, rule does_service, rule service_stage)
    fix s x t assume "stage_snapshot E cfg ''recovery point manifest verification failed: '' i p replica s = (Inr x, t)"
    note v = stage_verified [OF this]
    show "does ?Q t (snd (ask (json_reply E) (Adapter (pl_name target) (RestoreVm x (q_target_name req) options)) t))"
      using v by (intro does_ask_at) (auto simp: import_ok_def)
    show "does ?Q t' (snd ((let result = with_source src answer
           in then_act (change (finish_restore i True (json_or_empty result) None))
             (then_act (change (audit actor ''restore.complete'' ''restore_request'' (show_nat i) result))
               (then_act (rmtree E (restore_root cfg i)) (ret result)))) t'))" for answer t'
      by (rule does.steps_at) (intro does_rules does_service service_rmtree)
  qed
qed

lemma restore_source_service: "steps service (restore_source cfg sid src)"
  unfolding restore_source_def engine_replica_def by (intro service_rules)

lemma kept_preflight: "(\<And>d n. f (d\<lparr>reads := n\<rparr>) = f d) \<Longrightarrow> (\<And>a b c e g d. f (audit a b c e g d) = f d) \<Longrightarrow>
   steps (kept f) (restore_preflight E cfg i actor target)"
  unfolding restore_preflight_def adapter_doctor_def
  by (intro kept.steps_then kept.steps_bind kept.steps_when kept.steps_throw kept_ask kept_change
      service_kept service_capacity) simp_all

lemma preflight_calls: "steps (does (import_ok E src name tn os dg)) (restore_preflight E cfg i actor target)"
  unfolding restore_preflight_def adapter_doctor_def
  by (intro does_rules does_ask does_service service_capacity) (simp_all add: import_ok_def)

lemma start_from:
  assumes "try_db (start_restore i actor) u = (Inr q', v)" "get_restore_request i (database u) = Some q"
  shows "(q_status q = ''approved'' \<or> q_status q = ''ready'') \<and> q_target_name q' = q_target_name q"
proof -
  obtain d where "start_restore i actor (database u) = (Inr q', d)"
    using assms(1) by (auto simp: try_db_def split: prod.splits)
  from start_Inr [OF this] assms(2) show ?thesis by auto
qed

lemma execute_does:
  assumes "get_restore_request i (database s) = Some q" "get_point (q_snapshot_id q) (database s) = Some p"
    and src: "steps (does Q) (restore_source cfg (p_snapshot_id p) (source_of (q_options q)))"
    and pre: "\<And>target. steps (does Q) (restore_preflight E cfg i actor target)"
    and imp: "\<And>target q' replica. \<not> dry \<Longrightarrow> q_status q = ''approved'' \<or> q_status q = ''ready'' \<Longrightarrow>
      pl_name target = q_target_platform q \<Longrightarrow> q_target_name q' = q_target_name q \<Longrightarrow>
      steps (does Q) (import_vm E cfg i actor target p q' (q_options q) (source_of (q_options q)) replica)"
  shows "does Q s (snd (execute_restore E cfg i actor dry s))"
proof (cases "find (\<lambda>pl. pl_name pl = q_target_platform q) (platforms cfg)")
  case None
  then show ?thesis using assms(1,2) by (simp add: execute_restore_def engine_platform_def does.R_refl)
next
  case (Some target)
  then have name: "pl_name target = q_target_platform q" by (auto simp: find_Some_iff)
  let ?sr = "source_of (q_options q)"
  let ?go = "\<lambda>replica. bind_act (try_db (start_restore i actor)) (\<lambda>started.
              import_vm E cfg i actor target p started (q_options q) ?sr replica)"
  let ?rest = "\<lambda>replica. if dry then ret (restore_plan cfg i p target q ?sr)
         else then_act (restore_preflight E cfg i actor target) (?go replica)"
  let ?m = "bind_act (restore_source cfg (p_snapshot_id p) ?sr) ?rest"
  have go: "does Q u (snd (?go replica u))" if "get_restore_request i (database u) = Some q" "\<not> dry" for u replica
  proof (rule does.bind_at)
    show "does Q u (snd (try_db (start_restore i actor) u))" by (rule does.steps_at, rule does_db)
    fix q' v assume "try_db (start_restore i actor) u = (Inr q', v)"
    with start_from that(1) name imp that(2)
    show "does Q v (snd (import_vm E cfg i actor target p q' (q_options q) ?sr replica v))"
      by (intro does.steps_at) blast
  qed
  have rest: "does Q t (snd (?rest replica t))" if "get_restore_request i (database t) = Some q" for t replica
  proof (cases dry)
    case False
    have "does Q t (snd (then_act (restore_preflight E cfg i actor target) (?go replica) t))"
    proof (rule does.then_at)
      show "does Q t (snd (restore_preflight E cfg i actor target t))" by (rule does.steps_at, rule pre)
      fix x u assume "restore_preflight E cfg i actor target t = (Inr x, u)"
      from stepsD [OF kept_preflight this, of "get_restore_request i"] that
      have "get_restore_request i (database u) = Some q" by (simp add: kept_def)
      then show "does Q u (snd (?go replica u))" using False by (rule go)
    qed
    then show ?thesis using False by simp
  qed (simp add: does.R_refl)
  have "does Q s (snd (?m s))"
  proof (rule does.bind_at)
    show "does Q s (snd (restore_source cfg (p_snapshot_id p) ?sr s))" by (rule does.steps_at, rule src)
    fix replica t assume "restore_source cfg (p_snapshot_id p) ?sr s = (Inr replica, t)"
    from stepsD [OF service_kept [OF restore_source_service] this, of "get_restore_request i"] assms(1)
    have "get_restore_request i (database t) = Some q" by (simp add: kept_def)
    then show "does Q t (snd (?rest replica t))" by (rule rest)
  qed
  moreover have "snd (execute_restore E cfg i actor dry s) = s \<or> execute_restore E cfg i actor dry s = ?m s"
    using assms(1,2) Some by (simp add: execute_restore_def engine_platform_def build_adapter_def Let_def)
  ultimately show ?thesis using does.R_refl by auto
qed

definition only_doctor :: "call list \<Rightarrow> call \<Rightarrow> bool" where
  "only_doctor h c \<longleftrightarrow> (\<forall>n op. c = Adapter n op \<longrightarrow> op = Doctor)"

lemma only_doctor_service: "steps service m \<Longrightarrow> steps (does only_doctor) m"
  by (erule service_does) (auto simp: only_doctor_def service_call_def)

lemma preflight_only_doctor: "steps (does only_doctor) (restore_preflight E cfg i actor target)"
  unfolding restore_preflight_def adapter_doctor_def
  by (intro does_rules does_ask only_doctor_service [OF service_capacity]) (simp add: only_doctor_def)

lemma calls_ok_at: "calls_ok Q h (xs @ c # ys) \<Longrightarrow> Q (h @ xs) c"
  unfolding calls_ok_def by blast

lemma imports_verified:
  assumes "get_restore_request i (database s) = Some q" "get_point (q_snapshot_id q) (database s) = Some p"
    and "execute_restore E cfg i actor dry s = (r, t)"
  shows "\<exists>cs. trace t = trace s @ cs \<and>
    (\<forall>xs n src tn os ys. cs = xs @ Adapter n (RestoreVm src tn os) # ys \<longrightarrow>
       \<not> dry \<and> (q_status q = ''approved'' \<or> q_status q = ''ready'') \<and>
       n = q_target_platform q \<and> tn = q_target_name q \<and> os = q_options q \<and>
       (\<exists>ws d es. trace s @ xs = ws @ [ReadTree src] \<and> tree_reply E ws (ReadTree src) = Inr d \<and>
          verify_manifest d (p_manifest_sha256 p) = Inr (True, es)))"
proof -
  let ?Q = "import_ok E (restored_path (restore_root cfg i) p) (q_target_platform q) (q_target_name q) (q_options q)
      (p_manifest_sha256 p)"
  have imp: "steps (does ?Q) (import_vm E cfg i actor target p q' (q_options q) (source_of (q_options q)) replica)"
    if "pl_name target = q_target_platform q" "q_target_name q' = q_target_name q" for target q' replica
    using import_calls [of E cfg i p target q' "q_options q" actor "source_of (q_options q)" replica] that by simp
  have "does ?Q s t"
    using execute_does [OF assms(1,2) does_service [OF restore_source_service] preflight_calls imp] assms(3)
    by (metis snd_conv)
  then obtain cs where cs: "trace t = trace s @ cs" "calls_ok ?Q (trace s) cs" by (auto simp: does_def)
  have quiet: "calls_ok only_doctor (trace s) cs"
    if "dry \<or> q_status q \<noteq> ''approved'' \<and> q_status q \<noteq> ''ready''"
  proof -
    have "does only_doctor s t"
      using execute_does [OF assms(1,2) only_doctor_service [OF restore_source_service] preflight_only_doctor] assms(3) that
      by (metis snd_conv)
    then show ?thesis using cs(1) by (auto simp: does_def)
  qed
  show ?thesis
  proof (rule exI [of _ cs], intro conjI allI impI)
    show "trace t = trace s @ cs" by (rule cs)
    fix xs n src tn os ys assume eq: "cs = xs @ Adapter n (RestoreVm src tn os) # ys"
    have "\<not> dry \<and> (q_status q = ''approved'' \<or> q_status q = ''ready'')"
    proof (rule ccontr)
      assume "\<not> ?thesis"
      then have "calls_ok only_doctor (trace s) cs" by (intro quiet) blast
      then have "only_doctor (trace s @ xs) (Adapter n (RestoreVm src tn os))" unfolding eq by (rule calls_ok_at)
      then show False by (simp add: only_doctor_def)
    qed
    then show "\<not> dry" "q_status q = ''approved'' \<or> q_status q = ''ready''" by simp_all
    have "?Q (trace s @ xs) (Adapter n (RestoreVm src tn os))" using cs(2) eq by (simp add: calls_ok_at)
    then show "n = q_target_platform q" "tn = q_target_name q" "os = q_options q"
      "\<exists>ws d es. trace s @ xs = ws @ [ReadTree src] \<and> tree_reply E ws (ReadTree src) = Inr d \<and>
          verify_manifest d (p_manifest_sha256 p) = Inr (True, es)"
      by (auto simp: import_ok_def)
  qed
qed

text \<open>
  C3. A machine is imported only from a verified snapshot of an authorised request. In any run of
  \<open>execute_restore\<close>, every import call names the target, the new name and the options of the request,
  the request was approved or ready, and the call directly follows reading the staged tree, which verified
  against the digest recorded for the recovery point of the request; a dry run imports nothing.
\<close>

theorem import_only_verified:
  assumes "get_restore_request i (database s) = Some q" "get_point (q_snapshot_id q) (database s) = Some p"
    and "execute_restore E cfg i actor dry s = (r, t)"
  shows "\<exists>cs. trace t = trace s @ cs \<and>
    (\<forall>xs n src tn os ys. cs = xs @ Adapter n (RestoreVm src tn os) # ys \<longrightarrow>
       \<not> dry \<and> (q_status q = ''approved'' \<or> q_status q = ''ready'') \<and>
       n = q_target_platform q \<and> tn = q_target_name q \<and> os = q_options q \<and>
       (\<exists>ws d es. trace s @ xs = ws @ [ReadTree src] \<and> tree_reply E ws (ReadTree src) = Inr d \<and>
          verify_manifest d (p_manifest_sha256 p) = Inr (True, es)))"
  using assms by (rule imports_verified)

text \<open>An approved request for \<open>s2\<close>, whose staged tree verifies.\<close>

definition restore_sys :: sys where
  "restore_sys = \<lparr>database = (create_schema (\<lambda>n. day_us))
     \<lparr>recovery_points := [sample_point ''s2'' ''vm-1'' 0 (2 * day_us)],
      restore_requests := [(sample_request 1 ''alice'' ''approved'')\<lparr>q_snapshot_id := ''s2'', q_target_platform := ''vsphere''\<rparr>]\<rparr>,
     trace = [], memory = []\<rparr>"

definition restore_env :: env where
  "restore_env = sample_env\<lparr>texts_reply := (\<lambda>h c. Inr []), tree_reply := (\<lambda>h c. Inr (snd (build_manifest (sample_dir []))))\<rparr>"

lemma check_run: "check b e s = (if b then (Inr (), s) else (Inl e, s))"
  by (simp add: check_def)

lemma import_happens:
  "\<exists>src. Adapter ''vsphere'' (RestoreVm src ''db-restored'' []) \<in>
     set (trace (snd (execute_restore restore_env sample_config 1 ''bob'' False restore_sys)))"
  by (simp add: execute_restore_def restore_sys_def sample_config_def default_config_def create_schema_def
      get_restore_request_def sample_request_def get_point_def live_points_def sample_point_def engine_platform_def
      default_platform_def build_adapter_def Let_def source_of_def get_or_def restore_source_def restore_preflight_def
      ensure_path_capacity_def then_act_def bind_act_def ask_def restore_env_def sample_env_def free_percent_def
      default_runtime_def check_run adapter_doctor_def when_act_def try_db_def start_restore_def utcnow_eq
      update_request_def update_where_def audit_frame import_vm_def stage_snapshot_def rmtree_def ask_ignore_def
      catch_def repo_restore_def restic_run_def lift_res_def need_def restic_env_def run_command_def check_tree_def
      read_tree_def sample_dir_def build_manifest_def verify_manifest_def manifest_rows_def manifest_files_def
      manifest_json_def default_repository_def)

theorem import_only_verified_witness:
  "\<exists>xs src ys d ws es. trace (snd (execute_restore restore_env sample_config 1 ''bob'' False restore_sys)) =
       xs @ Adapter ''vsphere'' (RestoreVm src ''db-restored'' []) # ys \<and> xs = ws @ [ReadTree src] \<and>
     verify_manifest d None = Inr (True, es)"
proof -
  let ?q = "(sample_request 1 ''alice'' ''approved'')\<lparr>q_snapshot_id := ''s2'', q_target_platform := ''vsphere''\<rparr>"
  let ?p = "sample_point ''s2'' ''vm-1'' 0 (2 * day_us)"
  have q: "get_restore_request 1 (database restore_sys) = Some ?q"
    by (simp add: restore_sys_def create_schema_def get_restore_request_def sample_request_def)
  have p: "get_point (q_snapshot_id ?q) (database restore_sys) = Some ?p"
    by (simp add: restore_sys_def create_schema_def get_point_def live_points_def sample_point_def)
  have e: "trace restore_sys = []" "p_manifest_sha256 ?p = None" by (simp_all add: restore_sys_def sample_point_def)
  obtain src xs ys where t: "trace (snd (execute_restore restore_env sample_config 1 ''bob'' False restore_sys)) =
       xs @ Adapter ''vsphere'' (RestoreVm src ''db-restored'' []) # ys"
    using import_happens by (meson split_list)
  with import_only_verified [OF q p surjective_pairing, of restore_env sample_config "''bob''" False] e
  show ?thesis by (metis append_Nil)
qed

end
