(* ===== verification/Engine_Reach.thy ===== *)
theory Engine_Reach
  imports Engine_Safety
begin

text \<open>
  The engine as a state machine: a state is the database with the calls made so far, a step is one
  operation of the engine against an arbitrary environment, and the initial state is an empty database.
  Invariants of single operations are lifted to every reachable state: unique keys, a valid audit chain,
  and the four-eyes rule.
\<close>

section \<open>Invariants of actions\<close>

definition preserves :: "(db \<Rightarrow> bool) \<Rightarrow> sys \<Rightarrow> sys \<Rightarrow> bool" where
  "preserves P s t \<longleftrightarrow> (P (database s) \<longrightarrow> P (database t))"

interpretation preserves: step_relation "preserves P" for P
  by unfold_locales (simp_all add: preserves_def)

lemma preserves_ask: "steps (preserves P) (ask f c)"
  by (simp add: steps_def preserves_def ask_def)

lemma preserves_change: "(\<And>d. P d \<Longrightarrow> P (f d)) \<Longrightarrow> steps (preserves P) (change f)"
  by (simp add: steps_def preserves_def)

lemma preserves_call_db: "(\<And>d. P d \<Longrightarrow> P (snd (f d))) \<Longrightarrow> steps (preserves P) (call_db f)"
  by (simp add: steps_def preserves_def call_db_def split: prod.split) (metis snd_conv)

lemma preserves_try_db: "(\<And>d. P d \<Longrightarrow> P (snd (f d))) \<Longrightarrow> steps (preserves P) (try_db f)"
  by (simp add: steps_def preserves_def try_db_def split: prod.split) (metis snd_conv)

lemma preserves_service:
  "steps service m \<Longrightarrow> (\<And>d n. P (d\<lparr>reads := n\<rparr>) = P d) \<Longrightarrow> steps (preserves P) m"
  unfolding steps_def service_def preserves_def by metis

lemmas preserves_rules =
  preserves.steps_bind preserves.steps_then preserves.steps_catch preserves.steps_finally preserves.steps_check
  preserves.steps_when preserves.steps_each preserves.steps_query preserves.steps_need preserves.steps_ignore
  preserves.steps_if preserves.steps_option preserves.steps_let preserves.steps_prod preserves.steps_sum
  preserves.steps_ret preserves.steps_throw preserves_ask preserves_change
  preserves_call_db preserves_try_db

section \<open>The invariant\<close>

text \<open>Every request past the pending state was approved by someone other than its requester.\<close>

definition seen_twice :: "db \<Rightarrow> bool" where
  "seen_twice s \<longleftrightarrow> (\<forall>q\<in>set (restore_requests s). q_status q = ''pending_approval'' \<or>
     (\<exists>a. q_approved_by q = Some a \<and> a \<noteq> q_requester q))"

definition db_inv :: "bool \<Rightarrow> db \<Rightarrow> bool" where
  "db_inv eyes s \<longleftrightarrow> catalog_ok s \<and> requests_ok s \<and> fst (verify_audit_chain s) \<and> (eyes \<longrightarrow> seen_twice s)"

lemma chain_step: "log_step s t \<Longrightarrow> fst (verify_audit_chain s) \<Longrightarrow> fst (verify_audit_chain t)"
  by (simp add: log_step_def)

lemma db_inv_frame:
  assumes "db_inv eyes s" "log_step s t" "catalog_ok s \<Longrightarrow> catalog_ok t" "requests_ok s \<Longrightarrow> requests_ok t"
    "restore_requests t = restore_requests s"
  shows "db_inv eyes t"
  using assms chain_step by (auto simp: db_inv_def seen_twice_def)

lemma db_inv_reads: "db_inv eyes (d\<lparr>reads := n\<rparr>) = db_inv eyes d"
  by (simp add: db_inv_def catalog_ok_def requests_ok_def seen_twice_def verify_audit_chain_def)

lemma requests_ok_jobs:
  "requests_ok s \<Longrightarrow> requests_ok (snd (start_job pl vi vn s))"
  "requests_ok s \<Longrightarrow> requests_ok (finish_job i st sid err s)"
  by (auto simp: requests_ok_def start_job_def finish_job_def utcnow_eq insert_row_def Let_def next_rowid_fresh
      map_update_where)

lemma db_inv_ops:
  "db_inv eyes d \<Longrightarrow> db_inv eyes (audit a b c e f d)"
  "db_inv eyes d \<Longrightarrow> db_inv eyes (finish_job i st jsid err d)"
  "db_inv eyes d \<Longrightarrow> db_inv eyes (snd (start_job pl vi vn d))"
  "db_inv eyes d \<Longrightarrow> db_inv eyes (upsert_recovery_point p d)"
  "db_inv eyes d \<Longrightarrow> db_inv eyes (upsert_recovery_copy sid tg bk url pv cst im lk cerr v d)"
  "db_inv eyes d \<Longrightarrow> db_inv eyes (mark_points_expired ids d)"
  "db_inv eyes d \<Longrightarrow> db_inv eyes (snd (mark_verified sid v ds d))"
  "db_inv eyes d \<Longrightarrow> db_inv eyes (snd (extend_immutability sid t ac re d))"
proof -
  have frame: "requests_ok s \<Longrightarrow> restore_requests t = restore_requests s \<Longrightarrow> jobs t = jobs s \<Longrightarrow> requests_ok t" for s t
    by (simp add: requests_ok_def)
  have cat: "catalog_ok s \<Longrightarrow> recovery_points t = recovery_points s \<Longrightarrow> recovery_copies t = recovery_copies s \<Longrightarrow> catalog_ok t" for s t
    by (simp add: catalog_ok_def)
  have held: "log_step d (snd (extend_immutability sid t ac re d))"
    by (auto simp: extend_immutability_def Let_def log_step_refl intro!: log_step_audit_same split: option.split)
  show "db_inv eyes d \<Longrightarrow> db_inv eyes (audit a b c e f d)"
    by (erule db_inv_frame) (auto simp: log_step_audit audit_frame catalog_ok_ops intro: frame)
  show "db_inv eyes d \<Longrightarrow> db_inv eyes (finish_job i st jsid err d)"
    by (erule db_inv_frame) (auto simp: log_step_refl frame_simps requests_ok_jobs intro: cat)
  show "db_inv eyes d \<Longrightarrow> db_inv eyes (snd (start_job pl vi vn d))"
    by (erule db_inv_frame) (auto simp: log_step_refl start_job_def utcnow_eq insert_row_def Let_def catalog_ok_def
        requests_ok_def next_rowid_fresh)
  show "db_inv eyes d \<Longrightarrow> db_inv eyes (upsert_recovery_point p d)"
    by (erule db_inv_frame) (auto simp: log_step_refl frame_simps catalog_ok_ops intro: frame)
  show "db_inv eyes d \<Longrightarrow> db_inv eyes (upsert_recovery_copy sid tg bk url pv cst im lk cerr v d)"
    by (erule db_inv_frame) (auto simp: log_step_refl frame_simps catalog_ok_upsert_copy intro: frame)
  show "db_inv eyes d \<Longrightarrow> db_inv eyes (mark_points_expired ids d)"
    by (erule db_inv_frame) (auto simp: log_step_refl frame_simps catalog_ok_ops intro: frame)
  show "db_inv eyes d \<Longrightarrow> db_inv eyes (snd (mark_verified sid v ds d))"
    by (erule db_inv_frame) (auto simp: log_step_refl frame_simps catalog_ok_ops intro: frame)
  show "db_inv eyes d \<Longrightarrow> db_inv eyes (snd (extend_immutability sid t ac re d))"
    by (erule db_inv_frame) (auto simp: held frame_simps catalog_ok_ops intro: frame)
qed

lemma seen_twice_update:
  assumes "seen_twice s" "restore_requests t = update_where P f (restore_requests s)"
    and "\<And>q. q \<in> set (restore_requests s) \<Longrightarrow> P q \<Longrightarrow>
      q_status (f q) = ''pending_approval'' \<or> (\<exists>a. q_approved_by (f q) = Some a \<and> a \<noteq> q_requester (f q))"
  shows "seen_twice t"
  using assms unfolding seen_twice_def assms(2) set_update_where by auto

lemma get_request_in: "get_restore_request i s = Some q \<Longrightarrow> q \<in> set (restore_requests s)"
  by (auto simp: get_restore_request_def dest: row_by_Some)

lemma get_request_unique:
  "requests_ok s \<Longrightarrow> q \<in> set (restore_requests s) \<Longrightarrow> q_id q = i \<Longrightarrow> get_restore_request i s = Some q"
  by (auto simp: get_restore_request_def requests_ok_def intro: row_by_unique)

lemma db_inv_create:
  assumes "db_inv eyes s" "eyes \<Longrightarrow> st = ''pending_approval''"
  shows "db_inv eyes (snd (create_restore_request rq p tp tn opts st s))"
proof -
  obtain i t where c: "create_restore_request rq p tp tn opts st s = (i, t)" by force
  note g = create_request_get [OF c]
  obtain q where "restore_requests t = restore_requests s @ [q]" "q_status q = st"
    using c by (auto simp: create_restore_request_def utcnow_eq insert_row_def Let_def audit_frame)
  then have "eyes \<Longrightarrow> seen_twice s \<Longrightarrow> seen_twice t" using assms(2) by (auto simp: seen_twice_def)
  moreover have "catalog_ok t = catalog_ok s" using g by (simp add: catalog_ok_def)
  ultimately show ?thesis using assms(1) g chain_step c by (auto simp: db_inv_def)
qed

lemma db_inv_approve:
  assumes "db_inv eyes s"
  shows "db_inv eyes (snd (approve_restore i approver eyes s))"
proof -
  obtain r t where a: "approve_restore i approver eyes s = (r, t)" by force
  note e = approve_effect [OF a]
  have "eyes \<Longrightarrow> seen_twice t"
  proof (cases r)
    case (Inl x)
    then show "eyes \<Longrightarrow> seen_twice t" using approve_Inl [of i approver eyes s x t] a assms by (simp add: db_inv_def)
  next
    case (Inr u)
    assume eyes
    from Inr a have ok: "\<exists>t. approve_restore i approver eyes s = (Inr (), t)" by auto
    then obtain q where q: "get_restore_request i s = Some q" "q_requester q \<noteq> approver"
      using \<open>eyes\<close> unfolding approve_Inr_iff by auto
    have rows: "\<exists>n. restore_requests t = update_where (\<lambda>q. q_id q = i)
        (\<lambda>q. q\<lparr>q_status := ''approved'', q_approved_by := Some approver, q_approved_at := Some n\<rparr>) (restore_requests s)"
      using a Inr q(1) by (auto simp: approve_restore_def Let_def utcnow_eq audit_frame update_request_def split: if_splits)
    have "requests_ok s" "seen_twice s" using assms \<open>eyes\<close> by (simp_all add: db_inv_def)
    then show "seen_twice t" using rows get_request_unique q seen_twice_update by fastforce
  qed
  moreover have "catalog_ok t = catalog_ok s" using e by (simp add: catalog_ok_def)
  ultimately show ?thesis using assms e chain_step a by (auto simp: db_inv_def)
qed

text \<open>A request that is being executed was approved by someone else.\<close>

definition other_approved :: "restore_request \<Rightarrow> bool" where
  "other_approved q \<longleftrightarrow> (\<exists>a. q_approved_by q = Some a \<and> a \<noteq> q_requester q)"

definition run_inv :: "bool \<Rightarrow> nat \<Rightarrow> db \<Rightarrow> bool" where
  "run_inv eyes i s \<longleftrightarrow> db_inv eyes s \<and> (eyes \<longrightarrow> (\<exists>q. get_restore_request i s = Some q \<and> other_approved q))"

lemma run_inv_keep:
  "run_inv eyes i s \<Longrightarrow> db_inv eyes t \<Longrightarrow> restore_requests t = restore_requests s \<Longrightarrow> run_inv eyes i t"
  by (simp add: run_inv_def get_restore_request_def)

lemma run_inv_audit: "run_inv eyes i d \<Longrightarrow> run_inv eyes i (audit a b c e f d)"
  by (rule run_inv_keep [of eyes i d]) (simp_all add: run_inv_def db_inv_ops(1) audit_frame)

lemma run_inv_reads: "run_inv eyes i (d\<lparr>reads := n\<rparr>) = run_inv eyes i d"
  by (simp add: run_inv_def db_inv_reads)

lemma run_inv_start:
  assumes "db_inv eyes s" "start_restore i actor s = (Inr q', t)"
  shows "run_inv eyes i t"
proof -
  note e = start_effect [OF assms(2)]
  from start_Inr [OF assms(2)] obtain q where q: "get_restore_request i s = Some q"
    "q_status q = ''approved'' \<or> q_status q = ''ready''"
    "get_restore_request i t = Some (q\<lparr>q_status := ''running'', q_started_at := Some (isoformat (clock s (reads s)))\<rparr>)"
    by auto
  obtain n where rows: "restore_requests t = update_where (\<lambda>q. q_id q = i)
      (\<lambda>q. q\<lparr>q_status := ''running'', q_started_at := Some n\<rparr>) (restore_requests s)"
    using assms(2) q(1) by (auto simp: start_restore_def Let_def utcnow_eq audit_frame update_request_def split: if_splits)
  have known: "q'' = q" if "q'' \<in> set (restore_requests s)" "q_id q'' = i" for q''
    using get_request_unique [OF _ that] q(1) assms(1) by (simp add: db_inv_def)
  have "other_approved q" if eyes
  proof -
    have "seen_twice s" using assms(1) that by (simp add: db_inv_def)
    then show ?thesis using get_request_in [OF q(1)] q(2) by (auto simp: seen_twice_def other_approved_def)
  qed
  moreover have "seen_twice t" if "seen_twice s" eyes
    using \<open>eyes \<Longrightarrow> other_approved q\<close> that(2) known
    by (intro seen_twice_update [OF that(1) rows]) (auto simp: other_approved_def)
  moreover have "catalog_ok t = catalog_ok s" using e by (simp add: catalog_ok_def)
  ultimately show ?thesis
    using assms(1) e q(3) chain_step by (auto simp: run_inv_def db_inv_def other_approved_def)
qed

lemma run_inv_finish:
  assumes "run_inv eyes i s"
  shows "run_inv eyes i (finish_restore i ok result err s)"
proof -
  let ?t = "finish_restore i ok result err s"
  have inv: "db_inv eyes s" using assms by (simp add: run_inv_def)
  have rows: "restore_requests ?t = update_where (\<lambda>q. q_id q = i)
      (\<lambda>q. q\<lparr>q_status := (if ok then ''success'' else ''failed''), q_finished_at := Some (isoformat (clock s (reads s))),
             q_result := Some result, q_error := err\<rparr>) (restore_requests s)"
    by (simp add: finish_restore_def utcnow_eq update_request_def)
  have "seen_twice ?t" if eyes
  proof -
    from assms that obtain q where q: "get_restore_request i s = Some q" "other_approved q" by (auto simp: run_inv_def)
    have "q'' = q" if "q'' \<in> set (restore_requests s)" "q_id q'' = i" for q''
      using get_request_unique [OF _ that] q(1) inv by (simp add: db_inv_def)
    moreover have "seen_twice s" using inv that by (simp add: db_inv_def)
    ultimately show ?thesis using q(2) by (intro seen_twice_update [OF _ rows]) (auto simp: other_approved_def)
  qed
  moreover have "requests_ok ?t" using inv
    by (auto simp: db_inv_def requests_ok_def finish_restore_def utcnow_eq ids_update_request update_request_frame)
  moreover have "fst (verify_audit_chain ?t)" using inv chain_step [of s ?t]
    by (simp add: db_inv_def log_step_refl frame_simps)
  moreover have "catalog_ok ?t" using inv by (simp add: db_inv_def catalog_ok_def frame_simps)
  moreover have "\<exists>q. get_restore_request i ?t = Some q \<and> other_approved q" if eyes
    using assms that by (auto simp: run_inv_def finish_get other_approved_def)
  ultimately show ?thesis by (simp add: run_inv_def db_inv_def)
qed

section \<open>Operations preserve the invariant\<close>

lemma inv_service: "steps service m \<Longrightarrow> steps (preserves (db_inv eyes)) m"
  by (erule preserves_service) (rule db_inv_reads)

lemmas inv_rules = preserves_rules db_inv_ops

lemmas inv_services = inv_service [OF service_now] inv_service [OF service_utcnow] inv_service [OF service_lift]
  inv_service [OF service_copy] inv_service [OF service_repo_restore] inv_service [OF service_repo_backup]
  inv_service [OF service_provider_lock] inv_service [OF service_init_target] inv_service [OF service_s3_preflight]
  inv_service [OF service_ensure_r2] inv_service [OF service_capacity] inv_service [OF service_rmtree]
  inv_service [OF service_tree] inv_service [OF restore_source_service] inv_service [OF service_stage]

lemma inv_retention: "steps (preserves (db_inv eyes)) (restic_retention E rc ids)"
  unfolding restic_retention_def restic_run_def run_command_def
  by (intro inv_rules inv_services)

lemma inv_verify: "steps (preserves (db_inv eyes)) (verify_recovery_point E cfg sid actor)"
  unfolding verify_recovery_point_def by (intro inv_rules inv_services)

lemma inv_replicate: "steps (preserves (db_inv eyes)) (replicate_to E cfg sid d u r)"
  unfolding replicate_to_def by (intro inv_rules inv_services)

lemma inv_backup_vm: "steps (preserves (db_inv eyes)) (backup_vm E cfg pl v info dry)"
  unfolding backup_vm_def backup_failed_def backup_body_def export_and_back_up_def exported_consistency_def write_manifest_def
    read_tree_def record_backup_def
  by (intro inv_rules inv_services inv_verify inv_replicate)

lemma inv_backup_all: "steps (preserves (db_inv eyes)) (backup_all E cfg dry)"
  unfolding backup_all_def exclusive_lock_def ensure_staging_capacity_def backup_platform_def build_adapter_def
    platform_info_or_error_def adapter_inventory_def
  by (intro inv_rules inv_services inv_backup_vm)

lemma inv_engine_retention: "steps (preserves (db_inv eyes)) (retention E cfg)"
  unfolding retention_def by (intro inv_rules inv_services inv_retention)

lemma inv_hold: "steps (preserves (db_inv eyes)) (hold_recovery_point E cfg sid actor days reason)"
  unfolding hold_recovery_point_def hold_on_replica_def by (intro inv_rules inv_services)

lemma inv_request:
  "(eyes \<Longrightarrow> require_four_eyes_restore (protection cfg)) \<Longrightarrow>
   steps (preserves (db_inv eyes)) (request_restore cfg sid rq tp tn opts)"
  unfolding request_restore_def engine_platform_def
  by (intro inv_rules inv_services db_inv_create) auto

lemma inv_approve:
  "eyes = require_four_eyes_restore (protection cfg) \<Longrightarrow> steps (preserves (db_inv eyes)) (approve_request cfg i a)"
  unfolding approve_request_def by (intro preserves_try_db) (simp add: db_inv_approve)

lemma inv_init: "steps (preserves (db_inv eyes)) (init_replica E cfg n)"
  unfolding init_replica_def engine_replica_def by (intro inv_rules inv_services)

lemma inv_init_lock: "steps (preserves (db_inv eyes)) (init_replica_lock E cfg n)"
  unfolding init_replica_lock_def engine_replica_def by (intro inv_rules inv_services)

text \<open>While a request runs it stays approved by someone else.\<close>

lemma run_service: "steps service m \<Longrightarrow> steps (preserves (run_inv eyes i)) m"
  by (erule preserves_service) (rule run_inv_reads)

lemma run_import: "steps (preserves (run_inv eyes i)) (import_vm E cfg i actor target p req opts src replica)"
  unfolding import_vm_def
  by (intro preserves_rules run_service [OF service_stage] run_service [OF service_rmtree] run_inv_audit run_inv_finish)

lemma start_import_inv:
  "preserves (db_inv eyes) u (snd (bind_act (try_db (start_restore i actor))
     (\<lambda>started. import_vm E cfg i actor target p started opts src replica) u))"
proof (cases "start_restore i actor (database u)")
  case (Pair r d)
  show ?thesis
  proof (cases r)
    case (Inl e)
    then have "d = database u" using start_Inl Pair by blast
    then show ?thesis using Pair Inl by (simp add: bind_act_def try_db_def preserves_def)
  next
    case (Inr q')
    let ?v = "u\<lparr>database := d\<rparr>"
    have "preserves (run_inv eyes i) ?v (snd (import_vm E cfg i actor target p q' opts src replica ?v))"
      by (rule preserves.steps_at) (rule run_import)
    then have "db_inv eyes (database u) \<Longrightarrow>
      db_inv eyes (database (snd (import_vm E cfg i actor target p q' opts src replica ?v)))"
      using run_inv_start [of eyes "database u" i actor q' d] Pair Inr by (simp add: preserves_def run_inv_def)
    then show ?thesis using Pair Inr by (simp add: bind_act_def try_db_def preserves_def)
  qed
qed

lemma inv_execute: "steps (preserves (db_inv eyes)) (execute_restore E cfg i actor dry)"
proof -
  have go: "steps (preserves (db_inv eyes)) (bind_act (try_db (start_restore i actor))
     (\<lambda>started. import_vm E cfg i actor target p started opts src replica))" for target p opts src replica
    by (rule preserves.stepsI) (rule start_import_inv)
  show ?thesis
    unfolding execute_restore_def engine_platform_def build_adapter_def restore_preflight_def adapter_doctor_def
    by (intro go inv_rules inv_services)
qed

section \<open>Reachable states\<close>

datatype operation =
    Backup bool
  | Retention
  | Hold string string int string
  | Request string string string "string option" "(string \<times> json) list"
  | Approve nat string
  | Execute nat string bool
  | Verify string string
  | Init_Replica string
  | Init_Lock string

definition discard :: "'a act \<Rightarrow> sys \<Rightarrow> sys" where
  "discard m s = snd (m s)"

fun perform :: "env \<Rightarrow> config \<Rightarrow> operation \<Rightarrow> sys \<Rightarrow> sys" where
  "perform E cfg (Backup dry) = discard (backup_all E cfg dry)"
| "perform E cfg Retention = discard (retention E cfg)"
| "perform E cfg (Hold sid actor days reason) = discard (hold_recovery_point E cfg sid actor days reason)"
| "perform E cfg (Request sid rq tp tn opts) = discard (request_restore cfg sid rq tp tn opts)"
| "perform E cfg (Approve i approver) = discard (approve_request cfg i approver)"
| "perform E cfg (Execute i actor dry) = discard (execute_restore E cfg i actor dry)"
| "perform E cfg (Verify sid actor) = discard (verify_recovery_point E cfg sid actor)"
| "perform E cfg (Init_Replica n) = discard (init_replica E cfg n)"
| "perform E cfg (Init_Lock n) = discard (init_replica_lock E cfg n)"

inductive reachable :: "config \<Rightarrow> sys \<Rightarrow> bool" for cfg where
  start: "reachable cfg \<lparr>database = create_schema clk, trace = [], memory = []\<rparr>"
| step: "reachable cfg s \<Longrightarrow> reachable cfg (perform E cfg op s)"

inductive_cases reachableE: "reachable cfg s"

lemma perform_inv:
  assumes "db_inv (require_four_eyes_restore (protection cfg)) (database s)"
  shows "db_inv (require_four_eyes_restore (protection cfg)) (database (perform E cfg op s))"
proof -
  let ?eyes = "require_four_eyes_restore (protection cfg)"
  have ok: "db_inv ?eyes (database (discard m s))" if "steps (preserves (db_inv ?eyes)) m" for m :: "'x act"
    using that assms by (simp add: steps_def preserves_def discard_def)
  show ?thesis
    by (cases op) (simp_all add: ok inv_backup_all inv_engine_retention inv_hold inv_request inv_approve inv_execute
        inv_verify inv_init inv_init_lock)
qed

lemma reachable_inv: "reachable cfg s \<Longrightarrow> db_inv (require_four_eyes_restore (protection cfg)) (database s)"
proof (induction rule: reachable.induct)
  case (start clk)
  show ?case
    by (simp add: db_inv_def catalog_ok_def requests_ok_def seen_twice_def create_schema_def verify_audit_chain_def)
next
  case (step s E op)
  from step.IH show ?case by (rule perform_inv)
qed

section \<open>Properties\<close>

lemma import_needs_request:
  assumes "execute_restore E cfg i actor dry s = (r, t)" "trace t = trace s @ cs" "Adapter n (RestoreVm src tn os) \<in> set cs"
  shows "\<exists>q. get_restore_request i (database s) = Some q \<and> (q_status q = ''approved'' \<or> q_status q = ''ready'')"
proof (cases "get_restore_request i (database s)")
  case None
  then show ?thesis using assms by (simp add: execute_restore_def)
next
  case (Some q)
  show ?thesis
  proof (cases "get_point (q_snapshot_id q) (database s)")
    case None
    then show ?thesis using assms Some by (auto simp: execute_restore_def split: if_splits)
  next
    case (Some p)
    from assms(3) obtain xs ys where "cs = xs @ Adapter n (RestoreVm src tn os) # ys" by (meson split_list)
    with imports_verified [OF \<open>get_restore_request i (database s) = Some q\<close> Some assms(1)] assms(2)
    show ?thesis using \<open>get_restore_request i (database s) = Some q\<close> by (metis same_append_eq)
  qed
qed

text \<open>
  C7. Four eyes, over the whole life of the system: with \<open>require_four_eyes_restore\<close> set, in every reachable
  state each request that has left the pending state was approved by someone other than its requester, and no
  execution of a request imports a machine unless that holds of the request.
\<close>

theorem no_unapproved_restore:
  assumes "reachable cfg s" "require_four_eyes_restore (protection cfg)"
  shows "(\<forall>q\<in>set (restore_requests (database s)). q_status q \<noteq> ''pending_approval'' \<longrightarrow>
      (\<exists>a. q_approved_by q = Some a \<and> a \<noteq> q_requester q)) \<and>
    (\<forall>E i actor dry r t cs n src tn os. execute_restore E cfg i actor dry s = (r, t) \<longrightarrow> trace t = trace s @ cs \<longrightarrow>
      Adapter n (RestoreVm src tn os) \<in> set cs \<longrightarrow>
      (\<exists>q a. get_restore_request i (database s) = Some q \<and> q_approved_by q = Some a \<and> a \<noteq> q_requester q))"
proof -
  have eyes: "q_status q = ''pending_approval'' \<or> (\<exists>a. q_approved_by q = Some a \<and> a \<noteq> q_requester q)"
    if "q \<in> set (restore_requests (database s))" for q
    using reachable_inv [OF assms(1)] assms(2) that by (simp add: db_inv_def seen_twice_def)
  have "\<exists>q a. get_restore_request i (database s) = Some q \<and> q_approved_by q = Some a \<and> a \<noteq> q_requester q"
    if "execute_restore E cfg i actor dry s = (r, t)" "trace t = trace s @ cs" "Adapter n (RestoreVm src tn os) \<in> set cs"
    for E i actor dry r t cs n src tn os
  proof -
    from import_needs_request [OF that] obtain q where q: "get_restore_request i (database s) = Some q"
      "q_status q = ''approved'' \<or> q_status q = ''ready''" by blast
    with eyes [OF get_request_in [OF q(1)]] show ?thesis by auto
  qed
  with eyes show ?thesis by blast
qed

theorem no_unapproved_restore_witness:
  "list_all (\<lambda>q. q_status q = ''pending_approval'' \<or> (\<exists>a. q_approved_by q = Some a \<and> a \<noteq> q_requester q))
     (restore_requests (database (perform sample_env sample_config (Approve 1 ''alice'')
        \<lparr>database = create_schema int, trace = [], memory = []\<rparr>)))"
proof -
  have "require_four_eyes_restore (protection sample_config)"
    by (simp add: sample_config_def default_config_def default_protection_def)
  from no_unapproved_restore [OF reachable.step [OF reachable.start] this]
  show ?thesis unfolding list_all_iff by blast
qed

end
