(* ===== verification/Engine_Backup.thy ===== *)
theory Engine_Backup
  imports Engine_Reach
begin

text \<open>
  What a backup of one machine leaves behind. The job it starts is always closed, with the status the
  result reports; a successful result names a recovery point that is in the catalog with the horizon
  promised for it; and only the creation of the staging directory can make \<open>_backup_vm\<close> raise.
\<close>

section \<open>What the parts leave alone\<close>

lemmas kept_rules =
  kept.steps_bind kept.steps_then kept.steps_catch kept.steps_finally kept.steps_check kept.steps_when
  kept.steps_each kept.steps_query kept.steps_need kept.steps_ignore kept.steps_if kept.steps_option
  kept.steps_let kept.steps_prod kept.steps_sum kept.steps_ret kept.steps_throw
  kept_ask kept_change kept_call_db kept_try_db

lemma kept_service: "steps service m \<Longrightarrow> (\<And>d n. f (d\<lparr>reads := n\<rparr>) = f d) \<Longrightarrow> steps (kept f) m"
  by (rule service_kept)

lemma kept_export:
  assumes "\<And>d n. f (d\<lparr>reads := n\<rparr>) = f d"
  shows "steps (kept f) (export_and_back_up E cfg pl v base)"
  unfolding export_and_back_up_def exported_consistency_def write_manifest_def read_tree_def
  by (intro kept_rules kept_service [OF service_repo_backup] assms)

lemma kept_replicate:
  assumes "\<And>d n. f (d\<lparr>reads := n\<rparr>) = f d" "\<And>a b c e g d. f (audit a b c e g d) = f d"
    and "\<And>sid b url pv st im lk err v d. f (upsert_recovery_copy sid (rp_name r) b url pv st im lk err v d) = f d"
  shows "steps (kept f) (replicate_to E cfg sid days until r)"
  unfolding replicate_to_def
  by (intro kept_rules kept_service [OF service_copy] kept_service [OF service_lift] assms)

lemma kept_verify:
  assumes "\<And>d n. f (d\<lparr>reads := n\<rparr>) = f d" "\<And>a b c e g d. f (audit a b c e g d) = f d"
    and "\<And>sid v ds d. f (snd (mark_verified sid v ds d)) = f d"
  shows "steps (kept f) (verify_recovery_point E cfg sid actor)"
  unfolding verify_recovery_point_def
  by (intro kept_rules kept_service [OF service_capacity] kept_service [OF service_rmtree]
      kept_service [OF service_repo_restore] kept_service [OF service_tree] assms)

section \<open>The horizon of a point\<close>

text \<open>Whether a snapshot is in the catalog, for which machine and until when it is immutable.\<close>

definition horizon_of :: "string \<Rightarrow> db \<Rightarrow> (string \<times> string \<times> string) option" where
  "horizon_of sid s = map_option (\<lambda>p. (p_platform p, p_vm_id p, p_immutable_until p)) (get_point sid s)"

lemma map_row_update:
  assumes "\<And>p. key (f p) = key p" "\<And>p. g (f p) = g p" "\<And>p. live (f p) = live p"
  shows "map_option g (row_by key k (filter live (update_where P f rows))) = map_option g (row_by key k (filter live rows))"
  using assms by (induction rows) (auto simp: update_where_def)

lemma horizon_mark: "horizon_of k (snd (mark_verified sid v ds d)) = horizon_of k d"
  by (simp add: horizon_of_def get_point_def live_points_def mark_verified_def utcnow_eq Let_def map_row_update
      split: option.split)

lemma horizon_frames:
  "horizon_of k (d\<lparr>reads := n\<rparr>) = horizon_of k d" "horizon_of k (audit a b c e g d) = horizon_of k d"
  "horizon_of k (upsert_recovery_copy x1 x2 x3 x4 x5 x6 x7 x8 x9 y1 d) = horizon_of k d"
  "horizon_of k (finish_job i st sid err d) = horizon_of k d"
  by (simp_all add: horizon_of_def get_point_same [of _ d] frame_simps audit_frame get_point_def live_points_def)

lemma horizon_upsert:
  "catalog_ok d \<Longrightarrow> horizon_of (p_snapshot_id p) (upsert_recovery_point p d) =
     Some (p_platform p, p_vm_id p, p_immutable_until p)"
  by (simp add: horizon_of_def get_point_upsert)

section \<open>The body of a backup\<close>

definition closed_job :: "nat \<Rightarrow> db \<Rightarrow> (string \<times> string option) option" where
  "closed_job i s = (case get_job i s of
      Some j \<Rightarrow> if j_finished_at j = None then None else Some (j_status j, j_snapshot_id j)
    | None \<Rightarrow> None)"

lemma closed_frames:
  "closed_job i (d\<lparr>reads := n\<rparr>) = closed_job i d" "closed_job i (audit a b c e g d) = closed_job i d"
  "closed_job i (upsert_recovery_copy x1 x2 x3 x4 x5 x6 x7 x8 x9 y1 d) = closed_job i d"
  "closed_job i (upsert_recovery_point p d) = closed_job i d"
  "closed_job i (snd (mark_verified sid v ds d)) = closed_job i d"
  by (simp_all add: closed_job_def get_job_same [of _ d] frame_simps audit_frame get_job_def)

lemma closed_finish: "get_job i d \<noteq> None \<Longrightarrow> closed_job i (finish_job i st sid err d) = Some (st, sid)"
  by (auto simp: closed_job_def get_job_finish)

lemma job_frames:
  "get_job i (d\<lparr>reads := n\<rparr>) = get_job i d" "get_job i (audit a b c e g d) = get_job i d"
  "get_job i (upsert_recovery_copy x1 x2 x3 x4 x5 x6 x7 x8 x9 y1 d) = get_job i d"
  "get_job i (upsert_recovery_point p d) = get_job i d"
  "get_job i (snd (mark_verified sid v ds d)) = get_job i d"
  by (simp_all add: get_job_def frame_simps audit_frame)

lemma record_backup_effect:
  assumes "record_backup cfg pl v i p s = (r, t)" "get_job i (database s) \<noteq> None" "catalog_ok (database s)"
  shows "closed_job i (database t) = Some (''success'', Some (p_snapshot_id p))"
    and "horizon_of (p_snapshot_id p) (database t) = Some (p_platform p, p_vm_id p, p_immutable_until p)"
  using assms(1)[symmetric] assms(2,3)
  by (simp_all add: record_backup_def Let_def then_act_def closed_frames closed_finish job_frames horizon_frames
      horizon_upsert catalog_ok_upsert_copy)

definition keeps_days :: "config \<Rightarrow> int" where
  "keeps_days cfg = keep_within_days (repo_retention (repository cfg))"

lemma immutable_days_least: "keeps_days cfg \<le> immutable_days_of cfg b"
  by (simp add: immutable_days_of_def keeps_days_def Let_def)

lemma body_result:
  assumes "backup_body E cfg pl v info now base i s = (Inr result, t)"
    and "get_job i (database s) \<noteq> None" "catalog_ok (database s)"
  shows "\<exists>sid days. map_of result ''status'' = Some (JStr ''success'') \<and> map_of result ''snapshot'' = Some (JStr sid) \<and>
    closed_job i (database t) = Some (''success'', Some sid) \<and> keeps_days cfg \<le> days \<and>
    horizon_of sid (database t) = Some (pl_name pl, v_id v, isoformat (plus_days now days))"
proof -
  let ?F = "\<lambda>s1 manifest summary. flag_backup cfg (latest_point (pl_name pl) (v_id v) (database s1)) manifest summary"
  let ?D = "\<lambda>s1 manifest summary. immutable_days_of cfg (fst (?F s1 manifest summary))"
  from assms(1) obtain exported consistency manifest digest summary s1 s2 copies s3 verified s4
    where a: "export_and_back_up E cfg pl v base s = (Inr (exported, consistency, manifest, digest, summary), s1)"
    and b: "record_backup cfg pl v i (new_point pl v now base summary manifest digest
        (isoformat (plus_days now (?D s1 manifest summary))) (?F s1 manifest summary) exported info consistency) s1 = (Inr (), s2)"
    and c: "each (replicate_to E cfg (bs_snapshot_id summary) (?D s1 manifest summary)
        (isoformat (plus_days now (?D s1 manifest summary)))) (enabled_replicas cfg) s2 = (Inr copies, s3)"
    and d: "(if verify_after_backup (protection cfg)
        then bind_act (verify_recovery_point E cfg (bs_snapshot_id summary) ''system'') (\<lambda>ok. ret (JBool ok)) else ret JNull) s3 = (Inr verified, s4)"
    and e: "\<exists>x. rmtree E base s4 = (Inr x, t)"
    and res: "map_of result ''status'' = Some (JStr ''success'')" "map_of result ''snapshot'' = Some (JStr (bs_snapshot_id summary))"
    by (auto simp: backup_body_def bind_Inr Let_def then_act_def)
  define flagged where "flagged = ?F s1 manifest summary"
  define days where "days = immutable_days_of cfg (fst flagged)"
  define until where "until = isoformat (plus_days now days)"
  define p where "p = new_point pl v now base summary manifest digest until flagged exported info consistency"
  note b = b [folded flagged_def, folded days_def, folded until_def, folded p_def]
  note c = c [folded flagged_def, folded days_def, folded until_def]
  have "get_job i (database s1) \<noteq> None" "catalog_ok (database s1)"
    using stepsD [OF kept_export a, of "get_job i"] stepsD [OF kept_export a, of catalog_ok] assms(2,3)
    by (simp_all add: kept_def job_frames catalog_ok_def)
  note rec = record_backup_effect [OF b this]
  have sid: "p_snapshot_id p = bs_snapshot_id summary" "p_platform p = pl_name pl" "p_vm_id p = v_id v"
    "p_immutable_until p = until" by (simp_all add: p_def new_point_def)
  have keep: "f (database t) = f (database s2)"
    if "\<And>d n. f (d\<lparr>reads := n\<rparr>) = f d" "\<And>a b c e g d. f (audit a b c e g d) = f d"
      "\<And>a1 a2 a3 a4 a5 a6 a7 a8 a9 b1 d. f (upsert_recovery_copy a1 a2 a3 a4 a5 a6 a7 a8 a9 b1 d) = f d"
      "\<And>sid v ds d. f (snd (mark_verified sid v ds d)) = f d" for f :: "db \<Rightarrow> 'x"
  proof -
    have "kept f s2 s3" using c by (rule stepsD [OF kept.steps_each [OF kept_replicate [OF that(1-3)]]])
    moreover have "kept f s3 s4" using d
      by (rule stepsD [OF kept.steps_if [OF kept.steps_bind [OF kept_verify [OF that(1,2,4)] kept.steps_ret] kept.steps_ret]])
    moreover have "kept f s4 t" using e stepsD [OF kept_service [OF service_rmtree that(1)]] by blast
    ultimately show ?thesis by (simp add: kept_def)
  qed
  have "closed_job i (database t) = Some (''success'', Some (bs_snapshot_id summary))"
    using keep [of "closed_job i"] rec(1) sid by (simp add: closed_frames)
  moreover have "horizon_of (bs_snapshot_id summary) (database t) = Some (pl_name pl, v_id v, until)"
    using keep [of "horizon_of (bs_snapshot_id summary)"] rec(2) sid by (simp add: horizon_frames horizon_mark)
  ultimately show ?thesis using res immutable_days_least unfolding until_def days_def by blast
qed

section \<open>Properties\<close>

lemma rmtree_returns: "\<exists>u. rmtree E p s = (Inr (), u) \<and> database u = database s"
  by (auto simp: rmtree_def ask_ignore_def catch_def ask_def split: sum.split)

lemma body_preserves_job: "steps (preserves (\<lambda>d. get_job i d \<noteq> None)) (backup_body E cfg pl v info now base k)"
proof -
  have ops: "get_job i (finish_job k st sid err d) \<noteq> None" if "get_job i d \<noteq> None" for st sid err d
    using that by (auto simp: get_job_finish)
  have kept: "steps (kept (get_job i)) m \<Longrightarrow> steps (preserves (\<lambda>d. get_job i d \<noteq> None)) m" for m :: "'x act"
    by (simp add: steps_def kept_def preserves_def)
  show ?thesis
    unfolding backup_body_def record_backup_def
    by (intro preserves_rules kept kept_export kept_replicate kept_verify kept_service [OF service_rmtree] ops)
      (simp_all add: job_frames)
qed

lemma backup_failed_result:
  assumes "backup_failed E cfg pl v base i e s = (r, t)" "get_job i (database s) \<noteq> None"
  shows "closed_job i (database t) = Some (''failed'', None) \<and>
    (\<exists>result. r = Inr result \<and> map_of result ''status'' = Some (JStr ''failed''))"
proof -
  let ?d = "audit ''system'' ''backup.failed'' ''vm'' (pl_name pl @ '':'' @ v_id v) (JObj [(''error'', JStr (exc_msg e))])
        (finish_job i ''failed'' None (Some (exc_msg e)) (database s))"
  have "closed_job i ?d = Some (''failed'', None)" using assms(2) by (simp add: closed_frames closed_finish)
  moreover obtain u where "rmtree E base (s\<lparr>database := ?d\<rparr>) = (Inr (), u)" "database u = ?d"
    using rmtree_returns [of E base "s\<lparr>database := ?d\<rparr>"] by auto
  ultimately show ?thesis using assms(1) by (auto simp: backup_failed_def when_act_def then_act_def bind_act_def split: if_splits)
qed

text \<open>
  C17. Every backup closes its job. \<open>_backup_vm\<close> raises only when the staging directory cannot be created, and
  then no job was started; otherwise the job it started is finished with the status of the returned result.
  A successful result names a snapshot that is in the catalog for the machine and immutable for at least the
  configured retention window from the moment the backup began, whatever happened to replication.
\<close>

theorem backup_closes_job:
  assumes "backup_vm E cfg pl v info False s = (r, t)" "catalog_ok (database s)"
  shows "case r of
      Inl e \<Rightarrow> jobs (database t) = jobs (database s) \<and> (\<exists>base. done_reply E (trace s) (MkDir base) = Inl e)
    | Inr result \<Rightarrow> \<exists>i status sid. get_job i (database s) = None \<and> closed_job i (database t) = Some (status, sid) \<and>
        map_of result ''status'' = Some (JStr status) \<and>
        (status = ''failed'' \<and> sid = None \<or>
         status = ''success'' \<and> (\<exists>snap days. sid = Some snap \<and> map_of result ''snapshot'' = Some (JStr snap) \<and>
           keep_within_days (repo_retention (repository cfg)) \<le> days \<and>
           horizon_of snap (database t) = Some (pl_name pl, v_id v,
             isoformat (plus_days (clock (database s) (reads (database s))) days))))"
proof -
  let ?now = "clock (database s) (reads (database s))"
  let ?base = "staging_root cfg pl v ?now"
  let ?s1 = "s\<lparr>database := (database s)\<lparr>reads := Suc (reads (database s))\<rparr>, trace := trace s @ [MkDir ?base]\<rparr>"
  show ?thesis
  proof (cases "done_reply E (trace s) (MkDir ?base)")
    case (Inl e)
    then show ?thesis using assms(1)
      by (auto simp: backup_vm_def bind_act_def [of "call_db now_utc"] call_db_def now_utc_def Let_def then_act_def
          bind_act_def [of "ask _ _"] ask_def)
  next
    case (Inr u)
    obtain i d where job: "start_job (pl_name pl) (v_id v) (v_name v) (database ?s1) = (i, d)" by force
    let ?s2 = "?s1\<lparr>database := d\<rparr>"
    note st = start_job_get [OF job]
    have fresh: "get_job i (database s) = None" using st(1) by (simp add: get_job_def)
    have known: "get_job i (database ?s2) \<noteq> None" "catalog_ok (database ?s2)"
      using st(2,4,5) assms(2) by (auto simp: catalog_ok_def)
    obtain q v1 where body: "backup_body E cfg pl v info ?now ?base i ?s2 = (q, v1)" by force
    have run: "catch (backup_body E cfg pl v info ?now ?base i) (backup_failed E cfg pl v ?base i) ?s2 = (r, t)"
      using assms(1) Inr job
      by (simp add: backup_vm_def bind_act_def [of "call_db now_utc"] call_db_def now_utc_def Let_def
          bind_act_def [of "ask _ _"] ask_def bind_act_def [of "call_db (start_job _ _ _)"] then_act_def [of "ask _ _"])
    show ?thesis
    proof (cases q)
      case (Inr result)
      then have "r = Inr result" "t = v1" using run body by (simp_all add: catch_def)
      with body_result [OF body [unfolded Inr] known] fresh show ?thesis by (auto simp: keeps_days_def)
    next
      case (Inl e)
      have "preserves (\<lambda>d. get_job i d \<noteq> None) ?s2 v1" using body_preserves_job body by (rule stepsD)
      then have "get_job i (database v1) \<noteq> None" using known by (simp add: preserves_def)
      moreover have "backup_failed E cfg pl v ?base i e v1 = (r, t)" using run body Inl by (simp add: catch_def)
      ultimately show ?thesis using backup_failed_result fresh by fastforce
    qed
  qed
qed

definition sample_vm :: vm where
  "sample_vm = \<lparr>v_id = ''vm-1'', v_name = ''db'', v_power_state = ''on'', v_kind = ''vm''\<rparr>"

theorem backup_closes_job_witness:
  "\<exists>i status sid. closed_job i (database (snd (backup_vm sample_env sample_config
      (default_platform ''vsphere'' ''vmware'' ''https://vc'') sample_vm JNull False sample_sys))) = Some (status, sid)"
proof -
  let ?run = "backup_vm sample_env sample_config (default_platform ''vsphere'' ''vmware'' ''https://vc'') sample_vm JNull False sample_sys"
  have "catalog_ok (database sample_sys)" by (simp add: sample_sys_def create_schema_def catalog_ok_def)
  note claim = backup_closes_job [OF surjective_pairing this, of sample_env sample_config
      "default_platform ''vsphere'' ''vmware'' ''https://vc''" sample_vm JNull]
  have "fst ?run \<noteq> Inl e" for e using claim by (auto simp: sample_env_def)
  then obtain result where "fst ?run = Inr result" by (cases "fst ?run") auto
  with claim show ?thesis by auto
qed

end
