(* ===== verification/Lifecycle.thy ===== *)
theory Lifecycle
  imports Engine_Backup
begin

text \<open>
  The life of a restore request as an abstract state machine, and the proof that the engine refines it: the
  stages are what the \<open>status\<close> column of \<open>restore_requests\<close> stores, the abstract state gives each
  request its stage, and one operation of the engine is a sequence of abstract steps. Starting, importing and
  finishing a request inside \<open>execute_restore\<close> together are one abstract step, so that no operation
  leaves a request running.
\<close>

section \<open>The abstract machine\<close>

datatype stage = Pending | Approved | Ready | Running | Succeeded | Failed | Other

definition stage_of :: "string \<Rightarrow> stage" where
  "stage_of st =
     (if st = ''pending_approval'' then Pending else if st = ''approved'' then Approved
      else if st = ''ready'' then Ready else if st = ''running'' then Running
      else if st = ''success'' then Succeeded else if st = ''failed'' then Failed else Other)"

lemma stage_of_simps [simp]:
  "stage_of ''pending_approval'' = Pending" "stage_of ''approved'' = Approved" "stage_of ''ready'' = Ready"
  "stage_of ''running'' = Running" "stage_of ''success'' = Succeeded" "stage_of ''failed'' = Failed"
  by (simp_all add: stage_of_def)

definition stages :: "db \<Rightarrow> nat \<Rightarrow> stage option" where
  "stages d i = map_option (\<lambda>q. stage_of (q_status q)) (get_restore_request i d)"

inductive life_step :: "bool \<Rightarrow> (nat \<Rightarrow> stage option) \<Rightarrow> (nat \<Rightarrow> stage option) \<Rightarrow> bool" for eyes where
  submit: "a i = None \<Longrightarrow> life_step eyes a (a(i \<mapsto> (if eyes then Pending else Ready)))"
| approve: "a i = Some Pending \<Longrightarrow> life_step eyes a (a(i \<mapsto> Approved))"
| execute: "a i = Some Approved \<or> a i = Some Ready \<Longrightarrow> life_step eyes a (a(i \<mapsto> (if ok then Succeeded else Failed)))"

inductive_cases life_stepE: "life_step eyes a b"

text \<open>What no sequence of abstract steps does: leave a request running, forget one, or revive a finished one.\<close>

definition settled :: "(nat \<Rightarrow> stage option) \<Rightarrow> bool" where
  "settled a \<longleftrightarrow> (\<forall>i. a i \<noteq> Some Running)"

lemma settled_step: "life_step eyes a b \<Longrightarrow> settled a \<Longrightarrow> settled b"
  by (erule life_stepE) (auto simp: settled_def)

lemma settled_steps: "(life_step eyes)\<^sup>*\<^sup>* a b \<Longrightarrow> settled a \<Longrightarrow> settled b"
  by (induction rule: rtranclp_induct) (auto intro: settled_step)

lemma final_step:
  "life_step eyes a b \<Longrightarrow> a i = Some Succeeded \<or> a i = Some Failed \<Longrightarrow> b i = a i"
  by (erule life_stepE) (auto split: if_splits)

lemma final_steps:
  "(life_step eyes)\<^sup>*\<^sup>* a b \<Longrightarrow> a i = Some Succeeded \<or> a i = Some Failed \<Longrightarrow> b i = a i"
  by (induction rule: rtranclp_induct) (auto dest: final_step)

section \<open>Database operations\<close>

lemma stages_same: "restore_requests t = restore_requests s \<Longrightarrow> stages t = stages s"
  by (simp add: fun_eq_iff stages_def get_restore_request_def)

lemma stages_frame [simp]:
  "stages (audit a b c d e s) = stages s" "stages (s\<lparr>reads := n\<rparr>) = stages s"
  by (simp_all add: fun_eq_iff stages_def)

lemma stages_finish:
  "stages s i \<noteq> None \<Longrightarrow>
   stages (finish_restore i ok result err s) = (stages s)(i \<mapsto> (if ok then Succeeded else Failed))"
  by (auto simp: fun_eq_iff stages_def finish_get)

lemma stages_start:
  assumes "start_restore i actor s = (Inr q, t)"
  shows "stages t = (stages s)(i \<mapsto> Running)" "stages s i = Some Approved \<or> stages s i = Some Ready"
proof -
  obtain q' where q: "get_restore_request i s = Some q'" "q_status q' = ''approved'' \<or> q_status q' = ''ready''"
    "get_restore_request i t = Some q" "q_status q = ''running''"
    using start_Inr [OF assms] by auto
  then show "stages s i = Some Approved \<or> stages s i = Some Ready" by (auto simp: stages_def)
  show "stages t = (stages s)(i \<mapsto> Running)"
    using q start_effect(6) [OF assms] by (auto simp: fun_eq_iff stages_def)
qed

lemma stages_approve:
  "(life_step eyes)\<^sup>*\<^sup>* (stages s) (stages (snd (approve_restore i approver eyes' s)))"
proof -
  obtain r t where a: "approve_restore i approver eyes' s = (r, t)" by force
  show ?thesis
  proof (cases r)
    case (Inl e)
    then show ?thesis using a approve_Inl by fastforce
  next
    case (Inr u)
    with a have ok: "approve_restore i approver eyes' s = (Inr (), t)" by simp
    then obtain q where q: "get_restore_request i s = Some q" "q_status q = ''pending_approval''"
      using approve_Inr_iff by blast
    then have "stages t = (stages s)(i \<mapsto> Approved)"
      using approve_get [OF ok q(1)] approve_effect(6) [OF a] by (auto simp: fun_eq_iff stages_def)
    moreover have "stages s i = Some Pending" using q by (simp add: stages_def)
    ultimately show ?thesis using a life_step.approve by fastforce
  qed
qed

lemma stages_create:
  "(life_step eyes)\<^sup>*\<^sup>* (stages s)
     (stages (snd (create_restore_request rq p tp tn opts (if eyes then ''pending_approval'' else ''ready'') s)))"
proof -
  let ?st = "if eyes then ''pending_approval'' else ''ready''"
  obtain i t where c: "create_restore_request rq p tp tn opts ?st s = (i, t)" by force
  note g = create_request_get [OF c]
  have "stages s i = None" using g(1) by (simp add: stages_def)
  moreover have "stages t = (stages s)(i \<mapsto> (if eyes then Pending else Ready))"
    using g(2,3) by (auto simp: fun_eq_iff stages_def)
  ultimately show ?thesis using c life_step.submit [of "stages s" i eyes] by auto
qed

section \<open>Actions\<close>

text \<open>An action refines the machine when every run of it is a sequence of abstract steps.\<close>

definition lives :: "bool \<Rightarrow> sys \<Rightarrow> sys \<Rightarrow> bool" where
  "lives eyes s t \<longleftrightarrow> (life_step eyes)\<^sup>*\<^sup>* (stages (database s)) (stages (database t))"

interpretation lives: step_relation "lives eyes" for eyes
  by unfold_locales (auto simp: lives_def)

lemma lives_ask: "steps (lives eyes) (ask f c)"
  by (simp add: steps_def lives_def ask_def)

lemma lives_change: "(\<And>d. restore_requests (f d) = restore_requests d) \<Longrightarrow> steps (lives eyes) (change f)"
  using stages_same [of "f d" d for d] by (simp add: steps_def lives_def)

lemma lives_call_db:
  "(\<And>d. (life_step eyes)\<^sup>*\<^sup>* (stages d) (stages (snd (f d)))) \<Longrightarrow> steps (lives eyes) (call_db f)"
  by (simp add: steps_def lives_def call_db_def case_prod_unfold)

lemma lives_try_db:
  "(\<And>d. (life_step eyes)\<^sup>*\<^sup>* (stages d) (stages (snd (f d)))) \<Longrightarrow> steps (lives eyes) (try_db f)"
  by (simp add: steps_def lives_def try_db_def case_prod_unfold)

lemma same_requests:
  "(\<And>d. restore_requests (snd (f d)) = restore_requests d) \<Longrightarrow>
   (life_step eyes)\<^sup>*\<^sup>* (stages d) (stages (snd (f d)))"
  using stages_same [of "snd (f d)" d] by simp

lemma service_stages: "steps service m \<Longrightarrow> m s = (r, t) \<Longrightarrow> stages (database t) = stages (database s)"
  by (auto dest!: stepsD simp: service_def)

lemma lives_service: "steps service m \<Longrightarrow> steps (lives eyes) m"
  unfolding steps_def
proof
  fix s
  assume "\<forall>s. service s (snd (m s))"
  then have "service s (snd (m s))" ..
  then show "lives eyes s (snd (m s))" by (auto simp: service_def lives_def)
qed

lemma requests_kept:
  "restore_requests (snd (start_job pl vi vn d)) = restore_requests d"
  by (simp add: start_job_def utcnow_eq insert_row_def Let_def)

lemmas life_rules =
  lives.steps_bind lives.steps_then lives.steps_catch lives.steps_finally lives.steps_check
  lives.steps_when lives.steps_each lives.steps_query lives.steps_need lives.steps_ignore
  lives.steps_if lives.steps_option lives.steps_let lives.steps_prod lives.steps_sum
  lives.steps_ret lives.steps_throw lives_ask lives_change
  lives_call_db lives_try_db same_requests

lemmas life_services = lives_service [OF service_now] lives_service [OF service_utcnow] lives_service [OF service_lift]
  lives_service [OF service_copy] lives_service [OF service_repo_restore] lives_service [OF service_repo_backup]
  lives_service [OF service_provider_lock] lives_service [OF service_init_target] lives_service [OF service_s3_preflight]
  lives_service [OF service_ensure_r2] lives_service [OF service_capacity] lives_service [OF service_rmtree]
  lives_service [OF service_tree] lives_service [OF restore_source_service]

section \<open>The engine refines the machine\<close>

lemma lives_retention: "steps (lives eyes) (restic_retention E rc ids)"
  unfolding restic_retention_def restic_run_def run_command_def by (intro life_rules life_services)

lemma lives_verify: "steps (lives eyes) (verify_recovery_point E cfg sid actor)"
  unfolding verify_recovery_point_def by (intro life_rules life_services) (simp_all add: frame_simps audit_frame)

lemma lives_replicate: "steps (lives eyes) (replicate_to E cfg sid d u r)"
  unfolding replicate_to_def by (intro life_rules life_services) (simp_all add: frame_simps audit_frame)

lemma lives_backup_vm: "steps (lives eyes) (backup_vm E cfg pl v info dry)"
  unfolding backup_vm_def backup_failed_def backup_body_def export_and_back_up_def exported_consistency_def write_manifest_def
    read_tree_def record_backup_def
  by (intro life_rules life_services lives_verify lives_replicate) (simp_all add: frame_simps audit_frame requests_kept)

lemma lives_backup_all: "steps (lives eyes) (backup_all E cfg dry)"
  unfolding backup_all_def exclusive_lock_def ensure_staging_capacity_def backup_platform_def build_adapter_def
    platform_info_or_error_def adapter_inventory_def
  by (intro life_rules life_services lives_backup_vm)

lemma lives_engine_retention: "steps (lives eyes) (retention E cfg)"
  unfolding retention_def by (intro life_rules life_services lives_retention) (simp_all add: frame_simps audit_frame)

lemma lives_hold: "steps (lives eyes) (hold_recovery_point E cfg sid actor days reason)"
  unfolding hold_recovery_point_def hold_on_replica_def
  by (intro life_rules life_services) (simp_all add: frame_simps audit_frame)

lemma lives_init: "steps (lives eyes) (init_replica E cfg n)"
  unfolding init_replica_def engine_replica_def by (intro life_rules life_services) (simp_all add: audit_frame)

lemma lives_init_lock: "steps (lives eyes) (init_replica_lock E cfg n)"
  unfolding init_replica_lock_def engine_replica_def by (intro life_rules life_services) (simp_all add: audit_frame)

lemma lives_request:
  "steps (lives (require_four_eyes_restore (protection cfg))) (request_restore cfg sid rq tp tn opts)"
  unfolding request_restore_def engine_platform_def Let_def
  by (intro life_rules life_services stages_create)

lemma lives_approve: "steps (lives eyes) (approve_request cfg i a)"
  unfolding approve_request_def by (intro lives_try_db stages_approve)


text \<open>The two ends of \<open>import_vm\<close>: after a success, and in the handler. Both finish the request.\<close>

lemma stages_rmtree: "\<exists>u. rmtree E b s = (Inr (), u) \<and> stages (database u) = stages (database s)"
  using rmtree_returns [of E b s] by fastforce

lemma succeeds:
  assumes "stages (database s) i \<noteq> None"
  shows "\<exists>x u. then_act (change (finish_restore i True result None))
      (then_act (change (audit a b c d e)) (then_act (rmtree E path) (ret y))) s = (Inr x, u) \<and>
    stages (database u) = (stages (database s))(i \<mapsto> Succeeded)"
proof -
  let ?t = "s\<lparr>database := audit a b c d e (finish_restore i True result None (database s))\<rparr>"
  obtain u where "rmtree E path ?t = (Inr (), u)" "stages (database u) = stages (database ?t)"
    using stages_rmtree by blast
  then show ?thesis using stages_finish [OF assms, of True result None]
    by (auto simp: then_act_def bind_act_def change_def ret_def)
qed

lemma fails:
  assumes "stages (database s) i \<noteq> None"
  shows "stages (database (snd (then_act (change (finish_restore i False result err))
      (then_act (change (audit a b c d e)) (then_act (when_act k (rmtree E path)) (throw x))) s))) =
    (stages (database s))(i \<mapsto> Failed)"
proof -
  let ?t = "s\<lparr>database := audit a b c d e (finish_restore i False result err (database s))\<rparr>"
  obtain u where "rmtree E path ?t = (Inr (), u)" "stages (database u) = stages (database ?t)"
    using stages_rmtree by blast
  then show ?thesis using stages_finish [OF assms, of False result err]
    by (auto simp: then_act_def bind_act_def change_def throw_def when_act_def ret_def)
qed

lemma import_settles:
  assumes known: "stages (database s) i \<noteq> None"
  shows "\<exists>ok. stages (database (snd (import_vm E cfg i actor target p req opts src replica s))) =
    (stages (database s))(i \<mapsto> (if ok then Succeeded else Failed))"
proof -
  obtain r t where stage: "stage_snapshot E cfg ''recovery point manifest verification failed: '' i p replica s = (r, t)"
    by force
  have t: "stages (database t) = stages (database s)" by (rule service_stages [OF service_stage stage])
  show ?thesis
  proof (cases r)
    case (Inl e)
    then show ?thesis using fails [of t i] stage t known
      by (intro exI [of _ False]) (simp add: import_vm_def catch_def bind_act_def)
  next
    case (Inr path)
    let ?c = "Adapter (pl_name target) (RestoreVm path (q_target_name req) opts)"
    let ?t = "t\<lparr>trace := trace t @ [?c]\<rparr>"
    show ?thesis
    proof (cases "json_reply E (trace t) ?c")
      case (Inl e)
      then show ?thesis using fails [of ?t i] stage t known \<open>r = Inr path\<close>
        by (intro exI [of _ False]) (simp add: import_vm_def catch_def bind_act_def ask_def)
    next
      case (Inr answer)
      obtain x u where "then_act (change (finish_restore i True (json_or_empty (with_source src answer)) None))
          (then_act (change (audit actor ''restore.complete'' ''restore_request'' (show_nat i) (with_source src answer)))
          (then_act (rmtree E (restore_root cfg i)) (ret (with_source src answer)))) ?t = (Inr x, u)"
        "stages (database u) = (stages (database ?t))(i \<mapsto> Succeeded)"
        using succeeds [of ?t i] t known by fastforce
      then show ?thesis using stage t \<open>r = Inr path\<close> Inr
        by (intro exI [of _ True]) (simp add: import_vm_def catch_def bind_act_def ask_def Let_def)
    qed
  qed
qed

lemma lives_start:
  "steps (lives eyes) (bind_act (try_db (start_restore i actor))
     (\<lambda>started. import_vm E cfg i actor target p started opts src replica))"
proof (rule lives.stepsI)
  fix u :: sys
  obtain r d where start: "start_restore i actor (database u) = (r, d)" by force
  show "lives eyes u (snd (bind_act (try_db (start_restore i actor))
      (\<lambda>started. import_vm E cfg i actor target p started opts src replica) u))"
  proof (cases r)
    case (Inl e)
    then show ?thesis using start start_Inl [of i actor "database u" e d] by (simp add: bind_act_def try_db_def lives_def)
  next
    case (Inr q)
    note s = stages_start [OF start [unfolded Inr]]
    obtain ok where "stages (database (snd (import_vm E cfg i actor target p q opts src replica (u\<lparr>database := d\<rparr>)))) =
        (stages d)(i \<mapsto> (if ok then Succeeded else Failed))"
      using import_settles [of "u\<lparr>database := d\<rparr>" i] s(1) by fastforce
    then show ?thesis
      using start Inr s(1) life_step.execute [of "stages (database u)" i eyes ok] s(2) by (auto simp: bind_act_def try_db_def lives_def)
  qed
qed

lemma lives_execute: "steps (lives eyes) (execute_restore E cfg i actor dry)"
  unfolding execute_restore_def engine_platform_def build_adapter_def restore_preflight_def adapter_doctor_def
  by (intro lives_start life_rules life_services) (simp_all add: audit_frame)

lemma perform_lives: "lives (require_four_eyes_restore (protection cfg)) s (perform E cfg op s)"
proof -
  have "lives eyes s (discard m s)" if "steps (lives eyes) m" for eyes and m :: "'x act"
    using that by (simp add: steps_def discard_def)
  note ok = this [of "require_four_eyes_restore (protection cfg)"]
  show ?thesis
    by (cases op) (simp_all add: ok lives_backup_all lives_engine_retention lives_hold lives_request lives_approve
        lives_execute lives_verify lives_init lives_init_lock)
qed

lemma reachable_settled: "reachable cfg s \<Longrightarrow> settled (stages (database s))"
proof (induction rule: reachable.induct)
  case (start clk)
  show ?case by (simp add: settled_def stages_def get_restore_request_def create_schema_def row_by_def)
next
  case (step s E op)
  then show ?case using perform_lives settled_steps unfolding lives_def by blast
qed

section \<open>The property\<close>

text \<open>
  C6. Refinement: every operation of the engine, in any reachable state and against any environment, moves the
  stored stages of the restore requests by a sequence of steps of the abstract life cycle (submission as pending,
  or ready without the four-eyes policy; approval of a pending request; execution of an approved or ready one to
  success or failure). No operation leaves a request running, and none changes a request that has ended.
\<close>

theorem request_life_refined:
  assumes "reachable cfg s"
  shows "(life_step (require_four_eyes_restore (protection cfg)))\<^sup>*\<^sup>*
      (stages (database s)) (stages (database (perform E cfg op s))) \<and>
    (\<forall>i. stages (database (perform E cfg op s)) i \<noteq> Some Running) \<and>
    (\<forall>i. stages (database s) i \<in> {Some Succeeded, Some Failed} \<longrightarrow>
      stages (database (perform E cfg op s)) i = stages (database s) i)"
proof -
  have run: "(life_step (require_four_eyes_restore (protection cfg)))\<^sup>*\<^sup>*
      (stages (database s)) (stages (database (perform E cfg op s)))"
    using perform_lives by (simp add: lives_def)
  moreover have "settled (stages (database (perform E cfg op s)))"
    using settled_steps [OF run reachable_settled [OF assms]] .
  ultimately show ?thesis using final_steps [OF run] by (auto simp: settled_def)
qed

theorem request_life_refined_witness:
  "stages (database (perform sample_env sample_config (Execute 1 ''bob'' False)
     \<lparr>database = create_schema int, trace = [], memory = []\<rparr>)) 1 \<noteq> Some Running"
  using request_life_refined [OF reachable.start, where op = "Execute 1 ''bob'' False"] by blast

end
