(* ===== verification/Config_Read.thy ===== *)
theory Config_Read
  imports Settings Py_Values
begin

text \<open>
  How the configuration loaders read the parsed YAML document (a JSON-like value): sections, required
  keys, bounded integers, texts and lists. Fields that Python passes through unchecked but that the
  dataclass declares as texts (certificate paths, the ssh user, name patterns) must be texts here;
  another scalar is rejected, where Python would keep it until it is used.
\<close>

section \<open>Objects and lists\<close>

definition no_attribute :: exc where
  "no_attribute = OtherError ''object has no attribute get''"

text \<open>A value on which \<open>.get\<close> is called.\<close>

definition attrs :: "json \<Rightarrow> (string \<times> json) list res" where
  "attrs v = (case v of JObj kvs \<Rightarrow> Inr kvs | _ \<Rightarrow> Inl no_attribute)"

text \<open>\<open>raw.get(key) or {}\<close>, to be read with \<open>.get\<close> again.\<close>

definition section_of :: "(string \<times> json) list \<Rightarrow> string \<Rightarrow> (string \<times> json) list res" where
  "section_of raw key = attrs (or_else (map_of raw key) (JObj []))"

text \<open>The elements \<open>for x in v\<close> and \<open>list(v)\<close> run through.\<close>

definition items_of :: "json \<Rightarrow> json list res" where
  "items_of v =
     (case v of
        JList xs \<Rightarrow> Inr xs
      | JObj kvs \<Rightarrow> Inr (map (\<lambda>kv. JStr (fst kv)) kvs)
      | JStr s \<Rightarrow> Inr (map (\<lambda>c. JStr [c]) s)
      | _ \<Rightarrow> Inl (TypeError ''object is not iterable''))"

definition texts_of :: "json \<Rightarrow> string list res" where
  "texts_of v = bind_res (items_of v) (map_res (\<lambda>x. case x of JStr s \<Rightarrow> Inr s
     | _ \<Rightarrow> Inl (TypeError ''expected a text'')))"

text \<open>\<open>dict(v)\<close>: a mapping, or a sequence of pairs with texts first.\<close>

definition pair_of :: "json \<Rightarrow> (string \<times> json) res" where
  "pair_of v =
     (case v of
        JList [JStr k, x] \<Rightarrow> Inr (k, x)
      | JStr [a, b] \<Rightarrow> Inr ([a], JStr [b])
      | _ \<Rightarrow> Inl (TypeError ''cannot convert dictionary update sequence element''))"

definition dict_value :: "json \<Rightarrow> (string \<times> json) list res" where
  "dict_value v =
     (case v of
        JObj kvs \<Rightarrow> Inr kvs
      | _ \<Rightarrow> bind_res (items_of v) (\<lambda>xs. bind_res (map_res pair_of xs) (\<lambda>kvs. Inr (dict_of kvs))))"

section \<open>Fields\<close>

text \<open>\<open>_require\<close>: present and neither null nor the empty text.\<close>

definition require :: "(string \<times> json) list \<Rightarrow> string \<Rightarrow> json res" where
  "require mapping key =
     (case map_of mapping key of
        None \<Rightarrow> Inl (ValueError (''missing required config key: '' @ key))
      | Some v \<Rightarrow> if v = JNull \<or> v = JStr [] then Inl (ValueError (''missing required config key: '' @ key))
                  else Inr v)"

definition require_text :: "(string \<times> json) list \<Rightarrow> string \<Rightarrow> string res" where
  "require_text mapping key = bind_res (require mapping key) (\<lambda>v. Inr (py_str v))"

text \<open>\<open>_positive_int(value, name, minimum=...)\<close>.\<close>

definition positive_int :: "json \<Rightarrow> string \<Rightarrow> int \<Rightarrow> int res" where
  "positive_int v name minimum =
     bind_res (py_int v) (\<lambda>n. check_res (minimum \<le> n) (ValueError (name @ '' must be >= '' @ show_int minimum)) (Inr n))"

definition int_key :: "(string \<times> json) list \<Rightarrow> string \<Rightarrow> int \<Rightarrow> int res" where
  "int_key raw key d = py_int (get_or raw key (JInt d))"

definition bool_key :: "(string \<times> json) list \<Rightarrow> string \<Rightarrow> bool \<Rightarrow> bool" where
  "bool_key raw key d = jtruthy (get_or raw key (JBool d))"

definition text_key :: "(string \<times> json) list \<Rightarrow> string \<Rightarrow> string \<Rightarrow> string" where
  "text_key raw key d = py_str (get_or raw key (JStr d))"

text \<open>\<open>str(item.get(k)) if item.get(k) else None\<close>, and a text passed through unchecked.\<close>

definition opt_key :: "(string \<times> json) list \<Rightarrow> string \<Rightarrow> string option" where
  "opt_key raw key = text_opt (map_of raw key)"

definition plain_key :: "(string \<times> json) list \<Rightarrow> string \<Rightarrow> string option res" where
  "plain_key raw key =
     (case map_of raw key of
        None \<Rightarrow> Inr None
      | Some JNull \<Rightarrow> Inr None
      | Some (JStr s) \<Rightarrow> Inr (Some s)
      | Some _ \<Rightarrow> Inl (TypeError ''expected a text''))"

text \<open>An integer between bounds, rejected with the given message otherwise.\<close>

definition between :: "int \<Rightarrow> int \<Rightarrow> string \<Rightarrow> int res \<Rightarrow> int res" where
  "between lo hi msg r = bind_res r (\<lambda>n. check_res (lo \<le> n \<and> n \<le> hi) (ValueError msg) (Inr n))"

definition upper_char :: "char \<Rightarrow> char" where
  "upper_char c = (if CHR ''a'' \<le> c \<and> c \<le> CHR ''z'' then char_of (of_char c - (32::nat)) else c)"

definition upper :: "string \<Rightarrow> string" where
  "upper s = map upper_char s"

lemma positive_int_Inr [simp]: "positive_int v name m = Inr n \<longleftrightarrow> py_int v = Inr n \<and> m \<le> n"
  by (auto simp: positive_int_def)

lemma between_Inr [simp]: "between lo hi msg r = Inr n \<longleftrightarrow> r = Inr n \<and> lo \<le> n \<and> n \<le> hi"
  by (auto simp: between_def)

end
