(* ===== verification/Config_Load.thy ===== *)
theory Config_Load
  imports Config_Read
begin

text \<open>
  The parts of \<open>load_config\<close> (\<open>config.py\<close>) up to the disaster-recovery section, each as a function from
  its section of the document to the record or the error raised, in the order of the source.
\<close>

section \<open>Repository and runtime\<close>

definition parse_retention :: "(string \<times> json) list \<Rightarrow> retention_config res" where
  "parse_retention repo_raw =
     bind_res (section_of repo_raw ''retention'') (\<lambda>retention_raw.
     bind_res (py_int (get_or repo_raw ''retention_days'' (get_or retention_raw ''keep_within_days'' (JInt 30)))) (\<lambda>days.
     check_res (1 \<le> days) (ValueError ''repository.retention_days must be >= 1'')
     (bind_res (between 0 100 ''repository.verify_percent must be between 0 and 100'' (int_key repo_raw ''verify_percent'' 5)) (\<lambda>_.
      bind_res (positive_int (get_or retention_raw ''keep_within_days'' (JInt days)) ''keep_within_days'' 1) (\<lambda>kw.
      bind_res (positive_int (get_or retention_raw ''keep_daily'' (JInt 30)) ''keep_daily'' 0) (\<lambda>kd.
      bind_res (positive_int (get_or retention_raw ''keep_weekly'' (JInt 8)) ''keep_weekly'' 0) (\<lambda>kwk.
      bind_res (positive_int (get_or retention_raw ''keep_monthly'' (JInt 12)) ''keep_monthly'' 0) (\<lambda>km.
      bind_res (positive_int (get_or retention_raw ''keep_yearly'' (JInt 3)) ''keep_yearly'' 0) (\<lambda>ky.
      bind_res (positive_int (get_or retention_raw ''min_restore_points'' (JInt 2)) ''min_restore_points'' 1) (\<lambda>mr.
        Inr \<lparr>keep_within_days = kw, keep_daily = kd, keep_weekly = kwk, keep_monthly = km, keep_yearly = ky,
             min_restore_points = mr\<rparr>))))))))))"

definition parse_repository :: "(string \<times> json) list \<Rightarrow> repository_config res" where
  "parse_repository repo_raw =
     bind_res (parse_retention repo_raw) (\<lambda>rc.
     bind_res (int_key repo_raw ''verify_percent'' 5) (\<lambda>verify.
     bind_res (require_text repo_raw ''url'') (\<lambda>url.
     bind_res (require_text repo_raw ''local_path'') (\<lambda>local.
     bind_res (require_text repo_raw ''staging_path'') (\<lambda>staging.
     bind_res (plain_key repo_raw ''cacert'') (\<lambda>cacert.
       Inr \<lparr>repo_url = url, local_path = local, staging_path = staging, retention_days = keep_within_days rc,
            verify_percent = verify, repo_cacert = cacert,
            lock_file = text_key repo_raw ''lock_file'' ''/run/lock/immutavault.lock'', repo_retention = rc\<rparr>))))))"

definition parse_runtime :: "(string \<times> json) list \<Rightarrow> runtime_config res" where
  "parse_runtime raw =
     bind_res (between 0 95 ''runtime.staging_min_free_percent must be between 0 and 95''
        (int_key raw ''staging_min_free_percent'' 10)) (\<lambda>free_pct.
     bind_res (int_key raw ''command_timeout_seconds'' 14400) (\<lambda>command_timeout.
     check_res (30 \<le> command_timeout) (ValueError ''runtime.command_timeout_seconds must be >= 30'')
     (bind_res (positive_int (get_or raw ''state_backup_keep'' (JInt 288)) ''runtime.state_backup_keep'' 1) (\<lambda>keep.
       Inr \<lparr>state_db = text_key raw ''state_db'' ''/var/lib/immutavault/state.db'',
            command_timeout_seconds = command_timeout,
            keep_staging_on_failure = bool_key raw ''keep_staging_on_failure'' True,
            restore_staging_path = text_key raw ''restore_staging_path'' ''/srv/immutavault/restore-staging'',
            verify_staging_path = text_key raw ''verify_staging_path'' ''/srv/immutavault/verify-staging'',
            staging_min_free_percent = free_pct,
            state_backup_path = text_key raw ''state_backup_path'' ''/var/lib/immutavault/state-backups'',
            state_backup_keep = keep\<rparr>))))"

section \<open>Protection and portal\<close>

definition ratio_key :: "(string \<times> json) list \<Rightarrow> string \<Rightarrow> string \<Rightarrow> rat res" where
  "ratio_key raw key d = py_float (get_or raw key (JFloat d))"

definition parse_protection :: "int \<Rightarrow> (string \<times> json) list \<Rightarrow> protection_config res" where
  "parse_protection within_days raw =
     bind_res (ratio_key raw ''anomaly_data_added_ratio'' ''0.7'') (\<lambda>added_ratio.
     bind_res (ratio_key raw ''anomaly_size_change_ratio'' ''0.5'') (\<lambda>size_ratio.
     check_res (0 \<le> added_ratio \<and> added_ratio \<le> 10)
       (ValueError ''protection.anomaly_data_added_ratio must be between 0 and 10'')
     (check_res (0 \<le> size_ratio \<and> size_ratio \<le> 10)
       (ValueError ''protection.anomaly_size_change_ratio must be between 0 and 10'')
     (bind_res (int_key raw ''preserve_suspicious_points_days'' 90) (\<lambda>preserve_days.
      check_res (within_days \<le> preserve_days)
       (ValueError ''protection.preserve_suspicious_points_days must be >= repository retention keep_within_days'')
     (bind_res (between 1 10080 ''protection.rpo_target_minutes must be between 1 and 10080''
        (int_key raw ''rpo_target_minutes'' 1440)) (\<lambda>rpo.
       Inr \<lparr>rpo_target_minutes = rpo, anomaly_data_added_ratio = added_ratio, anomaly_size_change_ratio = size_ratio,
            preserve_suspicious_points_days = preserve_days,
            verify_after_backup = bool_key raw ''verify_after_backup'' False,
            require_four_eyes_restore = bool_key raw ''require_four_eyes_restore'' True\<rparr>)))))))"

definition allowed_roles :: "string list" where
  "allowed_roles = [''viewer'', ''restore_operator'', ''approver'', ''admin'']"

definition parse_user :: "json \<Rightarrow> portal_user_config res" where
  "parse_user v =
     bind_res (attrs v) (\<lambda>item.
     let role = lower (text_key item ''role'' ''viewer'')
     in check_res (List.member allowed_roles role) (ValueError (''unsupported portal role: '' @ role))
       (bind_res (require_text item ''name'') (\<lambda>name.
        bind_res (require_text item ''token_env'') (\<lambda>token.
        bind_res (texts_of (get_or item ''sources'' (JList [JStr ''*'']))) (\<lambda>sources.
        bind_res (texts_of (get_or item ''vm_patterns'' (JList [JStr ''*'']))) (\<lambda>patterns.
          Inr \<lparr>pu_name = name, pu_role = role, pu_token_env = token, pu_sources = sources,
               pu_vm_patterns = patterns\<rparr>))))))"

definition parse_portal :: "(string \<times> json) list \<Rightarrow> portal_config res" where
  "parse_portal raw =
     bind_res (items_of (or_else (Some (get_or raw ''users'' (JList []))) (JList []))) (\<lambda>rows.
     bind_res (map_res parse_user rows) (\<lambda>users.
     bind_res (between 1 65535 ''portal.port must be between 1 and 65535'' (int_key raw ''port'' 8787)) (\<lambda>port.
     bind_res (plain_key raw ''tls_cert'') (\<lambda>cert.
     bind_res (plain_key raw ''tls_key'') (\<lambda>key.
       Inr \<lparr>po_enabled = bool_key raw ''enabled'' True, po_listen = text_key raw ''listen'' ''127.0.0.1'',
            po_port = port, po_tls_cert = cert, po_tls_key = key, po_users = users\<rparr>)))))"

text \<open>\<open>_positive_int(..., minimum=1)\<close> followed by an upper bound.\<close>

definition capped :: "(string \<times> json) list \<Rightarrow> string \<Rightarrow> int \<Rightarrow> int \<Rightarrow> string \<Rightarrow> int res" where
  "capped raw key d most text =
     bind_res (positive_int (get_or raw key (JInt d)) (''flr.'' @ key) 1) (\<lambda>n.
       check_res (n \<le> most) (ValueError (''flr.'' @ key @ '' must be <= '' @ text)) (Inr n))"

definition parse_flr :: "(string \<times> json) list \<Rightarrow> flr_config res" where
  "parse_flr raw =
     (let mroot = text_key raw ''mount_root'' ''/srv/immutavault/flr''
      in check_res (starts_with ''/'' mroot) (ValueError ''flr.mount_root must be an absolute path'')
       (bind_res (capped raw ''session_ttl_minutes'' 30 240 ''240'') (\<lambda>ttl.
        bind_res (capped raw ''max_download_bytes'' (5 * 1024 * 1024 * 1024) (1024 * 1024 * 1024 * 1024) ''1 TiB'') (\<lambda>download.
        bind_res (capped raw ''max_sessions_per_user'' 2 16 ''16'') (\<lambda>sessions.
        bind_res (capped raw ''max_disks'' 16 64 ''64'') (\<lambda>disks.
        bind_res (capped raw ''mount_wait_seconds'' 30 180 ''180'') (\<lambda>wait.
          Inr \<lparr>flr_enabled = bool_key raw ''enabled'' True, mount_root = mroot, session_ttl_minutes = ttl,
               max_download_bytes = download, max_sessions_per_user = sessions, max_disks = disks,
               mount_wait_seconds = wait\<rparr>)))))))"

section \<open>Platforms and replicas\<close>

definition allowed_types :: "string list" where
  "allowed_types = [''vmware'', ''proxmox'', ''xcpng'']"

definition parse_platform :: "json \<Rightarrow> platform_config res" where
  "parse_platform v =
     bind_res (attrs v) (\<lambda>item.
     bind_res (require_text item ''type'') (\<lambda>raw_type.
     let ptype = lower raw_type
     in check_res (List.member allowed_types ptype) (ValueError (''unsupported platform type: '' @ ptype))
       (bind_res (require_text item ''name'') (\<lambda>name.
        bind_res (require_text item ''endpoint'') (\<lambda>endpoint.
        bind_res (plain_key item ''ssh_user'') (\<lambda>user.
        bind_res (texts_of (get_or item ''include'' (JList [JStr ''*'']))) (\<lambda>incl.
        bind_res (texts_of (get_or item ''exclude'' (JList []))) (\<lambda>excl.
        bind_res (dict_value (get_or item ''options'' (JObj []))) (\<lambda>opts.
          Inr \<lparr>pl_name = name, pl_type = ptype, pl_endpoint = endpoint, pl_enabled = bool_key item ''enabled'' True,
               pl_mode = text_key item ''mode'' ''export'', pl_ssh_user = user, pl_include = incl, pl_exclude = excl,
               pl_options = opts\<rparr>)))))))))"

definition parse_platforms :: "json \<Rightarrow> platform_config list res" where
  "parse_platforms v =
     bind_res (items_of v) (\<lambda>rows.
     bind_res (map_res parse_platform rows) (\<lambda>ps.
       check_res (distinct (map pl_name ps)) (ValueError ''platform names must be unique'') (Inr ps)))"

definition allowed_backends :: "string list" where
  "allowed_backends = [''rest'', ''filesystem'', ''s3'']"

definition allowed_s3_providers :: "string list" where
  "allowed_s3_providers = [''custom'', ''aws'', ''wasabi'', ''idrive_e2'', ''backblaze_b2'', ''cloudflare_r2'',
     ''minio'', ''ceph'']"

definition has_value :: "(string \<times> json) list \<Rightarrow> string \<Rightarrow> bool" where
  "has_value item key = (case map_of item key of None \<Rightarrow> False | Some v \<Rightarrow> jtruthy v)"

text \<open>The checks of a replica before its record is built: backend, provider, location, lock flags.\<close>

definition check_replica :: "(string \<times> json) list \<Rightarrow> 'a res \<Rightarrow> 'a res" where
  "check_replica item k =
     (let backend = lower (text_key item ''backend'' ''rest'');
          provider = lower (text_key item ''provider'' ''custom'');
          who = ''replica '' @ text_key item ''name'' ''?'';
          object_lock = bool_key item ''object_lock_enabled'' False;
          r2_lock = bool_key item ''r2_bucket_lock_enabled'' False;
          mode = upper (text_key item ''object_lock_mode'' ''COMPLIANCE'')
      in check_res (List.member allowed_backends backend) (ValueError (''unsupported replica backend: '' @ backend))
       (check_res (List.member allowed_s3_providers provider) (ValueError (''unsupported S3 provider preset: '' @ provider))
       (check_res (backend = ''rest'' \<longrightarrow> has_value item ''url'') (ValueError (who @ '': url is required for rest backend''))
       (check_res (backend = ''filesystem'' \<longrightarrow> has_value item ''path'')
          (ValueError (who @ '': path is required for filesystem backend''))
       (check_res (backend = ''s3'' \<longrightarrow> has_value item ''endpoint'' \<and> has_value item ''bucket'')
          (ValueError (who @ '': endpoint and bucket are required for s3 backend''))
       (check_res (\<not> (object_lock \<and> provider = ''cloudflare_r2''))
          (ValueError ''Cloudflare R2 does not expose S3 Object Lock; use r2_bucket_lock_enabled for Cloudflare-native Bucket Locks'')
       (check_res (\<not> (r2_lock \<and> provider \<noteq> ''cloudflare_r2''))
          (ValueError ''r2_bucket_lock_enabled is valid only for provider=cloudflare_r2'')
       (check_res (List.member [''COMPLIANCE'', ''GOVERNANCE''] mode)
          (ValueError ''object_lock_mode must be COMPLIANCE or GOVERNANCE'') k))))))))"

definition parse_replica :: "int \<Rightarrow> json \<Rightarrow> replica_config res" where
  "parse_replica within_days v =
     bind_res (attrs v) (\<lambda>item. check_replica item
     (bind_res (positive_int (get_or item ''object_lock_days'' (JInt within_days)) ''object_lock_days'' 1) (\<lambda>lock_days.
      bind_res (positive_int (get_or item ''r2_bucket_lock_days'' (JInt within_days)) ''r2_bucket_lock_days'' 1) (\<lambda>r2_days.
      let lookup = lower (text_key item ''bucket_lookup'' ''path'')
      in check_res (List.member [''auto'', ''dns'', ''path''] lookup) (ValueError ''bucket_lookup must be auto, dns, or path'')
       (bind_res (require_text item ''name'') (\<lambda>name.
        bind_res (plain_key item ''cacert'') (\<lambda>cacert.
        bind_res (positive_int (get_or item ''connections'' (JInt 10)) ''connections'' 1) (\<lambda>conns.
          Inr \<lparr>rp_name = name, rp_backend = lower (text_key item ''backend'' ''rest''), rp_url = opt_key item ''url'',
               rp_path = opt_key item ''path'', rp_enabled = bool_key item ''enabled'' True, rp_cacert = cacert,
               rp_password_env = text_key item ''password_env'' ''RESTIC_REPLICA_PASSWORD'',
               rp_provider = lower (text_key item ''provider'' ''custom''), rp_endpoint = opt_key item ''endpoint'',
               rp_bucket = opt_key item ''bucket'', rp_prefix = strip ''/'' (text_key item ''prefix'' ''immutavault''),
               rp_region = opt_key item ''region'',
               rp_access_key_env = text_key item ''access_key_env'' ''AWS_ACCESS_KEY_ID'',
               rp_secret_key_env = text_key item ''secret_key_env'' ''AWS_SECRET_ACCESS_KEY'',
               rp_session_token_env = opt_key item ''session_token_env'', rp_bucket_lookup = lookup,
               rp_connections = conns, rp_mount_required = bool_key item ''mount_required'' False,
               rp_mount_type = opt_key item ''mount_type'', rp_mount_source = opt_key item ''mount_source'',
               rp_object_lock_enabled = bool_key item ''object_lock_enabled'' False,
               rp_object_lock_mode = upper (text_key item ''object_lock_mode'' ''COMPLIANCE''),
               rp_object_lock_days = lock_days, rp_r2_bucket_lock_enabled = bool_key item ''r2_bucket_lock_enabled'' False,
               rp_r2_bucket_lock_days = r2_days,
               rp_r2_lock_rule_id = text_key item ''r2_lock_rule_id'' ''immutavault-retention'',
               rp_r2_account_id_env = text_key item ''r2_account_id_env'' ''CLOUDFLARE_ACCOUNT_ID'',
               rp_r2_api_token_env = text_key item ''r2_api_token_env'' ''CLOUDFLARE_API_TOKEN''\<rparr>))))))))"

definition parse_replicas :: "int \<Rightarrow> json \<Rightarrow> replica_config list res" where
  "parse_replicas within_days v =
     bind_res (items_of v) (\<lambda>rows.
     bind_res (map_res (parse_replica within_days) rows) (\<lambda>rs.
       check_res (distinct (map rp_name rs)) (ValueError ''replica names must be unique'') (Inr rs)))"

text \<open>The references of an enabled disaster-recovery section to platforms and replicas.\<close>

definition check_workload :: "platform_config list \<Rightarrow> dr_vm_config \<Rightarrow> unit res" where
  "check_workload ps w =
     (let usable = (\<lambda>n. \<exists>p\<in>set ps. pl_name p = n \<and> pl_enabled p)
      in check_res (usable (wl_source_platform w))
           (ValueError (''DR workload '' @ wl_name w @ '': source platform '' @ repr_str (wl_source_platform w) @ '' is missing or disabled''))
        (check_res (usable (wl_target_platform w))
           (ValueError (''DR workload '' @ wl_name w @ '': target platform '' @ repr_str (wl_target_platform w) @ '' is missing or disabled''))
           (Inr ())))"

definition check_references :: "platform_config list \<Rightarrow> replica_config list \<Rightarrow> dr_config \<Rightarrow> unit res" where
  "check_references ps rs d =
     (if \<not> dr_enabled d then Inr ()
      else check_res (\<exists>r\<in>set rs. rp_name r = dr_replica d \<and> rp_enabled r)
             (ValueError (''DR replica '' @ repr_str (dr_replica d) @ '' must reference an enabled configured replica''))
             (bind_res (map_res (check_workload ps) (workloads d)) (\<lambda>_. Inr ())))"

end
