(* ===== verification/Ip_Address.thy ===== *)
theory Ip_Address
  imports Py_Values
begin

text \<open>
  What the code uses of Python's \<open>ipaddress\<close> module: addresses, networks and interfaces of both
  versions, parsed and printed as the library does it (up to Python 3.12 for IPv4-mapped addresses).
  IPv6 zone suffixes (\<open>%eth0\<close>) are outside the model and are rejected. The lemmas show that a printed
  IPv4 address reads back, and that networks which do not overlap share no address.
\<close>

section \<open>Addresses\<close>

datatype ip = V4 nat | V6 nat

definition octet :: "string \<Rightarrow> nat option" where
  "octet s =
     (if s = [] \<or> \<not> list_all is_digit s \<or> 3 < length s \<or> 1 < length s \<and> hd s = CHR ''0'' then None
      else let n = digits_nat s in if n \<le> 255 then Some n else None)"

definition from_parts :: "nat \<Rightarrow> nat list \<Rightarrow> nat" where
  "from_parts b ns = foldl (\<lambda>a n. a * b + n) 0 ns"

definition read_ipv4 :: "string \<Rightarrow> nat option" where
  "read_ipv4 s =
     (let os = split_on (CHR ''.'') s
      in if length os \<noteq> 4 then None else map_option (from_parts 256) (those (map octet os)))"

definition hex_value :: "char \<Rightarrow> nat option" where
  "hex_value c =
     (if is_digit c then Some (of_char c - 48)
      else if CHR ''a'' \<le> c \<and> c \<le> CHR ''f'' then Some (of_char c - 87)
      else if CHR ''A'' \<le> c \<and> c \<le> CHR ''F'' then Some (of_char c - 55) else None)"

fun hex_nat :: "nat \<Rightarrow> string \<Rightarrow> nat option" where
  "hex_nat acc [] = Some acc"
| "hex_nat acc (c # cs) = (case hex_value c of None \<Rightarrow> None | Some d \<Rightarrow> hex_nat (16 * acc + d) cs)"

definition hextet :: "string \<Rightarrow> nat option" where
  "hextet s = (if s = [] \<or> 4 < length s then None else hex_nat 0 s)"

text \<open>\<open>'%x' % n\<close>.\<close>

fun show_hex :: "nat \<Rightarrow> string" where
  "show_hex n = (if n < 16 then [hex_digit n] else show_hex (n div 16) @ [hex_digit (n mod 16)])"

declare show_hex.simps [simp del]

text \<open>The index of an empty inner part (\<open>::\<close>), or a failure when there are two.\<close>

definition skip_index :: "string list \<Rightarrow> nat option option" where
  "skip_index parts =
     (case filter (\<lambda>i. parts ! i = []) [1..<length parts - 1] of
        [] \<Rightarrow> Some None
      | [i] \<Rightarrow> Some (Some i)
      | _ \<Rightarrow> None)"

definition hextets_of :: "string list \<Rightarrow> nat list option" where
  "hextets_of parts =
     (case skip_index parts of
        None \<Rightarrow> None
      | Some None \<Rightarrow> if length parts = 8 then those (map hextet parts) else None
      | Some (Some i) \<Rightarrow>
          let hi = (if parts ! 0 = [] then i - 1 else i);
              lo = (if last parts = [] then length parts - i - 2 else length parts - i - 1)
          in if parts ! 0 = [] \<and> hi \<noteq> 0 \<or> last parts = [] \<and> lo \<noteq> 0 \<or> 8 < hi + lo + 1 then None
             else case (those (map hextet (take hi parts)), those (map hextet (drop (length parts - lo) parts))) of
                    (Some a, Some b) \<Rightarrow> Some (a @ replicate (8 - (hi + lo)) 0 @ b)
                  | _ \<Rightarrow> None)"

definition read_ipv6 :: "string \<Rightarrow> nat option" where
  "read_ipv6 s =
     (let parts = split_on (CHR '':'') s;
          expanded = (if length parts < 3 then None
            else if List.member (last parts) (CHR ''.'')
            then map_option (\<lambda>n. butlast parts @ [show_hex (n div 65536), show_hex (n mod 65536)]) (read_ipv4 (last parts))
            else Some parts)
      in case expanded of
           None \<Rightarrow> None
         | Some ps \<Rightarrow> if 9 < length ps then None else map_option (from_parts 65536) (hextets_of ps))"

definition ip_address :: "string \<Rightarrow> ip option" where
  "ip_address s =
     (case read_ipv4 s of Some n \<Rightarrow> Some (V4 n) | None \<Rightarrow> map_option V6 (read_ipv6 s))"

definition show_ipv4 :: "nat \<Rightarrow> string" where
  "show_ipv4 n = join ''.'' (map show_nat [n div 16777216 mod 256, n div 65536 mod 256, n div 256 mod 256, n mod 256])"

text \<open>The longest run of zero hextets, the first one among equals: start and length.\<close>

fun best_run :: "nat \<Rightarrow> nat \<Rightarrow> nat \<times> nat \<Rightarrow> nat list \<Rightarrow> nat \<times> nat" where
  "best_run i len best [] = best"
| "best_run i len best (h # hs) =
     (if h = 0
      then best_run (Suc i) (Suc len) (if snd best < Suc len then (i - len, Suc len) else best) hs
      else best_run (Suc i) 0 best hs)"

definition show_ipv6 :: "nat \<Rightarrow> string" where
  "show_ipv6 n =
     (let hs = map (\<lambda>k. n div 65536 ^ (7 - k) mod 65536) [0..<8];
          (start, len) = best_run 0 0 (0, 0) hs;
          ts = map show_hex hs
      in if len \<le> 1 then join '':'' ts
         else join '':'' ((if start = 0 then [[]] else []) @ take start ts @ [[]] @ drop (start + len) ts
                @ (if start + len = 8 then [[]] else [])))"

definition show_ip :: "ip \<Rightarrow> string" where
  "show_ip a = (case a of V4 n \<Rightarrow> show_ipv4 n | V6 n \<Rightarrow> show_ipv6 n)"

section \<open>Networks\<close>

record ip_net =
  n_v6 :: bool
  n_addr :: nat
  n_prefix :: nat

definition ip_bits :: "bool \<Rightarrow> nat" where
  "ip_bits v6 = (if v6 then 128 else 32)"

text \<open>A prefix length, or for IPv4 a net mask or a host mask.\<close>

definition read_prefix :: "bool \<Rightarrow> string \<Rightarrow> nat option" where
  "read_prefix v6 s =
     (if s \<noteq> [] \<and> list_all is_digit s \<and> digits_nat s \<le> ip_bits v6 then Some (digits_nat s)
      else if v6 then None
      else (case read_ipv4 s of
          None \<Rightarrow> None
        | Some m \<Rightarrow>
            (case find (\<lambda>p. m = 2 ^ 32 - 2 ^ (32 - p)) [0..<33] of
               Some p \<Rightarrow> Some p
             | None \<Rightarrow> find (\<lambda>p. 2 ^ 32 - 1 - m = 2 ^ 32 - 2 ^ (32 - p)) [0..<33])))"

definition read_net :: "bool \<Rightarrow> string \<Rightarrow> ip_net option" where
  "read_net v6 s =
     (let parts = split_on (CHR ''/'') s; rd = (if v6 then read_ipv6 else read_ipv4)
      in if 2 < length parts then None
         else case (rd (parts ! 0), if length parts = 2 then read_prefix v6 (parts ! 1) else Some (ip_bits v6)) of
                (Some a, Some p) \<Rightarrow> Some \<lparr>n_v6 = v6, n_addr = a, n_prefix = p\<rparr>
              | _ \<Rightarrow> None)"

text \<open>\<open>ip_interface\<close>: the address with its prefix. \<open>ip_network\<close> also refuses set host bits.\<close>

definition ip_interface :: "string \<Rightarrow> ip_net option" where
  "ip_interface s = (case read_net False s of Some n \<Rightarrow> Some n | None \<Rightarrow> read_net True s)"

definition block :: "ip_net \<Rightarrow> nat" where
  "block n = 2 ^ (ip_bits (n_v6 n) - n_prefix n)"

definition network_of :: "ip_net \<Rightarrow> ip_net" where
  "network_of n = n\<lparr>n_addr := n_addr n div block n * block n\<rparr>"

definition show_net :: "ip_net \<Rightarrow> string" where
  "show_net n = show_ip (if n_v6 n then V6 (n_addr n) else V4 (n_addr n)) @ ''/'' @ show_nat (n_prefix n)"

definition ip_network :: "string \<Rightarrow> string + ip_net" where
  "ip_network s =
     (case ip_interface s of
        None \<Rightarrow> Inl (repr_str s @ '' does not appear to be an IPv4 or IPv6 network'')
      | Some n \<Rightarrow> if network_of n = n then Inr n else Inl (show_net n @ '' has host bits set''))"

definition in_net :: "bool \<times> nat \<Rightarrow> ip_net \<Rightarrow> bool" where
  "in_net a n \<longleftrightarrow> (case a of (v6, x) \<Rightarrow> v6 = n_v6 n \<and> x div block n = n_addr n div block n)"

definition first_in :: "ip_net \<Rightarrow> bool \<times> nat" where
  "first_in n = (n_v6 n, n_addr n)"

definition last_in :: "ip_net \<Rightarrow> bool \<times> nat" where
  "last_in n = (n_v6 n, n_addr n + (block n - 1))"

definition overlaps :: "ip_net \<Rightarrow> ip_net \<Rightarrow> bool" where
  "overlaps m n \<longleftrightarrow> in_net (first_in m) n \<or> in_net (last_in m) n \<or> in_net (first_in n) m \<or> in_net (last_in n) m"

section \<open>Networks that do not overlap are disjoint\<close>

lemma coarser_block:
  fixes x y :: nat
  assumes "h \<le> k" "x div 2 ^ h = y div 2 ^ h"
  shows "x div 2 ^ k = y div 2 ^ k"
proof -
  have "(2::nat) ^ k = 2 ^ h * 2 ^ (k - h)" using assms(1) by (simp flip: power_add)
  then show ?thesis using assms(2) by (metis div_mult2_eq)
qed

lemma overlaps_if_shared:
  assumes "in_net a m" "in_net a n"
  shows "overlaps m n"
proof -
  obtain v x where a: "a = (v, x)" by force
  let ?h = "\<lambda>n. ip_bits (n_v6 n) - n_prefix n"
  have same: "n_v6 m = v" "n_v6 n = v" "x div 2 ^ ?h m = n_addr m div 2 ^ ?h m" "x div 2 ^ ?h n = n_addr n div 2 ^ ?h n"
    using assms by (auto simp: in_net_def a block_def)
  consider "?h m \<le> ?h n" | "?h n \<le> ?h m" by linarith
  then show ?thesis
  proof cases
    case 1
    from coarser_block [OF this same(3)] same show ?thesis
      by (auto simp: overlaps_def in_net_def first_in_def block_def)
  next
    case 2
    from coarser_block [OF this same(4)] same show ?thesis
      by (auto simp: overlaps_def in_net_def first_in_def block_def)
  qed
qed

section \<open>Printed IPv4 addresses read back\<close>

lemma length_show_1: "k < 10 \<Longrightarrow> length (show_nat k) = 1"
  by (subst show_nat.simps) simp

lemma length_show_2: "k < 100 \<Longrightarrow> length (show_nat k) \<le> 2"
  using length_show_1 [of "k div 10"] by (subst show_nat.simps) auto

lemma length_show_3: "k < 1000 \<Longrightarrow> length (show_nat k) \<le> 3"
  using length_show_2 [of "k div 10"] by (subst show_nat.simps) auto

lemma octet_show:
  assumes "k < 256"
  shows "octet (show_nat k) = Some k \<and> CHR ''.'' \<notin> set (show_nat k)"
proof -
  have "\<not> is_digit (CHR ''.'')" by code_simp
  moreover have "length (show_nat k) = 1" if "k = 0" using that length_show_1 by simp
  moreover have "digits_nat (show_nat k) = k" by (simp add: digits_nat_def read_digits_show_nat)
  moreover have "length (show_nat k) \<le> 3" using length_show_3 [of k] assms by simp
  ultimately show ?thesis
    using show_nat_digits [of k] assms by (cases "k = 0") (auto simp: octet_def list_all_iff)
qed

lemma from_parts_256:
  assumes "n < 2 ^ 32"
  shows "from_parts 256 [n div 16777216 mod 256, n div 65536 mod 256, n div 256 mod 256, n mod 256] = n"
proof -
  let ?a = "n div 256" let ?b = "?a div 256" let ?c = "?b div 256"
  have d: "n div 65536 = ?b" "n div 16777216 = ?c" by (simp_all add: div_mult2_eq [symmetric])
  have "?c mod 256 = ?c" using assms by simp
  moreover have "?c * 256 + ?b mod 256 = ?b" "?b * 256 + ?a mod 256 = ?a" "?a * 256 + n mod 256 = n"
    by (rule div_mult_mod_eq)+
  ultimately show ?thesis by (simp only: from_parts_def d foldl.simps mult_zero_left add_0)
qed

lemma read_show_ipv4:
  assumes "n < 2 ^ 32"
  shows "read_ipv4 (show_ipv4 n) = Some n"
proof -
  let ?ks = "[n div 16777216 mod 256, n div 65536 mod 256, n div 256 mod 256, n mod 256]"
  have "list_all (\<lambda>k. k < 256) ?ks" by simp
  then have o: "those (map octet (map show_nat ?ks)) = Some ?ks" "list_all (\<lambda>w. CHR ''.'' \<notin> set w) (map show_nat ?ks)"
    using octet_show by simp_all
  have "split_on (CHR ''.'') (show_ipv4 n) = map show_nat ?ks"
    unfolding show_ipv4_def by (rule split_on_join) (simp, rule o)
  then show ?thesis
    unfolding read_ipv4_def Let_def using o(1) from_parts_256 [OF assms] by (simp del: list.map)
qed

end
