(* ===== verification/Dr_Config_Load.thy ===== *)
theory Dr_Config_Load
  imports Config_Read Ip_Address
begin

text \<open>
  \<open>parse_dr\<close> of \<open>dr_config.py\<close>: sites with their gateways, stretched networks, workloads, fencing and
  probes, with the checks in the order of the source. The loops that remember what they have seen are
  recursions over the rows with the seen values as arguments.
\<close>

section \<open>Health checks and addresses\<close>

definition text_or_empty :: "(string \<times> json) list \<Rightarrow> string \<Rightarrow> string" where
  "text_or_empty item key = py_str (or_else (map_of item key) (JStr []))"

definition list_key :: "(string \<times> json) list \<Rightarrow> string \<Rightarrow> json list res" where
  "list_key raw key = items_of (or_else (Some (get_or raw key (JList []))) (JList []))"

definition max_one :: "int res \<Rightarrow> int res" where
  "max_one r = bind_res r (\<lambda>n. Inr (max 1 n))"

definition parse_check :: "json \<Rightarrow> health_check_config res" where
  "parse_check v =
     bind_res (attrs v) (\<lambda>item.
     let kind = lower (text_key item ''type'' ''tcp''); host = opt_key item ''host''; url = opt_key item ''url''
     in check_res (List.member [''tcp'', ''http'', ''https'', ''icmp''] kind)
          (ValueError (''unsupported DR health check type: '' @ kind))
       (bind_res (case map_of item ''port'' of
            None \<Rightarrow> Inr None | Some JNull \<Rightarrow> Inr None | Some p \<Rightarrow> bind_res (py_int p) (\<lambda>n. Inr (Some n))) (\<lambda>port.
        check_res (case port of None \<Rightarrow> True | Some n \<Rightarrow> 1 \<le> n \<and> n \<le> 65535) (ValueError ''DR health check port must be between 1 and 65535'')
       (bind_res (between 100 599 ''DR health check expected_status must be between 100 and 599''
           (int_key item ''expected_status'' 200)) (\<lambda>code.
        check_res (\<not> (List.member [''tcp'', ''icmp''] kind \<and> host = None))
          (ValueError (kind @ '' DR health check requires host''))
       (check_res (\<not> (kind = ''tcp'' \<and> port = None)) (ValueError ''tcp DR health check requires port'')
       (check_res (\<not> (List.member [''http'', ''https''] kind \<and> url = None \<and> host = None))
          (ValueError (kind @ '' DR health check requires url or host''))
       (bind_res (max_one (int_key item ''timeout_seconds'' 5)) (\<lambda>timeout.
        bind_res (max_one (int_key item ''attempts'' 12)) (\<lambda>attempts.
        bind_res (max_one (int_key item ''interval_seconds'' 10)) (\<lambda>interval.
          Inr \<lparr>hc_type = kind, hc_host = host, hc_port = port, hc_url = url, hc_timeout_seconds = timeout,
               hc_expected_status = code, hc_attempts = attempts, hc_interval_seconds = interval\<rparr>)))))))))))"

definition validate_ip :: "string \<Rightarrow> string \<Rightarrow> string res" where
  "validate_ip v label =
     (case ip_address v of
        Some a \<Rightarrow> Inr (show_ip a)
      | None \<Rightarrow> Inl (ValueError (label @ '' must be a valid IP address'')))"

definition validate_router_id :: "string \<Rightarrow> string \<Rightarrow> string res" where
  "validate_router_id v label =
     (case ip_address v of
        Some (V4 n) \<Rightarrow> Inr (show_ipv4 n)
      | Some (V6 n) \<Rightarrow> Inl (ValueError (label @ '' must be an IPv4 address''))
      | None \<Rightarrow> Inl (ValueError (label @ '' must be a valid IPv4 router ID'')))"

text \<open>\<open>^[A-Za-z0-9_.:-]{1,15}$\<close>.\<close>

definition ifname_char :: "char \<Rightarrow> bool" where
  "ifname_char c \<longleftrightarrow> CHR ''A'' \<le> c \<and> c \<le> CHR ''Z'' \<or> CHR ''a'' \<le> c \<and> c \<le> CHR ''z'' \<or>
     CHR ''0'' \<le> c \<and> c \<le> CHR ''9'' \<or> List.member ''_.:-'' c"

definition ifname_ok :: "string \<Rightarrow> bool" where
  "ifname_ok s \<longleftrightarrow> list_all ifname_char s \<and> 1 \<le> length s \<and> length s \<le> 15"

definition validate_ifname :: "string \<Rightarrow> string \<Rightarrow> string res" where
  "validate_ifname v label =
     check_res (ifname_ok v) (ValueError (label @ '' must be a valid Linux interface name (1-15 safe characters)'')) (Inr v)"

definition check_area :: "string \<Rightarrow> string \<Rightarrow> unit res" where
  "check_area name area =
     (let label = ''DR site '' @ name @ '' ospf_area''
      in if List.member area (CHR ''.'') then bind_res (validate_router_id area label) (\<lambda>_. Inr ())
         else (case int_of_text area of
             Some n \<Rightarrow> check_res (0 \<le> n \<and> n \<le> 4294967295)
               (ValueError (label @ '' must be dotted IPv4 or 0-4294967295'')) (Inr ())
           | None \<Rightarrow> Inl (ValueError (label @ '' must be dotted IPv4 or 0-4294967295''))))"

section \<open>Sites\<close>

text \<open>An address that is validated only when it is given.\<close>

definition if_given :: "string \<Rightarrow> (string \<Rightarrow> string res) \<Rightarrow> string res" where
  "if_given s f = (if s = [] then Inr [] else f s)"

definition parse_site :: "bool \<Rightarrow> string list \<Rightarrow> string list \<Rightarrow> string list \<Rightarrow> json \<Rightarrow> dr_site_config res" where
  "parse_site enabled seen_sites seen_vteps seen_ids v =
     bind_res (attrs v) (\<lambda>item.
     let name = strip whitespace (text_or_empty item ''name''); who = ''DR site '' @ name
     in check_res (name \<noteq> []) (ValueError ''DR site name is required'')
       (check_res (\<not> List.member seen_sites name) (ValueError (''duplicate DR site name: '' @ name))
       (bind_res (section_of item ''gateway'') (\<lambda>gw.
        let host = strip whitespace (text_or_empty gw ''host'');
            vtep_raw = strip whitespace (text_key gw ''vtep_ip'' []);
            router_raw = strip whitespace (text_key gw ''router_id'' vtep_raw)
        in check_res (\<not> (enabled \<and> host = [])) (ValueError (who @ '' is missing gateway.host''))
       (check_res (\<not> (enabled \<and> vtep_raw = [])) (ValueError (who @ '' is missing gateway.vtep_ip''))
       (check_res (\<not> (enabled \<and> router_raw = [])) (ValueError (who @ '' is missing gateway.router_id''))
       (bind_res (if_given vtep_raw (\<lambda>s. validate_ip s (who @ '' gateway.vtep_ip''))) (\<lambda>vtep.
        bind_res (if_given router_raw (\<lambda>s. validate_router_id s (who @ '' gateway.router_id''))) (\<lambda>router_id.
        check_res (vtep = [] \<or> \<not> List.member seen_vteps vtep) (ValueError (''duplicate DR VTEP address: '' @ vtep))
       (check_res (router_id = [] \<or> \<not> List.member seen_ids router_id)
          (ValueError (''duplicate DR OSPF router ID: '' @ router_id))
       (bind_res (validate_ifname (text_key gw ''underlay_interface'' ''eth0'') (who @ '' underlay_interface'')) (\<lambda>underlay.
        bind_res (validate_ifname (text_key gw ''trunk_interface'' ''eth1'') (who @ '' trunk_interface'')) (\<lambda>trunk.
        bind_res (between 1 255 ''DR ospf_auth_key_id must be between 1 and 255'' (int_key gw ''ospf_auth_key_id'' 1)) (\<lambda>key_id.
        bind_res (between 1 65535 ''DR ospf_cost must be between 1 and 65535'' (int_key gw ''ospf_cost'' 10)) (\<lambda>ospf_cost.
        let area = text_key gw ''ospf_area'' ''0.0.0.0''
        in bind_res (check_area name area) (\<lambda>_.
          Inr \<lparr>st_name = name, st_gateway =
             \<lparr>gw_host = host, gw_ssh_user = opt_key gw ''ssh_user'', gw_local = bool_key gw ''local'' False,
              gw_underlay_interface = underlay, gw_trunk_interface = trunk, gw_vtep_ip = vtep, gw_router_id = router_id,
              gw_ospf_area = area, gw_ospf_cost = ospf_cost, gw_ospf_auth_key_env = opt_key gw ''ospf_auth_key_env'',
              gw_ospf_auth_key_id = key_id\<rparr>\<rparr>))))))))))))))))"

text \<open>\<open>if x: seen.add(x)\<close>.\<close>

definition remember :: "string \<Rightarrow> string list \<Rightarrow> string list" where
  "remember x seen = (if x = [] then seen else x # seen)"

fun parse_sites :: "bool \<Rightarrow> string list \<Rightarrow> string list \<Rightarrow> string list \<Rightarrow> json list \<Rightarrow> dr_site_config list res" where
  "parse_sites enabled ns vs rs [] = Inr []"
| "parse_sites enabled ns vs rs (x # xs) =
     bind_res (parse_site enabled ns vs rs x) (\<lambda>s.
     bind_res (parse_sites enabled (st_name s # ns) (remember (gw_vtep_ip (st_gateway s)) vs)
        (remember (gw_router_id (st_gateway s)) rs) xs) (\<lambda>ss. Inr (s # ss)))"

section \<open>Stretched networks\<close>

text \<open>The subnet and the gateway of a network, with the checks that tie them together.\<close>

definition parse_subnet :: "string \<Rightarrow> string \<Rightarrow> string \<Rightarrow> (ip_net \<times> ip_net) res" where
  "parse_subnet name subnet_raw gateway_raw =
     (let who = ''DR network '' @ name;
          bad = (\<lambda>msg. Inl (ValueError (who @ '' has invalid subnet/gateway_cidr: '' @ msg)))
      in case ip_network subnet_raw of
           Inl msg \<Rightarrow> bad msg
         | Inr subnet \<Rightarrow>
             (case ip_interface gateway_raw of
                None \<Rightarrow> bad (repr_str gateway_raw @ '' does not appear to be an IPv4 or IPv6 interface'')
              | Some gateway \<Rightarrow>
                  check_res (n_v6 gateway = n_v6 subnet \<and> in_net (first_in gateway) subnet)
                    (ValueError (who @ '' gateway_cidr must belong to subnet '' @ show_net subnet))
                 (check_res (network_of gateway = subnet)
                    (ValueError (who @ '' gateway_cidr prefix must match subnet '' @ show_net subnet))
                    (Inr (subnet, gateway)))))"

text \<open>The rows seen so far are given by their networks, newest first, with their parsed subnets.\<close>

definition parse_network :: "(dr_network_config \<times> ip_net) list \<Rightarrow> json \<Rightarrow> (dr_network_config \<times> ip_net) res" where
  "parse_network seen v =
     bind_res (attrs v) (\<lambda>item.
     bind_res (int_key item ''vni'' 0) (\<lambda>vni.
     bind_res (int_key item ''vlan_id'' 0) (\<lambda>vlan.
     check_res (1 \<le> vni \<and> vni \<le> 16777215) (ValueError ''DR VXLAN VNI must be between 1 and 16777215'')
    (check_res (1 \<le> vlan \<and> vlan \<le> 4094) (ValueError ''DR VLAN ID must be between 1 and 4094'')
    (check_res (vni \<notin> (nw_vni \<circ> fst) ` set seen) (ValueError (''duplicate DR VXLAN VNI: '' @ show_int vni))
    (check_res (vlan \<notin> (nw_vlan_id \<circ> fst) ` set seen) (ValueError (''duplicate DR VLAN ID: '' @ show_int vlan))
    (let name = strip whitespace (py_str (or_else (map_of item ''name'') (JStr (''vlan-'' @ show_int vlan))));
         subnet_raw = strip whitespace (text_or_empty item ''subnet'');
         gateway_raw = strip whitespace (text_or_empty item ''gateway_cidr'');
         who = ''DR network '' @ name
     in check_res (name \<notin> (nw_name \<circ> fst) ` set seen) (ValueError (''duplicate DR network name: '' @ name))
       (check_res (subnet_raw \<noteq> [] \<and> gateway_raw \<noteq> []) (ValueError (who @ '' requires subnet and gateway_cidr''))
       (bind_res (parse_subnet name subnet_raw gateway_raw) (\<lambda>(subnet, gateway).
        (case find (\<lambda>other. overlaps subnet other) (rev (map snd seen)) of
           Some other \<Rightarrow> Inl (ValueError (who @ '' subnet '' @ show_net subnet @ '' overlaps configured subnet '' @ show_net other))
         | None \<Rightarrow>
        bind_res (between 576 9216 ''DR MTU must be between 576 and 9216'' (int_key item ''mtu'' 1450)) (\<lambda>mtu.
          Inr (\<lparr>nw_name = name, nw_vlan_id = vlan, nw_vni = vni, nw_subnet = show_net subnet,
                nw_gateway_cidr = show_net gateway, nw_mtu = mtu, nw_enabled = bool_key item ''enabled'' True\<rparr>,
               subnet)))))))))))))"

fun parse_networks :: "(dr_network_config \<times> ip_net) list \<Rightarrow> json list \<Rightarrow> (dr_network_config \<times> ip_net) list res" where
  "parse_networks seen [] = Inr (rev seen)"
| "parse_networks seen (x # xs) = bind_res (parse_network seen x) (\<lambda>n. parse_networks (n # seen) xs)"

section \<open>Workloads, fencing and the section as a whole\<close>

definition parse_checks :: "(string \<times> json) list \<Rightarrow> string \<Rightarrow> health_check_config list res" where
  "parse_checks raw key = bind_res (list_key raw key) (map_res parse_check)"

definition parse_workload :: "string list \<Rightarrow> json \<Rightarrow> dr_vm_config res" where
  "parse_workload seen v =
     bind_res (attrs v) (\<lambda>item.
     let name = strip whitespace (text_or_empty item ''name'');
         source = strip whitespace (text_or_empty item ''source_platform'');
         target = strip whitespace (text_or_empty item ''target_platform'')
     in check_res (name \<noteq> [] \<and> source \<noteq> [] \<and> target \<noteq> [])
          (ValueError ''each DR workload requires name, source_platform, and target_platform'')
       (check_res (\<not> List.member seen name) (ValueError (''duplicate DR workload name: '' @ name))
       (check_res (source \<noteq> target)
          (ValueError (''DR workload '' @ name @ '' source_platform and target_platform must be different''))
       (bind_res (int_key item ''boot_order'' 100) (\<lambda>boot.
        bind_res (parse_checks item ''health_checks'') (\<lambda>checks.
        bind_res (dict_value (or_else (map_of item ''restore_options'') (JObj []))) (\<lambda>options.
          Inr \<lparr>wl_name = name, wl_source_platform = source, wl_target_platform = target, wl_boot_order = boot,
               wl_target_name = opt_key item ''target_name'', wl_health_checks = checks,
               wl_restore_options = options\<rparr>)))))))"

fun parse_workloads :: "string list \<Rightarrow> json list \<Rightarrow> dr_vm_config list res" where
  "parse_workloads seen [] = Inr []"
| "parse_workloads seen (x # xs) =
     bind_res (parse_workload seen x) (\<lambda>w.
     bind_res (parse_workloads (wl_name w # seen) xs) (\<lambda>ws. Inr (w # ws)))"

definition parse_fence :: "(string \<times> json) list \<Rightarrow> fence_config res" where
  "parse_fence raw =
     (let mode = lower (text_key raw ''mode'' ''manual''); command_env = opt_key raw ''command_env''
      in check_res (List.member [''manual'', ''command''] mode) (ValueError ''DR fence.mode must be manual or command'')
        (check_res (\<not> (mode = ''command'' \<and> command_env = None))
           (ValueError ''DR fence.command_env is required when fence.mode=command'')
           (Inr \<lparr>fn_mode = mode, fn_command_env = command_env,
                 fn_verify_command_env = opt_key raw ''verify_command_env''\<rparr>)))"

text \<open>The checks on an enabled section.\<close>

definition check_auto_failover :: "dr_config \<Rightarrow> unit res" where
  "check_auto_failover d =
     (if \<not> auto_failover d then Inr ()
      else check_res (control_plane_site d \<noteq> [])
          (ValueError ''automatic DR failover requires control_plane_site to document where the surviving controller runs'')
       (check_res (control_plane_site d \<noteq> primary_site d)
          (ValueError ''automatic DR failover controller cannot reside only at the primary site'')
       (check_res (primary_probes d \<noteq> []) (ValueError ''automatic DR failover requires at least one primary_probe'')
       (check_res (fn_mode (fence d) = ''command'') (ValueError ''automatic DR failover requires fence.mode=command'')
       (check_res (fn_verify_command_env (fence d) \<noteq> None)
          (ValueError ''automatic DR failover requires fence.verify_command_env'') (Inr ()))))))"

definition check_enabled :: "dr_config \<Rightarrow> unit res" where
  "check_enabled d =
     (if \<not> dr_enabled d then Inr ()
      else let names = map st_name (sites d)
      in check_res (List.member names (primary_site d) \<and> List.member names (dr_site d))
          (ValueError ''DR primary_site and dr_site must reference configured sites'')
       (check_res (primary_site d \<noteq> dr_site d) (ValueError ''DR primary_site and dr_site must be different'')
       (check_res (dr_replica d \<noteq> []) (ValueError ''DR replica is required when disaster_recovery.enabled=true'')
       (check_res (networks d \<noteq> [])
          (ValueError ''at least one DR network is required when disaster_recovery.enabled=true'')
       (check_res (workloads d \<noteq> [])
          (ValueError ''at least one DR workload is required when disaster_recovery.enabled=true'')
       (check_auto_failover d))))))"

definition parse_dr :: "(string \<times> json) list \<Rightarrow> dr_config res" where
  "parse_dr raw =
     (let enabled = bool_key raw ''enabled'' False
      in bind_res (list_key raw ''sites'') (\<lambda>site_rows.
     bind_res (parse_sites enabled [] [] [] site_rows) (\<lambda>ss.
     bind_res (list_key raw ''networks'') (\<lambda>network_rows.
     bind_res (parse_networks [] network_rows) (\<lambda>ns.
     bind_res (list_key raw ''workloads'') (\<lambda>workload_rows.
     bind_res (parse_workloads [] workload_rows) (\<lambda>ws.
     bind_res (section_of raw ''fence'') (\<lambda>fence_raw.
     bind_res (parse_fence fence_raw) (\<lambda>fc.
     bind_res (parse_checks raw ''primary_probes'') (\<lambda>probes.
     bind_res (int_key raw ''primary_failure_quorum'' 0) (\<lambda>quorum.
     check_res (0 \<le> quorum) (ValueError ''DR primary_failure_quorum must be >= 0'')
    (check_res (\<not> (probes \<noteq> [] \<and> int (length probes) < quorum))
       (ValueError ''DR primary_failure_quorum cannot exceed the number of primary_probes'')
    (bind_res (int_key raw ''rpo_max_minutes'' 1440) (\<lambda>rpo.
     bind_res (int_key raw ''failure_threshold'' 5) (\<lambda>threshold.
     bind_res (int_key raw ''check_interval_seconds'' 60) (\<lambda>interval.
     let d = \<lparr>dr_enabled = enabled, primary_site = text_key raw ''primary_site'' ''primary'',
              dr_site = text_key raw ''dr_site'' ''dr'', dr_replica = text_key raw ''replica'' [],
              rpo_max_minutes = max 1 rpo, auto_failover = bool_key raw ''auto_failover'' False,
              failure_threshold = max 2 threshold, check_interval_seconds = max 30 interval,
              control_plane_site = strip whitespace (text_key raw ''control_plane_site'' []),
              primary_failure_quorum = quorum,
              maintenance_file = text_key raw ''maintenance_file'' ''/var/lib/immutavault/dr-maintenance'',
              primary_probes = probes, fence = fc, sites = ss, networks = map fst ns, workloads = ws\<rparr>
     in bind_res (check_enabled d) (\<lambda>_. Inr d)))))))))))))))))"

end
