(* ===== verification/Config_File.thy ===== *)
theory Config_File
  imports Config_Load Dr_Config_Load "HOL-Library.Code_Target_Nat"
begin

text \<open>
  \<open>load_config\<close> as a whole: the document that the YAML reader returns (a parameter, a JSON-like value)
  is turned into the configuration or into the first error, in the order of the source. The lemmas
  say what every accepted configuration satisfies.
\<close>

definition load_config :: "json \<Rightarrow> config res" where
  "load_config document =
     bind_res (attrs (or_else (Some document) (JObj []))) (\<lambda>raw.
     let sec = section_of raw
     in bind_res (sec ''repository'') (\<lambda>repo_raw.
        bind_res (parse_repository repo_raw) (\<lambda>repo.
        let days = keep_within_days (repo_retention repo)
        in bind_res (sec ''runtime'') (\<lambda>runtime_raw.
        bind_res (parse_runtime runtime_raw) (\<lambda>rt.
        bind_res (sec ''protection'') (\<lambda>protection_raw.
        bind_res (parse_protection days protection_raw) (\<lambda>prot.
        bind_res (sec ''portal'') (\<lambda>portal_raw.
        bind_res (parse_portal portal_raw) (\<lambda>port.
        bind_res (sec ''flr'') (\<lambda>flr_raw.
        bind_res (parse_flr flr_raw) (\<lambda>fl.
        bind_res (parse_platforms (or_else (map_of raw ''platforms'') (JList []))) (\<lambda>ps.
        bind_res (parse_replicas days (or_else (map_of raw ''replicas'') (JList []))) (\<lambda>rs.
        bind_res (sec ''disaster_recovery'') (\<lambda>dr_raw.
        bind_res (parse_dr dr_raw) (\<lambda>d.
        bind_res (check_references ps rs d) (\<lambda>_.
          Inr \<lparr>repository = repo, runtime = rt, platforms = ps, protection = prot, portal = port, flr = fl,
               replicas = rs, dr = d\<rparr>))))))))))))))))"

section \<open>Accepted networks are disjoint\<close>

text \<open>Two rows that can stand in one configuration, and a row that is well-formed by itself.\<close>

definition apart :: "dr_network_config \<times> ip_net \<Rightarrow> dr_network_config \<times> ip_net \<Rightarrow> bool" where
  "apart m n \<longleftrightarrow> nw_vni (fst m) \<noteq> nw_vni (fst n) \<and> nw_vlan_id (fst m) \<noteq> nw_vlan_id (fst n) \<and>
     nw_name (fst m) \<noteq> nw_name (fst n) \<and> \<not> overlaps (snd n) (snd m)"

definition network_ok :: "dr_network_config \<times> ip_net \<Rightarrow> bool" where
  "network_ok p \<longleftrightarrow> nw_subnet (fst p) = show_net (snd p) \<and> network_of (snd p) = snd p \<and>
     (\<exists>g. nw_gateway_cidr (fst p) = show_net g \<and> in_net (first_in g) (snd p) \<and> n_prefix g = n_prefix (snd p)) \<and>
     1 \<le> nw_vni (fst p) \<and> nw_vni (fst p) \<le> 16777215 \<and> 1 \<le> nw_vlan_id (fst p) \<and> nw_vlan_id (fst p) \<le> 4094 \<and>
     576 \<le> nw_mtu (fst p) \<and> nw_mtu (fst p) \<le> 9216"

lemma parse_subnet_Inr:
  assumes "parse_subnet name sr gr = Inr (subnet, gateway)"
  shows "network_of subnet = subnet \<and> in_net (first_in gateway) subnet \<and> n_prefix gateway = n_prefix subnet"
  using assms
  by (auto simp: parse_subnet_def ip_network_def Let_def network_of_def split: option.splits sum.splits if_splits)

lemma parse_network_Inr:
  assumes "parse_network seen v = Inr n"
  shows "network_ok n \<and> (\<forall>m\<in>set seen. apart m n)"
  using assms
  by (auto simp: parse_network_def Let_def network_ok_def apart_def find_None_iff image_iff
      dest!: parse_subnet_Inr split: option.splits dest: bspec)

lemma parse_networks_Inr:
  assumes "parse_networks seen xs = Inr ns" "sorted_wrt apart (rev seen)" "list_all network_ok seen"
  shows "sorted_wrt apart ns \<and> list_all network_ok ns"
  using assms
proof (induction seen xs rule: parse_networks.induct)
  case (2 seen x xs)
  then show ?case using parse_network_Inr [of seen x] by (auto simp: sorted_wrt_append)
qed (auto simp: list_all_iff)

section \<open>Accepted sites\<close>

definition site_ok :: "bool \<Rightarrow> dr_site_config \<Rightarrow> bool" where
  "site_ok enabled s \<longleftrightarrow>
     (let g = st_gateway s
      in st_name s \<noteq> [] \<and> (enabled \<longrightarrow> gw_host g \<noteq> [] \<and> gw_vtep_ip g \<noteq> [] \<and> gw_router_id g \<noteq> []) \<and>
         (gw_router_id g \<noteq> [] \<longrightarrow> (\<exists>n. gw_router_id g = show_ipv4 n)) \<and>
         ifname_ok (gw_underlay_interface g) \<and> ifname_ok (gw_trunk_interface g) \<and>
         1 \<le> gw_ospf_cost g \<and> gw_ospf_cost g \<le> 65535 \<and> 1 \<le> gw_ospf_auth_key_id g \<and> gw_ospf_auth_key_id g \<le> 255)"

text \<open>Names are distinct, and so are the tunnel endpoints and router ids that are set.\<close>

definition sites_apart :: "dr_site_config \<Rightarrow> dr_site_config \<Rightarrow> bool" where
  "sites_apart s t \<longleftrightarrow> st_name s \<noteq> st_name t \<and>
     (gw_vtep_ip (st_gateway s) = gw_vtep_ip (st_gateway t) \<longrightarrow> gw_vtep_ip (st_gateway s) = []) \<and>
     (gw_router_id (st_gateway s) = gw_router_id (st_gateway t) \<longrightarrow> gw_router_id (st_gateway s) = [])"

lemma show_ipv4_not_Nil: "show_ipv4 n \<noteq> []"
  by (simp add: show_ipv4_def show_nat_digits)

lemma validate_router_id_Inr: "validate_router_id v l = Inr r \<Longrightarrow> \<exists>n. r = show_ipv4 n"
  by (auto simp: validate_router_id_def split: option.splits ip.splits)

lemma if_given_Inr: "if_given s f = Inr r \<longleftrightarrow> s = [] \<and> r = [] \<or> s \<noteq> [] \<and> f s = Inr r"
  by (auto simp: if_given_def)

lemma join_not_Nil: "2 \<le> length ws \<Longrightarrow> join [c] ws \<noteq> []"
  by (cases ws rule: remdups_adj.cases) (simp_all add: join.simps)

lemma show_ipv6_not_Nil: "show_ipv6 n \<noteq> []"
  unfolding show_ipv6_def by (auto simp: Let_def split: prod.split if_splits intro!: join_not_Nil)

lemma validate_ip_Inr: "validate_ip v l = Inr r \<Longrightarrow> r \<noteq> []"
  by (auto simp: validate_ip_def show_ip_def show_ipv4_not_Nil show_ipv6_not_Nil split: option.splits ip.splits)

text \<open>The values of earlier rows: the names, the endpoints and the router ids.\<close>

definition fresh_site :: "string list \<Rightarrow> string list \<Rightarrow> string list \<Rightarrow> dr_site_config \<Rightarrow> bool" where
  "fresh_site ns vs rs s \<longleftrightarrow> st_name s \<notin> set ns \<and>
     (gw_vtep_ip (st_gateway s) = [] \<or> gw_vtep_ip (st_gateway s) \<notin> set vs) \<and>
     (gw_router_id (st_gateway s) = [] \<or> gw_router_id (st_gateway s) \<notin> set rs)"

lemma validate_ifname_Inr: "validate_ifname v l = Inr r \<longleftrightarrow> ifname_ok v \<and> r = v"
  by (auto simp: validate_ifname_def)

lemma parse_site_Inr:
  assumes "parse_site enabled ns vs rs v = Inr s"
  shows "site_ok enabled s \<and> fresh_site ns vs rs s"
  using assms unfolding parse_site_def Let_def bind_res_Inr check_res_Inr between_Inr validate_ifname_Inr
proof (elim exE conjE, goal_cases)
  case (1 item gw vtep rid)
  have "vtep \<noteq> []" if "strip whitespace (text_key gw ''vtep_ip'' []) \<noteq> []"
    using 1(8) that by (simp add: if_given_Inr) (metis validate_ip_Inr)
  moreover have "rid \<noteq> []"
    if "strip whitespace (text_key gw ''router_id'' (strip whitespace (text_key gw ''vtep_ip'' []))) \<noteq> []"
    using 1(9) that by (simp add: if_given_Inr) (metis validate_router_id_Inr show_ipv4_not_Nil)
  moreover have "\<exists>n. rid = show_ipv4 n" if "rid \<noteq> []"
    using 1(9) that by (auto simp: if_given_Inr dest: validate_router_id_Inr)
  ultimately show ?thesis
    using 1(2,3,5-7,10-20,22,23) unfolding 1(21) [unfolded sum.inject, symmetric]
    by (simp add: site_ok_def Let_def fresh_site_def)
qed

lemma parse_sites_Inr:
  assumes "parse_sites enabled ns vs rs xs = Inr ss"
  shows "list_all (site_ok enabled) ss \<and> sorted_wrt sites_apart ss \<and> list_all (fresh_site ns vs rs) ss"
  using assms
proof (induction enabled ns vs rs xs arbitrary: ss rule: parse_sites.induct)
  case (2 enabled ns vs rs x xs)
  then obtain s ts where s: "parse_site enabled ns vs rs x = Inr s" "ss = s # ts"
    and ts: "list_all (site_ok enabled) ts" "sorted_wrt sites_apart ts"
      "list_all (fresh_site (st_name s # ns) (remember (gw_vtep_ip (st_gateway s)) vs)
         (remember (gw_router_id (st_gateway s)) rs)) ts"
    by auto
  have "list_all (fresh_site ns vs rs) ts" "\<forall>t\<in>set ts. sites_apart s t"
    using ts(3) by (auto simp: list_all_iff fresh_site_def sites_apart_def remember_def split: if_splits)
  with s(2) ts(1,2) parse_site_Inr [OF s(1)] show ?case by simp
qed simp

lemma parse_workload_Inr:
  "parse_workload seen v = Inr w \<Longrightarrow> wl_name w \<notin> set seen \<and> wl_source_platform w \<noteq> wl_target_platform w"
  by (auto simp: parse_workload_def Let_def)

lemma parse_workloads_Inr:
  "parse_workloads seen xs = Inr ws \<Longrightarrow>
     distinct (map wl_name ws) \<and> set (map wl_name ws) \<inter> set seen = {} \<and>
     (\<forall>w\<in>set ws. wl_source_platform w \<noteq> wl_target_platform w)"
proof (induction seen xs arbitrary: ws rule: parse_workloads.induct)
  case (2 seen x xs)
  then show ?case by (fastforce dest: parse_workload_Inr)
qed simp

section \<open>Claims about accepted configurations\<close>

lemma parse_drD:
  assumes "parse_dr raw = Inr d"
  obtains site_rows network_rows workload_rows ns where
    "parse_sites (dr_enabled d) [] [] [] site_rows = Inr (sites d)"
    "parse_networks [] network_rows = Inr ns" "networks d = map fst ns"
    "parse_workloads [] workload_rows = Inr (workloads d)"
    "check_enabled d = Inr ()" "0 \<le> primary_failure_quorum d"
    "primary_probes d \<noteq> [] \<longrightarrow> primary_failure_quorum d \<le> int (length (primary_probes d))"
    "1 \<le> rpo_max_minutes d" "2 \<le> failure_threshold d" "30 \<le> check_interval_seconds d"
    "fn_mode (fence d) = ''command'' \<longrightarrow> fn_command_env (fence d) \<noteq> None"
  using assms by (auto simp: parse_dr_def Let_def parse_fence_def)

lemma load_configD:
  assumes "load_config doc = Inr c"
  obtains repo_raw runtime_raw protection_raw portal_raw flr_raw platform_rows replica_rows raw where
    "parse_repository repo_raw = Inr (repository c)" "parse_runtime runtime_raw = Inr (runtime c)"
    "parse_protection (keep_within_days (repo_retention (repository c))) protection_raw = Inr (protection c)"
    "parse_portal portal_raw = Inr (portal c)"
    "parse_flr flr_raw = Inr (flr c)" "parse_platforms platform_rows = Inr (platforms c)"
    "parse_replicas (keep_within_days (repo_retention (repository c))) replica_rows = Inr (replicas c)"
    "parse_dr raw = Inr (dr c)" "check_references (platforms c) (replicas c) (dr c) = Inr ()"
  using assms by (auto simp: load_config_def Let_def)

lemma check_referencesD:
  assumes "check_references ps rs d = Inr ()" "dr_enabled d"
  shows "(\<exists>r\<in>set rs. rp_name r = dr_replica d \<and> rp_enabled r) \<and>
    (\<forall>w\<in>set (workloads d). (\<exists>p\<in>set ps. pl_name p = wl_source_platform w \<and> pl_enabled p) \<and>
       (\<exists>p\<in>set ps. pl_name p = wl_target_platform w \<and> pl_enabled p))"
  using assms
  by (auto simp: check_references_def check_workload_def Let_def map_res_Inr list_all2_conv_all_nth in_set_conv_nth)

lemma networks_disjoint:
  assumes "load_config doc = Inr c"
  shows "\<exists>nets. length nets = length (networks (dr c)) \<and> list_all network_ok (zip (networks (dr c)) nets) \<and>
     (\<forall>i j a. i < j \<and> j < length nets \<longrightarrow> \<not> (in_net a (nets ! i) \<and> in_net a (nets ! j))) \<and>
     distinct (map nw_vni (networks (dr c))) \<and> distinct (map nw_vlan_id (networks (dr c))) \<and>
     distinct (map nw_name (networks (dr c)))"
proof -
  obtain raw where "parse_dr raw = Inr (dr c)" using assms by (rule load_configD)
  then obtain rows ns where "parse_networks [] rows = Inr ns" and ns: "networks (dr c) = map fst ns"
    by (rule parse_drD)
  then have s: "sorted_wrt apart ns" "list_all network_ok ns" using parse_networks_Inr [of "[]"] by auto
  have d: "distinct (map (f \<circ> fst) ns)" if "\<And>m n. apart m n \<Longrightarrow> f (fst m) \<noteq> f (fst n)" for f :: "dr_network_config \<Rightarrow> 'x"
    using s(1) that by (induction ns) auto
  have "\<not> (in_net a (map snd ns ! i) \<and> in_net a (map snd ns ! j))" if "i < j" "j < length ns" for i j a
    using sorted_wrt_nth_less [OF s(1) that] overlaps_if_shared [of a] that by (auto simp: apart_def)
  moreover have "zip (map fst ns) (map snd ns) = ns" by (rule zip_map_fst_snd)
  ultimately show ?thesis
    using s(2) d [of nw_vni] d [of nw_vlan_id] d [of nw_name]
    by (intro exI [of _ "map snd ns"]) (auto simp: ns apart_def)
qed

lemma failover_needs_fence:
  assumes "load_config doc = Inr c" "dr_enabled (dr c)"
  shows "primary_site (dr c) \<in> st_name ` set (sites (dr c)) \<and> dr_site (dr c) \<in> st_name ` set (sites (dr c)) \<and>
     primary_site (dr c) \<noteq> dr_site (dr c) \<and> networks (dr c) \<noteq> [] \<and> workloads (dr c) \<noteq> [] \<and>
     (\<exists>r\<in>set (replicas c). rp_name r = dr_replica (dr c) \<and> rp_enabled r) \<and>
     (\<forall>w\<in>set (workloads (dr c)). wl_source_platform w \<noteq> wl_target_platform w \<and>
        (\<exists>p\<in>set (platforms c). pl_name p = wl_source_platform w \<and> pl_enabled p) \<and>
        (\<exists>p\<in>set (platforms c). pl_name p = wl_target_platform w \<and> pl_enabled p)) \<and>
     (auto_failover (dr c) \<longrightarrow>
        control_plane_site (dr c) \<noteq> [] \<and> control_plane_site (dr c) \<noteq> primary_site (dr c) \<and>
        primary_probes (dr c) \<noteq> [] \<and> primary_failure_quorum (dr c) \<le> int (length (primary_probes (dr c))) \<and>
        2 \<le> failure_threshold (dr c) \<and> fn_mode (fence (dr c)) = ''command'' \<and>
        fn_command_env (fence (dr c)) \<noteq> None \<and> fn_verify_command_env (fence (dr c)) \<noteq> None)"
proof -
  obtain raw where raw: "parse_dr raw = Inr (dr c)"
    and refs: "check_references (platforms c) (replicas c) (dr c) = Inr ()"
    using assms(1) by (rule load_configD)
  obtain rows where "parse_workloads [] rows = Inr (workloads (dr c))" "check_enabled (dr c) = Inr ()"
    "primary_probes (dr c) \<noteq> [] \<longrightarrow> primary_failure_quorum (dr c) \<le> int (length (primary_probes (dr c)))"
    "2 \<le> failure_threshold (dr c)" "fn_mode (fence (dr c)) = ''command'' \<longrightarrow> fn_command_env (fence (dr c)) \<noteq> None"
    using raw by (rule parse_drD)
  with assms(2) parse_workloads_Inr [OF this(1)] check_referencesD [OF refs assms(2)]
  show ?thesis
    by (simp add: check_enabled_def check_auto_failover_def Let_def split: if_splits)
qed

lemma sites_distinct:
  assumes "load_config doc = Inr c"
  shows "list_all (site_ok (dr_enabled (dr c))) (sites (dr c)) \<and> distinct (map st_name (sites (dr c))) \<and>
     distinct (filter (\<lambda>v. v \<noteq> []) (map (gw_vtep_ip \<circ> st_gateway) (sites (dr c)))) \<and>
     distinct (filter (\<lambda>v. v \<noteq> []) (map (gw_router_id \<circ> st_gateway) (sites (dr c))))"
proof -
  obtain raw where "parse_dr raw = Inr (dr c)" using assms by (rule load_configD)
  then obtain rows where "parse_sites (dr_enabled (dr c)) [] [] [] rows = Inr (sites (dr c))" by (rule parse_drD)
  from parse_sites_Inr [OF this] have s: "list_all (site_ok (dr_enabled (dr c))) (sites (dr c))"
    "sorted_wrt sites_apart (sites (dr c))" by auto
  have d: "distinct (filter P (map f ss))"
    if "sorted_wrt sites_apart ss" "\<And>s t. sites_apart s t \<Longrightarrow> f s = f t \<Longrightarrow> \<not> P (f s)" for f :: "dr_site_config \<Rightarrow> string" and P ss
    using that by (induction ss) auto
  show ?thesis
    using s(1) d [OF s(2), of st_name "\<lambda>_. True"] d [OF s(2), of "gw_vtep_ip \<circ> st_gateway" "\<lambda>v. v \<noteq> []"]
      d [OF s(2), of "gw_router_id \<circ> st_gateway" "\<lambda>v. v \<noteq> []"] by (auto simp: sites_apart_def)
qed

lemma read_ipv4_bound:
  assumes "read_ipv4 s = Some n"
  shows "n < 2 ^ 32"
proof -
  obtain ks where ks: "those (map octet (split_on (CHR ''.'') s)) = Some ks" "n = from_parts 256 ks"
    "length (split_on (CHR ''.'') s) = 4"
    using assms by (auto simp: read_ipv4_def Let_def split: if_splits)
  have l: "those os = Some ks \<Longrightarrow> length ks = length os \<and> (\<forall>k\<in>set ks. Some k \<in> set os)" for os :: "nat option list" and ks
    by (induction os arbitrary: ks) (auto split: option.splits)
  have "length ks = 4" "\<forall>k\<in>set ks. k \<le> 255"
    using l [OF ks(1)] ks(3) by (auto simp: octet_def Let_def split: if_splits)
  then obtain a b c d where "ks = [a, b, c, d]" "a \<le> 255" "b \<le> 255" "c \<le> 255" "d \<le> 255"
    by (auto simp: length_Suc_conv eval_nat_numeral)
  then show ?thesis by (simp add: ks(2) from_parts_def)
qed

lemma router_id_canonical:
  assumes "validate_router_id v l = Inr r"
  shows "ip_address r = ip_address v \<and> validate_router_id r l' = Inr r"
proof -
  obtain n where n: "ip_address v = Some (V4 n)" "r = show_ipv4 n"
    using assms by (auto simp: validate_router_id_def split: option.splits ip.splits)
  then have "read_ipv4 v = Some n" by (auto simp: ip_address_def split: option.splits)
  then have "read_ipv4 r = Some n" using read_show_ipv4 [OF read_ipv4_bound] n(2) by simp
  then have "ip_address r = Some (V4 n)" by (simp add: ip_address_def)
  with n show ?thesis by (simp add: validate_router_id_def)
qed

definition replica_ok :: "replica_config \<Rightarrow> bool" where
  "replica_ok r \<longleftrightarrow> rp_backend r \<in> {''rest'', ''filesystem'', ''s3''} \<and>
     (rp_backend r = ''rest'' \<longrightarrow> rp_url r \<noteq> None) \<and> (rp_backend r = ''filesystem'' \<longrightarrow> rp_path r \<noteq> None) \<and>
     (rp_backend r = ''s3'' \<longrightarrow> rp_endpoint r \<noteq> None \<and> rp_bucket r \<noteq> None) \<and>
     (rp_object_lock_enabled r \<longrightarrow> rp_provider r \<noteq> ''cloudflare_r2'') \<and>
     (rp_r2_bucket_lock_enabled r \<longrightarrow> rp_provider r = ''cloudflare_r2'') \<and>
     rp_object_lock_mode r \<in> {''COMPLIANCE'', ''GOVERNANCE''} \<and> 1 \<le> rp_object_lock_days r \<and>
     1 \<le> rp_r2_bucket_lock_days r \<and> 1 \<le> rp_connections r"

lemma opt_key_given: "has_value item k \<Longrightarrow> \<exists>v. opt_key item k = Some v"
  by (auto simp: has_value_def opt_key_def text_opt_def split: option.splits)

lemma parse_replica_Inr: "parse_replica n v = Inr r \<Longrightarrow> replica_ok r"
  unfolding parse_replica_def check_replica_def Let_def bind_res_Inr check_res_Inr positive_int_Inr
proof (elim exE conjE, goal_cases)
  case (1 item)
  then show ?case
    by (simp only: sum.inject) (hypsubst, simp add: replica_ok_def allowed_backends_def opt_key_given)
qed

text \<open>The bounds on the numbers of each section.\<close>

definition repository_bounds :: "repository_config \<Rightarrow> bool" where
  "repository_bounds r \<longleftrightarrow> 1 \<le> retention_days r \<and> retention_days r = keep_within_days (repo_retention r) \<and>
     0 \<le> verify_percent r \<and> verify_percent r \<le> 100 \<and> 0 \<le> keep_daily (repo_retention r) \<and>
     0 \<le> keep_weekly (repo_retention r) \<and> 0 \<le> keep_monthly (repo_retention r) \<and>
     0 \<le> keep_yearly (repo_retention r) \<and> 1 \<le> min_restore_points (repo_retention r)"

definition runtime_bounds :: "runtime_config \<Rightarrow> bool" where
  "runtime_bounds r \<longleftrightarrow> 0 \<le> staging_min_free_percent r \<and> staging_min_free_percent r \<le> 95 \<and>
     30 \<le> command_timeout_seconds r \<and> 1 \<le> state_backup_keep r"

definition protection_bounds :: "protection_config \<Rightarrow> bool" where
  "protection_bounds r \<longleftrightarrow> 1 \<le> rpo_target_minutes r \<and> rpo_target_minutes r \<le> 10080 \<and>
     0 \<le> anomaly_data_added_ratio r \<and> anomaly_data_added_ratio r \<le> 10 \<and>
     0 \<le> anomaly_size_change_ratio r \<and> anomaly_size_change_ratio r \<le> 10"

definition flr_bounds :: "flr_config \<Rightarrow> bool" where
  "flr_bounds r \<longleftrightarrow> 1 \<le> session_ttl_minutes r \<and> session_ttl_minutes r \<le> 240 \<and>
     1 \<le> max_download_bytes r \<and> max_download_bytes r \<le> 2 ^ 40 \<and>
     1 \<le> max_sessions_per_user r \<and> max_sessions_per_user r \<le> 16 \<and> 1 \<le> max_disks r \<and> max_disks r \<le> 64 \<and>
     1 \<le> mount_wait_seconds r \<and> mount_wait_seconds r \<le> 180"

definition health_bounds :: "health_check_config \<Rightarrow> bool" where
  "health_bounds h \<longleftrightarrow> (case hc_port h of None \<Rightarrow> True | Some n \<Rightarrow> 1 \<le> n \<and> n \<le> 65535) \<and>
     100 \<le> hc_expected_status h \<and> hc_expected_status h \<le> 599 \<and> 1 \<le> hc_timeout_seconds h \<and>
     1 \<le> hc_attempts h \<and> 1 \<le> hc_interval_seconds h"

definition gateway_bounds :: "dr_gateway_config \<Rightarrow> bool" where
  "gateway_bounds g \<longleftrightarrow> 1 \<le> gw_ospf_cost g \<and> gw_ospf_cost g \<le> 65535 \<and>
     1 \<le> gw_ospf_auth_key_id g \<and> gw_ospf_auth_key_id g \<le> 255"

definition network_bounds :: "dr_network_config \<Rightarrow> bool" where
  "network_bounds n \<longleftrightarrow> 1 \<le> nw_vni n \<and> nw_vni n \<le> 16777215 \<and> 1 \<le> nw_vlan_id n \<and> nw_vlan_id n \<le> 4094 \<and>
     576 \<le> nw_mtu n \<and> nw_mtu n \<le> 9216"

definition dr_bounds :: "dr_config \<Rightarrow> bool" where
  "dr_bounds d \<longleftrightarrow> 1 \<le> rpo_max_minutes d \<and> 2 \<le> failure_threshold d \<and> 30 \<le> check_interval_seconds d \<and>
     0 \<le> primary_failure_quorum d \<and>
     (primary_probes d = [] \<or> primary_failure_quorum d \<le> int (length (primary_probes d))) \<and>
     list_all health_bounds (primary_probes d) \<and>
     list_all (\<lambda>w. list_all health_bounds (wl_health_checks w)) (workloads d) \<and>
     list_all (\<lambda>s. gateway_bounds (st_gateway s)) (sites d) \<and> list_all network_bounds (networks d)"

lemma parse_repository_Inr: "parse_repository raw = Inr r \<Longrightarrow> repository_bounds r"
  by (auto simp: parse_repository_def parse_retention_def repository_bounds_def)

lemma parse_runtime_Inr: "parse_runtime raw = Inr r \<Longrightarrow> runtime_bounds r"
  by (auto simp: parse_runtime_def runtime_bounds_def)

lemma parse_flr_Inr: "parse_flr raw = Inr r \<Longrightarrow> flr_bounds r"
  by (auto simp: parse_flr_def capped_def Let_def flr_bounds_def)

lemma parse_protection_Inr: "parse_protection n raw = Inr r \<Longrightarrow> protection_bounds r \<and> n \<le> preserve_suspicious_points_days r"
  by (auto simp: parse_protection_def protection_bounds_def)

lemma parse_portal_Inr: "parse_portal raw = Inr r \<Longrightarrow> 1 \<le> po_port r \<and> po_port r \<le> 65535"
  by (auto simp: parse_portal_def)

lemma parse_check_Inr: "parse_check v = Inr h \<Longrightarrow> health_bounds h"
  unfolding parse_check_def Let_def max_one_def bind_res_Inr check_res_Inr between_Inr
  by (elim exE conjE, simp only: sum.inject, hypsubst, simp add: health_bounds_def)

lemma parse_checks_Inr: "parse_checks raw key = Inr hs \<Longrightarrow> list_all health_bounds hs"
  by (auto simp: parse_checks_def map_res_Inr list_all_length list_all2_conv_all_nth dest: parse_check_Inr)

lemma parse_workloads_bounds:
  "parse_workloads seen xs = Inr ws \<Longrightarrow> list_all (\<lambda>w. list_all health_bounds (wl_health_checks w)) ws"
proof (induction seen xs arbitrary: ws rule: parse_workloads.induct)
  case (2 seen x xs)
  moreover have "list_all health_bounds (wl_health_checks w)" if "parse_workload seen x = Inr w" for w
    using that by (auto simp: parse_workload_def Let_def dest: parse_checks_Inr)
  ultimately show ?case by auto
qed simp

lemma parse_dr_bounds:
  assumes "parse_dr raw = Inr d"
  shows "dr_bounds d"
proof -
  have probes: "list_all health_bounds (primary_probes d)"
    using assms by (auto simp: parse_dr_def Let_def dest: parse_checks_Inr)
  obtain site_rows network_rows workload_rows ns where
    *: "parse_sites (dr_enabled d) [] [] [] site_rows = Inr (sites d)"
    "parse_networks [] network_rows = Inr ns" "networks d = map fst ns"
    "parse_workloads [] workload_rows = Inr (workloads d)" "0 \<le> primary_failure_quorum d"
    "primary_probes d \<noteq> [] \<longrightarrow> primary_failure_quorum d \<le> int (length (primary_probes d))"
    "1 \<le> rpo_max_minutes d" "2 \<le> failure_threshold d" "30 \<le> check_interval_seconds d"
    using assms by (rule parse_drD)
  have "list_all (\<lambda>s. gateway_bounds (st_gateway s)) (sites d)"
    using parse_sites_Inr [OF *(1)] by (auto simp: list_all_iff site_ok_def gateway_bounds_def Let_def)
  moreover have "list_all network_bounds (networks d)"
    using parse_networks_Inr [OF *(2)] *(3) by (auto simp: list_all_iff network_ok_def network_bounds_def)
  ultimately show ?thesis
    using probes parse_workloads_bounds [OF *(4)] *(5-9) by (auto simp: dr_bounds_def)
qed

lemma bounds_hold:
  assumes "load_config doc = Inr c"
  shows "repository_bounds (repository c) \<and> runtime_bounds (runtime c) \<and> protection_bounds (protection c) \<and>
     retention_days (repository c) \<le> preserve_suspicious_points_days (protection c) \<and>
     1 \<le> po_port (portal c) \<and> po_port (portal c) \<le> 65535 \<and> flr_bounds (flr c) \<and>
     list_all replica_ok (replicas c) \<and> dr_bounds (dr c) \<and>
     distinct (map pl_name (platforms c)) \<and> distinct (map rp_name (replicas c))"
  using assms
proof (rule load_configD)
  fix repo_raw runtime_raw protection_raw portal_raw flr_raw platform_rows replica_rows raw
  assume l: "parse_repository repo_raw = Inr (repository c)" "parse_runtime runtime_raw = Inr (runtime c)"
    "parse_protection (keep_within_days (repo_retention (repository c))) protection_raw = Inr (protection c)"
    "parse_portal portal_raw = Inr (portal c)"
    "parse_flr flr_raw = Inr (flr c)" "parse_platforms platform_rows = Inr (platforms c)"
    "parse_replicas (keep_within_days (repo_retention (repository c))) replica_rows = Inr (replicas c)"
    "parse_dr raw = Inr (dr c)"
  have "list_all replica_ok (replicas c) \<and> distinct (map rp_name (replicas c))"
    using l(7) by (auto simp: parse_replicas_def map_res_Inr list_all_length list_all2_conv_all_nth dest: parse_replica_Inr)
  moreover have "distinct (map pl_name (platforms c))" using l(6) by (auto simp: parse_platforms_def)
  moreover have "retention_days (repository c) \<le> preserve_suspicious_points_days (protection c)"
    using parse_repository_Inr [OF l(1)] parse_protection_Inr [OF l(3)] by (simp add: repository_bounds_def)
  ultimately show ?thesis
    using parse_repository_Inr [OF l(1)] parse_runtime_Inr [OF l(2)] parse_protection_Inr [OF l(3)] parse_portal_Inr [OF l(4)]
      parse_flr_Inr [OF l(5)] parse_dr_bounds [OF l(8)] by simp
qed

section \<open>A document with disaster recovery\<close>

definition sample_site :: "string \<Rightarrow> string \<Rightarrow> json" where
  "sample_site name vtep = JObj [(''name'', JStr name),
     (''gateway'', JObj [(''host'', JStr ''gw''), (''vtep_ip'', JStr vtep)])]"

definition sample_network :: "int \<Rightarrow> string \<Rightarrow> string \<Rightarrow> json" where
  "sample_network vlan subnet gateway = JObj [(''vni'', JInt (10000 + vlan)), (''vlan_id'', JInt vlan),
     (''subnet'', JStr subnet), (''gateway_cidr'', JStr gateway)]"

definition sample_document :: json where
  "sample_document = JObj [
     (''repository'', JObj [(''url'', JStr ''rest:https://vault/''), (''local_path'', JStr ''/repo''),
        (''staging_path'', JStr ''/staging'')]),
     (''platforms'', JList [
        JObj [(''name'', JStr ''a''), (''type'', JStr ''vmware''), (''endpoint'', JStr ''esx'')],
        JObj [(''name'', JStr ''b''), (''type'', JStr ''proxmox''), (''endpoint'', JStr ''pve'')]]),
     (''replicas'', JList [JObj [(''name'', JStr ''far''), (''url'', JStr ''rest:https://far/'')]]),
     (''disaster_recovery'', JObj [(''enabled'', JBool True), (''replica'', JStr ''far''),
        (''auto_failover'', JBool True), (''control_plane_site'', JStr ''cloud''),
        (''sites'', JList [sample_site ''primary'' ''10.0.0.1'', sample_site ''dr'' ''10.0.1.1'']),
        (''networks'', JList [sample_network 10 ''192.168.10.0/24'' ''192.168.10.1/24'',
           sample_network 20 ''192.168.20.0/24'' ''192.168.20.1/24'']),
        (''workloads'', JList [JObj [(''name'', JStr ''web''), (''source_platform'', JStr ''a''),
           (''target_platform'', JStr ''b'')]]),
        (''fence'', JObj [(''mode'', JStr ''command''), (''command_env'', JStr ''FENCE''),
           (''verify_command_env'', JStr ''FENCED'')]),
        (''primary_probes'', JList [JObj [(''type'', JStr ''icmp''), (''host'', JStr ''gw'')]])])]"

lemma sample_loads:
  "case load_config sample_document of Inl e \<Rightarrow> False
   | Inr c \<Rightarrow> dr_enabled (dr c) \<and> auto_failover (dr c) \<and> length (networks (dr c)) = 2 \<and> length (sites (dr c)) = 2"
  by code_simp

lemma sample_accepted: "\<exists>c. load_config sample_document = Inr c \<and> dr_enabled (dr c)"
  using sample_loads by (auto split: sum.splits)

section \<open>Claims\<close>

text \<open>C35. The networks of every accepted configuration have disjoint address ranges: no address, of either
  IP version, lies in the subnets of two of them. Each subnet is the printed form of a network without
  host bits, the gateway lies inside it with the same prefix, VNIs, VLAN ids and names are unique, and
  all of them are within their protocol's bounds.\<close>

theorem accepted_networks_disjoint:
  assumes "load_config doc = Inr c"
  shows "\<exists>nets. length nets = length (networks (dr c)) \<and> list_all network_ok (zip (networks (dr c)) nets) \<and>
     (\<forall>i j a. i < j \<and> j < length nets \<longrightarrow> \<not> (in_net a (nets ! i) \<and> in_net a (nets ! j))) \<and>
     distinct (map nw_vni (networks (dr c))) \<and> distinct (map nw_vlan_id (networks (dr c))) \<and>
     distinct (map nw_name (networks (dr c)))"
  using assms by (rule networks_disjoint)

lemma accepted_networks_disjoint_witness:
  "\<exists>c nets. load_config sample_document = Inr c \<and> length nets = length (networks (dr c)) \<and>
     list_all network_ok (zip (networks (dr c)) nets)"
proof -
  obtain c where "load_config sample_document = Inr c" using sample_accepted by blast
  with accepted_networks_disjoint [OF this] show ?thesis by blast
qed

text \<open>C29. An accepted configuration with disaster recovery enabled names two different configured sites, an
  enabled replica, and workloads whose source and target platforms are different, configured and enabled.
  If it also fails over automatically, the controller does not live at the primary site only, there is at
  least one probe, no more failures are required than there are probes and at least two in a row, and both
  a fencing command and a command that verifies the fencing are configured.\<close>

theorem accepted_failover_fenced:
  assumes "load_config doc = Inr c" "dr_enabled (dr c)"
  shows "primary_site (dr c) \<in> st_name ` set (sites (dr c)) \<and> dr_site (dr c) \<in> st_name ` set (sites (dr c)) \<and>
     primary_site (dr c) \<noteq> dr_site (dr c) \<and> networks (dr c) \<noteq> [] \<and> workloads (dr c) \<noteq> [] \<and>
     (\<exists>r\<in>set (replicas c). rp_name r = dr_replica (dr c) \<and> rp_enabled r) \<and>
     (\<forall>w\<in>set (workloads (dr c)). wl_source_platform w \<noteq> wl_target_platform w \<and>
        (\<exists>p\<in>set (platforms c). pl_name p = wl_source_platform w \<and> pl_enabled p) \<and>
        (\<exists>p\<in>set (platforms c). pl_name p = wl_target_platform w \<and> pl_enabled p)) \<and>
     (auto_failover (dr c) \<longrightarrow>
        control_plane_site (dr c) \<noteq> [] \<and> control_plane_site (dr c) \<noteq> primary_site (dr c) \<and>
        primary_probes (dr c) \<noteq> [] \<and> primary_failure_quorum (dr c) \<le> int (length (primary_probes (dr c))) \<and>
        2 \<le> failure_threshold (dr c) \<and> fn_mode (fence (dr c)) = ''command'' \<and>
        fn_command_env (fence (dr c)) \<noteq> None \<and> fn_verify_command_env (fence (dr c)) \<noteq> None)"
  using assms by (rule failover_needs_fence)

lemma accepted_failover_fenced_witness:
  "\<exists>c. load_config sample_document = Inr c \<and> fn_verify_command_env (fence (dr c)) \<noteq> None"
proof -
  obtain c where c: "load_config sample_document = Inr c" "dr_enabled (dr c)" "auto_failover (dr c)"
    using sample_loads by (auto split: sum.splits)
  with accepted_failover_fenced [OF c(1,2)] show ?thesis by blast
qed

text \<open>The sites of every accepted configuration have distinct names, the tunnel endpoints and OSPF router
  ids that are set are distinct, interface names are safe for a shell and at most 15 characters long, and
  an enabled section leaves no site without gateway host, tunnel endpoint or router id.\<close>

lemma accepted_sites_distinct:
  assumes "load_config doc = Inr c"
  shows "list_all (site_ok (dr_enabled (dr c))) (sites (dr c)) \<and> distinct (map st_name (sites (dr c))) \<and>
     distinct (filter (\<lambda>v. v \<noteq> []) (map (gw_vtep_ip \<circ> st_gateway) (sites (dr c)))) \<and>
     distinct (filter (\<lambda>v. v \<noteq> []) (map (gw_router_id \<circ> st_gateway) (sites (dr c))))"
  using assms by (rule sites_distinct)

text \<open>A router id that the loader accepts is stored in canonical dotted form: it denotes the same address
  as the text in the file, and validating the stored text again gives it back unchanged.\<close>

lemma router_id_round_trip:
  assumes "validate_router_id v l = Inr r"
  shows "ip_address r = ip_address v \<and> validate_router_id r l' = Inr r"
  using assms by (rule router_id_canonical)

text \<open>C36. Every accepted configuration keeps its numbers within bounds: in the repository section (retention of
  at least a day, the windows of the retention policy, the share to verify), the runtime, protection, portal
  and file-level recovery sections, for every replica (days of its locks, connections; and it has what its
  backend needs and only the kind of object lock its provider offers), and in the disaster-recovery section
  (limits, threshold, interval, quorum, every health check, OSPF costs and keys, VNIs, VLAN ids and MTUs).
  Suspicious points are preserved at least as long as the retention window, and the names of platforms and
  replicas are unique. The one number without a bound is the boot order of a workload.\<close>

theorem accepted_bounds:
  assumes "load_config doc = Inr c"
  shows "repository_bounds (repository c) \<and> runtime_bounds (runtime c) \<and> protection_bounds (protection c) \<and>
     retention_days (repository c) \<le> preserve_suspicious_points_days (protection c) \<and>
     1 \<le> po_port (portal c) \<and> po_port (portal c) \<le> 65535 \<and> flr_bounds (flr c) \<and>
     list_all replica_ok (replicas c) \<and> dr_bounds (dr c) \<and>
     distinct (map pl_name (platforms c)) \<and> distinct (map rp_name (replicas c))"
  using assms by (rule bounds_hold)

lemma accepted_bounds_witness:
  "\<exists>c. load_config sample_document = Inr c \<and> dr_enabled (dr c) \<and> length (networks (dr c)) = 2 \<and> dr_bounds (dr c) \<and>
     list_all replica_ok (replicas c)"
proof -
  obtain c where c: "load_config sample_document = Inr c" "dr_enabled (dr c)" "length (networks (dr c)) = 2"
    using sample_loads by (auto split: sum.splits)
  with accepted_bounds [OF c(1)] show ?thesis by blast
qed

end
