(* ===== verification/Enterprise_Config.thy ===== *)
theory Enterprise_Config
  imports Config_File Fnmatch
begin

text \<open>
  The additive configuration layer of \<open>enterprise_config.py\<close>: tenants and the platforms they own, OIDC
  login, observability, and the tenants of the portal users. The wrapper keeps the core configuration
  in the field \<open>core\<close>. The lemmas show that every accepted layer assigns each platform to exactly one
  tenant and grants scopes of configured tenants only.
\<close>

section \<open>The layer\<close>

definition role_order :: "(string \<times> nat) list" where
  "role_order = [(''viewer'', 0), (''restore_operator'', 1), (''approver'', 2), (''admin'', 3)]"

record tenant_config =
  tn_id :: string
  tn_name :: string
  tn_platforms :: "string list"

record oidc_config =
  oi_enabled :: bool
  oi_issuer :: string
  oi_client_id :: string
  oi_client_secret_env :: "string option"
  oi_redirect_uri :: string
  oi_session_secret_env :: string
  oi_session_minutes :: int
  oi_require_mfa :: bool
  oi_allowed_tenant_ids :: "string list"
  oi_required_acrs :: "string list"
  oi_allow_local_tokens :: bool
  oi_default_role :: string
  oi_default_tenants :: "string list"
  oi_group_role_map :: "(string \<times> string) list"
  oi_group_tenant_map :: "(string \<times> string list) list"
  oi_app_role_map :: "(string \<times> string) list"
  oi_app_role_tenant_map :: "(string \<times> string list) list"

record observability_config =
  ob_metrics_enabled :: bool
  ob_metrics_path :: string
  ob_metrics_token_env :: string
  ob_websocket_enabled :: bool
  ob_websocket_listen :: string
  ob_websocket_port :: int
  ob_websocket_public_url :: "string option"
  ob_websocket_poll_seconds :: int
  ob_websocket_ticket_ttl_seconds :: int
  ob_websocket_allowed_origins :: "string list"
  ob_include_platform_labels :: bool

record enterprise_config =
  core :: config
  tenants :: "tenant_config list"
  oidc :: oidc_config
  observability :: observability_config
  user_tenants :: "(string \<times> string list) list"

text \<open>The tenants whose patterns match a platform.\<close>

definition owners :: "tenant_config list \<Rightarrow> string \<Rightarrow> string list" where
  "owners ts name = map tn_id (filter (\<lambda>t. list_ex (fnmatch name) (tn_platforms t)) ts)"

definition texts_repr :: "string list \<Rightarrow> string" where
  "texts_repr xs = py_repr (JList (map JStr xs))"

definition none_or :: "string list \<Rightarrow> string" where
  "none_or xs = (if xs = [] then ''none'' else texts_repr xs)"

definition tenant_for_platform :: "enterprise_config \<Rightarrow> string \<Rightarrow> string res" where
  "tenant_for_platform cfg name =
     (case owners (tenants cfg) name of
        [t] \<Rightarrow> Inr t
      | matches \<Rightarrow> Inl (ValueError (''platform '' @ repr_str name @ '' must resolve to exactly one tenant; resolved ''
          @ none_or matches)))"

definition tenant_name :: "enterprise_config \<Rightarrow> string \<Rightarrow> string" where
  "tenant_name cfg i = (case find (\<lambda>t. tn_id t = i) (tenants cfg) of Some t \<Rightarrow> tn_name t | None \<Rightarrow> i)"

definition tenant_ids :: "enterprise_config \<Rightarrow> string set" where
  "tenant_ids cfg = set (map tn_id (tenants cfg))"

section \<open>Reading it\<close>

definition bounded_int :: "json \<Rightarrow> string \<Rightarrow> int \<Rightarrow> int \<Rightarrow> int res" where
  "bounded_int v name lo hi =
     between lo hi (name @ '' must be between '' @ show_int lo @ '' and '' @ show_int hi) (py_int v)"

definition read_role :: "json option \<Rightarrow> string \<Rightarrow> string res" where
  "read_role v name =
     (let role = lower (strip whitespace (py_str (or_else v (JStr ''viewer''))))
      in check_res (map_of role_order role \<noteq> None)
           (ValueError (name @ '' must be one of '' @ join '', '' (map fst role_order))) (Inr role))"

definition string_list :: "json option \<Rightarrow> string list \<Rightarrow> string list res" where
  "string_list v d =
     (case v of
        None \<Rightarrow> Inr d
      | Some JNull \<Rightarrow> Inr d
      | Some (JStr s) \<Rightarrow> Inr [s]
      | Some (JList xs) \<Rightarrow> Inr (map py_str xs)
      | Some _ \<Rightarrow> Inl (ValueError ''expected a string or list of strings''))"

text \<open>\<open>_tenant_map\<close> and \<open>_role_map\<close>: a mapping with every member read by \<open>f\<close>.\<close>

definition read_map :: "(string \<Rightarrow> json \<Rightarrow> 'a res) \<Rightarrow> json option \<Rightarrow> string \<Rightarrow> (string \<times> 'a) list res" where
  "read_map f v name =
     (case v of
        None \<Rightarrow> Inr []
      | Some JNull \<Rightarrow> Inr []
      | Some (JObj kvs) \<Rightarrow> map_res (\<lambda>(k, x). bind_res (f k x) (\<lambda>y. Inr (k, y))) kvs
      | Some _ \<Rightarrow> Inl (ValueError (name @ '' must be a mapping'')))"

definition tenant_map :: "json option \<Rightarrow> string \<Rightarrow> (string \<times> string list) list res" where
  "tenant_map v name = read_map (\<lambda>k x. string_list (Some x) []) v name"

definition role_map :: "json option \<Rightarrow> string \<Rightarrow> (string \<times> string) list res" where
  "role_map v name = read_map (\<lambda>k x. read_role (Some x) (name @ ''.'' @ k)) v name"

text \<open>\<open>str(item.get(key) or d)\<close>.\<close>

definition text_of :: "(string \<times> json) list \<Rightarrow> string \<Rightarrow> string \<Rightarrow> string" where
  "text_of raw key d = py_str (or_else (map_of raw key) (JStr d))"

definition parse_tenant :: "json \<Rightarrow> tenant_config res" where
  "parse_tenant v =
     (case v of
        JObj item \<Rightarrow>
          (let i = strip whitespace (text_of item ''id'' [])
           in check_res (i \<noteq> []) (ValueError ''tenant.id is required'')
             (check_res (i \<noteq> ''*'') (ValueError (''tenant id '' @ repr_str ''*'' @ '' is reserved for authorization scope''))
             (bind_res (string_list (map_of item ''platforms'') [''*'']) (\<lambda>ps.
                Inr \<lparr>tn_id = i, tn_name = text_of item ''name'' i, tn_platforms = ps\<rparr>))))
      | _ \<Rightarrow> Inl (ValueError ''each tenant must be a mapping''))"

definition default_tenant :: tenant_config where
  "default_tenant = \<lparr>tn_id = ''default'', tn_name = ''Default'', tn_platforms = [''*'']\<rparr>"

definition check_owner :: "tenant_config list \<Rightarrow> platform_config \<Rightarrow> unit res" where
  "check_owner ts p =
     (let matches = owners ts (pl_name p)
      in check_res (length matches = 1)
        (ValueError (''platform '' @ repr_str (pl_name p) @ '' must match exactly one tenant; matched '' @ none_or matches))
        (Inr ()))"

definition parse_tenants :: "platform_config list \<Rightarrow> json \<Rightarrow> tenant_config list res" where
  "parse_tenants ps rows =
     bind_res (if \<not> jtruthy rows then Inr [default_tenant]
               else case rows of JList items \<Rightarrow> map_res parse_tenant items
                    | _ \<Rightarrow> Inl (ValueError ''tenants must be a list'')) (\<lambda>ts.
     check_res (distinct (map tn_id ts)) (ValueError ''tenant ids must be unique'')
     (bind_res (map_res (check_owner ts) ps) (\<lambda>_. Inr ts)))"

text \<open>The scopes that no tenant has.\<close>

definition unknown_scopes :: "tenant_config list \<Rightarrow> string list \<Rightarrow> string list" where
  "unknown_scopes ts scopes = filter (\<lambda>s. s \<noteq> ''*'' \<and> s \<notin> set (map tn_id ts)) scopes"

definition check_scopes :: "tenant_config list \<Rightarrow> string \<Rightarrow> string list \<Rightarrow> unit res" where
  "check_scopes ts who scopes =
     (let invalid = unknown_scopes ts scopes
      in check_res (invalid = []) (ValueError (who @ '' references unknown tenant(s): '' @ texts_repr invalid)) (Inr ()))"

text \<open>The addresses of the identity provider and of the login callback.\<close>

definition check_oidc :: "string \<Rightarrow> string \<Rightarrow> string \<Rightarrow> unit res" where
  "check_oidc issuer client redirect =
     check_res (starts_with ''https://'' issuer) (ValueError ''identity.oidc.issuer must be an https URL'')
    (check_res (client \<noteq> []) (ValueError ''identity.oidc.client_id is required when OIDC is enabled'')
    (check_res (starts_with ''https://'' redirect \<or> starts_with ''http://127.0.0.1'' redirect
        \<or> starts_with ''http://localhost'' redirect)
      (ValueError ''identity.oidc.redirect_uri must use https except for loopback development'') (Inr ())))"

definition parse_oidc :: "tenant_config list \<Rightarrow> (string \<times> json) list \<Rightarrow> oidc_config res" where
  "parse_oidc ts raw =
     (let enabled = bool_key raw ''enabled'' False;
          issuer = rstrip ''/'' (text_of raw ''issuer'' []);
          client = text_of raw ''client_id'' [];
          redirect = text_of raw ''redirect_uri'' []
      in bind_res (if enabled then check_oidc issuer client redirect else Inr ()) (\<lambda>_.
         bind_res (bounded_int (get_or raw ''session_minutes'' (JInt 60)) ''identity.oidc.session_minutes'' 5 720) (\<lambda>minutes.
         bind_res (string_list (map_of raw ''allowed_tenant_ids'') []) (\<lambda>allowed.
         bind_res (string_list (map_of raw ''required_acrs'') []) (\<lambda>acrs.
         bind_res (read_role (Some (get_or raw ''default_role'' (JStr ''viewer''))) ''identity.oidc.default_role'') (\<lambda>role.
         bind_res (string_list (map_of raw ''default_tenants'') []) (\<lambda>scopes.
         bind_res (role_map (map_of raw ''group_role_map'') ''identity.oidc.group_role_map'') (\<lambda>group_roles.
         bind_res (tenant_map (map_of raw ''group_tenant_map'') ''identity.oidc.group_tenant_map'') (\<lambda>group_tenants.
         bind_res (role_map (map_of raw ''app_role_map'') ''identity.oidc.app_role_map'') (\<lambda>app_roles.
         bind_res (tenant_map (map_of raw ''app_role_tenant_map'') ''identity.oidc.app_role_tenant_map'') (\<lambda>app_tenants.
         bind_res (check_scopes ts ''identity.oidc.default_tenants'' scopes) (\<lambda>_.
         bind_res (map_res (\<lambda>(k, v). check_scopes ts (''identity.oidc.group_tenant_map.'' @ k) v) group_tenants) (\<lambda>_.
         bind_res (map_res (\<lambda>(k, v). check_scopes ts (''identity.oidc.app_role_tenant_map.'' @ k) v) app_tenants) (\<lambda>_.
           Inr \<lparr>oi_enabled = enabled, oi_issuer = issuer, oi_client_id = client,
                oi_client_secret_env = opt_key raw ''client_secret_env'', oi_redirect_uri = redirect,
                oi_session_secret_env = text_key raw ''session_secret_env'' ''IMMUTAVAULT_OIDC_SESSION_SECRET'',
                oi_session_minutes = minutes, oi_require_mfa = bool_key raw ''require_mfa'' True,
                oi_allowed_tenant_ids = allowed, oi_required_acrs = acrs,
                oi_allow_local_tokens = bool_key raw ''allow_local_tokens'' False, oi_default_role = role,
                oi_default_tenants = scopes, oi_group_role_map = group_roles, oi_group_tenant_map = group_tenants,
                oi_app_role_map = app_roles, oi_app_role_tenant_map = app_tenants\<rparr>))))))))))))))"

definition parse_observability :: "int \<Rightarrow> (string \<times> json) list \<Rightarrow> observability_config res" where
  "parse_observability portal_port raw =
     (let metrics = text_key raw ''metrics_path'' ''/metrics'';
          url = rstrip ''/'' (text_of raw ''websocket_public_url'' [])
      in check_res (starts_with ''/'' metrics \<and> \<not> List.member metrics (CHR ''?''))
           (ValueError ''observability.metrics_path must be an absolute URL path'')
        (bind_res (bounded_int (get_or raw ''websocket_port'' (JInt 8788)) ''observability.websocket_port'' 1 65535) (\<lambda>port.
         check_res (\<not> (port = portal_port \<and> bool_key raw ''websocket_enabled'' True))
           (ValueError ''observability.websocket_port must differ from portal.port'')
        (check_res (url = [] \<or> starts_with ''ws://'' url \<or> starts_with ''wss://'' url)
           (ValueError ''observability.websocket_public_url must start with ws:// or wss://'')
        (bind_res (bounded_int (get_or raw ''websocket_poll_seconds'' (JInt 2)) ''observability.websocket_poll_seconds'' 1 60) (\<lambda>poll.
         bind_res (bounded_int (get_or raw ''websocket_ticket_ttl_seconds'' (JInt 60))
             ''observability.websocket_ticket_ttl_seconds'' 15 300) (\<lambda>ttl.
         bind_res (string_list (map_of raw ''websocket_allowed_origins'') []) (\<lambda>origins.
           Inr \<lparr>ob_metrics_enabled = bool_key raw ''metrics_enabled'' True, ob_metrics_path = metrics,
                ob_metrics_token_env = text_key raw ''metrics_token_env'' ''IMMUTAVAULT_METRICS_TOKEN'',
                ob_websocket_enabled = bool_key raw ''websocket_enabled'' True,
                ob_websocket_listen = text_key raw ''websocket_listen'' ''127.0.0.1'', ob_websocket_port = port,
                ob_websocket_public_url = (if url = [] then None else Some url),
                ob_websocket_poll_seconds = poll, ob_websocket_ticket_ttl_seconds = ttl,
                ob_websocket_allowed_origins = origins,
                ob_include_platform_labels = bool_key raw ''include_platform_labels'' True\<rparr>))))))))"

text \<open>The tenants of one portal user; a row that is not a mapping or has no name is skipped.\<close>

definition user_scopes :: "tenant_config list \<Rightarrow> json \<Rightarrow> (string \<times> string list) option res" where
  "user_scopes ts v =
     (case v of
        JObj item \<Rightarrow>
          (case map_of item ''name'' of
             None \<Rightarrow> Inr None
           | Some n \<Rightarrow>
               if \<not> jtruthy n then Inr None
               else bind_res (string_list (map_of item ''tenants'') [''*'']) (\<lambda>scopes.
                 bind_res (check_scopes ts (''portal user '' @ py_repr n) scopes) (\<lambda>_.
                   Inr (Some (py_str n, scopes)))))
      | _ \<Rightarrow> Inr None)"

definition parse_user_tenants :: "tenant_config list \<Rightarrow> (string \<times> json) list \<Rightarrow> (string \<times> string list) list res" where
  "parse_user_tenants ts raw =
     bind_res (items_of (or_else (map_of raw ''users'') (JList []))) (\<lambda>rows.
     bind_res (map_res (user_scopes ts) rows) (\<lambda>found. Inr (dict_of (List.map_filter id found))))"

definition load_enterprise_config :: "json \<Rightarrow> enterprise_config res" where
  "load_enterprise_config document =
     bind_res (load_config document) (\<lambda>c.
     bind_res (attrs (or_else (Some document) (JObj []))) (\<lambda>raw.
     bind_res (parse_tenants (platforms c) (or_else (map_of raw ''tenants'') (JList []))) (\<lambda>ts.
     bind_res (section_of raw ''identity'') (\<lambda>identity_raw.
     bind_res (section_of identity_raw ''oidc'') (\<lambda>oidc_raw.
     bind_res (parse_oidc ts oidc_raw) (\<lambda>login.
     bind_res (section_of raw ''observability'') (\<lambda>obs_raw.
     bind_res (parse_observability (po_port (portal c)) obs_raw) (\<lambda>obs.
     bind_res (section_of raw ''portal'') (\<lambda>portal_raw.
     bind_res (parse_user_tenants ts portal_raw) (\<lambda>users.
       Inr \<lparr>core = c, tenants = ts, oidc = login, observability = obs, user_tenants = users\<rparr>))))))))))"

section \<open>What is accepted\<close>

lemma parse_tenants_Inr:
  assumes "parse_tenants ps rows = Inr ts"
  shows "distinct (map tn_id ts) \<and> (\<forall>p\<in>set ps. \<exists>t. owners ts (pl_name p) = [t])"
proof -
  from assms have "distinct (map tn_id ts)" "\<exists>us. map_res (check_owner ts) ps = Inr us"
    by (auto simp: parse_tenants_def)
  then show ?thesis
    by (auto simp: map_res_Inr list_all2_conv_all_nth in_set_conv_nth check_owner_def Let_def length_Suc_conv)
qed

lemma check_scopes_Inr: "check_scopes ts who scopes = Inr u \<longleftrightarrow> set scopes \<subseteq> insert ''*'' (set (map tn_id ts))"
  by (auto simp: check_scopes_def Let_def unknown_scopes_def filter_empty_conv)

lemma all_scopes_known:
  "map_res (\<lambda>(k, v). check_scopes ts (f k) v) kvs = Inr us \<Longrightarrow>
   list_all (\<lambda>(k, v). set v \<subseteq> insert ''*'' (set (map tn_id ts))) kvs"
  by (induction kvs arbitrary: us) (auto simp: check_scopes_Inr)

lemma parse_oidc_Inr:
  assumes "parse_oidc ts raw = Inr c"
  shows "set (oi_default_tenants c) \<subseteq> insert ''*'' (set (map tn_id ts))"
    "list_all (\<lambda>(k, v). set v \<subseteq> insert ''*'' (set (map tn_id ts))) (oi_group_tenant_map c @ oi_app_role_tenant_map c)"
  using assms by (auto simp: parse_oidc_def Let_def check_scopes_Inr dest!: all_scopes_known)

lemma set_put_key: "set (put_key k v d) \<subseteq> insert (k, v) (set d \<union> {(k', v'). k' = k \<and> v' = v})"
  by (auto simp: put_key_def split: if_splits)

lemma set_dict_of: "set (dict_of kvs) \<subseteq> set kvs"
proof (induction kvs rule: rev_induct)
  case (snoc x xs)
  then show ?case using set_put_key [of "fst x" "snd x" "dict_of xs"] by (cases x) (auto simp: dict_of_def)
qed (simp add: dict_of_def)

lemma user_scopes_Inr:
  "user_scopes ts v = Inr (Some (n, scopes)) \<Longrightarrow> set scopes \<subseteq> insert ''*'' (set (map tn_id ts))"
  by (auto simp: user_scopes_def check_scopes_Inr split: json.splits option.splits if_splits)

lemma found_scopes:
  "map_res (user_scopes ts) rows = Inr found \<Longrightarrow>
   list_all (\<lambda>(n, v). set v \<subseteq> insert ''*'' (set (map tn_id ts))) (List.map_filter id found)"
proof (induction rows arbitrary: found)
  case (Cons r rows)
  then obtain x xs where "user_scopes ts r = Inr x" "map_res (user_scopes ts) rows = Inr xs" "found = x # xs" by auto
  with Cons.IH [of xs] show ?case
    by (cases x) (auto simp only: map_filter_simps id_apply option.case list.pred_inject case_prod_conv dest!: user_scopes_Inr)
qed (simp add: map_filter_simps)

lemma parse_users_Inr:
  assumes "parse_user_tenants ts raw = Inr us"
  shows "list_all (\<lambda>(n, v). set v \<subseteq> insert ''*'' (set (map tn_id ts))) us"
proof -
  from assms obtain rows found where "map_res (user_scopes ts) rows = Inr found" "us = dict_of (List.map_filter id found)"
    by (auto simp: parse_user_tenants_def)
  with found_scopes [OF this(1)] set_dict_of show ?thesis unfolding list_all_iff by blast
qed

lemma owners_known: "owners ts n = [t] \<Longrightarrow> t \<in> set (map tn_id ts)"
proof -
  assume "owners ts n = [t]"
  then have "t \<in> set (owners ts n)" by simp
  then show ?thesis by (auto simp: owners_def)
qed

lemma load_enterprise_Inr:
  assumes "load_enterprise_config doc = Inr c"
  shows "load_config doc = Inr (core c) \<and> (\<exists>rows. parse_tenants (platforms (core c)) rows = Inr (tenants c)) \<and>
    (\<exists>raw. parse_oidc (tenants c) raw = Inr (oidc c)) \<and>
    (\<exists>raw. parse_observability (po_port (portal (core c))) raw = Inr (observability c)) \<and>
    (\<exists>raw. parse_user_tenants (tenants c) raw = Inr (user_tenants c))"
  using assms by (auto simp: load_enterprise_config_def)

lemma one_tenant:
  assumes "load_enterprise_config doc = Inr c" "p \<in> set (platforms (core c))"
  shows "\<exists>t. tenant_for_platform c (pl_name p) = Inr t \<and> t \<in> tenant_ids c"
proof -
  obtain rows where "parse_tenants (platforms (core c)) rows = Inr (tenants c)"
    using load_enterprise_Inr [OF assms(1)] by blast
  from parse_tenants_Inr [OF this] assms(2) obtain t where "owners (tenants c) (pl_name p) = [t]" by blast
  with owners_known [OF this] show ?thesis by (auto simp: tenant_for_platform_def tenant_ids_def)
qed

text \<open>Small concrete configurations.\<close>

definition plain_enterprise :: enterprise_config where
  "plain_enterprise =
     \<lparr>core = default_config (default_repository ''u'' ''/r'' ''/s'') [], tenants = [default_tenant],
      oidc = \<lparr>oi_enabled = True, oi_issuer = [], oi_client_id = ''c'', oi_client_secret_env = None,
        oi_redirect_uri = ''https://vault/callback'', oi_session_secret_env = ''S'', oi_session_minutes = 60, oi_require_mfa = False,
        oi_allowed_tenant_ids = [], oi_required_acrs = [], oi_allow_local_tokens = False, oi_default_role = ''viewer'',
        oi_default_tenants = [''default''], oi_group_role_map = [], oi_group_tenant_map = [], oi_app_role_map = [],
        oi_app_role_tenant_map = []\<rparr>,
      observability = \<lparr>ob_metrics_enabled = True, ob_metrics_path = ''/metrics'', ob_metrics_token_env = ''M'',
        ob_websocket_enabled = True, ob_websocket_listen = ''127.0.0.1'', ob_websocket_port = 8788,
        ob_websocket_public_url = None, ob_websocket_poll_seconds = 2, ob_websocket_ticket_ttl_seconds = 60,
        ob_websocket_allowed_origins = [], ob_include_platform_labels = True\<rparr>,
      user_tenants = []\<rparr>"

definition tenant_document :: json where
  "tenant_document = (case sample_document of JObj kvs \<Rightarrow> JObj (kvs @ [
     (''tenants'', JList [JObj [(''id'', JStr ''x''), (''platforms'', JStr ''a*'')],
        JObj [(''id'', JStr ''y''), (''platforms'', JList [JStr ''[b-d]''])]]),
     (''identity'', JObj [(''oidc'', JObj [(''enabled'', JBool True), (''issuer'', JStr ''https://idp/''),
        (''client_id'', JStr ''vault''), (''redirect_uri'', JStr ''https://vault/callback''),
        (''default_tenants'', JList [JStr ''x''])])])]) | v \<Rightarrow> v)"

lemma tenant_document_loads:
  "case load_enterprise_config tenant_document of Inl e \<Rightarrow> False
   | Inr c \<Rightarrow> map (owners (tenants c)) (map pl_name (platforms (core c))) = [[''x''], [''y'']]"
  by code_simp

section \<open>Claims\<close>

text \<open>C38. In every accepted enterprise configuration each configured platform belongs to exactly one tenant,
  which is a configured one, tenant ids are unique, and every scope granted by default, through a group or
  an application role, or to a portal user is a configured tenant or \<open>*\<close>.\<close>

theorem tenancy_unambiguous:
  assumes "load_enterprise_config doc = Inr c"
  shows "distinct (map tn_id (tenants c)) \<and>
    (\<forall>p\<in>set (platforms (core c)). \<exists>t. tenant_for_platform c (pl_name p) = Inr t \<and> t \<in> tenant_ids c) \<and>
    set (oi_default_tenants (oidc c)) \<subseteq> insert ''*'' (tenant_ids c) \<and>
    (\<forall>(k, v)\<in>set (oi_group_tenant_map (oidc c) @ oi_app_role_tenant_map (oidc c) @ user_tenants c).
       set v \<subseteq> insert ''*'' (tenant_ids c))"
proof -
  note l = load_enterprise_Inr [OF assms]
  from l obtain rows where "parse_tenants (platforms (core c)) rows = Inr (tenants c)" by blast
  note d = parse_tenants_Inr [OF this]
  from l obtain raw where "parse_oidc (tenants c) raw = Inr (oidc c)" by blast
  note o = parse_oidc_Inr [OF this]
  from l obtain raw' where "parse_user_tenants (tenants c) raw' = Inr (user_tenants c)" by blast
  note u = parse_users_Inr [OF this]
  have "\<forall>(k, v)\<in>set (oi_group_tenant_map (oidc c) @ oi_app_role_tenant_map (oidc c) @ user_tenants c).
      set v \<subseteq> insert ''*'' (tenant_ids c)"
    using o(2) u unfolding list_all_iff tenant_ids_def set_append by blast
  moreover have "set (oi_default_tenants (oidc c)) \<subseteq> insert ''*'' (tenant_ids c)"
    using o(1) unfolding tenant_ids_def .
  ultimately show ?thesis using d one_tenant [OF assms] by blast
qed

lemma tenancy_unambiguous_witness:
  "\<exists>c. load_enterprise_config tenant_document = Inr c \<and> distinct (map tn_id (tenants c)) \<and>
     set (oi_default_tenants (oidc c)) \<subseteq> insert ''*'' (tenant_ids c)"
proof -
  obtain c where "load_enterprise_config tenant_document = Inr c"
    using tenant_document_loads by (auto split: sum.splits)
  with tenancy_unambiguous [OF this] show ?thesis by blast
qed

end
