(* ===== verification/V2v_Config.thy ===== *)
theory V2v_Config
  imports Enterprise_Config
begin

text \<open>
  The configuration of cross-hypervisor recovery, \<open>v2v_config.py\<close>: conversion providers pinned by
  their SHA-256, and the limits. The lemmas show that in an accepted configuration no pair of
  hypervisors is claimed twice and every provider is pinned.
\<close>

record v2v_provider =
  vp_name :: string
  vp_helper :: string
  vp_sha256 :: string
  vp_pairs :: "string list"
  vp_certification_id :: string
  vp_enabled :: bool

record v2v_config =
  v2_enabled :: bool
  v2_builtin_vmware_to_proxmox :: bool
  v2_require_verified_point :: bool
  v2_allow_suspicious_points :: bool
  v2_virt_v2v_min_version :: string
  v2_max_disks :: int
  v2_max_virtual_bytes :: int
  v2_require_network_mapping :: bool
  v2_allow_uefi :: bool
  v2_allow_secure_boot :: bool
  v2_provider_timeout_seconds :: int
  v2_providers :: "v2v_provider list"

text \<open>\<open>V10Config\<close> and the core configuration it passes on.\<close>

record v10_config =
  enterprise :: enterprise_config
  v2v :: v2v_config

definition core_of :: "v10_config \<Rightarrow> config" where
  "core_of cfg = core (enterprise cfg)"

definition default_v2v :: v2v_config where
  "default_v2v = \<lparr>v2_enabled = False, v2_builtin_vmware_to_proxmox = True, v2_require_verified_point = True,
     v2_allow_suspicious_points = False, v2_virt_v2v_min_version = ''2.12.0'', v2_max_disks = 16,
     v2_max_virtual_bytes = 64 * 1024 * 1024 * 1024 * 1024, v2_require_network_mapping = True, v2_allow_uefi = True,
     v2_allow_secure_boot = False, v2_provider_timeout_seconds = 14400, v2_providers = []\<rparr>"

text \<open>The two families that a pair names.\<close>

definition families :: "string \<Rightarrow> (string \<times> string) option" where
  "families pair =
     (case split_on (CHR '':'') pair of
        [a, b] \<Rightarrow> if List.member allowed_types a \<and> List.member allowed_types b then Some (a, b) else None
      | _ \<Rightarrow> None)"

definition read_pair :: "string \<Rightarrow> json \<Rightarrow> string res" where
  "read_pair name item =
     (let pair = lower (strip whitespace (py_str item))
      in case families pair of
           None \<Rightarrow> Inl (ValueError (name @ '' contains invalid pair '' @ repr_str pair))
         | Some (a, b) \<Rightarrow>
             check_res (a \<noteq> b) (ValueError (name @ '' must contain cross-hypervisor pairs only'')) (Inr pair))"

definition read_pairs :: "json option \<Rightarrow> string \<Rightarrow> string list res" where
  "read_pairs v name =
     (case v of
        Some (JList (x # xs)) \<Rightarrow> map_res (read_pair name) (x # xs)
      | _ \<Rightarrow> Inl (ValueError (name @ '' must be a non-empty list'')))"

text \<open>\<open>pair_owners\<close> after one more provider.\<close>

fun claim_pairs :: "string \<Rightarrow> (string \<times> string) list \<Rightarrow> string list \<Rightarrow> (string \<times> string) list res" where
  "claim_pairs name taken [] = Inr taken"
| "claim_pairs name taken (p # ps) =
     (case map_of taken p of
        Some other \<Rightarrow> Inl (ValueError (''V2V pair '' @ p @ '' is claimed by both '' @ other @ '' and '' @ name))
      | None \<Rightarrow> claim_pairs name (taken @ [(p, name)]) ps)"

definition digest_ok :: "string \<Rightarrow> bool" where
  "digest_ok s \<longleftrightarrow> length s = 64 \<and> list_all (\<lambda>c. is_digit c \<or> CHR ''a'' \<le> c \<and> c \<le> CHR ''f'') s"

definition parse_provider :: "nat \<Rightarrow> string list \<Rightarrow> json \<Rightarrow> v2v_provider res" where
  "parse_provider index names v =
     (case v of
        JObj item \<Rightarrow>
          (let name = strip whitespace (text_of item ''name'' []);
               helper = strip whitespace (text_of item ''helper'' []);
               digest = lower (strip whitespace (text_of item ''sha256'' []));
               cert = strip whitespace (text_of item ''certification_id'' []);
               who = ''v2v provider '' @ name
           in check_res (name \<noteq> []) (ValueError (''v2v.providers['' @ show_nat index @ ''].name is required''))
             (check_res (\<not> List.member names name) (ValueError (''duplicate V2V provider name: '' @ name))
             (check_res (starts_with ''/'' helper) (ValueError (who @ '': helper must be an absolute path''))
             (check_res (digest_ok digest) (ValueError (who @ '': sha256 must be a lowercase 64-character digest''))
             (check_res (cert \<noteq> []) (ValueError (who @ '': certification_id is required''))
             (bind_res (read_pairs (map_of item ''pairs'') (who @ ''.pairs'')) (\<lambda>pairs.
                Inr \<lparr>vp_name = name, vp_helper = helper, vp_sha256 = digest, vp_pairs = pairs,
                     vp_certification_id = cert, vp_enabled = bool_key item ''enabled'' True\<rparr>)))))))
      | _ \<Rightarrow> Inl (ValueError ''v2v.providers entries must be mappings''))"

text \<open>The loop over the providers: those read so far and the pairs they own.\<close>

fun parse_providers ::
  "v2v_provider list \<Rightarrow> (string \<times> string) list \<Rightarrow> json list \<Rightarrow> v2v_provider list res" where
  "parse_providers done taken [] = Inr done"
| "parse_providers done taken (v # vs) =
     bind_res (parse_provider (length done) (map vp_name done) v) (\<lambda>p.
     bind_res (claim_pairs (vp_name p) taken (vp_pairs p)) (\<lambda>taken'.
       parse_providers (done @ [p]) taken' vs))"

text \<open>\<open>\d+\.\d+(\.\d+)?\<close>.\<close>

definition version_ok :: "string \<Rightarrow> bool" where
  "version_ok s \<longleftrightarrow> (let ws = split_on (CHR ''.'') s
     in (length ws = 2 \<or> length ws = 3) \<and> list_all (\<lambda>w. w \<noteq> [] \<and> list_all is_digit w) ws)"

definition parse_v2v :: "(string \<times> json) list \<Rightarrow> v2v_config res" where
  "parse_v2v row =
     bind_res (items_of (or_else (map_of row ''providers'') (JList []))) (\<lambda>items.
     bind_res (parse_providers [] [] items) (\<lambda>providers.
     bind_res (bounded_int (get_or row ''max_disks'' (JInt 16)) ''v2v.max_disks'' 1 64) (\<lambda>disks.
     bind_res (bounded_int (get_or row ''max_virtual_bytes'' (JInt (64 * 1024 * 1024 * 1024 * 1024)))
        ''v2v.max_virtual_bytes'' (1024 * 1024 * 1024) (1024 * 1024 * 1024 * 1024 * 1024)) (\<lambda>bytes.
     bind_res (bounded_int (get_or row ''provider_timeout_seconds'' (JInt 14400))
        ''v2v.provider_timeout_seconds'' 60 172800) (\<lambda>timeout.
     let version = strip whitespace (text_key row ''virt_v2v_min_version'' ''2.12.0'')
     in check_res (version_ok version)
          (ValueError ''v2v.virt_v2v_min_version must be a numeric version such as 2.12.0'')
        (Inr \<lparr>v2_enabled = bool_key row ''enabled'' False,
              v2_builtin_vmware_to_proxmox = bool_key row ''builtin_vmware_to_proxmox'' True,
              v2_require_verified_point = bool_key row ''require_verified_point'' True,
              v2_allow_suspicious_points = bool_key row ''allow_suspicious_points'' False,
              v2_virt_v2v_min_version = version, v2_max_disks = disks, v2_max_virtual_bytes = bytes,
              v2_require_network_mapping = bool_key row ''require_network_mapping'' True,
              v2_allow_uefi = bool_key row ''allow_uefi'' True,
              v2_allow_secure_boot = bool_key row ''allow_secure_boot'' False,
              v2_provider_timeout_seconds = timeout, v2_providers = providers\<rparr>))))))"

definition load_v10_config :: "json \<Rightarrow> v10_config res" where
  "load_v10_config document =
     bind_res (load_enterprise_config document) (\<lambda>e.
     bind_res (attrs (or_else (Some document) (JObj []))) (\<lambda>raw.
     bind_res (section_of raw ''v2v'') (\<lambda>row.
     bind_res (parse_v2v row) (\<lambda>c. Inr \<lparr>enterprise = e, v2v = c\<rparr>))))"

section \<open>What is accepted\<close>

lemma claim_pairs_Inr:
  assumes "claim_pairs name taken ps = Inr taken'"
  shows "taken' = taken @ map (\<lambda>p. (p, name)) ps \<and> distinct ps \<and> set ps \<inter> set (map fst taken) = {}"
  using assms
proof (induction ps arbitrary: taken)
  case (Cons p ps)
  then have "map_of taken p = None" "claim_pairs name (taken @ [(p, name)]) ps = Inr taken'"
    by (auto split: option.splits)
  with Cons.IH [OF this(2)] show ?case by (auto simp: map_of_eq_None_iff)
qed simp

definition crosses :: "string \<Rightarrow> bool" where
  "crosses pair \<longleftrightarrow> (case families pair of None \<Rightarrow> False | Some (a, b) \<Rightarrow> a \<noteq> b)"

lemma parse_provider_Inr:
  assumes "parse_provider i names v = Inr p"
  shows "vp_name p \<notin> set names \<and> digest_ok (vp_sha256 p) \<and> starts_with ''/'' (vp_helper p) \<and>
    list_all crosses (vp_pairs p)"
proof -
  have pair: "read_pair who v = Inr q \<Longrightarrow> crosses q" for who v q
    by (auto simp: crosses_def read_pair_def Let_def split: option.splits prod.splits)
  have pairs: "map_res (read_pair who) vs = Inr qs \<Longrightarrow>
      list_all crosses qs" for who vs qs
    by (induction vs arbitrary: qs) (auto dest: pair)
  have "read_pairs w who = Inr qs \<Longrightarrow>
      list_all crosses qs" for w who qs
    using pairs [of who] by (auto simp: read_pairs_def simp del: map_res.simps split: option.splits json.splits list.splits)
  with assms show ?thesis
    by (auto simp: parse_provider_def Let_def split: json.splits)
qed

definition providers_ok :: "v2v_provider list \<Rightarrow> bool" where
  "providers_ok ps \<longleftrightarrow> distinct (map vp_name ps) \<and> distinct (concat (map vp_pairs ps)) \<and>
     list_all (\<lambda>p. digest_ok (vp_sha256 p) \<and> starts_with ''/'' (vp_helper p) \<and>
       list_all crosses (vp_pairs p)) ps"

lemma parse_providers_Inr:
  assumes "parse_providers done taken vs = Inr ps" "providers_ok done" "map fst taken = concat (map vp_pairs done)"
  shows "providers_ok ps"
  using assms
proof (induction vs arbitrary: "done" taken)
  case (Cons v vs)
  from Cons.prems(1) obtain p taken' where p: "parse_provider (length done) (map vp_name done) v = Inr p"
    "claim_pairs (vp_name p) taken (vp_pairs p) = Inr taken'" "parse_providers (done @ [p]) taken' vs = Inr ps"
    by auto
  note q = parse_provider_Inr [OF p(1)] and c = claim_pairs_Inr [OF p(2)]
  show ?case
  proof (rule Cons.IH [OF p(3)])
    show "providers_ok (done @ [p])"
      using q c Cons.prems(2,3) by (auto simp: providers_ok_def)
    show "map fst taken' = concat (map vp_pairs (done @ [p]))"
      using c Cons.prems(3) by (simp add: comp_def)
  qed
qed simp

lemma load_v10_Inr:
  assumes "load_v10_config doc = Inr c"
  shows "load_enterprise_config doc = Inr (enterprise c) \<and> providers_ok (v2_providers (v2v c)) \<and>
    version_ok (v2_virt_v2v_min_version (v2v c)) \<and> 1 \<le> v2_max_disks (v2v c) \<and> v2_max_disks (v2v c) \<le> 64"
  using assms parse_providers_Inr [of "[]" "[]"]
  by (auto simp: load_v10_config_def parse_v2v_def Let_def bounded_int_def providers_ok_def)

end
