(* ===== verification/Management_Config.thy ===== *)
theory Management_Config
  imports V2v_Config Fnmatch Naming
begin

text \<open>
  The unified management layer of \<open>management_config.py\<close>: protection policies (exact machine names per
  platform, schedule, immutability, replica targets) and the networks registered for isolated recovery
  tests. The document is the parsed YAML. The lemmas show what an accepted policy looks like; that it
  names machines and never patterns is what makes a policy run select exactly those machines.
\<close>

section \<open>Data\<close>

record policy_selection =
  sl_platform :: string
  sl_vms :: "string list"

record policy_schedule =
  sc_frequency :: string
  sc_time :: string
  sc_weekdays :: "string list"
  sc_every_hours :: int

record protection_policy =
  po_id :: string
  po_name :: string
  po_enabled :: bool
  po_selections :: "policy_selection list"
  po_schedule :: policy_schedule
  po_immutable_days :: int
  po_replica_targets :: "string list"
  po_verify_after_backup :: bool

record management_config =
  mg_enabled :: bool
  mg_broker_socket :: string
  mg_policies :: "protection_policy list"
  mg_dr_test_networks :: "(string \<times> string list) list"
  mg_dr_test_boot_seconds :: int
  mg_dr_test_auto_cleanup :: bool

record v11_config =
  v10 :: v10_config
  management :: management_config
  source_path :: string

definition core_config :: "v11_config \<Rightarrow> config" where
  "core_config cfg = core_of (v10 cfg)"

definition weekdays :: "string list" where
  "weekdays = [''mon'', ''tue'', ''wed'', ''thu'', ''fri'', ''sat'', ''sun'']"

text \<open>\<open>on_calendar\<close>; \<open>title\<close> is applied to weekday names, which are lower-case words.\<close>

definition title :: "string \<Rightarrow> string" where
  "title w = (case w of [] \<Rightarrow> [] | c # cs \<Rightarrow> upper_char c # map lower_char cs)"

definition on_calendar :: "policy_schedule \<Rightarrow> string option res" where
  "on_calendar s =
     (if sc_frequency s = ''manual'' then Inr None
      else if sc_frequency s = ''daily'' then Inr (Some (''*-*-* '' @ sc_time s @ '':00''))
      else if sc_frequency s = ''weekly''
      then Inr (Some (join '','' (map title (sc_weekdays s)) @ '' *-*-* '' @ sc_time s @ '':00''))
      else if sc_frequency s = ''hourly''
      then Inr (Some (''*-*-* 00/'' @ show_int (sc_every_hours s) @ '':00:00''))
      else Inl (ValueError (''unsupported policy frequency: '' @ sc_frequency s)))"

section \<open>Reading it\<close>

text \<open>\<open>^[a-z0-9][a-z0-9._-]{0,63}$\<close> and \<open>^(?:[01]\d|2[0-3]):[0-5]\d$\<close>.\<close>

definition id_char :: "char \<Rightarrow> bool" where
  "id_char c \<longleftrightarrow> is_digit c \<or> CHR ''a'' \<le> c \<and> c \<le> CHR ''z''"

definition policy_id_ok :: "string \<Rightarrow> bool" where
  "policy_id_ok s \<longleftrightarrow>
     (case s of [] \<Rightarrow> False
      | c # cs \<Rightarrow> id_char c \<and> length cs \<le> 63 \<and> list_all (\<lambda>d. id_char d \<or> List.member ''._-'' d) cs)"

definition clock_text_ok :: "string \<Rightarrow> bool" where
  "clock_text_ok s \<longleftrightarrow>
     (case s of
        [a, b, c, d, e] \<Rightarrow> c = CHR '':'' \<and> is_digit b \<and> is_digit e \<and> CHR ''0'' \<le> d \<and> d \<le> CHR ''5'' \<and>
          (a = CHR ''0'' \<or> a = CHR ''1'' \<or> a = CHR ''2'' \<and> b \<le> CHR ''3'')
      | _ \<Rightarrow> False)"

text \<open>A text alone stands for the list of it; anything else but a list is refused.\<close>

definition rows_of :: "json \<Rightarrow> string \<Rightarrow> json list res" where
  "rows_of v msg =
     (case v of JStr s \<Rightarrow> Inr [JStr s] | JList xs \<Rightarrow> Inr xs | _ \<Rightarrow> Inl (ValueError msg))"

definition stripped :: "json list \<Rightarrow> string list" where
  "stripped xs = filter (\<lambda>s. s \<noteq> []) (map (\<lambda>x. strip whitespace (py_str x)) xs)"

definition parse_schedule :: "json option \<Rightarrow> string \<Rightarrow> policy_schedule res" where
  "parse_schedule v name =
     (case or_else v (JObj []) of
        JObj raw \<Rightarrow>
          (let frequency = lower (strip whitespace (text_key raw ''frequency'' ''daily''));
               clock_text = strip whitespace (text_key raw ''time'' ''22:00'')
           in check_res (List.member [''manual'', ''daily'', ''weekly'', ''hourly''] frequency)
                (ValueError (name @ ''.frequency must be manual, daily, weekly, or hourly''))
             (check_res (List.member [''daily'', ''weekly''] frequency \<longrightarrow> clock_text_ok clock_text)
                (ValueError (name @ ''.time must be HH:MM in 24-hour format''))
             (bind_res (rows_of (or_else (map_of raw ''weekdays'') (JList [])) (name @ ''.weekdays must be a list'')) (\<lambda>days.
              let ds = map (\<lambda>d. take 3 (lower (strip whitespace (py_str d)))) days;
                  invalid = filter (\<lambda>d. \<not> List.member weekdays d) ds
              in check_res (frequency = ''weekly'' \<longrightarrow> ds \<noteq> [])
                   (ValueError (name @ ''.weekdays is required for weekly policies''))
                (check_res (frequency = ''weekly'' \<longrightarrow> invalid = [])
                   (ValueError (name @ ''.weekdays contains invalid values: '' @ texts_repr invalid))
                (bind_res (bounded_int (get_or raw ''every_hours'' (JInt 1)) (name @ ''.every_hours'') 1 24) (\<lambda>hours.
                   Inr \<lparr>sc_frequency = frequency, sc_time = clock_text, sc_weekdays = ds, sc_every_hours = hours\<rparr>)))))))
      | _ \<Rightarrow> Inl (ValueError (name @ '' must be a mapping'')))"

text \<open>One checkbox selection; \<open>seen\<close> are the platforms selected before.\<close>

definition parse_selection :: "string list \<Rightarrow> string \<Rightarrow> string list \<Rightarrow> json \<Rightarrow> policy_selection res" where
  "parse_selection known who seen v =
     (case v of
        JObj raw \<Rightarrow>
          (let platform = strip whitespace (text_of raw ''platform'' []);
               none_left = ValueError (who @ '': '' @ platform @ '' requires at least one VM'')
           in check_res (List.member known platform) (ValueError (who @ '': unknown platform '' @ repr_str platform))
             (check_res (\<not> List.member seen platform) (ValueError (who @ '': duplicate selection for '' @ platform))
             (bind_res (rows_of (or_else (map_of raw ''vms'') (JList [])) (exc_msg none_left)) (\<lambda>rows.
              let vms = stripped rows
              in check_res (rows \<noteq> [] \<and> vms \<noteq> []) none_left
                (check_res (list_all (list_all (\<lambda>c. \<not> List.member ''*?[]'' c)) vms)
                   (ValueError (who @ '': checkbox policies require exact VM names, not wildcard patterns''))
                (check_res (distinct vms) (ValueError (who @ '': duplicate VM name in '' @ platform))
                   (Inr \<lparr>sl_platform = platform, sl_vms = vms\<rparr>)))))))
      | _ \<Rightarrow> Inl (ValueError (who @ '': selections must be mappings'')))"

fun parse_selections ::
  "string list \<Rightarrow> string \<Rightarrow> policy_selection list \<Rightarrow> json list \<Rightarrow> policy_selection list res" where
  "parse_selections known who done [] = Inr done"
| "parse_selections known who done (v # vs) =
     bind_res (parse_selection known who (map sl_platform done) v) (\<lambda>s. parse_selections known who (done @ [s]) vs)"

definition parse_policy :: "config \<Rightarrow> nat \<Rightarrow> string list \<Rightarrow> json \<Rightarrow> protection_policy res" where
  "parse_policy c index ids v =
     (case v of
        JObj item \<Rightarrow>
          (let i = lower (strip whitespace (text_of item ''id'' []));
               name = strip whitespace (text_of item ''name'' i);
               who = ''management policy '' @ i;
               enabled_replicas = map rp_name (filter rp_enabled (replicas c))
           in check_res (policy_id_ok i)
                (ValueError (''management.policies['' @ show_nat index @ ''].id must match ^[a-z0-9][a-z0-9._-]{0,63}$''))
             (check_res (\<not> List.member ids i) (ValueError (''duplicate management policy id: '' @ i))
             (check_res (name \<noteq> []) (ValueError (who @ '': name is required''))
             (bind_res (items_of (or_else (map_of item ''selections'') (JList []))) (\<lambda>rows.
              bind_res (parse_selections (map pl_name (platforms c)) who [] rows) (\<lambda>sels.
              check_res (sels \<noteq> []) (ValueError (who @ '': at least one platform/VM selection is required''))
             (bind_res (rows_of (or_else (map_of item ''replica_targets'') (JList [])) (who @ '': replica_targets must be a list''))
                (\<lambda>targets.
              let names = stripped targets;
                  unknown = sort (remdups (filter (\<lambda>n. \<not> List.member enabled_replicas n) names))
              in check_res (unknown = []) (ValueError (who @ '': unknown or disabled replicas: '' @ texts_repr unknown))
             (bind_res (parse_schedule (map_of item ''schedule'') (who @ ''.schedule'')) (\<lambda>sched.
              bind_res (bounded_int (get_or item ''immutable_days'' (JInt (keep_within_days (repo_retention (repository c)))))
                (who @ ''.immutable_days'') 1 3650) (\<lambda>days.
                Inr \<lparr>po_id = i, po_name = name, po_enabled = bool_key item ''enabled'' True, po_selections = sels,
                     po_schedule = sched, po_immutable_days = days, po_replica_targets = names,
                     po_verify_after_backup = bool_key item ''verify_after_backup'' True\<rparr>)))))))))))
      | _ \<Rightarrow> Inl (ValueError ''management.policies entries must be mappings''))"

fun parse_policies :: "config \<Rightarrow> protection_policy list \<Rightarrow> json list \<Rightarrow> protection_policy list res" where
  "parse_policies c done [] = Inr done"
| "parse_policies c done (v # vs) =
     bind_res (parse_policy c (length done) (map po_id done) v) (\<lambda>p. parse_policies c (done @ [p]) vs)"

definition parse_test_network :: "string list \<Rightarrow> string \<times> json \<Rightarrow> (string \<times> string list) res" where
  "parse_test_network known row =
     (let (platform, v) = row; who = ''management.dr_test_networks.'' @ platform
      in check_res (List.member known platform)
           (ValueError (''management.dr_test_networks references unknown platform '' @ repr_str platform))
        (bind_res (rows_of v (who @ '' must be a string or list'')) (\<lambda>xs.
           let names = stripped xs
           in check_res (names \<noteq> []) (ValueError (who @ '' cannot be empty'')) (Inr (platform, names)))))"

definition parse_test_networks :: "string list \<Rightarrow> json \<Rightarrow> (string \<times> string list) list res" where
  "parse_test_networks known v =
     (case v of
        JObj kvs \<Rightarrow> map_res (parse_test_network known) kvs
      | _ \<Rightarrow> Inl (ValueError ''management.dr_test_networks must be a mapping of platform to isolated network names''))"

definition parse_management :: "config \<Rightarrow> (string \<times> json) list \<Rightarrow> management_config res" where
  "parse_management c raw =
     bind_res (items_of (or_else (map_of raw ''policies'') (JList []))) (\<lambda>items.
     bind_res (parse_policies c [] items) (\<lambda>ps.
     bind_res (parse_test_networks (map pl_name (platforms c)) (or_else (map_of raw ''dr_test_networks'') (JObj [])))
       (\<lambda>networks.
     let socket = strip whitespace (text_key raw ''broker_socket'' ''/run/immutavault/manage.sock'')
     in check_res (starts_with ''/'' socket) (ValueError ''management.broker_socket must be an absolute path'')
       (bind_res (bounded_int (get_or raw ''dr_test_boot_seconds'' (JInt 30)) ''management.dr_test_boot_seconds'' 5 900) (\<lambda>boot.
          Inr \<lparr>mg_enabled = bool_key raw ''enabled'' True, mg_broker_socket = socket, mg_policies = ps,
               mg_dr_test_networks = networks, mg_dr_test_boot_seconds = boot,
               mg_dr_test_auto_cleanup = bool_key raw ''dr_test_auto_cleanup'' True\<rparr>)))))"

definition load_v11_config :: "string \<Rightarrow> json \<Rightarrow> v11_config res" where
  "load_v11_config path document =
     bind_res (load_v10_config document) (\<lambda>c.
     bind_res (attrs (or_else (Some document) (JObj []))) (\<lambda>raw.
     case or_else (map_of raw ''management'') (JObj []) of
       JObj row \<Rightarrow> bind_res (parse_management (core_of c) row) (\<lambda>m.
         Inr \<lparr>v10 = c, management = m, source_path = norm_path path\<rparr>)
     | _ \<Rightarrow> Inl (ValueError ''management must be a mapping'')))"

section \<open>What is accepted\<close>

definition selection_ok :: "config \<Rightarrow> policy_selection \<Rightarrow> bool" where
  "selection_ok c s \<longleftrightarrow> sl_platform s \<in> pl_name ` set (platforms c) \<and> sl_vms s \<noteq> [] \<and> distinct (sl_vms s) \<and>
     list_all plain_name (sl_vms s)"

definition policy_ok :: "config \<Rightarrow> protection_policy \<Rightarrow> bool" where
  "policy_ok c p \<longleftrightarrow> policy_id_ok (po_id p) \<and> po_selections p \<noteq> [] \<and>
     distinct (map sl_platform (po_selections p)) \<and> list_all (selection_ok c) (po_selections p) \<and>
     1 \<le> po_immutable_days p \<and> po_immutable_days p \<le> 3650 \<and>
     set (po_replica_targets p) \<subseteq> rp_name ` {r \<in> set (replicas c). rp_enabled r}"

lemma parse_selection_Inr:
  assumes "parse_selection (map pl_name (platforms c)) who seen v = Inr s"
  shows "selection_ok c s \<and> sl_platform s \<notin> set seen"
proof (cases v)
  case (JObj raw)
  have *: "List.member (map pl_name (platforms c)) (sl_platform s)" "\<not> List.member seen (sl_platform s)" "sl_vms s \<noteq> []"
    "list_all (list_all (\<lambda>c. \<not> List.member ''*?[]'' c)) (sl_vms s)" "distinct (sl_vms s)"
    using assms unfolding JObj parse_selection_def Let_def json.case bind_res_Inr check_res_Inr sum.inject by force+
  have "list_all plain_name (sl_vms s)"
    using *(4) by (induction "sl_vms s") (auto simp: plain_name_def list_all_iff)
  with * show ?thesis by (auto simp: selection_ok_def)
qed (use assms in \<open>auto simp: parse_selection_def\<close>)

lemma parse_selections_Inr:
  assumes "parse_selections (map pl_name (platforms c)) who done vs = Inr ss" "distinct (map sl_platform done)"
    "list_all (selection_ok c) done"
  shows "distinct (map sl_platform ss) \<and> list_all (selection_ok c) ss"
  using assms
proof (induction vs arbitrary: "done")
  case (Cons v vs)
  then obtain s where s: "parse_selection (map pl_name (platforms c)) who (map sl_platform done) v = Inr s"
    "parse_selections (map pl_name (platforms c)) who (done @ [s]) vs = Inr ss" by auto
  from parse_selection_Inr [OF s(1)] Cons.prems(2,3) show ?case by (intro Cons.IH [OF s(2)]) auto
qed simp

lemma sort_remdups_Nil: "sort (remdups (filter P ns)) = [] \<Longrightarrow> list_all (\<lambda>n. \<not> P n) ns"
  by (metis (mono_tags, lifting) filter_empty_conv list_all_iff remdups_eq_nil_iff set_empty set_sort)

lemma parse_policy_Inr:
  assumes "parse_policy c i ids v = Inr p"
  shows "policy_ok c p \<and> po_id p \<notin> set ids"
proof (cases v)
  case (JObj item)
  let ?enabled = "map rp_name (filter rp_enabled (replicas c))"
  let ?who = "''management policy '' @ po_id p"
  obtain rows targets where
    p: "policy_id_ok (po_id p)" "\<not> List.member ids (po_id p)" "po_selections p \<noteq> []"
      "parse_selections (map pl_name (platforms c)) ?who [] rows = Inr (po_selections p)"
      "bounded_int (get_or item ''immutable_days'' (JInt (keep_within_days (repo_retention (repository c)))))
         (?who @ ''.immutable_days'') 1 3650 = Inr (po_immutable_days p)"
      "sort (remdups (filter (\<lambda>n. \<not> List.member ?enabled n) (po_replica_targets p))) = []"
    using assms unfolding JObj parse_policy_def Let_def json.case bind_res_Inr check_res_Inr sum.inject by force
  from sort_remdups_Nil [OF p(6)] have "set (po_replica_targets p) \<subseteq> rp_name ` {r \<in> set (replicas c). rp_enabled r}"
    by (auto simp: list_all_iff)
  moreover have "1 \<le> po_immutable_days p" "po_immutable_days p \<le> 3650" using p(5) by (auto simp: bounded_int_def)
  ultimately show ?thesis using p(1-3) parse_selections_Inr [OF p(4)] by (simp add: policy_ok_def)
qed (use assms in \<open>auto simp: parse_policy_def\<close>)

lemma parse_policies_Inr:
  assumes "parse_policies c done vs = Inr ps" "distinct (map po_id done)" "list_all (policy_ok c) done"
  shows "distinct (map po_id ps) \<and> list_all (policy_ok c) ps"
  using assms
proof (induction vs arbitrary: "done")
  case (Cons v vs)
  then obtain p where p: "parse_policy c (length done) (map po_id done) v = Inr p"
    "parse_policies c (done @ [p]) vs = Inr ps" by auto
  from parse_policy_Inr [OF p(1)] Cons.prems(2,3) show ?case by (intro Cons.IH [OF p(2)]) auto
qed simp

lemma parse_management_Inr:
  "parse_management c raw = Inr m \<Longrightarrow> distinct (map po_id (mg_policies m)) \<and> list_all (policy_ok c) (mg_policies m)"
  by (auto simp: parse_management_def Let_def dest!: parse_policies_Inr)

lemma policies_accepted:
  assumes "load_v11_config path doc = Inr c"
  shows "load_v10_config doc = Inr (v10 c) \<and> distinct (map po_id (mg_policies (management c))) \<and>
    list_all (policy_ok (core_config c)) (mg_policies (management c))"
proof -
  obtain b raw where *: "load_v10_config doc = Inr b"
    "(case or_else (map_of raw ''management'') (JObj []) of
       JObj row \<Rightarrow> bind_res (parse_management (core_of b) row) (\<lambda>m.
         Inr \<lparr>v10 = b, management = m, source_path = norm_path path\<rparr>)
     | _ \<Rightarrow> Inl (ValueError ''management must be a mapping'')) = Inr c"
    using assms unfolding load_v11_config_def by auto
  then obtain row m where "parse_management (core_of b) row = Inr m"
    "c = \<lparr>v10 = b, management = m, source_path = norm_path path\<rparr>"
    by (cases "or_else (map_of raw ''management'') (JObj [])") auto
  with * parse_management_Inr show ?thesis by (simp add: core_config_def)
qed

end
