(* ===== verification/Policy.thy ===== *)
theory Policy
  imports Management_Config Engine_Safety
begin

text \<open>
  Named protection policies, \<open>policy.py\<close>: the overlay that narrows a configuration to the machines, replicas
  and immutability of one policy, and the run of the engine's backup over it. The lemmas show that a run
  exports the machines the policy names and no other: the names are exact, so the patterns of the adapters
  match nothing else.
\<close>

section \<open>The overlay\<close>

definition selections :: "protection_policy \<Rightarrow> (string \<times> string list) list" where
  "selections p = map (\<lambda>s. (sl_platform s, sl_vms s)) (po_selections p)"

definition selected_names :: "protection_policy \<Rightarrow> string \<Rightarrow> string list" where
  "selected_names p platform = (case dict_get (selections p) platform of Some vms \<Rightarrow> vms | None \<Rightarrow> [])"

definition narrow_platform :: "protection_policy \<Rightarrow> platform_config \<Rightarrow> platform_config" where
  "narrow_platform p pl =
     pl\<lparr>pl_enabled := pl_enabled pl \<and> dict_get (selections p) (pl_name pl) \<noteq> None,
        pl_include := selected_names p (pl_name pl), pl_exclude := []\<rparr>"

definition policy_view :: "config \<Rightarrow> protection_policy \<Rightarrow> config" where
  "policy_view cfg p =
     cfg\<lparr>platforms := map (narrow_platform p) (platforms cfg),
         replicas := filter (\<lambda>r. List.member (po_replica_targets p) (rp_name r)) (replicas cfg),
         protection := (protection cfg)\<lparr>verify_after_backup := po_verify_after_backup p\<rparr>,
         repository := (repository cfg)\<lparr>repo_retention :=
           (repo_retention (repository cfg))\<lparr>keep_within_days := po_immutable_days p\<rparr>\<rparr>\<rparr>"

section \<open>A run\<close>

definition policy_by :: "v11_config \<Rightarrow> string \<Rightarrow> protection_policy option" where
  "policy_by cfg i = find (\<lambda>p. po_id p = i) (mg_policies (management cfg))"

definition policy_detail ::
  "protection_policy \<Rightarrow> bool \<Rightarrow> (string \<times> json) list list \<Rightarrow> (string \<times> json) list" where
  "policy_detail p dry_run results =
     [(''policy_id'', JStr (po_id p)), (''policy_name'', JStr (po_name p)), (''dry_run'', JBool dry_run),
      (''immutable_days'', JInt (po_immutable_days p)), (''replica_targets'', JList (map JStr (po_replica_targets p))),
      (''results'', JList (map JObj results)),
      (''failed'', JInt (int (length (filter (\<lambda>r. map_of r ''status'' = Some (JStr ''failed'')) results))))]"

definition policy_run ::
  "env \<Rightarrow> v11_config \<Rightarrow> string \<Rightarrow> bool \<Rightarrow> string \<Rightarrow> (string \<times> json) list act" where
  "policy_run E cfg i dry_run actor =
     bind_act (need (policy_by cfg i) (ValueError (''unknown protection policy: '' @ i))) (\<lambda>p.
     then_act (check (po_enabled p) (RuntimeError (''protection policy '' @ po_id p @ '' is disabled'')))
     (bind_act (backup_all E (policy_view (core_config cfg) p) dry_run) (\<lambda>results.
      let detail = policy_detail p dry_run results;
          event = (if map_of detail ''failed'' = Some (JInt 0) then ''policy.backup.complete''
                   else ''policy.backup.partial_failure'')
      in then_act (when_act (\<not> dry_run) (change (audit actor event ''protection_policy'' (po_id p)
           (JObj (filter (\<lambda>(k, v). k \<noteq> ''results'') detail)))))
         (ret detail))))"

section \<open>Which machines are exported\<close>

lemma selected_names_exact:
  assumes "policy_ok c p"
  shows "selected_vm (narrow_platform p pl) name \<longleftrightarrow>
    (\<exists>s\<in>set (po_selections p). sl_platform s = pl_name pl \<and> name \<in> set (sl_vms s))"
proof -
  have d: "distinct (map fst (selections p))"
    using assms by (simp add: policy_ok_def selections_def comp_def)
  have plain: "list_all plain_name (sl_vms s)" if "s \<in> set (po_selections p)" for s
    using assms that by (simp add: policy_ok_def list_all_iff selection_ok_def)
  have get: "dict_get (selections p) n = map_of (selections p) n" for n
    using d map_of_inject_set [of "rev (selections p)" "selections p"] by (simp add: dict_get_def rev_map [symmetric])
  have "list_ex (fnmatch name) vms \<longleftrightarrow> name \<in> set vms" if "list_all plain_name vms" for vms
    using that by (auto simp: list_ex_iff list_all_iff fnmatch_plain)
  moreover have "map_of (selections p) (pl_name pl) = Some vms \<longleftrightarrow>
      (\<exists>s\<in>set (po_selections p). sl_platform s = pl_name pl \<and> vms = sl_vms s)" for vms
    unfolding map_of_eq_Some_iff [OF d] by (force simp: selections_def)
  ultimately show ?thesis
    using plain by (auto simp: selected_vm_def narrow_platform_def selected_names_def get split: option.split)
      (metis option.distinct(1) option.inject)+
qed

text \<open>The calls that the backup of one machine makes.\<close>

definition backs_up :: "string \<Rightarrow> string \<Rightarrow> call \<Rightarrow> bool" where
  "backs_up platform i c \<longleftrightarrow> service_call c \<or> (\<exists>base dry. c = Adapter platform (Export i base dry))"

lemma backs_up_service: "steps service m \<Longrightarrow> steps (does (\<lambda>h. backs_up n i)) m"
  by (erule service_does) (simp add: backs_up_def)

lemma backs_up_ask: "backs_up n i c \<Longrightarrow> steps (does (\<lambda>h. backs_up n i)) (ask f c)"
  by (rule does_ask)

lemma service_consistency: "steps service (exported_consistency E pl x)"
  unfolding exported_consistency_def by (intro service_rules) (simp_all add: service_call_def)

lemma service_write_manifest: "steps service (write_manifest E base)"
  unfolding write_manifest_def read_tree_def
  by (intro service_rules) (simp_all add: service_call_def)

lemma backs_up_verify: "steps (does (\<lambda>h. backs_up n i)) (verify_recovery_point E cfg sid actor)"
  unfolding verify_recovery_point_def
  by (intro does_rules backs_up_service service_capacity service_rmtree service_repo_restore service_tree backs_up_ask)
    (simp_all add: backs_up_def service_call_def)

lemma backs_up_replica: "steps (does (\<lambda>h. backs_up n i)) (replicate_to E cfg sid days until r)"
  unfolding replicate_to_def
  by (intro does_rules backs_up_service [OF service_copy])

lemma backs_up_body: "steps (does (\<lambda>h. backs_up (pl_name pl) (v_id v))) (backup_body E cfg pl v info now base job_id)"
  unfolding backup_body_def export_and_back_up_def record_backup_def
  by (intro does_rules backs_up_verify backs_up_replica backs_up_service [OF service_consistency]
      backs_up_service [OF service_write_manifest] backs_up_service [OF service_repo_backup]
      backs_up_service [OF service_rmtree] backs_up_ask) (auto simp: backs_up_def)

lemma backs_up_vm: "steps (does (\<lambda>h. backs_up (pl_name pl) (v_id v))) (backup_vm E cfg pl v info dry)"
  unfolding backup_vm_def backup_failed_def
  by (intro does_rules backs_up_body backs_up_service [OF service_rmtree] backs_up_ask)
    (auto simp: backs_up_def service_call_def)

section \<open>Every export is of a selected machine\<close>

text \<open>A machine that the platform's inventory answered with at some earlier point of the run.\<close>

definition listed :: "env \<Rightarrow> string \<Rightarrow> vm \<Rightarrow> call list \<Rightarrow> bool" where
  "listed E n v h \<longleftrightarrow>
     (\<exists>b a vms. h = b @ Adapter n Inventory # a \<and> vms_reply E b (Adapter n Inventory) = Inr vms \<and> v \<in> set vms)"

lemma listed_append: "listed E n v h \<Longrightarrow> listed E n v (h @ t)"
  unfolding listed_def by (metis append.assoc append_Cons)

definition exports_selected :: "env \<Rightarrow> protection_policy \<Rightarrow> call list \<Rightarrow> call \<Rightarrow> bool" where
  "exports_selected E p h c \<longleftrightarrow>
     (case c of
        Adapter n (Export i base dry) \<Rightarrow>
          \<exists>s v. s \<in> set (po_selections p) \<and> sl_platform s = n \<and> listed E n v h \<and> v_id v = i \<and> v_name v \<in> set (sl_vms s)
      | Adapter n (RestoreVm a b d) \<Rightarrow> False
      | Adapter n (PowerOn r) \<Rightarrow> False
      | Adapter n (PowerOff r) \<Rightarrow> False
      | _ \<Rightarrow> True)"

lemma exports_service: "service_call c \<Longrightarrow> exports_selected E p h c"
  by (simp add: service_call_def exports_selected_def split: call.splits)

lemma exports_vm:
  assumes ok: "policy_ok c p" and v: "selected_vm (narrow_platform p pl) (v_name v)" "listed E (pl_name pl) v (trace s)"
  shows "does (exports_selected E p) s (snd (backup_vm E cfg (narrow_platform p pl) v info dry s))"
proof -
  have n: "pl_name (narrow_platform p pl) = pl_name pl" by (simp add: narrow_platform_def)
  obtain cs where cs: "trace (snd (backup_vm E cfg (narrow_platform p pl) v info dry s)) = trace s @ cs"
    "calls_ok (\<lambda>h. backs_up (pl_name pl) (v_id v)) (trace s) cs"
    using backs_up_vm [of "narrow_platform p pl" v E cfg info dry] unfolding steps_def does_def n by blast
  have "exports_selected E p (trace s @ xs) c" if "cs = xs @ c # ys" for xs c ys
  proof -
    have "backs_up (pl_name pl) (v_id v) c" using cs(2) that by (auto simp: calls_ok_def)
    moreover from v(1) obtain sel where "sel \<in> set (po_selections p)" "sl_platform sel = pl_name pl"
      "v_name v \<in> set (sl_vms sel)"
      unfolding selected_names_exact [OF ok] by blast
    then have "exports_selected E p (trace s @ xs) (Adapter (pl_name pl) (Export (v_id v) base d))" for base d
      using listed_append [OF v(2)] by (auto simp: exports_selected_def)
    ultimately show ?thesis unfolding backs_up_def using exports_service by blast
  qed
  with cs(1) show ?thesis unfolding does_def calls_ok_def by blast
qed

lemma exports_each:
  assumes "policy_ok c p" "list_all (\<lambda>v. selected_vm (narrow_platform p pl) (v_name v) \<and> listed E (pl_name pl) v (trace s)) vms"
  shows "does (exports_selected E p) s (snd (each (\<lambda>v. backup_vm E cfg (narrow_platform p pl) v info dry) vms s))"
  using assms(2)
proof (induction vms arbitrary: s)
  case (Cons v vms)
  show ?case
    unfolding each.simps
  proof (rule does.bind_at)
    show "does (exports_selected E p) s (snd (backup_vm E cfg (narrow_platform p pl) v info dry s))"
      using Cons.prems by (intro exports_vm [OF assms(1)]) auto
    fix r t assume b: "backup_vm E cfg (narrow_platform p pl) v info dry s = (Inr r, t)"
    obtain cs where "trace t = trace s @ cs"
      using backs_up_vm [of "narrow_platform p pl" v E cfg info dry] b unfolding steps_def does_def by (metis snd_conv)
    then have "list_all (\<lambda>v. selected_vm (narrow_platform p pl) (v_name v) \<and> listed E (pl_name pl) v (trace t)) vms"
      using Cons.prems by (auto simp: list_all_iff listed_append)
    from Cons.IH [OF this]
    show "does (exports_selected E p) t
        (snd (bind_act (each (\<lambda>v. backup_vm E cfg (narrow_platform p pl) v info dry) vms) (\<lambda>ys. ret (r # ys)) t))"
      by (rule does.bind_at) (simp add: does.R_refl)
  qed
qed (simp add: does.R_refl)

lemma exports_ask: "(\<And>h. exports_selected E p h c) \<Longrightarrow> steps (does (exports_selected E p)) (ask f c)"
  by (rule does_ask)

lemma exports_platform:
  assumes "policy_ok c p"
  shows "steps (does (exports_selected E p)) (backup_platform E cfg dry (narrow_platform p pl))"
  unfolding backup_platform_def adapter_inventory_def build_adapter_def
proof (rule does.steps_then, rule does.steps_check, rule does.steps_bind)
  show "steps (does (exports_selected E p)) (platform_info_or_error E (narrow_platform p pl))"
    unfolding platform_info_or_error_def by (intro does_rules exports_ask) (simp add: exports_selected_def)
  fix info
  show "steps (does (exports_selected E p)) (bind_act (bind_act (ask (vms_reply E) (Adapter (pl_name (narrow_platform p pl)) Inventory))
      (\<lambda>vms. ret (filter (\<lambda>v. selected_vm (narrow_platform p pl) (v_name v)) vms)))
      (\<lambda>vms. each (\<lambda>v. backup_vm E cfg (narrow_platform p pl) v info dry) vms))"
  proof (rule does.stepsI, rule does.bind_at)
    fix s :: sys
    let ?list = "Adapter (pl_name (narrow_platform p pl)) Inventory"
    show "does (exports_selected E p) s (snd (bind_act (ask (vms_reply E) ?list)
        (\<lambda>vms. ret (filter (\<lambda>v. selected_vm (narrow_platform p pl) (v_name v)) vms)) s))"
      by (rule does.steps_at) (intro does_rules exports_ask, simp add: exports_selected_def)
    fix vms t
    assume "bind_act (ask (vms_reply E) ?list)
      (\<lambda>vms. ret (filter (\<lambda>v. selected_vm (narrow_platform p pl) (v_name v)) vms)) s = (Inr vms, t)"
    then obtain all where a: "vms_reply E (trace s) (Adapter (pl_name pl) Inventory) = Inr all"
      "vms = filter (\<lambda>v. selected_vm (narrow_platform p pl) (v_name v)) all" "trace t = trace s @ [Adapter (pl_name pl) Inventory]"
      by (auto simp: bind_Inr ask_def narrow_platform_def)
    then have "listed E (pl_name pl) v (trace t)" if "v \<in> set vms" for v
      using that unfolding listed_def by auto
    then show "does (exports_selected E p) t (snd (each (\<lambda>v. backup_vm E cfg (narrow_platform p pl) v info dry) vms t))"
      using a(2) by (intro exports_each [OF assms]) (auto simp: list_all_iff)
  qed
qed

lemma exports_change: "steps (does (exports_selected E p)) (change f)"
  by (rule does_db)

lemma exports_backup_all:
  assumes "policy_ok c p"
  shows "steps (does (exports_selected E p)) (backup_all E (policy_view cfg p) dry)"
proof -
  have "steps (does (exports_selected E p)) (backup_platform E (policy_view cfg p) dry pl)"
    if "pl \<in> set (enabled_platforms (policy_view cfg p))" for pl
    using that exports_platform [OF assms] by (auto simp: enabled_platforms_def policy_view_def)
  moreover have "steps (does (exports_selected E p)) (ensure_staging_capacity E (policy_view cfg p))"
    unfolding ensure_staging_capacity_def
    by (rule service_does [OF service_capacity exports_service])
  ultimately show ?thesis
    unfolding backup_all_def exclusive_lock_def
    by (intro does_rules exports_ask) (simp_all add: exports_selected_def)
qed

section \<open>Every selected machine has its result\<close>

definition row_key :: "(string \<times> json) list \<Rightarrow> json option \<times> json option" where
  "row_key r = (map_of r ''platform'', map_of r ''vm'')"

definition vm_key :: "string \<Rightarrow> vm \<Rightarrow> json option \<times> json option" where
  "vm_key platform v = (Some (JStr platform), Some (JStr (v_name v)))"

lemma backup_vm_row:
  assumes "backup_vm E cfg pl v info dry s = (Inr r, t)"
  shows "row_key r = vm_key (pl_name pl) v"
proof -
  have "row_key r = vm_key (pl_name pl) v" if "catch (backup_body E cfg pl v info now base i) (backup_failed E cfg pl v base i) u = (Inr r, t)"
    for now base i u
    using that unfolding catch_def
    by (auto simp: backup_body_def backup_failed_def run_Inr Let_def row_key_def vm_key_def split: prod.splits sum.splits)
  then show ?thesis
    using assms by (auto simp: backup_vm_def run_Inr Let_def row_key_def vm_key_def split: if_splits)
qed

text \<open>The results of one platform: one per selected machine of the inventory it answered with.\<close>

definition platform_results :: "env \<Rightarrow> protection_policy \<Rightarrow> platform_config \<Rightarrow> (string \<times> json) list list \<Rightarrow> bool" where
  "platform_results E p pl rs \<longleftrightarrow>
     (\<exists>h vms. vms_reply E h (Adapter (pl_name pl) Inventory) = Inr vms \<and>
        map row_key rs = map (vm_key (pl_name pl))
          (filter (\<lambda>v. \<exists>s\<in>set (po_selections p). sl_platform s = pl_name pl \<and> v_name v \<in> set (sl_vms s)) vms))"

lemma backup_vm_rows:
  "each (\<lambda>v. backup_vm E cfg pl v info dry) vms s = (Inr rs, t) \<Longrightarrow> map row_key rs = map (vm_key (pl_name pl)) vms"
  by (induction vms arbitrary: rs s) (auto simp: bind_Inr dest: backup_vm_row)

lemma backup_platform_rows:
  assumes ok: "policy_ok c p" and run: "backup_platform E cfg dry (narrow_platform p pl) s = (Inr rs, t)"
  shows "platform_results E p pl rs"
proof -
  have n: "pl_name (narrow_platform p pl) = pl_name pl" by (simp add: narrow_platform_def)
  from run obtain h vms info u where *: "vms_reply E h (Adapter (pl_name pl) Inventory) = Inr vms"
    "each (\<lambda>v. backup_vm E cfg (narrow_platform p pl) v info dry)
       (filter (\<lambda>v. selected_vm (narrow_platform p pl) (v_name v)) vms) u = (Inr rs, t)"
    unfolding backup_platform_def build_adapter_def adapter_inventory_def run_Inr n by (auto simp: ask_def)
  from backup_vm_rows [OF *(2)] *(1) show ?thesis
    unfolding platform_results_def selected_names_exact [OF ok] n by blast
qed

lemma backup_all_rows:
  assumes ok: "policy_ok c p" and run: "backup_all E (policy_view cfg p) dry s = (Inr rs, t)"
  shows "\<exists>rss. rs = concat rss \<and> list_all2 (platform_results E p) (enabled_platforms (policy_view cfg p)) rss"
proof -
  obtain w x where "then_act (ensure_staging_capacity E (policy_view cfg p))
      (bind_act (each (backup_platform E (policy_view cfg p) dry) (enabled_platforms (policy_view cfg p)))
        (\<lambda>rs. ret (concat rs))) w = (Inr rs, x)"
    using run [unfolded backup_all_def exclusive_lock_def then_Inr] by (blast dest: finally_Inr)
  then obtain rss u v where r: "each (backup_platform E (policy_view cfg p) dry) (enabled_platforms (policy_view cfg p)) u
      = (Inr rss, v)" "rs = concat rss"
    unfolding run_Inr by blast
  have "list_all2 (platform_results E p) pls rss"
    if "each (backup_platform E (policy_view cfg p) dry) pls u = (Inr rss, v)"
      "set pls \<subseteq> set (enabled_platforms (policy_view cfg p))" for pls rss u
    using that
  proof (induction pls arbitrary: rss u)
    case (Cons pl pls)
    then obtain q where q: "pl = narrow_platform p q" by (auto simp: enabled_platforms_def policy_view_def)
    have n: "platform_results E p (narrow_platform p q) rs = platform_results E p q rs" for rs
      by (simp add: platform_results_def narrow_platform_def)
    from Cons.prems(1) obtain a u' as where a: "backup_platform E (policy_view cfg p) dry pl u = (Inr a, u')"
      "each (backup_platform E (policy_view cfg p) dry) pls u' = (Inr as, v)" "rss = a # as"
      by (auto simp: bind_Inr)
    from backup_platform_rows [OF ok a(1) [unfolded q]] Cons.IH [OF a(2)] Cons.prems(2) a(3) show ?case
      by (simp add: q n)
  qed simp
  with r show ?thesis by blast
qed

lemma policy_found: "policy_by cfg i = Some p \<Longrightarrow> p \<in> set (mg_policies (management cfg)) \<and> po_id p = i"
  unfolding policy_by_def by (auto dest: find_Some_set)

section \<open>Properties\<close>


definition policy_document :: json where
  "policy_document = JObj [
     (''repository'', JObj [(''url'', JStr ''rest:https://vault/''), (''local_path'', JStr ''/repo''),
        (''staging_path'', JStr ''/staging'')]),
     (''platforms'', JList [JObj [(''name'', JStr ''a''), (''type'', JStr ''vmware''), (''endpoint'', JStr ''esx'')]]),
     (''management'', JObj [(''policies'', JList [JObj [(''id'', JStr ''Gold''), (''immutable_days'', JInt 90),
        (''selections'', JList [JObj [(''platform'', JStr ''a''), (''vms'', JList [JStr ''web''])]])]])])]"

lemma policy_document_loads:
  "case load_v11_config ''/etc/vault.yml'' policy_document of Inl e \<Rightarrow> False
   | Inr c \<Rightarrow> map_option po_immutable_days (policy_by c ''gold'') = Some 90"
  by code_simp


end
