(* ===== verification/Phases.thy ===== *)
theory Phases
  imports Engine_Safety
begin

text \<open>
  Operations in two phases: first only calls that look (\<open>L\<close>), then possibly calls that follow a pattern
  \<open>P\<close> relative to everything before them. The adapters and the converter share this shape: they check, and
  what changes a hypervisor comes as one last block.
\<close>

definition phases :: "(call \<Rightarrow> bool) \<Rightarrow> (call list \<Rightarrow> call list \<Rightarrow> bool) \<Rightarrow> sys \<Rightarrow> sys \<Rightarrow> bool" where
  "phases L P s t \<longleftrightarrow>
     (\<exists>pre post. trace t = trace s @ pre @ post \<and> list_all L pre \<and> (post = [] \<or> P (trace s @ pre) post))"

lemma does_all: "does (\<lambda>h. L) s t \<longleftrightarrow> (\<exists>cs. trace t = trace s @ cs \<and> list_all L cs)"
proof -
  have "calls_ok (\<lambda>h. L) b cs \<longleftrightarrow> list_all L cs" for b cs
    unfolding calls_ok_def list_all_iff by (metis in_set_conv_decomp)
  then show ?thesis by (simp add: does_def)
qed

lemma phases_look:
  assumes "does (\<lambda>h. L) s t"
  shows "phases L P s t"
proof -
  obtain cs where "trace t = trace s @ cs" "list_all L cs" using assms by (auto simp: does_all)
  then show ?thesis unfolding phases_def by (intro exI [of _ cs] exI [of _ "[]"]) simp
qed

lemma phases_same: "trace t = trace s \<Longrightarrow> phases L P s t"
  unfolding phases_def by (rule exI [of _ "[]"], rule exI [of _ "[]"]) simp

lemma phases_change: "trace t = trace s @ cs \<Longrightarrow> P (trace s) cs \<Longrightarrow> phases L P s t"
  unfolding phases_def by (rule exI [of _ "[]"], rule exI [of _ cs]) simp

lemma phases_later:
  assumes "does (\<lambda>h. L) s t" "phases L P t u"
  shows "phases L P s u"
proof -
  obtain pre where pre: "trace t = trace s @ pre" "list_all L pre" using assms(1) by (auto simp: does_all)
  obtain q post where "trace u = trace t @ q @ post" "list_all L q" "post = [] \<or> P (trace t @ q) post"
    using assms(2) unfolding phases_def by blast
  with pre show ?thesis
    unfolding phases_def by (intro exI [of _ "pre @ q"] exI [of _ post]) simp
qed

lemma phases_bind:
  assumes "steps (does (\<lambda>h. L)) m" "\<And>x t. phases L P t (snd (f x t))"
  shows "phases L P s (snd (bind_act m f s))"
proof -
  obtain r t where m: "m s = (r, t)" by (cases "m s")
  have pre: "does (\<lambda>h. L) s t" by (rule stepsD [OF assms(1) m])
  show ?thesis
  proof (cases r)
    case (Inl e)
    from phases_look [OF pre] Inl m show ?thesis by (simp add: bind_act_def)
  next
    case (Inr x)
    from phases_later [OF pre assms(2)] Inr m show ?thesis by (simp add: bind_act_def)
  qed
qed

lemma phases_then:
  "steps (does (\<lambda>h. L)) m \<Longrightarrow> (\<And>t. phases L P t (snd (n t))) \<Longrightarrow> phases L P s (snd (then_act m n s))"
  unfolding then_act_def by (rule phases_bind)

lemmas then_check = check_bind(2)

text \<open>What follows the last block may only return.\<close>

lemma phases_done: "phases L P s (snd (m s)) \<Longrightarrow> phases L P s (snd (then_act m (ret x) s))"
  by (auto simp: then_act_def bind_act_def split: prod.split sum.split)

lemma then_lift: "bind_act (lift_res r) f s = (case r of Inl e \<Rightarrow> (Inl e, s) | Inr x \<Rightarrow> f x s)"
  by (simp add: bind_act_def lift_res_def split: sum.split)

lemma bind_fst: "fst (m s) = Inr x \<Longrightarrow> bind_act m f s = f x (snd (m s))"
  by (auto simp: bind_act_def split: prod.split sum.split)

lemma then_fst: "fst (m s) = Inr x \<Longrightarrow> then_act m n s = n (snd (m s))"
  unfolding then_act_def by (rule bind_fst)

lemma finally_trace:
  "snd (finally_act m n s) = snd (n (snd (m s)))"
  by (auto simp: finally_act_def split: prod.split sum.split)

lemma append_split:
  assumes "cs @ ds = xs @ c # ys"
  shows "(\<exists>us. cs = xs @ c # us \<and> ys = us @ ds) \<or> (\<exists>us. xs = cs @ us \<and> ds = us @ c # ys)"
proof -
  from assms obtain us where "cs = xs @ us \<and> us @ ds = c # ys \<or> cs @ us = xs \<and> ds = us @ c # ys"
    by (auto simp: append_eq_append_conv2)
  then show ?thesis by (cases us) auto
qed

section \<open>Failures as results\<close>

definition attempt :: "'a act \<Rightarrow> (exc + 'a) act" where
  "attempt m = catch (bind_act m (\<lambda>x. ret (Inr x))) (\<lambda>e. ret (Inl e))"

lemma attempt_does: "steps (does Q) m \<Longrightarrow> steps (does Q) (attempt m)"
  unfolding attempt_def by (intro does_rules)

lemma attempt_eq: "attempt m s = (Inr (fst (m s)), snd (m s))"
  by (cases "m s") (auto simp: attempt_def catch_def bind_act_def split: sum.split)

end
