(* ===== verification/Shlex.thy ===== *)
theory Shlex
  imports Prelude
begin

text \<open>
  \<open>shlex.quote\<close> and \<open>shlex.split\<close> (POSIX mode, no comments) as the gateway scripts and the fencing
  commands use them. The lemmas show that a quoted text is read back as one word whatever it contains,
  alone or inside a command line.
\<close>

section \<open>Quoting\<close>

definition shell_safe :: "char \<Rightarrow> bool" where
  "shell_safe c \<longleftrightarrow> CHR ''A'' \<le> c \<and> c \<le> CHR ''Z'' \<or> CHR ''a'' \<le> c \<and> c \<le> CHR ''z'' \<or>
     CHR ''0'' \<le> c \<and> c \<le> CHR ''9'' \<or> List.member ''_@%+=:,./-'' c"

definition quote_char :: "char \<Rightarrow> string" where
  "quote_char c = (if c = CHR 0x27 then [CHR 0x27, CHR 0x22, CHR 0x27, CHR 0x22, CHR 0x27] else [c])"

definition shell_quote :: "string \<Rightarrow> string" where
  "shell_quote s =
     (if s = [] then [CHR 0x27, CHR 0x27]
      else if list_all shell_safe s then s
      else CHR 0x27 # concat (map quote_char s) @ [CHR 0x27])"

section \<open>Splitting\<close>

datatype shlex_mode = Plain | Single | Double | Escaped | DoubleEscaped

definition shell_space :: "char \<Rightarrow> bool" where
  "shell_space c \<longleftrightarrow> c = CHR '' '' \<or> c = CHR 0x09 \<or> c = CHR 0x0D \<or> c = CHR 0x0A"

text \<open>The word read so far, and the word it becomes with one more character.\<close>

definition word_of :: "string option \<Rightarrow> string" where
  "word_of w = (case w of None \<Rightarrow> [] | Some x \<Rightarrow> x)"

definition grow :: "string option \<Rightarrow> char \<Rightarrow> string option" where
  "grow w c = Some (word_of w @ [c])"

definition emit :: "string option \<Rightarrow> string list res \<Rightarrow> string list res" where
  "emit w r = (case (w, r) of (Some x, Inr xs) \<Rightarrow> Inr (x # xs) | _ \<Rightarrow> r)"

fun shlex_go :: "shlex_mode \<Rightarrow> string option \<Rightarrow> string \<Rightarrow> string list res" where
  "shlex_go Plain w [] = emit w (Inr [])"
| "shlex_go Plain w (c # cs) =
     (if shell_space c then emit w (shlex_go Plain None cs)
      else if c = CHR 0x27 then shlex_go Single (Some (word_of w)) cs
      else if c = CHR 0x22 then shlex_go Double (Some (word_of w)) cs
      else if c = CHR 0x5C then shlex_go Escaped w cs
      else shlex_go Plain (grow w c) cs)"
| "shlex_go Single w [] = Inl (ValueError ''No closing quotation'')"
| "shlex_go Single w (c # cs) = (if c = CHR 0x27 then shlex_go Plain w cs else shlex_go Single (grow w c) cs)"
| "shlex_go Double w [] = Inl (ValueError ''No closing quotation'')"
| "shlex_go Double w (c # cs) =
     (if c = CHR 0x22 then shlex_go Plain w cs
      else if c = CHR 0x5C then shlex_go DoubleEscaped w cs
      else shlex_go Double (grow w c) cs)"
| "shlex_go Escaped w [] = Inl (ValueError ''No escaped character'')"
| "shlex_go Escaped w (c # cs) = shlex_go Plain (grow w c) cs"
| "shlex_go DoubleEscaped w [] = Inl (ValueError ''No escaped character'')"
| "shlex_go DoubleEscaped w (c # cs) =
     (if c = CHR 0x5C \<or> c = CHR 0x22 then shlex_go Double (grow w c) cs
      else shlex_go Double (grow (grow w (CHR 0x5C)) c) cs)"

definition shlex_split :: "string \<Rightarrow> string list res" where
  "shlex_split s = shlex_go Plain None s"

section \<open>A quoted text is one word\<close>

lemma word_of_Some [simp]: "word_of (Some x) = x"
  by (simp add: word_of_def)

lemma safe_plain:
  assumes "shell_safe c"
  shows "\<not> shell_space c \<and> c \<noteq> CHR 0x27 \<and> c \<noteq> CHR 0x22 \<and> c \<noteq> CHR 0x5C"
proof -
  have "\<not> shell_safe d" if "d \<in> {CHR '' '', CHR 0x09, CHR 0x0D, CHR 0x0A, CHR 0x27, CHR 0x22, CHR 0x5C}" for d
    using that by (auto simp: shell_safe_def less_eq_char_def)
  with assms show ?thesis by (auto simp: shell_space_def)
qed

lemma go_safe:
  "list_all shell_safe s \<Longrightarrow> s \<noteq> [] \<Longrightarrow> shlex_go Plain w (s @ rest) = shlex_go Plain (Some (word_of w @ s)) rest"
proof (induction s arbitrary: w)
  case (Cons c s)
  then show ?case
    using safe_plain [of c] by (cases "s = []") (auto simp: grow_def)
qed simp

lemma go_single: "shlex_go Single (Some w) (concat (map quote_char s) @ CHR 0x27 # rest) = shlex_go Plain (Some (w @ s)) rest"
proof (induction s arbitrary: w)
  case (Cons c s)
  then show ?case
    by (cases "c = CHR 0x27") (simp_all add: quote_char_def grow_def shell_space_def)
qed simp

text \<open>Whatever was read of the word before, quoting appends the text itself.\<close>

lemma go_quote: "shlex_go Plain w (shell_quote s @ rest) = shlex_go Plain (Some (word_of w @ s)) rest"
proof -
  have q: "\<not> shell_space CHR 0x27" by (simp add: shell_space_def)
  show ?thesis
    using go_safe [of s w rest] go_single [of "word_of w" s rest] q
    by (simp add: shell_quote_def)
qed

lemma split_quote: "shlex_split (shell_quote s) = Inr [s]"
  using go_quote [of None s "[]"] by (simp add: shlex_split_def word_of_def emit_def)

lemma split_quoted_words:
  "shlex_go Plain (Some w) (concat (map (\<lambda>s. '' '' @ shell_quote s) ss)) = Inr (w # ss)"
proof (induction ss arbitrary: w)
  case (Cons s ss)
  have "shlex_go Plain None (shell_quote s @ concat (map (\<lambda>s. '' '' @ shell_quote s) ss)) = Inr (s # ss)"
    using Cons.IH [of s] by (simp add: go_quote word_of_def)
  then show ?case by (simp add: shell_space_def emit_def)
qed (simp add: emit_def)

end
