(* ===== verification/Proxmox.thy ===== *)
theory Proxmox
  imports Phases Shlex Dr_Config_Load
begin

text \<open>
  The Proxmox adapter, \<open>adapters/proxmox.py\<close>: every operation of the adapter interface as the commands it
  runs over ssh and scp. The engine calls an adapter through its environment; this theory says what the
  calls do for Proxmox. The lemmas show that an import is only attempted for a machine id that a lookup
  did not report, and that the temporary copies on the node are removed however the operation ends.
\<close>

section \<open>Reaching the node\<close>

definition json_loads :: "string \<Rightarrow> string \<Rightarrow> json res" where
  "json_loads d text =
     (case loads (if text = [] then d else text) of None \<Rightarrow> Inl (ValueError ''invalid JSON'') | Some v \<Rightarrow> Inr v)"

definition px_target :: "platform_config \<Rightarrow> string" where
  "px_target pl =
     (if opt_nonempty (pl_ssh_user pl) then the (pl_ssh_user pl) @ ''@'' @ pl_endpoint pl else pl_endpoint pl)"

definition px_key :: "env \<Rightarrow> platform_config \<Rightarrow> string option" where
  "px_key E pl = getenv E (py_str (or_else (map_of (pl_options pl) ''ssh_key_env'') (JStr ''IMMUTAVAULT_SSH_KEY'')))"

definition px_options :: "env \<Rightarrow> platform_config \<Rightarrow> string list" where
  "px_options E pl =
     [''-o'', ''BatchMode=yes'', ''-o'', ''StrictHostKeyChecking=yes''] @
     (if opt_nonempty (px_key E pl) then [''-i'', the (px_key E pl)] else [])"

definition px_ssh :: "env \<Rightarrow> platform_config \<Rightarrow> string list" where
  "px_ssh E pl = ''ssh'' # px_options E pl @ [px_target pl]"

definition px_scp :: "env \<Rightarrow> platform_config \<Rightarrow> string list" where
  "px_scp E pl = ''scp'' # px_options E pl"

text \<open>\<open>run(self._ssh() + [script], check=...)\<close>, and copying to and from the node.\<close>

definition px_run :: "env \<Rightarrow> platform_config \<Rightarrow> string \<Rightarrow> bool \<Rightarrow> run_output act" where
  "px_run E pl script chk = run_command E (px_ssh E pl @ [script]) [] chk"

definition px_out :: "env \<Rightarrow> platform_config \<Rightarrow> string \<Rightarrow> string act" where
  "px_out E pl script = bind_act (px_run E pl script True) (\<lambda>(code, out, err). ret out)"

definition px_do :: "env \<Rightarrow> platform_config \<Rightarrow> string \<Rightarrow> bool \<Rightarrow> unit act" where
  "px_do E pl script chk = bind_act (px_run E pl script chk) (\<lambda>_. ret ())"

definition px_put :: "env \<Rightarrow> platform_config \<Rightarrow> string \<Rightarrow> string \<Rightarrow> unit act" where
  "px_put E pl path remote =
     bind_act (run_command E (px_scp E pl @ [path, px_target pl @ '':'' @ remote]) [] True) (\<lambda>_. ret ())"

definition px_get :: "env \<Rightarrow> platform_config \<Rightarrow> string \<Rightarrow> string \<Rightarrow> unit act" where
  "px_get E pl remote path =
     bind_act (run_command E (px_scp E pl @ [px_target pl @ '':'' @ remote, path]) [] True) (\<lambda>_. ret ())"

section \<open>Checks and inventory\<close>

definition px_version :: string where
  "px_version = ''pvesh get /version --output-format json''"

definition px_doctor :: "env \<Rightarrow> platform_config \<Rightarrow> string list act" where
  "px_doctor E pl =
     bind_act (ask (bool_reply E) (Probe ''ssh'')) (\<lambda>ssh.
     bind_act (if ssh then ask (bool_reply E) (Probe ''scp'') else ret False) (\<lambda>both.
     if \<not> both then ret [''ssh/scp is not installed'']
     else bind_act (px_run E pl px_version False) (\<lambda>(code, out, err).
       if code \<noteq> 0 then ret [''cannot reach Proxmox API over SSH: '' @ strip whitespace err]
       else bind_act (px_run E pl (''for c in pvesh vzdump qmrestore pct qm; do command -v '' @ [CHR 0x22] @ ''$c''
              @ [CHR 0x22] @ '' >/dev/null || exit 41; done'') False) (\<lambda>(code, out, err).
         ret (if code \<noteq> 0
           then [''Proxmox node is missing one or more required commands: pvesh, vzdump, qmrestore, pct, qm''] else [])))))"

definition px_platform_info :: "env \<Rightarrow> platform_config \<Rightarrow> (string \<times> json) list act" where
  "px_platform_info E pl =
     bind_act (px_out E pl px_version) (\<lambda>out.
     bind_act (lift_res (json_loads ''{}'' out)) (\<lambda>v.
       ret [(''name'', JStr (pl_name pl)), (''type'', JStr ''proxmox''), (''endpoint'', JStr (pl_endpoint pl)), (''version'', v)]))"

definition px_vm :: "platform_config \<Rightarrow> json \<Rightarrow> vm option res" where
  "px_vm pl v =
     (case v of
        JObj row \<Rightarrow>
          (let name = py_str (or_else (map_of row ''name'') (get_or row ''vmid'' JNull))
           in if \<not> selected_vm pl name then Inr None
              else (case map_of row ''vmid'' of
                  None \<Rightarrow> Inl (KeyError ''vmid'')
                | Some i \<Rightarrow> Inr (Some \<lparr>v_id = py_str i, v_name = name,
                    v_power_state = py_str (get_or row ''status'' (JStr ''unknown'')),
                    v_kind = py_str (get_or row ''type'' (JStr ''qemu''))\<rparr>)))
      | _ \<Rightarrow> Inl (OtherError ''object has no attribute get''))"

definition px_rows :: "json \<Rightarrow> json list res" where
  "px_rows v =
     (case v of JList xs \<Rightarrow> Inr xs | JObj kvs \<Rightarrow> Inr (map (\<lambda>(k, x). JStr k) kvs) | JStr s \<Rightarrow> Inr (map (\<lambda>c. JStr [c]) s)
      | _ \<Rightarrow> Inl (TypeError ''object is not iterable''))"

definition px_inventory :: "env \<Rightarrow> platform_config \<Rightarrow> vm list act" where
  "px_inventory E pl =
     bind_act (px_out E pl ''pvesh get /cluster/resources --type vm --output-format json'') (\<lambda>out.
     bind_act (lift_res (bind_res (json_loads ''[]'' out) px_rows)) (\<lambda>rows.
     bind_act (lift_res (map_res (px_vm pl) rows)) (\<lambda>vms. ret (List.map_filter id vms))))"

section \<open>Export\<close>

text \<open>\<open>Path(p).name\<close>.\<close>

definition path_name :: "string \<Rightarrow> string" where
  "path_name p = (let q = norm_path p in if q = ''.'' \<or> q = ''/'' then [] else last (split_on (CHR ''/'') q))"

definition fetch_dump :: "env \<Rightarrow> platform_config \<Rightarrow> string \<Rightarrow> string \<Rightarrow> string \<Rightarrow> unit act" where
  "fetch_dump E pl remote_dir out name =
     then_act (check (path_name name = name \<and> \<not> List.member [''.'', ''..''] name)
        (RuntimeError (''vzdump returned an unsafe filename: '' @ repr_str name)))
       (px_get E pl (remote_dir @ ''/'' @ name) (path_div out name))"

definition px_export :: "env \<Rightarrow> platform_config \<Rightarrow> vm \<Rightarrow> string \<Rightarrow> bool \<Rightarrow> string act" where
  "px_export E pl v destination dry_run =
     (let out = path_div destination (''proxmox-'' @ safe_component unnamed (v_id v) @ ''-'' @ safe_component unnamed (v_name v));
          remote_dir = ''/var/tmp/immutavault-'' @ safe_component unnamed (v_id v);
          compress = py_str (get_or (pl_options pl) ''compress'' (JStr ''0''));
          dir = shell_quote remote_dir;
          script = ''set -euo pipefail; mkdir -p '' @ dir @ ''; vzdump '' @ shell_quote (v_id v) @
            '' --mode snapshot --compress '' @ shell_quote compress @ '' --dumpdir '' @ dir @ ''; find '' @ dir @
            '' -maxdepth 1 -type f -printf '' @ [CHR 0x27] @ ''%f'' @ [CHR 0x5C] @ ''n'' @ [CHR 0x27]
      in if dry_run then ret out
         else then_act (ask (done_reply E) (MkDir out))
           (finally_act
             (bind_act (px_out E pl script) (\<lambda>listing.
              let files = filter (\<lambda>f. f \<noteq> []) (map (strip whitespace) (splitlines listing))
              in then_act (check (files \<noteq> []) (RuntimeError (''vzdump produced no files for VM '' @ v_name v)))
                (then_act (bind_act (each (fetch_dump E pl remote_dir out) files) (\<lambda>_. ret ())) (ret out))))
             (px_do E pl (''rm -rf '' @ dir) False)))"

section \<open>Restore\<close>

text \<open>The archives of a recovery point in path order, and the type that the file name tells.\<close>

definition dump_archives :: "(string \<times> int) list \<Rightarrow> string list" where
  "dump_archives files =
     sort_key (split_on (CHR ''/'')) (filter (\<lambda>p. starts_with ''vzdump-'' (path_name p)) (map fst files))"

definition dump_kind :: "string \<Rightarrow> string" where
  "dump_kind archive = (if contains ''vzdump-lxc-'' (path_name archive) then ''lxc'' else ''qemu'')"

text \<open>\<open>s.isdigit()\<close>, which also accepts the superscript digits.\<close>

definition all_digits :: "string \<Rightarrow> bool" where
  "all_digits s \<longleftrightarrow> s \<noteq> [] \<and> list_all (\<lambda>c. is_digit c \<or> c = CHR 0xB2 \<or> c = CHR 0xB3 \<or> c = CHR 0xB9) s"

text \<open>\<open>str(a or b or "").strip()\<close>.\<close>

definition first_text :: "json option list \<Rightarrow> string" where
  "first_text xs = strip whitespace (py_str (foldr or_else xs (JStr [])))"

definition next_vmid :: "env \<Rightarrow> platform_config \<Rightarrow> string act" where
  "next_vmid E pl = bind_act (px_out E pl ''pvesh get /cluster/nextid'') (\<lambda>out. ret (strip whitespace out))"

definition restore_script :: "string \<Rightarrow> string \<Rightarrow> string \<Rightarrow> string \<Rightarrow> string" where
  "restore_script kind remote vmid storage =
     (if kind = ''qemu'' then ''qmrestore '' @ shell_quote remote @ '' '' @ shell_quote vmid
      else ''pct restore '' @ shell_quote vmid @ '' '' @ shell_quote remote)
     @ (if storage \<noteq> [] then '' --storage '' @ shell_quote storage else [])"

definition rename_script :: "string \<Rightarrow> string \<Rightarrow> string \<Rightarrow> string" where
  "rename_script kind vmid target_name =
     (if kind = ''qemu'' then ''qm set '' @ shell_quote vmid @ '' --name '' @ shell_quote target_name
      else ''pct set '' @ shell_quote vmid @ '' --hostname '' @ shell_quote target_name)"

definition exists_script :: "string \<Rightarrow> string" where
  "exists_script vmid =
     ''pvesh get /cluster/resources --type vm --output-format json | grep -Eq '' @ [CHR 0x27, CHR 0x22] @ ''vmid'' @
     [CHR 0x22] @ ''[[:space:]]*:[[:space:]]*'' @ shell_quote vmid @ ''([,}])'' @ [CHR 0x27]"

text \<open>From the check that the id is free to the clean-up; \<open>script\<close> imports and renames.\<close>

definition px_import :: "env \<Rightarrow> platform_config \<Rightarrow> string \<Rightarrow> string \<Rightarrow> string \<Rightarrow> string \<Rightarrow> unit act" where
  "px_import E pl vmid archive remote script =
     bind_act (px_run E pl (exists_script vmid) False) (\<lambda>(code, out, err).
     then_act (check (code \<noteq> 0) (RuntimeError (''target VMID '' @ vmid @ '' already exists; Immutavault refuses overwrite'')))
       (then_act (px_put E pl archive remote)
         (finally_act (px_do E pl script True) (px_do E pl (''rm -f '' @ shell_quote remote) False))))"

text \<open>The restore of one archive once the id is known; no id is the text \<open>NEXTID\<close>.\<close>

definition restore_archive ::
  "env \<Rightarrow> platform_config \<Rightarrow> string \<Rightarrow> string \<Rightarrow> (string \<times> json) list \<Rightarrow> bool \<Rightarrow> string \<Rightarrow> (string \<times> json) list act" where
  "restore_archive E pl archive target_name options dry_run found =
     (let vmid = (if found = [] then ''NEXTID'' else found);
          kind = dump_kind archive;
          remote = ''/var/tmp/immutavault-restore-'' @ safe_component unnamed vmid @ ''-'' @
            safe_component unnamed (path_name archive);
          storage = first_text [map_of options ''storage'', map_of (pl_options pl) ''restore_storage''];
          cmd = restore_script kind remote vmid storage
      in then_act (check (vmid = ''NEXTID'' \<or> all_digits vmid) (ValueError ''Proxmox restore VMID must be numeric''))
        (if dry_run
         then ret [(''platform'', JStr (pl_name pl)), (''kind'', JStr kind), (''vmid'', JStr vmid),
           (''archive'', JStr archive), (''command'', JStr cmd)]
         else then_act (px_import E pl vmid archive remote
             (''set -euo pipefail; '' @ cmd @ ''; '' @ rename_script kind vmid target_name))
           (ret [(''platform'', JStr (pl_name pl)), (''kind'', JStr kind), (''vmid'', JStr vmid),
             (''name'', JStr target_name)])))"

definition px_restore ::
  "env \<Rightarrow> platform_config \<Rightarrow> string \<Rightarrow> string \<Rightarrow> (string \<times> json) list \<Rightarrow> bool \<Rightarrow> (string \<times> json) list act" where
  "px_restore E pl source target_name options dry_run =
     bind_act (ask (listing_reply E) (Glob source ''**'')) (\<lambda>files.
     then_act (check (dump_archives files \<noteq> []) (RuntimeError ''no Proxmox vzdump archive found in recovery point''))
       (let wanted = first_text [map_of options ''vmid'']
        in bind_act (if wanted = [] \<and> \<not> dry_run then next_vmid E pl else ret wanted)
             (restore_archive E pl (hd (dump_archives files)) target_name options dry_run)))"

section \<open>Power\<close>

definition power_tool :: "string \<Rightarrow> string" where
  "power_tool kind = (if kind = ''lxc'' then ''pct'' else ''qm'')"

definition power_script :: "(string \<times> json) list \<Rightarrow> string \<Rightarrow> (string \<times> string \<times> string) res" where
  "power_script restored verb =
     (let vmid = text_or_empty restored ''vmid'';
          kind = py_str (or_else (map_of restored ''kind'') (JStr ''qemu''))
      in check_res (all_digits vmid) (ValueError ''Proxmox restored result is missing numeric vmid'')
        (Inr (vmid, kind, power_tool kind @ '' '' @ verb @ '' '' @ shell_quote vmid)))"

definition power_answer :: "platform_config \<Rightarrow> string \<Rightarrow> string \<Rightarrow> string \<Rightarrow> string \<Rightarrow> bool \<Rightarrow> (string \<times> json) list" where
  "power_answer pl vmid kind state script dry_run =
     [(''platform'', JStr (pl_name pl)), (''vmid'', JStr vmid), (''kind'', JStr kind), (''power'', JStr state),
      (''command'', if dry_run then JStr script else JNull)]"

definition px_power_on :: "env \<Rightarrow> platform_config \<Rightarrow> (string \<times> json) list \<Rightarrow> bool \<Rightarrow> (string \<times> json) list act" where
  "px_power_on E pl restored dry_run =
     bind_act (lift_res (power_script restored ''start'')) (\<lambda>(vmid, kind, script).
     then_act (when_act (\<not> dry_run) (px_do E pl script True))
       (ret (power_answer pl vmid kind ''on'' script dry_run)))"

definition px_power_off :: "env \<Rightarrow> platform_config \<Rightarrow> (string \<times> json) list \<Rightarrow> bool \<Rightarrow> (string \<times> json) list act" where
  "px_power_off E pl restored dry_run =
     bind_act (lift_res (power_script restored ''stop'')) (\<lambda>(vmid, kind, script).
     then_act (when_act (\<not> dry_run) (px_do E pl script False))
       (ret (power_answer pl vmid kind ''off'' script dry_run)))"

section \<open>Nothing is overwritten\<close>

definition px_call :: "env \<Rightarrow> platform_config \<Rightarrow> string \<Rightarrow> call" where
  "px_call E pl script = Run (px_ssh E pl @ [script]) []"

definition put_call :: "env \<Rightarrow> platform_config \<Rightarrow> string \<Rightarrow> string \<Rightarrow> call" where
  "put_call E pl path remote = Run (px_scp E pl @ [path, px_target pl @ '':'' @ remote]) []"

text \<open>What an import leaves in the trace: only the check of the id and the copy, or these followed by the
  import and the removal of the copy, the check having reported no such machine.\<close>

definition import_trace :: "env \<Rightarrow> platform_config \<Rightarrow> string \<Rightarrow> string \<Rightarrow> string \<Rightarrow> string \<Rightarrow> call list \<Rightarrow> call list \<Rightarrow> bool" where
  "import_trace E pl vmid archive remote script h cs \<longleftrightarrow>
     cs = [px_call E pl (exists_script vmid)] \<or>
     (\<exists>code out err. run_reply E h (px_call E pl (exists_script vmid)) = Inr (code, out, err) \<and> code \<noteq> 0 \<and>
        (cs = [px_call E pl (exists_script vmid), put_call E pl archive remote] \<or>
         cs = [px_call E pl (exists_script vmid), put_call E pl archive remote, px_call E pl script,
               px_call E pl (''rm -f '' @ shell_quote remote)]))"

lemma px_do_trace: "\<exists>r. px_do E pl script chk s = (r, s\<lparr>trace := trace s @ [px_call E pl script]\<rparr>)"
  by (cases "run_reply E (trace s) (px_call E pl script)")
    (auto simp: px_do_def px_run_def run_command_def bind_act_def ask_def px_call_def split: if_splits)

lemma px_put_trace: "\<exists>r. px_put E pl path remote s = (r, s\<lparr>trace := trace s @ [put_call E pl path remote]\<rparr>)"
  by (cases "run_reply E (trace s) (put_call E pl path remote)")
    (auto simp: px_put_def run_command_def bind_act_def ask_def put_call_def split: if_splits)

lemma px_import_trace:
  "\<exists>cs. trace (snd (px_import E pl vmid archive remote script s)) = trace s @ cs \<and>
     import_trace E pl vmid archive remote script (trace s) cs"
proof -
  let ?look = "px_call E pl (exists_script vmid)"
  have look: "px_run E pl (exists_script vmid) False s = (run_reply E (trace s) ?look, s\<lparr>trace := trace s @ [?look]\<rparr>)"
    by (simp add: px_run_def run_command_def bind_act_def ask_def px_call_def split: sum.split)
  show ?thesis
  proof (cases "run_reply E (trace s) ?look")
    case (Inl e)
    with look show ?thesis by (simp add: px_import_def bind_act_def import_trace_def)
  next
    case (Inr r)
    obtain code out err where r: "r = (code, out, err)" by (cases r)
    let ?s = "s\<lparr>trace := trace s @ [?look]\<rparr>"
    obtain q where put: "px_put E pl archive remote ?s = (q, ?s\<lparr>trace := trace ?s @ [put_call E pl archive remote]\<rparr>)"
      using px_put_trace by blast
    let ?t = "?s\<lparr>trace := trace ?s @ [put_call E pl archive remote]\<rparr>"
    obtain a where a: "px_do E pl script True ?t = (a, ?t\<lparr>trace := trace ?t @ [px_call E pl script]\<rparr>)"
      using px_do_trace by blast
    let ?u = "?t\<lparr>trace := trace ?t @ [px_call E pl script]\<rparr>"
    obtain b where b: "px_do E pl (''rm -f '' @ shell_quote remote) False ?u =
        (b, ?u\<lparr>trace := trace ?u @ [px_call E pl (''rm -f '' @ shell_quote remote)]\<rparr>)"
      using px_do_trace by blast
    have "px_import E pl vmid archive remote script s =
      (if code = 0 then (Inl (RuntimeError (''target VMID '' @ vmid @ '' already exists; Immutavault refuses overwrite'')), ?s)
       else then_act (px_put E pl archive remote)
         (finally_act (px_do E pl script True) (px_do E pl (''rm -f '' @ shell_quote remote) False)) ?s)"
      by (simp add: px_import_def bind_act_def look Inr r)
    moreover have "trace (snd (then_act (px_put E pl archive remote)
         (finally_act (px_do E pl script True) (px_do E pl (''rm -f '' @ shell_quote remote) False)) ?s)) =
       trace s @ ([?look, put_call E pl archive remote] @ (case q of Inl e \<Rightarrow> [] | Inr x \<Rightarrow>
         [px_call E pl script, px_call E pl (''rm -f '' @ shell_quote remote)]))"
      using put a b by (cases q; cases b) (simp_all add: then_act_def bind_act_def finally_act_def)
    ultimately show ?thesis
      using Inr r by (cases q) (auto simp: import_trace_def)
  qed
qed

definition looks :: "env \<Rightarrow> platform_config \<Rightarrow> call \<Rightarrow> bool" where
  "looks E pl c \<longleftrightarrow> (\<exists>source. c = Glob source ''**'') \<or> c = px_call E pl ''pvesh get /cluster/nextid''"

text \<open>The commands of an import of one id under one name, and of the lookup of an id, word for word.\<close>

definition imports_id :: "string \<Rightarrow> string \<Rightarrow> string \<Rightarrow> string \<Rightarrow> bool" where
  "imports_id vmid remote name script \<longleftrightarrow>
     (\<exists>extra. (extra = [] \<or> (\<exists>storage. extra = '' --storage '' @ shell_quote storage)) \<and>
       (script = ''set -euo pipefail; qmrestore '' @ shell_quote remote @ '' '' @ shell_quote vmid @ extra @
          ''; qm set '' @ shell_quote vmid @ '' --name '' @ shell_quote name \<or>
        script = ''set -euo pipefail; pct restore '' @ shell_quote vmid @ '' '' @ shell_quote remote @ extra @
          ''; pct set '' @ shell_quote vmid @ '' --hostname '' @ shell_quote name))"

definition looks_up_id :: "string \<Rightarrow> string" where
  "looks_up_id vmid = ''pvesh get /cluster/resources --type vm --output-format json | grep -Eq '' @ [CHR 0x27] @ [CHR 0x22] @
     ''vmid'' @ [CHR 0x22] @ ''[[:space:]]*:[[:space:]]*'' @ shell_quote vmid @ ''([,}])'' @ [CHR 0x27]"

text \<open>One import: the id is looked up and, only if the lookup did not report it, the archive is copied, that very
  id is imported from the copy under the new name, and the copy is removed.\<close>

definition fresh_import :: "env \<Rightarrow> platform_config \<Rightarrow> string \<Rightarrow> bool \<Rightarrow> call list \<Rightarrow> call list \<Rightarrow> bool" where
  "fresh_import E pl name dry h cs \<longleftrightarrow>
     \<not> dry \<and> (\<exists>vmid archive remote script. (vmid = ''NEXTID'' \<or> all_digits vmid) \<and> imports_id vmid remote name script \<and>
        (cs = [px_call E pl (looks_up_id vmid)] \<or>
         (\<exists>code out err. run_reply E h (px_call E pl (looks_up_id vmid)) = Inr (code, out, err) \<and> code \<noteq> 0 \<and>
            (cs = [px_call E pl (looks_up_id vmid), put_call E pl archive remote] \<or>
             cs = [px_call E pl (looks_up_id vmid), put_call E pl archive remote, px_call E pl script,
                   px_call E pl (''rm -f '' @ shell_quote remote)]))))"

lemma exists_script_text: "exists_script vmid = looks_up_id vmid"
  by (simp add: exists_script_def looks_up_id_def)

lemma restore_scripts:
  "imports_id vmid remote name (''set -euo pipefail; '' @ restore_script kind remote vmid storage @ ''; '' @ rename_script kind vmid name)"
  unfolding imports_id_def
  by (intro exI [of _ "if storage = [] then [] else '' --storage '' @ shell_quote storage"])
    (auto simp: restore_script_def rename_script_def)

lemma import_is_fresh:
  assumes "import_trace E pl vmid archive remote script h cs" "imports_id vmid remote name script"
    "vmid = ''NEXTID'' \<or> all_digits vmid"
  shows "fresh_import E pl name False h cs"
  using assms unfolding import_trace_def exists_script_text fresh_import_def by blast

lemma next_vmid_looks: "steps (does (\<lambda>h. looks E pl)) (next_vmid E pl)"
  unfolding next_vmid_def px_out_def px_run_def run_command_def
  by (intro does_rules does.steps_prod does_ask) (auto simp: looks_def px_call_def)

lemma archive_phases:
  "phases (looks E pl) (fresh_import E pl name dry) s (snd (restore_archive E pl archive name options dry found s))"
proof -
  have imp: "phases (looks E pl) (fresh_import E pl name False) s (snd (px_import E pl vmid archive remote script s))"
    if "vmid = ''NEXTID'' \<or> all_digits vmid" "imports_id vmid remote name script" for vmid remote script s
  proof -
    obtain cs where cs: "trace (snd (px_import E pl vmid archive remote script s)) = trace s @ cs"
      "import_trace E pl vmid archive remote script (trace s) cs"
      using px_import_trace by blast
    from import_is_fresh [OF cs(2) that(2,1)] show ?thesis by (rule phases_change [OF cs(1)])
  qed
  show ?thesis
    unfolding restore_archive_def Let_def then_check
    by (cases dry) (simp_all add: imp phases_done phases_same restore_scripts [simplified])
qed

text \<open>
  C39. A Proxmox restore never overwrites a machine. Whatever the node answers, the restore first only lists
  the files and may ask for the next free id; then, unless it is a dry run, it looks one id up, and it imports
  exactly that id, under the new name and from the archive copied right after the lookup, only if the lookup
  did not report a machine of that id; the copied archive is removed from the node right after the import,
  failed or not.
\<close>

theorem proxmox_never_overwrites:
  "phases (looks E pl) (fresh_import E pl name dry) s (snd (px_restore E pl source name options dry s))"
proof -
  have list: "steps (does (\<lambda>h. looks E pl)) (ask (listing_reply E) (Glob source ''**''))"
    by (intro does_ask) (auto simp: looks_def)
  have id: "steps (does (\<lambda>h. looks E pl)) (if wanted = [] \<and> \<not> dry then next_vmid E pl else ret wanted)" for wanted
    by (intro does_rules next_vmid_looks)
  show ?thesis
    unfolding px_restore_def Let_def
    by (rule phases_bind [OF list], rule phases_then, rule does.steps_check, rule phases_bind [OF id], rule archive_phases)
qed

text \<open>A node where every lookup finds nothing and every other command succeeds.\<close>

definition pve_node :: platform_config where
  "pve_node = default_platform ''pve'' ''proxmox'' ''pve1''"

definition pve_env :: env where
  "pve_env = sample_env\<lparr>listing_reply := (\<lambda>h c. Inr [(''/s/vzdump-qemu-7.vma'', 1)]),
     run_reply := (\<lambda>h c. Inr (if c = px_call sample_env pve_node (looks_up_id ''100'') then 1 else 0, [], []))\<rparr>"

definition pve_import :: call where
  "pve_import = px_call pve_env pve_node
     (''set -euo pipefail; '' @ restore_script ''qemu'' ''/var/tmp/immutavault-restore-100-vzdump-qemu-7.vma'' ''100'' [] @
      ''; '' @ rename_script ''qemu'' ''100'' ''db'')"

lemma pve_imports: "pve_import \<in> set (trace (snd (px_restore pve_env pve_node ''/s'' ''db'' [(''vmid'', JInt 100)] False sample_sys)))"
  by code_simp

theorem proxmox_never_overwrites_witness:
  "\<exists>pre post. trace (snd (px_restore pve_env pve_node ''/s'' ''db'' [(''vmid'', JInt 100)] False sample_sys)) = pre @ post \<and>
     pve_import \<in> set post \<and> fresh_import pve_env pve_node ''db'' False pre post"
proof -
  obtain pre post where *: "trace (snd (px_restore pve_env pve_node ''/s'' ''db'' [(''vmid'', JInt 100)] False sample_sys)) = pre @ post"
    "list_all (looks pve_env pve_node) pre" "post = [] \<or> fresh_import pve_env pve_node ''db'' False pre post"
    using proxmox_never_overwrites [of pve_env pve_node "''db''" False sample_sys "''/s''" "[(''vmid'', JInt 100)]"]
    by (auto simp: phases_def sample_sys_def)
  have "\<not> looks pve_env pve_node pve_import" by (simp add: looks_def pve_import_def px_call_def)
  then have "pve_import \<in> set post" using pve_imports *(1,2) by (auto simp: list_all_iff)
  with * show ?thesis by (intro exI [of _ pre] exI [of _ post]) auto
qed

end
