(* ===== verification/Xcpng.thy ===== *)
theory Xcpng
  imports Proxmox
begin

text \<open>
  The XCP-ng adapter, \<open>adapters/xcpng.py\<close>: every operation of the adapter interface as the \<open>xe\<close> commands it
  runs on the host. The host is reached as a Proxmox node is (\<open>px_ssh\<close> and the rest). The lemmas show that
  an import is only made under a name no machine has, and that temporary copies, snapshots and templates are
  removed however an operation ends.
\<close>

section \<open>Checks and inventory\<close>

definition snapshot_modes :: "string list" where
  "snapshot_modes = [''snapshot-export'', ''xe-snapshot-export'', ''snapshot'']"

definition cold_modes :: "string list" where
  "cold_modes = [''xe-export'', ''cold-export'']"

definition xc_mode_problems :: "platform_config \<Rightarrow> string list" where
  "xc_mode_problems pl =
     (let mode = lower (pl_mode pl)
      in if List.member cold_modes mode
         then [''XCP-ng direct xe vm-export is configured; use mode=snapshot-export for running production VMs'']
         else if \<not> List.member snapshot_modes mode then [''unsupported XCP-ng backup mode: '' @ pl_mode pl] else [])"

definition xc_commands_script :: string where
  "xc_commands_script =
     ''for c in vm-snapshot snapshot-export-to-template snapshot-uninstall vm-import vm-install template-uninstall; do xe help ''
     @ [CHR 0x22] @ ''$c'' @ [CHR 0x22] @ '' >/dev/null || exit 42; done''"

definition xc_doctor :: "env \<Rightarrow> platform_config \<Rightarrow> string list act" where
  "xc_doctor E pl =
     bind_act (ask (bool_reply E) (Probe ''ssh'')) (\<lambda>ssh.
     bind_act (if ssh then ask (bool_reply E) (Probe ''scp'') else ret False) (\<lambda>both.
     if \<not> both then ret [''ssh/scp is not installed'']
     else bind_act (px_run E pl ''xe host-list params=uuid --minimal'' False) (\<lambda>(code, out, err).
       bind_act
         (if code \<noteq> 0 then ret [''cannot reach XCP-ng xe CLI: '' @ strip whitespace err]
          else bind_act (px_run E pl xc_commands_script False) (\<lambda>(code, out, err).
            ret (if code \<noteq> 0
              then [''XCP-ng xe CLI is missing one or more required snapshot/export/import/template commands''] else [])))
         (\<lambda>problems. ret (problems @ xc_mode_problems pl)))))"

definition host_param :: "string \<Rightarrow> string \<Rightarrow> string" where
  "host_param host key = ''xe host-param-get uuid='' @ shell_quote host @ '' param-name=software-version param-key='' @ key"

definition xc_platform_info :: "env \<Rightarrow> platform_config \<Rightarrow> (string \<times> json) list act" where
  "xc_platform_info E pl =
     bind_act (px_out E pl ''xe host-list params=uuid --minimal'') (\<lambda>hosts.
     let host = hd (split_on (CHR '','') (strip whitespace hosts))
     in bind_act (px_run E pl (host_param host ''product_version'') False) (\<lambda>(code1, version, err1).
        bind_act (px_run E pl (host_param host ''build_number'') False) (\<lambda>(code2, build, err2).
        ret [(''name'', JStr (pl_name pl)), (''type'', JStr ''xcpng''), (''endpoint'', JStr (pl_endpoint pl)),
          (''host_uuid'', JStr host), (''version'', JStr (strip whitespace version)),
          (''build'', JStr (strip whitespace build))])))"

definition vm_param :: "string \<Rightarrow> string \<Rightarrow> string" where
  "vm_param uuid param = ''xe vm-param-get uuid='' @ shell_quote uuid @ '' param-name='' @ param"

definition xc_vm :: "env \<Rightarrow> platform_config \<Rightarrow> string \<Rightarrow> vm option act" where
  "xc_vm E pl uuid =
     bind_act (px_out E pl (vm_param uuid ''name-label'')) (\<lambda>name.
     bind_act (px_out E pl (vm_param uuid ''power-state'')) (\<lambda>state.
     ret (if selected_vm pl (strip whitespace name)
       then Some \<lparr>v_id = uuid, v_name = strip whitespace name, v_power_state = strip whitespace state, v_kind = ''xcpng''\<rparr>
       else None)))"

text \<open>The parts of a list between commas, without blanks and empty ones.\<close>

definition comma_list :: "string \<Rightarrow> string list" where
  "comma_list s = filter (\<lambda>x. x \<noteq> []) (map (strip whitespace) (split_on (CHR '','') s))"

definition xc_inventory :: "env \<Rightarrow> platform_config \<Rightarrow> vm list act" where
  "xc_inventory E pl =
     bind_act (px_out E pl ''xe vm-list is-control-domain=false params=uuid --minimal'') (\<lambda>out.
     bind_act (each (xc_vm E pl) (comma_list (strip whitespace out))) (\<lambda>vms. ret (List.map_filter id vms)))"

section \<open>Export\<close>

definition snapshot_script :: "vm \<Rightarrow> string" where
  "snapshot_script v =
     ''xe vm-snapshot uuid='' @ shell_quote (v_id v) @ '' new-name-label='' @
     shell_quote (''immutavault-'' @ safe_component unnamed (v_name v))"

definition uninstall_script :: "string \<Rightarrow> string" where
  "uninstall_script snapshot = ''xe snapshot-uninstall snapshot-uuid='' @ shell_quote snapshot @ '' --force''"

text \<open>The snapshot that an export reads, empty in the modes that export the machine itself.\<close>

definition take_snapshot :: "env \<Rightarrow> platform_config \<Rightarrow> vm \<Rightarrow> string act" where
  "take_snapshot E pl v =
     (if List.member snapshot_modes (lower (pl_mode pl))
      then bind_act (px_out E pl (snapshot_script v)) (\<lambda>out.
        then_act (check (strip whitespace out \<noteq> []) (RuntimeError (''XCP-ng snapshot returned no UUID for '' @ v_name v)))
          (ret (strip whitespace out)))
      else ret [])"

definition export_archive :: "env \<Rightarrow> platform_config \<Rightarrow> vm \<Rightarrow> string \<Rightarrow> string \<Rightarrow> unit act" where
  "export_archive E pl v remote snapshot =
     (if List.member snapshot_modes (lower (pl_mode pl))
      then px_do E pl (''xe snapshot-export-to-template snapshot-uuid='' @ shell_quote snapshot @ '' filename='' @
        shell_quote remote @ '' preserve-power-state=false'') True
      else if List.member cold_modes (lower (pl_mode pl))
      then px_do E pl (''xe vm-export uuid='' @ shell_quote (v_id v) @ '' filename='' @ shell_quote remote) True
      else throw (ValueError (''unsupported XCP-ng backup mode: '' @ pl_mode pl)))"

definition xc_export :: "env \<Rightarrow> platform_config \<Rightarrow> vm \<Rightarrow> string \<Rightarrow> bool \<Rightarrow> string act" where
  "xc_export E pl v destination dry_run =
     (let out = path_div destination (''xcpng-'' @ safe_component unnamed (v_id v) @ ''-'' @
            safe_component unnamed (v_name v) @ ''.xva'');
          remote = ''/var/tmp/immutavault-'' @ safe_component unnamed (v_id v) @ ''.xva'';
          remove = px_do E pl (''rm -f '' @ shell_quote remote) False
      in if dry_run then ret out
         else bind_act (attempt (take_snapshot E pl v)) (\<lambda>r.
           case r of
             Inl e \<Rightarrow> finally_act (throw e) remove
           | Inr snapshot \<Rightarrow>
               finally_act
                 (then_act (export_archive E pl v remote snapshot) (then_act (px_get E pl remote out) (ret out)))
                 (then_act remove
                   (when_act (snapshot \<noteq> []) (px_do E pl (uninstall_script snapshot) False)))))"

section \<open>Restore\<close>

definition xva_archives :: "(string \<times> int) list \<Rightarrow> string list" where
  "xva_archives files =
     sort_key (split_on (CHR ''/'')) (filter (\<lambda>p. length (path_name p) \<ge> 4 \<and>
       drop (length (path_name p) - 4) (path_name p) = ''.xva'') (map fst files))"

definition on_storage :: "string \<Rightarrow> string" where
  "on_storage sr = (if sr = [] then [] else '' sr-uuid='' @ shell_quote sr)"

definition xva_import_script :: "string \<Rightarrow> string \<Rightarrow> string" where
  "xva_import_script remote sr = ''xe vm-import filename='' @ shell_quote remote @ '' preserve=false'' @ on_storage sr"

definition install_script :: "string \<Rightarrow> string \<Rightarrow> string \<Rightarrow> string" where
  "install_script template name sr =
     ''xe vm-install template-uuid='' @ template @ '' new-name-label='' @ shell_quote name @ on_storage sr"

definition name_script :: "string \<Rightarrow> string" where
  "name_script name = ''xe vm-list name-label='' @ shell_quote name @ '' --minimal''"

definition drop_template_script :: "string \<Rightarrow> string" where
  "drop_template_script uuid = ''xe template-uninstall template-uuid='' @ shell_quote uuid @ '' --force''"

definition needed_uuid :: "string \<Rightarrow> string \<Rightarrow> string res" where
  "needed_uuid out problem = check_res (strip whitespace out \<noteq> []) (RuntimeError problem) (Inr (strip whitespace out))"

text \<open>What was imported, and whether it is a template.\<close>

definition import_xva :: "env \<Rightarrow> platform_config \<Rightarrow> string \<Rightarrow> string \<Rightarrow> (string \<times> bool) act" where
  "import_xva E pl remote sr =
     bind_act (px_out E pl (xva_import_script remote sr)) (\<lambda>out.
     bind_act (lift_res (needed_uuid out ''XCP-ng vm-import returned no UUID'')) (\<lambda>uuid.
     bind_act (px_out E pl (vm_param uuid ''is-a-template'')) (\<lambda>kind.
       ret (uuid, lower (strip whitespace kind) = ''true''))))"

definition name_machine :: "env \<Rightarrow> platform_config \<Rightarrow> string \<Rightarrow> string \<Rightarrow> string \<Rightarrow> bool \<Rightarrow> string act" where
  "name_machine E pl name sr uuid template =
     (if template
      then bind_act (px_out E pl (install_script (shell_quote uuid) name sr)) (\<lambda>out.
        lift_res (needed_uuid out ''XCP-ng vm-install returned no VM UUID''))
      else then_act (px_do E pl (''xe vm-param-set uuid='' @ shell_quote uuid @ '' name-label='' @ shell_quote name) True)
        (ret uuid))"

definition import_machine :: "env \<Rightarrow> platform_config \<Rightarrow> string \<Rightarrow> string \<Rightarrow> string \<Rightarrow> string act" where
  "import_machine E pl remote sr name =
     (let remove = px_do E pl (''rm -f '' @ shell_quote remote) False
      in bind_act (attempt (import_xva E pl remote sr)) (\<lambda>r.
        case r of
          Inl e \<Rightarrow> finally_act (throw e) remove
        | Inr (uuid, template) \<Rightarrow>
            finally_act (name_machine E pl name sr uuid template)
              (then_act remove (when_act template (px_do E pl (drop_template_script uuid) False)))))"

definition xc_restore ::
  "env \<Rightarrow> platform_config \<Rightarrow> string \<Rightarrow> string \<Rightarrow> (string \<times> json) list \<Rightarrow> bool \<Rightarrow> (string \<times> json) list act" where
  "xc_restore E pl source target_name options dry_run =
     bind_act (ask (listing_reply E) (Glob source ''**'')) (\<lambda>files.
     then_act (check (xva_archives files \<noteq> []) (RuntimeError ''no XVA archive found in XCP-ng recovery point''))
    (let xva = hd (xva_archives files);
         remote = ''/var/tmp/immutavault-restore-'' @ safe_component unnamed (path_name xva);
         sr = first_text [map_of options ''sr_uuid'', map_of (pl_options pl) ''restore_sr_uuid'']
     in if dry_run
        then ret [(''platform'', JStr (pl_name pl)), (''name'', JStr target_name), (''xva'', JStr xva),
          (''import_command'', JStr (xva_import_script remote sr)),
          (''template_install_command'', JStr (install_script ''<imported-template-uuid>'' target_name sr))]
        else bind_act (px_run E pl (name_script target_name) False) (\<lambda>(code, out, err).
          then_act (check (code \<noteq> 0 \<or> strip whitespace out = [])
            (RuntimeError (''VM '' @ repr_str target_name @ '' already exists; Immutavault refuses overwrite'')))
         (then_act (px_put E pl xva remote)
         (bind_act (import_machine E pl remote sr target_name) (\<lambda>uuid.
          ret [(''platform'', JStr (pl_name pl)), (''uuid'', JStr uuid), (''name'', JStr target_name)]))))))"

section \<open>Power\<close>

definition xc_power_script :: "(string \<times> json) list \<Rightarrow> bool \<Rightarrow> (string \<times> string) res" where
  "xc_power_script restored on =
     (let uuid = text_or_empty restored ''uuid''
      in check_res (uuid \<noteq> []) (ValueError ''XCP-ng restored result is missing uuid'')
        (Inr (uuid, if on then ''xe vm-start uuid='' @ shell_quote uuid
           else ''xe vm-shutdown uuid='' @ shell_quote uuid @ '' force=true'')))"

definition xc_power_answer :: "platform_config \<Rightarrow> string \<Rightarrow> string \<Rightarrow> string \<Rightarrow> bool \<Rightarrow> (string \<times> json) list" where
  "xc_power_answer pl uuid state script dry_run =
     [(''platform'', JStr (pl_name pl)), (''uuid'', JStr uuid), (''power'', JStr state),
      (''command'', if dry_run then JStr script else JNull)]"

definition xc_power_on :: "env \<Rightarrow> platform_config \<Rightarrow> (string \<times> json) list \<Rightarrow> bool \<Rightarrow> (string \<times> json) list act" where
  "xc_power_on E pl restored dry_run =
     bind_act (lift_res (xc_power_script restored True)) (\<lambda>(uuid, script).
     then_act (when_act (\<not> dry_run) (px_do E pl script True)) (ret (xc_power_answer pl uuid ''on'' script dry_run)))"

definition xc_power_off :: "env \<Rightarrow> platform_config \<Rightarrow> (string \<times> json) list \<Rightarrow> bool \<Rightarrow> (string \<times> json) list act" where
  "xc_power_off E pl restored dry_run =
     bind_act (lift_res (xc_power_script restored False)) (\<lambda>(uuid, script).
     then_act (when_act (\<not> dry_run) (px_do E pl script False)) (ret (xc_power_answer pl uuid ''off'' script dry_run)))"

section \<open>Imports only under free names\<close>

text \<open>What a command that has to succeed answers.\<close>

definition xe_answer :: "env \<Rightarrow> call list \<Rightarrow> call \<Rightarrow> string option" where
  "xe_answer E h c = (case run_reply E h c of Inr (code, out, err) \<Rightarrow> if code = 0 then Some out else None | Inl e \<Rightarrow> None)"

text \<open>The calls of an import, word for word. The copied archive is removed in every case. What was imported is
  asked for whether it is a template: then a machine is installed from it under the new name, and the
  template is removed after the archive unless the removal of the archive raised an exception; otherwise it
  is renamed. If that cannot be found out, nothing more is done about it.\<close>

definition machine_calls :: "env \<Rightarrow> platform_config \<Rightarrow> string \<Rightarrow> string \<Rightarrow> string \<Rightarrow> call list \<Rightarrow> call list" where
  "machine_calls E pl remote sr name h =
     (let imports = px_call E pl (''xe vm-import filename='' @ shell_quote remote @ '' preserve=false'' @ on_storage sr);
          remove = px_call E pl (''rm -f '' @ shell_quote remote)
      in case xe_answer E h imports of
           None \<Rightarrow> [imports, remove]
         | Some out \<Rightarrow>
             (let uuid = shell_quote (strip whitespace out);
                  kind = px_call E pl (''xe vm-param-get uuid='' @ uuid @ '' param-name='' @ ''is-a-template'');
                  install = px_call E pl (''xe vm-install template-uuid='' @ uuid @ '' new-name-label='' @ shell_quote name @ on_storage sr);
                  rename = px_call E pl (''xe vm-param-set uuid='' @ uuid @ '' name-label='' @ shell_quote name);
                  drop_template = px_call E pl (''xe template-uninstall template-uuid='' @ uuid @ '' --force'')
              in if strip whitespace out = [] then [imports, remove]
                 else case xe_answer E (h @ [imports]) kind of
                   None \<Rightarrow> [imports, kind, remove]
                 | Some k \<Rightarrow>
                     if lower (strip whitespace k) = ''true''
                     then [imports, kind, install, remove] @
                       (if isl (run_reply E (h @ [imports, kind, install]) remove) then [] else [drop_template])
                     else [imports, kind, rename, remove]))"

definition looks_up_name :: "string \<Rightarrow> string" where
  "looks_up_name name = ''xe vm-list name-label='' @ shell_quote name @ '' --minimal''"

text \<open>A restore: the name is looked up and, only if the lookup found nothing or failed, the archive is copied and
  imported.\<close>

definition xva_trace :: "env \<Rightarrow> platform_config \<Rightarrow> string \<Rightarrow> string \<Rightarrow> string \<Rightarrow> string \<Rightarrow> call list \<Rightarrow> call list \<Rightarrow> bool" where
  "xva_trace E pl xva remote sr name h cs \<longleftrightarrow>
     (let look = px_call E pl (looks_up_name name); put = put_call E pl xva remote
      in cs = [look] \<or>
        (\<exists>code out err. run_reply E h look = Inr (code, out, err) \<and> (code \<noteq> 0 \<or> strip whitespace out = []) \<and>
           (cs = [look, put] \<or> cs = [look, put] @ machine_calls E pl remote sr name (h @ [look, put]))))"

definition free_name :: "env \<Rightarrow> platform_config \<Rightarrow> string \<Rightarrow> bool \<Rightarrow> call list \<Rightarrow> call list \<Rightarrow> bool" where
  "free_name E pl name dry h cs \<longleftrightarrow> \<not> dry \<and> (\<exists>xva remote sr. xva_trace E pl xva remote sr name h cs)"

definition lists_files :: "call \<Rightarrow> bool" where
  "lists_files c \<longleftrightarrow> (\<exists>source. c = Glob source ''**'')"

lemma px_out_run:
  "px_out E pl script s = (case xe_answer E (trace s) (px_call E pl script) of
      Some out \<Rightarrow> Inr out | None \<Rightarrow> Inl (projl (fst (px_out E pl script s))),
     s\<lparr>trace := trace s @ [px_call E pl script]\<rparr>)"
  by (cases "run_reply E (trace s) (px_call E pl script)")
    (auto simp: px_out_def px_run_def run_command_def bind_act_def ask_def px_call_def xe_answer_def split: if_splits)

lemma px_out_Some:
  "xe_answer E (trace s) (px_call E pl script) = Some out \<Longrightarrow>
   px_out E pl script s = (Inr out, s\<lparr>trace := trace s @ [px_call E pl script]\<rparr>)"
  by (subst px_out_run) simp

lemma px_out_None:
  "xe_answer E (trace s) (px_call E pl script) = None \<Longrightarrow>
   \<exists>e. px_out E pl script s = (Inl e, s\<lparr>trace := trace s @ [px_call E pl script]\<rparr>)"
  by (subst px_out_run) simp

lemma px_do_snd: "snd (px_do E pl script chk s) = s\<lparr>trace := trace s @ [px_call E pl script]\<rparr>"
  using px_do_trace [of E pl script chk s] by auto

lemma px_do_fails: "fst (px_do E pl script False s) =
   (case run_reply E (trace s) (px_call E pl script) of Inl e \<Rightarrow> Inl e | Inr r \<Rightarrow> Inr ())"
  by (cases "run_reply E (trace s) (px_call E pl script)")
    (auto simp: px_do_def px_run_def run_command_def bind_act_def ask_def px_call_def)

lemma then_snd: "snd (then_act m n s) = (case fst (m s) of Inl e \<Rightarrow> snd (m s) | Inr x \<Rightarrow> snd (n (snd (m s))))"
  by (auto simp: then_act_def bind_act_def split: prod.split sum.split)

lemma name_machine_snd:
  "snd (name_machine E pl name sr uuid template s) = s\<lparr>trace := trace s @ [px_call E pl (if template
     then install_script (shell_quote uuid) name sr
     else ''xe vm-param-set uuid='' @ shell_quote uuid @ '' name-label='' @ shell_quote name)]\<rparr>"
proof (cases template)
  case True
  then show ?thesis
    by (cases "xe_answer E (trace s) (px_call E pl (install_script (shell_quote uuid) name sr))")
      (auto simp: name_machine_def bind_act_def px_out_Some lift_res_def dest!: px_out_None)
next
  case False
  then show ?thesis by (simp add: name_machine_def then_snd px_do_snd split: sum.split)
qed

lemmas machine_calls_scripts =
  machine_calls_def [unfolded Let_def, folded xva_import_script_def vm_param_def install_script_def drop_template_script_def]

lemma import_machine_trace:
  "trace (snd (import_machine E pl remote sr name s)) = trace s @ machine_calls E pl remote sr name (trace s)"
proof -
  let ?imports = "px_call E pl (xva_import_script remote sr)"
  show ?thesis
  proof (cases "xe_answer E (trace s) ?imports")
    case None
    then show ?thesis
      by (auto simp: import_machine_def Let_def bind_act_def attempt_eq finally_trace import_xva_def px_do_snd machine_calls_scripts dest!: px_out_None)
  next
    case (Some out)
    let ?s = "s\<lparr>trace := trace s @ [?imports]\<rparr>" and ?uuid = "strip whitespace out"
    let ?kind = "px_call E pl (vm_param ?uuid ''is-a-template'')"
    have x: "import_xva E pl remote sr s =
        (if ?uuid = [] then (Inl (RuntimeError ''XCP-ng vm-import returned no UUID''), ?s)
         else bind_act (px_out E pl (vm_param ?uuid ''is-a-template'')) (\<lambda>kind.
           ret (?uuid, lower (strip whitespace kind) = ''true'')) ?s)"
      using Some by (simp add: import_xva_def px_out_Some bind_fst then_lift needed_uuid_def check_res_def)
    show ?thesis
    proof (cases "?uuid = []")
      case True
      with x Some show ?thesis
        by (simp add: import_machine_def Let_def bind_act_def attempt_eq finally_trace px_do_snd machine_calls_scripts)
    next
      case False
      show ?thesis
      proof (cases "xe_answer E (trace ?s) ?kind")
        case None
        from px_out_None [OF this] obtain e where "px_out E pl (vm_param ?uuid ''is-a-template'') ?s =
            (Inl e, ?s\<lparr>trace := trace ?s @ [?kind]\<rparr>)" by blast
        then have "import_xva E pl remote sr s = (Inl e, ?s\<lparr>trace := trace ?s @ [?kind]\<rparr>)"
          using x False by (simp add: bind_act_def)
        with None Some False show ?thesis
          by (simp add: import_machine_def Let_def bind_act_def attempt_eq finally_trace px_do_snd machine_calls_scripts)
      next
        case (Some k)
        let ?t = "?s\<lparr>trace := trace ?s @ [?kind]\<rparr>" and ?template = "lower (strip whitespace k) = ''true''"
        have "import_xva E pl remote sr s = (Inr (?uuid, ?template), ?t)"
          using x False Some by (simp add: px_out_Some bind_fst)
        then have "snd (import_machine E pl remote sr name s) =
            snd (then_act (px_do E pl (''rm -f '' @ shell_quote remote) False)
              (when_act ?template (px_do E pl (drop_template_script ?uuid) False)) (snd (name_machine E pl name sr ?uuid ?template ?t)))"
          by (simp add: import_machine_def Let_def bind_act_def attempt_eq finally_trace)
        with Some \<open>xe_answer E (trace s) ?imports = Some out\<close> False show ?thesis
          by (cases ?template)
            (simp_all add: name_machine_snd then_snd px_do_snd px_do_fails when_act_def machine_calls_scripts split: sum.split)
      qed
    qed
  qed
qed

lemma name_script_text: "name_script name = looks_up_name name"
  by (simp add: name_script_def looks_up_name_def)

lemma restore_xva_trace:
  fixes E pl name xva remote sr
  defines "copy \<equiv> then_act (px_put E pl xva remote) (bind_act (import_machine E pl remote sr name) (\<lambda>uuid.
      ret [(''platform'', JStr (pl_name pl)), (''uuid'', JStr uuid), (''name'', JStr name)]))"
  shows "\<exists>cs. trace (snd (bind_act (px_run E pl (name_script name) False) (\<lambda>(code, out, err).
          then_act (check (code \<noteq> 0 \<or> strip whitespace out = [])
            (RuntimeError (''VM '' @ repr_str name @ '' already exists; Immutavault refuses overwrite''))) copy) s)) = trace s @ cs \<and>
     xva_trace E pl xva remote sr name (trace s) cs"
proof -
  let ?look = "px_call E pl (looks_up_name name)" and ?put = "put_call E pl xva remote"
  let ?s1 = "s\<lparr>trace := trace s @ [?look]\<rparr>"
  let ?s2 = "?s1\<lparr>trace := trace ?s1 @ [?put]\<rparr>"
  have look: "px_run E pl (looks_up_name name) False s = (run_reply E (trace s) ?look, ?s1)"
    by (simp add: px_run_def run_command_def bind_act_def ask_def px_call_def split: sum.split)
  obtain q where put: "px_put E pl xva remote ?s1 = (q, ?s2)" using px_put_trace by blast
  have copy: "trace (snd (copy ?s1)) =
      (case q of Inl e \<Rightarrow> trace ?s2 | Inr u \<Rightarrow> trace ?s2 @ machine_calls E pl remote sr name (trace ?s2))"
  proof (cases q)
    case (Inr u)
    have "snd (bind_act (import_machine E pl remote sr name) (\<lambda>uuid. ret (F uuid)) t) = snd (import_machine E pl remote sr name t)"
      for F :: "string \<Rightarrow> (string \<times> json) list" and t
      by (auto simp: bind_act_def split: prod.split sum.split)
    then show ?thesis using Inr by (simp add: copy_def then_snd put import_machine_trace)
  qed (simp add: copy_def then_snd put)
  show ?thesis
    unfolding name_script_text
  proof (cases "run_reply E (trace s) ?look")
    case (Inl e)
    with look show "\<exists>cs. trace (snd (bind_act (px_run E pl (looks_up_name name) False) (\<lambda>(code, out, err).
          then_act (check (code \<noteq> 0 \<or> strip whitespace out = [])
            (RuntimeError (''VM '' @ repr_str name @ '' already exists; Immutavault refuses overwrite''))) copy) s)) = trace s @ cs \<and>
     xva_trace E pl xva remote sr name (trace s) cs"
      by (simp add: bind_act_def xva_trace_def)
  next
    case (Inr r)
    obtain code out err where r: "r = (code, out, err)" by (cases r)
    show "\<exists>cs. trace (snd (bind_act (px_run E pl (looks_up_name name) False) (\<lambda>(code, out, err).
          then_act (check (code \<noteq> 0 \<or> strip whitespace out = [])
            (RuntimeError (''VM '' @ repr_str name @ '' already exists; Immutavault refuses overwrite''))) copy) s)) = trace s @ cs \<and>
     xva_trace E pl xva remote sr name (trace s) cs"
      using look Inr r copy by (cases "code \<noteq> 0 \<or> strip whitespace out = []"; cases q) (auto simp: bind_act_def xva_trace_def)
  qed
qed

text \<open>
  C40. An XCP-ng restore never overwrites a machine and cleans up. Whatever the host answers, the restore only
  lists files and then, unless it is a dry run, looks the new name up, and an archive is copied and imported
  only when that lookup, made right before, did not report a machine of the name. The copied archive is
  removed after every import, failed or not. When the import is found to be a template, the machine is
  installed from it under the new name and the template is removed, unless removing the archive raised an
  exception; when it is found to be a machine, it is renamed; when that could not be found out, what was
  imported stays as it is.
\<close>

theorem xcpng_never_overwrites:
  "phases lists_files (free_name E pl name dry) s (snd (xc_restore E pl source name options dry s))"
proof -
  have list: "steps (does (\<lambda>h. lists_files)) (ask (listing_reply E) (Glob source ''**''))"
    by (intro does_ask) (auto simp: lists_files_def)
  have go: "phases lists_files (free_name E pl name False) s
      (snd (bind_act (px_run E pl (name_script name) False) (\<lambda>(code, out, err).
          then_act (check (code \<noteq> 0 \<or> strip whitespace out = [])
            (RuntimeError (''VM '' @ repr_str name @ '' already exists; Immutavault refuses overwrite'')))
         (then_act (px_put E pl xva remote)
         (bind_act (import_machine E pl remote sr name) (\<lambda>uuid.
          ret [(''platform'', JStr (pl_name pl)), (''uuid'', JStr uuid), (''name'', JStr name)])))) s))"
    for xva remote sr s
    using restore_xva_trace [of E pl name xva remote sr s]
    by (elim exE conjE) (rule phases_change, assumption, unfold free_name_def, blast)
  show ?thesis
    unfolding xc_restore_def Let_def
    by (rule phases_bind [OF list], rule phases_then, rule does.steps_check)
      (cases dry, simp_all only: if_True if_False act_simps snd_conv phases_same go simp_thms)
qed

text \<open>A host where no machine has the name and the archive yields a template.\<close>

definition xen_host :: platform_config where
  "xen_host = default_platform ''xen'' ''xcpng'' ''xen1''"

definition xen_env :: env where
  "xen_env = sample_env\<lparr>listing_reply := (\<lambda>h c. Inr [(''/s/vm.xva'', 1)]),
     run_reply := (\<lambda>h c. Inr (0, if c = px_call sample_env xen_host (looks_up_name ''db'') then []
       else if c = px_call sample_env xen_host (vm_param ''u-1'' ''is-a-template'') then ''true'' else ''u-1'', []))\<rparr>"

definition xen_cleanup :: call where
  "xen_cleanup = px_call xen_env xen_host (drop_template_script ''u-1'')"

lemma xen_cleans: "xen_cleanup \<in> set (trace (snd (xc_restore xen_env xen_host ''/s'' ''db'' [] False sample_sys)))"
  by code_simp

theorem xcpng_never_overwrites_witness:
  "\<exists>pre post. trace (snd (xc_restore xen_env xen_host ''/s'' ''db'' [] False sample_sys)) = pre @ post \<and>
     xen_cleanup \<in> set post \<and> free_name xen_env xen_host ''db'' False pre post"
proof -
  obtain pre post where *: "trace (snd (xc_restore xen_env xen_host ''/s'' ''db'' [] False sample_sys)) = pre @ post"
    "list_all lists_files pre" "post = [] \<or> free_name xen_env xen_host ''db'' False pre post"
    using xcpng_never_overwrites [of xen_env xen_host "''db''" False sample_sys "''/s''" "[]"]
    by (auto simp: phases_def sample_sys_def)
  have "\<not> lists_files xen_cleanup" by (simp add: lists_files_def xen_cleanup_def px_call_def)
  then have "xen_cleanup \<in> set post" using xen_cleans *(1,2) by (auto simp: list_all_iff)
  with * show ?thesis by (intro exI [of _ pre] exI [of _ post]) auto
qed

end
