(* ===== verification/Vmware.thy ===== *)
theory Vmware
  imports Proxmox
begin

text \<open>
  The VMware adapter, \<open>adapters/vmware.py\<close>: every operation of the adapter interface as the \<open>govc\<close> commands
  it runs, with the credentials of its own platform. The lemmas show that a backup of a running machine
  destroys its temporary clone and removes the snapshot of the source however the export ends, and that
  an import is only made under a name that no machine was found to have.
\<close>

section \<open>Credentials\<close>

definition govc_options :: "(string \<times> string) list" where
  "govc_options =
     [(''tls_ca_certs'', ''GOVC_TLS_CA_CERTS''), (''tls_known_hosts'', ''GOVC_TLS_KNOWN_HOSTS''),
      (''datacenter'', ''GOVC_DATACENTER''), (''datastore'', ''GOVC_DATASTORE''), (''network'', ''GOVC_NETWORK''),
      (''resource_pool'', ''GOVC_RESOURCE_POOL''), (''host'', ''GOVC_HOST'')]"

definition bool_option :: "platform_config \<Rightarrow> string \<Rightarrow> bool \<Rightarrow> bool" where
  "bool_option pl key d = jtruthy (get_or (pl_options pl) key (JBool d))"

definition govc_env :: "env \<Rightarrow> platform_config \<Rightarrow> (string \<times> string) list res" where
  "govc_env E pl =
     (let opts = pl_options pl;
          username_env = py_str (get_or opts ''username_env'' (JStr ''GOVC_USERNAME''));
          password_env = py_str (get_or opts ''password_env'' (JStr ''GOVC_PASSWORD''));
          unset = (\<lambda>name. RuntimeError (name @ '' is not set for VMware platform '' @ pl_name pl))
      in check_res (opt_nonempty (getenv E username_env)) (unset username_env)
        (check_res (opt_nonempty (getenv E password_env)) (unset password_env)
          (Inr ([(''GOVC_URL'', pl_endpoint pl), (''GOVC_USERNAME'', the (getenv E username_env)),
              (''GOVC_PASSWORD'', the (getenv E password_env)),
              (''GOVC_INSECURE'', if bool_option pl ''insecure'' False then ''true'' else ''false'')] @
             List.map_filter (\<lambda>(key, name). case map_of opts key of
                 None \<Rightarrow> None
               | Some v \<Rightarrow> if v = JNull \<or> v = JStr [] then None else Some (name, py_str v)) govc_options))))"

definition govc :: "env \<Rightarrow> (string \<times> string) list \<Rightarrow> string list \<Rightarrow> bool \<Rightarrow> run_output act" where
  "govc E envs args chk = run_command E (''govc'' # args) envs chk"

definition govc_here :: "env \<Rightarrow> platform_config \<Rightarrow> string list \<Rightarrow> bool \<Rightarrow> run_output act" where
  "govc_here E pl args chk = bind_act (lift_res (govc_env E pl)) (\<lambda>envs. govc E envs args chk)"

section \<open>Checks and inventory\<close>

definition hot_modes :: "string list" where
  "hot_modes = [''hot-clone-export'', ''snapshot-clone-export'', ''hot'']"

definition export_modes :: "string list" where
  "export_modes = [''export'', ''cold-export'']"

definition policy_problems :: "platform_config \<Rightarrow> string list" where
  "policy_problems pl =
     (if bool_option pl ''insecure'' False
      then [''VMware TLS verification is disabled (options.insecure=true); use a trusted CA/known-hosts file for production'']
      else []) @
     (if bool_option pl ''application_consistency_strict'' False
      then (if \<not> bool_option pl ''quiesce'' True then [''application_consistency_strict requires options.quiesce=true''] else []) @
           (if bool_option pl ''quiesce_fallback_crash_consistent'' False
            then [''application_consistency_strict requires quiesce_fallback_crash_consistent=false''] else [])
      else [])"

definition vm_mode_problems :: "platform_config \<Rightarrow> string list" where
  "vm_mode_problems pl =
     (let mode = lower (pl_mode pl)
      in if List.member [''cbt'', ''vddk''] mode
         then [''VDDK/CBT transport is selected but no tested VDDK transport plugin is installed'']
         else if List.member export_modes mode
         then [''VMware cold OVF export requires protected VMs to be powered off; use mode=hot-clone-export for no planned VM power-off'']
         else if \<not> List.member hot_modes mode then [''unsupported VMware backup mode: '' @ pl_mode pl] else [])"

definition command_problems :: "env \<Rightarrow> (string \<times> string) list \<Rightarrow> string \<Rightarrow> string list act" where
  "command_problems E envs command =
     bind_act (govc E envs [command, ''-h''] False) (\<lambda>(code, out, err).
       ret (if code \<noteq> 0 then [''installed govc lacks required command/capability: '' @ command] else []))"

definition vm_doctor :: "env \<Rightarrow> platform_config \<Rightarrow> string list act" where
  "vm_doctor E pl =
     bind_act (ask (bool_reply E) (Probe ''govc'')) (\<lambda>found.
     if \<not> found then ret [''govc is not installed'']
     else case govc_env E pl of
       Inl e \<Rightarrow> ret [exc_msg e]
     | Inr envs \<Rightarrow>
         bind_act (each (command_problems E envs) [''snapshot.create'', ''vm.clone'', ''export.ovf'', ''import.ovf'']) (\<lambda>lacking.
         bind_act (govc E envs [''import.ovf'', ''-h''] False) (\<lambda>(code1, out1, err1).
         bind_act (govc E envs [''about'', ''-json''] False) (\<lambda>(code2, out2, err2).
         ret (policy_problems pl @ concat lacking @
           (if code1 = 0 \<and> \<not> contains ''-net'' (out1 @ err1)
            then [''installed govc import.ovf lacks -net mapping; upgrade govc before DR network remapping''] else []) @
           vm_mode_problems pl @
           (if code2 \<noteq> 0 then [''cannot reach VMware platform '' @ pl_name pl @ '': '' @ strip whitespace err2] else []))))))"

definition vm_platform_info :: "env \<Rightarrow> platform_config \<Rightarrow> (string \<times> json) list act" where
  "vm_platform_info E pl =
     bind_act (govc_here E pl [''about'', ''-json''] True) (\<lambda>(code, out, err).
     bind_act (lift_res (json_loads ''{}'' out)) (\<lambda>v.
     ret [(''name'', JStr (pl_name pl)), (''type'', JStr ''vmware''), (''endpoint'', JStr (pl_endpoint pl)), (''about'', v)]))"

definition vm_path :: "json \<Rightarrow> json" where
  "vm_path item = (case item of JObj kvs \<Rightarrow> get_or kvs ''path'' JNull | v \<Rightarrow> JStr (py_str v))"

text \<open>A machine of the listing; a path that is not a text has no \<open>rsplit\<close>.\<close>

definition vm_of :: "platform_config \<Rightarrow> json \<Rightarrow> vm option res" where
  "vm_of pl item =
     (let path = vm_path item
      in if \<not> jtruthy path then Inr None
         else (case path of
             JStr p \<Rightarrow> (let name = last (split_on (CHR ''/'') p)
               in Inr (if selected_vm pl name
                  then Some \<lparr>v_id = p, v_name = name, v_power_state = ''unknown'', v_kind = ''vmware''\<rparr> else None))
           | _ \<Rightarrow> Inl (OtherError ''object has no attribute rsplit'')))"

definition vm_inventory :: "env \<Rightarrow> platform_config \<Rightarrow> vm list act" where
  "vm_inventory E pl =
     bind_act (govc_here E pl [''find'', ''/'', ''-type'', ''m'', ''-json''] True) (\<lambda>(code, out, err).
     bind_act (lift_res (json_loads ''{}'' out)) (\<lambda>v.
     case v of
       JObj kvs \<Rightarrow>
         bind_act (lift_res (bind_res (px_rows (or_else (map_of kvs ''elements'') (JList []))) (map_res (vm_of pl)))) (\<lambda>vms.
           ret (List.map_filter id vms))
     | _ \<Rightarrow> throw (OtherError ''object has no attribute get'')))"

section \<open>Export\<close>

definition write_consistency :: "env \<Rightarrow> string \<Rightarrow> application_consistency \<Rightarrow> unit act" where
  "write_consistency E dir a =
     (let target = path_div dir CONSISTENCY_FILE; tmp = target @ ''.tmp''
      in then_act (ask (done_reply E) (MkDir dir))
        (then_act (ask (done_reply E) (WriteText tmp (dumps_indent True 0 (JObj (as_dict a)) @ [CHR 0x0A])))
        (then_act (ask (done_reply E) (Chmod tmp 384))
          (ask (done_reply E) (Rename tmp target)))))"

definition cold_consistency :: application_consistency where
  "cold_consistency =
     \<lparr>ac_state = ''powered-off-consistent'', ac_method = ''vmware-cold-export'', ac_requested = False, ac_strict = False,
      ac_provider_attested = False,
      ac_detail = Some ''source VM was required to be powered off; guest application hooks were not asserted''\<rparr>"

definition cold_export :: "env \<Rightarrow> platform_config \<Rightarrow> vm \<Rightarrow> string \<Rightarrow> string act" where
  "cold_export E pl v out =
     then_act (ask (done_reply E) (MkDir out))
    (bind_act (govc_here E pl [''export.ovf'', ''-vm'', v_id v, out] True) (\<lambda>r.
     then_act (write_consistency E out cold_consistency) (ret out)))"

text \<open>What a snapshot attests: quiesced, not quiesced by choice, or not quiesced as the configured fallback.\<close>

definition initial_consistency :: "bool \<Rightarrow> bool \<Rightarrow> application_consistency" where
  "initial_consistency quiesce strict =
     \<lparr>ac_state = (if quiesce then ''unattested'' else ''crash-consistent''), ac_method = ''vmware-snapshot'',
      ac_requested = quiesce, ac_strict = strict, ac_provider_attested = False,
      ac_detail = (if quiesce then None else Some ''guest quiescing was not requested'')\<rparr>"

definition quiesced_consistency :: "bool \<Rightarrow> application_consistency" where
  "quiesced_consistency strict =
     \<lparr>ac_state = ''guest-quiesced'', ac_method = ''vmware-tools-quiesced-snapshot'', ac_requested = True, ac_strict = strict,
      ac_provider_attested = True,
      ac_detail = Some (''VMware accepted a Tools-quiesced snapshot; application/VSS coverage depends on guest tooling and '' @
        ''workload integration'')\<rparr>"

definition fallback_consistency :: application_consistency where
  "fallback_consistency =
     \<lparr>ac_state = ''crash-consistent'', ac_method = ''vmware-snapshot-fallback'', ac_requested = True, ac_strict = False,
      ac_provider_attested = True,
      ac_detail = Some ''guest quiescing failed and explicitly configured crash-consistent fallback was used''\<rparr>"

definition snapshot_args :: "vm \<Rightarrow> bool \<Rightarrow> string \<Rightarrow> string \<Rightarrow> string list" where
  "snapshot_args v quiesce note snap =
     [''snapshot.create'', ''-vm'', v_id v, ''-m=false'', ''-q='' @ (if quiesce then ''true'' else ''false''), ''-d'', note, snap]"

definition snapshot_source ::
  "env \<Rightarrow> (string \<times> string) list \<Rightarrow> vm \<Rightarrow> bool \<Rightarrow> bool \<Rightarrow> bool \<Rightarrow> string \<Rightarrow> application_consistency act" where
  "snapshot_source E envs v quiesce fallback strict snap =
     (let failed = (\<lambda>err. RuntimeError (''VMware snapshot failed for '' @ v_name v @ '': '' @ strip whitespace err))
      in bind_act (govc E envs (snapshot_args v quiesce ''Immutavault point-in-time backup'' snap) False) (\<lambda>(code, out, err).
         if code = 0 then ret (if quiesce then quiesced_consistency strict else initial_consistency quiesce strict)
         else if quiesce \<and> fallback
         then bind_act (govc E envs (snapshot_args v False ''Immutavault crash-consistent point-in-time backup'' snap) False)
             (\<lambda>(code, out, err). then_act (check (code = 0) (failed err)) (ret fallback_consistency))
         else throw (failed err)))"

definition destroy_args :: "string \<Rightarrow> string list" where
  "destroy_args clone = [''vm.destroy'', clone]"

definition remove_args :: "vm \<Rightarrow> string \<Rightarrow> string list" where
  "remove_args v snap = [''snapshot.remove'', ''-vm'', v_id v, ''-c=true'', snap]"

text \<open>The \<open>finally\<close> block; \<open>active\<close> tells that an exception is on its way.\<close>

definition remove_snapshot :: "env \<Rightarrow> (string \<times> string) list \<Rightarrow> vm \<Rightarrow> string \<Rightarrow> bool \<Rightarrow> string list \<Rightarrow> unit act" where
  "remove_snapshot E envs v snap active clone_errors =
     bind_act (govc E envs (remove_args v snap) False) (\<lambda>(code, out, err).
     let errors = clone_errors @
          (if code \<noteq> 0 then [''source snapshot cleanup/consolidation failed: '' @ strip whitespace err] else [])
     in check (errors = [] \<or> active)
          (RuntimeError (''VMware backup exported data but cleanup requires operator attention: '' @ join ''; '' errors)))"

definition clean_up :: "env \<Rightarrow> (string \<times> string) list \<Rightarrow> vm \<Rightarrow> string \<Rightarrow> string \<Rightarrow> bool \<Rightarrow> bool \<Rightarrow> unit act" where
  "clean_up E envs v snap clone cloned active =
     bind_act (if cloned
       then bind_act (govc E envs (destroy_args clone) False) (\<lambda>(code, out, err).
         ret (if code \<noteq> 0 then [''temporary clone cleanup failed: '' @ strip whitespace err] else []))
       else ret []) (remove_snapshot E envs v snap active)"

definition clone_args :: "vm \<Rightarrow> string \<Rightarrow> string \<Rightarrow> string list" where
  "clone_args v snap clone = [''vm.clone'', ''-vm'', v_id v, ''-snapshot'', snap, ''-on=false'', clone]"

definition clone_and_export ::
  "env \<Rightarrow> (string \<times> string) list \<Rightarrow> vm \<Rightarrow> string \<Rightarrow> string \<Rightarrow> string \<Rightarrow> application_consistency \<Rightarrow> string act" where
  "clone_and_export E envs v out snap clone a =
     bind_act (attempt (govc E envs (clone_args v snap clone) True)) (\<lambda>r.
       case r of
         Inl e \<Rightarrow> finally_act (throw e) (clean_up E envs v snap clone False True)
       | Inr cloned \<Rightarrow>
           bind_act (attempt (then_act (govc E envs [''export.ovf'', ''-vm'', clone, out] True) (write_consistency E out a)))
             (\<lambda>q. finally_act (case q of Inl e \<Rightarrow> throw e | Inr u \<Rightarrow> ret out)
                (clean_up E envs v snap clone True (case q of Inl e \<Rightarrow> True | Inr u \<Rightarrow> False))))"

text \<open>\<open>uuid.uuid4().hex\<close> is the text that answers \<open>RandomBytes 16\<close>.\<close>

definition hot_export :: "env \<Rightarrow> platform_config \<Rightarrow> vm \<Rightarrow> string \<Rightarrow> string act" where
  "hot_export E pl v out =
     then_act (ask (done_reply E) (MkDir out))
    (bind_act (lift_res (govc_env E pl)) (\<lambda>envs.
     bind_act (ask (text_reply E) (RandomBytes 16)) (\<lambda>hex.
     let nonce = take 12 hex; snap = ''immutavault-'' @ nonce;
         clone = ''immutavault-'' @ take 48 (safe_component unnamed (v_name v)) @ ''-'' @ nonce;
         quiesce = bool_option pl ''quiesce'' True;
         fallback = bool_option pl ''quiesce_fallback_crash_consistent'' False;
         strict = bool_option pl ''application_consistency_strict'' False
     in then_act (check (\<not> (strict \<and> (\<not> quiesce \<or> fallback))) (RuntimeError
          ''application_consistency_strict requires quiesce=true and quiesce_fallback_crash_consistent=false''))
       (bind_act (snapshot_source E envs v quiesce fallback strict snap) (\<lambda>a.
        clone_and_export E envs v out snap clone a)))))"

definition vm_export :: "env \<Rightarrow> platform_config \<Rightarrow> vm \<Rightarrow> string \<Rightarrow> bool \<Rightarrow> string act" where
  "vm_export E pl v destination dry_run =
     (let out = path_div destination (safe_component unnamed (v_name v)); mode = lower (pl_mode pl)
      in if dry_run then ret out
         else if List.member [''cbt'', ''vddk''] mode
         then throw (RuntimeError
           ''VDDK/CBT mode requires a tested transport plugin; this build refuses to pretend OVF export is CBT'')
         else if List.member export_modes mode then cold_export E pl v out
         else if List.member hot_modes mode then hot_export E pl v out
         else throw (ValueError (''unsupported VMware backup mode: '' @ pl_mode pl)))"

section \<open>Restore\<close>

definition ovf_files :: "(string \<times> int) list \<Rightarrow> string list" where
  "ovf_files files =
     sort_key (split_on (CHR ''/'')) (filter (\<lambda>p. length (path_name p) \<ge> 4 \<and>
       drop (length (path_name p) - 4) (path_name p) = ''.ovf'') (map fst files))"

definition import_args :: "string \<Rightarrow> (string \<times> json) list \<Rightarrow> string \<Rightarrow> string list" where
  "import_args name options ovf =
     [''import.ovf'', ''-name'', name] @
     (if jtruthy (get_or options ''network'' JNull) then [''-net'', py_str (get_or options ''network'' JNull)] else []) @
     (if jtruthy (get_or options ''options_json'' JNull) then [''-options'', py_str (get_or options ''options_json'' JNull)] else []) @
     [ovf]"

definition find_args :: "string \<Rightarrow> string list" where
  "find_args name = [''find'', ''/'', ''-type'', ''m'', ''-name'', name]"

definition vm_restore ::
  "env \<Rightarrow> platform_config \<Rightarrow> string \<Rightarrow> string \<Rightarrow> (string \<times> json) list \<Rightarrow> bool \<Rightarrow> (string \<times> json) list act" where
  "vm_restore E pl source target_name options dry_run =
     bind_act (ask (listing_reply E) (Glob source ''**'')) (\<lambda>files.
     then_act (check (ovf_files files \<noteq> []) (RuntimeError ''no OVF descriptor found in VMware recovery point''))
    (let ovf = hd (ovf_files files); args = import_args target_name options ovf
     in if dry_run
        then ret [(''platform'', JStr (pl_name pl)), (''name'', JStr target_name), (''ovf'', JStr ovf),
          (''command'', errors_json (''govc'' # args))]
        else bind_act (lift_res (govc_env E pl)) (\<lambda>envs.
          bind_act (govc E envs (find_args target_name) False) (\<lambda>(code, out, err).
          then_act (check (code \<noteq> 0 \<or> strip whitespace out = [])
            (RuntimeError (''VM '' @ repr_str target_name @ '' already exists; Immutavault refuses overwrite'')))
         (then_act (govc E envs args True)
           (ret [(''platform'', JStr (pl_name pl)), (''name'', JStr target_name), (''source'', JStr ovf)]))))))"

section \<open>Power\<close>

definition vm_power ::
  "env \<Rightarrow> platform_config \<Rightarrow> string \<Rightarrow> bool \<Rightarrow> (string \<times> json) list \<Rightarrow> bool \<Rightarrow> (string \<times> json) list act" where
  "vm_power E pl state chk restored dry_run =
     (let name = text_or_empty restored ''name''; args = [''vm.power'', ''-'' @ state, name]
      in then_act (check (name \<noteq> []) (ValueError ''VMware restored result is missing name''))
        (then_act (when_act (\<not> dry_run) (bind_act (govc_here E pl args chk) (\<lambda>_. ret ())))
          (ret [(''platform'', JStr (pl_name pl)), (''name'', JStr name), (''power'', JStr state),
             (''command'', if dry_run then errors_json (''govc'' # args) else JNull)])))"

definition vm_power_on :: "env \<Rightarrow> platform_config \<Rightarrow> (string \<times> json) list \<Rightarrow> bool \<Rightarrow> (string \<times> json) list act" where
  "vm_power_on E pl restored dry_run = vm_power E pl ''on'' True restored dry_run"

definition vm_power_off :: "env \<Rightarrow> platform_config \<Rightarrow> (string \<times> json) list \<Rightarrow> bool \<Rightarrow> (string \<times> json) list act" where
  "vm_power_off E pl restored dry_run = vm_power E pl ''off'' False restored dry_run"

section \<open>Hot backups leave nothing behind\<close>

definition govc_call :: "(string \<times> string) list \<Rightarrow> string list \<Rightarrow> call" where
  "govc_call envs args = Run (''govc'' # args) envs"

definition succeeded :: "env \<Rightarrow> call list \<Rightarrow> call \<Rightarrow> bool" where
  "succeeded E h c \<longleftrightarrow> (\<exists>out err. run_reply E h c = Inr (0, out, err))"

text \<open>After a snapshot: a clone that was made is destroyed, and the snapshot is removed unless running the
  destroy command itself failed.\<close>

definition tidied :: "env \<Rightarrow> (string \<times> string) list \<Rightarrow> vm \<Rightarrow> string \<Rightarrow> string \<Rightarrow> call list \<Rightarrow> call list \<Rightarrow> bool" where
  "tidied E envs v snap clone h cs \<longleftrightarrow>
     (\<exists>ds. cs = govc_call envs (clone_args v snap clone) # ds \<and>
        (succeeded E h (govc_call envs (clone_args v snap clone)) \<longrightarrow> govc_call envs (destroy_args clone) \<in> set ds) \<and>
        (govc_call envs (remove_args v snap) \<in> set ds \<or>
         (\<exists>a b e. cs = a @ govc_call envs (destroy_args clone) # b \<and>
            run_reply E (h @ a) (govc_call envs (destroy_args clone)) = Inl e)))"

lemma govc_trace:
  "\<exists>r. govc E envs args chk s = (r, s\<lparr>trace := trace s @ [govc_call envs args]\<rparr>) \<and>
     (\<forall>e. run_reply E (trace s) (govc_call envs args) = Inl e \<longrightarrow> r = Inl e) \<and>
     (\<not> chk \<longrightarrow> r = run_reply E (trace s) (govc_call envs args)) \<and>
     (chk \<longrightarrow> ((\<exists>x. r = Inr x) \<longleftrightarrow> succeeded E (trace s) (govc_call envs args)))"
  by (cases "run_reply E (trace s) (govc_call envs args)")
    (auto simp: govc_def run_command_def bind_act_def ask_def govc_call_def succeeded_def split: if_splits)

lemma remove_snapshot_trace:
  "trace (snd (remove_snapshot E envs v snap active es s)) = trace s @ [govc_call envs (remove_args v snap)]"
proof -
  obtain q where "govc E envs (remove_args v snap) False s = (q, s\<lparr>trace := trace s @ [govc_call envs (remove_args v snap)]\<rparr>)"
    using govc_trace by blast
  then show ?thesis by (cases q) (auto simp: remove_snapshot_def bind_act_def check_def Let_def)
qed

lemma clean_up_trace:
  "\<exists>cs. trace (snd (clean_up E envs v snap clone cloned active s)) = trace s @ cs \<and>
     (cloned \<longrightarrow> (\<exists>b. cs = govc_call envs (destroy_args clone) # b)) \<and>
     (govc_call envs (remove_args v snap) \<in> set cs \<or>
      cloned \<and> (\<exists>e. run_reply E (trace s) (govc_call envs (destroy_args clone)) = Inl e))"
proof (cases cloned)
  case True
  let ?d = "govc_call envs (destroy_args clone)"
  obtain q where q: "govc E envs (destroy_args clone) False s = (q, s\<lparr>trace := trace s @ [?d]\<rparr>)"
    "q = run_reply E (trace s) ?d"
    using govc_trace [of E envs "destroy_args clone" False s] by blast
  show ?thesis
  proof (cases q)
    case (Inl e)
    then have "trace (snd (clean_up E envs v snap clone cloned active s)) = trace s @ [?d]"
      using q(1) by (simp add: clean_up_def bind_act_def True)
    with Inl q(2) True show ?thesis by auto
  next
    case (Inr x)
    obtain code out err where x: "x = (code, out, err)" by (cases x)
    have "trace (snd (clean_up E envs v snap clone cloned active s)) = trace s @ [?d, govc_call envs (remove_args v snap)]"
      using q(1) Inr x True by (simp add: clean_up_def bind_act_def remove_snapshot_trace)
    then show ?thesis by auto
  qed
qed (simp add: clean_up_def remove_snapshot_trace)

text \<open>Making no snapshot.\<close>

definition unsnapped :: "call list \<Rightarrow> call \<Rightarrow> bool" where
  "unsnapped h c \<longleftrightarrow> (\<forall>envs x. c \<noteq> govc_call envs (''snapshot.create'' # x))"

lemma unsnapped_ask: "(\<And>cmd envs. c \<noteq> Run cmd envs) \<Longrightarrow> steps (does unsnapped) (ask f c)"
  by (rule does_ask) (simp add: unsnapped_def govc_call_def)

lemma unsnapped_govc: "take 1 args \<noteq> [''snapshot.create''] \<Longrightarrow> steps (does unsnapped) (govc E envs args chk)"
  unfolding govc_def run_command_def
  by (intro does_rules does_ask) (auto simp: unsnapped_def govc_call_def)

lemma unsnapped_govc_here: "take 1 args \<noteq> [''snapshot.create''] \<Longrightarrow> steps (does unsnapped) (govc_here E pl args chk)"
  unfolding govc_here_def by (intro does_rules unsnapped_govc)

lemma unsnapped_write: "steps (does unsnapped) (write_consistency E out a)"
  unfolding write_consistency_def by (intro does_rules unsnapped_ask) simp_all

lemma unsnapped_clean: "steps (does unsnapped) (clean_up E envs v snap clone cloned active)"
  unfolding clean_up_def remove_snapshot_def by (intro does_rules unsnapped_govc) (simp_all add: destroy_args_def remove_args_def)

lemma unsnapped_clone: "steps (does unsnapped) (clone_and_export E envs v out snap clone a)"
  unfolding clone_and_export_def
  by (intro does_rules unsnapped_govc attempt_does unsnapped_write unsnapped_clean) (simp_all add: clone_args_def)

lemma unsnapped_cold: "steps (does unsnapped) (cold_export E pl v out)"
  unfolding cold_export_def by (intro does_rules unsnapped_ask unsnapped_govc_here unsnapped_write) simp_all

lemma clone_tidied:
  "\<exists>cs. trace (snd (clone_and_export E envs v out snap clone a s)) = trace s @ cs \<and>
     tidied E envs v snap clone (trace s) cs"
proof -
  let ?c = "govc_call envs (clone_args v snap clone)"
  let ?s = "s\<lparr>trace := trace s @ [?c]\<rparr>"
  obtain r where r: "govc E envs (clone_args v snap clone) True s = (r, ?s)"
    "(\<exists>x. r = Inr x) \<longleftrightarrow> succeeded E (trace s) ?c"
    using govc_trace [of E envs "clone_args v snap clone" True s] by blast
  show ?thesis
  proof (cases r)
    case (Inl e)
    obtain ds where ds: "trace (snd (clean_up E envs v snap clone False True ?s)) = trace ?s @ ds"
      "govc_call envs (remove_args v snap) \<in> set ds"
      using clean_up_trace [of E envs v snap clone False True ?s] by blast
    have "snd (clone_and_export E envs v out snap clone a s) = snd (clean_up E envs v snap clone False True ?s)"
      using r(1) Inl by (simp add: clone_and_export_def bind_act_def attempt_eq finally_trace)
    moreover have "\<not> succeeded E (trace s) ?c" using r(2) Inl by auto
    ultimately show ?thesis
      using ds by (intro exI [of _ "?c # ds"]) (simp add: tidied_def)
  next
    case (Inr x)
    let ?work = "then_act (govc E envs [''export.ovf'', ''-vm'', clone, out] True) (write_consistency E out a)"
    obtain q t where t: "attempt ?work ?s = (Inr q, t)" by (auto simp: attempt_eq)
    have "steps (does unsnapped) (attempt ?work)" by (intro attempt_does does_rules unsnapped_govc unsnapped_write) simp
    from stepsD [OF this t] obtain es where es: "trace t = trace ?s @ es" by (auto simp: does_def)
    let ?act = "case q of Inl e \<Rightarrow> True | Inr u \<Rightarrow> False"
    obtain b where b: "trace (snd (clean_up E envs v snap clone True ?act t)) = trace t @ govc_call envs (destroy_args clone) # b"
      "govc_call envs (remove_args v snap) \<in> set (govc_call envs (destroy_args clone) # b) \<or>
       (\<exists>e. run_reply E (trace t) (govc_call envs (destroy_args clone)) = Inl e)"
      using clean_up_trace [of E envs v snap clone True ?act t] by blast
    have "snd (clone_and_export E envs v out snap clone a s) = snd (clean_up E envs v snap clone True ?act t)"
    proof -
      have "clone_and_export E envs v out snap clone a s = finally_act (case q of Inl e \<Rightarrow> throw e | Inr u \<Rightarrow> ret out)
          (clean_up E envs v snap clone True ?act) t"
        unfolding clone_and_export_def using r(1) Inr t by (simp add: bind_act_def attempt_eq [of "govc E envs x y" for x y])
      then show ?thesis by (cases q) (simp_all add: finally_trace)
    qed
    moreover have "tidied E envs v snap clone (trace s) (?c # es @ govc_call envs (destroy_args clone) # b)"
      unfolding tidied_def
    proof (rule exI [of _ "es @ govc_call envs (destroy_args clone) # b"], intro conjI refl impI)
      show "govc_call envs (remove_args v snap) \<in> set (es @ govc_call envs (destroy_args clone) # b) \<or>
        (\<exists>a b' e. ?c # es @ govc_call envs (destroy_args clone) # b = a @ govc_call envs (destroy_args clone) # b' \<and>
           run_reply E (trace s @ a) (govc_call envs (destroy_args clone)) = Inl e)"
        using b(2)
      proof (elim disjE exE)
        fix e assume "run_reply E (trace t) (govc_call envs (destroy_args clone)) = Inl e"
        with es show ?thesis by (intro disjI2 exI [of _ "?c # es"] exI [of _ b] exI [of _ e]) simp
      qed auto
    qed simp
    ultimately show ?thesis
      using es b(1) by (intro exI [of _ "?c # es @ govc_call envs (destroy_args clone) # b"]) simp
  qed
qed

definition backup_tidy :: "env \<Rightarrow> vm \<Rightarrow> sys \<Rightarrow> sys \<Rightarrow> bool" where
  "backup_tidy E v s t \<longleftrightarrow> (\<exists>cs. trace t = trace s @ cs \<and>
     (\<forall>xs envs x ys. cs = xs @ govc_call envs (''snapshot.create'' # x) # ys \<longrightarrow>
        succeeded E (trace s @ xs) (govc_call envs (''snapshot.create'' # x)) \<longrightarrow>
        (\<exists>clone. tidied E envs v (last x) clone (trace s @ xs @ [govc_call envs (''snapshot.create'' # x)]) ys)))"

lemma tidy_unsnapped:
  assumes "does unsnapped s t"
  shows "backup_tidy E v s t"
proof -
  obtain cs where cs: "trace t = trace s @ cs" "calls_ok unsnapped (trace s) cs" using assms by (auto simp: does_def)
  have "cs \<noteq> xs @ govc_call envs (''snapshot.create'' # x) # ys" for xs envs x ys
    using cs(2) calls_ok_at [of unsnapped "trace s" xs "govc_call envs (''snapshot.create'' # x)" ys]
    by (auto simp: unsnapped_def)
  with cs(1) show ?thesis unfolding backup_tidy_def by blast
qed

lemma tidy_later:
  assumes "does unsnapped s t" "backup_tidy E v t u"
  shows "backup_tidy E v s u"
proof -
  obtain cs where cs: "trace t = trace s @ cs" "calls_ok unsnapped (trace s) cs" using assms(1) by (auto simp: does_def)
  obtain ds where ds: "trace u = trace t @ ds"
    "\<And>xs envs x ys. ds = xs @ govc_call envs (''snapshot.create'' # x) # ys \<Longrightarrow>
        succeeded E (trace t @ xs) (govc_call envs (''snapshot.create'' # x)) \<Longrightarrow>
        \<exists>clone. tidied E envs v (last x) clone (trace t @ xs @ [govc_call envs (''snapshot.create'' # x)]) ys"
    using assms(2) unfolding backup_tidy_def by blast
  have "\<exists>clone. tidied E envs v (last x) clone (trace s @ xs @ [govc_call envs (''snapshot.create'' # x)]) ys"
    if eq: "cs @ ds = xs @ govc_call envs (''snapshot.create'' # x) # ys"
      and ok: "succeeded E (trace s @ xs) (govc_call envs (''snapshot.create'' # x))" for xs envs x ys
    using append_split [OF eq]
  proof (elim disjE exE conjE)
    fix us assume "cs = xs @ govc_call envs (''snapshot.create'' # x) # us"
    with cs(2) calls_ok_at [of unsnapped "trace s" xs "govc_call envs (''snapshot.create'' # x)" us]
    show ?thesis by (auto simp: unsnapped_def)
  next
    fix us assume "xs = cs @ us" "ds = us @ govc_call envs (''snapshot.create'' # x) # ys"
    with ds(2) [of us envs x ys] ok cs(1) show ?thesis by simp
  qed
  with cs(1) ds(1) show ?thesis unfolding backup_tidy_def by (intro exI [of _ "cs @ ds"]) simp
qed

lemma tidy_bind:
  assumes "steps (does unsnapped) m" "\<And>x t. backup_tidy E v t (snd (f x t))"
  shows "backup_tidy E v s (snd (bind_act m f s))"
proof -
  obtain r t where m: "m s = (r, t)" by fastforce
  note pre = stepsD [OF assms(1) m]
  show ?thesis
    using m tidy_later [OF pre assms(2)] tidy_unsnapped [OF pre] by (cases r) (simp_all add: bind_act_def)
qed

lemma tidy_then:
  "steps (does unsnapped) m \<Longrightarrow> (\<And>t. backup_tidy E v t (snd (n t))) \<Longrightarrow> backup_tidy E v s (snd (then_act m n s))"
  unfolding then_act_def by (rule tidy_bind)

text \<open>A snapshot that was made and everything after it.\<close>

lemma tidy_snapshot:
  assumes "trace t = trace s @ [govc_call envs (''snapshot.create'' # x)]" "last x = snap"
  shows "backup_tidy E v s (snd (clone_and_export E envs v out snap clone a t))"
proof -
  obtain cs where cs: "trace (snd (clone_and_export E envs v out snap clone a t)) = trace t @ cs"
    "tidied E envs v snap clone (trace t) cs"
    using clone_tidied by blast
  have quiet: "calls_ok unsnapped (trace t) cs"
    using does.steps_at [OF unsnapped_clone [of E envs v out snap clone a], of t] cs(1) by (auto simp: does_def)
  have "xs = [] \<and> envs' = envs \<and> x' = x \<and> ys = cs"
    if "govc_call envs (''snapshot.create'' # x) # cs = xs @ govc_call envs' (''snapshot.create'' # x') # ys" for xs envs' x' ys
  proof (cases xs)
    case Nil
    with that show ?thesis by (auto simp: govc_call_def)
  next
    case (Cons y zs)
    with that quiet calls_ok_at [of unsnapped "trace t" zs "govc_call envs' (''snapshot.create'' # x')" ys]
    show ?thesis by (auto simp: unsnapped_def)
  qed
  with cs assms show ?thesis
    unfolding backup_tidy_def
    by (intro exI [of _ "govc_call envs (''snapshot.create'' # x) # cs"]) fastforce
qed

lemma snapshot_args_eq: "snapshot_args v q words snap = ''snapshot.create'' # tl (snapshot_args v q words snap)"
  "last (tl (snapshot_args v q words snap)) = snap"
  by (simp_all add: snapshot_args_def)

lemma tidy_failed:
  assumes "trace t = trace s @ [govc_call envs args]" "\<not> succeeded E (trace s) (govc_call envs args)" "backup_tidy E v t u"
  shows "backup_tidy E v s u"
proof -
  obtain ds where ds: "trace u = trace t @ ds"
    "\<And>xs envs x ys. ds = xs @ govc_call envs (''snapshot.create'' # x) # ys \<Longrightarrow>
        succeeded E (trace t @ xs) (govc_call envs (''snapshot.create'' # x)) \<Longrightarrow>
        \<exists>clone. tidied E envs v (last x) clone (trace t @ xs @ [govc_call envs (''snapshot.create'' # x)]) ys"
    using assms(3) unfolding backup_tidy_def by blast
  have "\<exists>clone. tidied E envs' v (last x) clone (trace s @ xs @ [govc_call envs' (''snapshot.create'' # x)]) ys"
    if eq: "govc_call envs args # ds = xs @ govc_call envs' (''snapshot.create'' # x) # ys"
      and ok: "succeeded E (trace s @ xs) (govc_call envs' (''snapshot.create'' # x))" for xs envs' x ys
  proof (cases xs)
    case Nil
    with eq ok assms(2) show ?thesis by simp
  next
    case (Cons y zs)
    with eq ok ds(2) [of zs envs' x ys] assms(1) show ?thesis by simp
  qed
  with ds(1) assms(1) show ?thesis
    unfolding backup_tidy_def by (intro exI [of _ "govc_call envs args # ds"]) simp
qed

lemma tidy_same: "backup_tidy E v s s"
  by (rule tidy_unsnapped) (rule does.R_refl)

lemma hot_tidy:
  "backup_tidy E v s (snd (bind_act (snapshot_source E envs v quiesce fallback strict snap)
     (\<lambda>a. clone_and_export E envs v out snap clone a) s))"
proof -
  let ?args = "\<lambda>q words. snapshot_args v q words snap"
  have made: "backup_tidy E v s (snd (clone_and_export E envs v out snap clone a t))"
    if "trace t = trace s @ [govc_call envs (?args q words)]" for a s t q words
  proof (rule tidy_snapshot)
    show "trace t = trace s @ [govc_call envs (''snapshot.create'' # tl (?args q words))]"
      using that snapshot_args_eq(1) [of v q words snap] by simp
  qed (rule snapshot_args_eq)
  let ?n1 = "''Immutavault point-in-time backup''" and ?n2 = "''Immutavault crash-consistent point-in-time backup''"
  let ?c1 = "govc_call envs (?args quiesce ?n1)" and ?c2 = "govc_call envs (?args False ?n2)"
  let ?s1 = "s\<lparr>trace := trace s @ [?c1]\<rparr>"
  let ?s2 = "?s1\<lparr>trace := trace ?s1 @ [?c2]\<rparr>"
  have c1: "govc E envs (?args quiesce ?n1) False s = (run_reply E (trace s) ?c1, ?s1)"
    using govc_trace [of E envs "?args quiesce ?n1" False s] by auto
  have c2: "govc E envs (?args False ?n2) False ?s1 = (run_reply E (trace ?s1) ?c2, ?s2)"
    using govc_trace [of E envs "?args False ?n2" False ?s1] by auto
  have lost: "backup_tidy E v s ?s1" if "\<not> succeeded E (trace s) ?c1"
    by (rule tidy_failed [OF _ that tidy_same]) simp
  have lost2: "backup_tidy E v s ?s2" if "\<not> succeeded E (trace s) ?c1" "\<not> succeeded E (trace ?s1) ?c2"
  proof -
    have "backup_tidy E v ?s1 ?s2" by (rule tidy_failed [OF _ that(2) tidy_same]) simp
    then show ?thesis by (rule tidy_failed [OF _ that(1), rotated]) simp
  qed
  have second: "backup_tidy E v s (snd (clone_and_export E envs v out snap clone a ?s2))"
    if "\<not> succeeded E (trace s) ?c1" for a
  proof -
    have "backup_tidy E v ?s1 (snd (clone_and_export E envs v out snap clone a ?s2))" by (rule made) simp
    then show ?thesis by (rule tidy_failed [OF _ that, rotated]) simp
  qed
  have first: "backup_tidy E v s (snd (clone_and_export E envs v out snap clone a ?s1))" for a
    by (rule made) simp
  show ?thesis
  proof (cases "run_reply E (trace s) ?c1")
    case (Inl e)
    then have "\<not> succeeded E (trace s) ?c1" by (simp add: succeeded_def)
    with lost c1 Inl show ?thesis by (simp add: snapshot_source_def bind_act_def)
  next
    case (Inr x)
    obtain code o1 e1 where x: "x = (code, o1, e1)" by (cases x)
    show ?thesis
    proof (cases "code = 0")
      case True
      with first c1 Inr x show ?thesis by (simp add: snapshot_source_def bind_act_def)
    next
      case False
      then have no: "\<not> succeeded E (trace s) ?c1" using Inr x by (simp add: succeeded_def)
      show ?thesis
      proof (cases "quiesce \<and> fallback")
        case False
        with lost [OF no] c1 Inr x \<open>code \<noteq> 0\<close> show ?thesis by (auto simp: snapshot_source_def bind_act_def)
      next
        case True
        show ?thesis
        proof (cases "run_reply E (trace ?s1) ?c2")
          case (Inl e)
          then have "\<not> succeeded E (trace ?s1) ?c2" by (simp add: succeeded_def)
          with lost2 [OF no] c1 c2 Inl Inr x True \<open>code \<noteq> 0\<close> show ?thesis
            by (simp add: snapshot_source_def bind_act_def)
        next
          case (Inr y)
          obtain code2 o2 e2 where y: "y = (code2, o2, e2)" by (cases y)
          have "\<not> succeeded E (trace ?s1) ?c2" if "code2 \<noteq> 0" using Inr y that by (simp add: succeeded_def)
          with lost2 [OF no] second [OF no] c1 c2 Inr \<open>run_reply E (trace s) ?c1 = Inr x\<close> x y True \<open>code \<noteq> 0\<close>
          show ?thesis by (cases "code2 = 0") (simp_all add: snapshot_source_def bind_act_def)
        qed
      qed
    qed
  qed
qed

text \<open>
  C11. A hot backup leaves nothing behind on the source. In any run of \<open>VMwareAdapter.export\<close>, every
  snapshot that was made is followed by making a clone of it; a clone that was made is destroyed; and the
  snapshot is removed, whatever failed in between, unless the command that destroys the clone could not
  even be run.
\<close>

theorem hot_backup_tidy:
  "backup_tidy E v s (snd (vm_export E pl v destination dry s))"
proof -
  have hot: "backup_tidy E v s (snd (hot_export E pl v out s))" for out
    unfolding hot_export_def Let_def
  proof (rule tidy_then)
    show "steps (does unsnapped) (ask (done_reply E) (MkDir out))" by (intro unsnapped_ask) simp
  next
    fix t
    show "backup_tidy E v t (snd (bind_act (lift_res (govc_env E pl)) (\<lambda>envs.
        bind_act (ask (text_reply E) (RandomBytes 16)) (\<lambda>hex.
        then_act (check (\<not> (bool_option pl ''application_consistency_strict'' False \<and>
            (\<not> bool_option pl ''quiesce'' True \<or> bool_option pl ''quiesce_fallback_crash_consistent'' False)))
          (RuntimeError ''application_consistency_strict requires quiesce=true and quiesce_fallback_crash_consistent=false''))
        (bind_act (snapshot_source E envs v (bool_option pl ''quiesce'' True)
            (bool_option pl ''quiesce_fallback_crash_consistent'' False)
            (bool_option pl ''application_consistency_strict'' False) (''immutavault-'' @ take 12 hex))
          (clone_and_export E envs v out (''immutavault-'' @ take 12 hex)
            (''immutavault-'' @ take 48 (safe_component unnamed (v_name v)) @ ''-'' @ take 12 hex))))) t))"
      by (rule tidy_bind [OF does_lift], rule tidy_bind, rule unsnapped_ask, simp, rule tidy_then, rule does.steps_check,
        rule hot_tidy)
  qed
  have rest: "backup_tidy E v s (snd (m s))" if "steps (does unsnapped) m" for m :: "string act"
    by (rule tidy_unsnapped) (rule does.steps_at [OF that])
  show ?thesis
    unfolding vm_export_def Let_def by (simp add: hot rest unsnapped_cold tidy_same)
qed

end
