(* ===== verification/Incremental.thy ===== *)
theory Incremental
  imports Vmware
begin

text \<open>
  Incremental VMware backups: \<open>VDDKProvider\<close> of \<open>incremental.py\<close>, which talks JSON to an external helper,
  and \<open>VMwareIncrementalAdapter\<close> of \<open>adapters/vmware_incremental.py\<close>, which decides when a failure of the
  helper may be replaced by a full export. The lemmas show that it fails closed: a full export is only made
  after a failure that is declared safe and known, and never under the strict policy; and that the checkpoint
  on which the next increment builds is only advanced after all checks have passed.
  Features of the helper that are not all texts are rejected (Python would sort numbers among themselves),
  and an answer to a restore that is a list of pairs is rejected, where \<open>dict\<close> would convert it.
\<close>

section \<open>The helper\<close>

definition default_helper :: string where
  "default_helper = ''immutavault-vddk''"

definition checkpoint_file :: string where
  "checkpoint_file = ''.immutavault-cbt-checkpoint.json''"

definition transport_file :: string where
  "transport_file = ''.immutavault-transport.json''"

definition layout_file :: string where
  "layout_file = ''immutavault-vddk-layout.json''"

text \<open>What an \<open>IncrementalTransportError\<close> carries; here it is a result, so that its callers can tell it apart.\<close>

record transport_failure =
  tf_message :: string
  tf_reason :: string
  tf_safe :: bool

definition helper_name :: "(string \<times> json) list \<Rightarrow> string" where
  "helper_name options = py_str (or_else (map_of options ''vddk_helper'') (JStr default_helper))"

definition resolved_helper :: "env \<Rightarrow> string \<Rightarrow> string option act" where
  "resolved_helper E helper =
     (if List.member helper (CHR ''/'')
      then bind_act (ask (bool_reply E) (IsFile (norm_path helper))) (\<lambda>isfile.
        bind_act (if isfile then ask (bool_reply E) (Executable (norm_path helper)) else ret False) (\<lambda>executable.
          ret (if executable then Some (norm_path helper) else None)))
      else bind_act (ask (texts_reply E) (Which helper)) (\<lambda>found.
        ret (case found of [] \<Rightarrow> None | path # _ \<Rightarrow> Some path)))"

definition feature_texts :: "json \<Rightarrow> string list res" where
  "feature_texts v =
     bind_res (px_rows v) (map_res (\<lambda>x. case x of JStr s \<Rightarrow> Inr s | _ \<Rightarrow> Inl (TypeError ''unorderable features'')))"

definition required_abilities :: "string list" where
  "required_abilities = [''cbt'', ''backup'', ''restore'']"

definition offered :: "string \<Rightarrow> (string \<times> json) list \<Rightarrow> (string \<times> json) list res" where
  "offered helper payload =
     bind_res (feature_texts (or_else (map_of payload ''features'') (JList []))) (\<lambda>features.
     bind_res (py_int (or_else (map_of payload ''protocol_version'') (JInt 0))) (\<lambda>protocol.
     let available = protocol = 1 \<and> list_all (List.member features) required_abilities
     in Inr [(''available'', JBool available),
        (''reason'', if available then JNull else JStr ''missing_required_capability''),
        (''helper'', JStr helper), (''protocol_version'', JInt protocol),
        (''features'', JList (map JStr (sort (remdups features)))),
        (''provider'', get_or payload ''provider'' (JStr ''vddk'')),
        (''provider_version'', get_or payload ''provider_version'' JNull),
        (''transport_modes'', or_else (map_of payload ''transport_modes'') (JList []))]))"

text \<open>\<open>payload.get\<close> on whatever JSON value the helper printed.\<close>

definition payload_of :: "json \<Rightarrow> (string \<times> json) list res" where
  "payload_of v = (case v of JObj kvs \<Rightarrow> Inr kvs | _ \<Rightarrow> Inl (OtherError ''object has no attribute get''))"

text \<open>What the helper printed; a text that is not JSON counts as an empty object.\<close>

definition answer :: "string \<Rightarrow> (string \<times> json) list res" where
  "answer out =
     payload_of (case loads (if out = [] then ''{}'' else out) of None \<Rightarrow> JObj [] | Some v \<Rightarrow> v)"

definition first_line :: "string \<Rightarrow> string \<Rightarrow> string" where
  "first_line err out = (if strip whitespace err \<noteq> [] then strip whitespace err else strip whitespace out)"

definition capabilities :: "env \<Rightarrow> (string \<times> json) list \<Rightarrow> (string \<times> string) list \<Rightarrow> (string \<times> json) list act" where
  "capabilities E options envs =
     bind_act (resolved_helper E (helper_name options)) (\<lambda>found.
     case found of
       None \<Rightarrow> ret [(''available'', JBool False), (''reason'', JStr ''helper_missing''), (''helper'', JStr (helper_name options))]
     | Some helper \<Rightarrow>
         bind_act (run_command E [helper, ''capabilities'', ''--json''] envs False) (\<lambda>(code, out, err).
         if code \<noteq> 0
         then ret [(''available'', JBool False), (''reason'', JStr ''capability_probe_failed''), (''helper'', JStr helper),
           (''error'', JStr (first_line err out))]
         else case loads (if out = [] then ''{}'' else out) of
           None \<Rightarrow> ret [(''available'', JBool False), (''reason'', JStr ''invalid_capability_json''), (''helper'', JStr helper)]
         | Some v \<Rightarrow> lift_res (bind_res (payload_of v) (offered helper))))"

definition available :: "(string \<times> json) list \<Rightarrow> bool" where
  "available caps \<longleftrightarrow> jtruthy (get_or caps ''available'' JNull)"

definition secure_dir :: "env \<Rightarrow> string \<Rightarrow> unit act" where
  "secure_dir E path = then_act (ask (done_reply E) (MkDir path)) (ask (done_reply E) (Chmod path 448))"

definition read_checkpoint :: "env \<Rightarrow> string \<Rightarrow> json act" where
  "read_checkpoint E dir =
     (let file = path_div dir checkpoint_file
      in bind_act (ask (bool_reply E) (IsFile file)) (\<lambda>isfile.
         if \<not> isfile then ret JNull
         else catch (bind_act (ask (text_reply E) (ReadText file)) (\<lambda>t.
             ret (case loads t of Some (JObj kvs) \<Rightarrow> JObj kvs | _ \<Rightarrow> JNull)))
           (\<lambda>e. if os_error e then ret JNull else throw e)))"

definition write_json_atomic :: "env \<Rightarrow> string \<Rightarrow> string \<Rightarrow> json \<Rightarrow> unit act" where
  "write_json_atomic E dir name v =
     (let path = path_div dir name; tmp = path @ ''.tmp''
      in then_act (secure_dir E dir)
        (then_act (ask (done_reply E) (WriteText tmp (dumps_indent True 0 v @ [CHR 0x0A])))
        (then_act (ask (done_reply E) (Chmod tmp 384)) (ask (done_reply E) (Rename tmp path)))))"

section \<open>Backup\<close>

definition backup_call :: "string \<Rightarrow> (string \<times> string) list \<Rightarrow> (string \<times> json) list \<Rightarrow> call" where
  "backup_call helper envs request = RunInput [helper, ''backup'', ''--json''] envs (dumps_plain (JObj request))"

definition backup_request ::
  "platform_config \<Rightarrow> vm \<Rightarrow> string \<Rightarrow> json \<Rightarrow> (string \<times> json) list res" where
  "backup_request pl v destination previous =
     (let options = pl_options pl
      in bind_res (py_int (or_else (map_of options ''incremental_block_size'') (JInt (128 * 1024 * 1024)))) (\<lambda>block.
         bind_res (px_rows (or_else (map_of options ''vddk_transport_order'')
           (JList [JStr ''san'', JStr ''hotadd'', JStr ''nbdssl'']))) (\<lambda>order.
         Inr [(''protocol_version'', JInt 1), (''operation'', JStr ''backup''), (''platform'', JStr (pl_name pl)),
           (''endpoint'', JStr (pl_endpoint pl)), (''vm_id'', JStr (v_id v)), (''vm_name'', JStr (v_name v)),
           (''destination'', JStr destination), (''previous_checkpoint'', previous), (''block_size'', JInt block),
           (''transport_order'', JList order), (''quiesce'', JBool (bool_option pl ''quiesce'' True)),
           (''application_consistency_strict'', JBool (bool_option pl ''application_consistency_strict'' False))])))"

definition reported_failure :: "(string \<times> json) list \<Rightarrow> string \<Rightarrow> string \<Rightarrow> transport_failure" where
  "reported_failure payload out err =
     (let reason = py_str (or_else (map_of payload ''reason'') (JStr ''provider_error''))
      in \<lparr>tf_message = py_str (or_else (map_of payload ''error'')
            (JStr (if first_line err out \<noteq> [] then first_line err out else reason))),
          tf_reason = reason, tf_safe = jtruthy (get_or payload ''fallback_safe'' (JBool False))\<rparr>)"

definition answered_success :: "int \<Rightarrow> (string \<times> json) list \<Rightarrow> bool" where
  "answered_success code payload \<longleftrightarrow> code = 0 \<and> map_of payload ''status'' = Some (JStr ''success'')"

definition attested :: "platform_config \<Rightarrow> (string \<times> json) list \<Rightarrow> application_consistency" where
  "attested pl payload =
     normalize_provider_consistency (get_or payload ''consistency'' JNull) (bool_option pl ''quiesce'' True)
       (bool_option pl ''application_consistency_strict'' False)"

definition quiescence_proven :: "platform_config \<Rightarrow> (string \<times> json) list \<Rightarrow> bool" where
  "quiescence_proven pl payload \<longleftrightarrow>
     \<not> (bool_option pl ''application_consistency_strict'' False \<and> bool_option pl ''quiesce'' True \<and>
        \<not> application_consistent (attested pl payload))"

definition transport_record :: "platform_config \<Rightarrow> (string \<times> json) list \<Rightarrow> json \<Rightarrow> (string \<times> json) list res" where
  "transport_record pl payload checkpoint =
     bind_res (py_int (or_else (map_of payload ''changed_bytes'') (JInt 0))) (\<lambda>changed.
     bind_res (py_int (or_else (map_of payload ''source_bytes_read'') (JInt 0))) (\<lambda>bytes_read.
     Inr [(''version'', JInt 1), (''provider'', JStr ''vddk-cbt''),
       (''mode'', JStr (py_str (or_else (map_of payload ''mode'') (JStr ''incremental'')))),
       (''changed_bytes'', JInt changed), (''source_bytes_read'', JInt bytes_read),
       (''transport'', get_or payload ''transport'' JNull), (''checkpoint'', checkpoint),
       (''consistency'', JObj (as_dict (attested pl payload)))]))"

text \<open>Everything that follows a successful answer of the helper.\<close>

definition accept_backup ::
  "env \<Rightarrow> platform_config \<Rightarrow> string \<Rightarrow> (string \<times> json) list \<Rightarrow> (transport_failure + (string \<times> json) list) act" where
  "accept_backup E pl destination payload =
     (let failed = (\<lambda>message reason. ret (Inl \<lparr>tf_message = message, tf_reason = reason, tf_safe = False\<rparr>))
      in if \<not> quiescence_proven pl payload
         then failed (''VDDK provider reported backup success without proving application/guest quiescence; '' @
           ''strict application consistency fails closed'') ''application_consistency_unproven''
         else bind_act (ask (bool_reply E) (IsFile (path_div destination layout_file))) (\<lambda>layout.
           if \<not> layout
           then failed (''VDDK provider reported success but did not create '' @ layout_file) ''missing_layout''
           else (case map_of payload ''checkpoint'' of
               Some (JObj (c # cs)) \<Rightarrow>
                 then_act (write_json_atomic E destination checkpoint_file (JObj (c # cs)))
                (then_act (write_consistency E destination (attested pl payload))
                (bind_act (lift_res (transport_record pl payload (JObj (c # cs)))) (\<lambda>transport.
                 then_act (write_json_atomic E destination transport_file (JObj transport))
                   (ret (Inr transport)))))
             | _ \<Rightarrow> failed ''VDDK provider did not return a valid per-disk CBT checkpoint'' ''missing_checkpoint'')))"

definition judge_answer ::
  "env \<Rightarrow> platform_config \<Rightarrow> string \<Rightarrow> run_output \<Rightarrow> (transport_failure + (string \<times> json) list) act" where
  "judge_answer E pl destination = (\<lambda>(code, out, err).
     bind_act (lift_res (answer out)) (\<lambda>payload.
     if \<not> answered_success code payload then ret (Inl (reported_failure payload out err))
     else accept_backup E pl destination payload))"

definition vddk_backup ::
  "env \<Rightarrow> platform_config \<Rightarrow> (string \<times> string) list \<Rightarrow> vm \<Rightarrow> string \<Rightarrow>
   (transport_failure + (string \<times> json) list) act" where
  "vddk_backup E pl envs v destination =
     bind_act (capabilities E (pl_options pl) envs) (\<lambda>caps.
     if \<not> available caps
     then ret (Inl \<lparr>tf_message = ''VDDK/CBT provider unavailable: '' @ py_str (get_or caps ''reason'' JNull),
        tf_reason = py_str (or_else (map_of caps ''reason'') (JStr ''provider_unavailable'')), tf_safe = False\<rparr>)
     else then_act (secure_dir E destination)
       (bind_act (read_checkpoint E destination) (\<lambda>previous.
        bind_act (lift_res (backup_request pl v destination previous)) (\<lambda>request.
        bind_act (ask (run_reply E) (backup_call (py_str (get_or caps ''helper'' JNull)) envs request))
          (judge_answer E pl destination)))))"

definition vddk_restore ::
  "env \<Rightarrow> (string \<times> json) list \<Rightarrow> (string \<times> string) list \<Rightarrow> string \<Rightarrow> string \<Rightarrow> (string \<times> json) list \<Rightarrow>
   (string \<times> json) list act" where
  "vddk_restore E popts envs source target_name options =
     bind_act (capabilities E popts envs) (\<lambda>caps.
     then_act (check (available caps) (RuntimeError
       ''this recovery point uses VDDK/CBT block layout, but the authorized VDDK provider is unavailable''))
    (bind_act (ask (bool_reply E) (IsFile (path_div source layout_file))) (\<lambda>layout.
     then_act (check layout (RuntimeError (''incremental recovery layout is missing: '' @ path_div source layout_file)))
    (bind_act (ask (run_reply E) (RunInput [py_str (get_or caps ''helper'' JNull), ''restore'', ''--json''] envs
       (dumps_plain (JObj [(''protocol_version'', JInt 1), (''operation'', JStr ''restore''), (''source'', JStr source),
          (''target_name'', JStr target_name), (''options'', JObj options)])))) (\<lambda>(code, out, err).
     bind_act (lift_res (answer out)) (\<lambda>payload.
     then_act (check (answered_success code payload) (RuntimeError (py_str (or_else (map_of payload ''error'')
        (JStr (if first_line err out \<noteq> [] then first_line err out else ''VDDK restore failed''))))))
    (bind_act (lift_res (case or_else (map_of payload ''result'') (JObj []) of
        JObj kvs \<Rightarrow> Inr kvs | _ \<Rightarrow> Inl (TypeError ''cannot convert the result to a dictionary''))) (\<lambda>restored.
     ret (setdefault ''transport'' (JStr ''vddk-cbt'') (setdefault ''name'' (JStr target_name) restored))))))))))"

section \<open>The adapter\<close>

definition incremental_modes :: "string list" where
  "incremental_modes = [''auto'', ''cbt'', ''vddk'', ''vddk-cbt'']"

definition safe_capability_reasons :: "string list" where
  "safe_capability_reasons = [''helper_missing'', ''missing_required_capability'']"

definition safe_provider_reasons :: "string list" where
  "safe_provider_reasons =
     [''cbt_disabled'', ''cbt_uninitialized'', ''cbt_not_supported'', ''cbt_invalid'', ''change_id_reset'',
      ''invalid_change_id'', ''unsupported_disk'', ''baseline_required'']"

definition incremental_fallback_allowed :: "bool \<Rightarrow> bool \<Rightarrow> string \<Rightarrow> bool \<Rightarrow> bool \<Rightarrow> bool" where
  "incremental_fallback_allowed strict configured reason safe capability_stage =
     (if strict \<or> \<not> configured \<or> \<not> safe then False
      else List.member (if capability_stage then safe_capability_reasons else safe_provider_reasons) reason)"

definition incremental_mode :: "platform_config \<Rightarrow> bool" where
  "incremental_mode pl = List.member incremental_modes (lower (pl_mode pl))"

definition strict_mode :: "platform_config \<Rightarrow> bool" where
  "strict_mode pl = bool_option pl ''incremental_strict'' False"

definition fallback_configured :: "platform_config \<Rightarrow> bool" where
  "fallback_configured pl = bool_option pl ''incremental_fallback'' True"

definition caps_reason :: "(string \<times> json) list \<Rightarrow> string" where
  "caps_reason caps = py_str (or_else (map_of caps ''reason'') (JStr ''provider_state_ambiguous''))"

definition capability_fallback :: "platform_config \<Rightarrow> (string \<times> json) list \<Rightarrow> bool" where
  "capability_fallback pl caps =
     incremental_fallback_allowed (strict_mode pl) (fallback_configured pl) (caps_reason caps) True True"

definition failure_reason :: "transport_failure \<Rightarrow> string" where
  "failure_reason f = (if tf_reason f = [] then ''provider_state_ambiguous'' else tf_reason f)"

definition provider_fallback :: "platform_config \<Rightarrow> transport_failure \<Rightarrow> bool" where
  "provider_fallback pl f =
     incremental_fallback_allowed (strict_mode pl) (fallback_configured pl) (failure_reason f) (tf_safe f) False"

definition fallback_platform :: "platform_config \<Rightarrow> platform_config" where
  "fallback_platform pl = pl\<lparr>pl_mode := ''hot-clone-export''\<rparr>"

definition cache_parent :: "platform_config \<Rightarrow> string" where
  "cache_parent pl =
     path_div (norm_path (py_str (or_else (map_of (pl_options pl) ''incremental_cache_root'')
       (JStr ''/var/cache/immutavault/vddk'')))) (safe_component unnamed (pl_name pl))"

definition cache_root :: "platform_config \<Rightarrow> vm \<Rightarrow> string" where
  "cache_root pl v = path_div (cache_parent pl) (safe_component unnamed (v_name v))"

text \<open>A hard-linked view of the cache: directories are made, files are linked, or copied where linking fails.\<close>

definition link_entry :: "env \<Rightarrow> string \<Rightarrow> string \<Rightarrow> string \<Rightarrow> unit act" where
  "link_entry E cache target src =
     (let dst = path_div target (drop (length cache + 1) src)
      in bind_act (ask (bool_reply E) (IsDir src)) (\<lambda>isdir.
         if isdir then secure_dir E dst
         else bind_act (ask (bool_reply E) (IsFile src)) (\<lambda>isfile.
           when_act isfile
             (then_act (ask (done_reply E) (MkDir (path_parent dst)))
               (catch (ask (done_reply E) (Link src dst))
                 (\<lambda>e. if os_error e then ask (done_reply E) (CopyFile src dst) else throw e))))))"

definition snapshot_view :: "env \<Rightarrow> string \<Rightarrow> string \<Rightarrow> unit act" where
  "snapshot_view E cache target =
     then_act (rmtree E target)
    (then_act (secure_dir E target)
    (bind_act (ask (listing_reply E) (Glob cache ''**'')) (\<lambda>entries.
     bind_act (each (link_entry E cache target) (sort_key (split_on (CHR ''/'')) (map fst entries))) (\<lambda>_. ret ()))))"

definition full_fallback :: "env \<Rightarrow> platform_config \<Rightarrow> vm \<Rightarrow> string \<Rightarrow> string \<Rightarrow> string \<Rightarrow> bool \<Rightarrow> string act" where
  "full_fallback E pl v destination reason error cache_invalidated =
     bind_act (vm_export E (fallback_platform pl) v destination False) (\<lambda>out.
     let marker = path_div out transport_file
     in then_act (ask (done_reply E) (WriteText marker (dumps_indent True 0 (JObj
          [(''version'', JInt 1), (''provider'', JStr ''hot-clone-export''), (''mode'', JStr ''fallback-full''),
           (''fallback_reason'', JStr reason), (''fallback_error'', JStr error),
           (''native_cache_invalidated'', JBool cache_invalidated), (''incremental_strict'', JBool False)]) @ [CHR 0x0A])))
       (then_act (ask (done_reply E) (Chmod marker 384)) (ret out)))"

definition inc_doctor :: "env \<Rightarrow> platform_config \<Rightarrow> string list act" where
  "inc_doctor E pl =
     (if \<not> incremental_mode pl then vm_doctor E pl
      else bind_act (vm_doctor E (fallback_platform pl)) (\<lambda>problems.
        bind_act (catch (bind_act (bind_act (lift_res (govc_env E pl)) (capabilities E (pl_options pl))) (\<lambda>caps. ret (Inr caps)))
          (\<lambda>e. case e of RuntimeError m \<Rightarrow> ret (Inl m) | _ \<Rightarrow> throw e)) (\<lambda>r.
        ret (problems @ (case r of
            Inl m \<Rightarrow> [m]
          | Inr caps \<Rightarrow>
              (if available caps \<or> capability_fallback pl caps then []
               else if strict_mode pl
               then [''native VMware incremental strict mode is enabled; provider is unavailable and no fallback is permitted: '' @
                 caps_reason caps]
               else [''native VMware incremental provider state is unsafe or ambiguous; automatic fallback is denied: '' @
                 caps_reason caps]))))))"

definition inc_platform_info :: "env \<Rightarrow> platform_config \<Rightarrow> (string \<times> json) list act" where
  "inc_platform_info E pl =
     bind_act (vm_platform_info E pl) (\<lambda>info.
     if incremental_mode pl
     then bind_act (catch (bind_act (lift_res (govc_env E pl)) (capabilities E (pl_options pl)))
         (\<lambda>e. ret [(''available'', JBool False), (''reason'', JStr (exc_msg e))])) (\<lambda>caps.
       ret (put_key ''backup_transport'' (JObj [(''requested'', JStr (pl_mode pl)),
         (''incremental_strict'', JBool (strict_mode pl)), (''native_incremental'', JObj caps),
         (''fallback'', if \<not> available caps \<and> capability_fallback pl caps then JStr ''hot-clone-export'' else JNull)]) info))
     else ret (put_key ''backup_transport'' (JObj [(''requested'', JStr (pl_mode pl)),
         (''native_incremental'', JObj [(''available'', JBool False)])]) info))"

definition closed_because :: "platform_config \<Rightarrow> string \<Rightarrow> string" where
  "closed_because pl state = (if strict_mode pl then ''incremental_strict=true'' else ''unsafe/ambiguous '' @ state)"

text \<open>The helper cannot be used at all.\<close>

definition without_helper :: "env \<Rightarrow> platform_config \<Rightarrow> vm \<Rightarrow> string \<Rightarrow> bool \<Rightarrow> (string \<times> json) list \<Rightarrow> string act" where
  "without_helper E pl v destination dry_run caps =
     (let reason = caps_reason caps; policy = closed_because pl ''provider capability state''
      in if dry_run \<and> capability_fallback pl caps then vm_export E (fallback_platform pl) v destination True
         else if dry_run
         then throw (RuntimeError (''native VMware incremental backup would fail closed ('' @ policy @ ''); reason='' @ reason @
           ''; no fallback permitted''))
         else if \<not> capability_fallback pl caps
         then throw (RuntimeError (''native VMware incremental backup failed closed ('' @ policy @ ''); reason='' @ reason @
           ''; no fallback was attempted''))
         else full_fallback E pl v destination reason (py_str (or_else (map_of caps ''error'') (JStr reason))) False)"

text \<open>The helper ran; \<open>r\<close> is what it and the view of its cache came to.\<close>

definition settle_backup ::
  "env \<Rightarrow> platform_config \<Rightarrow> vm \<Rightarrow> string \<Rightarrow> string \<Rightarrow> exc + (transport_failure + unit) \<Rightarrow> string act" where
  "settle_backup E pl v destination target r =
     (case r of
        Inr (Inr u) \<Rightarrow> ret target
      | Inr (Inl f) \<Rightarrow>
          then_act (rmtree E (cache_root pl v))
            (if \<not> provider_fallback pl f
             then throw (RuntimeError (''native VMware incremental backup failed closed ('' @ closed_because pl ''provider state'' @
               ''); reason='' @ failure_reason f @ ''; no fallback was attempted: '' @ tf_message f))
             else full_fallback E pl v destination (tf_reason f) (tf_message f) True)
      | Inl e \<Rightarrow>
          then_act (rmtree E (cache_root pl v))
            (throw (RuntimeError (''native VMware incremental provider failed ambiguously; backup failed closed and no fallback '' @
              ''was attempted: '' @ exc_msg e))))"

definition native_backup ::
  "env \<Rightarrow> platform_config \<Rightarrow> (string \<times> string) list \<Rightarrow> vm \<Rightarrow> string \<Rightarrow> (transport_failure + unit) act" where
  "native_backup E pl envs v target =
     bind_act (vddk_backup E pl envs v (cache_root pl v)) (\<lambda>r.
     case r of Inl f \<Rightarrow> ret (Inl f) | Inr transport \<Rightarrow> then_act (snapshot_view E (cache_root pl v) target) (ret (Inr ())))"

definition inc_export :: "env \<Rightarrow> platform_config \<Rightarrow> vm \<Rightarrow> string \<Rightarrow> bool \<Rightarrow> string act" where
  "inc_export E pl v destination dry_run =
     (if \<not> incremental_mode pl then vm_export E pl v destination dry_run
      else let target = path_div destination (safe_component unnamed (v_name v))
      in bind_act (lift_res (govc_env E pl)) (\<lambda>envs.
         bind_act (capabilities E (pl_options pl) envs) (\<lambda>caps.
         if \<not> available caps then without_helper E pl v destination dry_run caps
         else if dry_run then ret target
         else then_act (secure_dir E (cache_parent pl))
           (bind_act (attempt (native_backup E pl envs v target)) (settle_backup E pl v destination target)))))"

definition layouts_in :: "(string \<times> int) list \<Rightarrow> string list" where
  "layouts_in files = sort_key (split_on (CHR ''/'')) (filter (\<lambda>p. path_name p = layout_file) (map fst files))"

definition inc_restore ::
  "env \<Rightarrow> platform_config \<Rightarrow> string \<Rightarrow> string \<Rightarrow> (string \<times> json) list \<Rightarrow> bool \<Rightarrow> (string \<times> json) list act" where
  "inc_restore E pl source target_name options dry_run =
     bind_act (ask (listing_reply E) (Glob source ''**'')) (\<lambda>files.
     if layouts_in files = [] then vm_restore E pl source target_name options dry_run
     else let layout_root = path_parent (hd (layouts_in files))
     in bind_act (lift_res (govc_env E pl)) (\<lambda>envs.
        bind_act (govc E envs (find_args target_name) False) (\<lambda>(code, out, err).
        then_act (check (code \<noteq> 0 \<or> strip whitespace out = [])
          (RuntimeError (''VM '' @ repr_str target_name @ '' already exists; Immutavault refuses overwrite'')))
       (if dry_run
        then ret [(''platform'', JStr (pl_name pl)), (''name'', JStr target_name), (''source'', JStr layout_root),
          (''transport'', JStr ''vddk-cbt''), (''dry_run'', JBool True)]
        else bind_act (vddk_restore E (pl_options pl) envs layout_root target_name options) (\<lambda>result.
          ret (setdefault ''source'' (JStr layout_root) (setdefault ''platform'' (JStr (pl_name pl)) result)))))))"

section \<open>A full export is a last resort\<close>

definition full_export_call :: "call \<Rightarrow> bool" where
  "full_export_call c \<longleftrightarrow>
     (case c of
        Run (program # command # args) envs \<Rightarrow>
          program = ''govc'' \<and> List.member [''snapshot.create'', ''vm.clone'', ''export.ovf''] command
      | _ \<Rightarrow> False)"

text \<open>The helper said nothing was touched: it is missing or lacks a capability.\<close>

definition helper_unusable :: "env \<Rightarrow> platform_config \<Rightarrow> sys \<Rightarrow> bool" where
  "helper_unusable E pl s \<longleftrightarrow>
     (case govc_env E pl of
        Inl e \<Rightarrow> False
      | Inr envs \<Rightarrow>
          (case fst (capabilities E (pl_options pl) envs s) of
             Inl e \<Rightarrow> False
           | Inr caps \<Rightarrow> \<not> available caps \<and> List.member safe_capability_reasons (caps_reason caps)))"

text \<open>The helper was run, refused for a known reason that it calls safe, and its cache was removed after that.\<close>

definition declared_safe :: "env \<Rightarrow> platform_config \<Rightarrow> vm \<Rightarrow> call list \<Rightarrow> call list \<Rightarrow> bool" where
  "declared_safe E pl v h xs \<longleftrightarrow>
     (\<exists>as helper envs request bs code out err payload.
        xs = as @ backup_call helper envs request # bs \<and>
        run_reply E (h @ as) (backup_call helper envs request) = Inr (code, out, err) \<and>
        answer out = Inr payload \<and> \<not> answered_success code payload \<and>
        jtruthy (get_or payload ''fallback_safe'' (JBool False)) \<and>
        List.member safe_provider_reasons (py_str (or_else (map_of payload ''reason'') (JStr ''provider_error''))) \<and>
        RmTree (cache_root pl v) \<in> set bs)"

definition quiet :: "call list \<Rightarrow> call \<Rightarrow> bool" where
  "quiet h c \<longleftrightarrow> \<not> full_export_call c \<and> (\<forall>cmd envs input. c \<noteq> RunInput cmd envs input) \<and>
     (\<forall>p q. c \<noteq> Rename p q) \<and> (\<forall>p txt. c \<noteq> WriteText p txt)"

lemma quiet_ask:
  "(case c of Run cmd envs \<Rightarrow> False | RunInput cmd envs i \<Rightarrow> False | Rename p q \<Rightarrow> False | WriteText p t \<Rightarrow> False | _ \<Rightarrow> True) \<Longrightarrow>
   steps (does quiet) (ask f c)"
  by (rule does_ask) (auto simp: quiet_def full_export_call_def split: call.splits)

lemma quiet_helper: "steps (does quiet) (resolved_helper E helper)"
  unfolding resolved_helper_def by (intro does_rules quiet_ask) (auto intro: does.steps_ret split: list.split)

lemma quiet_probe: "steps (does quiet) (run_command E [helper, ''capabilities'', ''--json''] envs chk)"
  unfolding run_command_def by (intro does_rules does_ask) (simp_all add: quiet_def full_export_call_def)

lemma quiet_capabilities: "steps (does quiet) (capabilities E options envs)"
  unfolding capabilities_def by (intro does_rules quiet_helper quiet_probe) 

lemma quiet_secure: "steps (does quiet) (secure_dir E dir)"
  unfolding secure_dir_def by (intro does_rules quiet_ask) simp_all

lemma quiet_read: "steps (does quiet) (read_checkpoint E dir)"
  unfolding read_checkpoint_def by (intro does_rules quiet_ask) simp_all

lemma quiet_rmtree: "steps (does quiet) (rmtree E dir)"
  unfolding rmtree_def by (intro does_rules quiet_ask) simp_all

lemma quiet_link: "steps (does quiet) (link_entry E cache target src)"
  unfolding link_entry_def by (intro does_rules quiet_ask quiet_secure) simp_all

lemma quiet_view: "steps (does quiet) (snapshot_view E cache target)"
  unfolding snapshot_view_def by (intro does_rules quiet_ask quiet_rmtree quiet_secure quiet_link) simp_all

text \<open>Up to the request nothing is published; then the helper is asked and its answer is judged.\<close>

lemma backup_run:
  assumes "vddk_backup E pl envs v dest s = (r, t)"
  shows "does quiet s t \<and> (\<forall>f. r = Inr (Inl f) \<longrightarrow> \<not> tf_safe f) \<and> (\<forall>x. r \<noteq> Inr (Inr x)) \<or>
    (\<exists>u helper request. does quiet s u \<and>
       bind_act (ask (run_reply E) (backup_call helper envs request)) (judge_answer E pl dest) u = (r, t))"
proof -
  obtain c t1 where c: "capabilities E (pl_options pl) envs s = (c, t1)" by fastforce
  note q1 = stepsD [OF quiet_capabilities c]
  show ?thesis
  proof (cases c)
    case (Inl e)
    with assms c q1 show ?thesis by (auto simp: vddk_backup_def bind_act_def)
  next
    case (Inr caps)
    show ?thesis
    proof (cases "available caps")
      case False
      with assms c Inr q1 show ?thesis by (auto simp: vddk_backup_def bind_act_def)
    next
      case True
      let ?prepare = "then_act (secure_dir E dest) (bind_act (read_checkpoint E dest) (\<lambda>previous.
        lift_res (backup_request pl v dest previous)))"
      obtain q t2 where q: "?prepare t1 = (q, t2)" by fastforce
      have "steps (does quiet) ?prepare" by (intro does_rules quiet_secure quiet_read)
      from does.R_trans [OF q1 stepsD [OF this q]] have q2: "does quiet s t2" .
      have "vddk_backup E pl envs v dest s = bind_act ?prepare (\<lambda>request.
          bind_act (ask (run_reply E) (backup_call (py_str (get_or caps ''helper'' JNull)) envs request))
            (judge_answer E pl dest)) t1"
        using c Inr True by (simp add: vddk_backup_def bind_act_def then_act_def split: prod.split sum.split)
      with assms q q2 show ?thesis by (cases q) (auto simp: bind_act_def)
    qed
  qed
qed

lemma accept_unsafe: "accept_backup E pl dest payload s = (Inr (Inl f), t) \<Longrightarrow> \<not> tf_safe f"
  unfolding accept_backup_def Let_def
  by (auto simp: run_Inr split: if_splits option.splits json.splits list.splits)

lemma judged_failure:
  assumes "bind_act (ask (run_reply E) c) (judge_answer E pl dest) u = (Inr (Inl f), t)" "tf_safe f"
  shows "\<exists>code out err payload. trace t = trace u @ [c] \<and> run_reply E (trace u) c = Inr (code, out, err) \<and>
    answer out = Inr payload \<and> \<not> answered_success code payload \<and> f = reported_failure payload out err"
proof -
  from assms(1) obtain x w where x: "ask (run_reply E) c u = (Inr x, w)" "judge_answer E pl dest x w = (Inr (Inl f), t)"
    by (auto simp: bind_Inr)
  obtain code out err where o: "x = (code, out, err)" by (cases x)
  obtain payload where p: "answer out = Inr payload"
    "(if \<not> answered_success code payload then ret (Inl (reported_failure payload out err))
      else accept_backup E pl dest payload) w = (Inr (Inl f), t)"
    using x(2) by (auto simp: judge_answer_def o run_Inr)
  with accept_unsafe assms(2) have "\<not> answered_success code payload" by auto
  with x(1) o p show ?thesis by (auto simp: ask_def)
qed

lemma native_failure:
  assumes "native_backup E pl envs v target s = (Inr (Inl f), t)" "tf_safe f"
  shows "\<exists>as helper request code out err payload.
    trace t = trace s @ as @ [backup_call helper envs request] \<and>
    run_reply E (trace s @ as) (backup_call helper envs request) = Inr (code, out, err) \<and>
    answer out = Inr payload \<and> \<not> answered_success code payload \<and> f = reported_failure payload out err"
proof -
  from assms(1) have "vddk_backup E pl envs v (cache_root pl v) s = (Inr (Inl f), t)"
    unfolding native_backup_def bind_Inr
  proof (elim exE conjE)
    fix x u assume "vddk_backup E pl envs v (cache_root pl v) s = (Inr x, u)"
      "(case x of Inl f \<Rightarrow> ret (Inl f) | Inr transport \<Rightarrow> then_act (snapshot_view E (cache_root pl v) target) (ret (Inr ()))) u =
        (Inr (Inl f), t)"
    then show ?thesis by (cases x) (auto simp: run_Inr)
  qed
  from backup_run [OF this] assms(2) obtain u helper request where u: "does quiet s u"
    "bind_act (ask (run_reply E) (backup_call helper envs request)) (judge_answer E pl (cache_root pl v)) u = (Inr (Inl f), t)"
    by auto
  from u(1) obtain as where "trace u = trace s @ as" by (auto simp: does_def)
  with judged_failure [OF u(2) assms(2)] show ?thesis by (metis append.assoc)
qed

text \<open>What allows a full export from the state \<open>s\<close> on.\<close>

definition licensed :: "env \<Rightarrow> platform_config \<Rightarrow> vm \<Rightarrow> bool \<Rightarrow> sys \<Rightarrow> call list \<Rightarrow> bool" where
  "licensed E pl v dry_run s h \<longleftrightarrow>
     \<not> dry_run \<and> \<not> strict_mode pl \<and> fallback_configured pl \<and>
     (helper_unusable E pl s \<or> (\<exists>xs. h = trace s @ xs \<and> declared_safe E pl v (trace s) xs))"

definition full_licensed :: "env \<Rightarrow> platform_config \<Rightarrow> vm \<Rightarrow> bool \<Rightarrow> sys \<Rightarrow> call list \<Rightarrow> call \<Rightarrow> bool" where
  "full_licensed E pl v dry_run s h c \<longleftrightarrow> (full_export_call c \<longrightarrow> licensed E pl v dry_run s h)"

lemma licensed_later: "licensed E pl v dry s h \<Longrightarrow> licensed E pl v dry s (h @ cs)"
  unfolding licensed_def declared_safe_def by (elim conjE disjE exE) fastforce+

lemma quiet_licensed: "steps (does quiet) m \<Longrightarrow> steps (does (full_licensed E pl v dry s)) m"
  by (erule steps_mono) (simp add: quiet_def full_licensed_def)

text \<open>Any calls may follow a license.\<close>

lemma licensed_run:
  assumes "licensed E pl v dry s (trace u)" "steps (does (\<lambda>h c. True)) m"
  shows "does (full_licensed E pl v dry s) u (snd (m u))"
proof -
  obtain cs where cs: "trace (snd (m u)) = trace u @ cs"
    using assms(2) by (auto simp: steps_def does_def)
  moreover have "calls_ok (full_licensed E pl v dry s) (trace u) cs"
    using licensed_later [OF assms(1)] by (auto simp: calls_ok_def full_licensed_def)
  ultimately show ?thesis by (auto simp: does_def)
qed

lemma runs_export: "steps (does (\<lambda>h c. True)) (vm_export E pl v dest dry)"
  unfolding vm_export_def hot_export_def cold_export_def snapshot_source_def clone_and_export_def clean_up_def
    remove_snapshot_def write_consistency_def govc_here_def govc_def run_command_def Let_def
  by (intro does_rules attempt_does does_ask TrueI)

lemma runs_fallback: "steps (does (\<lambda>h c. True)) (full_fallback E pl v dest reason error cache)"
  unfolding full_fallback_def Let_def by (intro does_rules does_ask runs_export TrueI)

lemma dry_export: "steps (does quiet) (vm_export E pl v dest True)"
  by (simp add: vm_export_def Let_def does.steps_ret)

text \<open>Accepting an answer neither exports nor asks the helper again.\<close>

definition harmless :: "call list \<Rightarrow> call \<Rightarrow> bool" where
  "harmless h c \<longleftrightarrow> \<not> full_export_call c \<and> (\<forall>cmd envs input. c \<noteq> RunInput cmd envs input)"

lemma quiet_harmless: "steps (does quiet) m \<Longrightarrow> steps (does harmless) m"
  by (erule steps_mono) (simp add: quiet_def harmless_def)

lemma harmless_ask: "(\<And>cmd envs. c \<noteq> Run cmd envs) \<Longrightarrow> (\<And>cmd envs i. c \<noteq> RunInput cmd envs i) \<Longrightarrow> steps (does harmless) (ask f c)"
  by (rule does_ask) (auto simp: harmless_def full_export_call_def split: call.splits)

lemma harmless_json: "steps (does harmless) (write_json_atomic E d n j)"
  unfolding write_json_atomic_def Let_def by (intro does_rules quiet_harmless [OF quiet_secure] harmless_ask) simp_all

lemma harmless_consistency: "steps (does harmless) (write_consistency E d a)"
  unfolding write_consistency_def Let_def by (intro does_rules harmless_ask) simp_all

lemma harmless_accept: "steps (does harmless) (accept_backup E pl d payload)"
  unfolding accept_backup_def Let_def
  by (intro does_rules harmless_ask)
    (auto intro!: does_rules harmless_json harmless_consistency split: option.split json.split list.split)

lemma harmless_judge: "steps (does harmless) (judge_answer E pl d x)"
  unfolding judge_answer_def by (intro does_rules harmless_accept)

lemma backup_exports_nothing:
  "steps (does (\<lambda>h c. \<not> full_export_call c)) (native_backup E pl envs v target)"
proof -
  have mild: "steps (does (\<lambda>h c. \<not> full_export_call c)) m" if "steps (does harmless) m" for m :: "'b act"
    using that by (rule steps_mono) (simp add: harmless_def)
  note calm = mild [OF quiet_harmless]
  have "steps (does (\<lambda>h c. \<not> full_export_call c)) (vddk_backup E pl envs v d)" for d
    unfolding vddk_backup_def
    by (intro does_rules calm [OF quiet_capabilities] calm [OF quiet_secure] calm [OF quiet_read] does_ask mild [OF harmless_judge])
      (simp_all add: full_export_call_def backup_call_def)
  then show ?thesis
    unfolding native_backup_def by (intro does_rules calm [OF quiet_view])
qed

lemma fallback_licensed:
  assumes "govc_env E pl = Inr envs" "capabilities E (pl_options pl) envs s = (Inr caps, u)" "\<not> available caps"
    "capability_fallback pl caps"
  shows "licensed E pl v False s h"
  using assms by (auto simp: licensed_def helper_unusable_def capability_fallback_def incremental_fallback_allowed_def split: if_splits)

lemma without_helper_licensed:
  assumes "govc_env E pl = Inr envs" "capabilities E (pl_options pl) envs s = (Inr caps, u)" "\<not> available caps"
  shows "does (full_licensed E pl v dry s) u (snd (without_helper E pl v dest dry caps u))"
proof -
  have "does (full_licensed E pl v False s) u (snd (full_fallback E pl v dest a b False u))" if "capability_fallback pl caps" for a b
    by (rule licensed_run [OF fallback_licensed [OF assms that] runs_fallback])
  moreover have "does (full_licensed E pl v dry s) u (snd (vm_export E (fallback_platform pl) v dest True u))"
    by (rule does.steps_at [OF quiet_licensed [OF dry_export]])
  ultimately show ?thesis by (cases dry) (auto simp: without_helper_def Let_def does.R_refl)
qed

lemma then_rmtree: "then_act (rmtree E d) m z = m (z\<lparr>trace := trace z @ [RmTree d]\<rparr>)"
  by (auto simp: rmtree_def ask_ignore_def catch_def ask_def then_act_def bind_act_def split: sum.split)

lemma declared_safeI:
  assumes "run_reply E (h @ as) (backup_call helper envs request) = Inr (code, out, err)"
    "answer out = Inr payload" "\<not> answered_success code payload"
    "jtruthy (get_or payload ''fallback_safe'' (JBool False))"
    "List.member safe_provider_reasons (py_str (or_else (map_of payload ''reason'') (JStr ''provider_error'')))"
    "RmTree (cache_root pl v) \<in> set bs"
  shows "declared_safe E pl v h (as @ backup_call helper envs request # bs)"
  using assms unfolding declared_safe_def by blast

lemma settled_licensed:
  assumes "native_backup E pl envs v target u = (r, w)" "trace u = trace s @ as"
  shows "does (full_licensed E pl v False s) w (snd (settle_backup E pl v dest target r w))"
proof -
  let ?Q = "full_licensed E pl v False s"
  have gone: "does ?Q x (snd (rmtree E d x))" for x d by (rule does.steps_at [OF quiet_licensed [OF quiet_rmtree]])
  show ?thesis
  proof (cases "\<exists>f. r = Inr (Inl f) \<and> provider_fallback pl f")
    case False
    then show ?thesis
      by (auto simp: settle_backup_def does.R_refl split: sum.split intro!: does.then_at gone)
  next
    case True
    then obtain f where f: "r = Inr (Inl f)" "provider_fallback pl f" by blast
    then have safe: "tf_safe f" "\<not> strict_mode pl" "fallback_configured pl" "List.member safe_provider_reasons (failure_reason f)"
      by (auto simp: provider_fallback_def incremental_fallback_allowed_def split: if_splits)
    then have reason: "failure_reason f = tf_reason f" by (auto simp: failure_reason_def safe_provider_reasons_def split: if_splits)
    obtain bs helper request code out err payload where run: "trace w = trace u @ bs @ [backup_call helper envs request]"
      "run_reply E (trace u @ bs) (backup_call helper envs request) = Inr (code, out, err)"
      "answer out = Inr payload" "\<not> answered_success code payload" "f = reported_failure payload out err"
      using native_failure [OF assms(1) [unfolded f(1)] safe(1)] by blast
    let ?w = "w\<lparr>trace := trace w @ [RmTree (cache_root pl v)]\<rparr>"
    have "declared_safe E pl v (trace s) ((as @ bs) @ backup_call helper envs request # [RmTree (cache_root pl v)])"
      using run safe(1,4) reason assms(2) by (intro declared_safeI) (simp_all add: reported_failure_def Let_def)
    with safe run(1) assms(2) have "licensed E pl v False s (trace ?w)" by (auto simp: licensed_def)
    from licensed_run [OF this runs_fallback]
    have full: "does ?Q ?w (snd (full_fallback E (pl) v dest a b True ?w))" for a b .
    have "does ?Q w ?w" by (auto simp: does_def full_licensed_def full_export_call_def)
    with full f show ?thesis by (auto simp: settle_backup_def then_rmtree intro: does.R_trans)
  qed
qed

lemma export_licensed:
  assumes "incremental_mode pl"
  shows "does (full_licensed E pl v dry s) s (snd (inc_export E pl v dest dry s))"
proof (cases "govc_env E pl")
  case (Inl e)
  with assms show ?thesis by (simp add: inc_export_def Let_def bind_act_def lift_res_def does.R_refl)
next
  case (Inr envs)
  let ?Q = "full_licensed E pl v dry s"
  let ?target = "path_div dest (safe_component unnamed (v_name v))"
  have "does ?Q s (snd (bind_act (capabilities E (pl_options pl) envs) (\<lambda>caps.
         if \<not> available caps then without_helper E pl v dest dry caps
         else if dry then ret ?target
         else then_act (secure_dir E (cache_parent pl))
           (bind_act (attempt (native_backup E pl envs v ?target)) (settle_backup E pl v dest ?target))) s))"
  proof (rule does.bind_at)
    show "does ?Q s (snd (capabilities E (pl_options pl) envs s))"
      by (rule does.steps_at [OF quiet_licensed [OF quiet_capabilities]])
  next
    fix caps u assume caps: "capabilities E (pl_options pl) envs s = (Inr caps, u)"
    from stepsD [OF quiet_capabilities caps] obtain as where as: "trace u = trace s @ as" by (auto simp: does_def)
    have native: "does ?Q u (snd (then_act (secure_dir E (cache_parent pl))
      (bind_act (attempt (native_backup E pl envs v ?target)) (settle_backup E pl v dest ?target)) u))" if "\<not> dry"
    proof (rule does.then_at)
      show "does ?Q u (snd (secure_dir E (cache_parent pl) u))"
        by (rule does.steps_at [OF quiet_licensed [OF quiet_secure]])
    next
      fix x w assume "secure_dir E (cache_parent pl) u = (Inr x, w)"
      from stepsD [OF quiet_secure this] as obtain bs where bs: "trace w = trace s @ bs" by (auto simp: does_def)
      obtain r z where r: "native_backup E pl envs v ?target w = (r, z)" by fastforce
      have "does ?Q w z"
        using stepsD [OF steps_mono [OF backup_exports_nothing] r] by (simp add: full_licensed_def)
      moreover have "does ?Q z (snd (settle_backup E pl v dest ?target r z))"
        using settled_licensed [OF r bs] that by simp
      ultimately show "does ?Q w (snd (bind_act (attempt (native_backup E pl envs v ?target)) (settle_backup E pl v dest ?target) w))"
        using r by (auto simp: attempt_eq bind_act_def intro: does.R_trans)
    qed
    then show "does ?Q u (snd ((if \<not> available caps then without_helper E pl v dest dry caps
         else if dry then ret ?target
         else then_act (secure_dir E (cache_parent pl))
           (bind_act (attempt (native_backup E pl envs v ?target)) (settle_backup E pl v dest ?target))) u))"
      using without_helper_licensed [OF Inr caps] by (auto simp: does.R_refl)
  qed
  with assms Inr show ?thesis by (simp add: inc_export_def Let_def then_lift)
qed

section \<open>The checkpoint advances last\<close>

text \<open>The answer to \<open>c\<close> passes every check, and brings the checkpoint \<open>cp\<close>.\<close>

definition accepted_answer ::
  "env \<Rightarrow> platform_config \<Rightarrow> string \<Rightarrow> call list \<Rightarrow> call \<Rightarrow> (string \<times> json) list \<Rightarrow> bool" where
  "accepted_answer E pl dest h c cp \<longleftrightarrow>
     (\<exists>out err payload. run_reply E h c = Inr (0, out, err) \<and> answer out = Inr payload \<and>
        map_of payload ''status'' = Some (JStr ''success'') \<and> quiescence_proven pl payload \<and>
        bool_reply E (h @ [c]) (IsFile (path_div dest layout_file)) = Inr True \<and>
        map_of payload ''checkpoint'' = Some (JObj cp) \<and> cp \<noteq> [])"

definition proven :: "env \<Rightarrow> platform_config \<Rightarrow> (string \<times> string) list \<Rightarrow> string \<Rightarrow> call list \<Rightarrow> call list \<Rightarrow> (string \<times> json) list \<Rightarrow> bool" where
  "proven E pl envs dest h xs cp \<longleftrightarrow>
     (\<exists>as helper request bs. xs = as @ backup_call helper envs request # IsFile (path_div dest layout_file) # bs \<and>
        accepted_answer E pl dest (h @ as) (backup_call helper envs request) cp)"

text \<open>Only the checkpoint of the answer is written as the new checkpoint.\<close>

definition proper :: "string \<Rightarrow> (string \<times> json) list \<Rightarrow> call list \<Rightarrow> call \<Rightarrow> bool" where
  "proper dest cp h c \<longleftrightarrow>
     (\<forall>txt. c = WriteText (path_div dest checkpoint_file @ ''.tmp'') txt \<longrightarrow> txt = dumps_indent True 0 (JObj cp) @ [CHR 0x0A])"

definition publishes :: "call \<Rightarrow> bool" where
  "publishes c \<longleftrightarrow> (case c of WriteText p txt \<Rightarrow> True | Rename p q \<Rightarrow> True | _ \<Rightarrow> False)"

definition publish_proven ::
  "env \<Rightarrow> platform_config \<Rightarrow> (string \<times> string) list \<Rightarrow> string \<Rightarrow> sys \<Rightarrow> call list \<Rightarrow> call \<Rightarrow> bool" where
  "publish_proven E pl envs dest s h c \<longleftrightarrow> (publishes c \<longrightarrow>
     (\<exists>xs cp. h = trace s @ xs \<and> proven E pl envs dest (trace s) xs cp \<and> proper dest cp h c))"

lemma quiet_publish: "steps (does quiet) m \<Longrightarrow> steps (does (publish_proven E pl envs dest s)) m"
  by (erule steps_mono) (auto simp: quiet_def publish_proven_def publishes_def split: call.splits)

lemma proven_later: "proven E pl envs dest h xs cp \<Longrightarrow> proven E pl envs dest h (xs @ ys) cp"
  unfolding proven_def by fastforce

lemma proven_run:
  assumes "trace u = trace s @ xs" "proven E pl envs dest (trace s) xs cp" "steps (does (proper dest cp)) m"
  shows "does (publish_proven E pl envs dest s) u (snd (m u))"
proof -
  obtain cs where cs: "trace (snd (m u)) = trace u @ cs" "calls_ok (proper dest cp) (trace u) cs"
    using assms(3) by (auto simp: steps_def does_def)
  have "publish_proven E pl envs dest s (trace u @ as) c" if "proper dest cp (trace u @ as) c" for as c
    using that proven_later [OF assms(2), of as] assms(1) by (auto simp: publish_proven_def)
  with cs show ?thesis by (auto simp: does_def calls_ok_def)
qed

text \<open>The three files have different names, whatever the directory.\<close>

lemma split_on_snoc: "c \<notin> set n \<Longrightarrow> split_on c (a @ c # n) = split_on c a @ [n]"
proof (induction a)
  case (Cons x a)
  then show ?case by (cases "split_on c a") auto
qed (simp add: split_on_plain)

lemma join_snoc: "\<exists>pre. join sep (xs @ [n]) = pre @ n"
proof (induction xs)
  case (Cons x xs)
  then obtain pre where "join sep (xs @ [n]) = pre @ n" by blast
  then show ?case by (cases "xs @ [n]") auto
qed simp

lemma path_div_ends:
  assumes "CHR ''/'' \<notin> set n" "n \<noteq> []" "n \<noteq> ''.''"
  shows "\<exists>pre. path_div a n = pre @ n"
proof -
  have "\<not> starts_with ''/'' n" using assms(1,2) by (cases n) (auto simp: starts_with_def)
  moreover have "\<exists>pre. norm_path (a @ ''/'' @ n) = pre @ n"
  proof -
    obtain pre where "join ''/'' (filter (\<lambda>c. c \<noteq> [] \<and> c \<noteq> ''.'') (split_on (CHR ''/'') a) @ [n]) = pre @ n"
      using join_snoc by blast
    then show ?thesis using assms by (auto simp: norm_path_def split_on_snoc Let_def)
  qed
  ultimately show ?thesis by (simp add: path_div_def)
qed

lemma same_ending:
  assumes "p @ x = q @ y" "15 \<le> length x" "15 \<le> length y"
  shows "take 15 (rev x) = take 15 (rev y)"
proof -
  from assms(1) have "rev x @ rev p = rev y @ rev q" by (metis rev_append)
  then have "take 15 (rev x @ rev p) = take 15 (rev y @ rev q)" by simp
  with assms(2,3) show ?thesis by simp
qed

lemma other_file:
  assumes "n = CONSISTENCY_FILE \<or> n = transport_file"
  shows "path_div dest n \<noteq> path_div dest checkpoint_file"
proof -
  from assms have "\<exists>pre. path_div dest n = pre @ n" by (elim disjE) (auto simp: CONSISTENCY_FILE_def transport_file_def path_div_ends)
  moreover have "\<exists>pre. path_div dest checkpoint_file = pre @ checkpoint_file" by (simp add: checkpoint_file_def path_div_ends)
  moreover have "take 15 (rev n) \<noteq> take 15 (rev checkpoint_file)" "15 \<le> length n" "15 \<le> length checkpoint_file"
    using assms by (auto simp: CONSISTENCY_FILE_def transport_file_def checkpoint_file_def)
  ultimately show ?thesis by (metis same_ending)
qed

lemma proper_ask: "(\<And>p txt. c \<noteq> WriteText p txt) \<Longrightarrow> steps (does (proper dest cp)) (ask f c)"
  by (rule does_ask) (simp add: proper_def)

lemma proper_secure: "steps (does (proper dest cp)) (secure_dir E d)"
  unfolding secure_dir_def by (intro does_rules proper_ask) simp_all

lemma proper_checkpoint: "steps (does (proper dest cp)) (write_json_atomic E dest checkpoint_file (JObj cp))"
  unfolding write_json_atomic_def Let_def
  by (intro does_rules proper_secure does_ask) (simp_all add: proper_def)

lemma proper_transport: "steps (does (proper dest cp)) (write_json_atomic E dest transport_file j)"
  unfolding write_json_atomic_def Let_def
  by (intro does_rules proper_secure does_ask) (simp_all add: proper_def other_file)

lemma proper_consistency: "steps (does (proper dest cp)) (write_consistency E dest a)"
  unfolding write_consistency_def Let_def
  by (intro does_rules does_ask) (simp_all add: proper_def other_file)

lemma judge_success:
  assumes "answer out = Inr payload" "answered_success code payload"
  shows "judge_answer E pl dest (code, out, err) w = accept_backup E pl dest payload w"
  using assms by (simp add: judge_answer_def then_lift)

lemma ask_bind:
  "bind_act (ask f c) g s = (case f (trace s) c of Inl e \<Rightarrow> (Inl e, s\<lparr>trace := trace s @ [c]\<rparr>)
     | Inr x \<Rightarrow> g x (s\<lparr>trace := trace s @ [c]\<rparr>))"
  by (simp add: bind_act_def ask_def split: sum.split)

lemma accept_publishes:
  assumes "run_reply E (trace u) c = Inr (0, out, err)" "c = backup_call helper envs request" "trace u = trace s @ as"
    "trace w = trace u @ [c]" "answer out = Inr payload" "map_of payload ''status'' = Some (JStr ''success'')"
    "quiescence_proven pl payload"
  shows "does (publish_proven E pl envs dest s) w (snd (accept_backup E pl dest payload w))"
proof -
  let ?Q = "publish_proven E pl envs dest s" and ?file = "IsFile (path_div dest layout_file)"
  let ?v = "w\<lparr>trace := trace w @ [?file]\<rparr>"
  have step: "does ?Q w ?v" by (auto simp: does_def publish_proven_def publishes_def)
  show ?thesis
  proof (cases "bool_reply E (trace w) ?file = Inr True \<and> (\<exists>cp. map_of payload ''checkpoint'' = Some (JObj cp) \<and> cp \<noteq> [])")
    case False
    then have "snd (accept_backup E pl dest payload w) = ?v"
      using assms(7) by (auto simp: accept_backup_def Let_def ask_bind split: sum.split option.split json.split list.split)
    with step show ?thesis by simp
  next
    case True
    then obtain cp where cp: "bool_reply E (trace w) ?file = Inr True" "map_of payload ''checkpoint'' = Some (JObj cp)" "cp \<noteq> []"
      by blast
    then have "accepted_answer E pl dest (trace u) c cp" using assms by (auto simp: accepted_answer_def)
    then have proven: "proven E pl envs dest (trace s) (as @ [c, ?file]) cp"
      unfolding proven_def assms(2,3) by fastforce
    let ?rest = "then_act (write_json_atomic E dest checkpoint_file (JObj cp))
      (then_act (write_consistency E dest (attested pl payload))
      (bind_act (lift_res (transport_record pl payload (JObj cp))) (\<lambda>transport.
       then_act (write_json_atomic E dest transport_file (JObj transport)) (ret (Inr transport)))))"
    have eq: "accept_backup E pl dest payload w = ?rest ?v"
      using assms(7) cp by (cases cp) (auto simp: accept_backup_def Let_def ask_bind)
    have rest: "steps (does (proper dest cp)) ?rest"
      by (intro does_rules proper_checkpoint proper_consistency proper_transport)
    have "does ?Q ?v (snd (?rest ?v))"
      by (rule proven_run [OF _ proven rest]) (simp add: assms(3,4))
    with step show ?thesis unfolding eq by (rule does.R_trans)
  qed
qed

lemma judge_publishes:
  assumes "run_reply E (trace u) c = Inr x" "c = backup_call helper envs request" "trace u = trace s @ as"
    "trace w = trace u @ [c]"
  shows "does (publish_proven E pl envs dest s) w (snd (judge_answer E pl dest x w))"
proof -
  obtain code out err where x: "x = (code, out, err)" by (cases x)
  show ?thesis
  proof (cases "\<exists>payload. answer out = Inr payload \<and> answered_success code payload \<and> quiescence_proven pl payload")
    case True
    then obtain payload where p: "answer out = Inr payload" "answered_success code payload" "quiescence_proven pl payload" by blast
    with accept_publishes [OF _ assms(2,3,4) p(1)] assms(1) show ?thesis
      by (simp add: x judge_success) (simp add: answered_success_def)
  next
    case False
    then show ?thesis
      by (cases "answer out") (auto simp: x judge_answer_def then_lift accept_backup_def Let_def does.R_refl)
  qed
qed

lemma backup_publishes: "does (publish_proven E pl envs dest s) s (snd (vddk_backup E pl envs v dest s))"
proof -
  let ?Q = "publish_proven E pl envs dest s"
  obtain r t where run: "vddk_backup E pl envs v dest s = (r, t)" by fastforce
  have quiet: "does ?Q s u" if "does quiet s u" for u
    using that by (rule does_mono) (auto simp: quiet_def publish_proven_def publishes_def split: call.splits)
  show ?thesis
    using backup_run [OF run]
  proof (elim disjE exE conjE)
    fix u helper request
    assume u: "does quiet s u" and t: "bind_act (ask (run_reply E) (backup_call helper envs request)) (judge_answer E pl dest) u = (r, t)"
    from u obtain as where as: "trace u = trace s @ as" by (auto simp: does_def)
    let ?c = "backup_call helper envs request"
    have "does ?Q u (snd (bind_act (ask (run_reply E) ?c) (judge_answer E pl dest) u))"
    proof (rule does.bind_at)
      show "does ?Q u (snd (ask (run_reply E) ?c u))"
        by (rule does_ask_at) (simp add: publish_proven_def publishes_def backup_call_def)
    next
      fix x w assume "ask (run_reply E) ?c u = (Inr x, w)"
      then have "run_reply E (trace u) ?c = Inr x" "w = u\<lparr>trace := trace u @ [?c]\<rparr>" by (auto simp: ask_def)
      with judge_publishes [OF this(1) refl as, of w] show "does ?Q w (snd (judge_answer E pl dest x w))" by simp
    qed
    with quiet [OF u] t run show ?thesis by (auto intro: does.R_trans)
  qed (simp add: run quiet)
qed

section \<open>A rejected backup leaves no cache\<close>

definition unasked :: "call list \<Rightarrow> call \<Rightarrow> bool" where
  "unasked h c \<longleftrightarrow> (\<forall>cmd envs input. c \<noteq> RunInput cmd envs input)"

lemma quiet_unasked: "steps (does quiet) m \<Longrightarrow> steps (does unasked) m"
  by (erule steps_mono) (simp add: quiet_def unasked_def)

lemma unasked_runs:
  "does quiet s t \<Longrightarrow> does unasked s t"
  "does harmless s t \<Longrightarrow> does unasked s t"
  by (erule does_mono, simp add: quiet_def harmless_def unasked_def)+

lemma unasked_ask: "(\<And>cmd envs i. c \<noteq> RunInput cmd envs i) \<Longrightarrow> steps (does unasked) (ask f c)"
  by (rule does_ask) (simp add: unasked_def)

lemma unasked_export: "steps (does unasked) (vm_export E pl v dest dry)"
  unfolding vm_export_def hot_export_def cold_export_def snapshot_source_def clone_and_export_def clean_up_def
    remove_snapshot_def write_consistency_def govc_here_def govc_def run_command_def Let_def
  by (intro does_rules attempt_does unasked_ask) simp_all

lemma unasked_fallback: "steps (does unasked) (full_fallback E pl v dest reason error cache)"
  unfolding full_fallback_def Let_def by (intro does_rules unasked_ask unasked_export) simp_all

lemma unasked_without: "steps (does unasked) (without_helper E pl v dest dry caps)"
  unfolding without_helper_def Let_def by (intro does_rules unasked_fallback unasked_export)

lemma never_asked:
  assumes "does unasked s t" "trace t = trace s @ xs @ backup_call helper envs request # ys"
  shows False
  using assms calls_ok_at [of unasked "trace s" xs "backup_call helper envs request" ys]
  by (auto simp: does_def unasked_def backup_call_def)

lemma asked_once:
  assumes "does unasked s u" "trace w = trace u @ [c]" "does unasked w t"
    "trace t = trace s @ xs @ backup_call helper envs request # ys"
  shows "trace u = trace s @ xs \<and> c = backup_call helper envs request"
proof -
  from assms(1,3) obtain as bs where as: "trace u = trace s @ as" "calls_ok unasked (trace s) as"
    "trace t = trace w @ bs" "calls_ok unasked (trace w) bs" by (auto simp: does_def)
  have never: "cs \<noteq> us @ backup_call helper envs request # vs" if "calls_ok unasked h cs" for h cs us vs
    using that calls_ok_at [of unasked h us "backup_call helper envs request" vs] by (auto simp: unasked_def backup_call_def)
  have eq: "as @ c # bs = xs @ backup_call helper envs request # ys" using as assms(2,4) by simp
  from append_split [OF this] never [OF as(2)] obtain us where us: "xs = as @ us"
    "c # bs = us @ backup_call helper envs request # ys" by blast
  with never [OF as(4)] have "us = []" by (cases us) auto
  with us as(1) show ?thesis by simp
qed

lemma judged_success:
  assumes "bind_act (ask (run_reply E) c) (judge_answer E pl dest) u = (Inr (Inr transport), t)"
  shows "\<exists>cp. accepted_answer E pl dest (trace u) c cp"
    and "does harmless (u\<lparr>trace := trace u @ [c]\<rparr>) t"
proof -
  let ?w = "u\<lparr>trace := trace u @ [c]\<rparr>"
  from assms obtain x where x: "run_reply E (trace u) c = Inr x" "judge_answer E pl dest x ?w = (Inr (Inr transport), t)"
    by (auto simp: ask_bind split: sum.splits)
  show "does harmless ?w t" by (rule stepsD [OF harmless_judge x(2)])
  obtain code out err where o: "x = (code, out, err)" by (cases x)
  from x(2) obtain payload where p: "answer out = Inr payload" "answered_success code payload"
    by (auto simp: o judge_answer_def then_lift split: sum.splits if_splits)
  with x(2) have "accept_backup E pl dest payload ?w = (Inr (Inr transport), t)" by (simp add: o judge_success)
  then have "quiescence_proven pl payload \<and> bool_reply E (trace ?w) (IsFile (path_div dest layout_file)) = Inr True \<and>
      (\<exists>cp. map_of payload ''checkpoint'' = Some (JObj cp) \<and> cp \<noteq> [])"
    by (auto simp: accept_backup_def Let_def ask_bind split: if_splits sum.splits option.splits json.splits list.splits)
  with x(1) p show "\<exists>cp. accepted_answer E pl dest (trace u) c cp"
    by (auto simp: accepted_answer_def o answered_success_def)
qed

lemma native_success:
  assumes "native_backup E pl envs v target s = (Inr (Inr x), t)"
  shows "\<exists>u w c. does unasked s u \<and> trace w = trace u @ [c] \<and> does unasked w t \<and>
    (\<exists>cp. accepted_answer E pl (cache_root pl v) (trace u) c cp)"
proof -
  obtain y z where y: "vddk_backup E pl envs v (cache_root pl v) s = (Inr y, z)"
    "(case y of Inl f \<Rightarrow> ret (Inl f) | Inr transport \<Rightarrow> then_act (snapshot_view E (cache_root pl v) target) (ret (Inr ()))) z =
      (Inr (Inr x), t)"
    using assms unfolding native_backup_def bind_Inr by blast
  then obtain transport where transport: "y = Inr transport" by (cases y) auto
  obtain u helper request where u: "does quiet s u"
    "bind_act (ask (run_reply E) (backup_call helper envs request)) (judge_answer E pl (cache_root pl v)) u =
      (Inr (Inr transport), z)"
    using backup_run [OF y(1)] transport by auto
  have "does quiet z t"
    using y(2) transport by (auto simp: run_Inr intro: stepsD [OF quiet_view])
  then have "does unasked (u\<lparr>trace := trace u @ [backup_call helper envs request]\<rparr>) t"
    using unasked_runs(2) [OF judged_success(2) [OF u(2)]] unasked_runs(1) by (blast intro: does.R_trans)
  with unasked_runs(1) [OF u(1)] judged_success(1) [OF u(2)] show ?thesis
    by (intro exI [of _ u] exI [of _ "u\<lparr>trace := trace u @ [backup_call helper envs request]\<rparr>"]) auto
qed

lemma settle_removes:
  assumes "\<And>x. r \<noteq> Inr (Inr x)"
  shows "\<exists>m. settle_backup E pl v dest target r = then_act (rmtree E (cache_root pl v)) m \<and> steps (does unasked) m"
proof (cases r)
  case (Inl e)
  then show ?thesis by (auto simp: settle_backup_def does.steps_throw)
next
  case (Inr q)
  with assms obtain f where "r = Inr (Inl f)" by (cases q) auto
  then show ?thesis
    by (auto simp: settle_backup_def intro!: does.steps_if does.steps_throw unasked_fallback)
qed

lemma settled_cache:
  assumes "native_backup E pl envs v target w = (q, z)" "settle_backup E pl v dest target q z = (r, t)"
    "does unasked s w" "trace t = trace s @ xs @ backup_call helper envs' request # ys"
  shows "RmTree (cache_root pl v) \<in> set ys \<or>
    r = Inr target \<and> (\<exists>cp. accepted_answer E pl (cache_root pl v) (trace s @ xs) (backup_call helper envs' request) cp)"
proof (cases "\<exists>x. q = Inr (Inr x)")
  case True
  with assms(1,2) obtain x where x: "native_backup E pl envs v target w = (Inr (Inr x), z)" "r = Inr target" "t = z"
    by (auto simp: settle_backup_def)
  from native_success [OF x(1)] obtain u w' c where run: "does unasked w u" "trace w' = trace u @ [c]" "does unasked w' z"
    "\<exists>cp. accepted_answer E pl (cache_root pl v) (trace u) c cp" by blast
  have "trace u = trace s @ xs \<and> c = backup_call helper envs' request"
    using asked_once [OF does.R_trans [OF assms(3) run(1)] run(2) run(3)] assms(4) x(3) by simp
  with run(4) x(2) show ?thesis by auto
next
  case False
  then obtain m where m: "settle_backup E pl v dest target q = then_act (rmtree E (cache_root pl v)) m" "steps (does unasked) m"
    using settle_removes [of q] by blast
  let ?z = "z\<lparr>trace := trace z @ [RmTree (cache_root pl v)]\<rparr>"
  have "m ?z = (r, t)" using assms(2) m(1) by (simp add: then_rmtree)
  from stepsD [OF m(2) this] obtain bs where bs: "trace t = trace z @ RmTree (cache_root pl v) # bs" "calls_ok unasked (trace ?z) bs"
    by (auto simp: does_def)
  from assms(3) obtain as where as: "trace w = trace s @ as" by (auto simp: does_def)
  from stepsD [OF backup_exports_nothing assms(1)] obtain cs where cs: "trace z = trace w @ cs" by (auto simp: does_def)
  have "(as @ cs) @ RmTree (cache_root pl v) # bs = xs @ backup_call helper envs' request # ys"
    using as cs bs(1) assms(4) by simp
  from append_split [OF this] show ?thesis
  proof (elim disjE exE conjE)
    fix us assume "RmTree (cache_root pl v) # bs = us @ backup_call helper envs' request # ys"
    then obtain vs where "bs = vs @ backup_call helper envs' request # ys" by (cases us) (auto simp: backup_call_def)
    with bs(2) calls_ok_at [of unasked "trace ?z" vs "backup_call helper envs' request" ys] show ?thesis
      by (auto simp: unasked_def backup_call_def)
  qed simp
qed

lemma export_cache:
  assumes "inc_export E pl v dest dry s = (r, t)" "trace t = trace s @ xs @ backup_call helper envs' request # ys"
  shows "RmTree (cache_root pl v) \<in> set ys \<or>
    r = Inr (path_div dest (safe_component unnamed (v_name v))) \<and>
      (\<exists>cp. accepted_answer E pl (cache_root pl v) (trace s @ xs) (backup_call helper envs' request) cp)"
proof -
  let ?target = "path_div dest (safe_component unnamed (v_name v))"
  have never: "\<not> does unasked s t" using never_asked [OF _ assms(2)] by blast
  have mode: "incremental_mode pl"
  proof (rule ccontr)
    assume "\<not> incremental_mode pl"
    with assms(1) have "vm_export E pl v dest dry s = (r, t)" by (simp add: inc_export_def)
    with never stepsD [OF unasked_export] show False by blast
  qed
  obtain envs where envs: "govc_env E pl = Inr envs"
    using never assms(1) mode by (cases "govc_env E pl") (auto simp: inc_export_def Let_def then_lift does.R_refl)
  let ?backup = "then_act (secure_dir E (cache_parent pl))
      (bind_act (attempt (native_backup E pl envs v ?target)) (settle_backup E pl v dest ?target))"
  have run: "bind_act (capabilities E (pl_options pl) envs) (\<lambda>caps.
      if \<not> available caps then without_helper E pl v dest dry caps else if dry then ret ?target else ?backup) s = (r, t)"
    using assms(1) mode envs by (simp add: inc_export_def Let_def then_lift)
  obtain c u where c: "capabilities E (pl_options pl) envs s = (c, u)" by fastforce
  have su: "does unasked s u" by (rule stepsD [OF quiet_unasked [OF quiet_capabilities] c])
  obtain caps where caps: "c = Inr caps"
    using never su run c by (cases c) (auto simp: bind_act_def)
  have "without_helper E pl v dest dry caps u \<noteq> (r, t)"
    using stepsD [OF unasked_without, of E pl v dest dry caps u r t] su never by (blast intro: does.R_trans)
  moreover have "ret ?target u \<noteq> (r, t)" using su never by auto
  ultimately have after: "?backup u = (r, t)"
    using run c caps by (auto simp: bind_act_def split: if_splits)
  obtain p w where w: "secure_dir E (cache_parent pl) u = (p, w)" by fastforce
  have sw: "does unasked s w"
    by (rule does.R_trans [OF su stepsD [OF quiet_unasked [OF quiet_secure] w]])
  obtain y where y: "p = Inr y"
    using never sw after w by (cases p) (auto simp: then_act_def bind_act_def)
  obtain q z where q: "native_backup E pl envs v ?target w = (q, z)" by fastforce
  have "settle_backup E pl v dest ?target q z = (r, t)"
    using after w y q by (simp add: then_act_def bind_act_def attempt_eq)
  from settled_cache [OF q this sw assms(2)] show ?thesis .
qed

section \<open>Sample runs\<close>

definition sample_incremental :: platform_config where
  "sample_incremental = (default_platform ''vsphere'' ''vmware'' ''https://vc'')\<lparr>pl_mode := ''auto'', pl_options := []\<rparr>"

definition sample_source :: vm where
  "sample_source = \<lparr>v_id = ''/dc/vm/db'', v_name = ''db'', v_power_state = ''on'', v_kind = ''vmware''\<rparr>"

definition sample_abilities :: json where
  "sample_abilities = JObj [(''features'', JList [JStr ''cbt'', JStr ''backup'', JStr ''restore'']), (''protocol_version'', JInt 1)]"

definition helper_env :: "json \<Rightarrow> env" where
  "helper_env v = sample_env\<lparr>texts_reply := (\<lambda>h c. Inr [''/v'']),
     run_reply := (\<lambda>h c. case c of
         RunInput cmd envs input \<Rightarrow> Inr (0, dumps v, [])
       | _ \<Rightarrow> Inr (0, dumps sample_abilities, []))\<rparr>"

definition success_answer :: json where
  "success_answer = JObj [(''checkpoint'', JObj [(''disk'', JStr ''1'')]), (''status'', JStr ''success'')]"

lemma sample_json:
  "loads (dumps sample_abilities) = Some sample_abilities" "loads (dumps success_answer) = Some success_answer"
proof -
  have "jwf sample_abilities \<and> canon sample_abilities = sample_abilities" by code_simp
  then show "loads (dumps sample_abilities) = Some sample_abilities" by (simp add: loads_dumps)
  have "jwf success_answer \<and> canon success_answer = success_answer" by code_simp
  then show "loads (dumps success_answer) = Some success_answer" by (simp add: loads_dumps)
qed

lemma loads_Nil: "loads [] = None"
  by code_simp

lemma sample_some:
  "dumps sample_abilities \<noteq> []" "dumps success_answer \<noteq> []"
  using sample_json loads_Nil by force+

definition sample_caps :: "(string \<times> json) list" where
  "sample_caps = (case bind_res (payload_of sample_abilities) (offered ''/v'') of Inr caps \<Rightarrow> caps | _ \<Rightarrow> [])"

lemma sample_offered:
  "bind_res (payload_of sample_abilities) (offered ''/v'') = Inr sample_caps"
  "available sample_caps" "get_or sample_caps ''helper'' JNull = JStr ''/v''"
  by code_simp+

lemma helper_replies:
  "texts_reply (helper_env v) h c = Inr [''/v'']" "done_reply (helper_env v) h c = Inr ()"
  "bool_reply (helper_env v) h c = Inr True" "text_reply (helper_env v) h c = Inr []"
  "listing_reply (helper_env v) h c = Inr []"
  "run_reply (helper_env v) h (Run cmd envs) = Inr (0, dumps sample_abilities, [])"
  "run_reply (helper_env v) h (backup_call helper envs request) = Inr (0, dumps v, [])"
  by (simp_all add: helper_env_def sample_env_def backup_call_def)

lemma bind_nested: "bind_act (bind_act m f) g s = bind_act m (\<lambda>x. bind_act (f x) g) s"
  by (simp add: bind_act_def split: prod.split sum.split)

lemma sample_capabilities:
  "capabilities (helper_env v) [] envs s =
     (Inr sample_caps, s\<lparr>trace := trace s @ [Which default_helper, Run [''/v'', ''capabilities'', ''--json''] envs]\<rparr>)"
proof -
  have "helper_name [] = default_helper" by (simp add: helper_name_def or_else_def)
  moreover have "\<not> List.member default_helper (CHR ''/'')" by (simp add: default_helper_def)
  ultimately show ?thesis
    using sample_offered(1)
    by (simp add: capabilities_def resolved_helper_def ask_bind helper_replies run_command_def sample_json(1) sample_some(1)
      then_lift bind_nested lift_res_def)
qed

lemma sample_backup_request:
  "\<exists>request. backup_request sample_incremental v dest JNull = Inr request"
  by (simp add: backup_request_def sample_incremental_def or_else_def py_int_def px_rows_def Let_def)

text \<open>A helper that is asked for a backup with an answer \<open>v\<close>.\<close>

definition asked_calls :: "(string \<times> string) list \<Rightarrow> string \<Rightarrow> (string \<times> json) list \<Rightarrow> call list" where
  "asked_calls envs dest request =
     [Which default_helper, Run [''/v'', ''capabilities'', ''--json''] envs, MkDir dest, Chmod dest 448,
      IsFile (path_div dest checkpoint_file), ReadText (path_div dest checkpoint_file), backup_call ''/v'' envs request]"

lemma sample_read:
  "read_checkpoint (helper_env v) dest s =
     (Inr JNull, s\<lparr>trace := trace s @ [IsFile (path_div dest checkpoint_file), ReadText (path_div dest checkpoint_file)]\<rparr>)"
  by (simp add: read_checkpoint_def Let_def ask_bind helper_replies catch_def loads_Nil)

lemma sample_asked:
  "\<exists>request. vddk_backup (helper_env v) sample_incremental envs m dest s =
     judge_answer (helper_env v) sample_incremental dest (0, dumps v, []) (s\<lparr>trace := trace s @ asked_calls envs dest request\<rparr>)"
proof -
  obtain request where request: "backup_request sample_incremental m dest JNull = Inr request" using sample_backup_request by blast
  have "pl_options sample_incremental = []" by (simp add: sample_incremental_def)
  then have "vddk_backup (helper_env v) sample_incremental envs m dest s =
     judge_answer (helper_env v) sample_incremental dest (0, dumps v, []) (s\<lparr>trace := trace s @ asked_calls envs dest request\<rparr>)"
    using request sample_offered(2,3)
    by (simp add: vddk_backup_def bind_act_def [of "capabilities E l e" for E l e] sample_capabilities
      bind_act_def [of "read_checkpoint E d" for E d] sample_read secure_dir_def
      then_act_def ask_bind bind_nested helper_replies then_lift asked_calls_def py_str_def)
  then show ?thesis by blast
qed

lemma sample_transport: "\<exists>transport. transport_record sample_incremental
    [(''checkpoint'', JObj [(''disk'', JStr ''1'')]), (''status'', JStr ''success'')] cp = Inr transport"
  by (simp add: transport_record_def or_else_def py_int_def)

lemma sample_publishes:
  "\<exists>request txt ys. trace (snd (vddk_backup (helper_env success_answer) sample_incremental [] m ''/c'' sample_sys)) =
    trace sample_sys @ (asked_calls [] ''/c'' request @ [IsFile (path_div ''/c'' layout_file), MkDir ''/c'', Chmod ''/c'' 448]) @
      WriteText (path_div ''/c'' checkpoint_file @ ''.tmp'') txt # ys"
proof -
  let ?payload = "[(''checkpoint'', JObj [(''disk'', JStr ''1'')]), (''status'', JStr ''success'')]"
  obtain request where run: "vddk_backup (helper_env success_answer) sample_incremental [] m ''/c'' sample_sys =
     judge_answer (helper_env success_answer) sample_incremental ''/c'' (0, dumps success_answer, [])
       (sample_sys\<lparr>trace := trace sample_sys @ asked_calls [] ''/c'' request\<rparr>)"
    using sample_asked by blast
  obtain transport where transport: "transport_record sample_incremental ?payload (JObj [(''disk'', JStr ''1'')]) = Inr transport"
    using sample_transport by blast
  have "answer (dumps success_answer) = Inr ?payload"
    using sample_json(2) sample_some(2) by (simp add: answer_def payload_of_def success_answer_def)
  moreover have "answered_success 0 ?payload" by (simp add: answered_success_def)
  moreover have "quiescence_proven sample_incremental ?payload"
    by (simp add: quiescence_proven_def sample_incremental_def bool_option_def get_or_def)
  ultimately show ?thesis
    using transport unfolding run
    by (simp add: judge_success accept_backup_def Let_def ask_bind helper_replies write_json_atomic_def secure_dir_def
      then_act_def bind_nested write_consistency_def then_lift) blast
qed

text \<open>A helper that answers with an empty object, and no helper at all.\<close>

lemma sample_secure:
  "then_act (secure_dir (helper_env v) d) m s = m (s\<lparr>trace := trace s @ [MkDir d, Chmod d 448]\<rparr>)"
  by (simp add: secure_dir_def then_act_def bind_nested ask_bind helper_replies)

lemma sample_rejected:
  "\<exists>xs envs request ys. trace (snd (inc_export (helper_env (JObj [])) sample_incremental sample_source ''/s'' False sample_sys)) =
    trace sample_sys @ xs @ backup_call ''/v'' envs request # ys"
proof -
  let ?E = "helper_env (JObj [])" and ?pl = sample_incremental and ?dest = "cache_root sample_incremental sample_source"
  obtain envs where envs: "govc_env ?E ?pl = Inr envs"
    by (simp add: govc_env_def helper_env_def sample_env_def Let_def opt_nonempty_def)
  let ?pre = "[Which default_helper, Run [''/v'', ''capabilities'', ''--json''] envs, MkDir (cache_parent ?pl), Chmod (cache_parent ?pl) 448]"
  let ?w = "sample_sys\<lparr>trace := trace sample_sys @ ?pre\<rparr>"
  obtain request where asked: "vddk_backup ?E ?pl envs sample_source ?dest ?w =
     judge_answer ?E ?pl ?dest (0, dumps (JObj []), []) (?w\<lparr>trace := trace ?w @ asked_calls envs ?dest request\<rparr>)"
    using sample_asked by blast
  have "answer (dumps (JObj [])) = Inr []" by code_simp
  then obtain f where f: "judge_answer ?E ?pl ?dest (0, dumps (JObj []), []) z = (Inr (Inl f), z)" "\<not> tf_safe f" for z
    by (simp add: judge_answer_def then_lift answered_success_def reported_failure_def Let_def get_or_def)
  have mode: "incremental_mode ?pl" "pl_options ?pl = []"
    by code_simp+
  have "native_backup ?E ?pl envs sample_source target ?w =
      (Inr (Inl f), ?w\<lparr>trace := trace ?w @ asked_calls envs ?dest request\<rparr>)" for target
    using asked f(1) by (simp add: native_backup_def bind_act_def)
  moreover have "\<not> provider_fallback ?pl f" using f(2) by (simp add: provider_fallback_def incremental_fallback_allowed_def)
  ultimately have "trace (snd (inc_export ?E ?pl sample_source ''/s'' False sample_sys)) =
      trace sample_sys @ ?pre @ asked_calls envs ?dest request @ [RmTree ?dest]"
    using envs sample_offered(2) mode
    by (simp add: inc_export_def Let_def then_lift bind_act_def [of "capabilities E l e" for E l e] sample_capabilities
      bind_act_def [of "attempt m" for m] attempt_eq settle_backup_def then_rmtree
      sample_secure)
  then show ?thesis
    by (intro exI [of _ "?pre @ butlast (asked_calls envs ?dest request)"] exI [of _ envs] exI [of _ request] exI [of _ "[RmTree ?dest]"])
      (simp add: asked_calls_def)
qed

definition helperless_env :: env where
  "helperless_env = sample_env\<lparr>texts_reply := (\<lambda>h c. Inr []), run_reply := (\<lambda>h c. Inl (OSError []))\<rparr>"

lemma helperless_replies:
  "texts_reply helperless_env h c = Inr []" "run_reply helperless_env h c = Inl (OSError [])"
  "done_reply helperless_env h c = Inr ()" "text_reply helperless_env h c = Inr []"
  by (simp_all add: helperless_env_def sample_env_def)

lemma sample_fallback:
  "incremental_mode sample_incremental"
  "\<exists>xs envs x. trace (snd (inc_export helperless_env sample_incremental sample_source ''/s'' False sample_sys)) =
    trace sample_sys @ xs @ Run (''govc'' # ''snapshot.create'' # x) envs # []"
proof -
  show mode: "incremental_mode sample_incremental" by code_simp
  obtain envs where envs: "govc_env helperless_env sample_incremental = Inr envs"
    "govc_env helperless_env (fallback_platform sample_incremental) = Inr envs"
    by (simp add: govc_env_def helperless_env_def fallback_platform_def sample_incremental_def sample_env_def Let_def opt_nonempty_def
      bool_option_def)
  have caps: "capabilities helperless_env (pl_options sample_incremental) envs s =
      (Inr [(''available'', JBool False), (''reason'', JStr ''helper_missing''), (''helper'', JStr (helper_name (pl_options sample_incremental)))],
       s\<lparr>trace := trace s @ [Which default_helper]\<rparr>)" for s
    by (simp add: capabilities_def resolved_helper_def helper_name_def or_else_def sample_incremental_def default_helper_def
      ask_bind bind_nested helperless_env_def)
  have "capability_fallback sample_incremental
      [(''available'', JBool False), (''reason'', JStr ''helper_missing''), (''helper'', JStr (helper_name (pl_options sample_incremental)))]"
    by code_simp
  moreover have "lower (pl_mode (fallback_platform sample_incremental)) = ''hot-clone-export''" by code_simp
  moreover have "\<not> bool_option (fallback_platform sample_incremental) ''application_consistency_strict'' False" by code_simp
  ultimately show "\<exists>xs envs x. trace (snd (inc_export helperless_env sample_incremental sample_source ''/s'' False sample_sys)) =
    trace sample_sys @ xs @ Run (''govc'' # ''snapshot.create'' # x) envs # []"
    using mode envs
    by (simp add: inc_export_def Let_def then_lift bind_act_def [of "capabilities E l e" for E l e] caps available_def get_or_def or_else_def
      without_helper_def full_fallback_def vm_export_def export_modes_def hot_modes_def hot_export_def bind_nested then_act_def
      ask_bind snapshot_source_def govc_def run_command_def snapshot_args_def helperless_replies)
qed

section \<open>Properties\<close>

text \<open>
  C10. Native capture fails closed. In any run of \<open>VMwareIncrementalAdapter.export\<close> in an incremental mode, a
  command that makes a full backup (a snapshot, a clone or an OVF export) is only run when the run is not dry,
  the policy is not strict, the fallback is configured, and either the helper is missing or lacks a capability,
  or it was run and refused with a known reason that it declared safe, and the cache was removed after that.
\<close>

theorem incremental_fails_closed:
  assumes "incremental_mode pl" "inc_export E pl v destination dry_run s = (r, t)"
    "trace t = trace s @ xs @ c # ys" "full_export_call c"
  shows "\<not> dry_run \<and> \<not> strict_mode pl \<and> fallback_configured pl \<and>
    (helper_unusable E pl s \<or> declared_safe E pl v (trace s) xs)"
proof -
  have "does (full_licensed E pl v dry_run s) s t"
    using export_licensed [OF assms(1), of E v dry_run s destination] assms(2) by simp
  with assms(3) have "full_licensed E pl v dry_run s (trace s @ xs) c" by (auto simp: does_def calls_ok_at)
  with assms(4) show ?thesis by (auto simp: full_licensed_def licensed_def)
qed

theorem incremental_fails_closed_witness:
  "\<not> strict_mode sample_incremental \<and> fallback_configured sample_incremental \<and>
   (helper_unusable helperless_env sample_incremental sample_sys \<or>
    (\<exists>xs. declared_safe helperless_env sample_incremental sample_source (trace sample_sys) xs))"
proof -
  obtain xs envs x where "trace (snd (inc_export helperless_env sample_incremental sample_source ''/s'' False sample_sys)) =
      trace sample_sys @ xs @ Run (''govc'' # ''snapshot.create'' # x) envs # []"
    using sample_fallback(2) by blast
  from incremental_fails_closed [OF sample_fallback(1) surjective_pairing this] show ?thesis
    by (auto simp: full_export_call_def)
qed

text \<open>
  C16. The checkpoint advances last. In any run of \<open>VDDKProvider.backup\<close>, every file that is written or
  renamed comes after the helper answered with success, proved its quiescence where the strict policy asks for
  it, left the disk layout and returned a checkpoint; and what is written as the new checkpoint is that one.
\<close>

theorem checkpoint_advances_last:
  assumes "vddk_backup E pl envs v dest s = (r, t)" "trace t = trace s @ xs @ c # ys" "publishes c"
  shows "\<exists>cp. proven E pl envs dest (trace s) xs cp \<and>
    (\<forall>txt. c = WriteText (path_div dest checkpoint_file @ ''.tmp'') txt \<longrightarrow> txt = dumps_indent True 0 (JObj cp) @ [CHR 0x0A])"
proof -
  have "does (publish_proven E pl envs dest s) s t"
    using backup_publishes [of E pl envs dest s v] assms(1) by simp
  with assms(2) have "publish_proven E pl envs dest s (trace s @ xs) c" by (auto simp: does_def calls_ok_at)
  with assms(3) show ?thesis by (auto simp: publish_proven_def proper_def)
qed

theorem checkpoint_advances_last_witness:
  "\<exists>xs cp. proven (helper_env success_answer) sample_incremental [] ''/c'' (trace sample_sys) xs cp"
proof -
  obtain request contents ys where "trace (snd (vddk_backup (helper_env success_answer) sample_incremental [] sample_source ''/c'' sample_sys)) =
      trace sample_sys @ (asked_calls [] ''/c'' request @ [IsFile (path_div ''/c'' layout_file), MkDir ''/c'', Chmod ''/c'' 448]) @
        WriteText (path_div ''/c'' checkpoint_file @ ''.tmp'') contents # ys"
    using sample_publishes by blast
  from checkpoint_advances_last [OF surjective_pairing this] show ?thesis by (auto simp: publishes_def)
qed

text \<open>
  C19. A rejected backup leaves no cache. Whenever \<open>VMwareIncrementalAdapter.export\<close> asked the helper for a
  backup, the cache is removed afterwards, or the answer passed every check and the view of the cache is the
  result; so no later increment builds on blocks of a backup that was not accepted.
\<close>

theorem rejected_backup_leaves_no_cache:
  assumes "inc_export E pl v destination dry_run s = (r, t)"
    "trace t = trace s @ xs @ backup_call helper envs request # ys"
  shows "RmTree (cache_root pl v) \<in> set ys \<or>
    r = Inr (path_div destination (safe_component unnamed (v_name v))) \<and>
      (\<exists>cp. accepted_answer E pl (cache_root pl v) (trace s @ xs) (backup_call helper envs request) cp)"
  by (rule export_cache [OF assms])

theorem rejected_backup_leaves_no_cache_witness:
  "\<exists>xs envs request ys. RmTree (cache_root sample_incremental sample_source) \<in> set ys \<or>
     (\<exists>cp. accepted_answer (helper_env (JObj [])) sample_incremental (cache_root sample_incremental sample_source)
        (trace sample_sys @ xs) (backup_call ''/v'' envs request) cp)"
proof -
  obtain xs envs request ys where
    "trace (snd (inc_export (helper_env (JObj [])) sample_incremental sample_source ''/s'' False sample_sys)) =
      trace sample_sys @ xs @ backup_call ''/v'' envs request # ys"
    using sample_rejected by blast
  from rejected_backup_leaves_no_cache [OF surjective_pairing this] show ?thesis by blast
qed

end
