(* ===== verification/V2v_Plan.thy ===== *)
theory V2v_Plan
  imports V2v_Config Proxmox
begin

text \<open>
  Which cross-hypervisor recoveries are allowed, and conversion by an external provider: \<open>plan\<close>, the
  preflights and \<open>_execute_provider\<close> of \<open>v2v.py\<close> with the additional guards of \<open>v2v_cert.py\<close>. The lemmas
  show what an allowed plan rests on and that a provider's helper only runs after its file was found to
  have the pinned digest.
\<close>

section \<open>Plans\<close>

record v2v_plan =
  vn_allowed :: bool
  vn_source_type :: string
  vn_target_type :: string
  vn_mode :: string
  vn_certification_id :: "string option"
  vn_provider :: "string option"
  vn_reasons :: "string list"

definition plan_dict :: "v2v_plan \<Rightarrow> (string \<times> json) list" where
  "plan_dict p =
     [(''allowed'', JBool (vn_allowed p)), (''source_type'', JStr (vn_source_type p)), (''target_type'', JStr (vn_target_type p)),
      (''mode'', JStr (vn_mode p)), (''certification_id'', opt_json (vn_certification_id p)),
      (''provider'', opt_json (vn_provider p)), (''reasons'', errors_json (vn_reasons p))]"

definition builtin_pair :: string where
  "builtin_pair = ''vmware:proxmox''"

definition builtin_certification :: string where
  "builtin_certification = ''immutavault-vmware-proxmox-v1''"

definition v2v_pair :: "string \<Rightarrow> string \<Rightarrow> string" where
  "v2v_pair source_type target_type = lower source_type @ '':'' @ lower target_type"

definition provider_for_pair :: "v2v_config \<Rightarrow> string \<Rightarrow> v2v_provider option" where
  "provider_for_pair c pair = find (\<lambda>p. vp_enabled p \<and> List.member (vp_pairs p) pair) (v2_providers c)"

text \<open>\<open>^[A-Za-z0-9_.:-]{1,64}$\<close>, for storage ids and bridges.\<close>

definition id64 :: "string \<Rightarrow> bool" where
  "id64 s \<longleftrightarrow> s \<noteq> [] \<and> length s \<le> 64 \<and> list_all ifname_char s"

definition v2v_storage :: "(string \<times> json) list \<Rightarrow> platform_config \<Rightarrow> string" where
  "v2v_storage options target =
     first_text [map_of options ''storage'', map_of (pl_options target) ''v2v_storage'',
       map_of (pl_options target) ''restore_storage'']"

text \<open>The objections to any conversion of a point, and those to its target storage.\<close>

definition point_reasons :: "v2v_config \<Rightarrow> point \<Rightarrow> string list" where
  "point_reasons c p =
     (if v2_enabled c then [] else [''v2v.enabled is false'']) @
     (if v2_require_verified_point c \<and> \<not> p_verified p then [''recovery point has not passed full verification''] else []) @
     (if p_suspicious p \<and> \<not> v2_allow_suspicious_points c then [''recovery point is marked suspicious''] else [])"

definition storage_reasons :: "string \<Rightarrow> string list" where
  "storage_reasons storage =
     (if storage = [] then [''target Proxmox platform requires options.v2v_storage or restore storage'']
      else if id64 storage then [] else [''target V2V storage id contains unsupported characters''])"

definition base_plan :: "v2v_config \<Rightarrow> point \<Rightarrow> platform_config \<Rightarrow> (string \<times> json) list \<Rightarrow> v2v_plan" where
  "base_plan c p target options =
     (let source_type = lower (p_platform_type p); target_type = lower (pl_type target);
          reasons = point_reasons c p; pair = v2v_pair source_type target_type;
          plan = (\<lambda>mode cert provider rs. \<lparr>vn_allowed = (rs = []), vn_source_type = source_type,
            vn_target_type = target_type, vn_mode = mode, vn_certification_id = cert, vn_provider = provider, vn_reasons = rs\<rparr>)
      in if source_type = target_type then plan ''native'' (Some ''native-family-restore'') None []
         else if pair = builtin_pair \<and> v2_builtin_vmware_to_proxmox c
         then plan ''builtin'' (Some builtin_certification) None (reasons @ storage_reasons (v2v_storage options target))
         else (case provider_for_pair c pair of
             Some pr \<Rightarrow> plan ''provider'' (Some (vp_certification_id pr)) (Some (vp_name pr)) reasons
           | None \<Rightarrow> plan ''blocked'' None None
               (reasons @ [''no certified conversion provider is configured for '' @ pair])))"

section \<open>The certified manager\<close>

definition export_transports :: "string list" where
  "export_transports = [''export'', ''cold-export'', ''hot-clone-export'', ''snapshot-clone-export'', ''hot'']"

definition incremental_transports :: "string list" where
  "incremental_transports = [''auto'', ''cbt'', ''vddk'', ''vddk-cbt'']"

text \<open>\<open>value.get(key) or {}\<close>, nothing for a value that is not a mapping.\<close>

definition sub_object :: "json \<Rightarrow> string \<Rightarrow> json option" where
  "sub_object v key = (case v of JObj kvs \<Rightarrow> Some (or_else (map_of kvs key) (JObj [])) | _ \<Rightarrow> None)"

definition vmware_transport :: "point \<Rightarrow> string option" where
  "vmware_transport p =
     (case Option.bind (sub_object (case p_metadata p of Some v \<Rightarrow> v | None \<Rightarrow> JObj []) ''platform_info'')
         (\<lambda>info. sub_object info ''backup_transport'') of
        Some (JObj transport) \<Rightarrow>
          (let requested = lower (strip whitespace (text_of transport ''requested'' []))
           in if requested = [] then None else Some requested)
      | _ \<Rightarrow> None)"

definition transport_reason :: "string option \<Rightarrow> string" where
  "transport_reason transport =
     (case transport of
        Some t \<Rightarrow> if List.member incremental_transports t
          then ''VMware recovery point transport '' @ repr_str t @ '' is a native CBT/VDDK layout, not an attested OVF input; ''
            @ ''capture an export-format recovery point or configure a certified provider for native-layout conversion''
          else ''VMware recovery point does not attest an OVF/export transport; built-in V2V refuses to guess the source layout''
      | None \<Rightarrow> ''VMware recovery point does not attest an OVF/export transport; built-in V2V refuses to guess the source layout'')"

definition plan_v2v :: "v2v_config \<Rightarrow> point \<Rightarrow> platform_config \<Rightarrow> (string \<times> json) list \<Rightarrow> v2v_plan" where
  "plan_v2v c p target options =
     (let plan = base_plan c p target options; transport = vmware_transport p
      in if v2v_pair (p_platform_type p) (pl_type target) \<noteq> builtin_pair \<or> vn_mode plan \<noteq> ''builtin'' \<or> \<not> vn_allowed plan
         then plan
         else if (case transport of Some t \<Rightarrow> List.member export_transports t | None \<Rightarrow> False) then plan
         else plan\<lparr>vn_allowed := False, vn_reasons := vn_reasons plan @ [transport_reason transport]\<rparr>)"

section \<open>Preflight of the built-in converter\<close>

text \<open>\<open>re.search(r"(\d+)\.(\d+)(?:\.(\d+))?", text)\<close>.\<close>

fun version_tuple :: "string \<Rightarrow> nat \<times> nat \<times> nat" where
  "version_tuple [] = (0, 0, 0)"
| "version_tuple (c # cs) =
     (let (a, r1) = span_digits (c # cs); (b, r2) = span_digits (drop 1 r1); (d, r3) = span_digits (drop 1 r2)
      in if a \<noteq> [] \<and> starts_with ''.'' r1 \<and> b \<noteq> []
         then (digits_nat a, digits_nat b, if starts_with ''.'' r2 then digits_nat d else 0)
         else version_tuple cs)"

definition version_less :: "nat \<times> nat \<times> nat \<Rightarrow> nat \<times> nat \<times> nat \<Rightarrow> bool" where
  "version_less v w =
     (case (v, w) of ((a, b, c), (x, y, z)) \<Rightarrow> a < x \<or> a = x \<and> (b < y \<or> b = y \<and> c < z))"

definition show_version :: "nat \<times> nat \<times> nat \<Rightarrow> string" where
  "show_version v = (case v of (a, b, c) \<Rightarrow> show_nat a @ ''.'' @ show_nat b @ ''.'' @ show_nat c)"

definition required_features :: "string list" where
  "required_features = [''convert:linux'', ''convert:windows'', ''input:ova'', ''output:local'']"

definition not_installed :: "env \<Rightarrow> string \<Rightarrow> string list act" where
  "not_installed E command =
     bind_act (ask (bool_reply E) (Probe command)) (\<lambda>found.
       ret (if found then [] else [command @ '' is not installed'']))"

definition builtin_doctor :: "env \<Rightarrow> v2v_config \<Rightarrow> string list act" where
  "builtin_doctor E c =
     bind_act (each (not_installed E) [''virt-v2v'', ''virt-v2v-inspector'', ''qemu-img'']) (\<lambda>lacking.
     if concat lacking \<noteq> [] then ret (concat lacking)
     else bind_act (run_command E [''virt-v2v'', ''--version''] [] False) (\<lambda>(code, out, err).
       let actual = version_tuple (out @ err)
       in bind_act (run_command E [''virt-v2v'', ''--machine-readable''] [] False) (\<lambda>(code2, out2, err2).
          let features = map (strip whitespace) (splitlines out2);
              missing = filter (\<lambda>f. \<not> List.member features f) required_features
          in bind_act (run_command E [''virt-v2v-inspector'', ''--help''] [] False) (\<lambda>(code3, out3, err3).
             bind_act (run_command E [''qemu-img'', ''--version''] [] False) (\<lambda>(code4, out4, err4).
             ret ((if code \<noteq> 0 \<or> version_less actual (version_tuple (v2_virt_v2v_min_version c))
                   then [''virt-v2v '' @ show_version actual @ '' is below certified minimum '' @ v2_virt_v2v_min_version c] else []) @
                  (if code2 \<noteq> 0 \<or> missing \<noteq> []
                   then [''virt-v2v lacks certified capabilities: '' @
                     join '', '' (if missing = [] then [''machine-readable probe failed''] else missing)] else []) @
                  (if code3 \<noteq> 0 then [''virt-v2v-inspector capability probe failed''] else []) @
                  (if code4 \<noteq> 0 then [''qemu-img capability probe failed''] else [])))))))"

section \<open>Providers\<close>

definition provider_text :: "v2v_provider \<Rightarrow> string" where
  "provider_text pr = ''V2V provider '' @ vp_name pr"

text \<open>\<open>_provider_payload\<close>; the bytes of the helper are read right before it runs.\<close>

definition provider_payload :: "env \<Rightarrow> v2v_provider \<Rightarrow> string \<Rightarrow> (string \<times> json) list \<Rightarrow> (string \<times> json) list act" where
  "provider_payload E pr action request =
     (let helper = norm_path (vp_helper pr); who = provider_text pr
      in bind_act (ask (bool_reply E) (IsFile helper)) (\<lambda>isfile.
         bind_act (if isfile then ask (bool_reply E) (Executable helper) else ret False) (\<lambda>executable.
         then_act (check executable (RuntimeError (who @ '' helper is missing or not executable'')))
        (bind_act (ask (text_reply E) (ReadText helper)) (\<lambda>contents.
         then_act (check (sha256_hex contents = vp_sha256 pr)
           (RuntimeError (who @ '' SHA-256 mismatch; refusing unpinned helper'')))
        (bind_act (ask (run_reply E) (RunInput [helper, action] [] (dumps_compact (JObj request)))) (\<lambda>(code, out, err).
         then_act (check (code = 0) (RuntimeError (who @ '' '' @ action @ '' failed: '' @ strip whitespace err)))
        (bind_act (need (loads out) (RuntimeError (who @ '' returned invalid JSON''))) (\<lambda>v.
         case v of JObj kvs \<Rightarrow> ret kvs | _ \<Rightarrow> throw (RuntimeError (who @ '' returned a non-object response'')))))))))))"

definition payload_texts :: "(string \<times> json) list \<Rightarrow> string \<Rightarrow> string list res" where
  "payload_texts payload key = bind_res (px_rows (get_or payload key (JList []))) (\<lambda>xs. Inr (map py_str xs))"

definition payload_problems :: "v2v_provider \<Rightarrow> (string \<times> json) list \<Rightarrow> string list res" where
  "payload_problems pr payload =
     bind_res (py_int (get_or payload ''protocol'' (JInt 0))) (\<lambda>protocol.
     bind_res (payload_texts payload ''pairs'') (\<lambda>pairs.
     bind_res (payload_texts payload ''features'') (\<lambda>features.
     let missing_pairs = sort (remdups (filter (\<lambda>p. \<not> List.member pairs p) (vp_pairs pr)));
         missing = filter (\<lambda>f. \<not> List.member features f) [''convert'', ''inspect'', ''rollback'', ''validate'']
     in Inr ((if protocol \<noteq> 1 then [''provider protocol mismatch''] else []) @
        (if map_of payload ''certification_id'' \<noteq> Some (JStr (vp_certification_id pr))
         then [''provider certification_id does not match configuration''] else []) @
        (if missing_pairs \<noteq> [] then [''provider does not advertise configured pairs: '' @ join '', '' missing_pairs] else []) @
        (if missing \<noteq> [] then [''provider lacks required safety features: '' @ join '', '' missing] else [])))))"

definition provider_doctor :: "env \<Rightarrow> v2v_provider \<Rightarrow> string list act" where
  "provider_doctor E pr =
     bind_act (catch (bind_act (provider_payload E pr ''capabilities'' []) (\<lambda>v. ret (Inr v)))
       (\<lambda>e. ret (Inl [exc_msg e]))) (\<lambda>r.
     case r of Inl problems \<Rightarrow> ret problems | Inr payload \<Rightarrow> lift_res (payload_problems pr payload))"

definition v2v_doctor :: "env \<Rightarrow> v2v_config \<Rightarrow> (string \<times> string list) list act" where
  "v2v_doctor E c =
     (if \<not> v2_enabled c then ret [(''v2v'', [''V2V is disabled by policy''])]
      else bind_act (if v2_builtin_vmware_to_proxmox c
            then bind_act (builtin_doctor E c) (\<lambda>ps. ret [(builtin_pair, ps)]) else ret []) (\<lambda>first.
         bind_act (each (\<lambda>pr. bind_act (provider_doctor E pr) (\<lambda>ps. ret (''provider:'' @ vp_name pr, ps)))
             (filter vp_enabled (v2_providers c))) (\<lambda>rest.
           ret (dict_of (first @ rest)))))"

definition conversion_request ::
  "v2v_provider \<Rightarrow> string \<Rightarrow> point \<Rightarrow> platform_config \<Rightarrow> string \<Rightarrow> (string \<times> json) list \<Rightarrow> bool \<Rightarrow> (string \<times> json) list" where
  "conversion_request pr source p target target_name options dry_run =
     [(''protocol'', JInt 1), (''action'', JStr (if dry_run then ''plan'' else ''convert'')),
      (''certification_id'', JStr (vp_certification_id pr)),
      (''pair'', JStr (v2v_pair (p_platform_type p) (pl_type target))),
      (''source'', JObj [(''path'', JStr source), (''snapshot_id'', JStr (p_snapshot_id p)), (''platform'', JStr (p_platform p)),
         (''platform_type'', JStr (p_platform_type p)), (''vm_name'', JStr (p_vm_name p)), (''manifest_verified'', JBool True)]),
      (''target'', JObj [(''platform'', JStr (pl_name target)), (''platform_type'', JStr (pl_type target)),
         (''target_name'', JStr target_name)]),
      (''options'', JObj options),
      (''safety'', JObj [(''new_vm_only'', JBool True), (''source_read_only'', JBool True), (''automatic_overwrite'', JBool False)])]"

definition attested_keys :: "string list" where
  "attested_keys = [''source_read_only'', ''target_new_vm'', ''network_mapped'', ''rollback_available'']"

text \<open>What the answer of a conversion must attest, and the result it then gives.\<close>

definition conversion_result :: "v2v_provider \<Rightarrow> bool \<Rightarrow> (string \<times> json) list \<Rightarrow> (string \<times> json) list res" where
  "conversion_result pr dry_run payload =
     check_res (map_of payload ''status'' = Some (JStr ''success''))
       (RuntimeError (''certified V2V provider refused operation: '' @
          py_str (or_else (map_of payload ''error'') (or_else (map_of payload ''reason'') (JStr ''unspecified'')))))
    (check_res (map_of payload ''certification_id'' = Some (JStr (vp_certification_id pr)))
       (RuntimeError ''certified V2V provider response certification_id mismatch'')
    (case map_of payload ''result'' of
       Some (JObj result) \<Rightarrow>
         bind_res (if dry_run then Inr result
           else (case map_of payload ''validation'' of
               Some (JObj validation) \<Rightarrow>
                 check_res (list_all (\<lambda>k. map_of validation k = Some (JBool True)) attested_keys)
                   (RuntimeError ''certified V2V provider returned incomplete safety validation'')
                   (Inr (put_key ''validation'' (JObj validation) result))
             | _ \<Rightarrow> Inl (RuntimeError ''certified V2V provider omitted validation attestation''))) (\<lambda>r.
         Inr (put_key ''certification_id'' (JStr (vp_certification_id pr))
           (put_key ''provider'' (JStr (vp_name pr)) (put_key ''mode'' (JStr ''certified-provider-v2v'') r))))
     | _ \<Rightarrow> Inl (RuntimeError ''certified V2V provider omitted result object'')))"

definition execute_provider ::
  "env \<Rightarrow> v2v_provider \<Rightarrow> string \<Rightarrow> point \<Rightarrow> platform_config \<Rightarrow> string \<Rightarrow> (string \<times> json) list \<Rightarrow> bool \<Rightarrow> (string \<times> json) list act" where
  "execute_provider E pr source p target target_name options dry_run =
     bind_act (provider_doctor E pr) (\<lambda>problems.
     then_act (check (problems = []) (RuntimeError (''certified V2V provider preflight failed: '' @ join ''; '' problems)))
     (bind_act (provider_payload E pr (if dry_run then ''plan'' else ''convert'')
         (conversion_request pr source p target target_name options dry_run)) (\<lambda>payload.
      lift_res (conversion_result pr dry_run payload))))"

section \<open>What an allowed plan rests on\<close>

text \<open>A point that may be converted at all.\<close>

definition convertible :: "v2v_config \<Rightarrow> point \<Rightarrow> bool" where
  "convertible c p \<longleftrightarrow> v2_enabled c \<and> (v2_require_verified_point c \<longrightarrow> p_verified p) \<and>
     (p_suspicious p \<longrightarrow> v2_allow_suspicious_points c)"

lemma point_reasons_Nil: "point_reasons c p = [] \<longleftrightarrow> convertible c p"
  by (auto simp: point_reasons_def convertible_def)

lemma storage_reasons_Nil: "storage_reasons st = [] \<longleftrightarrow> id64 st"
  by (auto simp: storage_reasons_def id64_def)

definition served :: "v2v_config \<Rightarrow> string \<Rightarrow> bool" where
  "served c pair \<longleftrightarrow> (\<exists>pr\<in>set (v2_providers c). vp_enabled pr \<and> pair \<in> set (vp_pairs pr))"

lemma provider_for_pair_None: "provider_for_pair c pair = None \<longleftrightarrow> \<not> served c pair"
  by (auto simp: provider_for_pair_def find_None_iff served_def)

lemma lower_lower [simp]: "lower (lower s) = lower s"
proof -
  have "lower_char (lower_char c) = lower_char c" for c
  proof (cases "CHR ''A'' \<le> c \<and> c \<le> CHR ''Z''")
    case True
    then have "(of_char c :: nat) + 32 < 256" "\<not> (of_char c :: nat) + 32 \<le> 90"
      by (auto simp: less_eq_char_def)
    then have "\<not> char_of (of_char c + (32::nat)) \<le> CHR ''Z''"
      by (simp add: less_eq_char_def of_char_of)
    with True show ?thesis by (simp add: lower_char_def)
  qed (auto simp: lower_char_def)
  then show ?thesis by (simp add: lower_def)
qed

lemma point_pair [simp]: "v2v_pair (lower a) (lower b) = v2v_pair a b"
  by (simp add: v2v_pair_def)

definition exported :: "point \<Rightarrow> bool" where
  "exported p \<longleftrightarrow> (\<exists>t\<in>set export_transports. vmware_transport p = Some t)"

lemma exported_case: "exported p \<longleftrightarrow> (case vmware_transport p of Some t \<Rightarrow> List.member export_transports t | None \<Rightarrow> False)"
  by (auto simp: exported_def split: option.split)

text \<open>Native plans; plans of the built-in converter; the others.\<close>

definition built_in :: "v2v_config \<Rightarrow> point \<Rightarrow> platform_config \<Rightarrow> bool" where
  "built_in c p target \<longleftrightarrow> v2v_pair (p_platform_type p) (pl_type target) = builtin_pair \<and> v2_builtin_vmware_to_proxmox c"

lemma base_plan_native:
  "lower (p_platform_type p) = lower (pl_type target) \<Longrightarrow>
   vn_allowed (base_plan c p target options) \<and> vn_mode (base_plan c p target options) = ''native'' \<and>
   vn_reasons (base_plan c p target options) = []"
  by (simp add: base_plan_def Let_def)

lemma base_plan_builtin:
  "lower (p_platform_type p) \<noteq> lower (pl_type target) \<Longrightarrow> built_in c p target \<Longrightarrow>
   vn_mode (base_plan c p target options) = ''builtin'' \<and>
   (vn_allowed (base_plan c p target options) \<longleftrightarrow> vn_reasons (base_plan c p target options) = []) \<and>
   (vn_reasons (base_plan c p target options) = [] \<longleftrightarrow> convertible c p \<and> id64 (v2v_storage options target))"
  by (simp add: base_plan_def Let_def built_in_def point_reasons_Nil storage_reasons_Nil)

lemma base_plan_provider:
  "lower (p_platform_type p) \<noteq> lower (pl_type target) \<Longrightarrow> \<not> built_in c p target \<Longrightarrow>
   vn_mode (base_plan c p target options) \<noteq> ''builtin'' \<and>
   (vn_allowed (base_plan c p target options) \<longleftrightarrow> vn_reasons (base_plan c p target options) = []) \<and>
   (vn_reasons (base_plan c p target options) = [] \<longleftrightarrow>
      convertible c p \<and> served c (v2v_pair (p_platform_type p) (pl_type target)))"
  using provider_for_pair_None [of c "v2v_pair (p_platform_type p) (pl_type target)"]
  by (auto simp: base_plan_def Let_def built_in_def point_reasons_Nil split: option.split)

text \<open>
  C15. A recovery is planned as allowed exactly when the platforms are of one family, or cross-hypervisor
  recovery is on, the point is verified and not suspicious (unless the policy waives either), and the
  conversion itself is certified: for VMware to Proxmox the built-in converter needs a valid target
  storage and a point whose metadata attests an export layout, every other pair needs an enabled provider
  that lists it. A plan is refused exactly when it gives reasons.
\<close>

theorem plan_certified:
  "(vn_allowed (plan_v2v c p target options) \<longleftrightarrow>
     lower (p_platform_type p) = lower (pl_type target) \<or>
     convertible c p \<and>
       (if built_in c p target then id64 (v2v_storage options target) \<and> exported p
        else served c (v2v_pair (p_platform_type p) (pl_type target)))) \<and>
   (vn_allowed (plan_v2v c p target options) \<longleftrightarrow> vn_reasons (plan_v2v c p target options) = [])"
proof -
  let ?b = "base_plan c p target options"
  have plan: "plan_v2v c p target options =
      (if v2v_pair (p_platform_type p) (pl_type target) \<noteq> builtin_pair \<or> vn_mode ?b \<noteq> ''builtin'' \<or> \<not> vn_allowed ?b \<or> exported p
       then ?b else ?b\<lparr>vn_allowed := False, vn_reasons := vn_reasons ?b @ [transport_reason (vmware_transport p)]\<rparr>)"
    by (simp add: plan_v2v_def Let_def exported_case)
  consider "lower (p_platform_type p) = lower (pl_type target)"
    | "lower (p_platform_type p) \<noteq> lower (pl_type target)" "built_in c p target"
    | "lower (p_platform_type p) \<noteq> lower (pl_type target)" "\<not> built_in c p target" by blast
  then show ?thesis
  proof cases
    case 1
    with base_plan_native [OF 1, of c options] show ?thesis by (simp add: plan)
  next
    case 2
    with base_plan_builtin [OF 2, of options] show ?thesis by (auto simp: plan built_in_def)
  next
    case 3
    with base_plan_provider [OF 3, of options] show ?thesis by (auto simp: plan)
  qed
qed

section \<open>Helpers run as pinned\<close>

definition capabilities_call :: "v2v_provider \<Rightarrow> call" where
  "capabilities_call pr = RunInput [norm_path (vp_helper pr), ''capabilities''] [] (dumps_compact (JObj []))"

text \<open>The helper has been asked what it can do, and its answer raised no objection.\<close>

definition preflighted :: "env \<Rightarrow> v2v_provider \<Rightarrow> call list \<Rightarrow> bool" where
  "preflighted E pr h \<longleftrightarrow> (\<exists>a b out err kvs. h = a @ capabilities_call pr # b \<and>
     run_reply E a (capabilities_call pr) = Inr (0, out, err) \<and> loads out = Some (JObj kvs) \<and>
     payload_problems pr kvs = Inr [])"

text \<open>A program is only run on the text of a request if it is the helper, read right before with the
  pinned digest, and if it was preflighted for anything but telling what it can do.\<close>

definition pinned :: "env \<Rightarrow> v2v_provider \<Rightarrow> call list \<Rightarrow> call \<Rightarrow> bool" where
  "pinned E pr h c \<longleftrightarrow> (\<forall>cmd envs input. c = RunInput cmd envs input \<longrightarrow>
     (\<exists>g contents action. h = g @ [ReadText (norm_path (vp_helper pr))] \<and>
        text_reply E g (ReadText (norm_path (vp_helper pr))) = Inr contents \<and> sha256_hex contents = vp_sha256 pr \<and>
        cmd = [norm_path (vp_helper pr), action] \<and> (action = ''capabilities'' \<or> preflighted E pr h)))"

lemma preflighted_later: "preflighted E pr h \<Longrightarrow> preflighted E pr (h @ cs)"
  unfolding preflighted_def by (metis append.assoc append_Cons)

lemma payload_run:
  assumes "action = ''capabilities'' \<or> preflighted E pr (trace s)"
  shows "does (pinned E pr) s (snd (provider_payload E pr action request s))"
proof -
  let ?helper = "norm_path (vp_helper pr)"
  have quiet: "pinned E pr h (IsFile x)" "pinned E pr h (Executable x)" "pinned E pr h (ReadText x)" for h x
    by (simp_all add: pinned_def)
  show ?thesis
    unfolding provider_payload_def Let_def
  proof (rule does.bind_at, goal_cases)
    case 1 show ?case by (rule does_ask_at) (rule quiet)
  next
    case (2 isfile t)
    then have t: "trace t = trace s @ [IsFile ?helper]" by (auto simp: ask_def)
    show ?case
    proof (rule does.bind_at, goal_cases)
      case 1 show ?case by (rule does.steps_at) (intro does.steps_if does_ask does.steps_ret quiet)
    next
      case (2 exec u)
      then obtain cs where u: "trace u = trace s @ cs" using t by (auto simp: ask_def split: if_splits)
      show ?case
      proof (rule does.then_at, goal_cases)
        case 1 show ?case by (rule does.steps_at) (rule does.steps_check)
      next
        case (2 y v)
        then have v: "trace v = trace s @ cs" using u by (auto simp: check_Inr)
        show ?case
        proof (rule does.bind_at, goal_cases)
          case 1 show ?case by (rule does_ask_at) (rule quiet)
        next
          case (2 contents w)
          then have w: "trace w = trace v @ [ReadText ?helper]" "text_reply E (trace v) (ReadText ?helper) = Inr contents"
            by (auto simp: ask_def)
          show ?case
          proof (rule does.then_at, goal_cases)
            case 1 show ?case by (rule does.steps_at) (rule does.steps_check)
          next
            case (2 z w')
            then have pin: "sha256_hex contents = vp_sha256 pr" "w' = w" by (auto simp: check_Inr)
            have "preflighted E pr (trace w)" if "preflighted E pr (trace s)"
              using preflighted_later [OF that] v w(1) by simp
            with pin assms w have run: "pinned E pr (trace w) (RunInput [?helper, action] [] i)" for i
              by (auto simp: pinned_def)
            show ?case
            proof (rule does.bind_at, goal_cases)
              case 1 show ?case using pin(2) run by (intro does_ask_at) simp
            next
              case (2 r x) show ?case
                by (rule does.steps_at) (intro does.steps_prod does.steps_then does.steps_check does.steps_bind
                  does.steps_need, auto split: json.split intro: does.steps_ret [unfolded ret_def] does.steps_throw [unfolded throw_def])
            qed
          qed
        qed
      qed
    qed
  qed
qed

lemma payload_result:
  assumes "provider_payload E pr action request s = (Inr kvs, t)"
  shows "\<exists>a out err. trace t = a @ [RunInput [norm_path (vp_helper pr), action] [] (dumps_compact (JObj request))] \<and>
     run_reply E a (RunInput [norm_path (vp_helper pr), action] [] (dumps_compact (JObj request))) = Inr (0, out, err) \<and>
     loads out = Some (JObj kvs)"
proof -
  let ?call = "RunInput [norm_path (vp_helper pr), action] [] (dumps_compact (JObj request))"
  obtain v w r where run: "ask (run_reply E) ?call v = (Inr r, w)" and
    rest: "(case r of (code, out, err) \<Rightarrow>
         then_act (check (code = 0) (RuntimeError (provider_text pr @ '' '' @ action @ '' failed: '' @ strip whitespace err)))
        (bind_act (need (loads out) (RuntimeError (provider_text pr @ '' returned invalid JSON''))) (\<lambda>v.
         case v of JObj kvs \<Rightarrow> ret kvs | _ \<Rightarrow> throw (RuntimeError (provider_text pr @ '' returned a non-object response''))))) w =
       (Inr kvs, t)"
    using assms unfolding provider_payload_def Let_def bind_Inr then_Inr by blast
  obtain code out err where r: "r = (code, out, err)" by (cases r)
  obtain x where x: "code = 0" "loads out = Some x"
    "(case x of JObj kvs \<Rightarrow> ret kvs | _ \<Rightarrow> throw (RuntimeError (provider_text pr @ '' returned a non-object response''))) w = (Inr kvs, t)"
    using rest unfolding r prod.case run_Inr by blast
  then have "x = JObj kvs \<and> t = w" by (cases x) auto
  with x run r show ?thesis by (auto simp: ask_def)
qed

lemma doctor_result:
  assumes "provider_doctor E pr s = (Inr [], t)"
  shows "preflighted E pr (trace t)"
proof -
  let ?first = "bind_act (provider_payload E pr ''capabilities'' []) (\<lambda>v. ret (Inr v)) :: (string list + (string \<times> json) list) act"
  obtain q u where q: "catch ?first (\<lambda>e. ret (Inl [exc_msg e])) s = (Inr q, u)"
    and rest: "(case q of Inl problems \<Rightarrow> ret problems | Inr payload \<Rightarrow> lift_res (payload_problems pr payload)) u = (Inr [], t)"
    using assms unfolding provider_doctor_def bind_Inr by blast
  obtain f v where f: "?first s = (f, v)" by (cases "?first s")
  obtain payload where payload: "q = Inr payload" "payload_problems pr payload = Inr []" "t = u" "f = Inr (Inr payload)" "v = u"
    using q rest f by (cases f; cases q) (auto simp: catch_def lift_Inr bind_Inr)
  then obtain w where "provider_payload E pr ''capabilities'' [] s = (Inr payload, w)" "w = u"
    using f by (auto simp: bind_Inr)
  from payload_result [OF this(1)] this(2) payload show ?thesis
    unfolding preflighted_def capabilities_call_def by auto
qed

text \<open>
  C23. A conversion by a provider only ever runs the helper of that provider, each time right after the file
  was read and found to have the configured SHA-256 digest; and it is asked to plan or convert only after
  it answered, in the same conversion, that it speaks the protocol under the configured certification, serves
  all configured pairs and has the required safety features.
\<close>

theorem provider_helper_pinned:
  "does (pinned E pr) s (snd (execute_provider E pr source p target name options dry s))"
  unfolding execute_provider_def
proof (rule does.bind_at, goal_cases)
  case 1
  have "steps (does (pinned E pr)) (provider_payload E pr ''capabilities'' [])"
    by (rule does.stepsI) (simp add: payload_run)
  then show ?case
    unfolding provider_doctor_def
    by (intro does.steps_at does.steps_bind does.steps_catch does.steps_ret does.steps_sum)
      (simp_all add: steps_def lift_res_def does.R_refl)
next
  case (2 problems t)
  show ?case
  proof (rule does.then_at, goal_cases)
    case 1 show ?case by (rule does.steps_at) (rule does.steps_check)
  next
    case (2 x u)
    then have "problems = []" "u = t" by (auto simp: check_Inr)
    with \<open>provider_doctor E pr s = (Inr problems, t)\<close> have ok: "preflighted E pr (trace u)"
      by (simp add: doctor_result)
    show ?case
      by (rule does.bind_at, simp add: payload_run ok) (simp add: lift_res_def does.R_refl)
  qed
qed

end
