(* ===== verification/V2v_Guest.thy ===== *)
theory V2v_Guest
  imports V2v_Plan
begin

text \<open>
  Conversion of a VMware recovery point: \<open>_prepare_ova\<close>, \<open>_inspection\<close>, \<open>_memory_mib\<close>, \<open>_parse_bundle\<close> and
  \<open>_convert_vmware\<close> of \<open>v2v.py\<close> as \<open>v2v_cert.py\<close> overrides them. The lemmas show what an inspected
  guest is known to be and that what comes out of a conversion fits what was inspected.
\<close>

section \<open>XML\<close>

fun xml_tag :: "xml \<Rightarrow> string" where
  "xml_tag (Xml t as body cs) = t"

fun xml_attrs :: "xml \<Rightarrow> (string \<times> string) list" where
  "xml_attrs (Xml t as body cs) = as"

fun xml_body :: "xml \<Rightarrow> string" where
  "xml_body (Xml t as body cs) = body"

fun xml_children :: "xml \<Rightarrow> xml list" where
  "xml_children (Xml t as body cs) = cs"

text \<open>A tag or attribute name whatever its namespace: \<open>{*}tag\<close>.\<close>

definition local_name :: "string \<Rightarrow> string \<Rightarrow> bool" where
  "local_name suffix t \<longleftrightarrow> t = suffix \<or> (length suffix < length t \<and> drop (length t - length suffix - 1) t = ''}'' @ suffix)"

text \<open>The proper descendants in document order, and those that a path \<open>.//{*}tag\<close> finds.\<close>

fun descendants :: "xml \<Rightarrow> xml list" where
  "descendants (Xml t as body cs) = concat (map (\<lambda>c. c # descendants c) cs)"

definition find_all :: "string \<Rightarrow> xml \<Rightarrow> xml list" where
  "find_all tag x = filter (\<lambda>y. local_name tag (xml_tag y)) (descendants x)"

definition children_named :: "string \<Rightarrow> xml \<Rightarrow> xml list" where
  "children_named tag x = filter (\<lambda>y. xml_tag y = tag) (xml_children x)"

definition child_named :: "string \<Rightarrow> xml \<Rightarrow> xml option" where
  "child_named tag x = find (\<lambda>y. xml_tag y = tag) (xml_children x)"

text \<open>\<open>node.findtext(tag) or ""\<close>, and \<open>root.findall("./a/b")\<close>.\<close>

definition child_body :: "string \<Rightarrow> xml \<Rightarrow> string" where
  "child_body tag x = (case child_named tag x of Some y \<Rightarrow> xml_body y | None \<Rightarrow> [])"

definition nodes_under :: "string \<Rightarrow> string \<Rightarrow> xml \<Rightarrow> xml list" where
  "nodes_under a b x = concat (map (children_named b) (children_named a x))"

definition ovf_attr :: "xml \<Rightarrow> string \<Rightarrow> string option" where
  "ovf_attr x suffix = map_option snd (find (\<lambda>(k, v). local_name suffix k) (xml_attrs x))"

definition child_text :: "xml \<Rightarrow> string \<Rightarrow> string option" where
  "child_text x suffix =
     (case find (\<lambda>y. local_name suffix (xml_tag y)) (xml_children x) of
        Some y \<Rightarrow> (let v = strip whitespace (xml_body y) in if v = [] then None else Some v)
      | None \<Rightarrow> None)"

definition parse_xml :: "env \<Rightarrow> string \<Rightarrow> string \<Rightarrow> xml act" where
  "parse_xml E path problem =
     bind_act (ask (text_reply E) (ReadXml path)) (\<lambda>t. need (xml_of E t) (RuntimeError problem))"

section \<open>The OVA\<close>

record ovf_flags =
  fl_secure_boot :: bool
  fl_source_tpm :: bool
  fl_firmware_hint :: string
  fl_source_networks :: "string list"

definition has_suffix :: "string \<Rightarrow> string \<Rightarrow> bool" where
  "has_suffix e s \<longleftrightarrow> length e \<le> length s \<and> drop (length s - length e) s = e"

definition in_path_order :: "(string \<times> int) list \<Rightarrow> string list" where
  "in_path_order files = sort_key (split_on (CHR ''/'')) (map fst files)"

definition refuse_symlink :: "env \<Rightarrow> string \<Rightarrow> unit act" where
  "refuse_symlink E item =
     bind_act (ask (bool_reply E) (IsSymlink item)) (\<lambda>linked.
       check (\<not> linked) (RuntimeError (''VMware V2V source contains a symlink and is rejected: '' @ item)))"

definition ovf_descriptors :: "env \<Rightarrow> string \<Rightarrow> string list act" where
  "ovf_descriptors E source =
     bind_act (ask (listing_reply E) (Glob source ''**'')) (\<lambda>files.
       ret (filter (\<lambda>p. has_suffix ''.ovf'' (path_name p)) (in_path_order files)))"

text \<open>A file that the descriptor references: a plain name of a regular file beside it.\<close>

definition referenced_file :: "env \<Rightarrow> string \<Rightarrow> string \<Rightarrow> string act" where
  "referenced_file E ovf href =
     (let parts = filter (\<lambda>c. c \<noteq> [] \<and> c \<noteq> ''.'') (split_on (CHR ''/'') href);
          candidate = path_div (path_parent ovf) href
      in then_act (check (\<not> starts_with ''/'' href \<and> \<not> List.member parts ''..'' \<and> length parts = 1)
           (RuntimeError (''OVF contains unsafe external file reference: '' @ repr_str href)))
         (bind_act (ask (bool_reply E) (IsFile candidate)) (\<lambda>isfile.
          bind_act (if isfile then ask (bool_reply E) (IsSymlink candidate) else ret True) (\<lambda>linked.
          then_act (check (\<not> linked) (RuntimeError (''OVF referenced file is missing or unsafe: '' @ repr_str href)))
            (ret candidate)))))"

text \<open>\<open>files\<close> and \<open>seen\<close>: the first file of every name.\<close>

fun first_by_name :: "string list \<Rightarrow> string list \<Rightarrow> string list" where
  "first_by_name seen [] = []"
| "first_by_name seen (p # ps) =
     (if List.member seen (path_name p) then first_by_name seen ps else p # first_by_name (path_name p # seen) ps)"

definition is_vmdk :: "string \<Rightarrow> bool" where
  "is_vmdk p \<longleftrightarrow> has_suffix ''.vmdk'' (lower (path_name p)) \<and> 5 < length (path_name p)"

text \<open>A manifest beside the descriptor is added unless its name is taken or it is a symbolic link.\<close>

fun add_manifests :: "env \<Rightarrow> string list \<Rightarrow> string list \<Rightarrow> string list act" where
  "add_manifests E files [] = ret files"
| "add_manifests E files (m # ms) =
     bind_act (if List.member (map path_name files) (path_name m) then ret True else ask (bool_reply E) (IsSymlink m))
       (\<lambda>skip. add_manifests E (if skip then files else files @ [m]) ms)"

definition contains_any :: "string list \<Rightarrow> string \<Rightarrow> bool" where
  "contains_any ws s \<longleftrightarrow> list_ex (\<lambda>w. contains w s) ws"

definition flags_of :: "xml \<Rightarrow> string \<Rightarrow> ovf_flags" where
  "flags_of tree contents =
     (let t = lower contents
      in \<lparr>fl_secure_boot = contains_any [''secureboot'', ''secure boot''] t \<and> contains_any [''true'', ''enabled''] t,
          fl_source_tpm = contains_any [''virtualtpm'', ''vtpm'', ''trustedplatformmodule''] t,
          fl_firmware_hint = (if contains ''firmware'' t \<and> contains ''efi'' t then ''uefi'' else ''bios''),
          fl_source_networks = rev (remdups (rev (List.map_filter
            (\<lambda>n. case ovf_attr n ''name'' of Some v \<Rightarrow> if v = [] then None else Some v | None \<Rightarrow> None)
            (find_all ''Network'' tree))))\<rparr>)"

definition base_prepare_ova :: "env \<Rightarrow> string \<Rightarrow> string \<Rightarrow> (string \<times> ovf_flags) act" where
  "base_prepare_ova E source work =
     bind_act (ask (bool_reply E) (IsDir source)) (\<lambda>isdir.
     then_act (check isdir (RuntimeError ''VMware V2V source must be a restored recovery-point directory''))
    (bind_act (ask (listing_reply E) (Glob source ''**'')) (\<lambda>items.
     bind_act (each (refuse_symlink E) (map fst items)) (\<lambda>_.
     bind_act (ovf_descriptors E source) (\<lambda>ovfs.
     then_act (check (length ovfs = 1)
       (RuntimeError (''VMware V2V requires exactly one OVF descriptor; found '' @ show_nat (length ovfs))))
    (let ovf = hd ovfs; ova = path_div work ''source.ova''
     in bind_act (parse_xml E ovf ''VMware OVF descriptor is malformed'') (\<lambda>tree.
        bind_act (each (referenced_file E ovf) (filter (\<lambda>h. h \<noteq> [])
            (List.map_filter (\<lambda>n. ovf_attr n ''href'') (find_all ''File'' tree)))) (\<lambda>candidates.
        let files = first_by_name [] (ovf # candidates)
        in then_act (check (list_ex is_vmdk files) (RuntimeError ''VMware OVF does not reference a VMDK disk''))
          (bind_act (ask (listing_reply E) (Glob (path_parent ovf) ''*.mf'')) (\<lambda>manifests.
           bind_act (add_manifests E files (in_path_order manifests)) (\<lambda>members.
           bind_act (ask (text_reply E) (ReadText ovf)) (\<lambda>contents.
           then_act (ask (done_reply E) (MakeTar ova members))
             (ret (ova, flags_of tree contents))))))))))))))"

section \<open>The certified descriptor\<close>

text \<open>Network adapters are the hardware items of resource type 10; each must name its connection.\<close>

definition nic_connection :: "xml \<Rightarrow> string res" where
  "nic_connection item =
     (case child_text item ''Connection'' of Some c \<Rightarrow> Inr c
      | None \<Rightarrow> Inl (RuntimeError ''OVF NIC is missing an explicit Connection; refusing ambiguous network remap''))"

definition nic_connections :: "xml \<Rightarrow> string list res" where
  "nic_connections tree =
     map_res nic_connection (filter (\<lambda>i. child_text i ''ResourceType'' = Some ''10'') (find_all ''Item'' tree))"

definition firmware_evidence :: "string \<Rightarrow> string" where
  "firmware_evidence contents =
     (if contains_any [''uefi'', ''efi''] (lower contents) then ''uefi''
      else if contains_any [''bios'', ''legacy''] (lower contents) then ''bios'' else ''unknown'')"

definition prepare_ova :: "env \<Rightarrow> string \<Rightarrow> string \<Rightarrow> (string \<times> ovf_flags) act" where
  "prepare_ova E source work =
     bind_act (base_prepare_ova E source work) (\<lambda>(ova, flags).
     bind_act (ovf_descriptors E source) (\<lambda>ovfs.
     if length ovfs \<noteq> 1 then ret (ova, flags)
     else bind_act (ask (text_reply E) (ReadXml (hd ovfs))) (\<lambda>descriptor.
       case xml_of E descriptor of
         None \<Rightarrow> ret (ova, flags)
       | Some tree \<Rightarrow>
           bind_act (lift_res (nic_connections tree)) (\<lambda>connections.
           bind_act (ask (text_reply E) (ReadText (hd ovfs))) (\<lambda>contents.
             ret (ova, flags\<lparr>fl_source_networks := if connections = [] then fl_source_networks flags else connections,
               fl_firmware_hint := firmware_evidence contents\<rparr>))))))"

section \<open>The inspection\<close>

record v2v_inspection =
  vi_os_family :: string
  vi_distro :: string
  vi_osinfo :: string
  vi_arch :: string
  vi_firmware :: string
  vi_disk_count :: nat
  vi_virtual_bytes :: int
  vi_secure_boot :: bool
  vi_source_tpm :: bool
  vi_source_networks :: "string list"

definition inspection_dict :: "v2v_inspection \<Rightarrow> (string \<times> json) list" where
  "inspection_dict i =
     [(''os_family'', JStr (vi_os_family i)), (''distro'', JStr (vi_distro i)), (''osinfo'', JStr (vi_osinfo i)),
      (''arch'', JStr (vi_arch i)), (''firmware'', JStr (vi_firmware i)), (''disk_count'', JInt (int (vi_disk_count i))),
      (''virtual_bytes'', JInt (vi_virtual_bytes i)), (''secure_boot'', JBool (vi_secure_boot i)),
      (''source_tpm'', JBool (vi_source_tpm i)), (''source_networks'', errors_json (vi_source_networks i))]"

definition virtio_windows_available :: "env \<Rightarrow> bool act" where
  "virtio_windows_available E =
     bind_act (if opt_nonempty (getenv E ''VIRTIO_WIN'')
       then ask (bool_reply E) (PathExists (norm_path (the (getenv E ''VIRTIO_WIN'')))) else ret False) (\<lambda>configured.
     if configured then ret True
     else bind_act (ask (bool_reply E) (PathExists ''/usr/share/virtio-win'')) (\<lambda>installed.
       if installed then ret True else ask (bool_reply E) (PathExists ''/usr/share/virtio-win/virtio-win.iso'')))"

definition lowered :: "string \<Rightarrow> xml \<Rightarrow> string" where
  "lowered tag x = lower (strip whitespace (child_body tag x))"

definition guest_firmware :: "xml \<Rightarrow> string \<Rightarrow> string" where
  "guest_firmware tree hint =
     (let firmware = lower (case child_named ''firmware'' tree of
            Some x \<Rightarrow> (case map_of (xml_attrs x) ''type'' of Some t \<Rightarrow> t | None \<Rightarrow> []) | None \<Rightarrow> [])
      in if List.member [''efi'', ''uefi''] firmware then ''uefi''
         else if List.member [''bios'', ''legacy''] firmware then ''bios''
         else if hint = [] then ''bios'' else hint)"

definition disk_bytes :: "xml \<Rightarrow> int res" where
  "disk_bytes disk =
     (let body = child_body ''virtual-size'' disk; size = strip whitespace (if body = [] then ''0'' else body)
      in if size = [] then Inr 0 else py_int (JStr size))"

text \<open>What the inspector reports, before the policy is applied.\<close>

definition inspected :: "xml \<Rightarrow> ovf_flags \<Rightarrow> v2v_inspection res" where
  "inspected tree flags =
     (case child_named ''operatingsystem'' tree of
        None \<Rightarrow> Inl (RuntimeError ''virt-v2v-inspector did not identify an operating system'')
      | Some os \<Rightarrow>
          (let family = lowered ''name'' os; arch = lowered ''arch'' os; disks = nodes_under ''disks'' ''disk'' tree
           in check_res (List.member [''linux'', ''windows''] family)
                (RuntimeError (''guest OS family '' @ (if family = [] then ''unknown'' else family) @
                   '' is outside the certified V2V matrix''))
             (check_res (List.member [''x86_64'', ''amd64''] arch)
                (RuntimeError (''guest architecture '' @ (if arch = [] then ''unknown'' else arch) @
                   '' is outside the certified V2V matrix''))
             (bind_res (map_res disk_bytes disks) (\<lambda>sizes.
              Inr \<lparr>vi_os_family = family, vi_distro = lowered ''distro'' os, vi_osinfo = lowered ''osinfo'' os,
                vi_arch = arch, vi_firmware = guest_firmware tree (fl_firmware_hint flags), vi_disk_count = length disks,
                vi_virtual_bytes = sum_list sizes, vi_secure_boot = fl_secure_boot flags,
                vi_source_tpm = fl_source_tpm flags, vi_source_networks = fl_source_networks flags\<rparr>)))))"

text \<open>The guests that the policy lets through, but for the drivers of a Windows guest.\<close>

definition guest_policy :: "v2v_config \<Rightarrow> v2v_inspection \<Rightarrow> unit res" where
  "guest_policy c i =
     check_res (1 \<le> vi_disk_count i \<and> int (vi_disk_count i) \<le> v2_max_disks c)
       (RuntimeError (''guest disk count '' @ show_nat (vi_disk_count i) @ '' exceeds certified limit '' @ show_int (v2_max_disks c)))
    (check_res (vi_virtual_bytes i \<le> v2_max_virtual_bytes c)
       (RuntimeError ''guest virtual disk capacity exceeds configured V2V safety limit'')
    (check_res (vi_firmware i = ''uefi'' \<longrightarrow> v2_allow_uefi c) (RuntimeError ''UEFI V2V is disabled by policy'')
    (check_res (vi_secure_boot i \<longrightarrow> v2_allow_secure_boot c)
       (RuntimeError ''Secure Boot guest is blocked; v1.0 does not migrate source Secure Boot trust state'')
    (check_res (\<not> vi_source_tpm i)
       (RuntimeError ''source virtual TPM detected; v1.0 refuses to fabricate or discard TPM state'')
    (Inr ())))))"

definition inspection :: "env \<Rightarrow> v2v_config \<Rightarrow> string \<Rightarrow> ovf_flags \<Rightarrow> v2v_inspection act" where
  "inspection E c ova flags =
     bind_act (run_command E [''virt-v2v-inspector'', ''-i'', ''ova'', ova, ''-O'', ''-''] [] True) (\<lambda>(code, out, err).
     bind_act (need (xml_of E out) (RuntimeError ''virt-v2v-inspector returned malformed XML'')) (\<lambda>tree.
     bind_act (lift_res (inspected tree flags)) (\<lambda>i.
     then_act (lift_res (guest_policy c i))
    (bind_act (if vi_os_family i = ''windows'' then virtio_windows_available E else ret True) (\<lambda>drivers.
     then_act (check drivers (RuntimeError
       ''Windows V2V requires signed VirtIO drivers; configure VIRTIO_WIN or install /usr/share/virtio-win''))
    (then_act (check (List.member [''bios'', ''uefi''] (vi_firmware i))
       (RuntimeError ''guest firmware could not be attested as BIOS or UEFI; built-in V2V refuses to guess''))
      (ret i)))))))"

section \<open>The converted bundle\<close>

record converted_disk =
  cd_path :: string
  cd_format :: string
  cd_virtual_size :: int

record converted_nic =
  cn_mac :: "string option"
  cn_source_network :: "string option"

record converted_bundle =
  cb_domain_xml :: string
  cb_disks :: "converted_disk list"
  cb_nics :: "converted_nic list"
  cb_memory_mib :: int
  cb_vcpus :: int
  cb_firmware :: string
  cb_inspection :: v2v_inspection

definition memory_mib :: "xml option \<Rightarrow> int res" where
  "memory_mib node =
     (case node of
        None \<Rightarrow> Inr 2048
      | Some x \<Rightarrow>
          (let body = strip whitespace (xml_body x);
               unit = lower (case map_of (xml_attrs x) ''unit'' of Some u \<Rightarrow> u | None \<Rightarrow> ''KiB'')
           in if body = [] then Inr 2048
              else bind_res (py_int (JStr body)) (\<lambda>v.
                if List.member [''kib'', ''kb''] unit then Inr (max 128 ((v + 1023) div 1024))
                else if List.member [''mib'', ''mb''] unit then Inr (max 128 v)
                else if List.member [''gib'', ''gb''] unit then Inr (max 128 (v * 1024))
                else if List.member [''b'', ''bytes''] unit then Inr (max 128 ((v + 1024 * 1024 - 1) div (1024 * 1024)))
                else Inl (RuntimeError (''unsupported libvirt memory unit: '' @ unit)))))"

text \<open>The file of a disk node; other devices and disks without a file are passed over.\<close>

definition disk_file :: "xml \<Rightarrow> string option" where
  "disk_file node =
     (if map_of (xml_attrs node) ''device'' \<noteq> Some ''disk'' then None
      else (case child_named ''source'' node of None \<Rightarrow> None
        | Some x \<Rightarrow> (case map_of (xml_attrs x) ''file'' of None \<Rightarrow> None | Some f \<Rightarrow> if f = [] then None else Some f)))"

definition image_info :: "string \<Rightarrow> string \<Rightarrow> (string \<times> int) res" where
  "image_info path out =
     (case (case loads out of
            Some (JObj kvs) \<Rightarrow> (case (map_of kvs ''format'', map_of kvs ''virtual-size'') of
                (Some f, Some n) \<Rightarrow> (case py_int n of Inr i \<Rightarrow> Some (py_str f, i) | Inl e \<Rightarrow> None) | _ \<Rightarrow> None)
          | _ \<Rightarrow> None) of
        Some r \<Rightarrow> Inr r
      | None \<Rightarrow> Inl (RuntimeError (''qemu-img returned invalid metadata for '' @ path)))"

definition converted_image :: "env \<Rightarrow> string \<Rightarrow> string \<Rightarrow> converted_disk act" where
  "converted_image E dir file_name =
     bind_act (if starts_with ''/'' file_name then ret (norm_path file_name)
       else ask (text_reply E) (Resolve (path_div dir file_name))) (\<lambda>path.
     bind_act (ask (bool_reply E) (IsFile path)) (\<lambda>isfile.
     bind_act (if isfile then ask (bool_reply E) (IsSymlink path) else ret True) (\<lambda>linked.
     then_act (check (\<not> linked) (RuntimeError (''virt-v2v output disk is missing or unsafe: '' @ path)))
    (bind_act (run_command E [''qemu-img'', ''info'', ''--output=json'', path] [] True) (\<lambda>(code, out, err).
     bind_act (lift_res (image_info path out)) (\<lambda>(fmt, size).
     then_act (check (List.member [''qcow2'', ''raw''] fmt)
       (RuntimeError (''unexpected converted disk format '' @ repr_str fmt)))
      (ret \<lparr>cd_path = path, cd_format = fmt, cd_virtual_size = size\<rparr>)))))))"

definition nic_of :: "xml \<Rightarrow> converted_nic" where
  "nic_of node =
     \<lparr>cn_mac = Option.bind (child_named ''mac'' node) (\<lambda>x. map_of (xml_attrs x) ''address''),
      cn_source_network = Option.bind (child_named ''source'' node) (\<lambda>x.
        case map_of (xml_attrs x) ''network'' of
          Some n \<Rightarrow> if n \<noteq> [] then Some n else map_of (xml_attrs x) ''bridge''
        | None \<Rightarrow> map_of (xml_attrs x) ''bridge'')\<rparr>"

definition vcpu_count :: "xml \<Rightarrow> int res" where
  "vcpu_count tree =
     (let body = child_body ''vcpu'' tree; n = strip whitespace (if body = [] then ''2'' else body)
      in bind_res (if n = [] then Inr 2 else py_int (JStr n)) (\<lambda>v.
         check_res (1 \<le> v \<and> v \<le> 1024) (RuntimeError (''converted vCPU count '' @ show_int v @ '' is outside safety bounds''))
           (Inr v)))"

definition base_parse_bundle :: "env \<Rightarrow> string \<Rightarrow> v2v_inspection \<Rightarrow> converted_bundle act" where
  "base_parse_bundle E dir i =
     bind_act (ask (listing_reply E) (Glob dir ''*.xml'')) (\<lambda>found.
     let xmls = in_path_order found; domain_xml = hd xmls
     in then_act (check (length xmls = 1) (RuntimeError
           (''virt-v2v output must contain exactly one libvirt XML descriptor; found '' @ show_nat (length xmls))))
       (bind_act (parse_xml E domain_xml ''virt-v2v output libvirt XML is malformed'') (\<lambda>tree.
        bind_act (each (converted_image E (path_parent domain_xml))
            (List.map_filter disk_file (nodes_under ''devices'' ''disk'' tree))) (\<lambda>disks.
        then_act (check (length disks = vi_disk_count i) (RuntimeError (''converted disk count '' @ show_nat (length disks) @
           '' does not match inspected source count '' @ show_nat (vi_disk_count i))))
       (bind_act (lift_res (memory_mib (child_named ''memory'' tree))) (\<lambda>memory.
        bind_act (lift_res (vcpu_count tree)) (\<lambda>vcpus.
        ret \<lparr>cb_domain_xml = domain_xml, cb_disks = disks, cb_nics = map nic_of (nodes_under ''devices'' ''interface'' tree),
          cb_memory_mib = memory, cb_vcpus = vcpus, cb_firmware = vi_firmware i, cb_inspection = i\<rparr>)))))))"

text \<open>The network of each adapter is the one that the OVF attests, in order.\<close>

definition attested_bundle :: "v2v_config \<Rightarrow> converted_bundle \<Rightarrow> v2v_inspection \<Rightarrow> converted_bundle res" where
  "attested_bundle c b i =
     (if vi_source_networks i \<noteq> []
      then check_res (length (vi_source_networks i) = length (cb_nics b)) (RuntimeError
           ''converted NIC count does not match OVF NIC Connection metadata; refusing ambiguous network remap'')
         (Inr (b\<lparr>cb_nics := map2 (\<lambda>n network. n\<lparr>cn_source_network := Some network\<rparr>) (cb_nics b) (vi_source_networks i)\<rparr>))
      else check_res (cb_nics b = [] \<or> \<not> v2_require_network_mapping c)
         (RuntimeError ''source NIC network identity is unavailable; refusing to guess target bridge mapping'') (Inr b))"

definition parse_bundle :: "env \<Rightarrow> v2v_config \<Rightarrow> string \<Rightarrow> v2v_inspection \<Rightarrow> converted_bundle act" where
  "parse_bundle E c dir i =
     bind_act (base_parse_bundle E dir i) (\<lambda>b. lift_res (attested_bundle c b i))"

definition last_chars :: "nat \<Rightarrow> string \<Rightarrow> string" where
  "last_chars n s = drop (length s - n) s"

definition convert_vmware :: "env \<Rightarrow> v2v_config \<Rightarrow> string \<Rightarrow> string \<Rightarrow> string \<Rightarrow> converted_bundle act" where
  "convert_vmware E c source target_name work =
     bind_act (builtin_doctor E c) (\<lambda>problems.
     then_act (check (problems = []) (RuntimeError (''V2V conversion preflight failed: '' @ join ''; '' problems)))
    (bind_act (prepare_ova E source work) (\<lambda>(ova, flags).
     bind_act (inspection E c ova flags) (\<lambda>i.
     let out_dir = path_div work ''converted''; scratch = path_div work ''scratch''
     in then_act (ask (done_reply E) (MkDir out_dir))
       (then_act (ask (done_reply E) (MkDir scratch))
       (bind_act (run_command E [''virt-v2v'', ''--machine-readable'', ''-i'', ''ova'', ova, ''-o'', ''local'', ''-os'', out_dir,
            ''-of'', ''qcow2'', ''-oa'', ''sparse'', ''-on'', safe_component unnamed target_name]
            [(''VIRT_V2V_TMPDIR'', scratch), (''LIBGUESTFS_CACHEDIR'', scratch)] False) (\<lambda>(code, out, err).
        then_act (check (code = 0) (RuntimeError (''virt-v2v conversion failed: '' @ last_chars 4000
            (if strip whitespace err \<noteq> [] then strip whitespace err else strip whitespace out))))
         (parse_bundle E c out_dir i))))))))"

section \<open>What a converted guest is known to be\<close>

text \<open>The certified matrix, and the limits of the policy.\<close>

definition certified_guest :: "v2v_config \<Rightarrow> v2v_inspection \<Rightarrow> bool" where
  "certified_guest c i \<longleftrightarrow>
     List.member [''linux'', ''windows''] (vi_os_family i) \<and> List.member [''x86_64'', ''amd64''] (vi_arch i) \<and>
     List.member [''bios'', ''uefi''] (vi_firmware i) \<and> (vi_firmware i = ''uefi'' \<longrightarrow> v2_allow_uefi c) \<and>
     1 \<le> vi_disk_count i \<and> int (vi_disk_count i) \<le> v2_max_disks c \<and> vi_virtual_bytes i \<le> v2_max_virtual_bytes c \<and>
     (vi_secure_boot i \<longrightarrow> v2_allow_secure_boot c) \<and> \<not> vi_source_tpm i"

text \<open>A bundle fits the inspection: as many disks, in known formats, and every adapter on its attested network.\<close>

definition fitting_bundle :: "v2v_config \<Rightarrow> converted_bundle \<Rightarrow> bool" where
  "fitting_bundle c b \<longleftrightarrow>
     length (cb_disks b) = vi_disk_count (cb_inspection b) \<and>
     list_all (\<lambda>d. List.member [''qcow2'', ''raw''] (cd_format d)) (cb_disks b) \<and>
     128 \<le> cb_memory_mib b \<and> 1 \<le> cb_vcpus b \<and> cb_vcpus b \<le> 1024 \<and>
     cb_firmware b = vi_firmware (cb_inspection b) \<and>
     (if vi_source_networks (cb_inspection b) = [] then cb_nics b = [] \<or> \<not> v2_require_network_mapping c
      else map cn_source_network (cb_nics b) = map Some (vi_source_networks (cb_inspection b)))"

lemma inspected_matrix:
  "inspected tree flags = Inr i \<Longrightarrow>
   List.member [''linux'', ''windows''] (vi_os_family i) \<and> List.member [''x86_64'', ''amd64''] (vi_arch i)"
  by (auto simp: inspected_def Let_def split: option.splits)

lemma guest_policy_Inr:
  "guest_policy c i = Inr u \<longleftrightarrow>
     1 \<le> vi_disk_count i \<and> int (vi_disk_count i) \<le> v2_max_disks c \<and> vi_virtual_bytes i \<le> v2_max_virtual_bytes c \<and>
     (vi_firmware i = ''uefi'' \<longrightarrow> v2_allow_uefi c) \<and> (vi_secure_boot i \<longrightarrow> v2_allow_secure_boot c) \<and> \<not> vi_source_tpm i"
  by (auto simp: guest_policy_def)

lemma inspection_certified:
  assumes "inspection E c ova flags s = (Inr i, t)"
  shows "certified_guest c i"
proof -
  obtain tree u where *: "inspected tree flags = Inr i" "guest_policy c i = Inr u"
    "List.member [''bios'', ''uefi''] (vi_firmware i)"
    using assms unfolding inspection_def run_Inr split_paired_Ex prod.case apply (elim exE conjE)
    apply hypsubst
    apply (rule that)
      apply assumption+
    done
  show ?thesis
    unfolding certified_guest_def using inspected_matrix [OF *(1)] *(2,3) by (simp only: guest_policy_Inr) blast
qed

lemma memory_mib_bound: "memory_mib node = Inr m \<Longrightarrow> 128 \<le> m"
  by (auto simp: memory_mib_def Let_def split: option.splits if_splits)

lemma vcpu_count_bounds: "vcpu_count tree = Inr n \<Longrightarrow> 1 \<le> n \<and> n \<le> 1024"
  by (auto simp: vcpu_count_def Let_def)

lemma converted_image_format:
  "converted_image E dir f s = (Inr d, t) \<Longrightarrow> List.member [''qcow2'', ''raw''] (cd_format d)"
  unfolding converted_image_def run_Inr split_paired_Ex prod.case by (elim exE conjE) simp

lemma each_list_all:
  "each f xs s = (Inr ys, t) \<Longrightarrow> (\<And>x u y v. f x u = (Inr y, v) \<Longrightarrow> P y) \<Longrightarrow> list_all P ys"
  by (induction xs arbitrary: ys s) (auto simp: bind_Inr)

lemma base_bundle_fits:
  assumes "base_parse_bundle E dir i s = (Inr b, t)"
  shows "length (cb_disks b) = vi_disk_count i \<and> list_all (\<lambda>d. List.member [''qcow2'', ''raw''] (cd_format d)) (cb_disks b) \<and>
    128 \<le> cb_memory_mib b \<and> 1 \<le> cb_vcpus b \<and> cb_vcpus b \<le> 1024 \<and> cb_firmware b = vi_firmware i \<and> cb_inspection b = i"
proof -
  obtain files u tree disks v w memory vcpus xml nics where
    *: "each (converted_image E files) (List.map_filter disk_file (nodes_under ''devices'' ''disk'' tree)) v = (Inr disks, w)"
      "length disks = vi_disk_count i" "memory_mib (child_named ''memory'' tree) = Inr memory" "vcpu_count tree = Inr vcpus"
      "b = \<lparr>cb_domain_xml = xml, cb_disks = disks, cb_nics = nics,
          cb_memory_mib = memory, cb_vcpus = vcpus, cb_firmware = vi_firmware i, cb_inspection = i\<rparr>"
    using assms unfolding base_parse_bundle_def Let_def run_Inr by blast
  from each_list_all [OF *(1) converted_image_format] memory_mib_bound [OF *(3)] vcpu_count_bounds [OF *(4)] *(2)
  show ?thesis by (simp add: *(5))
qed

lemma attested_bundle_fits:
  "attested_bundle c b i = Inr b' \<Longrightarrow>
   (if vi_source_networks i = [] then b' = b \<and> (cb_nics b = [] \<or> \<not> v2_require_network_mapping c)
    else map cn_source_network (cb_nics b') = map Some (vi_source_networks i) \<and> (\<exists>nics. b' = b\<lparr>cb_nics := nics\<rparr>))"
proof -
  have nets: "map cn_source_network (map2 (\<lambda>n network. n\<lparr>cn_source_network := Some network\<rparr>) ns ws) = map Some ws"
    if "length ws = length ns" for ns :: "converted_nic list" and ws
    using that by (induction ws ns rule: list_induct2) simp_all
  assume "attested_bundle c b i = Inr b'"
  then show ?thesis
    by (auto simp: attested_bundle_def nets simp del: map_map split: if_splits)
qed

lemma parse_bundle_fits:
  assumes "parse_bundle E c dir i s = (Inr b, t)"
  shows "fitting_bundle c b \<and> cb_inspection b = i"
proof -
  obtain b0 u where b0: "base_parse_bundle E dir i s = (Inr b0, u)" "attested_bundle c b0 i = Inr b"
    using assms unfolding parse_bundle_def run_Inr by blast
  show ?thesis
    using base_bundle_fits [OF b0(1)] attested_bundle_fits [OF b0(2)]
    by (cases "vi_source_networks i = []") (auto simp: fitting_bundle_def)
qed

lemma converted_certified:
  assumes "convert_vmware E c source name work s = (Inr b, t)"
  shows "certified_guest c (cb_inspection b) \<and> fitting_bundle c b"
proof -
  obtain ova flags i u v out_dir w where
    "inspection E c ova flags u = (Inr i, v)" "parse_bundle E c out_dir i w = (Inr b, t)"
    using assms unfolding convert_vmware_def Let_def run_Inr split_paired_Ex prod.case by blast
  with inspection_certified parse_bundle_fits show ?thesis by blast
qed

text \<open>
  C9. Only guests of the certified matrix are converted, and only conversions that fit them are used: when
  \<open>_convert_vmware\<close> returns, the guest is a 64-bit Linux or Windows with attested firmware, within the disk
  and capacity limits and the firmware, Secure Boot and TPM policy; there are as many converted disks as
  inspected ones, all in known formats; memory and processors are within bounds; and every network adapter
  carries the network that the OVF attests, in order.
\<close>

theorem converted_guest_certified:
  assumes "convert_vmware E c source name work s = (Inr b, t)"
  shows "certified_guest c (cb_inspection b) \<and> fitting_bundle c b"
  using assms by (rule converted_certified)

text \<open>A Linux guest of one disk and one network adapter.\<close>

definition sample_ovf :: xml where
  "sample_ovf = Xml ''Envelope'' [] []
     [Xml ''File'' [(''{ovf}href'', ''d.vmdk'')] [] [],
      Xml ''Item'' [] [] [Xml ''ResourceType'' [] ''10'' [], Xml ''Connection'' [] ''lan'' []]]"

definition sample_inspection :: xml where
  "sample_inspection = Xml ''v2v-inspection'' [] []
     [Xml ''operatingsystem'' [] [] [Xml ''name'' [] ''linux'' [], Xml ''arch'' [] ''x86_64'' []],
      Xml ''disks'' [] [] [Xml ''disk'' [] [] [Xml ''virtual-size'' [] ''1024'' []]]]"

definition sample_domain :: xml where
  "sample_domain = Xml ''domain'' [] []
     [Xml ''memory'' [(''unit'', ''MiB'')] ''512'' [],
      Xml ''devices'' [] []
        [Xml ''disk'' [(''device'', ''disk'')] [] [Xml ''source'' [(''file'', ''/w/converted/vm-sda'')] [] []],
         Xml ''interface'' [] [] []]]"

definition guest_run :: "string list \<Rightarrow> string" where
  "guest_run cmd =
     (if cmd = [''virt-v2v'', ''--version''] then ''2.12.0''
      else if cmd = [''virt-v2v'', ''--machine-readable''] then join [CHR 0x0A] required_features
      else if take 2 cmd = [''qemu-img'', ''info''] then dumps (JObj [(''format'', JStr ''qcow2''), (''virtual-size'', JInt 1024)])
      else ''inspected'')"

definition guest_env :: env where
  "guest_env = sample_env\<lparr>
     bool_reply := (\<lambda>h c. Inr (case c of IsSymlink p \<Rightarrow> False | _ \<Rightarrow> True)),
     run_reply := (\<lambda>h c. Inr (0, case c of Run cmd envs \<Rightarrow> guest_run cmd | _ \<Rightarrow> [], [])),
     listing_reply := (\<lambda>h c. Inr (case c of Glob d p \<Rightarrow>
        if p = ''**'' then [(''/s/d.vmdk'', 0), (''/s/vm.ovf'', 0)]
        else if p = ''*.xml'' then [(''/w/converted/vm.xml'', 0)] else [] | _ \<Rightarrow> [])),
     text_reply := (\<lambda>h c. Inr (case c of ReadXml p \<Rightarrow> p | _ \<Rightarrow> ''bios'')),
     xml_of := (\<lambda>t. Some (if t = ''/s/vm.ovf'' then sample_ovf else if t = ''inspected'' then sample_inspection else sample_domain))\<rparr>"

definition sample_flags :: ovf_flags where
  "sample_flags = \<lparr>fl_secure_boot = False, fl_source_tpm = False, fl_firmware_hint = ''bios'', fl_source_networks = [''lan'']\<rparr>"

definition sample_guest :: v2v_inspection where
  "sample_guest = \<lparr>vi_os_family = ''linux'', vi_distro = [], vi_osinfo = [], vi_arch = ''x86_64'', vi_firmware = ''bios'',
     vi_disk_count = 1, vi_virtual_bytes = 1024, vi_secure_boot = False, vi_source_tpm = False,
     vi_source_networks = [''lan'']\<rparr>"

definition sample_bundle :: converted_bundle where
  "sample_bundle = \<lparr>cb_domain_xml = ''/w/converted/vm.xml'',
     cb_disks = [\<lparr>cd_path = ''/w/converted/vm-sda'', cd_format = ''qcow2'', cd_virtual_size = 1024\<rparr>],
     cb_nics = [\<lparr>cn_mac = None, cn_source_network = Some ''lan''\<rparr>], cb_memory_mib = 512, cb_vcpus = 2,
     cb_firmware = ''bios'', cb_inspection = sample_guest\<rparr>"

lemma sample_steps:
  "fst (builtin_doctor guest_env default_v2v s) = Inr []"
  "fst (prepare_ova guest_env ''/s'' ''/w'' s) = Inr (''/w/source.ova'', sample_flags)"
  "fst (inspection guest_env default_v2v ''/w/source.ova'' sample_flags s) = Inr sample_guest"
  "fst (parse_bundle guest_env default_v2v ''/w/converted'' sample_guest s) = Inr sample_bundle"
  by code_simp+

lemma sample_converts: "fst (convert_vmware guest_env default_v2v ''/s'' ''new'' ''/w'' s) = Inr sample_bundle"
proof -
  have paths: "path_div ''/w'' ''converted'' = ''/w/converted''" "path_div ''/w'' ''scratch'' = ''/w/scratch''"
    by code_simp+
  have calls: "fst (check True e s) = Inr ()" "fst (ask (done_reply guest_env) (MkDir p) s) = Inr ()"
    "fst (run_command guest_env (''virt-v2v'' # ''--machine-readable'' # ''-i'' # cmd) envs False s) = Inr (0, ''inspected'', [])"
    for e p cmd envs s
    by (simp_all add: check_def ask_def run_command_def bind_act_def guest_env_def guest_run_def sample_env_def)
  show ?thesis
    unfolding convert_vmware_def Let_def
    by (simp add: bind_fst [OF sample_steps(1)] bind_fst [OF sample_steps(2)] bind_fst [OF sample_steps(3)]
        then_fst [OF calls(1)] then_fst [OF calls(2)] bind_fst [OF calls(3)] paths sample_steps(4))
qed

theorem converted_guest_certified_witness:
  "certified_guest default_v2v (cb_inspection sample_bundle) \<and> fitting_bundle default_v2v sample_bundle"
proof -
  have "convert_vmware guest_env default_v2v ''/s'' ''new'' ''/w'' sample_sys =
      (Inr sample_bundle, snd (convert_vmware guest_env default_v2v ''/s'' ''new'' ''/w'' sample_sys))"
    using sample_converts [of sample_sys] by (metis prod.collapse)
  then show ?thesis by (rule converted_guest_certified)
qed

end
