(* ===== verification/V2v_Target.thy ===== *)
theory V2v_Target
  imports V2v_Guest
begin

text \<open>
  The machine that a conversion creates on Proxmox: network and storage checks, \<open>_restore_proxmox\<close> and
  \<open>execute\<close> of \<open>v2v.py\<close> and \<open>v2v_cert.py\<close>. The lemmas show that only a machine id that no machine has is
  used, that a machine left incomplete is destroyed, and that nothing is started.
\<close>

section \<open>Networks and storages\<close>

definition network_map :: "platform_config \<Rightarrow> (string \<times> json) list \<Rightarrow> (string \<times> string) list res" where
  "network_map target options =
     (let raw = (case map_of options ''network_map'' of
            None \<Rightarrow> get_or (pl_options target) ''v2v_network_map'' (JObj [])
          | Some JNull \<Rightarrow> get_or (pl_options target) ''v2v_network_map'' (JObj [])
          | Some v \<Rightarrow> v)
      in case raw of
           JNull \<Rightarrow> Inr []
         | JObj kvs \<Rightarrow> Inr (map (\<lambda>(k, v). (k, py_str v)) kvs)
         | _ \<Rightarrow> Inl (ValueError ''V2V network_map must be a mapping of source network to Proxmox bridge''))"

definition default_bridge :: "platform_config \<Rightarrow> (string \<times> json) list \<Rightarrow> string" where
  "default_bridge target options =
     first_text [map_of options ''default_bridge'', map_of (pl_options target) ''v2v_default_bridge'']"

text \<open>\<open>a or b or ...\<close> over looked-up texts.\<close>

fun first_found :: "string option list \<Rightarrow> string \<Rightarrow> string" where
  "first_found [] d = d"
| "first_found (x # xs) d = (case x of Some s \<Rightarrow> if s \<noteq> [] then s else first_found xs d | None \<Rightarrow> first_found xs d)"

definition bridge_for :: "v2v_config \<Rightarrow> (string \<times> string) list \<Rightarrow> string \<Rightarrow> nat \<Rightarrow> converted_nic \<Rightarrow> string res" where
  "bridge_for c mapping fallback i nic =
     (let key = (case cn_source_network nic of Some n \<Rightarrow> if n = [] then ''default'' else n | None \<Rightarrow> ''default'');
          mapped = first_found [map_of mapping key, map_of mapping (show_nat i), map_of mapping ''*''] fallback;
          bridge = (if mapped = [] then ''vmbr0'' else mapped)
      in check_res (mapped \<noteq> [] \<or> \<not> v2_require_network_mapping c)
           (RuntimeError (''no certified network mapping exists for source NIC '' @ show_nat i @ '' ('' @ key @ '')''))
         (check_res (id64 bridge) (RuntimeError (''unsafe or invalid Proxmox bridge name: '' @ repr_str bridge))
           (Inr bridge)))"

definition mapped_bridges ::
  "v2v_config \<Rightarrow> converted_bundle \<Rightarrow> platform_config \<Rightarrow> (string \<times> json) list \<Rightarrow> string list res" where
  "mapped_bridges c b target options =
     bind_res (network_map target options) (\<lambda>mapping.
     map_res (\<lambda>(i, nic). bridge_for c mapping (default_bridge target options) i nic) (enumerate 0 (cb_nics b)))"

definition efi_storage :: "(string \<times> json) list \<Rightarrow> platform_config \<Rightarrow> string \<Rightarrow> string" where
  "efi_storage options target storage =
     first_text [map_of options ''efi_storage'', map_of (pl_options target) ''v2v_efi_storage'', Some (JStr storage)]"

definition storage_ids :: "platform_config \<Rightarrow> (string \<times> json) list \<Rightarrow> bool \<Rightarrow> string list res" where
  "storage_ids target options include_efi =
     (let storage = v2v_storage options target; efi = efi_storage options target storage
      in check_res (id64 storage) (RuntimeError ''Proxmox V2V target storage is missing or invalid'')
        (if \<not> include_efi then Inr [storage]
         else check_res (id64 efi) (RuntimeError ''UEFI V2V requires a valid Proxmox EFI storage id'')
           (Inr (if efi = storage then [storage] else [storage, efi]))))"

text \<open>\<open>line.split()\<close>.\<close>

fun words_from :: "string \<Rightarrow> string \<Rightarrow> string list" where
  "words_from w [] = (if w = [] then [] else [rev w])"
| "words_from w (x # xs) =
     (if List.member whitespace x then (if w = [] then words_from [] xs else rev w # words_from [] xs)
      else words_from (x # w) xs)"

definition words_of :: "string \<Rightarrow> string list" where
  "words_of s = words_from [] s"

definition check_storage :: "env \<Rightarrow> platform_config \<Rightarrow> string \<Rightarrow> unit act" where
  "check_storage E target storage =
     bind_act (px_run E target (''pvesm status --storage '' @ shell_quote storage @ '' --content images --enabled 1'') False)
       (\<lambda>(code, out, err).
        let detail = strip whitespace (if err \<noteq> [] then err else if out \<noteq> [] then out else ''pvesm status failed'');
            matched = filter (\<lambda>row. row \<noteq> [] \<and> hd row = storage) (map words_of (splitlines out))
        in then_act (check (code = 0)
             (RuntimeError (''Proxmox V2V storage preflight failed for '' @ repr_str storage @ '': '' @ detail)))
           (then_act (check (matched \<noteq> [])
             (RuntimeError (''Proxmox V2V storage '' @ repr_str storage @ '' is not enabled/available for VM image content'')))
           (check (list_ex (\<lambda>row. list_ex (\<lambda>v. lower v = ''active'') (take 3 (tl row))) matched)
             (RuntimeError (''Proxmox V2V storage '' @ repr_str storage @ '' is not active'')))))"

definition preflight_storage :: "env \<Rightarrow> platform_config \<Rightarrow> (string \<times> json) list \<Rightarrow> bool \<Rightarrow> unit act" where
  "preflight_storage E target options include_efi =
     bind_act (lift_res (storage_ids target options include_efi)) (\<lambda>storages.
     bind_act (each (check_storage E target) storages) (\<lambda>_. ret ()))"

definition check_bridge :: "env \<Rightarrow> platform_config \<Rightarrow> string \<Rightarrow> unit act" where
  "check_bridge E target bridge =
     bind_act (px_run E target (''ip -o link show dev '' @ shell_quote bridge) False) (\<lambda>(code, out, err).
       check (code = 0)
         (RuntimeError (''Proxmox V2V target bridge '' @ repr_str bridge @ '' does not exist on the selected node'')))"

definition preflight_bridges ::
  "env \<Rightarrow> v2v_config \<Rightarrow> converted_bundle \<Rightarrow> platform_config \<Rightarrow> (string \<times> json) list \<Rightarrow> string list act" where
  "preflight_bridges E c b target options =
     bind_act (lift_res (mapped_bridges c b target options)) (\<lambda>bridges.
     bind_act (each (check_bridge E target) (sort (remdups bridges))) (\<lambda>_. ret bridges))"

section \<open>The machine\<close>

definition ostype :: "v2v_inspection \<Rightarrow> string" where
  "ostype i =
     (let osinfo = lower (vi_osinfo i)
      in if vi_os_family i = ''linux'' then ''l26''
         else if contains_any [''win11'', ''windows11''] osinfo then ''win11''
         else if contains_any [''win10'', ''windows10'', ''server2025'', ''server2022'', ''server2019''] osinfo then ''win10''
         else if contains_any [''win8'', ''windows8'', ''server2016'', ''server2012''] osinfo then ''win8''
         else if contains_any [''win7'', ''windows7'', ''server2008''] osinfo then ''win7''
         else ''other'')"

text \<open>A line \<open>unused<n>: volume\<close>, the volume up to a comma or blank.\<close>

definition unused_row :: "string \<Rightarrow> (nat \<times> string \<times> string) option" where
  "unused_row line =
     (let s = strip whitespace line; (ds, rest) = span_digits (drop 6 s);
          volume = takeWhile (\<lambda>c. c \<noteq> CHR '','' \<and> \<not> List.member whitespace c) (lstrip whitespace (tl rest))
      in if starts_with ''unused'' s \<and> ds \<noteq> [] \<and> starts_with '':'' rest \<and> volume \<noteq> []
         then Some (digits_nat ds, ''unused'' @ ds, volume) else None)"

definition unused_volume :: "string \<Rightarrow> (string \<times> string) res" where
  "unused_volume config =
     (let rows = List.map_filter unused_row (splitlines config)
      in if rows = [] then Inl (RuntimeError ''Proxmox import completed without an unused disk entry'')
         else (case last (sort_key id rows) of (n, key, volume) \<Rightarrow> Inr (key, volume)))"

definition create_parts :: "converted_bundle \<Rightarrow> string list \<Rightarrow> string \<Rightarrow> string \<Rightarrow> string list" where
  "create_parts b bridges vmid name =
     [''qm'', ''create'', vmid, ''--name'', name, ''--memory'', show_int (cb_memory_mib b), ''--cores'', show_int (cb_vcpus b),
      ''--ostype'', ostype (cb_inspection b)] @
     (if cb_firmware b = ''uefi'' then [''--bios'', ''ovmf'', ''--machine'', ''q35''] else [''--bios'', ''seabios'']) @
     concat (map (\<lambda>(i, nic, bridge).
       [''--net'' @ show_nat i,
        ''virtio'' @ (if opt_nonempty (cn_mac nic) then ''='' @ the (cn_mac nic) else []) @ '',bridge='' @ bridge])
       (enumerate 0 (zip (cb_nics b) bridges)))"

definition remote_image :: "string \<Rightarrow> nat \<Rightarrow> converted_disk \<Rightarrow> string" where
  "remote_image vmid i d =
     ''/var/tmp/immutavault-v2v-'' @ safe_component unnamed vmid @ ''-'' @ show_nat i @ ''.'' @ cd_format d"

definition set_script :: "string \<Rightarrow> string \<Rightarrow> string" where
  "set_script vmid change_text = ''qm set '' @ shell_quote vmid @ '' '' @ change_text"

definition config_script :: "string \<Rightarrow> string" where
  "config_script vmid = ''qm config '' @ shell_quote vmid"

definition config_of :: "env \<Rightarrow> platform_config \<Rightarrow> string \<Rightarrow> string act" where
  "config_of E target vmid = px_out E target (config_script vmid)"

text \<open>A disk is copied to the node, imported, and attached to the bus the guest was prepared for.\<close>

definition import_disk :: "env \<Rightarrow> platform_config \<Rightarrow> string \<Rightarrow> string \<Rightarrow> nat \<Rightarrow> converted_disk \<Rightarrow> unit act" where
  "import_disk E target vmid storage i d =
     (let remote = remote_image vmid i d
      in then_act (px_put E target (cd_path d) remote)
        (then_act (px_do E target (''qm importdisk '' @ shell_quote vmid @ '' '' @ shell_quote remote @ '' '' @
            shell_quote storage @ '' --format qcow2'') True)
        (bind_act (config_of E target vmid) (\<lambda>config.
         bind_act (lift_res (unused_volume config)) (\<lambda>(key, volume).
         then_act (px_do E target (set_script vmid (''--delete '' @ shell_quote key)) True)
           (px_do E target (set_script vmid (''--virtio'' @ show_nat i @ '' '' @ shell_quote volume)) True))))))"

text \<open>\<open>re.search(r"^name:\s*", final, re.M)\<close>, and the same for the line \<open>bios: ovmf\<close>. The expressions
  match from the beginning of a line; lines end at a line feed.\<close>

definition config_key :: "string \<Rightarrow> string \<Rightarrow> bool" where
  "config_key name final \<longleftrightarrow> list_ex (\<lambda>line. starts_with (name @ '':'') line) (split_on (CHR 0x0A) final)"

fun tails :: "string \<Rightarrow> string list" where
  "tails [] = [[]]"
| "tails (x # xs) = (x # xs) # tails xs"

definition line_starts :: "string \<Rightarrow> string list" where
  "line_starts s = s # List.map_filter (\<lambda>t. case t of [] \<Rightarrow> None | c # r \<Rightarrow> if c = CHR 0x0A then Some r else None) (tails s)"

definition ends_line :: "string \<Rightarrow> bool" where
  "ends_line r \<longleftrightarrow> (let blanks = takeWhile (List.member whitespace) r
     in List.member blanks (CHR 0x0A) \<or> length blanks = length r)"

definition ovmf_configured :: "string \<Rightarrow> bool" where
  "ovmf_configured final \<longleftrightarrow> list_ex (\<lambda>t. starts_with ''bios:'' t \<and>
     (let r = lstrip whitespace (drop 5 t) in starts_with ''ovmf'' r \<and> ends_line (drop 4 r))) (line_starts final)"

definition machine_problems :: "converted_bundle \<Rightarrow> string \<Rightarrow> unit res" where
  "machine_problems b final =
     bind_res (map_res (\<lambda>i. check_res (config_key (''virtio'' @ show_nat i) final)
         (RuntimeError (''post-import validation failed: virtio'' @ show_nat i @ '' is missing'')) (Inr ()))
       [0 ..< length (cb_disks b)]) (\<lambda>_.
     bind_res (map_res (\<lambda>i. check_res (config_key (''net'' @ show_nat i) final)
         (RuntimeError (''post-import validation failed: net'' @ show_nat i @ '' is missing'')) (Inr ()))
       [0 ..< length (cb_nics b)]) (\<lambda>_.
     check_res (cb_firmware b = ''uefi'' \<longrightarrow> ovmf_configured final)
       (RuntimeError ''post-import validation failed: UEFI/OVMF is not configured'') (Inr ())))"

text \<open>The images copied to the node, and the failure that ended the imports, if one did.\<close>

fun import_disks ::
  "env \<Rightarrow> platform_config \<Rightarrow> string \<Rightarrow> string \<Rightarrow> nat \<Rightarrow> converted_disk list \<Rightarrow> (string list \<times> exc option) act" where
  "import_disks E target vmid storage i [] = ret ([], None)"
| "import_disks E target vmid storage i (d # ds) =
     bind_act (attempt (import_disk E target vmid storage i d)) (\<lambda>r.
       case r of
         Inl e \<Rightarrow> ret ([remote_image vmid i d], Some e)
       | Inr x \<Rightarrow> bind_act (import_disks E target vmid storage (Suc i) ds) (\<lambda>(remotes, failure).
           ret (remote_image vmid i d # remotes, failure)))"

definition boot_script :: "string \<Rightarrow> nat \<Rightarrow> string" where
  "boot_script vmid n =
     set_script vmid (''--boot '' @ shell_quote (''order='' @ join '';'' (map (\<lambda>i. ''virtio'' @ show_nat i) [0 ..< n])))"

definition finish_machine :: "env \<Rightarrow> platform_config \<Rightarrow> string \<Rightarrow> converted_bundle \<Rightarrow> unit act" where
  "finish_machine E target vmid b =
     then_act (px_do E target (boot_script vmid (length (cb_disks b))) True)
       (bind_act (config_of E target vmid) (\<lambda>final. lift_res (machine_problems b final)))"

text \<open>The disks and settings of a created machine.\<close>

definition build_machine ::
  "env \<Rightarrow> platform_config \<Rightarrow> string \<Rightarrow> string \<Rightarrow> string \<Rightarrow> converted_bundle \<Rightarrow> (string list \<times> exc option) act" where
  "build_machine E target vmid storage efi b =
     bind_act (attempt (when_act (cb_firmware b = ''uefi'')
         (px_do E target (set_script vmid (''--efidisk0 '' @
            shell_quote (efi @ '':0,efitype=4m,pre-enrolled-keys=0''))) True))) (\<lambda>r.
       case r of Inl e \<Rightarrow> ret ([], Some e)
       | Inr u \<Rightarrow>
           bind_act (import_disks E target vmid storage 0 (cb_disks b)) (\<lambda>(remotes, failure).
             case failure of Some e \<Rightarrow> ret (remotes, Some e)
             | None \<Rightarrow> bind_act (attempt (finish_machine E target vmid b)) (\<lambda>q.
                 ret (remotes, case q of Inl e \<Rightarrow> Some e | Inr v \<Rightarrow> None))))"

definition status_script :: "string \<Rightarrow> string" where
  "status_script vmid = ''qm status '' @ shell_quote vmid"

definition destroy_script :: "string \<Rightarrow> string" where
  "destroy_script vmid = ''qm destroy '' @ shell_quote vmid @ '' --purge 1 --destroy-unreferenced-disks 1''"

definition create_script :: "converted_bundle \<Rightarrow> string list \<Rightarrow> string \<Rightarrow> string \<Rightarrow> string" where
  "create_script b bridges vmid name = join '' '' (map shell_quote (create_parts b bridges vmid name))"

definition remove_images :: "env \<Rightarrow> platform_config \<Rightarrow> string list \<Rightarrow> unit act" where
  "remove_images E target remotes =
     bind_act (each (\<lambda>remote. px_do E target (''rm -f '' @ shell_quote remote) False) remotes) (\<lambda>_. ret ())"

definition create_machine ::
  "env \<Rightarrow> platform_config \<Rightarrow> string \<Rightarrow> string \<Rightarrow> string \<Rightarrow> converted_bundle \<Rightarrow> string list \<Rightarrow> string \<Rightarrow> unit act" where
  "create_machine E target vmid storage efi b bridges name =
     bind_act (px_run E target (status_script vmid) False) (\<lambda>(code, out, err).
     then_act (check (code \<noteq> 0) (RuntimeError (''target VMID '' @ vmid @ '' already exists; V2V refuses overwrite'')))
    (then_act (px_do E target (create_script b bridges vmid name) True)
    (bind_act (build_machine E target vmid storage efi b) (\<lambda>(remotes, failure).
     finally_act
       (case failure of None \<Rightarrow> ret ()
        | Some e \<Rightarrow> then_act (px_do E target (destroy_script vmid) False) (throw e))
       (remove_images E target remotes)))))"

definition builtin_answer ::
  "platform_config \<Rightarrow> string \<Rightarrow> string \<Rightarrow> converted_bundle \<Rightarrow> (string \<times> json) list \<Rightarrow> string list \<Rightarrow> (string \<times> json) list \<Rightarrow>
   (string \<times> json) list" where
  "builtin_answer target vmid name b extra bridges attests =
     [(''platform'', JStr (pl_name target)), (''kind'', JStr ''qemu''), (''vmid'', JStr vmid), (''name'', JStr name),
      (''mode'', JStr ''certified-v2v''), (''certification_id'', JStr builtin_certification),
      (''inspection'', JObj (inspection_dict (cb_inspection b)))] @ extra @
     [(''disk_count'', JInt (int (length (cb_disks b)))), (''network_bridges'', errors_json bridges),
      (''power'', JStr ''off'')] @ attests"

definition validated :: "(string \<times> json) list" where
  "validated = [(''validation'', JObj [(''source_manifest_verified'', JBool True), (''guest_converted_by_virt_v2v'', JBool True),
     (''target_configuration_verified'', JBool True), (''automatic_power_on'', JBool False)])]"

definition base_restore_proxmox ::
  "env \<Rightarrow> v2v_config \<Rightarrow> converted_bundle \<Rightarrow> platform_config \<Rightarrow> string \<Rightarrow> (string \<times> json) list \<Rightarrow> bool \<Rightarrow>
   (string \<times> json) list act" where
  "base_restore_proxmox E c b target name options dry_run =
     (let storage = v2v_storage options target; efi = efi_storage options target storage;
          wanted = first_text [map_of options ''vmid'']
      in then_act (check (id64 storage) (RuntimeError ''Proxmox V2V target storage is missing or invalid''))
        (then_act (check (cb_firmware b = ''uefi'' \<longrightarrow> id64 efi)
           (RuntimeError ''UEFI V2V requires a valid Proxmox EFI storage id''))
        (bind_act (lift_res (mapped_bridges c b target options)) (\<lambda>bridges.
         then_act (check (wanted = [] \<or> all_digits wanted) (ValueError ''V2V Proxmox vmid must be numeric''))
        (bind_act (if wanted \<noteq> [] then ret wanted else if dry_run then ret ''NEXTID'' else next_vmid E target) (\<lambda>vmid.
         then_act (check (vmid = ''NEXTID'' \<or> all_digits vmid)
           (RuntimeError ''Proxmox did not return a numeric next VMID''))
         (if dry_run
          then ret (builtin_answer target vmid name b
            [(''create_command'', errors_json (create_parts b bridges vmid name))] bridges [])
          else then_act (create_machine E target vmid storage efi b bridges name)
            (ret (builtin_answer target vmid name b [] bridges validated)))))))))"

definition restore_proxmox ::
  "env \<Rightarrow> v2v_config \<Rightarrow> converted_bundle \<Rightarrow> platform_config \<Rightarrow> string \<Rightarrow> (string \<times> json) list \<Rightarrow> bool \<Rightarrow>
   (string \<times> json) list act" where
  "restore_proxmox E c b target name options dry_run =
     then_act (when_act (\<not> dry_run)
       (then_act (preflight_storage E target options (cb_firmware b = ''uefi''))
         (bind_act (preflight_bridges E c b target options) (\<lambda>_. ret ()))))
     (base_restore_proxmox E c b target name options dry_run)"

section \<open>Executing a plan\<close>

definition base_execute_v2v ::
  "env \<Rightarrow> v2v_config \<Rightarrow> string \<Rightarrow> point \<Rightarrow> platform_config \<Rightarrow> string \<Rightarrow> (string \<times> json) list \<Rightarrow> bool \<Rightarrow>
   (string \<times> json) list act" where
  "base_execute_v2v E c source p target name options dry_run =
     (let plan = plan_v2v c p target options; pair = v2v_pair (p_platform_type p) (pl_type target)
      in then_act (check (vn_allowed plan)
           (RuntimeError (''cross-hypervisor recovery blocked: '' @ join ''; '' (vn_reasons plan))))
        (then_act (check (vn_mode plan \<noteq> ''native'')
           (RuntimeError ''native same-family restore must use the normal adapter path''))
        (if pair = builtin_pair \<and> vn_mode plan = ''builtin''
         then bind_act (ask (text_reply E) TempDir) (\<lambda>tmp.
           finally_act
             (bind_act (convert_vmware E c source name tmp) (\<lambda>b. restore_proxmox E c b target name options dry_run))
             (ask (done_reply E) (RmTree tmp)))
         else bind_act (need (provider_for_pair c pair)
               (RuntimeError (''cross-hypervisor recovery blocked: no certified provider for '' @ pair))) (\<lambda>pr.
           execute_provider E pr source p target name options dry_run))))"

definition execute_v2v ::
  "env \<Rightarrow> v2v_config \<Rightarrow> string \<Rightarrow> point \<Rightarrow> platform_config \<Rightarrow> string \<Rightarrow> (string \<times> json) list \<Rightarrow> bool \<Rightarrow>
   (string \<times> json) list act" where
  "execute_v2v E c source p target name options dry_run =
     (let plan = plan_v2v c p target options
      in then_act (when_act (vn_allowed plan \<and> vn_mode plan = ''builtin'' \<and>
            v2v_pair (p_platform_type p) (pl_type target) = builtin_pair \<and> \<not> dry_run)
           (preflight_storage E target options False))
         (base_execute_v2v E c source p target name options dry_run))"

section \<open>Machines are new, and complete or destroyed\<close>

text \<open>What a conversion runs on the node once a machine exists.\<close>

definition build_call :: "env \<Rightarrow> platform_config \<Rightarrow> call \<Rightarrow> bool" where
  "build_call E target c \<longleftrightarrow> (\<exists>path remote. c = put_call E target path remote) \<or>
     (\<exists>script. c = px_call E target script \<and>
        list_ex (\<lambda>v. starts_with v script) [''qm set '', ''qm importdisk '', ''qm config '', ''qm destroy '', ''rm -f ''])"

text \<open>The last reading of its configuration showed every disk, every adapter and the firmware.\<close>

definition found_complete :: "env \<Rightarrow> platform_config \<Rightarrow> string \<Rightarrow> converted_bundle \<Rightarrow> call list \<Rightarrow> call list \<Rightarrow> bool" where
  "found_complete E target vmid b h cs \<longleftrightarrow>
     (\<exists>xs ys final err code. cs = xs @ px_call E target (config_script vmid) # ys \<and>
        run_reply E (h @ xs) (px_call E target (config_script vmid)) = Inr (code, final, err) \<and>
        machine_problems b final = Inr ())"

definition machine_trace ::
  "env \<Rightarrow> platform_config \<Rightarrow> string \<Rightarrow> converted_bundle \<Rightarrow> string \<Rightarrow> call list \<Rightarrow> call list \<Rightarrow> bool" where
  "machine_trace E target vmid b create h cs \<longleftrightarrow>
     cs = [px_call E target (status_script vmid)] \<or>
     (\<exists>code out err. run_reply E h (px_call E target (status_script vmid)) = Inr (code, out, err) \<and> code \<noteq> 0 \<and>
        (\<exists>ds. cs = px_call E target (status_script vmid) # px_call E target create # ds \<and>
           list_all (build_call E target) ds \<and>
           ((\<exists>out err. run_reply E (h @ [px_call E target (status_script vmid)]) (px_call E target create) = Inr (0, out, err)) \<longleftrightarrow>
              ds \<noteq> []) \<and>
           (ds \<noteq> [] \<longrightarrow> px_call E target (destroy_script vmid) \<in> set ds \<or>
              found_complete E target vmid b (h @ [px_call E target (status_script vmid), px_call E target create]) ds)))"

lemma px_do_builds:
  "list_ex (\<lambda>v. starts_with v script) [''qm set '', ''qm importdisk '', ''qm config '', ''qm destroy '', ''rm -f ''] \<Longrightarrow>
   steps (does (\<lambda>h. build_call E target)) (px_do E target script chk)"
  unfolding px_do_def px_run_def run_command_def
  by (intro does_rules does_ask) (auto simp: build_call_def px_call_def)

lemma config_builds: "steps (does (\<lambda>h. build_call E target)) (config_of E target vmid)"
  unfolding config_of_def px_out_def px_run_def run_command_def
  by (intro does_rules does_ask) (auto simp: build_call_def px_call_def config_script_def starts_with_def)

lemma put_builds: "steps (does (\<lambda>h. build_call E target)) (px_put E target path remote)"
  unfolding px_put_def run_command_def
  by (intro does_rules does_ask) (auto simp: build_call_def put_call_def)

lemma script_kinds:
  "starts_with ''qm set '' (set_script vmid x)" "starts_with ''qm destroy '' (destroy_script vmid)"
  "starts_with ''qm importdisk '' (''qm importdisk '' @ x)" "starts_with ''rm -f '' (''rm -f '' @ x)"
  by (simp_all add: set_script_def destroy_script_def starts_with_def)

lemma import_disk_builds: "steps (does (\<lambda>h. build_call E target)) (import_disk E target vmid storage i d)"
  unfolding import_disk_def Let_def
  by (intro does_rules px_do_builds config_builds put_builds) (simp_all add: script_kinds)

lemma import_disks_builds: "steps (does (\<lambda>h. build_call E target)) (import_disks E target vmid storage i ds)"
  by (induction ds arbitrary: i)
    (auto intro!: does_rules attempt_does import_disk_builds simp only: import_disks.simps)

lemma finish_builds: "steps (does (\<lambda>h. build_call E target)) (finish_machine E target vmid b)"
  unfolding finish_machine_def boot_script_def
  by (intro does_rules px_do_builds config_builds) (simp_all add: script_kinds)

lemma build_builds: "steps (does (\<lambda>h. build_call E target)) (build_machine E target vmid storage efi b)"
  unfolding build_machine_def
  by (intro does_rules attempt_does px_do_builds import_disks_builds finish_builds) (simp_all add: script_kinds)

lemma remove_builds: "steps (does (\<lambda>h. build_call E target)) (remove_images E target remotes)"
  unfolding remove_images_def by (intro does_rules px_do_builds) (simp_all add: script_kinds)

lemma finish_complete:
  assumes "finish_machine E target vmid b s = (Inr u, t)" "trace s = h @ cs"
  shows "\<exists>ds. trace t = h @ cs @ ds \<and> found_complete E target vmid b h (cs @ ds)"
proof -
  let ?config = "px_call E target (config_script vmid)"
  obtain x v final w where *: "px_do E target (boot_script vmid (length (cb_disks b))) True s = (Inr x, v)"
    "config_of E target vmid v = (Inr final, w)" "machine_problems b final = Inr u" "t = w"
    using assms(1) unfolding finish_machine_def run_Inr by blast
  have v: "trace v = trace s @ [px_call E target (boot_script vmid (length (cb_disks b)))]"
    using px_do_trace [of E target "boot_script vmid (length (cb_disks b))" True s] *(1) by auto
  obtain code err where "run_reply E (trace v) ?config = Inr (code, final, err)" "trace w = trace v @ [?config]"
    using *(2) unfolding config_of_def px_out_def px_run_def run_command_def px_call_def
    by (auto simp: bind_Inr ask_def split: if_splits)
  with v *(3,4) assms(2) show ?thesis
    unfolding found_complete_def
    by (intro exI [of _ "[px_call E target (boot_script vmid (length (cb_disks b))), ?config]"] conjI
        exI [of _ "cs @ [px_call E target (boot_script vmid (length (cb_disks b)))]"] exI [of _ "[]"]
        exI [of _ final] exI [of _ err] exI [of _ code]) simp_all
qed

lemma import_disks_total: "\<exists>r. fst (import_disks E target vmid storage i ds s) = Inr r"
proof (induction ds arbitrary: i s)
  case (Cons d ds)
  obtain r t where "import_disk E target vmid storage i d s = (r, t)" by fastforce
  moreover obtain remotes failure u where "import_disks E target vmid storage (Suc i) ds t = (Inr (remotes, failure), u)"
    using Cons [of "Suc i" t] by (metis prod.collapse)
  ultimately show ?case by (cases r) (auto simp: bind_act_def attempt_eq)
qed simp

lemma build_result:
  "\<exists>remotes failure t ds. build_machine E target vmid storage efi b s = (Inr (remotes, failure), t) \<and>
     trace t = trace s @ ds \<and> list_all (build_call E target) ds \<and>
     (failure = None \<longrightarrow> found_complete E target vmid b (trace s) ds)"
proof -
  obtain r t where b: "build_machine E target vmid storage efi b s = (r, t)" by fastforce
  obtain ds where ds: "trace t = trace s @ ds" "list_all (build_call E target) ds"
    using stepsD [OF build_builds b] by (auto simp: does_all)
  let ?efi = "when_act (cb_firmware b = ''uefi'') (px_do E target (set_script vmid (''--efidisk0 '' @
            shell_quote (efi @ '':0,efitype=4m,pre-enrolled-keys=0''))) True)"
  obtain q u where q: "?efi s = (q, u)" by fastforce
  have "\<exists>remotes failure. r = Inr (remotes, failure) \<and> (failure = None \<longrightarrow> found_complete E target vmid b (trace s) ds)"
  proof (cases q)
    case (Inl e)
    with b q show ?thesis by (auto simp: build_machine_def bind_act_def attempt_eq)
  next
    case (Inr x)
    obtain remotes failure v where v: "import_disks E target vmid storage 0 (cb_disks b) u = (Inr (remotes, failure), v)"
      using import_disks_total by (metis prod.collapse)
    have rest: "build_machine E target vmid storage efi b s =
      (case failure of Some e \<Rightarrow> (Inr (remotes, Some e), v)
       | None \<Rightarrow> (Inr (remotes, case fst (finish_machine E target vmid b v) of Inl e \<Rightarrow> Some e | Inr y \<Rightarrow> None),
           snd (finish_machine E target vmid b v)))"
      using q Inr v by (simp add: build_machine_def bind_act_def attempt_eq split: option.split)
    show ?thesis
    proof (cases failure)
      case (Some e)
      with rest b show ?thesis by simp
    next
      case None
      obtain p w where p: "finish_machine E target vmid b v = (p, w)" by fastforce
      have "does (\<lambda>h. build_call E target) s u"
        by (rule stepsD [OF does.steps_when [OF px_do_builds] q]) (simp add: script_kinds)
      moreover have "does (\<lambda>h. build_call E target) u v" by (rule stepsD [OF import_disks_builds v])
      ultimately obtain cs where cs: "trace v = trace s @ cs" using does.R_trans by (auto simp: does_all)
      show ?thesis
      proof (cases p)
        case (Inl e)
        with rest b None p show ?thesis by simp
      next
        case (Inr y)
        with finish_complete [OF p [unfolded Inr] cs] ds(1) rest b None p show ?thesis by auto
      qed
    qed
  qed
  with b ds show ?thesis by blast
qed

lemma found_complete_append: "found_complete E target vmid b h cs \<Longrightarrow> found_complete E target vmid b h (cs @ ds)"
  unfolding found_complete_def by (metis append.assoc append_Cons)

lemma found_complete_Nil [simp]: "\<not> found_complete E target vmid b h []"
  by (simp add: found_complete_def)

lemma create_machine_trace:
  "\<exists>cs. trace (snd (create_machine E target vmid storage efi b bridges name s)) = trace s @ cs \<and>
     machine_trace E target vmid b (create_script b bridges vmid name) (trace s) cs"
proof -
  let ?status = "px_call E target (status_script vmid)"
  let ?create = "px_call E target (create_script b bridges vmid name)"
  let ?m = "create_machine E target vmid storage efi b bridges name"
  let ?s1 = "s\<lparr>trace := trace s @ [?status]\<rparr>"
  let ?s2 = "?s1\<lparr>trace := trace ?s1 @ [?create]\<rparr>"
  have status: "px_run E target (status_script vmid) False s = (run_reply E (trace s) ?status, ?s1)"
    by (simp add: px_run_def run_command_def bind_act_def ask_def px_call_def split: sum.split)
  have create: "px_do E target (create_script b bridges vmid name) True ?s1 =
      (case run_reply E (trace ?s1) ?create of Inl e \<Rightarrow> (Inl e, ?s2)
       | Inr (code, out, err) \<Rightarrow> (if code = 0 then Inr () else Inl (RuntimeError (''command failed ('' @ show_int code @ ''): '' @
           join '' '' (px_ssh E target @ [create_script b bridges vmid name]) @ [CHR 0x0A] @ strip whitespace err)), ?s2))"
    by (auto simp: px_do_def px_run_def run_command_def bind_act_def ask_def px_call_def split: sum.split)
  show ?thesis
  proof (cases "run_reply E (trace s) ?status")
    case (Inl e)
    with status show ?thesis by (simp add: create_machine_def bind_act_def machine_trace_def)
  next
    case (Inr r)
    obtain code out err where r: "r = (code, out, err)" by (cases r)
    show ?thesis
    proof (cases "code = 0")
      case True
      with status Inr r show ?thesis by (simp add: create_machine_def bind_act_def then_check machine_trace_def)
    next
      case False
      note known = False
      let ?go = "bind_act (build_machine E target vmid storage efi b) (\<lambda>(remotes, failure).
         finally_act
           (case failure of None \<Rightarrow> ret ()
            | Some e \<Rightarrow> then_act (px_do E target (destroy_script vmid) False) (throw e))
           (remove_images E target remotes))"
      have m: "?m s = then_act (px_do E target (create_script b bridges vmid name) True) ?go ?s1"
        using status Inr r known by (simp add: create_machine_def bind_act_def then_check)
      show ?thesis
      proof (cases "\<exists>out err. run_reply E (trace ?s1) ?create = Inr (0, out, err)")
        case False
        then have "snd (?m s) = ?s2"
          unfolding m by (auto simp: then_act_def bind_act_def create split: sum.split)
        with False Inr r known show ?thesis
          by (intro exI [of _ "[?status, ?create]"]) (simp add: machine_trace_def)
      next
        case True
        then have go: "snd (?m s) = snd (?go ?s2)"
          unfolding m by (auto simp: then_act_def bind_act_def create)
        obtain remotes failure t ds where b: "build_machine E target vmid storage efi b ?s2 = (Inr (remotes, failure), t)"
          "trace t = trace ?s2 @ ds" "list_all (build_call E target) ds"
          "failure = None \<longrightarrow> found_complete E target vmid b (trace ?s2) ds"
          using build_result by blast
        let ?mid = "case failure of None \<Rightarrow> ret ()
            | Some e \<Rightarrow> then_act (px_do E target (destroy_script vmid) False) (throw e)"
        have "snd (?go ?s2) = snd (remove_images E target remotes (snd (?mid t)))"
          unfolding bind_act_def b(1) by (simp add: finally_trace)
        moreover obtain rs where "trace (snd (remove_images E target remotes (snd (?mid t)))) = trace (snd (?mid t)) @ rs"
          "list_all (build_call E target) rs"
          using does.steps_at [OF remove_builds, unfolded does_all] by blast
        moreover have "trace (snd (?mid t)) = trace t @ (case failure of None \<Rightarrow> [] | Some e \<Rightarrow> [px_call E target (destroy_script vmid)])"
        proof -
          obtain z where "px_do E target (destroy_script vmid) False t = (z, t\<lparr>trace := trace t @ [px_call E target (destroy_script vmid)]\<rparr>)"
            using px_do_trace by blast
          then show ?thesis by (cases z) (auto simp: then_act_def bind_act_def split: option.split)
        qed
        ultimately have t: "trace (snd (?m s)) = trace s @ ?status # ?create # ds @
            (case failure of None \<Rightarrow> [] | Some e \<Rightarrow> [px_call E target (destroy_script vmid)]) @ rs"
          and rs: "list_all (build_call E target) rs"
          using go b(2) by simp_all
        have destroys: "build_call E target (px_call E target (destroy_script vmid))"
          unfolding build_call_def by (rule disjI2, rule exI, rule conjI, rule refl) (simp add: script_kinds)
        let ?ds = "ds @ (case failure of None \<Rightarrow> [] | Some e \<Rightarrow> [px_call E target (destroy_script vmid)]) @ rs"
        have "list_all (build_call E target) ?ds" using b(3) rs destroys by (simp split: option.split)
        moreover have "px_call E target (destroy_script vmid) \<in> set ?ds \<or>
            found_complete E target vmid b (trace ?s2) ?ds"
          using b(4) found_complete_append by (cases failure) auto
        moreover have "?ds \<noteq> []" using b(4) by (cases failure) auto
        ultimately show ?thesis
          using t Inr r known True by (intro exI [of _ "?status # ?create # ?ds"]) (simp add: machine_trace_def)
      qed
    qed
  qed
qed

text \<open>The checks before: storages, bridges and the next free id.\<close>

definition checks_node :: "env \<Rightarrow> platform_config \<Rightarrow> call \<Rightarrow> bool" where
  "checks_node E target c \<longleftrightarrow> (\<exists>script. c = px_call E target script \<and>
     list_ex (\<lambda>v. starts_with v script) [''pvesm status '', ''ip -o link show '', ''pvesh get /cluster/nextid''])"

definition new_machine :: "env \<Rightarrow> platform_config \<Rightarrow> converted_bundle \<Rightarrow> string \<Rightarrow> bool \<Rightarrow> call list \<Rightarrow> call list \<Rightarrow> bool" where
  "new_machine E target b name dry h cs \<longleftrightarrow>
     \<not> dry \<and> (\<exists>vmid bridges. (vmid = ''NEXTID'' \<or> all_digits vmid) \<and> list_all id64 bridges \<and>
        length bridges = length (cb_nics b) \<and>
        machine_trace E target vmid b (create_script b bridges vmid name) h cs)"

lemma checks_run:
  "list_ex (\<lambda>v. starts_with v script) [''pvesm status '', ''ip -o link show '', ''pvesh get /cluster/nextid''] \<Longrightarrow>
   steps (does (\<lambda>h. checks_node E target)) (px_run E target script chk)"
  unfolding px_run_def run_command_def
  by (intro does_rules does_ask) (auto simp: checks_node_def px_call_def)

lemma check_storage_checks: "steps (does (\<lambda>h. checks_node E target)) (check_storage E target storage)"
  unfolding check_storage_def by (intro does_rules checks_run) (simp add: starts_with_def)

lemma preflight_storage_checks: "steps (does (\<lambda>h. checks_node E target)) (preflight_storage E target options efi)"
  unfolding preflight_storage_def by (intro does_rules check_storage_checks)

lemma preflight_bridges_checks: "steps (does (\<lambda>h. checks_node E target)) (preflight_bridges E c b target options)"
  unfolding preflight_bridges_def check_bridge_def by (intro does_rules checks_run) (simp add: starts_with_def)

lemma next_vmid_checks: "steps (does (\<lambda>h. checks_node E target)) (next_vmid E target)"
  unfolding next_vmid_def px_out_def by (intro does_rules checks_run) (simp add: starts_with_def)

lemma bridge_for_id: "bridge_for c mapping fallback i nic = Inr x \<Longrightarrow> id64 x"
  by (auto simp: bridge_for_def Let_def)

lemma mapped_bridges_ok:
  assumes "mapped_bridges c b target options = Inr bridges"
  shows "list_all id64 bridges \<and> length bridges = length (cb_nics b)"
proof -
  obtain mapping where "map_res (\<lambda>(i, nic). bridge_for c mapping (default_bridge target options) i nic)
      (enumerate 0 (cb_nics b)) = Inr bridges"
    using assms by (auto simp: mapped_bridges_def)
  from this [unfolded map_res_Inr] have "list_all2 (\<lambda>x y. id64 y) (enumerate 0 (cb_nics b)) bridges"
    by (rule list_all2_mono) (auto split: prod.splits dest: bridge_for_id)
  then show ?thesis by (simp add: list_all2_conv_all_nth list_all_length)
qed

lemma base_restore_phases:
  "phases (checks_node E target) (new_machine E target b name dry) s
     (snd (base_restore_proxmox E c b target name options dry s))"
proof -
  have create: "phases (checks_node E target) (new_machine E target b name False) s
      (snd (create_machine E target vmid storage efi b bridges name s))"
    if "vmid = ''NEXTID'' \<or> all_digits vmid" "mapped_bridges c b target options = Inr bridges" for vmid storage efi bridges s
  proof -
    obtain cs where cs: "trace (snd (create_machine E target vmid storage efi b bridges name s)) = trace s @ cs"
      "machine_trace E target vmid b (create_script b bridges vmid name) (trace s) cs"
      using create_machine_trace by blast
    with mapped_bridges_ok [OF that(2)] that(1) have "new_machine E target b name False (trace s) cs"
      unfolding new_machine_def by blast
    with cs(1) show ?thesis by (rule phases_change)
  qed
  have id: "steps (does (\<lambda>h. checks_node E target))
      (if wanted \<noteq> [] then ret wanted else if dry then ret ''NEXTID'' else next_vmid E target)" for wanted
    by (intro does_rules next_vmid_checks)
  have last: "phases (checks_node E target) (new_machine E target b name dry) t
      (snd (then_act (check (vmid = ''NEXTID'' \<or> all_digits vmid) (RuntimeError e))
         (if dry then ret x else then_act (create_machine E target vmid storage efi b bridges name) (ret y)) t))"
    if "mapped_bridges c b target options = Inr bridges" for vmid storage efi bridges t x y e
    using that by (cases dry) (auto simp: then_check phases_same intro: phases_done create)
  show ?thesis
    unfolding base_restore_proxmox_def Let_def
  proof (rule phases_then [OF does.steps_check], rule phases_then [OF does.steps_check])
    fix t
    show "phases (checks_node E target) (new_machine E target b name dry) t
      (snd (bind_act (lift_res (mapped_bridges c b target options)) (\<lambda>bridges.
         then_act (check (first_text [map_of options ''vmid''] = [] \<or> all_digits (first_text [map_of options ''vmid'']))
           (ValueError ''V2V Proxmox vmid must be numeric''))
        (bind_act (if first_text [map_of options ''vmid''] \<noteq> [] then ret (first_text [map_of options ''vmid''])
            else if dry then ret ''NEXTID'' else next_vmid E target) (\<lambda>vmid.
         then_act (check (vmid = ''NEXTID'' \<or> all_digits vmid) (RuntimeError ''Proxmox did not return a numeric next VMID''))
         (if dry
          then ret (builtin_answer target vmid name b
            [(''create_command'', errors_json (create_parts b bridges vmid name))] bridges [])
          else then_act (create_machine E target vmid (v2v_storage options target)
              (efi_storage options target (v2v_storage options target)) b bridges name)
            (ret (builtin_answer target vmid name b [] bridges validated)))))) t))"
      by (cases "mapped_bridges c b target options")
        (simp_all only: then_lift sum.case snd_conv phases_same phases_then [OF does.steps_check] phases_bind [OF id] last)
  qed
qed


end
