(* ===== verification/V2v_Engine.thy ===== *)
theory V2v_Engine
  imports V2v_Target
begin

text \<open>
  Cross-hypervisor recovery requests: \<open>CertifiedBackupEngine\<close> of \<open>v2v_engine.py\<close>, which refines the
  engine's \<open>request_restore\<close> and \<open>execute_restore\<close>. Recoveries within a family take the engine's path; the
  others must be allowed by the conversion policy when requested and again when executed. The lemmas show that
  a conversion only ever starts from a verified copy of the point of an approved request.
\<close>

section \<open>Requests\<close>

definition v2v_plan_for ::
  "config \<Rightarrow> v2v_config \<Rightarrow> string \<Rightarrow> string \<Rightarrow> (string \<times> json) list \<Rightarrow> (string \<times> json) list act" where
  "v2v_plan_for cfg c sid target_platform options =
     bind_act (query (get_point sid)) (\<lambda>found.
     bind_act (need found (ValueError ''unknown recovery point'')) (\<lambda>p.
     bind_act (engine_platform cfg target_platform) (\<lambda>target.
     then_act (check (pl_enabled target) (ValueError ''target platform is disabled''))
       (ret (plan_dict (plan_v2v c p target options))))))"

definition v2v_mark :: "v2v_plan \<Rightarrow> json" where
  "v2v_mark plan =
     JObj [(''mode'', JStr (vn_mode plan)), (''provider'', opt_json (vn_provider plan)),
       (''certification_id'', opt_json (vn_certification_id plan)), (''source_type'', JStr (vn_source_type plan)),
       (''target_type'', JStr (vn_target_type plan))]"

definition v2v_request_restore ::
  "config \<Rightarrow> v2v_config \<Rightarrow> string \<Rightarrow> string \<Rightarrow> string \<Rightarrow> string option \<Rightarrow> (string \<times> json) list \<Rightarrow> nat act" where
  "v2v_request_restore cfg c sid requester target_platform target_name options =
     bind_act (query (get_point sid)) (\<lambda>found.
     bind_act (need found (ValueError ''unknown recovery point'')) (\<lambda>p.
     bind_act (engine_platform cfg target_platform) (\<lambda>target.
     if pl_type target = p_platform_type p
     then request_restore cfg sid requester target_platform target_name options
     else (let plan = plan_v2v c p target options;
               name = text_or target_name (p_vm_name p @ ''-v2v-'' @ take 8 sid);
               status = (if require_four_eyes_restore (protection cfg) then ''pending_approval'' else ''ready'')
       in then_act (check (vn_allowed plan)
            (ValueError (''cross-hypervisor recovery blocked: '' @ join ''; '' (vn_reasons plan))))
          (bind_act (call_db (create_restore_request requester p (pl_name target) name
              (put_key ''v2v'' (v2v_mark plan) options) status)) (\<lambda>i.
           then_act (change (audit requester ''v2v.restore.requested'' ''restore_request'' (show_nat i)
              (JObj [(''snapshot_id'', JStr sid), (''source_type'', JStr (vn_source_type plan)),
                 (''target_type'', JStr (vn_target_type plan)), (''certification_id'', opt_json (vn_certification_id plan)),
                 (''provider'', opt_json (vn_provider plan))])))
             (ret i)))))))"

section \<open>Execution\<close>

definition v2v_restore_plan ::
  "nat \<Rightarrow> point \<Rightarrow> platform_config \<Rightarrow> restore_request \<Rightarrow> string \<Rightarrow> v2v_plan \<Rightarrow> json" where
  "v2v_restore_plan i p target req source_repository plan =
     JObj [(''request_id'', JInt (int i)), (''snapshot'', JStr (p_snapshot_id p)),
       (''source_type'', JStr (p_platform_type p)), (''target_platform'', JStr (pl_name target)),
       (''target_type'', JStr (pl_type target)), (''target_name'', JStr (q_target_name req)),
       (''source_repository'', JStr source_repository), (''v2v'', JObj (plan_dict plan)),
       (''note'', JStr (''execution restores and verifies the immutable point before conversion; the source VM is never '' @
          ''modified and the target is created as a new powered-off VM''))]"

definition v2v_preflight :: "env \<Rightarrow> config \<Rightarrow> nat \<Rightarrow> string \<Rightarrow> platform_config \<Rightarrow> unit act" where
  "v2v_preflight E cfg i actor target =
     then_act (ensure_path_capacity E cfg (restore_staging_path (runtime cfg)) ''V2V restore'')
    (then_act (build_adapter target)
    (bind_act (adapter_doctor E target) (\<lambda>problems.
       when_act (problems \<noteq> [])
         (then_act (change (audit actor ''v2v.restore.preflight_failed'' ''restore_request'' (show_nat i)
             (JObj [(''problems'', errors_json problems)])))
           (throw (RuntimeError (''V2V target preflight failed: '' @ join ''; '' problems)))))))"

definition convert_point ::
  "env \<Rightarrow> config \<Rightarrow> v2v_config \<Rightarrow> nat \<Rightarrow> string \<Rightarrow> platform_config \<Rightarrow> point \<Rightarrow> restore_request \<Rightarrow> (string \<times> json) list \<Rightarrow>
   string \<Rightarrow> replica_config option \<Rightarrow> v2v_plan \<Rightarrow> json act" where
  "convert_point E cfg c i actor target p req options source_repository replica plan =
     catch
       (bind_act (stage_snapshot E cfg ''recovery point manifest verification failed before V2V: '' i p replica)
         (\<lambda>restored_source.
        bind_act (execute_v2v E c restored_source p target (q_target_name req) options False) (\<lambda>answer.
        let result = JObj (put_key ''source_snapshot'' (JStr (p_snapshot_id p))
             (put_key ''source_repository'' (JStr source_repository) answer))
        in then_act (change (finish_restore i True (json_or_empty result) None))
          (then_act (change (audit actor ''v2v.restore.complete'' ''restore_request'' (show_nat i) result))
          (then_act (rmtree E (restore_root cfg i)) (ret result))))))
       (\<lambda>e. then_act (change (finish_restore i False (JObj []) (Some (exc_msg e))))
          (then_act (change (audit actor ''v2v.restore.failed'' ''restore_request'' (show_nat i)
             (JObj [(''error'', JStr (exc_msg e)), (''source_type'', JStr (p_platform_type p)),
                (''target_type'', JStr (pl_type target)), (''certification_id'', opt_json (vn_certification_id plan))])))
          (then_act (when_act (\<not> keep_staging_on_failure (runtime cfg)) (rmtree E (restore_root cfg i)))
            (throw e))))"

definition v2v_execute_cross ::
  "env \<Rightarrow> config \<Rightarrow> v2v_config \<Rightarrow> nat \<Rightarrow> string \<Rightarrow> bool \<Rightarrow> restore_request \<Rightarrow> point \<Rightarrow> platform_config \<Rightarrow> json act" where
  "v2v_execute_cross E cfg c i actor dry_run req p target =
     (let options = q_options req; plan = plan_v2v c p target options; source_repository = source_of options
      in then_act (check (dry_run \<longrightarrow> plannable (q_status req))
           (ValueError (''restore request cannot be planned from status '' @ q_status req)))
        (then_act (check (vn_allowed plan)
           (RuntimeError (''cross-hypervisor recovery blocked at execution: '' @ join ''; '' (vn_reasons plan))))
        (bind_act (restore_source cfg (p_snapshot_id p) source_repository) (\<lambda>replica.
         if dry_run then ret (v2v_restore_plan i p target req source_repository plan)
         else then_act (v2v_preflight E cfg i actor target)
           (bind_act (try_db (start_restore i actor)) (\<lambda>started.
            convert_point E cfg c i actor target p started options source_repository replica plan))))))"

definition v2v_execute_restore :: "env \<Rightarrow> config \<Rightarrow> v2v_config \<Rightarrow> nat \<Rightarrow> string \<Rightarrow> bool \<Rightarrow> json act" where
  "v2v_execute_restore E cfg c i actor dry_run =
     bind_act (query (get_restore_request i)) (\<lambda>found.
     bind_act (need found (ValueError ''restore request not found'')) (\<lambda>req.
     bind_act (query (get_point (q_snapshot_id req))) (\<lambda>known.
     bind_act (need known (RuntimeError ''recovery point metadata missing'')) (\<lambda>p.
     bind_act (engine_platform cfg (q_target_platform req)) (\<lambda>target.
     if pl_type target = p_platform_type p then execute_restore E cfg i actor dry_run
     else v2v_execute_cross E cfg c i actor dry_run req p target)))))"

definition v2v_engine_doctor :: "env \<Rightarrow> config \<Rightarrow> v2v_config \<Rightarrow> (string \<times> string list) list act" where
  "v2v_engine_doctor E cfg c =
     bind_act (doctor E cfg) (\<lambda>result.
     bind_act (if v2_enabled c then v2v_doctor E c else ret []) (\<lambda>found.
       ret (foldl (\<lambda>d (k, v). put_key (''v2v:'' @ k) v d) result found)))"

section \<open>Conversions make no adapter calls\<close>

definition offline :: "call list \<Rightarrow> call \<Rightarrow> bool" where
  "offline h c \<longleftrightarrow> (\<forall>n op. c \<noteq> Adapter n op)"

lemma offline_ask: "(\<And>n op. c \<noteq> Adapter n op) \<Longrightarrow> steps (does offline) (ask f c)"
  by (rule does_ask) (simp add: offline_def)

lemma offline_run: "steps (does offline) (run_command E cmd envs chk)"
  unfolding run_command_def by (intro does_rules offline_ask) simp

lemmas offline_rules = does_rules offline_run attempt_does offline_ask

lemma offline_px: "steps (does offline) (px_run E pl script chk)" "steps (does offline) (px_out E pl script)"
  "steps (does offline) (px_do E pl script chk)" "steps (does offline) (px_put E pl path remote)"
  unfolding px_run_def px_out_def px_do_def px_put_def by (intro offline_rules)+

lemma offline_next: "steps (does offline) (next_vmid E pl)"
  unfolding next_vmid_def by (intro offline_rules offline_px)

lemma offline_doctor: "steps (does offline) (builtin_doctor E c)"
  unfolding builtin_doctor_def not_installed_def by (intro offline_rules) simp_all

lemma offline_payload: "steps (does offline) (provider_payload E pr action request)"
  unfolding provider_payload_def
  by (intro offline_rules)
    (auto split: json.split intro: does.steps_ret [unfolded ret_def] does.steps_throw [unfolded throw_def])

lemma offline_provider: "steps (does offline) (execute_provider E pr source p target name options dry)"
  unfolding execute_provider_def provider_doctor_def by (intro offline_rules offline_payload)

lemma offline_xml: "steps (does offline) (parse_xml E path problem)"
  unfolding parse_xml_def by (intro offline_rules) simp

lemma offline_ovfs: "steps (does offline) (ovf_descriptors E source)"
  unfolding ovf_descriptors_def by (intro offline_rules) simp

lemma offline_manifests: "steps (does offline) (add_manifests E files ms)"
  by (induction ms arbitrary: files) (auto intro!: offline_rules simp only: add_manifests.simps)

lemma offline_ova: "steps (does offline) (prepare_ova E source work)"
  unfolding prepare_ova_def base_prepare_ova_def refuse_symlink_def referenced_file_def
  by (intro offline_rules offline_xml offline_ovfs offline_manifests) simp_all

lemma offline_inspection: "steps (does offline) (inspection E c ova flags)"
  unfolding inspection_def virtio_windows_available_def by (intro offline_rules) simp_all

lemma offline_bundle: "steps (does offline) (parse_bundle E c dir i)"
  unfolding parse_bundle_def base_parse_bundle_def converted_image_def by (intro offline_rules offline_xml) simp_all

lemma offline_convert: "steps (does offline) (convert_vmware E c source name work)"
  unfolding convert_vmware_def
  by (intro offline_rules offline_doctor offline_ova offline_inspection offline_bundle) simp_all

lemma offline_storage: "steps (does offline) (preflight_storage E target options efi)"
  unfolding preflight_storage_def check_storage_def by (intro offline_rules offline_px)

lemma offline_disks: "steps (does offline) (import_disks E target vmid storage i ds)"
  by (induction ds arbitrary: i)
    (auto intro!: offline_rules offline_px simp only: import_disks.simps import_disk_def config_of_def)

lemma offline_build: "steps (does offline) (build_machine E target vmid storage efi b)"
  unfolding build_machine_def finish_machine_def config_of_def by (intro offline_rules offline_px offline_disks)

lemma offline_create: "steps (does offline) (create_machine E target vmid storage efi b bridges name)"
  unfolding create_machine_def remove_images_def by (intro offline_rules offline_px offline_build)

lemma offline_target: "steps (does offline) (restore_proxmox E c b target name options dry)"
  unfolding restore_proxmox_def base_restore_proxmox_def preflight_bridges_def check_bridge_def
  by (intro offline_rules offline_px offline_storage offline_create offline_next)

lemma offline_execute: "steps (does offline) (execute_v2v E c source p target name options dry)"
  unfolding execute_v2v_def base_execute_v2v_def
  by (intro offline_rules offline_storage offline_convert offline_target offline_provider) simp_all

section \<open>Only verified copies of approved points are converted\<close>

text \<open>The calls that leave the engine and its repository: other programs, other machines, temporary work.\<close>

definition outward :: "call \<Rightarrow> bool" where
  "outward c \<longleftrightarrow>
     (case c of Run cmd envs \<Rightarrow> take 1 cmd \<noteq> [''restic''] | RunInput cmd envs input \<Rightarrow> True | TempDir \<Rightarrow> True
      | MakeTar p ms \<Rightarrow> True | Adapter n op \<Rightarrow> op \<noteq> Doctor | _ \<Rightarrow> False)"

definition verified_in :: "env \<Rightarrow> string \<Rightarrow> string option \<Rightarrow> call list \<Rightarrow> bool" where
  "verified_in E src digest h \<longleftrightarrow>
     (\<exists>ws ys d es. h = ws @ ReadTree src # ys \<and> tree_reply E ws (ReadTree src) = Inr d \<and>
        verify_manifest d digest = Inr (True, es))"

definition inward :: "call list \<Rightarrow> call \<Rightarrow> bool" where
  "inward h c \<longleftrightarrow> \<not> outward c"

lemma inward_ask: "\<not> outward c \<Longrightarrow> steps (does inward) (ask f c)"
  by (rule does_ask) (simp add: inward_def)

lemma inward_restic: "steps (does inward) (restic_run E rc l args chk)"
  by (rule does_restic_run) (simp add: inward_def outward_def)

lemma inward_capacity: "steps (does inward) (ensure_path_capacity E cfg path a)"
  unfolding ensure_path_capacity_def by (intro does_rules inward_ask) (simp_all add: outward_def)

lemma inward_rmtree: "steps (does inward) (rmtree E path)"
  unfolding rmtree_def by (intro does_rules inward_ask) (simp add: outward_def)

lemma inward_source: "steps (does inward) (restore_source cfg sid src)"
  unfolding restore_source_def engine_replica_def by (intro does_rules)

lemma inward_adapter_doctor: "steps (does inward) (adapter_doctor E target)"
  unfolding adapter_doctor_def by (intro does_rules inward_ask) (simp add: outward_def)

lemma inward_preflight: "steps (does inward) (v2v_preflight E cfg i actor target)"
  unfolding v2v_preflight_def build_adapter_def
  by (intro does_rules inward_capacity inward_adapter_doctor)

lemma inward_stage: "steps (does inward) (stage_snapshot E cfg failure i p replica)"
proof -
  have "steps (does inward) (run_command E ([''restic''] @ r) envs True)" for r envs
    unfolding run_command_def by (intro does_rules inward_ask) (simp add: outward_def)
  then show ?thesis
    unfolding stage_snapshot_def repo_restore_def check_tree_def read_tree_def Let_def
    by (intro does_rules inward_rmtree inward_restic inward_ask) (simp_all add: outward_def)
qed

lemma staged_later: "verified_in E src digest h \<Longrightarrow> verified_in E src digest (h @ cs)"
  unfolding verified_in_def by (metis append.assoc append_Cons)

text \<open>What holds of the trace at a state and is never lost holds before every later call.\<close>

lemma does_since:
  assumes "does P s t" "K (trace s)" "\<And>h cs. K h \<Longrightarrow> K (h @ cs)" "\<And>h c. P h c \<Longrightarrow> K h \<Longrightarrow> Q h c"
  shows "does Q s t"
proof -
  obtain cs where cs: "trace t = trace s @ cs" "calls_ok P (trace s) cs" using assms(1) by (auto simp: does_def)
  then have "calls_ok Q (trace s) cs" using assms(2-) unfolding calls_ok_def by blast
  with cs(1) show ?thesis by (auto simp: does_def)
qed

definition from_verified :: "env \<Rightarrow> bool \<Rightarrow> string \<Rightarrow> string option \<Rightarrow> call list \<Rightarrow> call \<Rightarrow> bool" where
  "from_verified E may src digest h c \<longleftrightarrow> (outward c \<longrightarrow> may \<and> verified_in E src digest h)"

lemma inward_from_verified: "steps (does inward) m \<Longrightarrow> steps (does (from_verified E may src digest)) m"
  unfolding steps_def by (metis does_mono from_verified_def inward_def)

lemma convert_point_from:
  "steps (does (from_verified E True (restored_path (restore_root cfg i) p) (p_manifest_sha256 p)))
     (convert_point E cfg c i actor target p req options src replica plan)" (is "steps (does ?Q) _")
  unfolding convert_point_def
proof (rule does.steps_catch)
  show "steps (does ?Q) (then_act (change (finish_restore i False (JObj []) (Some (exc_msg e))))
      (then_act (change (audit actor ''v2v.restore.failed'' ''restore_request'' (show_nat i)
         (JObj [(''error'', JStr (exc_msg e)), (''source_type'', JStr (p_platform_type p)),
            (''target_type'', JStr (pl_type target)), (''certification_id'', opt_json (vn_certification_id plan))])))
      (then_act (when_act (\<not> keep_staging_on_failure (runtime cfg)) (rmtree E (restore_root cfg i))) (throw e))))" for e
    by (intro does_rules inward_from_verified inward_rmtree)
  show "steps (does ?Q)
     (bind_act (stage_snapshot E cfg ''recovery point manifest verification failed before V2V: '' i p replica)
       (\<lambda>restored_source. bind_act (execute_v2v E c restored_source p target (q_target_name req) options False) (\<lambda>answer.
        let result = JObj (put_key ''source_snapshot'' (JStr (p_snapshot_id p)) (put_key ''source_repository'' (JStr src) answer))
        in then_act (change (finish_restore i True (json_or_empty result) None))
          (then_act (change (audit actor ''v2v.restore.complete'' ''restore_request'' (show_nat i) result))
          (then_act (rmtree E (restore_root cfg i)) (ret result))))))"
  proof (intro does.stepsI does.bind_at [where m = "stage_snapshot E cfg x i p replica" for x])
    fix s
    show "does ?Q s (snd (stage_snapshot E cfg ''recovery point manifest verification failed before V2V: '' i p replica s))"
      by (rule does.steps_at, rule inward_from_verified, rule inward_stage)
  next
    fix s x t
    assume "stage_snapshot E cfg ''recovery point manifest verification failed before V2V: '' i p replica s = (Inr x, t)"
    note v = stage_verified [OF this]
    then have ok: "verified_in E x (p_manifest_sha256 p) (trace t)" by (auto simp: verified_in_def)
    show "does ?Q t (snd (bind_act (execute_v2v E c x p target (q_target_name req) options False) (\<lambda>answer.
        let result = JObj (put_key ''source_snapshot'' (JStr (p_snapshot_id p)) (put_key ''source_repository'' (JStr src) answer))
        in then_act (change (finish_restore i True (json_or_empty result) None))
          (then_act (change (audit actor ''v2v.restore.complete'' ''restore_request'' (show_nat i) result))
          (then_act (rmtree E (restore_root cfg i)) (ret result)))) t))"
    proof (rule does.bind_at)
      show "does ?Q t (snd (execute_v2v E c x p target (q_target_name req) options False t))"
        using v by (intro does_since [OF does.steps_at [OF offline_execute], where K = "verified_in E x (p_manifest_sha256 p)"] ok
            staged_later) (auto simp: from_verified_def)
    qed (rule does.steps_at, intro does_rules inward_from_verified inward_rmtree)
  qed
qed

lemma kept_v2v_preflight: "(\<And>d n. f (d\<lparr>reads := n\<rparr>) = f d) \<Longrightarrow> (\<And>a b c e g d. f (audit a b c e g d) = f d) \<Longrightarrow>
   steps (kept f) (v2v_preflight E cfg i actor target)"
  unfolding v2v_preflight_def adapter_doctor_def build_adapter_def
  by (intro kept.steps_then kept.steps_bind kept.steps_when kept.steps_throw kept.steps_check kept_ask kept_change
      service_kept service_capacity) simp_all

lemma execute_cross_from:
  assumes "get_restore_request i (database s) = Some q"
  shows "does (from_verified E (\<not> dry \<and> (q_status q = ''approved'' \<or> q_status q = ''ready'') \<and>
      vn_allowed (plan_v2v c p target (q_options q))) (restored_path (restore_root cfg i) p) (p_manifest_sha256 p))
    s (snd (v2v_execute_cross E cfg c i actor dry q p target s))" (is "does (from_verified E ?may ?src ?dg) _ _")
proof -
  let ?plan = "plan_v2v c p target (q_options q)"
  let ?sr = "source_of (q_options q)"
  let ?go = "\<lambda>replica. bind_act (try_db (start_restore i actor)) (\<lambda>started.
      convert_point E cfg c i actor target p started (q_options q) ?sr replica ?plan)"
  let ?rest = "\<lambda>replica. if dry then ret (v2v_restore_plan i p target q ?sr ?plan)
      else then_act (v2v_preflight E cfg i actor target) (?go replica)"
  have go: "does (from_verified E ?may ?src ?dg) u (snd (?go replica u))"
    if "get_restore_request i (database u) = Some q" "\<not> dry" "vn_allowed ?plan" for u replica
  proof (rule does.bind_at)
    show "does (from_verified E ?may ?src ?dg) u (snd (try_db (start_restore i actor) u))"
      by (rule does.steps_at, rule does_db)
    fix q' v assume "try_db (start_restore i actor) u = (Inr q', v)"
    from start_from [OF this that(1)] that(2,3) have ?may by simp
    then have "from_verified E ?may = from_verified E True" by simp
    then show "does (from_verified E ?may ?src ?dg) v
        (snd (convert_point E cfg c i actor target p q' (q_options q) ?sr replica ?plan v))"
      by (simp only:) (rule does.steps_at, rule convert_point_from)
  qed
  have rest: "does (from_verified E ?may ?src ?dg) t (snd (?rest replica t))"
    if "get_restore_request i (database t) = Some q" "vn_allowed ?plan" for t replica
  proof (cases dry)
    case False
    have "does (from_verified E ?may ?src ?dg) t (snd (then_act (v2v_preflight E cfg i actor target) (?go replica) t))"
    proof (rule does.then_at)
      show "does (from_verified E ?may ?src ?dg) t (snd (v2v_preflight E cfg i actor target t))"
        by (rule does.steps_at, rule inward_from_verified, rule inward_preflight)
      fix x u assume "v2v_preflight E cfg i actor target t = (Inr x, u)"
      from stepsD [OF kept_v2v_preflight this, of "get_restore_request i"] that
      have "get_restore_request i (database u) = Some q" by (simp add: kept_def)
      then show "does (from_verified E ?may ?src ?dg) u (snd (?go replica u))" using False that(2) by (rule go)
    qed
    then show ?thesis using False by simp
  qed (simp add: does.R_refl)
  have "does (from_verified E ?may ?src ?dg) s
      (snd (bind_act (restore_source cfg (p_snapshot_id p) ?sr) ?rest s))" if "vn_allowed ?plan"
  proof (rule does.bind_at)
    show "does (from_verified E ?may ?src ?dg) s (snd (restore_source cfg (p_snapshot_id p) ?sr s))"
      by (rule does.steps_at, rule inward_from_verified, rule inward_source)
    fix replica t assume "restore_source cfg (p_snapshot_id p) ?sr s = (Inr replica, t)"
    from stepsD [OF service_kept [OF restore_source_service] this, of "get_restore_request i"] assms
    have "get_restore_request i (database t) = Some q" by (simp add: kept_def)
    then show "does (from_verified E ?may ?src ?dg) t (snd (?rest replica t))" using that by (rule rest)
  qed
  then show ?thesis
    unfolding v2v_execute_cross_def Let_def then_check by (simp add: does.R_refl)
qed

text \<open>
  C5. A recovery point is only converted from a verified copy, for an authorised request that the policy
  still allows. In any run of \<open>execute_restore\<close> on a request across hypervisor families, every call that
  leaves the engine and its repository - another program, a provider, a node, an archive to be made -
  implies that the run is not a dry run, the request was approved or ready, the plan was allowed at
  execution, and the staged tree was read before and verified against the digest recorded for the point.
\<close>

theorem v2v_only_certified:
  assumes "get_restore_request i (database s) = Some q" "get_point (q_snapshot_id q) (database s) = Some p"
    and "find (\<lambda>pl. pl_name pl = q_target_platform q) (platforms cfg) = Some target"
    and "pl_type target \<noteq> p_platform_type p"
  shows "does (from_verified E (\<not> dry \<and> (q_status q = ''approved'' \<or> q_status q = ''ready'') \<and>
      vn_allowed (plan_v2v c p target (q_options q))) (restored_path (restore_root cfg i) p) (p_manifest_sha256 p))
    s (snd (v2v_execute_restore E cfg c i actor dry s))"
proof -
  have "v2v_execute_restore E cfg c i actor dry s = v2v_execute_cross E cfg c i actor dry q p target s"
    using assms by (simp add: v2v_execute_restore_def engine_platform_def)
  then show ?thesis using execute_cross_from [OF assms(1)] by simp
qed

text \<open>An approved request to recover the VMware point \<open>s2\<close> on Proxmox.\<close>

definition v2v_sys :: sys where
  "v2v_sys = \<lparr>database = (create_schema (\<lambda>n. day_us))
     \<lparr>recovery_points := [sample_point ''s2'' ''vm-1'' 0 (2 * day_us)],
      restore_requests := [(sample_request 1 ''alice'' ''approved'')\<lparr>q_snapshot_id := ''s2'', q_target_platform := ''pve''\<rparr>]\<rparr>,
     trace = [], memory = []\<rparr>"

theorem v2v_only_certified_witness:
  "does (from_verified guest_env (vn_allowed (plan_v2v default_v2v (sample_point ''s2'' ''vm-1'' 0 (2 * day_us))
        (default_platform ''pve'' ''proxmox'' ''https://pve'') []))
      (restored_path (restore_root sample_config 1) (sample_point ''s2'' ''vm-1'' 0 (2 * day_us))) None)
    v2v_sys (snd (v2v_execute_restore guest_env sample_config default_v2v 1 ''bob'' False v2v_sys))"
proof -
  let ?q = "(sample_request 1 ''alice'' ''approved'')\<lparr>q_snapshot_id := ''s2'', q_target_platform := ''pve''\<rparr>"
  let ?p = "sample_point ''s2'' ''vm-1'' 0 (2 * day_us)"
  let ?target = "default_platform ''pve'' ''proxmox'' ''https://pve''"
  have q: "get_restore_request 1 (database v2v_sys) = Some ?q"
    by (simp add: v2v_sys_def create_schema_def get_restore_request_def sample_request_def)
  have p: "get_point (q_snapshot_id ?q) (database v2v_sys) = Some ?p"
    by (simp add: v2v_sys_def create_schema_def get_point_def live_points_def sample_point_def)
  have t: "find (\<lambda>pl. pl_name pl = q_target_platform ?q) (platforms sample_config) = Some ?target"
    "pl_type ?target \<noteq> p_platform_type ?p"
    by (simp_all add: sample_config_def default_config_def default_platform_def sample_point_def)
  have o: "q_options ?q = []" "q_status ?q = ''approved''" "p_manifest_sha256 ?p = None"
    by (simp_all add: sample_request_def sample_point_def)
  show ?thesis
    using v2v_only_certified [OF q p t, of guest_env False default_v2v "''bob''"] unfolding o by simp
qed

end
