(* ===== verification/Recovery_Test.thy ===== *)
theory Recovery_Test
  imports V2v_Engine Vmware Management_Config
begin

text \<open>
  Isolated recovery tests: \<open>RecoveryTestTarget\<close> of \<open>recovery_test.py\<close>, which moves a restored machine to an
  isolated network, looks whether it runs and destroys it, and \<open>ManagedBackupEngine\<close> of
  \<open>managed_engine.py\<close>, which restores, isolates, boots and removes a machine. The lemmas show that a machine
  under test is started only after every network adapter it was found to have was moved to the isolated
  network, and that a started machine is always powered off again.
\<close>

section \<open>Isolation\<close>

text \<open>\<open>^[0-9a-fA-F-]{32,36}$\<close>.\<close>

definition uuid_ok :: "string \<Rightarrow> bool" where
  "uuid_ok s \<longleftrightarrow> 32 \<le> length s \<and> length s \<le> 36 \<and> list_all (\<lambda>c. is_hex c \<or> c = CHR ''-'') s"

text \<open>The first words of the lines of \<open>device.ls\<close> that name a network adapter.\<close>

definition ethernet_devices :: "string \<Rightarrow> string list" where
  "ethernet_devices out =
     filter (starts_with ''ethernet-'') (map (\<lambda>line. case words_of line of [] \<Rightarrow> [] | w # ws \<Rightarrow> w) (splitlines out))"

definition device_args :: "string \<Rightarrow> string list" where
  "device_args name = [''device.ls'', ''-vm'', name]"

definition vmware_devices :: "env \<Rightarrow> platform_config \<Rightarrow> string \<Rightarrow> string list act" where
  "vmware_devices E pl name =
     bind_act (govc_here E pl (device_args name) True) (\<lambda>(code, out, err).
     then_act (check (ethernet_devices out \<noteq> []) (RuntimeError ''restored VMware VM has no virtual NICs to isolate''))
       (ret (ethernet_devices out)))"

text \<open>\<open>result.stdout.replace("\n", ",").split(",")\<close>, stripped, without empty items.\<close>

definition minimal_items :: "string \<Rightarrow> string list" where
  "minimal_items out =
     filter (\<lambda>x. x \<noteq> []) (map (strip whitespace) (split_on (CHR '','') (map (\<lambda>c. if c = CHR 0x0A then CHR '','' else c) out)))"

definition network_selector :: "string \<Rightarrow> string" where
  "network_selector network =
     (if uuid_ok network then ''uuid='' @ shell_quote network else ''name-label='' @ shell_quote network)"

definition xcp_network_uuid :: "env \<Rightarrow> platform_config \<Rightarrow> string \<Rightarrow> string act" where
  "xcp_network_uuid E pl network =
     bind_act (px_out E pl (''xe network-list '' @ network_selector network @ '' params=uuid --minimal'')) (\<lambda>out.
     let rows = rev (remdups (rev (minimal_items out)))
     in then_act (check (length rows = 1)
          (RuntimeError (''XCP-ng isolated network '' @ repr_str network @ '' must resolve to exactly one network UUID'')))
        (ret (hd rows)))"

definition network_found :: "env \<Rightarrow> (string \<times> string) list \<Rightarrow> string \<Rightarrow> bool act" where
  "network_found E envs network =
     bind_act (govc E envs [''find'', ''/'', ''-type'', ''n'', ''-name'', network] False) (\<lambda>(code, out, err).
     if code = 0 \<and> strip whitespace out \<noteq> [] then ret True
     else bind_act (govc E envs [''ls'', ''-t'', ''DistributedVirtualPortgroup'', ''/*/network/*''] False) (\<lambda>(code, out, err).
       ret (code = 0 \<and> contains network out)))"

definition network_facts :: "platform_config \<Rightarrow> string \<Rightarrow> (string \<times> json) list \<Rightarrow> (string \<times> json) list" where
  "network_facts pl network more_facts =
     [(''platform'', JStr (pl_name pl)), (''type'', JStr (pl_type pl)), (''network'', JStr network)] @ more_facts @
     [(''exists'', JBool True)]"

definition validate_network :: "env \<Rightarrow> platform_config \<Rightarrow> string \<Rightarrow> (string \<times> json) list act" where
  "validate_network E pl raw =
     (let network = strip whitespace raw
      in then_act (check (network \<noteq> []) (ValueError ''isolated recovery network is required''))
        (if pl_type pl = ''vmware''
         then bind_act (lift_res (govc_env E pl)) (\<lambda>envs.
           bind_act (network_found E envs network) (\<lambda>found.
           then_act (check found
             (RuntimeError (''VMware isolated network/port group '' @ repr_str network @ '' was not found'')))
             (ret (network_facts pl network []))))
         else if pl_type pl = ''proxmox''
         then then_act (check (id64 network) (ValueError ''Proxmox isolated bridge name is invalid''))
           (bind_act (px_run E pl (''ip -o link show dev '' @ shell_quote network) False) (\<lambda>(code, out, err).
            then_act (check (code = 0) (RuntimeError
              (''Proxmox isolated bridge '' @ repr_str network @ '' does not exist on the selected node'')))
              (ret (network_facts pl network []))))
         else if pl_type pl = ''xcpng''
         then bind_act (xcp_network_uuid E pl network) (\<lambda>uuid.
           ret (network_facts pl network [(''network_uuid'', JStr uuid)]))
         else throw (ValueError (''unsupported recovery-test platform: '' @ pl_type pl))))"

text \<open>\<open>^(net\d+):\s*(.+)$\<close> on a stripped line, and the value with its bridge replaced.\<close>

definition nic_line :: "string \<Rightarrow> (string \<times> string) option" where
  "nic_line line =
     (let s = strip whitespace line; (ds, rest) = span_digits (drop 3 s); v = lstrip whitespace (tl rest)
      in if starts_with ''net'' s \<and> ds \<noteq> [] \<and> starts_with '':'' rest \<and> v \<noteq> [] then Some (''net'' @ ds, v) else None)"

definition rebridged :: "string \<Rightarrow> string \<Rightarrow> string" where
  "rebridged network v =
     join '','' (filter (\<lambda>p. p \<noteq> [] \<and> \<not> starts_with ''bridge='' p) (split_on (CHR '','') v) @ [''bridge='' @ network])"

definition rebridge_script :: "string \<Rightarrow> string \<Rightarrow> string \<times> string \<Rightarrow> string" where
  "rebridge_script vmid network nic =
     ''qm set '' @ shell_quote vmid @ '' --'' @ fst nic @ '' '' @ shell_quote (rebridged network (snd nic))"

definition nic_lines :: "string \<Rightarrow> (string \<times> string) list" where
  "nic_lines config = List.map_filter nic_line (splitlines config)"

definition vif_script :: "string \<Rightarrow> string" where
  "vif_script uuid = ''xe vif-list vm-uuid='' @ shell_quote uuid @ '' params=uuid --minimal''"

definition move_script :: "string \<Rightarrow> string \<Rightarrow> string" where
  "move_script network_uuid vif = ''xe vif-move uuid='' @ shell_quote vif @ '' network-uuid='' @ shell_quote network_uuid"

definition change_args :: "string \<Rightarrow> string \<Rightarrow> string \<Rightarrow> string list" where
  "change_args name network device = [''vm.network.change'', ''-vm'', name, ''-net'', network, device]"

definition remapped :: "(string \<times> json) list \<Rightarrow> string list \<Rightarrow> (string \<times> json) list" where
  "remapped net_facts nics = put_key ''nics_remapped'' (errors_json nics) net_facts"

definition isolate_vmware ::
  "env \<Rightarrow> platform_config \<Rightarrow> (string \<times> json) list \<Rightarrow> string \<Rightarrow> string list act" where
  "isolate_vmware E pl restored network =
     (let name = text_or_empty restored ''name''
      in then_act (check (name \<noteq> []) (ValueError ''restored VMware result is missing VM name''))
        (bind_act (vmware_devices E pl name) (\<lambda>devices.
         bind_act (lift_res (govc_env E pl)) (\<lambda>envs.
         bind_act (each (\<lambda>d. govc E envs (change_args name network d) True) devices) (\<lambda>_. ret devices)))))"

definition isolate_proxmox ::
  "env \<Rightarrow> platform_config \<Rightarrow> (string \<times> json) list \<Rightarrow> string \<Rightarrow> string list act" where
  "isolate_proxmox E pl restored network =
     (let vmid = text_or_empty restored ''vmid''; kind = py_str (or_else (map_of restored ''kind'') (JStr ''qemu''))
      in then_act (check (all_digits vmid) (ValueError ''restored Proxmox result is missing numeric VMID''))
        (then_act (check (kind = ''qemu'') (RuntimeError
           ''v1.1 isolated recovery tests support Proxmox QEMU VMs; LXC test remapping is blocked''))
        (bind_act (px_out E pl (config_script vmid)) (\<lambda>config.
         bind_act (each (\<lambda>nic. px_do E pl (rebridge_script vmid network nic) True) (nic_lines config)) (\<lambda>_.
         then_act (check (nic_lines config \<noteq> []) (RuntimeError ''restored Proxmox VM has no virtual NICs to isolate''))
           (ret (map fst (nic_lines config))))))))"

definition isolate_xcpng ::
  "env \<Rightarrow> platform_config \<Rightarrow> (string \<times> json) list \<Rightarrow> string \<Rightarrow> string list act" where
  "isolate_xcpng E pl restored network_uuid =
     (let uuid = text_or_empty restored ''uuid''
      in then_act (check (uuid_ok uuid) (ValueError ''restored XCP-ng result is missing VM UUID''))
        (bind_act (px_out E pl (vif_script uuid)) (\<lambda>out.
         then_act (check (minimal_items out \<noteq> []) (RuntimeError ''restored XCP-ng VM has no VIFs to isolate''))
        (bind_act (each (\<lambda>vif. px_do E pl (move_script network_uuid vif) True) (minimal_items out)) (\<lambda>_.
         ret (minimal_items out))))))"

definition isolate ::
  "env \<Rightarrow> platform_config \<Rightarrow> (string \<times> json) list \<Rightarrow> string \<Rightarrow> (string \<times> json) list act" where
  "isolate E pl restored network =
     bind_act (validate_network E pl network) (\<lambda>net_facts.
     bind_act
       (if pl_type pl = ''vmware'' then isolate_vmware E pl restored network
        else if pl_type pl = ''proxmox'' then isolate_proxmox E pl restored network
        else if pl_type pl = ''xcpng'' then isolate_xcpng E pl restored (text_or_empty net_facts ''network_uuid'')
        else throw (ValueError (''unsupported recovery-test platform: '' @ pl_type pl))) (\<lambda>nics.
     ret (remapped net_facts nics)))"

section \<open>Running and destroying\<close>

definition running_facts :: "bool \<Rightarrow> string \<Rightarrow> (string \<times> json) list" where
  "running_facts b detail = [(''running'', JBool b), (''detail'', JStr detail)]"

definition running_vm :: "env \<Rightarrow> platform_config \<Rightarrow> (string \<times> json) list \<Rightarrow> (string \<times> json) list act" where
  "running_vm E pl restored =
     (if pl_type pl = ''vmware''
      then bind_act (govc_here E pl [''vm.info'', text_or_empty restored ''name''] False) (\<lambda>(code, out, err).
        ret (running_facts (code = 0 \<and> contains ''poweredOn'' out) (last_chars 2000 out)))
      else if pl_type pl = ''proxmox''
      then bind_act (px_run E pl (status_script (text_or_empty restored ''vmid'')) False) (\<lambda>(code, out, err).
        ret (running_facts (code = 0 \<and> contains ''running'' (lower out)) (strip whitespace out)))
      else if pl_type pl = ''xcpng''
      then bind_act (px_run E pl (''xe vm-param-get uuid='' @ shell_quote (text_or_empty restored ''uuid'') @
          '' param-name=power-state'') False) (\<lambda>(code, out, err).
        ret (running_facts (code = 0 \<and> lower (strip whitespace out) = ''running'') (strip whitespace out)))
      else throw (ValueError (''unsupported recovery-test platform: '' @ pl_type pl)))"

definition destroy_vm :: "env \<Rightarrow> platform_config \<Rightarrow> (string \<times> json) list \<Rightarrow> unit act" where
  "destroy_vm E pl restored =
     bind_act
       (if pl_type pl = ''vmware'' then govc_here E pl [''vm.destroy'', text_or_empty restored ''name''] False
        else if pl_type pl = ''proxmox''
        then px_run E pl (power_tool (py_str (or_else (map_of restored ''kind'') (JStr ''qemu''))) @ '' destroy '' @
          shell_quote (text_or_empty restored ''vmid'') @ '' --purge 1'') False
        else if pl_type pl = ''xcpng''
        then px_run E pl (''xe vm-uninstall uuid='' @ shell_quote (text_or_empty restored ''uuid'') @ '' force=true'') False
        else throw (ValueError (''unsupported recovery-test platform: '' @ pl_type pl))) (\<lambda>(code, out, err).
     check (code = 0) (RuntimeError (''recovery-test cleanup failed: '' @ strip whitespace (if err \<noteq> [] then err else out))))"

section \<open>The managed engine\<close>

definition dr_test_marker :: "(string \<times> json) list \<Rightarrow> (string \<times> json) list option" where
  "dr_test_marker options =
     (case map_of options ''dr_test'' of
        Some (JObj marker) \<Rightarrow> if jtruthy (get_or marker ''network'' JNull) then Some marker else None
      | _ \<Rightarrow> None)"

definition marker_network :: "(string \<times> json) list \<Rightarrow> string" where
  "marker_network marker = py_str (get_or marker ''network'' JNull)"

definition allowed_networks :: "management_config \<Rightarrow> string \<Rightarrow> string list" where
  "allowed_networks m name = (case map_of (mg_dr_test_networks m) name of Some ns \<Rightarrow> ns | None \<Rightarrow> [])"

text \<open>The facts about the network, nothing for a request that is not a test; and the options, which name
  the network for a VMware import.\<close>

definition validate_dr_test ::
  "env \<Rightarrow> config \<Rightarrow> management_config \<Rightarrow> point \<Rightarrow> string \<Rightarrow> (string \<times> json) list \<Rightarrow>
   ((string \<times> json) list option \<times> (string \<times> json) list) act" where
  "validate_dr_test E cfg m p target_platform options =
     (case dr_test_marker options of
        None \<Rightarrow> ret (None, options)
      | Some marker \<Rightarrow>
          then_act (check (p_verified p) (RuntimeError ''isolated recovery test requires a verified recovery point''))
         (then_act (check (\<not> p_suspicious p)
            (RuntimeError ''isolated recovery test refuses an anomaly-flagged recovery point''))
         (bind_act (engine_platform cfg target_platform) (\<lambda>target.
          let network = strip whitespace (text_or_empty marker ''network'')
          in then_act (check (List.member (allowed_networks m (pl_name target)) network)
               (PermissionError (''network '' @ repr_str network @
                  '' is not registered as an isolated recovery-test network for '' @ repr_str (pl_name target))))
            (then_act (build_adapter target)
            (bind_act (validate_network E target network) (\<lambda>facts.
             ret (Some facts,
               if pl_type target = ''vmware'' then put_key ''network'' (JStr network) options else options))))))))"

definition managed_request_restore ::
  "env \<Rightarrow> config \<Rightarrow> v2v_config \<Rightarrow> management_config \<Rightarrow> string \<Rightarrow> string \<Rightarrow> string \<Rightarrow> string option \<Rightarrow>
   (string \<times> json) list \<Rightarrow> nat act" where
  "managed_request_restore E cfg c m sid requester target_platform target_name options =
     bind_act (query (get_point sid)) (\<lambda>found.
     bind_act (need found (ValueError ''unknown recovery point'')) (\<lambda>p.
     bind_act (validate_dr_test E cfg m p target_platform options) (\<lambda>(facts, requested).
     bind_act (v2v_request_restore cfg c sid requester target_platform target_name requested) (\<lambda>i.
     then_act (case facts of
         None \<Rightarrow> ret ()
       | Some kvs \<Rightarrow> change (audit requester ''dr.test.request'' ''restore_request'' (show_nat i)
           (JObj [(''snapshot_id'', JStr sid), (''target_platform'', JStr target_platform),
              (''isolated_network'', get_or kvs ''network'' JNull)])))
       (ret i)))))"

text \<open>What a test has come to: the isolation, the boot check, whether the machine was left on, the failure.\<close>

record test_state =
  ts_isolation :: "(string \<times> json) list option"
  ts_boot :: "(string \<times> json) list option"
  ts_powered :: bool
  ts_failure :: "exc option"

definition boot_test ::
  "env \<Rightarrow> management_config \<Rightarrow> platform_config \<Rightarrow> (string \<times> json) list \<Rightarrow> (string \<times> json) list \<Rightarrow> test_state act" where
  "boot_test E m target restored isolation =
     bind_act (attempt (ask (json_reply E) (Adapter (pl_name target) (PowerOn (JObj restored))))) (\<lambda>powered.
     case powered of
       Inl e \<Rightarrow> ret \<lparr>ts_isolation = Some isolation, ts_boot = None, ts_powered = False, ts_failure = Some e\<rparr>
     | Inr v \<Rightarrow>
         bind_act (attempt (then_act (ask (done_reply E) (Sleep (nat (mg_dr_test_boot_seconds m)))) (running_vm E target restored)))
           (\<lambda>boot. ret (case boot of
              Inl e \<Rightarrow> \<lparr>ts_isolation = Some isolation, ts_boot = None, ts_powered = True, ts_failure = Some e\<rparr>
            | Inr facts \<Rightarrow> \<lparr>ts_isolation = Some isolation, ts_boot = Some facts, ts_powered = True,
                ts_failure = (if get_or facts ''running'' JNull = JBool True then None else Some (RuntimeError
                  ''isolated recovery-test VM did not remain powered on during boot validation''))\<rparr>)))"

definition test_machine ::
  "env \<Rightarrow> management_config \<Rightarrow> nat \<Rightarrow> string \<Rightarrow> platform_config \<Rightarrow> (string \<times> json) list \<Rightarrow> string \<Rightarrow> test_state act" where
  "test_machine E m i actor target restored network =
     bind_act (attempt (isolate E target restored network)) (\<lambda>r.
     case r of
       Inl e \<Rightarrow> ret \<lparr>ts_isolation = None, ts_boot = None, ts_powered = False, ts_failure = Some e\<rparr>
     | Inr isolation \<Rightarrow>
         then_act (change (audit actor ''dr.test.isolated'' ''restore_request'' (show_nat i) (JObj isolation)))
           (boot_test E m target restored isolation))"

text \<open>The \<open>finally\<close> block: the machine is powered off and, unless it is to be kept, destroyed.\<close>

definition power_off_machine :: "env \<Rightarrow> nat \<Rightarrow> string \<Rightarrow> platform_config \<Rightarrow> (string \<times> json) list \<Rightarrow> test_state \<Rightarrow> test_state act" where
  "power_off_machine E i actor target restored st =
     bind_act (attempt (ask (json_reply E) (Adapter (pl_name target) (PowerOff (JObj restored))))) (\<lambda>r.
     case r of
       Inr v \<Rightarrow> ret (st\<lparr>ts_powered := False\<rparr>)
     | Inl e \<Rightarrow>
         then_act (change (audit actor ''dr.test.poweroff_failed'' ''restore_request'' (show_nat i)
           (JObj [(''error'', JStr (exc_msg e))])))
         (ret (st\<lparr>ts_failure := Some (case ts_failure st of Some e' \<Rightarrow> e'
            | None \<Rightarrow> RuntimeError (''isolated recovery test could not power off disposable VM: '' @ exc_msg e))\<rparr>)))"

definition clean_machine ::
  "env \<Rightarrow> management_config \<Rightarrow> platform_config \<Rightarrow> (string \<times> json) list \<Rightarrow> test_state \<Rightarrow> (test_state \<times> (string \<times> json) list) act" where
  "clean_machine E m target restored st =
     (if mg_dr_test_auto_cleanup m
      then bind_act (attempt (destroy_vm E target restored)) (\<lambda>r.
        ret (case r of
            Inr v \<Rightarrow> (st, [(''attempted'', JBool True), (''destroyed'', JBool True), (''retained_powered_off'', JBool False)])
          | Inl e \<Rightarrow>
              (st\<lparr>ts_failure := Some (case ts_failure st of Some e' \<Rightarrow> e'
                 | None \<Rightarrow> RuntimeError (''isolated recovery test cleanup failed: '' @ exc_msg e))\<rparr>,
               [(''attempted'', JBool True), (''destroyed'', JBool False), (''retained_powered_off'', JBool False),
                (''error'', JStr (exc_msg e))])))
      else ret (st, [(''attempted'', JBool False), (''destroyed'', JBool False),
        (''retained_powered_off'', JBool (\<not> ts_powered st))]))"

definition facts_json :: "(string \<times> json) list option \<Rightarrow> json" where
  "facts_json x = (case x of Some kvs \<Rightarrow> JObj kvs | None \<Rightarrow> JNull)"

definition test_detail ::
  "nat \<Rightarrow> string \<Rightarrow> platform_config \<Rightarrow> test_state \<Rightarrow> (string \<times> json) list \<Rightarrow> json \<Rightarrow> (string \<times> json) list" where
  "test_detail i network target st cleanup restored =
     [(''request_id'', JInt (int i)), (''isolated_network'', JStr network), (''target_platform'', JStr (pl_name target)),
      (''isolation'', facts_json (ts_isolation st)), (''boot_validation'', facts_json (ts_boot st)),
      (''cleanup'', JObj cleanup), (''restored'', restored)]"

definition conclude_test ::
  "nat \<Rightarrow> string \<Rightarrow> string \<Rightarrow> platform_config \<Rightarrow> test_state \<Rightarrow> (string \<times> json) list \<Rightarrow> json \<Rightarrow> json act" where
  "conclude_test i actor network target st cleanup restored =
     (let detail = test_detail i network target st cleanup restored;
          passed = JObj (detail @ [(''status'', JStr ''success'')])
      in case ts_failure st of
           Some e \<Rightarrow>
             then_act (change (finish_restore i False (JObj detail) (Some (exc_msg e))))
            (then_act (change (audit actor ''dr.test.failed'' ''restore_request'' (show_nat i)
               (JObj [(''error'', JStr (exc_msg e)), (''isolated_network'', JStr network), (''cleanup'', JObj cleanup)])))
            (throw e))
         | None \<Rightarrow>
             then_act (change (finish_restore i True passed None))
            (then_act (change (audit actor ''dr.test.complete'' ''restore_request'' (show_nat i)
               (JObj [(''isolated_network'', JStr network), (''boot_validation'', facts_json (ts_boot st)),
                  (''cleanup'', JObj cleanup)])))
            (ret passed)))"

definition no_cleanup :: "(string \<times> json) list" where
  "no_cleanup = [(''attempted'', JBool False), (''destroyed'', JBool False), (''retained_powered_off'', JBool False)]"

text \<open>The restored machine is a mapping, as every adapter returns one.\<close>

definition run_test ::
  "env \<Rightarrow> management_config \<Rightarrow> nat \<Rightarrow> string \<Rightarrow> platform_config \<Rightarrow> string \<Rightarrow> json \<Rightarrow> json act" where
  "run_test E m i actor target network restored =
     (let kvs = (case restored of JObj kvs \<Rightarrow> kvs | _ \<Rightarrow> [])
      in bind_act (test_machine E m i actor target kvs network) (\<lambda>st.
         bind_act (power_off_machine E i actor target kvs st) (\<lambda>st'.
         bind_act (clean_machine E m target kvs st') (\<lambda>(st'', cleanup).
         conclude_test i actor network target st'' cleanup restored))))"

text \<open>\<open>plan["dr_test"] = ...\<close> on the plan of a dry run.\<close>

definition test_plan :: "management_config \<Rightarrow> (string \<times> json) list \<Rightarrow> (string \<times> json) list option \<Rightarrow> json \<Rightarrow> json res" where
  "test_plan m marker facts plan =
     (case plan of
        JObj kvs \<Rightarrow> Inr (JObj (put_key ''dr_test'' (JObj
          [(''isolated_network'', case facts of Some f \<Rightarrow> get_or f ''network'' JNull | None \<Rightarrow> get_or marker ''network'' JNull),
           (''boot_seconds'', JInt (mg_dr_test_boot_seconds m)), (''auto_cleanup'', JBool (mg_dr_test_auto_cleanup m))]) kvs))
      | _ \<Rightarrow> Inl (TypeError ''object does not support item assignment''))"

definition not_restored :: "exc \<Rightarrow> test_state" where
  "not_restored e = \<lparr>ts_isolation = None, ts_boot = None, ts_powered = False, ts_failure = Some e\<rparr>"

definition managed_test ::
  "env \<Rightarrow> config \<Rightarrow> v2v_config \<Rightarrow> management_config \<Rightarrow> nat \<Rightarrow> string \<Rightarrow> bool \<Rightarrow> restore_request \<Rightarrow>
   (string \<times> json) list \<Rightarrow> point \<Rightarrow> platform_config \<Rightarrow> json act" where
  "managed_test E cfg c m i actor dry_run req marker p target =
     bind_act (validate_dr_test E cfg m p (pl_name target) (q_options req)) (\<lambda>(facts, options).
     if dry_run
     then bind_act (v2v_execute_restore E cfg c i actor True) (\<lambda>plan. lift_res (test_plan m marker facts plan))
     else then_act (build_adapter target)
       (bind_act (attempt (v2v_execute_restore E cfg c i actor False)) (\<lambda>r.
        case r of
          Inl e \<Rightarrow> conclude_test i actor (marker_network marker) target (not_restored e) no_cleanup JNull
        | Inr restored \<Rightarrow> run_test E m i actor target (marker_network marker) restored)))"

definition managed_execute_restore ::
  "env \<Rightarrow> config \<Rightarrow> v2v_config \<Rightarrow> management_config \<Rightarrow> nat \<Rightarrow> string \<Rightarrow> bool \<Rightarrow> json act" where
  "managed_execute_restore E cfg c m i actor dry_run =
     bind_act (query (get_restore_request i)) (\<lambda>found.
     bind_act (need found (ValueError ''restore request not found'')) (\<lambda>req.
     case dr_test_marker (q_options req) of
       None \<Rightarrow> v2v_execute_restore E cfg c i actor dry_run
     | Some marker \<Rightarrow>
         bind_act (query (get_point (q_snapshot_id req))) (\<lambda>known.
         bind_act (need known (RuntimeError ''recovery point metadata missing'')) (\<lambda>p.
         bind_act (engine_platform cfg (q_target_platform req)) (\<lambda>target.
         managed_test E cfg c m i actor dry_run req marker p target)))))"

section \<open>A machine under test is isolated before it starts\<close>

text \<open>The adapters of the restored machine were listed, there are some, and each was moved.\<close>

definition moved_after ::
  "env \<Rightarrow> call \<Rightarrow> (string \<Rightarrow> 'a list) \<Rightarrow> ('a \<Rightarrow> call) \<Rightarrow> call list \<Rightarrow> bool" where
  "moved_after E listing nics move h \<longleftrightarrow>
     (\<exists>a b out err. h = a @ listing # b \<and> run_reply E a listing = Inr (0, out, err) \<and> nics out \<noteq> [] \<and>
        list_all (\<lambda>n. move n \<in> set b) (nics out))"

definition answered :: "env \<Rightarrow> call \<Rightarrow> (string \<Rightarrow> bool) \<Rightarrow> call list \<Rightarrow> bool" where
  "answered E c P h \<longleftrightarrow> (\<exists>a b out err. h = a @ c # b \<and> run_reply E a c = Inr (0, out, err) \<and> P out)"

definition isolated :: "env \<Rightarrow> platform_config \<Rightarrow> (string \<times> json) list \<Rightarrow> string \<Rightarrow> call list \<Rightarrow> bool" where
  "isolated E pl restored network h \<longleftrightarrow>
     (if pl_type pl = ''vmware''
      then \<exists>envs. govc_env E pl = Inr envs \<and>
        moved_after E (Run (''govc'' # device_args (text_or_empty restored ''name'')) envs) ethernet_devices
          (\<lambda>d. Run (''govc'' # change_args (text_or_empty restored ''name'') network d) envs) h
      else if pl_type pl = ''proxmox''
      then moved_after E (px_call E pl (config_script (text_or_empty restored ''vmid''))) nic_lines
        (\<lambda>nic. px_call E pl (rebridge_script (text_or_empty restored ''vmid'') network nic)) h
      else \<exists>network_uuid. moved_after E (px_call E pl (vif_script (text_or_empty restored ''uuid''))) minimal_items
        (\<lambda>vif. px_call E pl (move_script network_uuid vif)) h \<and>
        answered E (px_call E pl (''xe network-list '' @ network_selector (strip whitespace network) @ '' params=uuid --minimal''))
          (\<lambda>out. set (minimal_items out) = {network_uuid}) h)"

lemma moved_later: "moved_after E listing nics move h \<Longrightarrow> moved_after E listing nics move (h @ cs)"
proof -
  assume "moved_after E listing nics move h"
  then obtain a b out err where "h = a @ listing # b" "run_reply E a listing = Inr (0, out, err)" "nics out \<noteq> []"
    "list_all (\<lambda>n. move n \<in> set b) (nics out)"
    unfolding moved_after_def by blast
  then show ?thesis
    unfolding moved_after_def
    by (intro exI [of _ a] exI [of _ "b @ cs"] exI [of _ out] exI [of _ err]) (auto simp: list_all_iff)
qed

lemma answered_later: "answered E c P h \<Longrightarrow> answered E c P (h @ cs)"
  unfolding answered_def by (metis append.assoc append_Cons)

lemma isolated_later: "isolated E pl restored network h \<Longrightarrow> isolated E pl restored network (h @ cs)"
  unfolding isolated_def using moved_later answered_later by metis

lemma run_command_ok:
  "run_command E cmd envs True s = (Inr (code, out, err), t) \<Longrightarrow>
   code = 0 \<and> run_reply E (trace s) (Run cmd envs) = Inr (0, out, err) \<and> trace t = trace s @ [Run cmd envs]"
  by (auto simp: run_command_def bind_Inr ask_def split: if_splits)

lemma px_out_ok:
  "px_out E pl script s = (Inr out, t) \<Longrightarrow>
   (\<exists>err. run_reply E (trace s) (px_call E pl script) = Inr (0, out, err)) \<and> trace t = trace s @ [px_call E pl script]"
  unfolding px_out_def px_run_def px_call_def by (auto simp: bind_Inr dest: run_command_ok)

lemma govc_here_ok:
  "govc_here E pl args True s = (Inr (code, out, err), t) \<Longrightarrow>
   \<exists>envs. govc_env E pl = Inr envs \<and> run_reply E (trace s) (Run (''govc'' # args) envs) = Inr (0, out, err) \<and>
     trace t = trace s @ [Run (''govc'' # args) envs]"
  unfolding govc_here_def govc_def by (auto simp: bind_Inr lift_Inr dest: run_command_ok)

lemma px_do_ok: "px_do E pl script chk s = (Inr u, t) \<Longrightarrow> trace t = trace s @ [px_call E pl script]"
  using px_do_trace [of E pl script chk s] by auto

lemma each_calls:
  assumes "each f xs s = (Inr ys, t)" "\<And>x u y v. f x u = (Inr y, v) \<Longrightarrow> trace v = trace u @ [g x]"
  shows "trace t = trace s @ map g xs"
  using assms(1)
proof (induction xs arbitrary: s ys)
  case (Cons x xs)
  then obtain y u zs where "f x s = (Inr y, u)" "each f xs u = (Inr zs, t)" by (auto simp: bind_Inr)
  with Cons.IH assms(2) show ?case by fastforce
qed simp

lemma moved_afterI:
  "run_reply E a listing = Inr (0, out, err) \<Longrightarrow> nics out \<noteq> [] \<Longrightarrow>
   moved_after E listing nics move (a @ listing # map move (nics out))"
  unfolding moved_after_def
  by (intro exI [of _ a] exI [of _ "map move (nics out)"] exI [of _ out] exI [of _ err]) (auto simp: list_all_iff)

lemma isolate_vmware_ok:
  assumes "isolate_vmware E pl restored network s = (Inr nics, t)"
  shows "\<exists>envs. govc_env E pl = Inr envs \<and>
    moved_after E (Run (''govc'' # device_args (text_or_empty restored ''name'')) envs) ethernet_devices
      (\<lambda>d. Run (''govc'' # change_args (text_or_empty restored ''name'') network d) envs) (trace t)"
proof -
  let ?name = "text_or_empty restored ''name''"
  obtain u devices v envs w ys where v: "vmware_devices E pl ?name u = (Inr devices, v)"
    and envs: "govc_env E pl = Inr envs"
    and w: "each (\<lambda>d. govc E envs (change_args ?name network d) True) devices v = (Inr ys, t)"
    using assms unfolding isolate_vmware_def Let_def run_Inr by blast
  obtain code out err x where out: "govc_here E pl (device_args ?name) True u = (Inr (code, out, err), x)"
    "devices = ethernet_devices out" "ethernet_devices out \<noteq> []" "v = x"
    using v unfolding vmware_devices_def run_Inr split_paired_Ex prod.case by blast
  have call: "run_reply E (trace u) (Run (''govc'' # device_args ?name) envs) = Inr (0, out, err)"
    "trace x = trace u @ [Run (''govc'' # device_args ?name) envs]"
    using govc_here_ok [OF out(1)] envs by auto
  have "trace t = trace v @ map (\<lambda>d. Run (''govc'' # change_args ?name network d) envs) devices"
    by (rule each_calls [OF w]) (auto simp: govc_def dest: run_command_ok)
  with moved_afterI [OF call(1), of ethernet_devices "\<lambda>d. Run (''govc'' # change_args ?name network d) envs"] call(2) out envs
  show ?thesis by auto
qed

lemma isolate_proxmox_ok:
  assumes "isolate_proxmox E pl restored network s = (Inr nics, t)"
  shows "moved_after E (px_call E pl (config_script (text_or_empty restored ''vmid''))) nic_lines
    (\<lambda>nic. px_call E pl (rebridge_script (text_or_empty restored ''vmid'') network nic)) (trace t)"
proof -
  let ?vmid = "text_or_empty restored ''vmid''"
  obtain u out v ys where v: "px_out E pl (config_script ?vmid) u = (Inr out, v)" "nic_lines out \<noteq> []"
    "each (\<lambda>nic. px_do E pl (rebridge_script ?vmid network nic) True) (nic_lines out) v = (Inr ys, t)"
    using assms unfolding isolate_proxmox_def Let_def run_Inr by blast
  have "trace t = trace v @ map (\<lambda>nic. px_call E pl (rebridge_script ?vmid network nic)) (nic_lines out)"
    by (rule each_calls [OF v(3)]) (rule px_do_ok)
  with px_out_ok [OF v(1)] v(2) show ?thesis
    by (metis append.assoc append_Cons append_Nil moved_afterI)
qed

lemma isolate_xcpng_ok:
  assumes "isolate_xcpng E pl restored network_uuid s = (Inr nics, t)"
  shows "\<exists>cs. trace t = trace s @ cs"
    "moved_after E (px_call E pl (vif_script (text_or_empty restored ''uuid''))) minimal_items
      (\<lambda>vif. px_call E pl (move_script network_uuid vif)) (trace t)"
proof -
  let ?uuid = "text_or_empty restored ''uuid''"
  obtain out v ys where v: "px_out E pl (vif_script ?uuid) s = (Inr out, v)" "minimal_items out \<noteq> []"
    "each (\<lambda>vif. px_do E pl (move_script network_uuid vif) True) (minimal_items out) v = (Inr ys, t)"
    using assms unfolding isolate_xcpng_def Let_def run_Inr by blast
  have "trace t = trace v @ map (\<lambda>vif. px_call E pl (move_script network_uuid vif)) (minimal_items out)"
    by (rule each_calls [OF v(3)]) (rule px_do_ok)
  with px_out_ok [OF v(1)] v(2) show "\<exists>cs. trace t = trace s @ cs"
    "moved_after E (px_call E pl (vif_script ?uuid)) minimal_items (\<lambda>vif. px_call E pl (move_script network_uuid vif)) (trace t)"
    by (auto simp: moved_afterI)
qed

lemma xcp_network_ok:
  assumes "xcp_network_uuid E pl network s = (Inr u, t)"
  shows "\<exists>out err. run_reply E (trace s) (px_call E pl (''xe network-list '' @ network_selector network @ '' params=uuid --minimal'')) =
      Inr (0, out, err) \<and> set (minimal_items out) = {u} \<and>
    trace t = trace s @ [px_call E pl (''xe network-list '' @ network_selector network @ '' params=uuid --minimal'')]"
proof -
  obtain out v where out: "px_out E pl (''xe network-list '' @ network_selector network @ '' params=uuid --minimal'') s = (Inr out, v)"
    "length (rev (remdups (rev (minimal_items out)))) = 1" "u = hd (rev (remdups (rev (minimal_items out))))" "v = t"
    using assms unfolding xcp_network_uuid_def Let_def run_Inr by blast
  then obtain y where "rev (remdups (rev (minimal_items out))) = [y]" by (auto simp: length_Suc_conv)
  then have "set (minimal_items out) = {u}" using out(3) by (metis list.sel(1) list.set(1) list.set(2) set_remdups set_rev)
  with px_out_ok [OF out(1)] out(4) show ?thesis by blast
qed

lemma validate_uuid:
  assumes "validate_network E pl network s = (Inr facts, t)" "pl_type pl = ''xcpng''"
  shows "\<exists>u. xcp_network_uuid E pl (strip whitespace network) s = (Inr u, t) \<and> text_or_empty facts ''network_uuid'' = u"
proof -
  obtain u where "xcp_network_uuid E pl (strip whitespace network) s = (Inr u, t)"
    "facts = network_facts pl (strip whitespace network) [(''network_uuid'', JStr u)]"
    using assms(1) unfolding validate_network_def Let_def then_Inr assms(2) by (auto simp: run_Inr)
  then show ?thesis by (auto simp: network_facts_def text_or_empty_def or_else_def)
qed

lemma isolate_ok:
  assumes "isolate E pl restored network s = (Inr facts, t)"
  shows "isolated E pl restored network (trace t)"
proof -
  obtain net_facts u nics where v: "validate_network E pl network s = (Inr net_facts, u)" and
    "(if pl_type pl = ''vmware'' then isolate_vmware E pl restored network
        else if pl_type pl = ''proxmox'' then isolate_proxmox E pl restored network
        else if pl_type pl = ''xcpng'' then isolate_xcpng E pl restored (text_or_empty net_facts ''network_uuid'')
        else throw (ValueError (''unsupported recovery-test platform: '' @ pl_type pl))) u = (Inr nics, t)"
    using assms unfolding isolate_def run_Inr by blast
  then consider "pl_type pl = ''vmware''" "isolate_vmware E pl restored network u = (Inr nics, t)"
    | "pl_type pl = ''proxmox''" "isolate_proxmox E pl restored network u = (Inr nics, t)"
    | "pl_type pl = ''xcpng''" "isolate_xcpng E pl restored (text_or_empty net_facts ''network_uuid'') u = (Inr nics, t)"
    by (auto split: if_splits)
  then show ?thesis
  proof cases
    case 1
    with isolate_vmware_ok [OF 1(2)] show ?thesis by (simp add: isolated_def)
  next
    case 2
    with isolate_proxmox_ok [OF 2(2)] show ?thesis by (simp add: isolated_def)
  next
    case 3
    obtain uuid where uuid: "xcp_network_uuid E pl (strip whitespace network) s = (Inr uuid, u)"
      "text_or_empty net_facts ''network_uuid'' = uuid"
      using validate_uuid [OF v 3(1)] by blast
    from isolate_xcpng_ok [OF 3(2)] obtain cs where "trace t = trace u @ cs"
      "moved_after E (px_call E pl (vif_script (text_or_empty restored ''uuid''))) minimal_items
        (\<lambda>vif. px_call E pl (move_script uuid vif)) (trace t)"
      using uuid(2) by auto
    with xcp_network_ok [OF uuid(1)] 3(1) show ?thesis
      unfolding isolated_def answered_def by simp (metis append.assoc append_Cons append_Nil)
  qed
qed

text \<open>A machine is started only on the target, and isolated.\<close>

definition starts_isolated :: "env \<Rightarrow> platform_config \<Rightarrow> string \<Rightarrow> call list \<Rightarrow> call \<Rightarrow> bool" where
  "starts_isolated E target network h c \<longleftrightarrow> (\<forall>n v. c = Adapter n (PowerOn v) \<longrightarrow>
     n = pl_name target \<and> (\<exists>restored. v = JObj restored \<and> isolated E target restored network h))"

text \<open>Starting no machine at all.\<close>

definition unstarted :: "call list \<Rightarrow> call \<Rightarrow> bool" where
  "unstarted h c \<longleftrightarrow> (\<forall>n v. c \<noteq> Adapter n (PowerOn v))"

lemma unstarted_isolated: "steps (does unstarted) m \<Longrightarrow> steps (does (starts_isolated E target network)) m"
  unfolding steps_def by (metis does_mono unstarted_def starts_isolated_def)

lemma offline_unstarted: "steps (does offline) m \<Longrightarrow> steps (does unstarted) m"
  unfolding steps_def by (metis does_mono offline_def unstarted_def)

lemma ask_unstarted: "(\<And>n v. c \<noteq> Adapter n (PowerOn v)) \<Longrightarrow> steps (does unstarted) (ask f c)"
  by (rule does_ask) (simp add: unstarted_def)

lemma service_unstarted: "steps service m \<Longrightarrow> steps (does unstarted) m"
  by (erule service_does) (auto simp: unstarted_def service_call_def)

lemma offline_govc: "steps (does offline) (govc E envs args chk)" "steps (does offline) (govc_here E pl args chk)"
  unfolding govc_here_def govc_def by (intro offline_rules)+

lemma offline_validate: "steps (does offline) (validate_network E pl network)"
  unfolding validate_network_def network_found_def xcp_network_uuid_def
  by (intro offline_rules offline_govc offline_px)

lemma offline_isolate: "steps (does offline) (isolate E pl restored network)"
  unfolding isolate_def isolate_vmware_def isolate_proxmox_def isolate_xcpng_def vmware_devices_def
  by (intro offline_rules offline_govc offline_px offline_validate)

lemma offline_running: "steps (does offline) (running_vm E pl restored)"
  unfolding running_vm_def by (intro offline_rules offline_govc offline_px)

lemma offline_destroy: "steps (does offline) (destroy_vm E pl restored)"
  unfolding destroy_vm_def by (intro offline_rules offline_govc offline_px)

text \<open>The engines below never start a machine.\<close>

lemma preflight_unstarted: "steps (does unstarted) (restore_preflight E cfg i actor target)"
  unfolding restore_preflight_def adapter_doctor_def
  by (intro does_rules ask_unstarted service_unstarted service_capacity) simp_all

lemma import_unstarted: "steps (does unstarted) (import_vm E cfg i actor target p q options src replica)"
  unfolding import_vm_def by (intro does_rules service_unstarted service_stage service_rmtree ask_unstarted) simp_all

lemma execute_unstarted: "steps (does unstarted) (execute_restore E cfg i actor dry)"
  unfolding execute_restore_def engine_platform_def build_adapter_def
  by (intro does_rules service_unstarted restore_source_service preflight_unstarted import_unstarted)

lemma cross_unstarted: "steps (does unstarted) (v2v_execute_cross E cfg c i actor dry q p target)"
  unfolding v2v_execute_cross_def v2v_preflight_def convert_point_def adapter_doctor_def build_adapter_def
  by (intro does_rules service_unstarted [OF restore_source_service] service_unstarted [OF service_capacity]
      service_unstarted [OF service_stage] service_unstarted [OF service_rmtree] offline_unstarted [OF offline_execute]
      ask_unstarted)
    simp_all

lemma v2v_execute_unstarted: "steps (does unstarted) (v2v_execute_restore E cfg c i actor dry)"
  unfolding v2v_execute_restore_def engine_platform_def by (intro does_rules execute_unstarted cross_unstarted)

lemma conclude_unstarted: "steps (does unstarted) (conclude_test i actor nw target st cleanup restored)"
  unfolding conclude_test_def by (intro does_rules)

lemma clean_unstarted: "steps (does unstarted) (clean_machine E m target restored st)"
  unfolding clean_machine_def by (intro does_rules attempt_does offline_unstarted offline_destroy)

lemma power_off_unstarted: "steps (does unstarted) (power_off_machine E i actor target restored st)"
  unfolding power_off_machine_def by (intro does_rules attempt_does ask_unstarted) simp

lemma validate_unstarted: "steps (does unstarted) (validate_dr_test E cfg m p name options)"
  unfolding validate_dr_test_def engine_platform_def build_adapter_def
  by (intro does_rules offline_unstarted offline_validate)

lemma boot_check_unstarted:
  "steps (does unstarted) (then_act (ask (done_reply E) (Sleep n)) (running_vm E target restored))"
  by (intro does_rules ask_unstarted offline_unstarted offline_running) simp

lemma boot_starts:
  assumes "isolated E target restored network (trace s)"
  shows "does (starts_isolated E target network) s (snd (boot_test E m target restored isolation s))"
proof -
  have on: "starts_isolated E target network (trace s) (Adapter (pl_name target) (PowerOn (JObj restored)))"
    using assms by (simp add: starts_isolated_def)
  have "does (starts_isolated E target network) s
      (snd (attempt (ask (json_reply E) (Adapter (pl_name target) (PowerOn (JObj restored)))) s))"
    unfolding attempt_eq by (simp, rule does_ask_at) (rule on)
  then show ?thesis
    unfolding boot_test_def
    by (rule does.bind_at) (rule does.steps_at, intro does_rules attempt_does unstarted_isolated [OF boot_check_unstarted])
qed

lemma test_machine_starts:
  "steps (does (starts_isolated E target network)) (test_machine E m i actor target restored network)"
proof (rule does.stepsI, unfold test_machine_def, rule does.bind_at)
  fix s
  show "does (starts_isolated E target network) s (snd (attempt (isolate E target restored network) s))"
    by (rule does.steps_at) (intro attempt_does unstarted_isolated offline_unstarted offline_isolate)
  fix r t assume "attempt (isolate E target restored network) s = (Inr r, t)"
  then have r: "isolate E target restored network s = (r, t)" by (auto simp: attempt_eq prod_eq_iff)
  show "does (starts_isolated E target network) t (snd ((case r of
       Inl e \<Rightarrow> ret \<lparr>ts_isolation = None, ts_boot = None, ts_powered = False, ts_failure = Some e\<rparr>
     | Inr isolation \<Rightarrow>
         then_act (change (audit actor ''dr.test.isolated'' ''restore_request'' (show_nat i) (JObj isolation)))
           (boot_test E m target restored isolation)) t))"
  proof (cases r)
    case (Inr facts)
    have "does (starts_isolated E target network) t (snd (then_act
        (change (audit actor ''dr.test.isolated'' ''restore_request'' (show_nat i) (JObj facts)))
        (boot_test E m target restored facts) t))"
    proof (rule does.then_at)
      show "does (starts_isolated E target network) t
          (snd (change (audit actor ''dr.test.isolated'' ''restore_request'' (show_nat i) (JObj facts)) t))"
        by (rule does.steps_at) (rule does_db)
      fix x u assume "change (audit actor ''dr.test.isolated'' ''restore_request'' (show_nat i) (JObj facts)) t = (Inr x, u)"
      then have "trace u = trace t" by auto
      with isolate_ok [OF r [unfolded Inr]]
      show "does (starts_isolated E target network) u (snd (boot_test E m target restored facts u))"
        by (intro boot_starts) simp
    qed
    then show ?thesis by (simp add: Inr)
  qed (simp add: does.R_refl)
qed

lemma run_test_starts: "steps (does (starts_isolated E target network)) (run_test E m i actor target network restored)"
  unfolding run_test_def
  by (intro does_rules test_machine_starts unstarted_isolated power_off_unstarted clean_unstarted conclude_unstarted)

text \<open>
  What a start is allowed to be: no dry run, of a verified point without an anomaly, on a network that the
  configuration lists for the target (compared without the white space around it), and isolated.
\<close>

definition test_start ::
  "env \<Rightarrow> management_config \<Rightarrow> platform_config \<Rightarrow> point \<Rightarrow> bool \<Rightarrow> string \<Rightarrow> call list \<Rightarrow> call \<Rightarrow> bool" where
  "test_start E m target p dry network h c \<longleftrightarrow> (\<forall>n v. c = Adapter n (PowerOn v) \<longrightarrow>
     \<not> dry \<and> p_verified p \<and> \<not> p_suspicious p \<and>
     (\<exists>ns. map_of (mg_dr_test_networks m) (pl_name target) = Some ns \<and> strip whitespace network \<in> set ns) \<and>
     n = pl_name target \<and> (\<exists>restored. v = JObj restored \<and> isolated E target restored network h))"

lemma unstarted_test: "steps (does unstarted) a \<Longrightarrow> steps (does (test_start E m target p dry network)) a"
  unfolding steps_def by (metis does_mono unstarted_def test_start_def)

lemma engine_platform_name: "engine_platform cfg name s = (Inr pl, t) \<Longrightarrow> pl_name pl = name"
  by (auto simp: engine_platform_def run_Inr find_Some_iff split: option.splits)

lemma marker_text:
  "dr_test_marker options = Some marker \<Longrightarrow> text_or_empty marker ''network'' = marker_network marker"
  by (auto simp: dr_test_marker_def text_or_empty_def marker_network_def or_else_def get_or_def
      split: option.splits json.splits if_splits)

lemma validate_dr_test_ok:
  assumes "validate_dr_test E cfg m p name options s = (Inr x, t)" "dr_test_marker options = Some marker"
  shows "p_verified p \<and> \<not> p_suspicious p \<and>
    (\<exists>ns. map_of (mg_dr_test_networks m) name = Some ns \<and> strip whitespace (marker_network marker) \<in> set ns)"
proof -
  obtain target u v where target: "engine_platform cfg name u = (Inr target, v)"
    and checks: "p_verified p" "\<not> p_suspicious p"
      "List.member (allowed_networks m (pl_name target)) (strip whitespace (text_or_empty marker ''network''))"
    using assms(1) unfolding validate_dr_test_def assms(2) option.case Let_def run_Inr by blast
  from checks(3) have "\<exists>ns. map_of (mg_dr_test_networks m) name = Some ns \<and> strip whitespace (marker_network marker) \<in> set ns"
    unfolding engine_platform_name [OF target] marker_text [OF assms(2)]
    by (cases "map_of (mg_dr_test_networks m) name") (simp_all add: allowed_networks_def)
  with checks show ?thesis by simp
qed

lemma managed_test_starts:
  assumes "dr_test_marker (q_options q) = Some marker"
  shows "steps (does (test_start E m target p dry (marker_network marker)))
     (managed_test E cfg c m i actor dry q marker p target)"
proof (rule does.stepsI, unfold managed_test_def, rule does.bind_at)
  let ?Q = "test_start E m target p dry (marker_network marker)"
  fix s
  show "does ?Q s (snd (validate_dr_test E cfg m p (pl_name target) (q_options q) s))"
    by (rule does.steps_at) (rule unstarted_test [OF validate_unstarted])
  fix x t assume "validate_dr_test E cfg m p (pl_name target) (q_options q) s = (Inr x, t)"
  note ok = validate_dr_test_ok [OF this assms]
  have "?Q h c" if "\<not> dry" "starts_isolated E target (marker_network marker) h c" for h c
    using ok that unfolding test_start_def starts_isolated_def by blast
  then have run: "steps (does ?Q) (run_test E m i actor target (marker_network marker) restored)" if "\<not> dry" for restored
    using that steps_mono [OF run_test_starts] by metis
  have adapter: "steps (does ?Q) (build_adapter target)"
    unfolding build_adapter_def by (intro does_rules)
  show "does ?Q t (snd ((case x of (facts, options) \<Rightarrow>
     if dry
     then bind_act (v2v_execute_restore E cfg c i actor True) (\<lambda>plan. lift_res (test_plan m marker facts plan))
     else then_act (build_adapter target)
       (bind_act (attempt (v2v_execute_restore E cfg c i actor False)) (\<lambda>r.
        case r of
          Inl e \<Rightarrow> conclude_test i actor (marker_network marker) target (not_restored e) no_cleanup JNull
        | Inr restored \<Rightarrow> run_test E m i actor target (marker_network marker) restored))) t))"
    by (rule does.steps_at)
      (intro does_rules unstarted_test [OF v2v_execute_unstarted] unstarted_test [OF conclude_unstarted] attempt_does run adapter)
qed

text \<open>
  C4. A machine under recovery test is started only in isolation, on a permitted network. In any run of
  \<open>execute_restore\<close> on a request marked as a test of a network, a machine is started only if this is no dry
  run, the recovery point of the request is verified and carries no anomaly, and the network, without the
  white space around it, is in the list the configuration has for the target; and every start comes after
  the network adapters of that very machine were listed, at least one was found, and each was moved to that
  network - for XCP-ng to the one network the given name or id was resolved to. The move is to the name as
  the marker has it, with its white space, as the code passes it on.
\<close>

theorem tested_machine_isolated:
  assumes "get_restore_request i (database s) = Some q" "dr_test_marker (q_options q) = Some marker"
    and "find (\<lambda>pl. pl_name pl = q_target_platform q) (platforms cfg) = Some target"
    and "get_point (q_snapshot_id q) (database s) = Some p"
  shows "does (test_start E m target p dry (marker_network marker)) s
    (snd (managed_execute_restore E cfg c m i actor dry s))"
proof -
  have eq: "managed_execute_restore E cfg c m i actor dry s = managed_test E cfg c m i actor dry q marker p target s"
    using assms by (simp add: managed_execute_restore_def bind_fst engine_platform_def need_def split: option.split)
  show ?thesis unfolding eq by (rule does.steps_at) (rule managed_test_starts [OF assms(2)])
qed

text \<open>A request to test \<open>s2\<close>, a verified point, on the network \<open>lab\<close>; every command succeeds, and every
  listing shows one network adapter.\<close>

definition test_request :: restore_request where
  "test_request = (sample_request 1 ''alice'' ''approved'')\<lparr>q_snapshot_id := ''s2'', q_target_platform := ''vsphere'',
     q_options := [(''dr_test'', JObj [(''network'', JStr ''lab'')])]\<rparr>"

definition test_point :: point where
  "test_point = (sample_point ''s2'' ''vm-1'' 0 (2 * day_us))\<lparr>p_verified := True\<rparr>"

definition test_sys :: sys where
  "test_sys = \<lparr>database = (create_schema (\<lambda>n. day_us))
     \<lparr>recovery_points := [test_point], restore_requests := [test_request]\<rparr>, trace = [], memory = []\<rparr>"

definition test_management :: management_config where
  "test_management = \<lparr>mg_enabled = True, mg_broker_socket = ''/run/b'', mg_policies = [],
     mg_dr_test_networks = [(''vsphere'', [''lab''])], mg_dr_test_boot_seconds = 30, mg_dr_test_auto_cleanup = True\<rparr>"

definition test_env :: env where
  "test_env = sample_env\<lparr>texts_reply := (\<lambda>h c. Inr []), tree_reply := (\<lambda>h c. Inr (snd (build_manifest (sample_dir [])))),
     run_reply := (\<lambda>h c. Inr (0, ''ethernet-0'', [])), json_reply := (\<lambda>h c. Inr (JObj [(''name'', JStr ''db-test'')]))\<rparr>"

abbreviation test_target :: platform_config where
  "test_target \<equiv> default_platform ''vsphere'' ''vmware'' ''https://vc''"

lemma test_facts:
  "get_restore_request 1 (database test_sys) = Some test_request"
  "dr_test_marker (q_options test_request) = Some [(''network'', JStr ''lab'')]"
  "find (\<lambda>pl. pl_name pl = q_target_platform test_request) (platforms sample_config) = Some test_target"
  "get_point (q_snapshot_id test_request) (database test_sys) = Some test_point"
  by (simp_all add: test_sys_def test_request_def create_schema_def get_restore_request_def sample_request_def
      dr_test_marker_def get_or_def sample_config_def default_config_def default_platform_def get_point_def live_points_def
      test_point_def sample_point_def)

definition tested_machine :: "(string \<times> json) list" where
  "tested_machine = [(''name'', JStr ''db-test''), (''source_repository'', JStr ''primary'')]"

lemma test_restores:
  "\<exists>t. v2v_execute_restore test_env sample_config default_v2v 1 ''bob'' False s = (Inr (JObj tested_machine), t)"
  if "database s = database test_sys"
  using that
  by (simp add: v2v_execute_restore_def execute_restore_def test_sys_def test_request_def test_point_def sample_config_def
      default_config_def create_schema_def
      get_restore_request_def sample_request_def get_point_def live_points_def sample_point_def engine_platform_def
      default_platform_def build_adapter_def Let_def source_of_def get_or_def restore_source_def restore_preflight_def
      ensure_path_capacity_def then_act_def bind_act_def ask_def test_env_def sample_env_def free_percent_def
      default_runtime_def check_run adapter_doctor_def when_act_def try_db_def start_restore_def utcnow_eq
      update_request_def update_where_def audit_frame import_vm_def stage_snapshot_def rmtree_def ask_ignore_def
      catch_def repo_restore_def restic_run_def lift_res_def need_def restic_env_def run_command_def check_tree_def
      read_tree_def sample_dir_def build_manifest_def verify_manifest_def manifest_rows_def manifest_files_def
      manifest_json_def default_repository_def with_source_def tested_machine_def put_key_def)

lemma test_govc:
  "govc test_env envs args chk s = (Inr (0, ''ethernet-0'', []), s\<lparr>trace := trace s @ [Run (''govc'' # args) envs]\<rparr>)"
  by (simp add: govc_def run_command_def bind_act_def ask_def test_env_def)

definition test_envs :: "(string \<times> string) list" where
  "test_envs = [(''GOVC_URL'', ''https://vc''), (''GOVC_USERNAME'', ''x''), (''GOVC_PASSWORD'', ''x''), (''GOVC_INSECURE'', ''false'')]"

lemma test_target: "pl_name test_target = ''vsphere''" "pl_type test_target = ''vmware''"
  by (simp_all add: default_platform_def)

lemma test_envs: "govc_env test_env test_target = Inr test_envs"
  by (simp add: govc_env_def test_env_def sample_env_def default_platform_def get_or_def check_res_def
      bool_option_def govc_options_def test_envs_def map_filter_simps opt_nonempty_def Let_def)

lemma test_network: "strip whitespace ''lab'' = ''lab''" "strip whitespace ''ethernet-0'' = ''ethernet-0''"
  by code_simp+

lemma test_network_valid:
  "\<exists>cs. validate_network test_env test_target ''lab'' s = (Inr (network_facts test_target ''lab'' []), s\<lparr>trace := trace s @ cs\<rparr>)"
  unfolding validate_network_def network_found_def Let_def test_network
  by (simp add: then_lift bind_fst test_envs test_govc test_network test_target) (rule exI, rule refl)

lemma test_validates:
  "\<exists>x t. validate_dr_test test_env sample_config test_management test_point ''vsphere'' (q_options test_request) test_sys =
     (Inr x, t) \<and> database t = database test_sys"
proof -
  have n: "strip whitespace (text_or_empty [(''network'', JStr ''lab'')] ''network'') = ''lab''"
    using test_network by (simp add: text_or_empty_def or_else_def)
  have p: "engine_platform sample_config ''vsphere'' s = (Inr test_target, s)" for s
    by (simp add: engine_platform_def sample_config_def default_config_def default_platform_def need_def)
  show ?thesis
    using test_network_valid [of test_sys]
    unfolding validate_dr_test_def test_facts option.case Let_def n
    by (auto simp: test_point_def sample_point_def then_act_def bind_act_def check_run p allowed_networks_def
        test_management_def test_target build_adapter_def)
qed

lemma test_isolates:
  "\<exists>cs facts. isolate test_env test_target tested_machine ''lab'' s = (Inr facts, s\<lparr>trace := trace s @ cs\<rparr>)"
proof -
  have e: "ethernet_devices ''ethernet-0'' = [''ethernet-0'']" by code_simp
  have n: "text_or_empty tested_machine ''name'' = ''db-test''"
    by (simp add: text_or_empty_def or_else_def tested_machine_def)
  obtain cs where v: "validate_network test_env test_target ''lab'' s =
      (Inr (network_facts test_target ''lab'' []), s\<lparr>trace := trace s @ cs\<rparr>)"
    using test_network_valid by blast
  have i: "\<exists>ds. isolate_vmware test_env test_target tested_machine ''lab'' t = (Inr [''ethernet-0''], t\<lparr>trace := trace t @ ds\<rparr>)" for t
    unfolding isolate_vmware_def vmware_devices_def govc_here_def Let_def n
    by (simp add: then_lift bind_fst test_envs test_govc e) (rule exI, rule refl)
  show ?thesis
    using i [of "s\<lparr>trace := trace s @ cs\<rparr>"] by (auto simp: isolate_def bind_fst v test_target)
qed

lemma test_starts:
  "\<exists>y t. test_machine test_env test_management 1 ''bob'' test_target tested_machine ''lab'' s = (Inr y, t) \<and>
     Adapter ''vsphere'' (PowerOn (JObj tested_machine)) \<in> set (trace t)"
proof -
  obtain facts cs where i: "isolate test_env test_target tested_machine ''lab'' s = (Inr facts, s\<lparr>trace := trace s @ cs\<rparr>)"
    using test_isolates by blast
  have b: "\<exists>y t. boot_test test_env test_management test_target tested_machine facts u = (Inr y, t) \<and>
      Adapter ''vsphere'' (PowerOn (JObj tested_machine)) \<in> set (trace t)" for u
    by (simp add: boot_test_def bind_act_def attempt_eq ask_def test_env_def sample_env_def test_target then_act_def
        running_vm_def govc_here_def lift_res_def test_envs [unfolded test_env_def sample_env_def] govc_def run_command_def
        split: sum.split)
  then show ?thesis by (simp add: test_machine_def bind_act_def attempt_eq i then_act_def)
qed

lemma more_calls: "steps (does Q) m \<Longrightarrow> m s = (r, t) \<Longrightarrow> c \<in> set (trace s) \<Longrightarrow> c \<in> set (trace t)"
  by (drule (1) stepsD) (auto simp: does_def)

lemma test_run_starts:
  "Adapter ''vsphere'' (PowerOn (JObj tested_machine)) \<in> set (trace (snd
     (run_test test_env test_management 1 ''bob'' test_target ''lab'' (JObj tested_machine) s)))"
proof -
  obtain y t where t: "test_machine test_env test_management 1 ''bob'' test_target tested_machine ''lab'' s = (Inr y, t)"
    "Adapter ''vsphere'' (PowerOn (JObj tested_machine)) \<in> set (trace t)"
    using test_starts by blast
  have "steps (does unstarted) (bind_act (power_off_machine test_env 1 ''bob'' test_target tested_machine y) (\<lambda>st'.
         bind_act (clean_machine test_env test_management test_target tested_machine st') (\<lambda>(st'', cleanup).
         conclude_test 1 ''bob'' ''lab'' test_target st'' cleanup (JObj tested_machine))))"
    by (intro does_rules power_off_unstarted clean_unstarted conclude_unstarted)
  from more_calls [OF this surjective_pairing t(2)] t(1) show ?thesis
    by (simp add: run_test_def bind_act_def)
qed

lemma managed_test_run:
  "Adapter ''vsphere'' (PowerOn (JObj tested_machine)) \<in> set (trace (snd
     (managed_execute_restore test_env sample_config default_v2v test_management 1 ''bob'' False test_sys)))"
proof -
  obtain x u where u: "validate_dr_test test_env sample_config test_management test_point ''vsphere''
      (q_options test_request) test_sys = (Inr x, u)" "database u = database test_sys"
    using test_validates by blast
  obtain t where t: "v2v_execute_restore test_env sample_config default_v2v 1 ''bob'' False u = (Inr (JObj tested_machine), t)"
    using test_restores [OF u(2)] by blast
  have "managed_execute_restore test_env sample_config default_v2v test_management 1 ''bob'' False test_sys =
      managed_test test_env sample_config default_v2v test_management 1 ''bob'' False test_request
        [(''network'', JStr ''lab'')] test_point test_target test_sys"
    using test_facts by (simp add: managed_execute_restore_def bind_fst engine_platform_def need_def)
  also have "\<dots> = run_test test_env test_management 1 ''bob'' test_target ''lab'' (JObj tested_machine) t"
    using u t by (simp add: managed_test_def bind_act_def then_act_def build_adapter_def attempt_eq test_target
        marker_network_def get_or_def check_run split: prod.split)
  finally show ?thesis using test_run_starts by simp
qed

theorem tested_machine_isolated_witness:
  "\<exists>xs ys. trace (snd (managed_execute_restore test_env sample_config default_v2v test_management 1 ''bob'' False test_sys)) =
      xs @ Adapter ''vsphere'' (PowerOn (JObj tested_machine)) # ys \<and>
    isolated test_env test_target tested_machine ''lab'' xs"
proof -
  obtain xs ys where t: "trace (snd (managed_execute_restore test_env sample_config default_v2v test_management 1 ''bob'' False
      test_sys)) = xs @ Adapter ''vsphere'' (PowerOn (JObj tested_machine)) # ys"
    using managed_test_run by (meson split_list)
  have "does (test_start test_env test_management test_target test_point False ''lab'') test_sys
      (snd (managed_execute_restore test_env sample_config default_v2v test_management 1 ''bob'' False test_sys))"
    using tested_machine_isolated [OF test_facts, of test_env test_management False default_v2v "''bob''"]
    by (simp add: marker_network_def get_or_def)
  then have "calls_ok (test_start test_env test_management test_target test_point False ''lab'') []
      (xs @ Adapter ''vsphere'' (PowerOn (JObj tested_machine)) # ys)"
    using t by (auto simp: does_def test_sys_def)
  from calls_ok_at [OF this] t show ?thesis by (auto simp: test_start_def)
qed

section \<open>A started machine is powered off\<close>

definition off_after :: "sys \<Rightarrow> sys \<Rightarrow> bool" where
  "off_after s t \<longleftrightarrow> (\<exists>cs. trace t = trace s @ cs \<and>
     (\<forall>xs n v ys. cs = xs @ Adapter n (PowerOn v) # ys \<longrightarrow> Adapter n (PowerOff v) \<in> set ys))"

interpretation off: step_relation off_after
proof
  show "off_after s s" for s by (auto simp: off_after_def)
  show "off_after s u" if st: "off_after s t" and tu: "off_after t u" for s t u
  proof -
    obtain cs where cs: "trace t = trace s @ cs"
      "\<And>xs n v ys. cs = xs @ Adapter n (PowerOn v) # ys \<Longrightarrow> Adapter n (PowerOff v) \<in> set ys"
      using st unfolding off_after_def by blast
    obtain ds where ds: "trace u = trace t @ ds"
      "\<And>xs n v ys. ds = xs @ Adapter n (PowerOn v) # ys \<Longrightarrow> Adapter n (PowerOff v) \<in> set ys"
      using tu unfolding off_after_def by blast
    have "Adapter n (PowerOff v) \<in> set ys" if "cs @ ds = xs @ Adapter n (PowerOn v) # ys" for xs n v ys
    proof -
      from append_split [OF that] consider us where "cs = xs @ Adapter n (PowerOn v) # us" "ys = us @ ds"
        | us where "ds = us @ Adapter n (PowerOn v) # ys"
        by blast
      then show ?thesis using cs(2) ds(2) by cases auto
    qed
    with cs(1) ds(1) show ?thesis unfolding off_after_def by (intro exI [of _ "cs @ ds"]) simp
  qed
qed

lemma does_unstarted: "does unstarted s t \<Longrightarrow> off_after s t"
  unfolding does_def off_after_def calls_ok_def unstarted_def by metis

lemma unstarted_off: "steps (does unstarted) m \<Longrightarrow> steps off_after m"
  by (simp add: steps_def does_unstarted)

text \<open>Only the restored machine is started, and then powered off.\<close>

definition starts_only :: "string \<Rightarrow> json \<Rightarrow> call list \<Rightarrow> call \<Rightarrow> bool" where
  "starts_only name v h c \<longleftrightarrow> (\<forall>n w. c = Adapter n (PowerOn w) \<longrightarrow> n = name \<and> w = v)"

lemma unstarted_only: "steps (does unstarted) m \<Longrightarrow> steps (does (starts_only name v)) m"
  unfolding steps_def by (metis does_mono unstarted_def starts_only_def)

lemma test_machine_only:
  "steps (does (starts_only (pl_name target) (JObj restored))) (test_machine E m i actor target restored network)"
  unfolding test_machine_def boot_test_def
  by (intro does_rules attempt_does unstarted_only [OF boot_check_unstarted]
      unstarted_only [OF offline_unstarted [OF offline_isolate]] does_ask) (simp add: starts_only_def)

lemma test_then_off:
  "off_after s (snd (bind_act (test_machine E m i actor target restored network)
     (power_off_machine E i actor target restored) s))"
proof -
  obtain r t where t: "test_machine E m i actor target restored network s = (r, t)" by fastforce
  obtain st where r: "r = Inr st"
    using t unfolding test_machine_def boot_test_def
    by (auto simp: bind_act_def attempt_eq then_act_def split: sum.splits prod.splits)
  obtain cs where cs: "trace t = trace s @ cs" "calls_ok (starts_only (pl_name target) (JObj restored)) (trace s) cs"
    using stepsD [OF test_machine_only t] by (auto simp: does_def)
  let ?off = "Adapter (pl_name target) (PowerOff (JObj restored))"
  have off: "trace (snd (power_off_machine E i actor target restored st t)) = trace t @ [?off]"
    unfolding power_off_machine_def by (simp add: bind_act_def attempt_eq ask_def split: sum.split)
  have "Adapter n (PowerOff v) \<in> set ys" if "cs @ [?off] = xs @ Adapter n (PowerOn v) # ys" for xs n v ys
  proof -
    from that obtain us where us: "cs = xs @ Adapter n (PowerOn v) # us" "ys = us @ [?off]"
      by (cases ys rule: rev_cases) auto
    have "starts_only (pl_name target) (JObj restored) (trace s @ xs) (Adapter n (PowerOn v))"
      using cs(2) unfolding us(1) by (rule calls_ok_at)
    with us(2) show ?thesis by (simp add: starts_only_def)
  qed
  with cs(1) off t r show ?thesis
    unfolding off_after_def by (intro exI [of _ "cs @ [?off]"]) (simp add: bind_act_def)
qed

lemma bind_assoc: "bind_act m (\<lambda>x. bind_act (f x) g) = bind_act (bind_act m f) g"
  by (auto simp: fun_eq_iff bind_act_def split: prod.split sum.split)

lemma run_test_off: "steps off_after (run_test E m i actor target network restored)"
proof -
  have first: "steps off_after (bind_act (test_machine E m i actor target kvs network)
      (power_off_machine E i actor target kvs))" for kvs
    by (rule off.stepsI) (rule test_then_off)
  show ?thesis
    unfolding run_test_def Let_def bind_assoc
    by (rule off.steps_bind, rule off.steps_bind, rule first)
      (auto intro!: off.steps_prod unstarted_off clean_unstarted conclude_unstarted)
qed

lemma lift_unstarted: "steps (does unstarted) (lift_res r)"
  by (intro does_rules)

text \<open>
  C18. A machine started for a recovery test is always powered off. In any run of \<open>execute_restore\<close> of the
  managed engine, whatever fails on the way, every call that starts a machine is followed by one that
  powers the same machine off, through the adapter of the same platform.
\<close>

theorem tested_machine_off:
  "off_after s (snd (managed_execute_restore E cfg c m i actor dry s))"
proof -
  have test: "steps off_after (managed_test E cfg c m i actor dry q marker p target)" for q marker p target
    unfolding managed_test_def build_adapter_def attempt_def
    by (intro off.steps_bind off.steps_then off.steps_prod off.steps_if off.steps_sum off.steps_check off.steps_catch
        off.steps_ret run_test_off unstarted_off validate_unstarted v2v_execute_unstarted conclude_unstarted lift_unstarted)
  show ?thesis
    unfolding managed_execute_restore_def engine_platform_def
    by (rule off.steps_at) (intro off.steps_bind off.steps_query off.steps_need off.steps_option test
        unstarted_off [OF v2v_execute_unstarted])
qed

end
