(* ===== verification/Dr_Network.thy ===== *)
theory Dr_Network
  imports Engine_Safety Shlex Ip_Address
begin

text \<open>
  \<open>DRNetworkManager\<close> of \<open>dr_network.py\<close>: the VXLAN/OSPF commands of the two gateways. Scripts are
  sent on the standard input of \<open>bash -s\<close>, locally or over ssh. The lemmas show that the routing
  commands survive shell splitting unchanged and that every call of the manager runs the fixed gateway
  command, whose arguments do not contain the OSPF key.
\<close>

section \<open>Sites and names\<close>

definition site_by :: "dr_config \<Rightarrow> string \<Rightarrow> dr_site_config res" where
  "site_by cfg name =
     (case find (\<lambda>s. st_name s = name) (sites cfg) of
        Some s \<Rightarrow> Inr s
      | None \<Rightarrow> Inl (ValueError (''unknown DR site: '' @ name)))"

definition peer_of :: "dr_config \<Rightarrow> string \<Rightarrow> dr_site_config res" where
  "peer_of cfg name =
     (if name = primary_site cfg then site_by cfg (dr_site cfg)
      else if name = dr_site cfg then site_by cfg (primary_site cfg)
      else Inl (ValueError (''site '' @ name @ '' is not part of the configured DR pair'')))"

definition bridge_name :: "int \<Rightarrow> string" where "bridge_name vlan = ''imvb'' @ show_int vlan"
definition vxlan_name :: "int \<Rightarrow> string" where "vxlan_name vni = ''imvx'' @ show_int vni"
definition vlan_name :: "int \<Rightarrow> string" where "vlan_name vlan = ''imva'' @ show_int vlan"

section \<open>Running a script on a gateway\<close>

text \<open>\<open>_wrap\<close>; the key file comes from the environment.\<close>

definition gateway_command :: "env \<Rightarrow> dr_site_config \<Rightarrow> string list" where
  "gateway_command E s =
     (let g = st_gateway s;
          key = getenv E ''IMMUTAVAULT_SSH_KEY'';
          target = (if opt_nonempty (gw_ssh_user g) then the (gw_ssh_user g) @ ''@'' @ gw_host g else gw_host g)
      in if gw_local g then [''bash'', ''-s'']
         else [''ssh'', ''-o'', ''BatchMode=yes'', ''-o'', ''StrictHostKeyChecking=yes'']
           @ (if opt_nonempty key then [''-i'', the key] else []) @ [target, ''bash'', ''-s''])"

definition run_script :: "env \<Rightarrow> dr_site_config \<Rightarrow> string \<Rightarrow> bool \<Rightarrow> run_output act" where
  "run_script E s script chk =
     bind_act (ask (run_reply E) (RunInput (gateway_command E s) [] (script @ [CHR 0x0A]))) (\<lambda>(code, out, err).
       if chk \<and> code \<noteq> 0
       then throw (RuntimeError (''command failed ('' @ show_int code @ ''): '' @ join '' '' (gateway_command E s)
              @ [CHR 0x0A] @ strip whitespace err))
       else ret (code, out, err))"

definition vtysh :: "string list \<Rightarrow> string" where
  "vtysh commands = ''vtysh '' @ join '' '' (map (\<lambda>c. ''-c '' @ shell_quote c) commands)"

text \<open>\<open>s[-n:]\<close> for a positive \<open>n\<close>.\<close>

definition last_chars :: "nat \<Rightarrow> string \<Rightarrow> string" where
  "last_chars n s = drop (length s - n) s"

section \<open>Operations\<close>

definition gateway_preflight :: "env \<Rightarrow> dr_config \<Rightarrow> string \<Rightarrow> (string \<times> json) list act" where
  "gateway_preflight E cfg name =
     bind_act (lift_res (site_by cfg name)) (\<lambda>s.
     bind_act (lift_res (peer_of cfg name)) (\<lambda>peer.
     let g = st_gateway s;
         commands = [''command -v ip'', ''command -v bridge'', ''command -v vtysh'',
           ''ip link show '' @ shell_quote (gw_underlay_interface g) @ '' >/dev/null'',
           ''ip link show '' @ shell_quote (gw_trunk_interface g) @ '' >/dev/null'',
           ''ip route get '' @ shell_quote (gw_vtep_ip (st_gateway peer)) @ '' >/dev/null'',
           ''vtysh -c '' @ [CHR 0x27] @ ''show version'' @ [CHR 0x27] @ '' >/dev/null'']
     in bind_act (run_script E s (''set -euo pipefail; '' @ join ''; '' commands) False) (\<lambda>(code, out, err).
          ret [(''site'', JStr name), (''peer'', JStr (st_name peer)), (''ok'', JBool (code = 0)),
               (''error'', JStr (last_chars 2000 (strip whitespace err)))])))"

text \<open>The commands that build one stretched network, seen from a gateway.\<close>

definition network_commands :: "dr_gateway_config \<Rightarrow> dr_gateway_config \<Rightarrow> dr_network_config \<Rightarrow> string list" where
  "network_commands g peer n =
     (let br = bridge_name (nw_vlan_id n); vx = vxlan_name (nw_vni n); vl = vlan_name (nw_vlan_id n);
          mtu = show_int (nw_mtu n)
      in [''ip link show '' @ br @ '' >/dev/null 2>&1 || ip link add '' @ br @ '' type bridge'',
          ''ip link show '' @ vl @ '' >/dev/null 2>&1 || ip link add link '' @ gw_trunk_interface g @ '' name '' @ vl
            @ '' type vlan id '' @ show_int (nw_vlan_id n),
          ''ip link show '' @ vx @ '' >/dev/null 2>&1 || ip link add '' @ vx @ '' type vxlan id '' @ show_int (nw_vni n)
            @ '' local '' @ gw_vtep_ip g @ '' remote '' @ gw_vtep_ip peer @ '' dev '' @ gw_underlay_interface g
            @ '' dstport 4789 nolearning'',
          ''ip link set '' @ vl @ '' master '' @ br, ''ip link set '' @ vx @ '' master '' @ br,
          ''ip link set '' @ vl @ '' mtu '' @ mtu, ''ip link set '' @ vx @ '' mtu '' @ mtu, ''ip link set '' @ br @ '' mtu '' @ mtu,
          ''ip link set '' @ vl @ '' up'', ''ip link set '' @ vx @ '' up'', ''ip link set '' @ br @ '' up''])"

definition enabled_networks :: "dr_config \<Rightarrow> dr_network_config list" where
  "enabled_networks cfg = filter nw_enabled (networks cfg)"

definition plan_commands :: "dr_config \<Rightarrow> dr_gateway_config \<Rightarrow> dr_gateway_config \<Rightarrow> string list" where
  "plan_commands cfg g peer = concat (map (network_commands g peer) (enabled_networks cfg))"

definition gateway_plan :: "dr_config \<Rightarrow> string \<Rightarrow> (string \<times> json) list res" where
  "gateway_plan cfg name =
     bind_res (site_by cfg name) (\<lambda>s.
     bind_res (peer_of cfg name) (\<lambda>peer.
       let g = st_gateway s; pg = st_gateway peer
       in Inr [(''site'', JStr (st_name s)), (''peer'', JStr (st_name peer)), (''vtep'', JStr (gw_vtep_ip g)),
               (''peer_vtep'', JStr (gw_vtep_ip pg)), (''commands'', JList (map JStr (plan_commands cfg g pg)))]))"

text \<open>\<open>ch.isspace()\<close> on single-byte text.\<close>

definition is_space :: "char \<Rightarrow> bool" where
  "is_space c \<longleftrightarrow> (let n = of_char c :: nat in 9 \<le> n \<and> n \<le> 13 \<or> 28 \<le> n \<and> n \<le> 32 \<or> n = 133 \<or> n = 160)"

definition ospf_auth :: "env \<Rightarrow> dr_gateway_config \<Rightarrow> string list res" where
  "ospf_auth E g =
     (if \<not> opt_nonempty (gw_ospf_auth_key_env g) then Inr []
      else let name = the (gw_ospf_auth_key_env g)
      in case getenv E name of
           None \<Rightarrow> Inl (RuntimeError (''missing OSPF auth environment variable '' @ name))
         | Some secret \<Rightarrow>
             check_res (secret \<noteq> []) (RuntimeError (''missing OSPF auth environment variable '' @ name))
             (check_res (\<not> (16 < length (concat (map utf8_bytes secret)) \<or> list_ex is_space secret))
               (RuntimeError ''OSPF message-digest key must be a non-whitespace value of at most 16 bytes'')
               (Inr [''ip ospf authentication message-digest'',
                     ''ip ospf message-digest-key '' @ show_int (gw_ospf_auth_key_id g) @ '' md5 '' @ secret])))"

definition gateway_prepare :: "env \<Rightarrow> dr_config \<Rightarrow> string \<Rightarrow> (string \<times> json) list act" where
  "gateway_prepare E cfg name =
     bind_act (lift_res (site_by cfg name)) (\<lambda>s.
     bind_act (lift_res (peer_of cfg name)) (\<lambda>peer.
     let g = st_gateway s
     in bind_act (run_script E s ''command -v ip && command -v vtysh && command -v bridge'' False) (\<lambda>(code, out, err).
        then_act (check (code = 0)
          (RuntimeError (''DR gateway '' @ st_name s @ '' requires iproute2, bridge and FRR/vtysh'')))
       (then_act (run_script E s (join ''; '' (''set -euo pipefail'' # plan_commands cfg g (st_gateway peer))) True)
       (bind_act (lift_res (ospf_auth E g)) (\<lambda>auth.
        then_act (run_script E s (vtysh
          ([''configure terminal'', ''router ospf'', ''ospf router-id '' @ gw_router_id g, ''exit'',
            ''interface '' @ gw_underlay_interface g, ''ip ospf area '' @ gw_ospf_area g,
            ''ip ospf cost '' @ show_int (gw_ospf_cost g)] @ auth @ [''exit'', ''end'', ''write memory''])) True)
       (ret [(''status'', JStr ''prepared''), (''site'', JStr (st_name s)), (''peer'', JStr (st_name peer))])))))))"

definition activate_commands :: "dr_gateway_config \<Rightarrow> dr_network_config \<Rightarrow> string list res" where
  "activate_commands g n =
     (let br = bridge_name (nw_vlan_id n); cidr = shell_quote (nw_gateway_cidr n)
      in case ip_interface (nw_gateway_cidr n) of
           None \<Rightarrow> Inl (ValueError (repr_str (nw_gateway_cidr n) @ '' does not appear to be an IPv4 or IPv6 interface''))
         | Some i \<Rightarrow>
             let vip = show_ip (if n_v6 i then V6 (n_addr i) else V4 (n_addr i))
             in Inr [''ip address show dev '' @ br @ '' | grep -Fq '' @ cidr @ '' || ip address add '' @ cidr @ '' dev '' @ br,
                  ''command -v arping >/dev/null 2>&1 && arping -U -c 3 -I '' @ br @ '' '' @ vip @ '' >/dev/null 2>&1 || true'',
                  vtysh [''configure terminal'', ''interface '' @ br, ''ip ospf area '' @ gw_ospf_area g, ''ip ospf passive'',
                         ''exit'', ''end'', ''write memory'']])"

definition gateway_activate :: "env \<Rightarrow> dr_config \<Rightarrow> string \<Rightarrow> bool \<Rightarrow> (string \<times> json) list act" where
  "gateway_activate E cfg name dry_run =
     bind_act (lift_res (site_by cfg name)) (\<lambda>s.
     bind_act (lift_res (map_res (activate_commands (st_gateway s)) (enabled_networks cfg))) (\<lambda>actions.
       if dry_run
       then ret [(''site'', JStr name), (''action'', JStr ''activate''), (''commands'', JList (map JStr (concat actions)))]
       else then_act (run_script E s (''set -euo pipefail; '' @ join ''; '' (concat actions)) True)
         (ret [(''status'', JStr ''active''), (''site'', JStr name)])))"

definition deactivate_commands :: "dr_gateway_config \<Rightarrow> dr_network_config \<Rightarrow> string list" where
  "deactivate_commands g n =
     (let br = bridge_name (nw_vlan_id n)
      in [vtysh [''configure terminal'', ''interface '' @ br, ''no ip ospf area '' @ gw_ospf_area g, ''exit'', ''end'', ''write memory''],
          ''ip address del '' @ shell_quote (nw_gateway_cidr n) @ '' dev '' @ br @ '' 2>/dev/null || true''])"

definition gateway_deactivate :: "env \<Rightarrow> dr_config \<Rightarrow> string \<Rightarrow> bool \<Rightarrow> bool \<Rightarrow> (string \<times> json) list act" where
  "gateway_deactivate E cfg name dry_run tolerate =
     bind_act (lift_res (site_by cfg name)) (\<lambda>s.
     let actions = concat (map (deactivate_commands (st_gateway s)) (enabled_networks cfg))
     in if dry_run
        then ret [(''site'', JStr name), (''action'', JStr ''deactivate''), (''commands'', JList (map JStr actions))]
        else bind_act (run_script E s (''set -u; '' @ join ''; '' actions) (\<not> tolerate)) (\<lambda>(code, out, err).
          ret [(''status'', JStr (if code = 0 then ''inactive'' else ''unreachable'')), (''site'', JStr name)]))"

definition gateway_status :: "env \<Rightarrow> dr_config \<Rightarrow> string \<Rightarrow> (string \<times> json) list act" where
  "gateway_status E cfg name =
     bind_act (lift_res (site_by cfg name)) (\<lambda>s.
     bind_act (run_script E s (''ip -j address show; echo __OSPF__; vtysh -c '' @ [CHR 0x27]
         @ ''show ip ospf neighbor json'' @ [CHR 0x27]) False) (\<lambda>(code, out, err).
       ret [(''site'', JStr name), (''reachable'', JBool (code = 0)), (''output'', JStr (last_chars 20000 out)),
            (''error'', JStr (last_chars 2000 err))]))"

section \<open>Routing commands survive the shell\<close>

lemma join_space: "join '' '' (x # xs) = x @ concat (map (\<lambda>y. '' '' @ y) xs)"
  by (induction xs arbitrary: x) auto

lemma go_options:
  "shlex_go Plain (Some w) (concat (map (\<lambda>c. '' -c '' @ shell_quote c) cs)) =
     Inr (w # concat (map (\<lambda>c. [''-c'', c]) cs))"
proof (induction cs arbitrary: w)
  case (Cons c cs)
  have "\<not> shell_space CHR ''-''" "\<not> shell_space CHR ''c''" "shell_space CHR '' ''"
    by (simp_all add: shell_space_def)
  then show ?case using Cons.IH [of c] by (simp add: go_quote emit_def grow_def word_of_def)
qed (simp add: emit_def)

lemma split_vtysh: "cs \<noteq> [] \<Longrightarrow> shlex_split (vtysh cs) = Inr (''vtysh'' # concat (map (\<lambda>c. [''-c'', c]) cs))"
proof -
  assume "cs \<noteq> []"
  then have v: "vtysh cs = ''vtysh'' @ concat (map (\<lambda>c. '' -c '' @ shell_quote c) cs)"
    by (cases cs) (simp_all add: vtysh_def join_space comp_def)
  have "list_all shell_safe ''vtysh''" by code_simp
  from go_safe [OF this, of None] go_options show ?thesis
    by (simp add: shlex_split_def v word_of_def)
qed

section \<open>Calls of the network manager\<close>

definition gateway_call :: "env \<Rightarrow> dr_config \<Rightarrow> call list \<Rightarrow> call \<Rightarrow> bool" where
  "gateway_call E cfg h c \<longleftrightarrow> (\<exists>s\<in>set (sites cfg). \<exists>script. c = RunInput (gateway_command E s) [] script)"

lemma site_by_Inr: "site_by cfg name = Inr s \<Longrightarrow> s \<in> set (sites cfg) \<and> st_name s = name"
  by (auto simp: site_by_def find_Some_iff split: option.splits)

lemma does_script: "s \<in> set (sites cfg) \<Longrightarrow> steps (does (gateway_call E cfg)) (run_script E s script chk)"
  unfolding run_script_def by (intro does_rules does_ask) (auto simp: gateway_call_def)

lemma stepsI_bind_lift:
  "(\<And>x. r = Inr x \<Longrightarrow> steps (does Q) (f x)) \<Longrightarrow> steps (does Q) (bind_act (lift_res r) f)"
  by (cases r) (auto simp: steps_def bind_act_def lift_res_def does.R_refl)

text \<open>A looked-up site is one of the configured ones.\<close>

lemma does_site:
  "(\<And>s. s \<in> set (sites cfg) \<Longrightarrow> steps (does Q) (f s)) \<Longrightarrow> steps (does Q) (bind_act (lift_res (site_by cfg name)) f)"
  by (rule stepsI_bind_lift) (auto dest: site_by_Inr)

lemma gateway_calls:
  "steps (does (gateway_call E cfg)) (gateway_preflight E cfg name)"
  "steps (does (gateway_call E cfg)) (gateway_prepare E cfg name)"
  "steps (does (gateway_call E cfg)) (gateway_activate E cfg name dry)"
  "steps (does (gateway_call E cfg)) (gateway_deactivate E cfg name dry tol)"
  "steps (does (gateway_call E cfg)) (gateway_status E cfg name)"
  unfolding gateway_preflight_def gateway_prepare_def gateway_activate_def gateway_deactivate_def gateway_status_def
  by (intro does_site does_script does_rules does_lift; assumption)+

lemma gateway_calls_at:
  assumes "steps (does (gateway_call E cfg)) m"
  shows "\<exists>cs. trace (snd (m s)) = trace s @ cs \<and>
    list_all (\<lambda>c. \<exists>site\<in>set (sites cfg). \<exists>script. c = RunInput (gateway_command E site) [] script) cs"
proof -
  have "does (gateway_call E cfg) s (snd (m s))" using assms by (simp add: steps_def)
  then obtain cs where "trace (snd (m s)) = trace s @ cs" "calls_ok (gateway_call E cfg) (trace s) cs"
    by (auto simp: does_def)
  moreover from this have "list_all (gateway_call E cfg []) cs"
    unfolding calls_ok_def list_all_iff gateway_call_def by (metis in_set_conv_decomp)
  ultimately show ?thesis by (auto simp: gateway_call_def list_all_iff)
qed

lemma gateway_command_key:
  "getenv E ''IMMUTAVAULT_SSH_KEY'' = getenv F ''IMMUTAVAULT_SSH_KEY'' \<Longrightarrow> gateway_command E = gateway_command F"
  by (simp add: gateway_command_def fun_eq_iff)

text \<open>A pair of gateways with one stretched network.\<close>

definition sample_gateway :: "string \<Rightarrow> string \<Rightarrow> dr_site_config" where
  "sample_gateway name vtep =
     \<lparr>st_name = name, st_gateway =
        \<lparr>gw_host = ''gw-'' @ name, gw_ssh_user = Some ''root'', gw_local = False, gw_underlay_interface = ''eth0'',
         gw_trunk_interface = ''eth1'', gw_vtep_ip = vtep, gw_router_id = vtep, gw_ospf_area = ''0.0.0.0'',
         gw_ospf_cost = 10, gw_ospf_auth_key_env = Some ''OSPF'', gw_ospf_auth_key_id = 1\<rparr>\<rparr>"

definition sample_pair :: dr_config where
  "sample_pair = default_dr\<lparr>dr_enabled := True, sites := [sample_gateway ''primary'' ''10.0.0.1'', sample_gateway ''dr'' ''10.0.1.1''],
     networks := [\<lparr>nw_name = ''lan'', nw_vlan_id = 10, nw_vni = 10010, nw_subnet = ''192.168.10.0/24'',
       nw_gateway_cidr = ''192.168.10.1/24'', nw_mtu = 1450, nw_enabled = True\<rparr>]\<rparr>"

lemma prepare_run:
  assumes "gateway_prepare E cfg name s = (Inr r, t)"
  shows "\<exists>site peer auth. site_by cfg name = Inr site \<and> peer_of cfg name = Inr peer \<and> ospf_auth E (st_gateway site) = Inr auth \<and>
     trace t = trace s @ map (RunInput (gateway_command E site) [])
       [''command -v ip && command -v vtysh && command -v bridge'' @ [CHR 0x0A],
        join ''; '' (''set -euo pipefail'' # plan_commands cfg (st_gateway site) (st_gateway peer)) @ [CHR 0x0A],
        vtysh ([''configure terminal'', ''router ospf'', ''ospf router-id '' @ gw_router_id (st_gateway site), ''exit'',
            ''interface '' @ gw_underlay_interface (st_gateway site), ''ip ospf area '' @ gw_ospf_area (st_gateway site),
            ''ip ospf cost '' @ show_int (gw_ospf_cost (st_gateway site))] @ auth @ [''exit'', ''end'', ''write memory''])
          @ [CHR 0x0A]] \<and> database t = database s"
  using assms
  by (auto simp: gateway_prepare_def run_script_def then_act_def bind_Inr lift_res_def ask_def check_def Let_def
      split: prod.splits if_splits)

section \<open>Claims\<close>

text \<open>The command line that hands routing commands to FRR survives the shell: splitting it the way a POSIX
  shell does gives \<open>vtysh\<close> and one \<open>-c\<close> option per command with exactly the command's text, whatever
  characters the commands contain.\<close>

lemma vtysh_round_trip:
  assumes "cs \<noteq> []"
  shows "shlex_split (vtysh cs) = Inr (''vtysh'' # concat (map (\<lambda>c. [''-c'', c]) cs))"
  using assms by (rule split_vtysh)

text \<open>Preparing a gateway keeps the OSPF key out of every argument vector: all calls made are the fixed
  gateway command of a configured site with a script on its standard input, and that command is the one of
  any environment with the same ssh key file, whatever else (the OSPF secret included) it contains.\<close>

lemma ospf_key_not_in_arguments:
  assumes "getenv E ''IMMUTAVAULT_SSH_KEY'' = getenv F ''IMMUTAVAULT_SSH_KEY''"
  shows "\<exists>cs. trace (snd (gateway_prepare E cfg name s)) = trace s @ cs \<and>
    list_all (\<lambda>c. \<exists>site\<in>set (sites cfg). \<exists>script. c = RunInput (gateway_command F site) [] script) cs"
  unfolding gateway_command_key [OF assms, symmetric] by (rule gateway_calls_at) (rule gateway_calls)

text \<open>A gateway is reported prepared only after exactly three scripts, in this order: the probe for the
  tools, the interfaces of every enabled network, and the routing configuration with the validated OSPF
  key; the database is not touched.\<close>

lemma prepared_after_three_scripts:
  assumes "gateway_prepare E cfg name s = (Inr r, t)"
  shows "\<exists>site peer auth. site_by cfg name = Inr site \<and> peer_of cfg name = Inr peer \<and> ospf_auth E (st_gateway site) = Inr auth \<and>
     trace t = trace s @ map (RunInput (gateway_command E site) [])
       [''command -v ip && command -v vtysh && command -v bridge'' @ [CHR 0x0A],
        join ''; '' (''set -euo pipefail'' # plan_commands cfg (st_gateway site) (st_gateway peer)) @ [CHR 0x0A],
        vtysh ([''configure terminal'', ''router ospf'', ''ospf router-id '' @ gw_router_id (st_gateway site), ''exit'',
            ''interface '' @ gw_underlay_interface (st_gateway site), ''ip ospf area '' @ gw_ospf_area (st_gateway site),
            ''ip ospf cost '' @ show_int (gw_ospf_cost (st_gateway site))] @ auth @ [''exit'', ''end'', ''write memory''])
          @ [CHR 0x0A]] \<and> database t = database s"
  using assms by (rule prepare_run)

lemma sample_prepares: "\<exists>r t. gateway_prepare sample_env sample_pair ''dr'' sample_sys = (Inr r, t)"
  by (simp add: gateway_prepare_def run_script_def then_act_def bind_act_def lift_res_def ask_def check_def Let_def
      sample_pair_def sample_gateway_def default_dr_def site_by_def peer_of_def ospf_auth_def sample_env_def
      opt_nonempty_def utf8_bytes_def is_space_def ret_def check_res_def)

end
