(* ===== verification/Dr_Plan.thy ===== *)
theory Dr_Plan
  imports Dr_Network
begin

text \<open>
  The first half of \<open>DROrchestrator\<close> (\<open>dr.py\<close>): health probes (\<open>health.py\<close>), the failover plan,
  the preflight checks, the maintenance switch and the replication of the newest points to the
  disaster-recovery replica. The lemmas show that a plan is ready only when every workload has a
  verified, unsuspicious, recent and replicated point on a platform of its own family.
\<close>

section \<open>Health probes\<close>

text \<open>The exceptions that count as a failed probe; a timeout of the \<open>ping\<close> process is not one of them.\<close>

definition probe_failure :: "exc \<Rightarrow> bool" where
  "probe_failure e \<longleftrightarrow> (case e of ValueError _ \<Rightarrow> True | RuntimeError _ \<Rightarrow> True | OSError _ \<Rightarrow> True
     | PermissionError _ \<Rightarrow> True | _ \<Rightarrow> False)"

definition probe_url :: "health_check_config \<Rightarrow> string" where
  "probe_url c =
     text_or (hc_url c)
       (hc_type c @ ''://'' @ (case hc_host c of None \<Rightarrow> ''None'' | Some h \<Rightarrow> h) @ '':'' @
        show_int (case hc_port c of Some p \<Rightarrow> if p = 0 then (if hc_type c = ''https'' then 443 else 80) else p
                  | None \<Rightarrow> if hc_type c = ''https'' then 443 else 80) @ ''/'')"

definition probe :: "env \<Rightarrow> health_check_config \<Rightarrow> (string \<times> json) list act" where
  "probe E c =
     (if hc_type c = ''icmp'' then
        then_act (check (opt_nonempty (hc_host c)) (ValueError ''icmp health check requires host''))
       (bind_act (ask (bool_reply E) (Probe ''ping'')) (\<lambda>present.
        then_act (check present (RuntimeError ''ping command is not installed''))
       (let host = the (hc_host c)
        in bind_act (run_command E [''ping'', ''-c'', ''1'', ''-W'', show_int (hc_timeout_seconds c), host] [] False)
          (\<lambda>(code, out, err). ret [(''ok'', JBool (code = 0)), (''type'', JStr (hc_type c)), (''target'', JStr host),
             (''detail'', JStr (if strip whitespace err = [] then last_chars 200 (strip whitespace out)
                                else strip whitespace err))]))))
      else if hc_type c = ''tcp'' then
        then_act (check (opt_nonempty (hc_host c) \<and> (case hc_port c of None \<Rightarrow> False | Some p \<Rightarrow> p \<noteq> 0))
          (ValueError ''tcp health check requires host and port''))
       (let host = the (hc_host c); port = the (hc_port c)
        in then_act (ask (done_reply E) (TcpConnect host port))
          (ret [(''ok'', JBool True), (''type'', JStr (hc_type c)), (''target'', JStr (host @ '':'' @ show_int port))]))
      else if List.member [''http'', ''https''] (hc_type c) then
        bind_act (ask (int_reply E) (HttpGet (probe_url c))) (\<lambda>code.
          ret [(''ok'', JBool (code = hc_expected_status c)), (''type'', JStr (hc_type c)),
               (''target'', JStr (probe_url c)), (''status'', JInt code)])
      else throw (ValueError (''unsupported health check: '' @ hc_type c)))"

definition run_health_check :: "env \<Rightarrow> health_check_config \<Rightarrow> (string \<times> json) list act" where
  "run_health_check E c =
     catch (probe E c) (\<lambda>e.
       if probe_failure e
       then ret [(''ok'', JBool False), (''type'', JStr (hc_type c)),
                 (''target'', opt_json (if opt_nonempty (hc_url c) then hc_url c else hc_host c)),
                 (''error'', JStr (exc_msg e))]
       else throw e)"

definition passed :: "(string \<times> json) list \<Rightarrow> bool" where
  "passed r \<longleftrightarrow> (case map_of r ''ok'' of None \<Rightarrow> False | Some v \<Rightarrow> jtruthy v)"

text \<open>The results of the checks; \<open>ok\<close> is \<open>checks_ok\<close> of them.\<close>

definition run_health_checks :: "env \<Rightarrow> health_check_config list \<Rightarrow> (string \<times> json) list list act" where
  "run_health_checks E cs = each (run_health_check E) cs"

definition checks_json :: "(string \<times> json) list list \<Rightarrow> (string \<times> json) list" where
  "checks_json rs = [(''ok'', JBool (list_all passed rs)), (''checks'', JList (map JObj rs))]"

section \<open>The plan\<close>

definition dr_required :: "config \<Rightarrow> unit act" where
  "dr_required cfg = check (dr_enabled (dr cfg)) (RuntimeError ''disaster_recovery.enabled is false'')"

definition sorted_workloads :: "config \<Rightarrow> dr_vm_config list" where
  "sorted_workloads cfg = sort_key (\<lambda>w. (wl_boot_order w, wl_name w)) (workloads (dr cfg))"

definition workload_point :: "dr_vm_config \<Rightarrow> db \<Rightarrow> point option" where
  "workload_point w d = find (\<lambda>p. p_vm_name p = wl_name w) (list_points (Some (wl_source_platform w)) None 1000 d)"

definition rpo_minutes :: "string \<Rightarrow> int act" where
  "rpo_minutes created_at =
     bind_act (need (fromisoformat created_at) (ValueError (''Invalid isoformat string: '' @ repr_str created_at))) (\<lambda>dt.
     bind_act (call_db now_utc) (\<lambda>now. ret (max 0 ((now - as_utc dt) div minute_us))))"

definition copied :: "copy option \<Rightarrow> bool" where
  "copied c \<longleftrightarrow> (case c of None \<Rightarrow> False | Some r \<Rightarrow> c_status r = ''success'')"

text \<open>The row of one workload and the problems that block its failover.\<close>

definition plan_workload :: "config \<Rightarrow> dr_vm_config \<Rightarrow> ((string \<times> json) list \<times> string list) act" where
  "plan_workload cfg w =
     bind_act (query (workload_point w)) (\<lambda>found.
     bind_act (engine_platform cfg (wl_source_platform w)) (\<lambda>src.
     bind_act (engine_platform cfg (wl_target_platform w)) (\<lambda>dst.
     let row = [(''workload'', JStr (wl_name w)), (''source_platform'', JStr (pl_name src)),
                (''target_platform'', JStr (pl_name dst)), (''source_type'', JStr (pl_type src)),
                (''target_type'', JStr (pl_type dst)), (''boot_order'', JInt (wl_boot_order w))];
         blocked = (\<lambda>msg. ret (row @ [(''error'', JStr msg)], [msg]))
     in if pl_type src \<noteq> pl_type dst
        then blocked (wl_name w @ '': cross-hypervisor automatic DR is blocked ('' @ pl_type src @ '' -> '' @ pl_type dst
               @ ''); configure the same hypervisor family or a tested conversion plugin'')
        else case found of
          None \<Rightarrow> blocked (wl_name w @ '': no recovery point found on '' @ pl_name src)
        | Some p \<Rightarrow>
            bind_act (query (get_recovery_copy (p_snapshot_id p, dr_replica (dr cfg)))) (\<lambda>c.
            bind_act (rpo_minutes (p_created_at p)) (\<lambda>rpo.
              ret (row @ [(''snapshot_id'', JStr (p_snapshot_id p)), (''created_at'', JStr (p_created_at p)),
                     (''rpo_minutes'', JInt rpo), (''verified'', JBool (p_verified p)),
                     (''suspicious'', JBool (p_suspicious p)), (''replica_ready'', JBool (copied c)),
                     (''replica'', JStr (dr_replica (dr cfg)))],
                   (if \<not> p_verified p then [wl_name w @ '': latest recovery point is not verified''] else [])
                 @ (if p_suspicious p then [wl_name w @ '': latest recovery point is anomaly-flagged''] else [])
                 @ (if rpo_max_minutes (dr cfg) < rpo then [wl_name w @ '': latest point is '' @ show_int rpo
                      @ '' minutes old; DR RPO limit is '' @ show_int (rpo_max_minutes (dr cfg))] else [])
                 @ (if \<not> copied c then [wl_name w @ '': latest point is not present on DR replica ''
                      @ dr_replica (dr cfg)] else [])))))))"

record dr_plan =
  dp_rows :: "(string \<times> json) list list"
  dp_errors :: "string list"
  dp_primary :: "(string \<times> json) list"
  dp_dr :: "(string \<times> json) list"

definition make_plan :: "config \<Rightarrow> dr_plan act" where
  "make_plan cfg =
     then_act (dr_required cfg)
    (bind_act (each (plan_workload cfg) (sorted_workloads cfg)) (\<lambda>rows.
     bind_act (lift_res (gateway_plan (dr cfg) (primary_site (dr cfg)))) (\<lambda>net1.
     bind_act (lift_res (gateway_plan (dr cfg) (dr_site (dr cfg)))) (\<lambda>net2.
       ret \<lparr>dp_rows = map fst rows, dp_errors = concat (map snd rows), dp_primary = net1, dp_dr = net2\<rparr>))))"

definition plan_json :: "config \<Rightarrow> dr_plan \<Rightarrow> (string \<times> json) list" where
  "plan_json cfg p =
     [(''ready'', JBool (dp_errors p = [])), (''primary_site'', JStr (primary_site (dr cfg))),
      (''dr_site'', JStr (dr_site (dr cfg))), (''replica'', JStr (dr_replica (dr cfg))),
      (''rpo_max_minutes'', JInt (rpo_max_minutes (dr cfg))),
      (''network'', JObj [(''primary'', JObj (dp_primary p)), (''dr'', JObj (dp_dr p))]),
      (''workloads'', JList (map JObj (dp_rows p))), (''errors'', errors_json (dp_errors p))]"

section \<open>Preflight\<close>

definition texts_in :: "(string \<times> json) list \<Rightarrow> string \<Rightarrow> string list" where
  "texts_in kvs key = (case map_of kvs key of Some (JList vs) \<Rightarrow> map py_str vs | _ \<Rightarrow> [])"

definition failure_json :: "exc \<Rightarrow> json" where
  "failure_json e = JObj [(''ok'', JBool False), (''error'', JStr (exc_msg e))]"

definition replica_preflight :: "env \<Rightarrow> config \<Rightarrow> (json \<times> string list) act" where
  "replica_preflight E cfg =
     catch (bind_act (engine_replica cfg (dr_replica (dr cfg))) (\<lambda>r.
            bind_act (replica_health E r) (\<lambda>health.
              ret (JObj health, if passed health then [] else map (\<lambda>x. ''DR replica: '' @ x) (texts_in health ''problems'')))))
       (\<lambda>e. ret (failure_json e, [''DR replica preflight failed: '' @ exc_msg e]))"

definition target_preflight :: "env \<Rightarrow> config \<Rightarrow> string \<Rightarrow> (string \<times> string list) act" where
  "target_preflight E cfg name =
     bind_act (catch (bind_act (engine_platform cfg name) (\<lambda>pl. then_act (build_adapter pl) (adapter_doctor E pl)))
       (\<lambda>e. ret [exc_msg e])) (\<lambda>issues. ret (name, issues))"

definition network_preflight :: "env \<Rightarrow> config \<Rightarrow> (json \<times> string list) act" where
  "network_preflight E cfg =
     catch (bind_act (gateway_preflight E (dr cfg) (dr_site (dr cfg))) (\<lambda>network.
              ret (JObj network, if passed network then []
                else [''DR gateway preflight failed: ''
                  @ py_str (or_else (map_of network ''error'') (JStr ''unreachable or missing prerequisites''))])))
       (\<lambda>e. ret (failure_json e, [''DR gateway preflight failed: '' @ exc_msg e]))"

text \<open>The problems found, and the details reported with them.\<close>

definition dr_preflight :: "env \<Rightarrow> config \<Rightarrow> dr_plan option \<Rightarrow> (string list \<times> (string \<times> json) list) act" where
  "dr_preflight E cfg given =
     then_act (dr_required cfg)
    (bind_act (case given of Some p \<Rightarrow> ret p | None \<Rightarrow> make_plan cfg) (\<lambda>p.
     bind_act (replica_preflight E cfg) (\<lambda>(replica_detail, replica_issues).
     bind_act (each (target_preflight E cfg) (sorted_list_of_set (wl_target_platform ` set (workloads (dr cfg))))) (\<lambda>targets.
     bind_act (network_preflight E cfg) (\<lambda>(network_detail, network_issues).
       ret (dp_errors p @ replica_issues @ concat (map (\<lambda>(n, is). map (\<lambda>i. ''target '' @ n @ '': '' @ i) is) targets)
              @ network_issues,
            [(''plan_ready'', JBool (dp_errors p = [])), (''replica'', replica_detail),
             (''targets'', JObj (map (\<lambda>(n, is). (n, errors_json is)) targets)), (''dr_gateway'', network_detail)]))))))"

definition preflight_json :: "string list \<times> (string \<times> json) list \<Rightarrow> (string \<times> json) list" where
  "preflight_json r = (case r of (problems, details) \<Rightarrow>
     [(''ok'', JBool (problems = [])), (''problems'', errors_json problems), (''details'', JObj details)])"

section \<open>Maintenance and synchronisation\<close>

definition maintenance :: "env \<Rightarrow> config \<Rightarrow> string \<Rightarrow> string \<Rightarrow> (string \<times> json) list act" where
  "maintenance E cfg raw_action actor =
     then_act (dr_required cfg)
    (let path = norm_path (maintenance_file (dr cfg)); action = lower raw_action
     in then_act (check (List.member [''on'', ''off'', ''status''] action)
          (ValueError ''DR maintenance action must be on, off, or status''))
       (then_act
          (if action = ''on'' then
             then_act (ask (done_reply E) (MkDir (path_parent path)))
            (bind_act (call_db now_utc) (\<lambda>now.
             then_act (ask (done_reply E) (WriteText path (isoformat now @ [CHR 0x0A])))
               (change (audit actor ''dr.maintenance.on'' ''site'' (primary_site (dr cfg)) (JObj [(''file'', JStr path)])))))
           else if action = ''off'' then
             then_act (ask (done_reply E) (Unlink path))
               (change (audit actor ''dr.maintenance.off'' ''site'' (primary_site (dr cfg)) (JObj [(''file'', JStr path)])))
           else ret ())
         (bind_act (ask (bool_reply E) (PathExists path)) (\<lambda>exists.
            ret [(''maintenance'', JBool exists), (''file'', JStr path)]))))"

text \<open>One workload of \<open>sync\<close>: what was copied, or why not.\<close>

definition sync_workload :: "env \<Rightarrow> config \<Rightarrow> replica_config \<Rightarrow> dr_vm_config \<Rightarrow> (string + json) act" where
  "sync_workload E cfg r w =
     bind_act (query (workload_point w)) (\<lambda>found.
     case found of
       None \<Rightarrow> ret (Inl (wl_name w @ '': no recovery point''))
     | Some p \<Rightarrow>
         if p_suspicious p then ret (Inl (wl_name w @ '': latest point is suspicious and was not promoted to DR''))
         else bind_act (query (get_recovery_copy (p_snapshot_id p, rp_name r))) (\<lambda>existing.
           let entry = (\<lambda>status rest. JObj ([(''workload'', JStr (wl_name w)), (''snapshot_id'', JStr (p_snapshot_id p)),
                 (''status'', JStr status)] @ rest))
           in if copied existing then ret (Inr (entry ''already-present'' []))
              else catch
                (bind_act (copy_snapshot E (repository cfg) (p_snapshot_id p) r
                     (Some (keep_within_days (repo_retention (repository cfg))))) (\<lambda>result.
                 then_act (change (upsert_recovery_copy (p_snapshot_id p) (rp_name r) (rp_backend r)
                     (py_str (get_or result ''repository'' (JStr []))) (replica_provider r) ''success''
                     (Some (p_immutable_until p)) (canon (object_lock_of result)) None False))
                   (ret (Inr (entry ''copied'' [(''result'', JObj result)])))))
                (\<lambda>e. ret (Inl (wl_name w @ '': '' @ exc_msg e)))))"

definition lefts :: "('a + 'b) list \<Rightarrow> 'a list" where
  "lefts xs = concat (map (\<lambda>x. case x of Inl a \<Rightarrow> [a] | Inr _ \<Rightarrow> []) xs)"

definition rights :: "('a + 'b) list \<Rightarrow> 'b list" where
  "rights xs = concat (map (\<lambda>x. case x of Inr b \<Rightarrow> [b] | Inl _ \<Rightarrow> []) xs)"

definition sync :: "env \<Rightarrow> config \<Rightarrow> (string \<times> json) list act" where
  "sync E cfg =
     then_act (dr_required cfg)
    (bind_act (engine_replica cfg (dr_replica (dr cfg))) (\<lambda>r.
     bind_act (each (sync_workload E cfg r) (workloads (dr cfg))) (\<lambda>rows.
     then_act (change (audit ''dr-sync'' ''dr.sync'' ''dr_replica'' (rp_name r)
         (JObj [(''copied'', JList (rights rows)), (''errors'', errors_json (lefts rows))])))
       (ret [(''ok'', JBool (lefts rows = [])), (''replica'', JStr (rp_name r)),
             (''workloads'', JList (rights rows)), (''errors'', errors_json (lefts rows))]))))"

section \<open>What a ready plan means\<close>

lemma service_platform: "steps service (engine_platform cfg n)"
  unfolding engine_platform_def by (intro service_rules)

lemma service_plan_workload: "steps service (plan_workload cfg w)"
  unfolding plan_workload_def rpo_minutes_def Let_def
  by (intro service_rules service_platform)

text \<open>
  What the row of a workload without errors says, of the catalog \<open>d\<close> and of the readings of the clock between
  the states \<open>d\<close> and \<open>d'\<close>: there is a live recovery point of the machine, none of its live points has a later
  text as time of creation, and it is fit for a failover.
\<close>

definition point_of :: "dr_vm_config \<Rightarrow> point \<Rightarrow> bool" where
  "point_of w p \<longleftrightarrow> \<not> p_expired p \<and> p_vm_name p = wl_name w \<and>
     (wl_source_platform w = [] \<or> p_platform p = wl_source_platform w)"

definition failover_ready :: "config \<Rightarrow> db \<Rightarrow> db \<Rightarrow> dr_vm_config \<Rightarrow> (string \<times> json) list \<Rightarrow> bool" where
  "failover_ready cfg d d' w row \<longleftrightarrow>
     (\<exists>p c src dst dt n. p \<in> set (recovery_points d) \<and> point_of w p \<and>
        (\<forall>p'\<in>set (recovery_points d). point_of w p' \<longrightarrow> p_created_at p' \<le> p_created_at p) \<and>
        p_verified p \<and> \<not> p_suspicious p \<and>
        get_recovery_copy (p_snapshot_id p, dr_replica (dr cfg)) d = Some c \<and> c_status c = ''success'' \<and>
        src \<in> set (platforms cfg) \<and> pl_name src = wl_source_platform w \<and>
        dst \<in> set (platforms cfg) \<and> pl_name dst = wl_target_platform w \<and> pl_type src = pl_type dst \<and>
        fromisoformat (p_created_at p) = Some dt \<and> reads d \<le> n \<and> n < reads d' \<and>
        (clock d n - as_utc dt) div minute_us \<le> rpo_max_minutes (dr cfg) \<and>
        map_of row ''snapshot_id'' = Some (JStr (p_snapshot_id p)))"

lemma found_in: "find P xs = Some x \<Longrightarrow> x \<in> set xs \<and> P x"
  by (auto simp: find_Some_iff)

lemma find_sorted:
  assumes "sorted_wrt (\<lambda>x y. f y \<le> f x) xs" "find P xs = Some (x :: 'a)" "y \<in> set xs" "P y"
  shows "(f y :: 'b :: linorder) \<le> f x"
  using assms by (induction xs) (auto split: if_splits)

lemma sort_desc_wrt: "sorted_wrt (\<lambda>x y. k y \<le> k x) (sort_desc k xs)"
proof -
  have "sorted_wrt (\<lambda>x y. k x \<le> k y) (sort_key k (rev xs))" using sorted_sort_key [of k "rev xs"] by (simp only: sorted_map)
  then show ?thesis by (simp only: sort_desc_def sorted_wrt_rev)
qed

lemma find_take: "find P (take n xs) = Some x \<Longrightarrow> find P xs = Some x"
proof (induction xs arbitrary: n)
  case (Cons y xs)
  then show ?case by (cases n) (auto split: if_splits)
qed simp

lemma workload_point_newest:
  assumes "workload_point w d = Some p"
  shows "p \<in> set (recovery_points d)" "point_of w p"
    "\<And>p'. p' \<in> set (recovery_points d) \<Longrightarrow> point_of w p' \<Longrightarrow> p_created_at p' \<le> p_created_at p"
proof -
  let ?all = "sort_desc p_created_at
      (filter (\<lambda>p. opt_match (Some (wl_source_platform w)) (p_platform p) \<and> opt_match None (p_vm_id p)) (live_points d))"
  have eq: "point_of w p' \<and> p' \<in> set (recovery_points d) \<longleftrightarrow> p' \<in> set ?all \<and> p_vm_name p' = wl_name w" for p'
    by (auto simp: point_of_def live_points_def opt_match_def)
  have found: "find (\<lambda>p. p_vm_name p = wl_name w) ?all = Some p"
    using assms unfolding workload_point_def list_points_def by (rule find_take)
  then show "p \<in> set (recovery_points d)" "point_of w p" using eq found_in [OF found] by blast+
  fix p' assume "p' \<in> set (recovery_points d)" "point_of w p'"
  then have "p' \<in> set ?all" "p_vm_name p' = wl_name w" using eq by blast+
  then show "p_created_at p' \<le> p_created_at p" by (rule find_sorted [OF sort_desc_wrt found])
qed

lemma platform_bind:
  "bind_act (engine_platform cfg n) f s =
     (case find (\<lambda>p. pl_name p = n) (platforms cfg) of
        None \<Rightarrow> (Inl (ValueError (''unknown platform: '' @ n)), s) | Some p \<Rightarrow> f p s)"
  by (simp add: engine_platform_def bind_act_def need_def split: option.split)

lemma rpo_minutes_Inr:
  "rpo_minutes at_text s = (Inr m, t) \<Longrightarrow>
     (\<exists>dt. fromisoformat at_text = Some dt \<and> m = max 0 ((clock (database s) (reads (database s)) - as_utc dt) div minute_us)) \<and>
     reads (database t) = Suc (reads (database s))"
  by (auto simp: rpo_minutes_def bind_Inr need_def call_db_def now_utc_def split: option.splits)

lemma plan_workload_ready:
  assumes "service s u" "plan_workload cfg w u = (Inr (row, errs), v)" "errs = []" "service v t"
  shows "failover_ready cfg (database s) (database t) w row"
proof -
  obtain n where d: "database u = (database s)\<lparr>reads := n\<rparr>" "reads (database s) \<le> n" using assms(1) by (auto simp: service_def)
  have same: "workload_point w (database u) = workload_point w (database s)"
    "\<And>k. get_recovery_copy k (database u) = get_recovery_copy k (database s)" "clock (database u) = clock (database s)"
    by (simp_all add: d workload_point_def list_points_def live_points_def get_recovery_copy_def)
  from assms(2,3) obtain p src dst rpo where
    p: "workload_point w (database u) = Some p" "p_verified p" "\<not> p_suspicious p"
    "copied (get_recovery_copy (p_snapshot_id p, dr_replica (dr cfg)) (database u))"
    and types: "find (\<lambda>p. pl_name p = wl_source_platform w) (platforms cfg) = Some src" "pl_type src = pl_type dst"
    "find (\<lambda>p. pl_name p = wl_target_platform w) (platforms cfg) = Some dst"
    and rpo: "rpo_minutes (p_created_at p) u = (Inr rpo, v)" "rpo \<le> rpo_max_minutes (dr cfg)"
    and row: "map_of row ''snapshot_id'' = Some (JStr (p_snapshot_id p))"
    by (auto simp: plan_workload_def Let_def platform_bind bind_Inr split: option.splits if_splits)
  from rpo_minutes_Inr [OF rpo(1)] rpo(2) obtain dt where dt: "fromisoformat (p_created_at p) = Some dt"
    "(clock (database s) (reads (database u)) - as_utc dt) div minute_us \<le> rpo_max_minutes (dr cfg)"
    by (auto simp: same)
  have n: "reads (database s) \<le> reads (database u)" "reads (database u) < reads (database t)"
    using d rpo_minutes_Inr [OF rpo(1)] assms(4) by (auto simp: service_def)
  from p(4) obtain c where "get_recovery_copy (p_snapshot_id p, dr_replica (dr cfg)) (database s) = Some c"
    "c_status c = ''success''"
    by (auto simp: copied_def same split: option.splits)
  with p dt row types found_in [OF types(1)] found_in [OF types(3)] n workload_point_newest [OF p(1) [unfolded same]]
  show ?thesis
    unfolding failover_ready_def same
    by (intro exI [of _ p] exI [of _ c] exI [of _ src] exI [of _ dst] exI [of _ dt] exI [of _ "reads (database u)"]) simp
qed

lemma each_between:
  assumes "each f xs s = (Inr ys, t)" "\<And>x. steps service (f x)"
    "\<And>x u y v. service s u \<Longrightarrow> f x u = (Inr y, v) \<Longrightarrow> service v t \<Longrightarrow> P x y"
  shows "list_all2 P xs ys"
  using assms(1,3)
proof (induction xs arbitrary: ys s)
  case (Cons x xs)
  from Cons.prems(1) obtain y u zs where *: "f x s = (Inr y, u)" "each f xs u = (Inr zs, t)" "ys = y # zs"
    by (auto simp: bind_Inr)
  have "service s u" "service u t" using stepsD [OF assms(2) *(1)] stepsD [OF service.steps_each *(2)] assms(2) by blast+
  have "list_all2 P xs zs"
    by (rule Cons.IH [OF *(2)]) (rule Cons.prems(2) [OF service.R_trans [OF \<open>service s u\<close>]])
  moreover have "P x y" by (rule Cons.prems(2) [OF service.R_refl *(1) \<open>service u t\<close>])
  ultimately show ?case by (simp add: *(3))
qed simp

lemma ready_plan:
  assumes "make_plan cfg s = (Inr p, t)" "dp_errors p = []"
  shows "list_all2 (failover_ready cfg (database s) (database t)) (sorted_workloads cfg) (dp_rows p) \<and> service s t \<and>
    dr_enabled (dr cfg)"
proof -
  obtain rows where rows: "each (plan_workload cfg) (sorted_workloads cfg) s = (Inr rows, t)" "dr_enabled (dr cfg)"
    "dp_rows p = map fst rows" "dp_errors p = concat (map snd rows)"
    using assms(1) by (auto simp: make_plan_def dr_required_def bind_Inr lift_res_def split: if_splits)
  have "list_all2 (\<lambda>w r. snd r = [] \<longrightarrow> failover_ready cfg (database s) (database t) w (fst r)) (sorted_workloads cfg) rows"
    using rows(1) service_plan_workload
    by (rule each_between) (metis plan_workload_ready prod.collapse)
  with rows(3,4) assms(2) have "list_all2 (failover_ready cfg (database s) (database t)) (sorted_workloads cfg) (dp_rows p)"
    by (auto simp: list_all2_conv_all_nth)
  moreover have "service s t" using stepsD [OF service.steps_each rows(1)] service_plan_workload by blast
  ultimately show ?thesis using rows(2) by blast
qed

section \<open>Claims\<close>

text \<open>C24. A plan without errors is built only from the catalog as it is and lists one row per workload in boot
  order. For each workload the catalog has a live recovery point of the machine of that name (on the source
  platform) such that no other live point of it has a later text as time of creation; that point is verified,
  not flagged, copied with success to the disaster-recovery replica, and no older than the configured limit
  at one of the readings of the clock made for this plan; source and target platform are configured and of
  the same family; and the row carries the id of that point.\<close>

theorem ready_plan_is_safe:
  assumes "make_plan cfg s = (Inr p, t)" "dp_errors p = []"
  shows "list_all2 (failover_ready cfg (database s) (database t)) (sorted_workloads cfg) (dp_rows p) \<and> service s t \<and>
    dr_enabled (dr cfg)"
  using assms by (rule ready_plan)

definition sample_workload :: dr_vm_config where
  "sample_workload = \<lparr>wl_name = ''db'', wl_source_platform = ''vsphere'', wl_target_platform = ''vsphere-dr'',
     wl_boot_order = 10, wl_target_name = None, wl_health_checks = [], wl_restore_options = []\<rparr>"

definition failover_config :: config where
  "failover_config = sample_config\<lparr>
     platforms := [default_platform ''vsphere'' ''vmware'' ''https://vc'', default_platform ''vsphere-dr'' ''vmware'' ''https://dr''],
     replicas := [default_replica ''far''],
     dr := sample_pair\<lparr>dr_replica := ''far'', workloads := [sample_workload]\<rparr>\<rparr>"

definition failover_sys :: sys where
  "failover_sys = \<lparr>database = (create_schema (\<lambda>n. day_us))
     \<lparr>recovery_points := [(sample_point ''s2'' ''db'' 0 (2 * day_us))\<lparr>p_verified := True\<rparr>],
      recovery_copies := [\<lparr>c_snapshot_id = ''s2'', c_target_name = ''far'', c_backend = ''rest'', c_provider = None,
        c_repository = ''rest:https://far/'', c_status = ''success'', c_copied_at = None, c_verified = False,
        c_verified_at = None, c_immutable_until = None, c_object_lock = None, c_error = None\<rparr>]\<rparr>, trace = [], memory = []\<rparr>"

text \<open>The same with an older point, which is not verified.\<close>

definition plan_sys :: sys where
  "plan_sys = failover_sys\<lparr>database := (database failover_sys)\<lparr>recovery_points :=
     [sample_point ''s1'' ''db'' 0 (2 * day_us), (sample_point ''s2'' ''db'' day_us (2 * day_us))\<lparr>p_verified := True\<rparr>]\<rparr>\<rparr>"

lemma sample_plan: "\<exists>p t. make_plan failover_config plan_sys = (Inr p, t) \<and> dp_errors p = []"
proof -
  have "in_calendar day_us" "in_calendar 0" by (simp_all add: in_calendar_def day_us_def)
  then have "fromisoformat (isoformat day_us) = Some (day_us, Some 0)" "\<not> isoformat day_us \<le> isoformat 0"
    by (simp_all add: fromisoformat_isoformat isoformat_less not_le day_us_def)
  then show ?thesis
    by (simp add: make_plan_def dr_required_def failover_config_def plan_sys_def failover_sys_def sample_config_def sample_pair_def
        default_config_def sample_workload_def sorted_workloads_def plan_workload_def Let_def bind_act_def then_act_def
        workload_point_def list_points_def live_points_def create_schema_def sample_point_def opt_match_def sort_desc_def
        platform_bind default_platform_def get_recovery_copy_def copy_key_def row_by_def copied_def rpo_minutes_def
        call_db_def now_utc_def as_utc_def minute_us_def day_us_def default_dr_def gateway_plan_def site_by_def
        peer_of_def sample_gateway_def lift_res_def need_def ret_def check_run engine_platform_def)
qed

lemma ready_plan_is_safe_witness:
  "\<exists>p t. make_plan failover_config plan_sys = (Inr p, t) \<and> dp_rows p \<noteq> [] \<and>
     list_all2 (failover_ready failover_config (database plan_sys) (database t)) (sorted_workloads failover_config) (dp_rows p)"
proof -
  obtain p t where "make_plan failover_config plan_sys = (Inr p, t)" "dp_errors p = []" using sample_plan by blast
  note claim = ready_plan_is_safe [OF this]
  have "sorted_workloads failover_config \<noteq> []"
    by (simp add: sorted_workloads_def failover_config_def sample_workload_def)
  with claim \<open>make_plan failover_config plan_sys = (Inr p, t)\<close> show ?thesis by auto
qed

end
