(* ===== verification/Dr_Failover.thy ===== *)
theory Dr_Failover
  imports Dr_Plan
begin

text \<open>
  The second half of \<open>DROrchestrator\<close> (\<open>dr.py\<close>): fencing, failover, demotion, failback and the
  watchdog that may start a failover by itself. A loop whose body may raise after part of its work is
  \<open>gather\<close>: the results so far and the exception that ended it, as the handlers need both. The
  orchestrator is modelled over the engine's own \<open>execute_restore\<close> and \<open>_backup_vm\<close>.
\<close>

section \<open>Actions that may fail half way\<close>

definition attempt :: "'a act \<Rightarrow> 'a res act" where
  "attempt m = catch (bind_act m (\<lambda>x. ret (Inr x))) (\<lambda>e. ret (Inl e))"

primrec gather :: "('a \<Rightarrow> 'b act) \<Rightarrow> 'a list \<Rightarrow> ('b list \<times> exc option) act" where
  "gather f [] = ret ([], None)"
| "gather f (x # xs) =
     bind_act (attempt (f x)) (\<lambda>r. case r of
        Inl e \<Rightarrow> ret ([], Some e)
      | Inr y \<Rightarrow> bind_act (gather f xs) (\<lambda>(ys, e). ret (y # ys, e)))"

section \<open>Fencing\<close>

definition run_fence_command :: "env \<Rightarrow> string option \<Rightarrow> string \<Rightarrow> unit act" where
  "run_fence_command E env_name label =
     then_act (check (opt_nonempty env_name) (RuntimeError (label @ '' command environment variable is not configured'')))
    (let name = the env_name; command = getenv E name
     in then_act (check (opt_nonempty command)
          (RuntimeError (label @ '' command environment variable '' @ name @ '' is empty'')))
       (bind_act (lift_res (shlex_split (the command))) (\<lambda>words.
        bind_act (run_command E words [] False) (\<lambda>(code, out, err).
          check (code = 0) (RuntimeError (label @ '' command failed: '' @ strip whitespace err))))))"

definition fence_primary :: "env \<Rightarrow> config \<Rightarrow> bool \<Rightarrow> bool \<Rightarrow> unit act" where
  "fence_primary E cfg manual_confirmed automatic =
     (let f = fence (dr cfg);
          log_fence = (\<lambda>mode. change (audit ''dr-orchestrator'' ''dr.fence'' ''site'' (primary_site (dr cfg))
            (JObj [(''mode'', JStr mode)])))
      in if fn_mode f = ''command''
         then then_act (run_fence_command E (fn_command_env f) ''primary fence'')
           (then_act (when_act (opt_nonempty (fn_verify_command_env f))
               (run_fence_command E (fn_verify_command_env f) ''primary fence verification''))
             (log_fence ''command''))
         else then_act (check (\<not> automatic)
             (RuntimeError ''automatic DR promotion requires fence.mode=command; manual fencing cannot safely auto-failover''))
           (then_act (check manual_confirmed
             (RuntimeError ''promotion requires --confirm-primary-fenced after the primary workloads/network have been isolated''))
             (log_fence ''manual-confirmation'')))"

section \<open>Workload health\<close>

text \<open>Up to \<open>n\<close> further attempts, the next one numbered \<open>k\<close>.\<close>

primrec wait_attempts ::
  "env \<Rightarrow> health_check_config list \<Rightarrow> nat \<Rightarrow> nat \<Rightarrow> nat \<Rightarrow> (bool \<times> (string \<times> json) list) act" where
  "wait_attempts E cs interval 0 k = ret (False, [(''ok'', JBool False), (''checks'', JList [])])"
| "wait_attempts E cs interval (Suc n) k =
     bind_act (run_health_checks E cs) (\<lambda>rs.
       let latest = (list_all passed rs, checks_json rs @ [(''attempt'', JInt (int k))])
       in if list_all passed rs then ret latest
          else if n = 0 then ret latest
          else then_act (ask (done_reply E) (Sleep interval)) (wait_attempts E cs interval n (Suc k)))"

definition wait_workload_health :: "env \<Rightarrow> dr_vm_config \<Rightarrow> (bool \<times> (string \<times> json) list) act" where
  "wait_workload_health E w =
     (if wl_health_checks w = []
      then ret (True, [(''ok'', JBool True), (''checks'', JList []), (''note'', JStr ''no workload health checks configured'')])
      else wait_attempts E (wl_health_checks w) (nat (Min (set (map hc_interval_seconds (wl_health_checks w)))))
             (nat (Max (set (map hc_attempts (wl_health_checks w))))) 1)"

definition already_failed_over :: "db \<Rightarrow> bool" where
  "already_failed_over d =
     (case latest_dr_run (Some ''failover'') (Some ''success'') d of
        None \<Rightarrow> False
      | Some failover \<Rightarrow>
          (case latest_dr_run (Some ''failback'') (Some ''success'') d of
             None \<Rightarrow> True
           | Some failback \<Rightarrow> d_started_at failback < d_started_at failover))"

section \<open>Failover\<close>

text \<open>A machine that was restored: its workload, its platform and what the restore returned.\<close>

type_synonym restored = "dr_vm_config \<times> platform_config \<times> json"

definition power_on :: "env \<Rightarrow> platform_config \<Rightarrow> json \<Rightarrow> unit act" where
  "power_on E pl result = ask (done_reply E) (Adapter (pl_name pl) (PowerOn result))"

definition power_off :: "env \<Rightarrow> platform_config \<Rightarrow> json \<Rightarrow> unit act" where
  "power_off E pl result = ask (done_reply E) (Adapter (pl_name pl) (PowerOff result))"

definition result_fields :: "json \<Rightarrow> (string \<times> json) list" where
  "result_fields r = (case r of JObj kvs \<Rightarrow> kvs | _ \<Rightarrow> [])"

text \<open>The target name given to a machine, and the snapshot its row names.\<close>

definition failover_name :: "string \<Rightarrow> dr_vm_config \<Rightarrow> string" where
  "failover_name now w = text_or (wl_target_name w) (wl_name w @ ''-dr-'' @ now)"

definition row_snapshot :: "(string \<times> json) list \<Rightarrow> string res" where
  "row_snapshot row =
     (case map_of row ''snapshot_id'' of Some v \<Rightarrow> Inr (py_str v) | None \<Rightarrow> Inl (KeyError ''snapshot_id''))"

definition restore_workload ::
  "env \<Rightarrow> config \<Rightarrow> nat \<Rightarrow> string \<Rightarrow> dr_vm_config \<times> (string \<times> json) list \<Rightarrow> restored act" where
  "restore_workload E cfg run_id now p =
     (case p of (w, row) \<Rightarrow>
        bind_act (lift_res (row_snapshot row)) (\<lambda>sid.
        bind_act (query (get_point sid)) (\<lambda>found.
        bind_act (need found (AssertionError [])) (\<lambda>point.
        let target_name = failover_name now w;
            options = put_key ''source_repository'' (JStr (dr_replica (dr cfg))) (wl_restore_options w)
        in bind_act (call_db (create_restore_request ''dr-orchestrator'' point (wl_target_platform w) target_name
               options ''ready'')) (\<lambda>rid.
           bind_act (execute_restore E cfg rid ''dr-orchestrator'' False) (\<lambda>result.
           bind_act (engine_platform cfg (wl_target_platform w)) (\<lambda>pl.
           then_act (build_adapter pl)
             (bind_act (call_db (add_dr_workload run_id (wl_name w) (wl_source_platform w) (wl_target_platform w)
                 ''restored'' (Some sid) (Some target_name) (result_fields result) None)) (\<lambda>_.
              ret (w, pl, result))))))))))"

text \<open>Power on one restored machine and wait for it; \<open>purpose\<close> starts the message of a failure.\<close>

definition start_workload :: "env \<Rightarrow> string \<Rightarrow> restored \<Rightarrow> (string \<times> json) act" where
  "start_workload E purpose x =
     (case x of (w, pl, result) \<Rightarrow>
        then_act (power_on E pl result)
       (bind_act (wait_workload_health E w) (\<lambda>(ok, health).
        then_act (check ok (RuntimeError (purpose @ '' workload '' @ wl_name w @ '' failed health checks'')))
          (ret (wl_name w, JObj health)))))"

definition names_json :: "restored list \<Rightarrow> json" where
  "names_json xs = JList (map (\<lambda>x. JStr (wl_name (fst x))) xs)"

text \<open>Everything after the machines are restored, up to the returned details.\<close>

definition complete_failover :: "env \<Rightarrow> config \<Rightarrow> nat \<Rightarrow> restored list \<Rightarrow> (string \<times> json) list act" where
  "complete_failover E cfg run_id restored =
     then_act (gateway_activate E (dr cfg) (dr_site (dr cfg)) False)
    (bind_act (each (start_workload E ''DR'') restored) (\<lambda>health.
     let details = [(''replica'', JStr (dr_replica (dr cfg))), (''health'', JObj (dict_of health)),
                    (''workloads'', names_json restored)]
     in then_act (change (finish_dr_run run_id True details None))
       (then_act (change (audit ''dr-orchestrator'' ''dr.failover.complete'' ''dr_run'' (show_nat run_id) (JObj details)))
         (ret ([(''status'', JStr ''success''), (''run_id'', JInt (int run_id))] @ details)))))"

text \<open>The \<open>try\<close> block: the machines restored so far, and the details or the exception.\<close>

definition failover_body ::
  "env \<Rightarrow> config \<Rightarrow> dr_plan \<Rightarrow> nat \<Rightarrow> (restored list \<times> (string \<times> json) list res) act" where
  "failover_body E cfg p run_id =
     bind_act (attempt (then_act (gateway_prepare E (dr cfg) (dr_site (dr cfg)))
       (then_act (gateway_deactivate E (dr cfg) (primary_site (dr cfg)) False True) (call_db now_utc)))) (\<lambda>begun.
     case begun of
       Inl e \<Rightarrow> ret ([], Inl e)
     | Inr now \<Rightarrow>
         bind_act (gather (restore_workload E cfg run_id (stamp now)) (zip (sorted_workloads cfg) (dp_rows p)))
           (\<lambda>(restored, failure).
            case failure of
              Some e \<Rightarrow> ret (restored, Inl e)
            | None \<Rightarrow> bind_act (attempt (complete_failover E cfg run_id restored)) (\<lambda>r. ret (restored, r))))"

text \<open>The handler: withdraw the gateway, power the restored machines off, close the run as failed. An
  exception of the gateway call itself skips the rest.\<close>

definition undo_failover :: "env \<Rightarrow> config \<Rightarrow> nat \<Rightarrow> restored list \<Rightarrow> exc \<Rightarrow> unit act" where
  "undo_failover E cfg run_id restored e =
     then_act (gateway_deactivate E (dr cfg) (dr_site (dr cfg)) False True)
    (then_act (each (\<lambda>(w, pl, result). catch (power_off E pl result) (\<lambda>_. ret ())) (rev restored))
    (then_act (change (finish_dr_run run_id False [(''restored'', names_json restored)] (Some (exc_msg e))))
      (change (audit ''dr-orchestrator'' ''dr.failover.failed'' ''dr_run'' (show_nat run_id)
        (JObj [(''error'', JStr (exc_msg e))])))))"

definition fail_over :: "env \<Rightarrow> config \<Rightarrow> dr_plan \<Rightarrow> (string \<times> json) list act" where
  "fail_over E cfg p =
     bind_act (call_db (create_dr_run ''failover'' (primary_site (dr cfg)) (dr_site (dr cfg))
       [(''replica'', JStr (dr_replica (dr cfg)))])) (\<lambda>run_id.
     bind_act (failover_body E cfg p run_id) (\<lambda>(restored, r).
       case r of
         Inr details \<Rightarrow> ret details
       | Inl e \<Rightarrow> then_act (undo_failover E cfg run_id restored e) (throw e)))"

definition promote :: "env \<Rightarrow> config \<Rightarrow> bool \<Rightarrow> bool \<Rightarrow> bool \<Rightarrow> (string \<times> json) list act" where
  "promote E cfg execute confirm_primary_fenced automatic =
     then_act (dr_required cfg)
    (bind_act (make_plan cfg) (\<lambda>p.
     if \<not> execute then ret ((''mode'', JStr ''plan'') # plan_json cfg p)
     else bind_act (query already_failed_over) (\<lambda>active.
       if active
       then ret [(''status'', JStr ''already-failed-over''),
                 (''message'', JStr ''a successful DR failover is already active; fail back or demote it before promoting again'')]
       else then_act (check (dp_errors p = []) (RuntimeError (''DR promotion blocked: '' @ join ''; '' (dp_errors p))))
         (bind_act (dr_preflight E cfg (Some p)) (\<lambda>(problems, details).
          then_act (check (problems = [])
            (RuntimeError (''DR promotion preflight failed before fencing primary: '' @ join ''; '' problems)))
         (then_act (fence_primary E cfg confirm_primary_fenced automatic)
           (fail_over E cfg p)))))))"

section \<open>Demotion and failback\<close>

definition workload_row_json :: "dr_workload \<Rightarrow> json" where
  "workload_row_json w =
     JObj [(''id'', JInt (int (w_id w))), (''run_id'', JInt (int (w_run_id w))), (''workload_name'', JStr (w_workload_name w)),
       (''snapshot_id'', opt_json (w_snapshot_id w)), (''source_platform'', JStr (w_source_platform w)),
       (''target_platform'', JStr (w_target_platform w)), (''target_name'', opt_json (w_target_name w)),
       (''status'', JStr (w_status w)), (''error'', opt_json (w_error w)),
       (''result'', or_else (w_result w) (JObj []))]"

definition workload_result :: "dr_workload \<Rightarrow> json" where
  "workload_result w = or_else (w_result w) (JObj [])"

text \<open>\<open>{x.name: x for x in self.cfg.workloads}\<close>.\<close>

definition workload_named :: "config \<Rightarrow> string \<Rightarrow> dr_vm_config option" where
  "workload_named cfg n = find (\<lambda>w. wl_name w = n) (rev (workloads (dr cfg)))"

definition power_off_on :: "env \<Rightarrow> config \<Rightarrow> string \<Rightarrow> json \<Rightarrow> unit act" where
  "power_off_on E cfg platform result =
     bind_act (engine_platform cfg platform) (\<lambda>pl. then_act (build_adapter pl) (power_off E pl result))"

definition demote_dr :: "env \<Rightarrow> config \<Rightarrow> bool \<Rightarrow> (string \<times> json) list act" where
  "demote_dr E cfg execute =
     then_act (dr_required cfg)
    (bind_act (query (latest_dr_run (Some ''failover'') (Some ''success''))) (\<lambda>found.
     case found of
       None \<Rightarrow> ret [(''status'', JStr ''nothing-to-demote'')]
     | Some latest \<Rightarrow>
         bind_act (query (list_dr_workloads (d_id latest))) (\<lambda>rows.
         bind_act (gateway_deactivate E (dr cfg) (dr_site (dr cfg)) True False) (\<lambda>network.
         let plan = [(''run_id'', JInt (int (d_id latest))), (''workloads'', JList (map workload_row_json rows)),
                     (''network'', JObj network)]
         in if \<not> execute then ret ((''mode'', JStr ''plan'') # plan)
            else then_act (gateway_deactivate E (dr cfg) (dr_site (dr cfg)) False False)
              (then_act (each (\<lambda>row. case workload_named cfg (w_workload_name row) of
                   None \<Rightarrow> ret ()
                 | Some w \<Rightarrow> power_off_on E cfg (wl_target_platform w) (workload_result row)) (rev rows))
              (then_act (change (audit ''dr-orchestrator'' ''dr.demote'' ''site'' (dr_site (dr cfg))
                  (JObj [(''failover_run'', JInt (int (d_id latest)))])))
                (ret ((''status'', JStr ''demoted'') # plan))))))))"

text \<open>The workload of a row of the failover run.\<close>

definition row_workload :: "config \<Rightarrow> dr_workload \<Rightarrow> dr_vm_config act" where
  "row_workload cfg row = need (workload_named cfg (w_workload_name row)) (KeyError (w_workload_name row))"

text \<open>The final backup of one machine at the disaster-recovery site, taken with an adapter that includes
  every machine: its workload's name and the snapshot.\<close>

definition final_backup :: "env \<Rightarrow> config \<Rightarrow> dr_workload \<Rightarrow> (string \<times> string) act" where
  "final_backup E cfg row =
     bind_act (row_workload cfg row) (\<lambda>w.
     bind_act (engine_platform cfg (wl_target_platform w)) (\<lambda>pl.
     then_act (build_adapter pl)
    (bind_act (adapter_inventory E (pl\<lparr>pl_include := [''*''], pl_exclude := []\<rparr>)) (\<lambda>vms.
     bind_act (need (find (\<lambda>v. Some (v_name v) = w_target_name row) vms)
       (RuntimeError (''cannot find active DR VM '' @ text_or (w_target_name row) ''None'' @ '' for final failback backup''))) (\<lambda>v.
     bind_act (platform_info_or_error E pl) (\<lambda>info.
     bind_act (backup_vm E cfg pl v info False) (\<lambda>result.
     then_act (check (map_of result ''status'' = Some (JStr ''success''))
       (RuntimeError (''final backup failed for '' @ wl_name w @ '': ''
          @ py_str (case map_of result ''error'' of None \<Rightarrow> JNull | Some v \<Rightarrow> v))))
    (bind_act (need (map_of result ''snapshot'') (KeyError ''snapshot'')) (\<lambda>sid.
       ret (wl_name w, py_str sid))))))))))"

definition restore_home ::
  "env \<Rightarrow> config \<Rightarrow> nat \<Rightarrow> string \<Rightarrow> (string \<times> string) list \<Rightarrow> dr_vm_config \<Rightarrow> restored act" where
  "restore_home E cfg run_id now final_points w =
     bind_act (need (map_of (rev final_points) (wl_name w)) (KeyError (wl_name w))) (\<lambda>sid.
     bind_act (query (get_point sid)) (\<lambda>found.
     bind_act (need found (AssertionError [])) (\<lambda>point.
     let target_name = wl_name w @ ''-failback-'' @ now
     in bind_act (call_db (create_restore_request ''dr-orchestrator'' point (wl_source_platform w) target_name
            (wl_restore_options w) ''ready'')) (\<lambda>rid.
        bind_act (execute_restore E cfg rid ''dr-orchestrator'' False) (\<lambda>result.
        bind_act (engine_platform cfg (wl_source_platform w)) (\<lambda>pl.
        then_act (build_adapter pl)
          (bind_act (call_db (add_dr_workload run_id (wl_name w) (wl_target_platform w) (wl_source_platform w)
              ''restored'' (Some (p_snapshot_id point)) (Some target_name) (result_fields result) None)) (\<lambda>_.
             ret (w, pl, result)))))))))"

definition failback_body ::
  "env \<Rightarrow> config \<Rightarrow> dr_run \<Rightarrow> dr_workload list \<Rightarrow> nat \<Rightarrow> (string \<times> json) list act" where
  "failback_body E cfg latest rows run_id =
     then_act (gateway_prepare E (dr cfg) (primary_site (dr cfg)))
    (then_act (gateway_deactivate E (dr cfg) (primary_site (dr cfg)) False False)
    (bind_act (each (final_backup E cfg) rows) (\<lambda>final_points.
     bind_act (call_db now_utc) (\<lambda>now.
     bind_act (each (restore_home E cfg run_id (stamp now) final_points) (sorted_workloads cfg)) (\<lambda>restored.
     then_act (gateway_deactivate E (dr cfg) (dr_site (dr cfg)) False False)
    (then_act (each (\<lambda>row. bind_act (row_workload cfg row) (\<lambda>w.
         power_off_on E cfg (wl_target_platform w) (workload_result row))) (rev rows))
    (then_act (gateway_activate E (dr cfg) (primary_site (dr cfg)) False)
    (bind_act (each (start_workload E ''failback'') restored) (\<lambda>health.
     let details = [(''source_failover_run'', JInt (int (d_id latest))), (''health'', JObj (dict_of health)),
                    (''final_snapshots'', JObj (map (\<lambda>(n, sid). (n, JStr sid)) (dict_of final_points)))]
     in then_act (change (finish_dr_run run_id True details None))
       (then_act (change (audit ''dr-orchestrator'' ''dr.failback.complete'' ''dr_run'' (show_nat run_id) (JObj details)))
         (ret ([(''status'', JStr ''success''), (''run_id'', JInt (int run_id))] @ details)))))))))))) "

definition failback :: "env \<Rightarrow> config \<Rightarrow> bool \<Rightarrow> bool \<Rightarrow> (string \<times> json) list act" where
  "failback E cfg execute confirm_primary_isolated =
     then_act (dr_required cfg)
    (bind_act (query (latest_dr_run (Some ''failover'') (Some ''success''))) (\<lambda>found.
     bind_act (query already_failed_over) (\<lambda>active.
     case found of
       None \<Rightarrow> ret [(''status'', JStr ''no-active-failover'')]
     | Some latest \<Rightarrow>
         if \<not> active then ret [(''status'', JStr ''no-active-failover'')]
         else bind_act (query (list_dr_workloads (d_id latest))) (\<lambda>rows.
           if \<not> execute
           then ret [(''mode'', JStr ''plan''), (''source_run'', JInt (int (d_id latest))),
                     (''workloads'', JList (map workload_row_json rows)), (''target_site'', JStr (primary_site (dr cfg))),
                     (''note'', JStr ''final DR backups are taken, restored powered-off to primary, DR route/workloads are withdrawn, then primary route/workloads are activated'')]
           else then_act (check confirm_primary_isolated
               (RuntimeError ''failback requires --confirm-primary-isolated: original primary workloads must be powered off/isolated before same-IP recovery''))
             (bind_act (call_db (create_dr_run ''failback'' (dr_site (dr cfg)) (primary_site (dr cfg))
                 [(''source_failover_run'', JInt (int (d_id latest)))])) (\<lambda>run_id.
              catch (failback_body E cfg latest rows run_id)
                (\<lambda>e. then_act (change (finish_dr_run run_id False [] (Some (exc_msg e))))
                  (then_act (change (audit ''dr-orchestrator'' ''dr.failback.failed'' ''dr_run'' (show_nat run_id)
                     (JObj [(''error'', JStr (exc_msg e))])))
                    (throw e))))))))) "

section \<open>The watchdog\<close>

definition health_row_json :: "health_row \<Rightarrow> json" where
  "health_row_json h =
     JObj [(''name'', JStr (h_name h)), (''checked_at'', JStr (h_checked_at h)), (''healthy'', JInt (if h_healthy h then 1 else 0)),
       (''consecutive_failures'', JInt (int (h_consecutive_failures h))), (''detail'', or_else (h_detail h) (JObj []))]"

definition health_state_json :: "health_row \<Rightarrow> json" where
  "health_state_json h =
     JObj [(''name'', JStr (h_name h)), (''healthy'', JBool (h_healthy h)),
       (''consecutive_failures'', JInt (int (h_consecutive_failures h))), (''checked_at'', JStr (h_checked_at h)),
       (''detail'', or_else (h_detail h) (JObj []))]"

text \<open>The age in microseconds of the previous check when it is younger than the configured interval.\<close>

definition not_due :: "config \<Rightarrow> health_row option \<Rightarrow> int option act" where
  "not_due cfg previous =
     (case previous of
        None \<Rightarrow> ret None
      | Some h \<Rightarrow>
          if \<not> 60 < check_interval_seconds (dr cfg) \<or> h_checked_at h = [] then ret None
          else (case fromisoformat (h_checked_at h) of
              None \<Rightarrow> ret None
            | Some dt \<Rightarrow> bind_act (call_db now_utc) (\<lambda>now.
                let age = now - as_utc dt
                in ret (if age < check_interval_seconds (dr cfg) * second_us then Some age else None))))"

definition required_failures :: "config \<Rightarrow> nat \<Rightarrow> int" where
  "required_failures cfg n =
     (if primary_failure_quorum (dr cfg) \<noteq> 0 then primary_failure_quorum (dr cfg) else max 1 (int n))"

text \<open>One evaluation of the probes: the stored counter row, whether the site counts as healthy, and the result
  built so far.\<close>

definition observe_primary :: "env \<Rightarrow> config \<Rightarrow> (health_row \<times> bool \<times> (string \<times> json) list) act" where
  "observe_primary E cfg =
     bind_act (run_health_checks E (primary_probes (dr cfg))) (\<lambda>rs.
     let failed = int (length (filter (\<lambda>r. \<not> passed r) rs));
         required = required_failures cfg (length rs);
         healthy = (failed < required);
         detail = checks_json rs @ [(''failed_probes'', JInt failed), (''failure_quorum'', JInt required),
           (''site_healthy'', JBool healthy)]
     in bind_act (call_db (update_dr_health ''primary-site'' healthy detail)) (\<lambda>st.
          ret (st, healthy, [(''health'', health_state_json st), (''probes'', JObj detail),
             (''auto_failover'', JBool (auto_failover (dr cfg))), (''threshold'', JInt (failure_threshold (dr cfg))),
             (''check_interval_seconds'', JInt (check_interval_seconds (dr cfg)))])))"

definition watch :: "env \<Rightarrow> config \<Rightarrow> (string \<times> json) list act" where
  "watch E cfg =
     then_act (dr_required cfg)
    (bind_act (ask (bool_reply E) (PathExists (norm_path (maintenance_file (dr cfg))))) (\<lambda>suspended.
     if suspended
     then ret [(''maintenance'', JBool True), (''maintenance_file'', JStr (maintenance_file (dr cfg))),
               (''auto_failover'', JBool (auto_failover (dr cfg))), (''action'', JStr ''suppressed-maintenance'')]
     else bind_act (query (get_dr_health ''primary-site'')) (\<lambda>previous.
       bind_act (not_due cfg previous) (\<lambda>young.
       case young of
         Some age \<Rightarrow> ret [(''action'', JStr ''interval-not-due''),
           (''next_check_in_seconds'', JInt (max 1 ((check_interval_seconds (dr cfg) * second_us - age) div second_us))),
           (''health'', case previous of None \<Rightarrow> JNull | Some h \<Rightarrow> health_row_json h),
           (''auto_failover'', JBool (auto_failover (dr cfg)))]
       | None \<Rightarrow>
           bind_act (observe_primary E cfg) (\<lambda>(st, healthy, result).
             if healthy \<or> int (h_consecutive_failures st) < failure_threshold (dr cfg) \<or> \<not> auto_failover (dr cfg)
             then ret result
             else bind_act (query already_failed_over) (\<lambda>active.
               if active then ret (result @ [(''action'', JStr ''already-failed-over'')])
               else bind_act (promote E cfg True False True) (\<lambda>promoted.
                 ret (result @ [(''action'', JStr ''promoted''), (''promotion'', JObj promoted)]))))))))"

end
