(* ===== verification/Dr_Safety.thy ===== *)
theory Dr_Safety
  imports Dr_Failover Engine_Backup
begin

text \<open>
  Properties of the failover. A machine is restored or powered on only after the primary site was
  fenced; the watchdog fails over only when the probes failed often enough, no maintenance is declared
  and the fencing commands reported success; and a promotion that is refused leaves everything alone.
\<close>

section \<open>Fencing in the history of calls\<close>

text \<open>The command stored in an environment variable ran and returned 0.\<close>

definition command_succeeded :: "env \<Rightarrow> string option \<Rightarrow> call list \<Rightarrow> bool" where
  "command_succeeded E env_name h \<longleftrightarrow>
     (\<exists>name command words xs ys out err. env_name = Some name \<and> getenv E name = Some command \<and>
        shlex_split command = Inr words \<and> h = xs @ Run words [] # ys \<and>
        run_reply E xs (Run words []) = Inr (0, out, err))"

definition fenced :: "env \<Rightarrow> config \<Rightarrow> call list \<Rightarrow> bool" where
  "fenced E cfg h \<longleftrightarrow> fn_mode (fence (dr cfg)) = ''command'' \<and>
     command_succeeded E (fn_command_env (fence (dr cfg))) h \<and>
     (opt_nonempty (fn_verify_command_env (fence (dr cfg))) \<longrightarrow>
        command_succeeded E (fn_verify_command_env (fence (dr cfg))) h)"

text \<open>What must hold before the first machine is touched: fenced by command, or confirmed by an operator.\<close>

definition may_recover :: "env \<Rightarrow> config \<Rightarrow> bool \<Rightarrow> bool \<Rightarrow> call list \<Rightarrow> bool" where
  "may_recover E cfg confirmed automatic h \<longleftrightarrow>
     fenced E cfg h \<or> fn_mode (fence (dr cfg)) \<noteq> ''command'' \<and> confirmed \<and> \<not> automatic"

definition disruptive :: "call \<Rightarrow> bool" where
  "disruptive c \<longleftrightarrow> (case c of Adapter n (RestoreVm a b os) \<Rightarrow> True | Adapter n (PowerOn r) \<Rightarrow> True | _ \<Rightarrow> False)"

definition guarded :: "(call list \<Rightarrow> bool) \<Rightarrow> call list \<Rightarrow> call \<Rightarrow> bool" where
  "guarded P h c \<longleftrightarrow> (disruptive c \<longrightarrow> P h)"

lemma command_succeeded_later: "command_succeeded E n h \<Longrightarrow> command_succeeded E n (h @ ys)"
  unfolding command_succeeded_def by (metis append.assoc append_Cons)

lemma may_recover_later: "may_recover E cfg b a h \<Longrightarrow> may_recover E cfg b a (h @ ys)"
  unfolding may_recover_def fenced_def by (metis command_succeeded_later)

text \<open>Once the condition holds it covers every later call.\<close>

lemma guarded_after:
  assumes "steps (does (\<lambda>h c. True)) m" "P (trace s)" "\<And>h ys. P h \<Longrightarrow> P (h @ ys)"
  shows "does (guarded P) s (snd (m s))"
  using assms by (auto simp: steps_def does_def calls_ok_def guarded_def)

section \<open>Every part only adds calls\<close>

lemma any_service: "steps service m \<Longrightarrow> steps (does (\<lambda>h c. True)) m"
  by (erule service_does) simp

lemma any_ask: "steps (does (\<lambda>h c. True)) (ask f c)"
  by (rule does_ask) simp

lemma any_gateway:
  "steps (does (\<lambda>h c. True)) (gateway_prepare E cfg name)" "steps (does (\<lambda>h c. True)) (gateway_activate E cfg name dry)"
  "steps (does (\<lambda>h c. True)) (gateway_deactivate E cfg name dry tol)"
  unfolding gateway_prepare_def gateway_activate_def gateway_deactivate_def run_script_def
  by (intro does_rules any_ask)+

lemma any_execute: "steps (does (\<lambda>h c. True)) (execute_restore E cfg i actor dry)"
  unfolding execute_restore_def restore_preflight_def import_vm_def build_adapter_def adapter_doctor_def engine_platform_def
  by (intro does_rules any_ask any_service service_capacity service_stage service_rmtree restore_source_service)

lemma any_attempt: "steps (does Q) m \<Longrightarrow> steps (does Q) (attempt m)"
  unfolding attempt_def by (intro does_rules)

lemma any_gather: "(\<And>x. steps (does Q) (f x)) \<Longrightarrow> steps (does Q) (gather f xs)"
  by (induction xs) (auto intro!: does_rules any_attempt)

lemma any_probe: "steps (does (\<lambda>h c. True)) (run_health_checks E cs)"
  unfolding run_health_checks_def run_health_check_def probe_def run_command_def
  by (intro does_rules any_ask)

lemma any_wait: "steps (does (\<lambda>h c. True)) (wait_attempts E cs i n k)"
  by (induction n arbitrary: k) (auto intro!: does_rules any_ask any_probe simp: Let_def)

lemma any_fail_over: "steps (does (\<lambda>h c. True)) (fail_over E cfg p)"
  unfolding fail_over_def failover_body_def undo_failover_def complete_failover_def restore_workload_def start_workload_def
    power_on_def power_off_def wait_workload_health_def build_adapter_def engine_platform_def
  by (intro does_rules any_ask any_gateway any_execute any_attempt any_gather any_wait)

section \<open>Nothing is touched before the fence\<close>

lemma calm_service: "steps service m \<Longrightarrow> steps (does (\<lambda>h c. \<not> disruptive c)) m"
  by (erule service_does) (auto simp: service_call_def disruptive_def split: call.splits adapter_op.splits)

lemma calm_ask: "\<not> disruptive c \<Longrightarrow> steps (does (\<lambda>h c. \<not> disruptive c)) (ask f c)"
  by (rule does_ask)

lemma calm_script: "steps (does (\<lambda>h c. \<not> disruptive c)) (run_script E s script chk)"
  unfolding run_script_def by (intro does_rules calm_ask) (simp add: disruptive_def)

lemma calm_run: "steps (does (\<lambda>h c. \<not> disruptive c)) (run_command E cmd envs chk)"
  unfolding run_command_def by (intro does_rules calm_ask) (simp add: disruptive_def)

lemma calm_plan: "steps (does (\<lambda>h c. \<not> disruptive c)) (make_plan cfg)"
  unfolding make_plan_def dr_required_def by (intro does_rules calm_service service_plan_workload)

lemma calm_preflight: "steps (does (\<lambda>h c. \<not> disruptive c)) (dr_preflight E cfg given)"
  unfolding dr_preflight_def dr_required_def replica_preflight_def target_preflight_def network_preflight_def
    gateway_preflight_def build_adapter_def adapter_doctor_def engine_replica_def engine_platform_def
  by (intro does_rules calm_plan calm_script calm_ask calm_service service_replica_health) (simp add: disruptive_def)

lemma calm_fence: "steps (does (\<lambda>h c. \<not> disruptive c)) (fence_primary E cfg confirmed automatic)"
  unfolding fence_primary_def run_fence_command_def Let_def by (intro does_rules calm_run)

lemma calm_probe: "steps (does (\<lambda>h c. \<not> disruptive c)) (run_health_checks E cs)"
  unfolding run_health_checks_def run_health_check_def probe_def
  by (intro does_rules calm_ask calm_run) (simp_all add: disruptive_def)

lemma guarded_calm:
  assumes "steps (does (\<lambda>h c. \<not> disruptive c)) m"
  shows "does (guarded P) s (snd (m s))"
proof -
  obtain cs where "trace (snd (m s)) = trace s @ cs" "calls_ok (\<lambda>h c. \<not> disruptive c) (trace s) cs"
    using assms by (auto simp: steps_def does_def)
  moreover from this(2) have "calls_ok (guarded P) (trace s) cs"
    by (rule calls_ok_mono) (simp add: guarded_def)
  ultimately show ?thesis by (auto simp: does_def)
qed

lemma guarded_plain: "steps (does (\<lambda>h c. \<not> disruptive c)) m \<Longrightarrow> steps (does (guarded P)) m"
  by (simp add: steps_def guarded_calm)

lemma run_command_Inr:
  "run_command E w [] False s = (Inr x, t) \<Longrightarrow> run_reply E (trace s) (Run w []) = Inr x \<and> trace t = trace s @ [Run w []]"
  by (auto simp: run_command_def bind_Inr ask_def)

text \<open>A fencing command that did not raise succeeded.\<close>

lemma run_fence_Inr:
  assumes "run_fence_command E n label s = (Inr u, t)"
  shows "command_succeeded E n (trace t) \<and> (\<exists>ys. trace t = trace s @ ys)"
proof -
  obtain name command where n: "n = Some name" "getenv E name = Some command"
    using assms by (auto simp: run_fence_command_def opt_nonempty_def Let_def split: option.splits if_splits)
  with assms obtain words where words: "shlex_split command = Inr words"
    by (auto simp: run_fence_command_def Let_def lift_res_def bind_act_def split: sum.splits if_splits)
  with assms n have "bind_act (run_command E words [] False) (\<lambda>(code, out, err).
      check (code = 0) (RuntimeError (label @ '' command failed: '' @ strip whitespace err))) s = (Inr u, t)"
    by (simp add: run_fence_command_def Let_def lift_res_def bind_act_def split: if_splits)
  then obtain out err where "run_command E words [] False s = (Inr (0, out, err), t)"
    by (auto simp: bind_Inr check_def split: if_splits)
  from run_command_Inr [OF this] n words show ?thesis unfolding command_succeeded_def by blast
qed

lemma fence_Inr:
  assumes "fence_primary E cfg confirmed automatic s = (Inr u, t)"
  shows "may_recover E cfg confirmed automatic (trace t)"
proof (cases "fn_mode (fence (dr cfg)) = ''command''")
  case True
  with assms obtain u v where r: "run_fence_command E (fn_command_env (fence (dr cfg))) ''primary fence'' s = (Inr (), u)"
    "when_act (opt_nonempty (fn_verify_command_env (fence (dr cfg))))
       (run_fence_command E (fn_verify_command_env (fence (dr cfg))) ''primary fence verification'') u = (Inr (), v)"
    "trace t = trace v"
    by (auto simp: fence_primary_def then_act_def bind_Inr Let_def)
  have 1: "command_succeeded E (fn_command_env (fence (dr cfg))) (trace u)" using run_fence_Inr [OF r(1)] by blast
  show ?thesis
  proof (cases "opt_nonempty (fn_verify_command_env (fence (dr cfg)))")
    case True
    with r(2) have "run_fence_command E (fn_verify_command_env (fence (dr cfg))) ''primary fence verification'' u = (Inr (), v)"
      by (simp add: when_act_def)
    from run_fence_Inr [OF this] 1 command_succeeded_later show ?thesis
      using \<open>fn_mode (fence (dr cfg)) = ''command''\<close> r(3) by (auto simp: may_recover_def fenced_def)
  next
    case False
    with 1 r show ?thesis
      using \<open>fn_mode (fence (dr cfg)) = ''command''\<close> by (simp add: when_act_def may_recover_def fenced_def)
  qed
next
  case False
  with assms show ?thesis
    by (auto simp: fence_primary_def may_recover_def then_act_def bind_Inr check_def Let_def split: if_splits)
qed

lemma promote_guarded:
  "steps (does (guarded (may_recover E cfg confirmed automatic))) (promote E cfg execute confirmed automatic)"
    (is "steps (does ?G) _")
proof -
  have "does ?G s (snd (then_act (fence_primary E cfg confirmed automatic) (fail_over E cfg p) s))" for s p
  proof (rule does.then_at)
    show "does ?G s (snd (fence_primary E cfg confirmed automatic s))" by (rule guarded_calm) (rule calm_fence)
    show "does ?G t (snd (fail_over E cfg p t))" if "fence_primary E cfg confirmed automatic s = (Inr x, t)" for x t
      using any_fail_over fence_Inr [OF that] may_recover_later by (rule guarded_after)
  qed
  then have recovery: "steps (does ?G) (then_act (fence_primary E cfg confirmed automatic) (fail_over E cfg p))" for p
    by (rule does.stepsI)
  then show ?thesis
    unfolding promote_def dr_required_def
    by (intro recovery guarded_plain [OF calm_plan] guarded_plain [OF calm_preflight] does_rules)
qed

section \<open>What a failover leaves alone\<close>

lemma kept_lift: "steps (kept f) (lift_res r)"
  by (simp add: steps_def kept_def lift_res_def)

lemma kept_gateway:
  "steps (kept f) (gateway_prepare E cfg name)" "steps (kept f) (gateway_activate E cfg name dry)"
  "steps (kept f) (gateway_deactivate E cfg name dry tol)" "steps (kept f) (gateway_preflight E cfg name)"
  unfolding gateway_prepare_def gateway_activate_def gateway_deactivate_def gateway_preflight_def run_script_def
  by (intro kept_rules kept_lift)+

lemma health_frames:
  "dr_health (snd (create_dr_run a b c e d)) = dr_health d" "dr_health (finish_dr_run i ok det er d) = dr_health d"
  "dr_health (audit a1 a2 a3 a4 a5 d) = dr_health d" "dr_health (snd (create_restore_request r p tp tn os st d)) = dr_health d"
  "dr_health (snd (add_dr_workload i n sp tq st sid nm kvs er d)) = dr_health d"
  "dr_health (snd (start_restore i actor d)) = dr_health d" "dr_health (finish_restore i ok res er d) = dr_health d"
  by (auto simp: create_dr_run_def finish_dr_run_def audit_frame create_restore_request_def add_dr_workload_def
      start_restore_def finish_restore_def update_request_def insert_row_def utcnow_eq Let_def split: prod.splits option.splits)

lemma runs_update_health: "dr_runs (snd (update_dr_health n h det d)) = dr_runs d"
  by (simp add: update_dr_health_def utcnow_eq put_health_def Let_def)

lemma kept_attempt: "steps (kept f) m \<Longrightarrow> steps (kept f) (attempt m)"
  unfolding attempt_def by (intro kept_rules)

lemma kept_gather: "(\<And>x. steps (kept f) (g x)) \<Longrightarrow> steps (kept f) (gather g xs)"
  by (induction xs) (auto intro!: kept_rules kept_attempt)

lemma kept_probe: "steps (kept f) (run_health_checks E cs)"
  unfolding run_health_checks_def run_health_check_def probe_def run_command_def by (intro kept_rules)

lemma kept_wait: "steps (kept f) (wait_attempts E cs i n k)"
  by (induction n arbitrary: k) (auto intro!: kept_rules kept_probe simp: Let_def)

lemma health_execute: "steps (kept dr_health) (execute_restore E cfg i actor dry)"
  unfolding execute_restore_def restore_preflight_def import_vm_def build_adapter_def adapter_doctor_def engine_platform_def
  by (intro kept_rules kept_service [OF service_capacity] kept_service [OF service_stage] kept_service [OF service_rmtree]
      kept_service [OF restore_source_service]) (simp_all add: health_frames)

lemma health_fail_over: "steps (kept dr_health) (fail_over E cfg p)"
  unfolding fail_over_def failover_body_def undo_failover_def complete_failover_def restore_workload_def start_workload_def
    power_on_def power_off_def wait_workload_health_def build_adapter_def engine_platform_def
  by (intro kept_rules kept_gateway health_execute kept_attempt kept_gather kept_wait kept_lift
      kept_service [OF service_now]) (simp_all add: health_frames)

lemma health_promote: "steps (kept dr_health) (promote E cfg execute confirmed automatic)"
  unfolding promote_def dr_required_def make_plan_def dr_preflight_def replica_preflight_def target_preflight_def
    network_preflight_def build_adapter_def adapter_doctor_def engine_replica_def engine_platform_def fence_primary_def
    run_fence_command_def run_command_def Let_def
  by (intro kept_rules kept_gateway health_fail_over kept_lift kept_service [OF service_plan_workload]
      kept_service [OF service_replica_health]) (simp_all add: health_frames)

section \<open>The watchdog\<close>

definition calm :: "call list \<Rightarrow> call \<Rightarrow> bool" where
  "calm h c \<longleftrightarrow> \<not> disruptive c"

lemma calm_steps: "steps (does calm) m \<longleftrightarrow> steps (does (\<lambda>h c. \<not> disruptive c)) m"
  by (simp add: calm_def [abs_def])

lemma calm_bindE:
  assumes "bind_act m f s = (r, t)" "steps (does calm) m"
  obtains "does calm s t" | x u where "m s = (Inr x, u)" "does calm s u" "f x u = (r, t)"
proof -
  obtain q u where m: "m s = (q, u)" by (cases "m s")
  then have d: "does calm s u" using assms(2) by (metis snd_conv steps_def)
  show thesis
    using assms(1) m d that by (cases q) (auto simp: bind_act_def)
qed

lemma calm_no_recovery:
  assumes "does calm s t" "trace t = trace s @ cs" "c \<in> set cs"
  shows "\<not> disruptive c"
proof -
  obtain xs ys where "cs = xs @ c # ys" using assms(3) by (meson split_list)
  with assms(1,2) show ?thesis by (auto simp: does_def calls_ok_def calm_def)
qed

lemma calm_not_due: "steps (does calm) (not_due cfg previous)"
  unfolding calm_steps not_due_def by (intro does_rules)

lemma calm_observe: "steps (does calm) (observe_primary E cfg)"
  unfolding calm_steps observe_primary_def by (intro does_rules calm_probe)

lemma observe_runs: "observe_primary E cfg s = (q, t) \<Longrightarrow> dr_runs (database t) = dr_runs (database s)"
proof -
  have "steps (kept dr_runs) (observe_primary E cfg)"
    unfolding observe_primary_def by (intro kept_rules kept_probe) (simp_all add: runs_update_health)
  then show "observe_primary E cfg s = (q, t) \<Longrightarrow> dr_runs (database t) = dr_runs (database s)"
    by (auto simp: steps_def kept_def dest: spec [of _ s])
qed

lemma not_due_runs: "not_due cfg previous s = (q, t) \<Longrightarrow> dr_runs (database t) = dr_runs (database s)"
  by (auto simp: not_due_def bind_act_def call_db_def now_utc_def Let_def ret_def split: option.splits if_splits)

text \<open>The counter an evaluation returns is the one it stored.\<close>

lemma update_stored:
  assumes "update_dr_health n healthy det d = (h, e)"
  shows "\<exists>h'. get_dr_health n e = Some h' \<and> h_healthy h' = healthy \<and> h_consecutive_failures h' = h_consecutive_failures h"
  using assms by (auto simp: update_dr_health_def utcnow_eq Let_def get_dr_health_def put_health_def row_by_upsert_row)

lemma observe_Inr:
  assumes "observe_primary E cfg s = (Inr (h, healthy, res), t)"
  shows "\<exists>h'. get_dr_health ''primary-site'' (database t) = Some h' \<and> h_healthy h' = healthy \<and>
    h_consecutive_failures h' = h_consecutive_failures h"
proof -
  obtain u det e where "call_db (update_dr_health ''primary-site'' healthy det) u = (Inr h, t)"
    using assms by (auto simp: observe_primary_def bind_Inr Let_def)
  then obtain e where "update_dr_health ''primary-site'' healthy det (database u) = (h, e)" "database t = e"
    by (cases "update_dr_health ''primary-site'' healthy det (database u)") (auto simp: call_db_def)
  with update_stored show ?thesis by blast
qed

lemma already_same: "dr_runs d = dr_runs e \<Longrightarrow> already_failed_over d = already_failed_over e"
proof -
  assume "dr_runs d = dr_runs e"
  then have "latest_dr_run a b d = latest_dr_run a b e" for a b by (simp add: latest_dr_run_def)
  then show ?thesis by (simp only: already_failed_over_def)
qed

lemma watch_due:
  assumes run: "watch E cfg s = (r, t)" "trace t = trace s @ cs" and c: "c \<in> set cs" "disruptive c"
  shows "auto_failover (dr cfg) \<and>
    bool_reply E (trace s) (PathExists (norm_path (maintenance_file (dr cfg)))) = Inr False \<and>
    \<not> already_failed_over (database s) \<and>
    (\<exists>h. get_dr_health ''primary-site'' (database t) = Some h \<and> \<not> h_healthy h \<and>
       failure_threshold (dr cfg) \<le> int (h_consecutive_failures h)) \<and>
    (\<exists>xs ys. cs = xs @ c # ys \<and> fenced E cfg (trace s @ xs))"
proof -
  have no: "\<not> does calm s t" using calm_no_recovery [OF _ run(2) c(1)] c(2) by blast
  have ask_calm: "steps (does calm) (ask f (PathExists p))" for f :: "call list \<Rightarrow> call \<Rightarrow> bool res" and p
    by (rule does_ask) (simp add: calm_def disruptive_def)
  from run(1) no obtain u where u: "ask (bool_reply E) (PathExists (norm_path (maintenance_file (dr cfg)))) s = (Inr False, u)"
    and d1: "does calm s u" and r1: "bind_act (not_due cfg (get_dr_health ''primary-site'' (database u))) (\<lambda>young.
       case young of
         Some age \<Rightarrow> ret [(''action'', JStr ''interval-not-due''),
           (''next_check_in_seconds'', JInt (max 1 ((check_interval_seconds (dr cfg) * second_us - age) div second_us))),
           (''health'', case get_dr_health ''primary-site'' (database u) of None \<Rightarrow> JNull | Some h \<Rightarrow> health_row_json h),
           (''auto_failover'', JBool (auto_failover (dr cfg)))]
       | None \<Rightarrow>
           bind_act (observe_primary E cfg) (\<lambda>(st, healthy, result).
             if healthy \<or> int (h_consecutive_failures st) < failure_threshold (dr cfg) \<or> \<not> auto_failover (dr cfg)
             then ret result
             else bind_act (query already_failed_over) (\<lambda>active.
               if active then ret (result @ [(''action'', JStr ''already-failed-over'')])
               else bind_act (promote E cfg True False True) (\<lambda>promoted.
                 ret (result @ [(''action'', JStr ''promoted''), (''promotion'', JObj promoted)]))))) u = (r, t)"
    by (auto simp: watch_def dr_required_def does.R_refl elim!: calm_bindE [OF _ ask_calm] split: if_splits)
  from r1 d1 no obtain v where v: "not_due cfg (get_dr_health ''primary-site'' (database u)) u = (Inr None, v)"
    and d2: "does calm u v" and r2: "bind_act (observe_primary E cfg) (\<lambda>(st, healthy, result).
             if healthy \<or> int (h_consecutive_failures st) < failure_threshold (dr cfg) \<or> \<not> auto_failover (dr cfg)
             then ret result
             else bind_act (query already_failed_over) (\<lambda>active.
               if active then ret (result @ [(''action'', JStr ''already-failed-over'')])
               else bind_act (promote E cfg True False True) (\<lambda>promoted.
                 ret (result @ [(''action'', JStr ''promoted''), (''promotion'', JObj promoted)])))) v = (r, t)"
    by (elim calm_bindE [OF _ calm_not_due]) (auto dest: does.R_trans split: option.splits)
  from r2 no does.R_trans [OF d1 d2] obtain h res w where w: "observe_primary E cfg v = (Inr (h, False, res), w)"
    and d3: "does calm v w" and due: "failure_threshold (dr cfg) \<le> int (h_consecutive_failures h)" "auto_failover (dr cfg)"
    and active: "\<not> already_failed_over (database w)"
    and r3: "bind_act (promote E cfg True False True) (\<lambda>promoted.
                 ret (res @ [(''action'', JStr ''promoted''), (''promotion'', JObj promoted)])) w = (r, t)"
    by (elim calm_bindE [OF _ calm_observe]) (auto dest: does.R_trans split: if_splits)
  obtain q where p: "promote E cfg True False True w = (q, t)"
    using r3 by (cases "promote E cfg True False True w") (auto simp: bind_act_def split: sum.splits)
  have "dr_runs (database w) = dr_runs (database s)"
    using observe_runs [OF w] not_due_runs [OF v] u by (auto simp: ask_def)
  then have 1: "\<not> already_failed_over (database s)" using active already_same by metis
  have "dr_health (database t) = dr_health (database w)"
    using health_promote [of E cfg True False True] p unfolding steps_def kept_def by (metis snd_conv)
  then have "get_dr_health ''primary-site'' (database t) = get_dr_health ''primary-site'' (database w)"
    by (simp add: get_dr_health_def)
  with observe_Inr [OF w] due have 2: "\<exists>h. get_dr_health ''primary-site'' (database t) = Some h \<and> \<not> h_healthy h \<and>
      failure_threshold (dr cfg) \<le> int (h_consecutive_failures h)" by auto
  have d: "does calm s w" using d1 d2 d3 does.R_trans by blast
  then obtain c1 where c1: "trace w = trace s @ c1" by (auto simp: does_def)
  have "does (guarded (may_recover E cfg False True)) w t"
    using promote_guarded [of E cfg False True True] p unfolding steps_def by (metis snd_conv)
  then obtain c2 where c2: "trace t = trace w @ c2" "calls_ok (guarded (may_recover E cfg False True)) (trace w) c2"
    by (auto simp: does_def)
  have "cs = c1 @ c2" using run(2) c1 c2(1) by simp
  moreover have "c \<notin> set c1" using calm_no_recovery [OF d c1] c(2) by blast
  ultimately obtain xs ys where c: "c2 = xs @ c # ys" using c(1) by (auto dest: split_list)
  then have "guarded (may_recover E cfg False True) (trace w @ xs) c" using c2(2) by (simp add: calls_ok_def)
  then have "fenced E cfg (trace s @ (c1 @ xs))" using \<open>disruptive c\<close> c1 by (simp add: guarded_def may_recover_def)
  moreover have "cs = (c1 @ xs) @ c # ys" using \<open>cs = c1 @ c2\<close> c by simp
  ultimately show ?thesis using u due(2) 1 2 unfolding ask_def by blast
qed

section \<open>A site that fails\<close>

text \<open>The tunnel of \<open>failover_config\<close>, now with automatic failover: the only probe is refused, everything
  else succeeds (the first question asked, whether maintenance is declared, is denied).\<close>

definition automatic_config :: config where
  "automatic_config = failover_config\<lparr>replicas := [(default_replica ''far'')\<lparr>rp_url := Some ''rest:https://far/''\<rparr>], dr := (dr failover_config)\<lparr>auto_failover := True, control_plane_site := ''cloud'',
     fence := \<lparr>fn_mode = ''command'', fn_command_env = Some ''FENCE'', fn_verify_command_env = Some ''FENCED''\<rparr>,
     primary_probes := [\<lparr>hc_type = ''tcp'', hc_host = Some ''gw'', hc_port = Some 22, hc_url = None, hc_timeout_seconds = 5,
       hc_expected_status = 200, hc_attempts = 1, hc_interval_seconds = 10\<rparr>]\<rparr>\<rparr>"

definition outage_env :: env where
  "outage_env = restore_env\<lparr>
     bool_reply := (\<lambda>h c. Inr (h \<noteq> [])),
     done_reply := (\<lambda>h c. case c of TcpConnect a b \<Rightarrow> Inl (OSError ''refused'') | _ \<Rightarrow> Inr ()),
     run_reply := (\<lambda>h c. Inr (0, ''[]'', []))\<rparr>"

definition outage_sys :: "nat \<Rightarrow> health_row list \<Rightarrow> call list \<Rightarrow> sys" where
  "outage_sys n hs h = \<lparr>database = (database failover_sys)\<lparr>dr_health := hs, reads := n\<rparr>, trace = h, memory = []\<rparr>"

lemma outage_plan:
  "\<exists>p m. make_plan automatic_config (outage_sys n hs h) = (Inr p, outage_sys m hs h) \<and> dp_errors p = [] \<and>
     dp_rows p = [[(''workload'', JStr ''db''), (''source_platform'', JStr ''vsphere''), (''target_platform'', JStr ''vsphere-dr''),
       (''source_type'', JStr ''vmware''), (''target_type'', JStr ''vmware''), (''boot_order'', JInt 10),
       (''snapshot_id'', JStr ''s2''), (''created_at'', JStr (isoformat 0)), (''rpo_minutes'', JInt 1440),
       (''verified'', JBool True), (''suspicious'', JBool False), (''replica_ready'', JBool True), (''replica'', JStr ''far'')]]"
proof -
  have "in_calendar 0" by (simp add: in_calendar_def day_us_def)
  then have "fromisoformat (isoformat 0) = Some (0, Some 0)" by (rule fromisoformat_isoformat)
  then show ?thesis
    by (simp add: make_plan_def dr_required_def automatic_config_def failover_config_def failover_sys_def sample_config_def
        sample_pair_def outage_sys_def
        default_config_def sample_workload_def sorted_workloads_def plan_workload_def Let_def bind_act_def then_act_def
        workload_point_def list_points_def live_points_def create_schema_def sample_point_def opt_match_def sort_desc_def
        platform_bind default_platform_def get_recovery_copy_def copy_key_def row_by_def copied_def rpo_minutes_def
        call_db_def now_utc_def as_utc_def minute_us_def day_us_def default_dr_def gateway_plan_def site_by_def
        peer_of_def sample_gateway_def lift_res_def need_def ret_def check_run engine_platform_def)
qed

lemma outage_preflight:
  "h \<noteq> [] \<Longrightarrow> \<exists>details h'. dr_preflight outage_env automatic_config (Some p) (outage_sys n hs h) = (Inr (dp_errors p, details), outage_sys n hs (h @ h'))"
  by (simp add: dr_preflight_def dr_required_def check_run then_act_def bind_act_def replica_preflight_def catch_def
      engine_replica_def replica_health_def target_health_of_def automatic_config_def failover_config_def sample_config_def
      default_config_def default_replica_def need_def sample_pair_def default_dr_def lift_res_def restic_target_url_def
      target_env_def outage_env_def restore_env_def sample_env_def filesystem_health_def restic_probe_def ask_def
      run_command_def provider_lock_health_def passed_def sample_workload_def target_preflight_def engine_platform_def
      default_platform_def build_adapter_def adapter_doctor_def network_preflight_def gateway_preflight_def site_by_def
      peer_of_def sample_gateway_def run_script_def ret_def outage_sys_def Let_def opt_nonempty_def)

definition outage_row :: "(string \<times> json) list" where
  "outage_row = [(''workload'', JStr ''db''), (''source_platform'', JStr ''vsphere''), (''target_platform'', JStr ''vsphere-dr''),
     (''source_type'', JStr ''vmware''), (''target_type'', JStr ''vmware''), (''boot_order'', JInt 10),
     (''snapshot_id'', JStr ''s2''), (''created_at'', JStr (isoformat 0)), (''rpo_minutes'', JInt 1440),
     (''verified'', JBool True), (''suspicious'', JBool False), (''replica_ready'', JBool True), (''replica'', JStr ''far'')]"

definition outage_request :: "string \<Rightarrow> string \<Rightarrow> restore_request" where
  "outage_request now name =
     \<lparr>q_id = 1, q_created_at = now, q_requester = ''dr-orchestrator'', q_snapshot_id = ''s2'', q_source_platform = ''vsphere'',
      q_vm_id = ''db'', q_vm_name = ''db'', q_target_platform = ''vsphere-dr'', q_target_name = name,
      q_options = [(''source_repository'', JStr ''far'')], q_status = ''ready'', q_approved_by = None, q_approved_at = None,
      q_started_at = None, q_finished_at = None, q_result = None, q_error = None\<rparr>"

lemma lift_call_bind:
  "bind_act (lift_res (Inr x)) f s = f x s"
  "bind_act (call_db g) k s = (case g (database s) of (y, d) \<Rightarrow> k y (s\<lparr>database := d\<rparr>))"
  by (simp_all add: bind_act_def lift_res_def call_db_def split: prod.split)

text \<open>A call that was made stays in the trace.\<close>

lemma seen_bind:
  assumes "c \<in> set (trace (snd (m s)))" "\<And>x. steps (does (\<lambda>h c. True)) (f x)"
  shows "c \<in> set (trace (snd (bind_act m f s)))"
proof -
  obtain r u where m: "m s = (r, u)" by (cases "m s")
  have "set (trace u) \<subseteq> set (trace (snd (f x u)))" for x using assms(2) [of x] by (auto simp: steps_def does_def dest: spec [of _ u])
  with assms(1) m show ?thesis by (cases r) (auto simp: bind_act_def)
qed

lemma seen_after: "m s = (Inr x, u) \<Longrightarrow> c \<in> set (trace (snd (f x u))) \<Longrightarrow> c \<in> set (trace (snd (bind_act m f s)))"
  by (simp add: bind_act_def)

lemma seen_catch:
  assumes "c \<in> set (trace (snd (m s)))" "\<And>e. steps (does (\<lambda>h c. True)) (h e)"
  shows "c \<in> set (trace (snd (catch m h s)))"
proof -
  obtain r u where m: "m s = (r, u)" by (cases "m s")
  have "set (trace u) \<subseteq> set (trace (snd (h e u)))" for e using assms(2) [of e] by (auto simp: steps_def does_def dest: spec [of _ u])
  with assms(1) m show ?thesis by (cases r) (auto simp: catch_def)
qed

lemma seen_ask: "c \<in> set (trace (snd (ask f c s)))"
  by (simp add: ask_def)

text \<open>An execution whose checks all pass does import the machine.\<close>

lemma import_seen:
  assumes "stage_snapshot E cfg ''recovery point manifest verification failed: '' i p replica s = (Inr src, u)"
  shows "Adapter (pl_name target) (RestoreVm src (q_target_name q) opts) \<in>
    set (trace (snd (import_vm E cfg i actor target p q opts repo replica s)))"
  unfolding import_vm_def
  by (rule seen_catch, rule seen_after, rule assms, rule seen_bind, rule seen_ask)
    (intro does_rules any_service service_rmtree)+

lemma execute_seen:
  assumes "get_restore_request i (database s) = Some q" "get_point (q_snapshot_id q) (database s) = Some p"
    "engine_platform cfg (q_target_platform q) s = (Inr target, s)" "build_adapter target s = (Inr (), s)"
    "restore_source cfg (p_snapshot_id p) (source_of (q_options q)) s = (Inr replica, s)"
    "restore_preflight E cfg i actor target s = (Inr (), u)" "start_restore i actor (database u) = (Inr q', d)"
    "stage_snapshot E cfg ''recovery point manifest verification failed: '' i p replica (u\<lparr>database := d\<rparr>) = (Inr src, v)"
  shows "Adapter (pl_name target) (RestoreVm src (q_target_name q') (q_options q)) \<in>
    set (trace (snd (execute_restore E cfg i actor False s)))"
  using import_seen [OF assms(8), of target q' "q_options q" actor "source_of (q_options q)"] assms
  by (simp add: execute_restore_def then_act_def Let_def bind_act_def need_def check_run try_db_def)

lemma outage_stage:
  "\<exists>src t. stage_snapshot outage_env automatic_config msg i ((sample_point ''s2'' ''db'' 0 (2 * day_us))\<lparr>p_verified := True\<rparr>)
     (Some ((default_replica ''far'')\<lparr>rp_url := Some ''rest:https://far/''\<rparr>)) s = (Inr src, t)"
  by (simp add: stage_snapshot_def Let_def then_act_def bind_act_def rmtree_def ask_ignore_def catch_def ask_def ret_def
      repo_restore_def lift_res_def target_env_def default_replica_def restic_target_url_def run_command_def outage_env_def
      restore_env_def sample_env_def opt_nonempty_def check_run check_tree_def read_tree_def sample_point_def
      sample_dir_def build_manifest_def verify_manifest_def manifest_rows_def manifest_files_def manifest_json_def)

lemma outage_target: "engine_platform automatic_config ''vsphere-dr'' s = (Inr (default_platform ''vsphere-dr'' ''vmware'' ''https://dr''), s)"
  by (simp add: engine_platform_def need_def automatic_config_def failover_config_def sample_config_def default_config_def
      default_platform_def)

lemma outage_source:
  assumes "recovery_copies (database s) = recovery_copies (database failover_sys)"
  shows "restore_source automatic_config ''s2'' ''far'' s =
    (Inr (Some ((default_replica ''far'')\<lparr>rp_url := Some ''rest:https://far/''\<rparr>)), s)"
  by (simp add: restore_source_def engine_replica_def automatic_config_def failover_config_def sample_config_def default_config_def
      default_replica_def need_def bind_act_def then_act_def check_run get_recovery_copy_def row_by_def copy_key_def assms
      failover_sys_def create_schema_def)

lemma outage_target_ready:
  "\<exists>u. restore_preflight outage_env automatic_config i actor target s = (Inr (), u) \<and> database u = database s"
  by (simp add: restore_preflight_def ensure_path_capacity_def then_act_def bind_act_def ask_def adapter_doctor_def
      when_act_def check_run outage_env_def restore_env_def sample_env_def free_percent_def automatic_config_def
      failover_config_def sample_config_def default_config_def default_runtime_def)

lemma outage_execute:
  assumes "recovery_points (database s) = recovery_points (database failover_sys)"
    "recovery_copies (database s) = recovery_copies (database failover_sys)"
    "restore_requests (database s) = [outage_request now name]"
  shows "\<exists>src name. Adapter ''vsphere-dr'' (RestoreVm src name [(''source_repository'', JStr ''far'')]) \<in>
     set (trace (snd (execute_restore outage_env automatic_config 1 actor False s)))"
proof -
  let ?target = "default_platform ''vsphere-dr'' ''vmware'' ''https://dr''"
  let ?p = "(sample_point ''s2'' ''db'' 0 (2 * day_us))\<lparr>p_verified := True\<rparr>"
  have q: "get_restore_request 1 (database s) = Some (outage_request now name)"
    by (simp add: get_restore_request_def assms outage_request_def)
  obtain u where u: "restore_preflight outage_env automatic_config 1 actor ?target s = (Inr (), u)" "database u = database s"
    using outage_target_ready by blast
  obtain q' d where d: "start_restore 1 actor (database u) = (Inr q', d)"
    using q u(2) by (simp add: start_restore_def outage_request_def utcnow_eq)
  obtain src v where v: "stage_snapshot outage_env automatic_config ''recovery point manifest verification failed: '' 1 ?p
     (Some ((default_replica ''far'')\<lparr>rp_url := Some ''rest:https://far/''\<rparr>)) (u\<lparr>database := d\<rparr>) = (Inr src, v)"
    using outage_stage by blast
  have "get_point ''s2'' (database s) = Some ?p"
    by (simp add: get_point_def live_points_def assms failover_sys_def create_schema_def sample_point_def)
  with execute_seen [OF q, of ?p automatic_config ?target _ outage_env actor u q' d src v] outage_target outage_source [OF assms(2)] u(1) d v
  show ?thesis
    by (auto simp: outage_request_def default_platform_def build_adapter_def check_run source_of_def get_or_def sample_point_def py_str_def)
qed

definition outage_db :: "nat \<Rightarrow> health_row list \<Rightarrow> audit_event list \<Rightarrow> dr_run list \<Rightarrow> db" where
  "outage_db n hs es rs = (database failover_sys)\<lparr>dr_health := hs, reads := n, audit_events := es, dr_runs := rs\<rparr>"

lemma outage_request_created:
  "\<exists>now d. create_restore_request ''dr-orchestrator'' ((sample_point ''s2'' ''db'' 0 (2 * day_us))\<lparr>p_verified := True\<rparr>)
      ''vsphere-dr'' name [(''source_repository'', JStr ''far'')] ''ready'' (outage_db n hs es rs) = (1, d) \<and>
    recovery_points d = recovery_points (database failover_sys) \<and> recovery_copies d = recovery_copies (database failover_sys) \<and>
    restore_requests d = [outage_request now name]"
  by (simp add: create_restore_request_def utcnow_eq insert_row_def next_rowid_def Let_def outage_db_def failover_sys_def
      create_schema_def audit_frame outage_request_def sample_point_def)

lemma outage_restores:
  assumes "database s = outage_db n hs es rs"
  shows "\<exists>src name. Adapter ''vsphere-dr'' (RestoreVm src name [(''source_repository'', JStr ''far'')]) \<in>
     set (trace (snd (restore_workload outage_env automatic_config run_id now (sample_workload, outage_row) s)))"
proof -
  let ?name = "failover_name now sample_workload"
  let ?p = "(sample_point ''s2'' ''db'' 0 (2 * day_us))\<lparr>p_verified := True\<rparr>"
  obtain at_text d where d: "create_restore_request ''dr-orchestrator'' ?p ''vsphere-dr'' ?name
      [(''source_repository'', JStr ''far'')] ''ready'' (outage_db n hs es rs) = (1, d)"
    "recovery_points d = recovery_points (database failover_sys)" "recovery_copies d = recovery_copies (database failover_sys)"
    "restore_requests d = [outage_request at_text ?name]"
    using outage_request_created by blast
  have p: "get_point ''s2'' (outage_db n hs es rs) = Some ?p"
    by (simp add: get_point_def live_points_def outage_db_def failover_sys_def create_schema_def sample_point_def)
  have o: "put_key ''source_repository'' (JStr (dr_replica (dr automatic_config))) (wl_restore_options sample_workload) =
      [(''source_repository'', JStr ''far'')]" "wl_target_platform sample_workload = ''vsphere-dr''"
    by (simp_all add: put_key_def automatic_config_def failover_config_def sample_pair_def sample_workload_def)
  have r: "row_snapshot outage_row = Inr ''s2''" by (simp add: row_snapshot_def outage_row_def py_str_def)
  obtain src name where "Adapter ''vsphere-dr'' (RestoreVm src name [(''source_repository'', JStr ''far'')]) \<in>
      set (trace (snd (execute_restore outage_env automatic_config 1 ''dr-orchestrator'' False (s\<lparr>database := d\<rparr>))))"
    using outage_execute [of "s\<lparr>database := d\<rparr>" at_text ?name "''dr-orchestrator''"] d by (auto simp del: One_nat_def)
  moreover have "restore_workload outage_env automatic_config run_id now (sample_workload, outage_row) s =
      bind_act (execute_restore outage_env automatic_config 1 ''dr-orchestrator'' False)
        (\<lambda>result. bind_act (engine_platform automatic_config (wl_target_platform sample_workload)) (\<lambda>pl.
           then_act (build_adapter pl)
             (bind_act (call_db (add_dr_workload run_id (wl_name sample_workload) (wl_source_platform sample_workload)
                 (wl_target_platform sample_workload) ''restored'' (Some ''s2'') (Some ?name) (result_fields result) None)) (\<lambda>_.
              ret (sample_workload, pl, result))))) (s\<lparr>database := d\<rparr>)"
    using d(1) by (simp add: restore_workload_def r lift_call_bind p Let_def o assms del: One_nat_def)
  ultimately show ?thesis
    by (intro exI [of _ src] exI [of _ name]) (simp only:, rule seen_bind, assumption,
      auto simp: engine_platform_def build_adapter_def intro!: does_rules)
qed

lemma outage_network:
  assumes "database s = outage_db n hs es rs"
  shows "\<exists>now u m. attempt (then_act (gateway_prepare outage_env (dr automatic_config) (dr_site (dr automatic_config)))
       (then_act (gateway_deactivate outage_env (dr automatic_config) (primary_site (dr automatic_config)) False True)
         (call_db now_utc))) s = (Inr (Inr now), u) \<and> database u = outage_db m hs es rs"
proof -
  have g: "\<exists>r u. gateway_prepare outage_env (dr automatic_config) ''dr'' s = (Inr r, u) \<and> database u = database s" for s
    by (simp add: gateway_prepare_def run_script_def then_act_def bind_act_def lift_res_def ask_def check_def Let_def
      automatic_config_def failover_config_def sample_config_def default_config_def
      sample_pair_def sample_gateway_def default_dr_def site_by_def peer_of_def ospf_auth_def outage_env_def restore_env_def
      sample_env_def opt_nonempty_def utf8_bytes_def is_space_def ret_def check_res_def)
  have h: "\<exists>r u. gateway_deactivate outage_env (dr automatic_config) ''primary'' False True s = (Inr r, u) \<and> database u = database s" for s
    by (simp add: gateway_deactivate_def run_script_def then_act_def bind_act_def lift_res_def ask_def check_def Let_def
      automatic_config_def failover_config_def sample_config_def default_config_def
      sample_pair_def sample_gateway_def default_dr_def site_by_def outage_env_def restore_env_def sample_env_def ret_def)
  obtain r u where u: "gateway_prepare outage_env (dr automatic_config) ''dr'' s = (Inr r, u)" "database u = database s"
    using g by blast
  obtain q v where v: "gateway_deactivate outage_env (dr automatic_config) ''primary'' False True u = (Inr q, v)" "database v = database u"
    using h by blast
  have "dr_site (dr automatic_config) = ''dr''" "primary_site (dr automatic_config) = ''primary''"
    by (simp_all add: automatic_config_def failover_config_def sample_pair_def default_dr_def)
  moreover have "\<exists>now. now_utc (outage_db n hs es rs) = (now, outage_db (Suc n) hs es rs)"
    by (simp add: now_utc_def outage_db_def)
  ultimately show ?thesis
    using u v assms by (auto simp: attempt_def catch_def bind_act_def then_act_def call_db_def ret_def)
qed

lemma outage_workloads: "sorted_workloads automatic_config = [sample_workload]"
  by (simp add: sorted_workloads_def automatic_config_def failover_config_def)

lemma outage_fails_over:
  assumes "database s = outage_db n hs es rs" "dp_rows p = [outage_row]"
  shows "\<exists>c \<in> set (trace (snd (fail_over outage_env automatic_config p s))). disruptive c"
proof -
  let ?run = "create_dr_run ''failover'' (primary_site (dr automatic_config)) (dr_site (dr automatic_config))
       [(''replica'', JStr (dr_replica (dr automatic_config)))]"
  obtain i rs' where i: "?run (outage_db n hs es rs) = (i, outage_db (Suc n) hs es rs')"
    by (simp add: create_dr_run_def utcnow_eq insert_row_def outage_db_def failover_sys_def create_schema_def Let_def)
  obtain now u m where u: "attempt (then_act (gateway_prepare outage_env (dr automatic_config) (dr_site (dr automatic_config)))
       (then_act (gateway_deactivate outage_env (dr automatic_config) (primary_site (dr automatic_config)) False True)
         (call_db now_utc))) (s\<lparr>database := outage_db (Suc n) hs es rs'\<rparr>) = (Inr (Inr now), u)" "database u = outage_db m hs es rs'"
    using outage_network [of "s\<lparr>database := outage_db (Suc n) hs es rs'\<rparr>"] by fastforce
  obtain src name where c: "Adapter ''vsphere-dr'' (RestoreVm src name [(''source_repository'', JStr ''far'')]) \<in>
     set (trace (snd (restore_workload outage_env automatic_config i (stamp now) (sample_workload, outage_row) u)))"
    using outage_restores [OF u(2)] by blast
  have "Adapter ''vsphere-dr'' (RestoreVm src name [(''source_repository'', JStr ''far'')]) \<in>
     set (trace (snd (gather (restore_workload outage_env automatic_config i (stamp now)) [(sample_workload, outage_row)] u)))"
    unfolding gather.simps attempt_def
    by (rule seen_bind, rule seen_catch, rule seen_bind, rule c) (intro does_rules)+
  then have "Adapter ''vsphere-dr'' (RestoreVm src name [(''source_repository'', JStr ''far'')]) \<in>
     set (trace (snd (failover_body outage_env automatic_config p i (s\<lparr>database := outage_db (Suc n) hs es rs'\<rparr>))))"
    unfolding failover_body_def outage_workloads assms(2)
    by (rule_tac seen_after, rule_tac u(1)) (simp, rule seen_bind, assumption,
      auto simp: complete_failover_def start_workload_def wait_workload_health_def power_on_def
        intro!: does_rules any_attempt any_gateway any_ask any_wait)
  then have "Adapter ''vsphere-dr'' (RestoreVm src name [(''source_repository'', JStr ''far'')]) \<in>
     set (trace (snd (fail_over outage_env automatic_config p s)))"
    unfolding fail_over_def lift_call_bind assms(1) i prod.case
    by (rule seen_bind) (auto simp: undo_failover_def power_off_def intro!: does_rules any_gateway any_ask)
  then show ?thesis by (intro bexI) (auto simp: disruptive_def)
qed

lemma outage_fenced:
  "\<exists>h' es'. fence_primary outage_env automatic_config False True \<lparr>database = outage_db n hs es rs, trace = h, memory = []\<rparr> =
     (Inr (), \<lparr>database = outage_db (Suc n) hs es' rs, trace = h @ h', memory = []\<rparr>)"
proof -
  have "shlex_split ''x'' = Inr [''x'']" by code_simp
  moreover have "\<exists>es'. audit a1 a2 a3 a4 a5 (outage_db n hs es rs) = outage_db (Suc n) hs es' rs" for a1 a2 a3 a4 a5
    by (intro exI [of _ "audit_events (audit a1 a2 a3 a4 a5 (outage_db n hs es rs))"] db.equality)
      (simp_all add: audit_frame outage_db_def)
  ultimately show ?thesis
    by (simp add: fence_primary_def run_fence_command_def automatic_config_def failover_config_def sample_pair_def then_act_def
      bind_act_def check_run opt_nonempty_def outage_env_def restore_env_def sample_env_def lift_res_def run_command_def ask_def
      when_act_def Let_def ret_def)
qed

lemma outage_promotes:
  assumes "h \<noteq> []"
  shows "\<exists>c \<in> set (trace (snd (promote outage_env automatic_config True False True
     \<lparr>database = outage_db n hs [] [], trace = h, memory = []\<rparr>))). disruptive c"
proof -
  have o: "\<lparr>database = outage_db k hs [] [], trace = h', memory = []\<rparr> = outage_sys k hs h'" for k h'
    by (simp add: outage_db_def outage_sys_def failover_sys_def create_schema_def)
  obtain p m where p: "make_plan automatic_config (outage_sys n hs h) = (Inr p, outage_sys m hs h)" "dp_errors p = []"
    "dp_rows p = [outage_row]"
    using outage_plan [of n hs h] unfolding outage_row_def by blast
  obtain det h' where f: "dr_preflight outage_env automatic_config (Some p) (outage_sys m hs h) = (Inr (dp_errors p, det), outage_sys m hs (h @ h'))"
    using outage_preflight [OF assms] by blast
  obtain h2 es' where g: "fence_primary outage_env automatic_config False True (outage_sys m hs (h @ h')) =
     (Inr (), \<lparr>database = outage_db (Suc m) hs es' [], trace = (h @ h') @ h2, memory = []\<rparr>)"
    using outage_fenced [of m hs "[]" "[]" "h @ h'"] unfolding o by blast
  have "promote outage_env automatic_config True False True (outage_sys n hs h) =
      fail_over outage_env automatic_config p \<lparr>database = outage_db (Suc m) hs es' [], trace = (h @ h') @ h2, memory = []\<rparr>"
  proof -
    have "dr_enabled (dr automatic_config)" by (simp add: automatic_config_def failover_config_def sample_pair_def)
    moreover have "\<not> already_failed_over (database (outage_sys m hs h))"
      by (simp add: already_failed_over_def latest_dr_run_def sort_desc_def outage_sys_def failover_sys_def create_schema_def)
    ultimately show ?thesis
      using p(1,2) f g by (simp add: promote_def dr_required_def then_act_def bind_act_def check_run)
  qed
  with outage_fails_over [of "\<lparr>database = outage_db (Suc m) hs es' [], trace = (h @ h') @ h2, memory = []\<rparr>"] p(3) show ?thesis
    by (simp add: o)
qed

text \<open>Four failures are recorded already.\<close>

definition outage_start :: sys where
  "outage_start = \<lparr>database = outage_db 0 [\<lparr>h_name = ''primary-site'', h_checked_at = isoformat 0, h_healthy = False,
     h_consecutive_failures = 4, h_detail = None\<rparr>] [] [], trace = [], memory = []\<rparr>"

lemma outage_observed:
  "\<exists>st res hs' h'. observe_primary outage_env automatic_config (outage_start\<lparr>trace := h\<rparr>) =
     (Inr (st, False, res), \<lparr>database = outage_db 2 hs' [] [], trace = h @ h', memory = []\<rparr>) \<and> h_consecutive_failures st = 5"
  by (simp add: observe_primary_def outage_start_def automatic_config_def failover_config_def sample_pair_def default_dr_def
      run_health_checks_def run_health_check_def probe_def Let_def then_act_def bind_act_def check_run opt_nonempty_def ask_def
      outage_env_def catch_def probe_failure_def ret_def call_db_def update_dr_health_def get_dr_health_def row_by_def
      outage_db_def utcnow_eq put_health_def upsert_row_def replace_row_def passed_def required_failures_def
      failover_sys_def create_schema_def)

lemma outage_watch: "\<exists>c \<in> set (trace (snd (watch outage_env automatic_config outage_start))). disruptive c"
proof -
  let ?file = "PathExists (norm_path (maintenance_file (dr automatic_config)))"
  obtain st res hs' h' where o: "observe_primary outage_env automatic_config (outage_start\<lparr>trace := [?file]\<rparr>) =
     (Inr (st, False, res), \<lparr>database = outage_db 2 hs' [] [], trace = [?file] @ h', memory = []\<rparr>)" "h_consecutive_failures st = 5"
    using outage_observed by blast
  have c: "dr_enabled (dr automatic_config)" "auto_failover (dr automatic_config)"
    "failure_threshold (dr automatic_config) = 5" "check_interval_seconds (dr automatic_config) = 60"
    by (simp_all add: automatic_config_def failover_config_def sample_pair_def default_dr_def)
  have a: "\<not> already_failed_over (outage_db 2 hs' [] [])"
    by (simp add: already_failed_over_def latest_dr_run_def sort_desc_def outage_db_def)
  have q: "ask (bool_reply outage_env) ?file outage_start = (Inr False, outage_start\<lparr>trace := [?file]\<rparr>)"
    by (simp add: ask_def outage_env_def outage_start_def)
  have w: "watch outage_env automatic_config outage_start =
      bind_act (promote outage_env automatic_config True False True) (\<lambda>promoted.
        ret (res @ [(''action'', JStr ''promoted''), (''promotion'', JObj promoted)]))
        \<lparr>database = outage_db 2 hs' [] [], trace = [?file] @ h', memory = []\<rparr>"
    using o q c a
    by (simp add: watch_def dr_required_def then_act_def bind_act_def [of "ask f c" for f c] not_due_def check_run
        bind_act_def [of "check b e" for b e] bind_act_def [of "observe_primary e c" for e c] split: option.split)
  have "\<exists>c \<in> set (trace (snd (promote outage_env automatic_config True False True
      \<lparr>database = outage_db 2 hs' [] [], trace = [?file] @ h', memory = []\<rparr>))). disruptive c"
    by (rule outage_promotes) simp
  then show ?thesis unfolding w by (metis seen_bind does.steps_ret)
qed

section \<open>Claims\<close>

text \<open>C1. Fence first: in every promotion, planned or executed, by hand or automatic, each call that restores a
  machine or powers one on comes after the primary site was fenced: the fencing command, and the verifying
  one where configured, had already run and returned 0, or fencing is manual, an operator confirmed it and
  the promotion is not automatic.\<close>

theorem fence_before_recovery:
  assumes "promote E cfg execute confirmed automatic s = (r, t)" "trace t = trace s @ xs @ c # ys" "disruptive c"
  shows "may_recover E cfg confirmed automatic (trace s @ xs)"
proof -
  have "does (guarded (may_recover E cfg confirmed automatic)) s t"
    using stepsD [OF promote_guarded assms(1)] .
  with assms(2,3) show ?thesis by (auto simp: does_def calls_ok_def guarded_def)
qed

theorem fence_before_recovery_witness:
  "\<exists>xs c ys. trace (snd (promote outage_env automatic_config True False True (outage_sys 0 [] [Sleep 0]))) =
     [Sleep 0] @ xs @ c # ys \<and> disruptive c \<and> fenced outage_env automatic_config ([Sleep 0] @ xs)"
proof -
  let ?s = "\<lparr>database = outage_db 0 [] [] [], trace = [Sleep 0], memory = []\<rparr>"
  have s: "?s = outage_sys 0 [] [Sleep 0]" by (simp add: outage_db_def outage_sys_def failover_sys_def create_schema_def)
  obtain r t where r: "promote outage_env automatic_config True False True ?s = (r, t)" by fastforce
  have "steps traced (promote outage_env automatic_config True False True)"
    using promote_guarded [of outage_env automatic_config False True True] unfolding steps_def does_def traced_def by blast
  then obtain cs where cs: "trace t = [Sleep 0] @ cs" using r by (auto simp: steps_def traced_def dest: spec [of _ ?s])
  obtain c where "c \<in> set (trace t)" "disruptive c" using outage_promotes [of "[Sleep 0]" 0 "[]"] r by auto
  with cs have "c \<in> set cs" by (auto simp: disruptive_def)
  then obtain xs ys where x: "cs = xs @ c # ys" by (meson split_list)
  with fence_before_recovery [OF r, of xs c ys] cs \<open>disruptive c\<close> have "fenced outage_env automatic_config ([Sleep 0] @ xs)"
    by (simp add: may_recover_def)
  with cs x r s \<open>disruptive c\<close> show ?thesis by auto
qed

text \<open>C12. The watchdog restores or powers on a machine only when automatic failover is configured, no maintenance
  is declared, no failover is active, the stored probe state of the primary site is unhealthy with at least
  the configured number of consecutive failures, and the fencing commands have succeeded before the call.\<close>

theorem watchdog_fails_over_when_due:
  assumes "watch E cfg s = (r, t)" "trace t = trace s @ cs" "c \<in> set cs" "disruptive c"
  shows "auto_failover (dr cfg) \<and>
    bool_reply E (trace s) (PathExists (norm_path (maintenance_file (dr cfg)))) = Inr False \<and>
    \<not> already_failed_over (database s) \<and>
    (\<exists>h. get_dr_health ''primary-site'' (database t) = Some h \<and> \<not> h_healthy h \<and>
       failure_threshold (dr cfg) \<le> int (h_consecutive_failures h)) \<and>
    (\<exists>xs ys. cs = xs @ c # ys \<and> fenced E cfg (trace s @ xs))"
  using assms by (rule watch_due)

theorem watchdog_fails_over_when_due_witness:
  "\<exists>h. get_dr_health ''primary-site'' (database (snd (watch outage_env automatic_config outage_start))) = Some h \<and>
     \<not> h_healthy h \<and> 5 \<le> h_consecutive_failures h"
proof -
  obtain r t where r: "watch outage_env automatic_config outage_start = (r, t)" by fastforce
  obtain c where "c \<in> set (trace t)" "disruptive c" using outage_watch r by auto
  moreover have "trace t = trace outage_start @ trace t" by (simp add: outage_start_def)
  moreover have "failure_threshold (dr automatic_config) = 5"
    by (simp add: automatic_config_def failover_config_def sample_pair_def default_dr_def)
  ultimately show ?thesis using watchdog_fails_over_when_due [OF r] r by fastforce
qed

lemma plan_no_calls: "steps (does (\<lambda>h c. False)) (make_plan cfg)"
  unfolding make_plan_def dr_required_def plan_workload_def rpo_minutes_def engine_platform_def Let_def
  by (intro does_rules)

lemma make_plan_quiet:
  assumes "make_plan cfg s = (q, u)"
  shows "trace u = trace s \<and> (\<exists>n. database u = (database s)\<lparr>reads := n\<rparr>)"
proof -
  have "does (\<lambda>h c. False) s u" using stepsD [OF plan_no_calls assms] .
  then obtain cs where "trace u = trace s @ cs" "calls_ok (\<lambda>h c. False) (trace s) cs" by (auto simp: does_def)
  moreover from this(2) have "cs = []" by (cases cs) (force simp: calls_ok_def)+
  moreover have "steps service (make_plan cfg)"
    unfolding make_plan_def dr_required_def by (intro service_rules service_plan_workload)
  then have "service s u" using assms by (rule stepsD)
  ultimately show ?thesis by (auto simp: service_def)
qed

text \<open>C25. A promotion that is only planned, that finds a failover active, or whose plan has errors calls nothing
  outside and leaves every table as it was; asked to execute with a plan that has errors it raises.\<close>

theorem refused_promotion_has_no_effect:
  assumes "promote E cfg execute confirmed automatic s = (r, t)" "make_plan cfg s = (Inr p, u)"
    "\<not> execute \<or> already_failed_over (database u) \<or> dp_errors p \<noteq> []"
  shows "trace t = trace s \<and> (\<exists>n. database t = (database s)\<lparr>reads := n\<rparr>) \<and>
    (execute \<and> \<not> already_failed_over (database u) \<longrightarrow> (\<exists>m. r = Inl (RuntimeError m)))"
proof -
  have "dr_enabled (dr cfg)" using assms(2) by (auto simp: make_plan_def dr_required_def split: if_splits)
  then have "t = u" "execute \<and> \<not> already_failed_over (database u) \<longrightarrow> (\<exists>m. r = Inl (RuntimeError m))"
    using assms by (auto simp: promote_def dr_required_def bind_act_def then_act_def check_run split: if_splits)
  with make_plan_quiet [OF assms(2)] show ?thesis by blast
qed

theorem refused_promotion_has_no_effect_witness:
  "trace (snd (promote outage_env automatic_config False False False (outage_sys 0 [] []))) = []"
proof -
  obtain p m where "make_plan automatic_config (outage_sys 0 [] []) = (Inr p, outage_sys m [] [])"
    using outage_plan by blast
  moreover obtain r t where "promote outage_env automatic_config False False False (outage_sys 0 [] []) = (r, t)" by fastforce
  ultimately show ?thesis
    using refused_promotion_has_no_effect [of outage_env automatic_config False False False "outage_sys 0 [] []" r t p]
    by (simp add: outage_sys_def)
qed

end
