(* ===== verification/State_Backup.thy ===== *)
theory State_Backup
  imports Engine
begin

text \<open>
  Backups of the state database: \<open>backup_database\<close> of \<open>state.py\<close> and \<open>backup_state_database\<close> of
  \<open>engine.py\<close>. Copying the database (and setting the mode of the copy) is one call outside; \<open>Glob\<close>
  answers with the existing backups and their modification times. The lemmas show which backups are
  removed.
\<close>

text \<open>All but the \<open>keep\<close> newest, newest first; equal times stay in the order of the listing.\<close>

definition outdated :: "int \<Rightarrow> (string \<times> int) list \<Rightarrow> (string \<times> int) list" where
  "outdated keep listing = drop (nat keep) (sort_key (\<lambda>b. - snd b) listing)"

definition backup_database :: "env \<Rightarrow> string \<Rightarrow> int \<Rightarrow> string act" where
  "backup_database E destination_dir keep =
     then_act (check (1 \<le> keep) (ValueError ''state backup keep must be >= 1''))
    (let dest_dir = norm_path destination_dir
     in then_act (ask (done_reply E) (MkDir dest_dir))
       (bind_act (call_db now_utc) (\<lambda>now.
        let destination = path_div dest_dir (''state-'' @ stamp now @ ''.db'')
        in then_act (ask (done_reply E) (CopyDatabase destination))
          (bind_act (ask (listing_reply E) (Glob dest_dir ''state-*.db'')) (\<lambda>backups.
           then_act (each (\<lambda>b. ask (done_reply E) (Unlink (fst b))) (outdated keep backups))
             (ret destination))))))"

definition backup_state_database :: "env \<Rightarrow> config \<Rightarrow> (string \<times> json) list act" where
  "backup_state_database E cfg =
     (let keep = state_backup_keep (runtime cfg)
      in bind_act (backup_database E (state_backup_path (runtime cfg)) keep) (\<lambda>path.
         then_act (change (audit ''system'' ''state.backup'' ''state_database'' path (JObj [(''keep'', JInt keep)])))
           (ret [(''status'', JStr ''complete''), (''path'', JStr path), (''keep'', JInt keep)])))"

section \<open>What is removed\<close>

lemma outdated_older:
  assumes "b \<in> set (outdated keep listing)" "c \<in> set (take (nat keep) (sort_key (\<lambda>b. - snd b) listing))"
  shows "snd b \<le> snd c"
proof -
  let ?s = "sort_key (\<lambda>b. - snd b) listing"
  have "sorted (map (\<lambda>b. - snd b) (take (nat keep) ?s @ drop (nat keep) ?s))"
    by (simp only: append_take_drop_id sorted_sort_key)
  then have "\<forall>x \<in> set (take (nat keep) ?s). \<forall>y \<in> set (drop (nat keep) ?s). - snd x \<le> - snd y"
    unfolding map_append sorted_append set_map by blast
  then have "- snd c \<le> - snd b" using assms unfolding outdated_def by blast
  then show ?thesis by simp
qed

lemma each_unlinks:
  assumes "each (\<lambda>b. ask (done_reply E) (Unlink (fst b))) bs s = (Inr us, t)"
  shows "trace t = trace s @ map (\<lambda>b. Unlink (fst b)) bs \<and> database t = database s"
  using assms
proof (induction bs arbitrary: us s)
  case (Cons b bs)
  have step: "ask (done_reply E) c s = (Inr v, w) \<Longrightarrow> w = s\<lparr>trace := trace s @ [c]\<rparr>" for c v w
    by (simp add: ask_def)
  from Cons.prems obtain vs where
    "each (\<lambda>b. ask (done_reply E) (Unlink (fst b))) bs (s\<lparr>trace := trace s @ [Unlink (fst b)]\<rparr>) = (Inr vs, t)"
    unfolding each.simps bind_Inr ret_def by (elim exE conjE) (drule step, simp)
  from Cons.IH [OF this] show ?case by simp
qed (simp add: ret_def)

lemma backup_database_run:
  assumes "backup_database E dir keep s = (Inr path, t)"
  shows "\<exists>now listing. 1 \<le> keep \<and> path = path_div (norm_path dir) (''state-'' @ stamp now @ ''.db'') \<and>
    trace t = trace s @ [MkDir (norm_path dir), CopyDatabase path, Glob (norm_path dir) ''state-*.db''] @
      map (\<lambda>b. Unlink (fst b)) (outdated keep listing) \<and>
    listing_reply E (trace s @ [MkDir (norm_path dir), CopyDatabase path]) (Glob (norm_path dir) ''state-*.db'') = Inr listing"
proof -
  obtain listing us v now where l:
    "listing_reply E (trace s @ [MkDir (norm_path dir), CopyDatabase path]) (Glob (norm_path dir) ''state-*.db'') = Inr listing"
    "each (\<lambda>b. ask (done_reply E) (Unlink (fst b))) (outdated keep listing) v = (Inr us, t)" "1 \<le> keep"
    "trace v = trace s @ [MkDir (norm_path dir), CopyDatabase path, Glob (norm_path dir) ''state-*.db'']"
    "path = path_div (norm_path dir) (''state-'' @ stamp now @ ''.db'')"
    using assms by (auto simp: backup_database_def Let_def then_act_def bind_Inr check_def ask_def call_db_def now_utc_def split: if_splits)
  with each_unlinks [OF l(2)] show ?thesis by (intro exI [of _ now] exI [of _ listing]) simp
qed

text \<open>A state backup that succeeds copies the database first and then removes exactly the backups beyond the
  \<open>keep\<close> newest of the listing taken after the copy: what is removed is never newer than what stays, and
  the number of backups that stay is the smaller of \<open>keep\<close> and those there.\<close>

lemma state_backup_keeps_newest:
  assumes "backup_database E dir keep s = (Inr path, t)"
  shows "\<exists>kept removed listing. mset listing = mset (kept @ removed) \<and>
    listing_reply E (trace s @ [MkDir (norm_path dir), CopyDatabase path]) (Glob (norm_path dir) ''state-*.db'') = Inr listing \<and>
    length kept = min (nat keep) (length listing) \<and> list_all (\<lambda>b. list_all (\<lambda>c. snd b \<le> snd c) kept) removed \<and>
    trace t = trace s @ [MkDir (norm_path dir), CopyDatabase path, Glob (norm_path dir) ''state-*.db''] @
      map (\<lambda>b. Unlink (fst b)) removed"
proof -
  obtain now listing where r: "trace t = trace s @ [MkDir (norm_path dir), CopyDatabase path, Glob (norm_path dir) ''state-*.db''] @
      map (\<lambda>b. Unlink (fst b)) (outdated keep listing)"
    "listing_reply E (trace s @ [MkDir (norm_path dir), CopyDatabase path]) (Glob (norm_path dir) ''state-*.db'') = Inr listing"
    using backup_database_run [OF assms] by blast
  let ?s = "sort_key (\<lambda>b. - snd b) listing"
  have "mset listing = mset (take (nat keep) ?s @ outdated keep listing)"
    by (simp only: outdated_def append_take_drop_id mset_sort)
  moreover have "list_all (\<lambda>b. list_all (\<lambda>c. snd b \<le> snd c) (take (nat keep) ?s)) (outdated keep listing)"
    using outdated_older by (fastforce simp: list_all_iff)
  moreover have "length (take (nat keep) ?s) = min (nat keep) (length listing)" by simp
  ultimately show ?thesis using r by blast
qed

end
