(* ===== verification/System_Reach.thy ===== *)
theory System_Reach
  imports Dr_Safety Recovery_Test Policy State_Backup
begin

text \<open>
  The state database under all the operations that write it: those of \<open>BackupEngine\<close>, its backup of the
  database, the certified and the managed engine, protection policies, the disaster-recovery orchestrator, and
  what the portals and the setup wizard write directly. The invariant says that the audit chain verifies and
  that every table has unique keys; it holds after every operation, whatever the configuration, the
  environment and the outcome.
\<close>

section \<open>The invariant\<close>

definition keys_unique :: "db \<Rightarrow> bool" where
  "keys_unique d \<longleftrightarrow>
     distinct (map j_id (jobs d)) \<and> distinct (map p_snapshot_id (recovery_points d)) \<and>
     distinct (map copy_key (recovery_copies d)) \<and> distinct (map q_id (restore_requests d)) \<and>
     distinct (map d_id (dr_runs d)) \<and> distinct (map w_id (dr_workloads d)) \<and> distinct (map h_name (dr_health d))"

definition sound :: "db \<Rightarrow> bool" where
  "sound d \<longleftrightarrow> fst (verify_audit_chain d) \<and> distinct (map e_id (audit_events d)) \<and> keys_unique d"

lemma sound_reads: "sound (d\<lparr>reads := n\<rparr>) = sound d"
  by (simp add: sound_def keys_unique_def verify_audit_chain_def)

lemma sound_audit: "sound d \<Longrightarrow> sound (audit a b c e f d)"
proof -
  assume d: "sound d"
  obtain ev where "audit_events (audit a b c e f d) = audit_events d @ [ev]" "e_id ev = next_rowid e_id (audit_events d)"
    using audit_events_audit [of a b c e f d] by blast
  then have "distinct (map e_id (audit_events (audit a b c e f d)))"
    using d by (simp add: sound_def next_rowid_fresh)
  moreover have "fst (verify_audit_chain (audit a b c e f d))"
    using d log_step_audit [of d a b c e f] by (simp add: sound_def log_step_def)
  ultimately show ?thesis using d by (simp add: sound_def keys_unique_def audit_frame)
qed

text \<open>The other operations do not write the log, apart from ending with an audit event.\<close>

lemma sound_tables:
  "sound d \<Longrightarrow> audit_events t = audit_events d \<Longrightarrow> (keys_unique d \<Longrightarrow> keys_unique t) \<Longrightarrow> sound t"
  by (simp add: sound_def verify_iff_chained)

lemma sound_update:
  "sound d \<Longrightarrow> (\<And>q. q_id (f q) = q_id q) \<Longrightarrow> sound (update_request i f d)"
  by (erule sound_tables)
    (simp_all add: update_request_def keys_unique_def map_update_where)

lemma sound_rows:
  "sound d \<Longrightarrow> sound (snd (start_job pl vi vn d))"
  "sound d \<Longrightarrow> sound (finish_job i st jsid err d)"
  "sound d \<Longrightarrow> sound (upsert_recovery_point p d)"
  "sound d \<Longrightarrow> sound (upsert_recovery_copy sid tg bk url pv cst im lk cerr v d)"
  "sound d \<Longrightarrow> sound (mark_points_expired ids d)"
  "sound d \<Longrightarrow> sound (snd (mark_verified sid v ds d))"
  "sound d \<Longrightarrow> sound (mark_copy_verified sid tg v cerr d)"
  "sound d \<Longrightarrow> sound (finish_restore i ok res err d)"
  "sound d \<Longrightarrow> sound (snd (create_dr_run dir src tgt kvs d))"
  "sound d \<Longrightarrow> sound (finish_dr_run i ok kvs err d)"
  "sound d \<Longrightarrow> sound (snd (add_dr_workload i n sp tp st wsid wn kvs err d))"
  "sound d \<Longrightarrow> sound (snd (update_dr_health n h kvs d))"
proof -
  note row = utcnow_eq Let_def keys_unique_def insert_row_def next_rowid_fresh map_update_where distinct_upsert_row
    distinct_replace_row
  show "sound d \<Longrightarrow> sound (snd (start_job pl vi vn d))"
    by (erule sound_tables) (simp_all add: start_job_def row)
  show "sound d \<Longrightarrow> sound (finish_job i st jsid err d)"
    by (erule sound_tables) (simp_all add: finish_job_def row)
  show "sound d \<Longrightarrow> sound (upsert_recovery_point p d)"
    by (erule sound_tables) (simp_all add: upsert_recovery_point_def row)
  show "sound d \<Longrightarrow> sound (upsert_recovery_copy sid tg bk url pv cst im lk cerr v d)"
    by (erule sound_tables) (simp_all add: upsert_recovery_copy_def put_copy_def row split: prod.split)
  show "sound d \<Longrightarrow> sound (mark_points_expired ids d)"
    by (erule sound_tables) (simp_all add: mark_points_expired_def row)
  show "sound d \<Longrightarrow> sound (snd (mark_verified sid v ds d))"
    by (erule sound_tables) (simp_all add: mark_verified_def row split: option.split)
  show "sound d \<Longrightarrow> sound (mark_copy_verified sid tg v cerr d)"
    by (erule sound_tables) (simp_all add: mark_copy_verified_def copy_key_def row)
  show "sound d \<Longrightarrow> sound (finish_restore i ok res err d)"
    unfolding finish_restore_def utcnow_eq Let_def by (simp add: sound_update sound_reads)
  show "sound d \<Longrightarrow> sound (snd (create_dr_run dir src tgt kvs d))"
    by (erule sound_tables) (simp_all add: create_dr_run_def row)
  show "sound d \<Longrightarrow> sound (finish_dr_run i ok kvs err d)"
    by (erule sound_tables) (simp_all add: finish_dr_run_def row)
  show "sound d \<Longrightarrow> sound (snd (add_dr_workload i n sp tp st wsid wn kvs err d))"
    by (erule sound_tables) (simp_all add: add_dr_workload_def row)
  show "sound d \<Longrightarrow> sound (snd (update_dr_health n h kvs d))"
    by (erule sound_tables) (simp_all add: update_dr_health_def put_health_def row)
qed

lemma sound_logged_rows:
  "sound d \<Longrightarrow> sound (snd (extend_immutability sid t ac re d))"
  "sound d \<Longrightarrow> sound (snd (create_restore_request rq p tp tn opts st d))"
  "sound d \<Longrightarrow> sound (snd (approve_restore i approver eyes d))"
  "sound d \<Longrightarrow> sound (snd (start_restore i actor d))"
proof -
  show "sound d \<Longrightarrow> sound (snd (extend_immutability sid t ac re d))"
    by (auto simp: extend_immutability_def Let_def split: option.split
        intro!: sound_audit elim!: sound_tables) (simp add: keys_unique_def map_update_where)
  show "sound d \<Longrightarrow> sound (snd (create_restore_request rq p tp tn opts st d))"
    by (auto simp: create_restore_request_def utcnow_eq Let_def insert_row_def
        intro!: sound_audit elim!: sound_tables) (simp add: keys_unique_def next_rowid_fresh)
  show "sound d \<Longrightarrow> sound (snd (approve_restore i approver eyes d))"
    by (auto simp: approve_restore_def utcnow_eq Let_def sound_reads split: option.split
        intro!: sound_audit sound_update)
  show "sound d \<Longrightarrow> sound (snd (start_restore i actor d))"
    by (auto simp: start_restore_def utcnow_eq Let_def sound_reads split: option.split
        intro!: sound_audit sound_update)
qed

lemma hashed_unchanged: "chained prev es \<Longrightarrow> prev \<noteq> [] \<Longrightarrow> backfill_rows prev es = es"
  by (induction es arbitrary: prev) (auto simp: Let_def text_or_def)

lemma sound_reopened: "sound d \<Longrightarrow> sound (backfill_audit_hashes d)"
  by (simp add: sound_def verify_iff_chained backfill_audit_hashes_def hashed_unchanged keys_unique_def)

lemmas sound_ops = sound_audit sound_rows sound_logged_rows

section \<open>Every operation keeps it\<close>

abbreviation keeps_sound :: "'a act \<Rightarrow> bool" where
  "keeps_sound m \<equiv> steps (preserves sound) m"

lemma sound_service: "steps service m \<Longrightarrow> keeps_sound m"
  by (erule preserves_service) (rule sound_reads)

lemma sound_memorize: "keeps_sound (memorize k v)"
  by (simp add: steps_def preserves_def memorize_def)

lemma sound_attempts: "keeps_sound m \<Longrightarrow> keeps_sound (Dr_Failover.attempt m)" "keeps_sound m \<Longrightarrow> keeps_sound (Phases.attempt m)"
  unfolding Dr_Failover.attempt_def Phases.attempt_def by (intro preserves_rules; assumption)+

lemma sound_gather: "(\<And>x. keeps_sound (f x)) \<Longrightarrow> keeps_sound (gather f xs)"
  by (induction xs) (auto intro!: preserves_rules sound_attempts)

lemma sound_run: "keeps_sound (run_command E cmd envs chk)"
  unfolding run_command_def by (intro preserves_rules)

lemmas sound_rules = preserves_rules sound_ops sound_attempts sound_gather sound_memorize sound_run
  sound_service [OF service_lift]

lemmas sound_services = sound_service [OF service_now] sound_service [OF service_utcnow]
  sound_service [OF service_copy] sound_service [OF service_repo_restore] sound_service [OF service_repo_backup]
  sound_service [OF service_provider_lock] sound_service [OF service_init_target] sound_service [OF service_s3_preflight]
  sound_service [OF service_ensure_r2] sound_service [OF service_capacity] sound_service [OF service_rmtree]
  sound_service [OF service_tree] sound_service [OF restore_source_service] sound_service [OF service_stage]
  sound_service [OF service_replica_health] sound_service [OF service_plan_workload] sound_service [OF service_platform]

subsection \<open>The engine\<close>

lemma sound_engine_retention: "keeps_sound (retention E cfg)"
  unfolding retention_def restic_retention_def restic_run_def by (intro sound_rules sound_services)

lemma sound_verify: "keeps_sound (verify_recovery_point E cfg sid actor)"
  unfolding verify_recovery_point_def by (intro sound_rules sound_services)

lemma sound_replicate: "keeps_sound (replicate_to E cfg sid d u r)"
  unfolding replicate_to_def by (intro sound_rules sound_services)

lemma sound_backup_vm: "keeps_sound (backup_vm E cfg pl v info dry)"
  unfolding backup_vm_def backup_failed_def backup_body_def export_and_back_up_def exported_consistency_def write_manifest_def
    read_tree_def record_backup_def
  by (intro sound_rules sound_services sound_verify sound_replicate)

lemma sound_backup_all: "keeps_sound (backup_all E cfg dry)"
  unfolding backup_all_def exclusive_lock_def ensure_staging_capacity_def backup_platform_def build_adapter_def
    platform_info_or_error_def adapter_inventory_def
  by (intro sound_rules sound_services sound_backup_vm)

lemma sound_hold: "keeps_sound (hold_recovery_point E cfg sid actor days reason)"
  unfolding hold_recovery_point_def hold_on_replica_def by (intro sound_rules sound_services)

lemma sound_request: "keeps_sound (request_restore cfg sid rq tp tn opts)"
  unfolding request_restore_def by (intro sound_rules sound_services)

lemma sound_approve: "keeps_sound (approve_request cfg i a)"
  unfolding approve_request_def by (intro sound_rules)

lemma sound_init: "keeps_sound (init_replica E cfg n)"
  unfolding init_replica_def engine_replica_def by (intro sound_rules sound_services)

lemma sound_init_lock: "keeps_sound (init_replica_lock E cfg n)"
  unfolding init_replica_lock_def engine_replica_def by (intro sound_rules sound_services)

lemma sound_execute: "keeps_sound (execute_restore E cfg i actor dry)"
  unfolding execute_restore_def build_adapter_def restore_preflight_def adapter_doctor_def import_vm_def
  by (intro sound_rules sound_services)

lemma sound_backup_state: "keeps_sound (backup_state_database E cfg)"
  unfolding backup_state_database_def backup_database_def by (intro sound_rules sound_services)


subsection \<open>Conversions between hypervisors\<close>

lemma sound_px: "keeps_sound (px_run E pl script chk)" "keeps_sound (px_out E pl script)"
  "keeps_sound (px_do E pl script chk)" "keeps_sound (px_put E pl path remote)"
  unfolding px_run_def px_out_def px_do_def px_put_def by (intro sound_rules)+

lemma sound_doctor: "keeps_sound (builtin_doctor E c)"
  unfolding builtin_doctor_def not_installed_def by (intro sound_rules)

lemma sound_payload: "keeps_sound (provider_payload E pr action request)"
  unfolding provider_payload_def
  by (intro sound_rules)
    (auto split: json.split intro: preserves.steps_ret [unfolded ret_def] preserves.steps_throw [unfolded throw_def])

lemma sound_provider: "keeps_sound (execute_provider E pr source p target name options dry)"
  unfolding execute_provider_def provider_doctor_def by (intro sound_rules sound_payload)

lemma sound_manifests: "keeps_sound (add_manifests E files ms)"
  by (induction ms arbitrary: files) (auto intro!: sound_rules simp only: add_manifests.simps)

lemma sound_ova: "keeps_sound (prepare_ova E source work)"
  unfolding prepare_ova_def base_prepare_ova_def refuse_symlink_def referenced_file_def parse_xml_def ovf_descriptors_def
  by (intro sound_rules sound_manifests)

lemma sound_convert: "keeps_sound (convert_vmware E c source name work)"
  unfolding convert_vmware_def inspection_def virtio_windows_available_def parse_bundle_def base_parse_bundle_def
    converted_image_def parse_xml_def
  by (intro sound_rules sound_doctor sound_ova)

lemma sound_storage: "keeps_sound (preflight_storage E target options efi)"
  unfolding preflight_storage_def check_storage_def by (intro sound_rules sound_px)

lemma sound_disks: "keeps_sound (import_disks E target vmid storage i ds)"
  by (induction ds arbitrary: i)
    (auto intro!: sound_rules sound_px simp only: import_disks.simps import_disk_def config_of_def)

lemma sound_create: "keeps_sound (create_machine E target vmid storage efi b bridges name)"
  unfolding create_machine_def remove_images_def build_machine_def finish_machine_def config_of_def
  by (intro sound_rules sound_px sound_disks)

lemma sound_target: "keeps_sound (restore_proxmox E c b target name options dry)"
  unfolding restore_proxmox_def base_restore_proxmox_def preflight_bridges_def check_bridge_def next_vmid_def
  by (intro sound_rules sound_px sound_storage sound_create)

lemma sound_execute_v2v: "keeps_sound (execute_v2v E c source p target name options dry)"
  unfolding execute_v2v_def base_execute_v2v_def
  by (intro sound_rules sound_storage sound_convert sound_target sound_provider)

lemma sound_v2v_request: "keeps_sound (v2v_request_restore cfg c sid rq tp tn opts)"
  unfolding v2v_request_restore_def by (intro sound_rules sound_services sound_request)

lemma sound_v2v_execute: "keeps_sound (v2v_execute_restore E cfg c i actor dry)"
  unfolding v2v_execute_restore_def v2v_execute_cross_def v2v_preflight_def convert_point_def build_adapter_def adapter_doctor_def
  by (intro sound_rules sound_services sound_execute sound_execute_v2v)


lemma sound_govc: "keeps_sound (govc E envs args chk)" "keeps_sound (govc_here E pl args chk)"
  unfolding govc_here_def govc_def by (intro sound_rules)+

lemma sound_validate: "keeps_sound (validate_network E pl network)"
  unfolding validate_network_def network_found_def xcp_network_uuid_def by (intro sound_rules sound_govc sound_px)

lemma sound_isolate: "keeps_sound (isolate E pl restored network)"
  unfolding isolate_def isolate_vmware_def isolate_proxmox_def isolate_xcpng_def vmware_devices_def
  by (intro sound_rules sound_govc sound_px sound_validate)

lemma sound_run_test: "keeps_sound (run_test E m i actor target network restored)"
  unfolding run_test_def test_machine_def boot_test_def power_off_machine_def clean_machine_def conclude_test_def
    running_vm_def destroy_vm_def
  by (intro sound_rules sound_services sound_isolate sound_govc sound_px)

lemma sound_validate_test: "keeps_sound (validate_dr_test E cfg m p name options)"
  unfolding validate_dr_test_def build_adapter_def by (intro sound_rules sound_services sound_validate)

lemma sound_managed_request: "keeps_sound (managed_request_restore E cfg c m sid rq tp tn opts)"
  unfolding managed_request_restore_def by (intro sound_rules sound_v2v_request sound_validate_test)

lemma sound_managed_execute: "keeps_sound (managed_execute_restore E cfg c m i actor dry)"
  unfolding managed_execute_restore_def managed_test_def conclude_test_def build_adapter_def
  by (intro sound_rules sound_services sound_v2v_execute sound_validate_test sound_run_test)

lemma sound_policy: "keeps_sound (policy_run E cfg i dry actor)"
  unfolding policy_run_def by (intro sound_rules sound_backup_all)

subsection \<open>Disaster recovery\<close>

lemma sound_gateway:
  "keeps_sound (gateway_prepare E cfg name)" "keeps_sound (gateway_activate E cfg name dry)"
  "keeps_sound (gateway_deactivate E cfg name dry tol)" "keeps_sound (gateway_preflight E cfg name)"
  unfolding gateway_prepare_def gateway_activate_def gateway_deactivate_def gateway_preflight_def run_script_def
  by (intro sound_rules)+

lemma sound_probes: "keeps_sound (run_health_checks E cs)"
  unfolding run_health_checks_def run_health_check_def probe_def by (intro sound_rules)

lemma sound_wait: "keeps_sound (wait_attempts E cs i n k)"
  by (induction n arbitrary: k) (auto intro!: sound_rules sound_probes simp: Let_def)

lemma sound_start: "keeps_sound (start_workload E purpose x)"
  unfolding start_workload_def power_on_def wait_workload_health_def by (intro sound_rules sound_wait)

lemma sound_maintenance: "keeps_sound (maintenance E cfg action actor)"
  unfolding maintenance_def dr_required_def by (intro sound_rules sound_services)

lemma sound_sync: "keeps_sound (sync E cfg)"
  unfolding sync_def dr_required_def sync_workload_def engine_replica_def by (intro sound_rules sound_services)

lemma sound_plan: "keeps_sound (make_plan cfg)"
  unfolding make_plan_def dr_required_def by (intro sound_rules sound_services)

lemma sound_dr_preflight: "keeps_sound (dr_preflight E cfg given)"
  unfolding dr_preflight_def dr_required_def replica_preflight_def target_preflight_def network_preflight_def
    build_adapter_def adapter_doctor_def engine_replica_def
  by (intro sound_rules sound_services sound_plan sound_gateway)

lemma sound_fail_over: "keeps_sound (fail_over E cfg p)"
  unfolding fail_over_def failover_body_def undo_failover_def complete_failover_def restore_workload_def power_off_def
    build_adapter_def
  by (intro sound_rules sound_services sound_gateway sound_execute sound_start)

lemma sound_promote: "keeps_sound (promote E cfg execute confirmed automatic)"
  unfolding promote_def dr_required_def fence_primary_def run_fence_command_def Let_def
  by (intro sound_rules sound_services sound_plan sound_dr_preflight sound_fail_over)

lemma sound_power_off: "keeps_sound (power_off_on E cfg platform result)"
  unfolding power_off_on_def power_off_def build_adapter_def by (intro sound_rules sound_services)

lemma sound_demote: "keeps_sound (demote_dr E cfg execute)"
  unfolding demote_dr_def dr_required_def Let_def by (intro sound_rules sound_gateway sound_power_off)

lemma sound_final_backup: "keeps_sound (final_backup E cfg row)"
  unfolding final_backup_def row_workload_def build_adapter_def adapter_inventory_def platform_info_or_error_def
  by (intro sound_rules sound_services sound_backup_vm)

lemma sound_failback: "keeps_sound (failback E cfg execute confirmed)"
  unfolding failback_def dr_required_def failback_body_def restore_home_def row_workload_def build_adapter_def
  by (intro sound_rules sound_services sound_gateway sound_execute sound_start sound_power_off sound_final_backup)

lemma sound_watch: "keeps_sound (watch E cfg)"
  unfolding watch_def dr_required_def not_due_def observe_primary_def Let_def
  by (intro sound_rules sound_services sound_probes sound_promote)


section \<open>Reachable states\<close>

text \<open>
  The operations, with the engine's nine as \<open>Engine_Op\<close>. \<open>Copy_Checked\<close> is what the setup wizard writes after it
  looked at a copy, \<open>Event\<close> an event that a portal or the wizard writes by itself (logins, file recovery,
  changes of the configuration), and \<open>Reopen\<close> the start of a process on the existing database.
\<close>

datatype system_op =
    Engine_Op operation
  | Save_State
  | Certified_Request string string string "string option" "(string \<times> json) list"
  | Certified_Execute nat string bool
  | Managed_Request string string string "string option" "(string \<times> json) list"
  | Managed_Execute nat string bool
  | Policy_Run v11_config string bool string
  | Maintain string string
  | Synchronise
  | Check_Dr
  | Promote bool bool bool
  | Demote bool
  | Fail_Back bool bool
  | Watch
  | Copy_Checked string string bool "string option"
  | Event string string string string json
  | Reopen

fun operate :: "env \<Rightarrow> config \<Rightarrow> v2v_config \<Rightarrow> management_config \<Rightarrow> system_op \<Rightarrow> sys \<Rightarrow> sys" where
  "operate E cfg c m (Engine_Op op) = perform E cfg op"
| "operate E cfg c m Save_State = discard (backup_state_database E cfg)"
| "operate E cfg c m (Certified_Request sid rq tp tn opts) = discard (v2v_request_restore cfg c sid rq tp tn opts)"
| "operate E cfg c m (Certified_Execute i actor dry) = discard (v2v_execute_restore E cfg c i actor dry)"
| "operate E cfg c m (Managed_Request sid rq tp tn opts) = discard (managed_request_restore E cfg c m sid rq tp tn opts)"
| "operate E cfg c m (Managed_Execute i actor dry) = discard (managed_execute_restore E cfg c m i actor dry)"
| "operate E cfg c m (Policy_Run v i dry actor) = discard (policy_run E v i dry actor)"
| "operate E cfg c m (Maintain action actor) = discard (maintenance E cfg action actor)"
| "operate E cfg c m Synchronise = discard (sync E cfg)"
| "operate E cfg c m Check_Dr = discard (dr_preflight E cfg None)"
| "operate E cfg c m (Promote execute confirmed automatic) = discard (promote E cfg execute confirmed automatic)"
| "operate E cfg c m (Demote execute) = discard (demote_dr E cfg execute)"
| "operate E cfg c m (Fail_Back execute confirmed) = discard (failback E cfg execute confirmed)"
| "operate E cfg c m Watch = discard (watch E cfg)"
| "operate E cfg c m (Copy_Checked sid target ok err) = discard (change (mark_copy_verified sid target ok err))"
| "operate E cfg c m (Event actor action ty i details) = discard (change (audit actor action ty i details))"
| "operate E cfg c m Reopen = discard (change backfill_audit_hashes)"

text \<open>Every operation may run under a configuration and an environment of its own.\<close>

inductive attained :: "sys \<Rightarrow> bool" where
  empty: "attained \<lparr>database = create_schema clk, trace = [], memory = []\<rparr>"
| operation: "attained s \<Longrightarrow> attained (operate E cfg c m op s)"

lemma perform_sound: "sound (database s) \<Longrightarrow> sound (database (perform E cfg op s))"
proof -
  assume s: "sound (database s)"
  have ok: "sound (database (discard m s))" if "keeps_sound m" for m :: "'x act"
    using that s by (simp add: steps_def preserves_def discard_def)
  show ?thesis
    by (cases op) (simp_all add: ok sound_backup_all sound_engine_retention sound_hold sound_request sound_approve
        sound_execute sound_verify sound_init sound_init_lock)
qed

lemma operate_sound: "sound (database s) \<Longrightarrow> sound (database (operate E cfg c m op s))"
proof -
  assume s: "sound (database s)"
  have ok: "sound (database (discard m s))" if "keeps_sound m" for m :: "'x act"
    using that s by (simp add: steps_def preserves_def discard_def)
  have direct: "keeps_sound (change (mark_copy_verified sid target v err))" "keeps_sound (change (audit a1 a2 a3 a4 a5))"
    "keeps_sound (change backfill_audit_hashes)" for sid target v err a1 a2 a3 a4 a5
    by (rule preserves_change, erule sound_ops sound_reopened)+
  show ?thesis
    by (cases op) (simp_all add: ok direct perform_sound [OF s] sound_backup_state sound_v2v_request sound_v2v_execute
        sound_managed_request sound_managed_execute sound_policy sound_maintenance sound_sync sound_dr_preflight
        sound_promote sound_demote sound_failback sound_watch)
qed

lemma attained_sound: "attained s \<Longrightarrow> sound (database s)"
proof (induction rule: attained.induct)
  case (empty clk)
  show ?case by (simp add: sound_def keys_unique_def create_schema_def verify_audit_chain_def)
next
  case (operation s E cfg c m op)
  from operation.IH show ?case by (rule operate_sound)
qed

section \<open>Claims\<close>

text \<open>C22. In every state reached from an empty database by any sequence of the operations of \<open>system_op\<close>, under any
  configurations and environments and whatever their outcome, the audit chain verifies, no two audit events
  have the same id, and the keys of jobs, recovery points, copies, restore requests, disaster-recovery runs,
  recovered workloads and probe counters are unique.\<close>

theorem reachable_states_sound:
  assumes "attained s"
  shows "fst (verify_audit_chain (database s)) \<and> distinct (map e_id (audit_events (database s))) \<and>
    distinct (map j_id (jobs (database s))) \<and> distinct (map p_snapshot_id (recovery_points (database s))) \<and>
    distinct (map copy_key (recovery_copies (database s))) \<and> distinct (map q_id (restore_requests (database s))) \<and>
    distinct (map d_id (dr_runs (database s))) \<and> distinct (map w_id (dr_workloads (database s))) \<and>
    distinct (map h_name (dr_health (database s)))"
  using attained_sound [OF assms] by (simp add: sound_def keys_unique_def)

text \<open>Two failed backups, a backup of the database, a failed probe and a maintenance.\<close>

definition busy_env :: env where
  "busy_env = outage_env\<lparr>bool_reply := (\<lambda>h c. Inr False), text_reply := (\<lambda>h c. Inl (RuntimeError ''export failed'')),
     vms_reply := (\<lambda>h c. Inr (if c = Adapter ''vsphere'' Inventory then [sample_vm] else []))\<rparr>"

definition busy_counts :: "nat \<Rightarrow> nat \<Rightarrow> nat \<Rightarrow> sys \<Rightarrow> bool" where
  "busy_counts a j h s \<longleftrightarrow> length (audit_events (database s)) = a \<and> length (jobs (database s)) = j \<and>
     length (dr_health (database s)) = h"

lemma length_audit: "length (audit_events (audit a b c e f d)) = Suc (length (audit_events d))"
  using audit_events_audit [of a b c e f d] by auto

lemma busy_selected: "selected_vm (default_platform ''vsphere'' ''vmware'' ''https://vc'') ''db''"
  by code_simp

lemma busy_backup: "busy_counts a j h s \<Longrightarrow> 
  busy_counts (Suc a) (Suc j) h (operate busy_env automatic_config c m (Engine_Op (Backup False)) s)"
  using busy_selected
  by (simp add: busy_counts_def discard_def backup_all_def exclusive_lock_def ensure_staging_capacity_def
      ensure_path_capacity_def backup_platform_def build_adapter_def platform_info_or_error_def adapter_inventory_def
      enabled_platforms_def automatic_config_def failover_config_def sample_config_def default_config_def
      default_platform_def default_repository_def default_runtime_def busy_env_def outage_env_def restore_env_def sample_env_def
      then_act_def bind_act_def catch_def finally_act_def ask_def ask_ignore_def check_run ret_def call_db_def now_utc_def
      backup_vm_def backup_body_def backup_failed_def export_and_back_up_def start_job_def finish_job_def insert_row_def
      utcnow_eq Let_def rmtree_def when_act_def length_audit audit_frame free_percent_def sample_vm_def)


lemma busy_save: "busy_counts a j h s \<Longrightarrow> busy_counts (Suc a) j h (operate busy_env automatic_config c m Save_State s)"
  by (simp add: busy_counts_def discard_def backup_state_database_def backup_database_def automatic_config_def
      failover_config_def sample_config_def default_config_def default_runtime_def busy_env_def outage_env_def restore_env_def
      sample_env_def then_act_def bind_act_def ask_def check_run ret_def call_db_def now_utc_def Let_def length_audit outdated_def audit_frame)

lemma busy_maintain:
  "busy_counts a j h s \<Longrightarrow> busy_counts (Suc a) j h (operate busy_env automatic_config c m (Maintain ''on'' ''alice'') s)"
proof -
  have "lower ''on'' = ''on''" by code_simp
  then show "busy_counts a j h s \<Longrightarrow> ?thesis"
    by (simp add: busy_counts_def discard_def maintenance_def dr_required_def automatic_config_def failover_config_def
      sample_pair_def busy_env_def outage_env_def restore_env_def sample_env_def then_act_def bind_act_def ask_def check_run
      ret_def call_db_def now_utc_def Let_def length_audit audit_frame)
qed

lemma busy_watch: "busy_counts a j 0 s \<Longrightarrow> busy_counts a j 1 (operate busy_env automatic_config c m Watch s)"
  by (simp add: busy_counts_def discard_def watch_def dr_required_def observe_primary_def automatic_config_def
      failover_config_def sample_pair_def default_dr_def run_health_checks_def run_health_check_def probe_def Let_def then_act_def
      bind_act_def check_run opt_nonempty_def ask_def busy_env_def outage_env_def catch_def probe_failure_def ret_def call_db_def
      update_dr_health_def get_dr_health_def row_by_def utcnow_eq put_health_def upsert_row_def passed_def
      required_failures_def not_due_def)

definition busy_state :: sys where
  "busy_state = fold (operate busy_env automatic_config default_v2v test_management)
     [Engine_Op (Backup False), Engine_Op (Backup False), Save_State, Watch, Maintain ''on'' ''alice'']
     \<lparr>database = create_schema int, trace = [], memory = []\<rparr>"

lemma busy_attained: "attained busy_state"
  unfolding busy_state_def fold_simps comp_apply by (intro attained.operation attained.empty)

theorem reachable_states_sound_witness:
  "length (audit_events (database busy_state)) = 4 \<and> fst (verify_audit_chain (database busy_state)) \<and>
   length (jobs (database busy_state)) = 2 \<and> distinct (map j_id (jobs (database busy_state))) \<and>
   length (dr_health (database busy_state)) = 1"
proof -
  have "busy_counts 0 0 0 \<lparr>database = create_schema int, trace = [], memory = []\<rparr>"
    by (simp add: busy_counts_def create_schema_def)
  from busy_maintain [OF busy_watch [OF busy_save [OF busy_backup [OF busy_backup [OF this]]]]]
  have "busy_counts 4 2 1 busy_state" by (simp add: busy_state_def numeral_eq_Suc)
  then show ?thesis using reachable_states_sound [OF busy_attained] by (simp add: busy_counts_def)
qed

end
