(* ===== verification/Base64.thy ===== *)
theory Base64
  imports Sha256
begin

text \<open>
  The URL-safe base 64 of \<open>enterprise_auth.py\<close>: \<open>_b64url_encode\<close> without padding and \<open>_b64url_decode\<close>,
  whose reader skips characters outside the alphabet and accepts both spellings of the last two
  digits, as \<open>binascii.a2b_base64\<close> does. The lemmas show that decoding an encoded text gives the bytes
  back and that encoded texts contain no dot.
\<close>

section \<open>Encoding\<close>

definition alphabet :: string where
  "alphabet = ''ABCDEFGHIJKLMNOPQRSTUVWXYZabcdefghijklmnopqrstuvwxyz0123456789-_''"

definition sextet_char :: "nat \<Rightarrow> char" where
  "sextet_char n = alphabet ! n"

fun b64url_encode :: "byte list \<Rightarrow> string" where
  "b64url_encode (a # b # c # r) =
     sextet_char (unat a div 4) # sextet_char (unat a mod 4 * 16 + unat b div 16) #
     sextet_char (unat b mod 16 * 4 + unat c div 64) # sextet_char (unat c mod 64) # b64url_encode r"
| "b64url_encode [a, b] =
     [sextet_char (unat a div 4), sextet_char (unat a mod 4 * 16 + unat b div 16), sextet_char (unat b mod 16 * 4)]"
| "b64url_encode [a] = [sextet_char (unat a div 4), sextet_char (unat a mod 4 * 16)]"
| "b64url_encode [] = []"

section \<open>Decoding\<close>

text \<open>The value of a digit; \<open>None\<close> for a character outside the alphabet.\<close>

definition char_sextet :: "char \<Rightarrow> nat option" where
  "char_sextet c = map_of (zip alphabet [0..<64] @ [(CHR ''+'', 62), (CHR ''/'', 63)]) c"

text \<open>
  The reader: how many digits of the group were read, the bits left over from the last one, the
  padding seen since, and the text that follows. Enough padding ends the reading; a group that stays
  open at the end is an error.
\<close>

fun read_base64 :: "nat \<Rightarrow> nat \<Rightarrow> nat \<Rightarrow> string \<Rightarrow> byte list option" where
  "read_base64 quad left pads [] = (if quad = 0 then Some [] else None)"
| "read_base64 quad left pads (c # cs) =
     (if c = CHR ''='' then
        (if 2 \<le> quad \<and> 4 \<le> quad + Suc pads then Some []
         else read_base64 quad left (if 2 \<le> quad then Suc pads else pads) cs)
      else case char_sextet c of
        None \<Rightarrow> read_base64 quad left pads cs
      | Some s \<Rightarrow>
          (if quad = 0 then read_base64 1 s 0 cs
           else if quad = 1 then
             map_option (Cons (word_of_nat (left * 4 + s div 16))) (read_base64 2 (s mod 16) 0 cs)
           else if quad = 2 then
             map_option (Cons (word_of_nat (left * 16 + s div 4))) (read_base64 3 (s mod 4) 0 cs)
           else map_option (Cons (word_of_nat (left * 64 + s))) (read_base64 0 0 0 cs)))"

definition ascii_text :: "string \<Rightarrow> bool" where
  "ascii_text s \<longleftrightarrow> list_all (\<lambda>c. \<not> digit7 c) s"

text \<open>\<open>base64.urlsafe_b64decode(value + "=" * (-len(value) % 4))\<close>; a text that is not ASCII is refused.\<close>

definition b64url_decode :: "string \<Rightarrow> byte list option" where
  "b64url_decode s =
     (if ascii_text s then read_base64 0 0 0 (s @ replicate ((4 - length s mod 4) mod 4) (CHR ''='')) else None)"

section \<open>Round trip\<close>

lemma length_alphabet: "length alphabet = 64"
  by (simp add: alphabet_def)

lemma distinct_alphabet: "distinct alphabet"
  by (simp add: alphabet_def)

lemma alphabet_plain: "list_all (\<lambda>c. \<not> digit7 c \<and> c \<noteq> CHR ''.'' \<and> c \<noteq> CHR ''='') alphabet"
  by (simp add: alphabet_def)

lemma sextet [simp]:
  assumes "n < 64"
  shows "char_sextet (sextet_char n) = Some n" "\<not> digit7 (sextet_char n)" "sextet_char n \<noteq> CHR ''.''"
    "sextet_char n \<noteq> CHR ''=''"
proof -
  have "map_of (zip alphabet [0..<64]) (alphabet ! n) = Some n"
    using assms distinct_alphabet by (intro map_of_is_SomeI) (auto simp: in_set_zip length_alphabet intro!: exI [of _ n])
  then show "char_sextet (sextet_char n) = Some n" by (simp add: char_sextet_def sextet_char_def)
  show "\<not> digit7 (sextet_char n)" "sextet_char n \<noteq> CHR ''.''" "sextet_char n \<noteq> CHR ''=''"
    using alphabet_plain assms by (auto simp: sextet_char_def list_all_length length_alphabet)
qed

lemma byte_lt: "unat (a :: byte) < 256"
  using unsigned_less [of a, where 'a = nat] by simp

lemma word_nat_cast: "word_of_nat (unat w) = (w :: byte)"
  by simp

lemma digit_split:
  fixes k m d :: nat
  assumes "k < d"
  shows "(m * d + k) div d = m" "(m * d + k) mod d = k"
  using assms by simp_all

lemma byte_bounds [simp]:
  fixes a b c :: byte
  shows "unat a div 4 < 64" "unat a mod 4 * 16 + unat b div 16 < 64" "unat b mod 16 * 4 + unat c div 64 < 64" "unat c mod 64 < 64"
    "unat a mod 4 * 16 < 64" "unat b mod 16 * 4 < 64"
proof -
  have "unat a div 4 < 64" "unat b div 16 < 16" "unat c div 64 < 4" "unat a mod 4 < 4" "unat b mod 16 < 16"
    using byte_lt [of a] byte_lt [of b] byte_lt [of c] by (simp_all add: div_less_iff_less_mult)
  then show "unat a div 4 < 64" "unat a mod 4 * 16 + unat b div 16 < 64" "unat b mod 16 * 4 + unat c div 64 < 64"
    "unat c mod 64 < 64" "unat a mod 4 * 16 < 64" "unat b mod 16 * 4 < 64"
    by linarith+
qed

lemma three_bytes:
  fixes a b c :: byte
  shows "word_of_nat (unat a div 4 * 4 + (unat a mod 4 * 16 + unat b div 16) div 16) = a"
    "word_of_nat ((unat a mod 4 * 16 + unat b div 16) mod 16 * 16 + (unat b mod 16 * 4 + unat c div 64) div 4) = b"
    "word_of_nat ((unat b mod 16 * 4 + unat c div 64) mod 4 * 64 + unat c mod 64) = c"
    "word_of_nat (unat a div 4 * 4 + unat a mod 4 * 16 div 16) = a"
    "word_of_nat ((unat a mod 4 * 16 + unat b div 16) mod 16 * 16 + unat b mod 16 * 4 div 4) = b"
proof -
  have "unat b div 16 < 16" "unat c div 64 < 4"
    using byte_lt [of b] byte_lt [of c] by (simp_all add: div_less_iff_less_mult)
  then show
    "word_of_nat (unat a div 4 * 4 + (unat a mod 4 * 16 + unat b div 16) div 16) = a"
    "word_of_nat ((unat a mod 4 * 16 + unat b div 16) mod 16 * 16 + (unat b mod 16 * 4 + unat c div 64) div 4) = b"
    "word_of_nat ((unat b mod 16 * 4 + unat c div 64) mod 4 * 64 + unat c mod 64) = c"
    "word_of_nat (unat a div 4 * 4 + unat a mod 4 * 16 div 16) = a"
    "word_of_nat ((unat a mod 4 * 16 + unat b div 16) mod 16 * 16 + unat b mod 16 * 4 div 4) = b"
    by (simp_all only: digit_split div_mult_mod_eq nonzero_mult_div_cancel_right numeral_neq_zero not_False_eq_True
        word_nat_cast simp_thms)
qed

lemma encode_ascii: "ascii_text (b64url_encode bs)"
  by (induction bs rule: b64url_encode.induct) (simp_all add: ascii_text_def)

lemma encode_no_dot: "CHR ''.'' \<notin> set (b64url_encode bs)"
  by (induction bs rule: b64url_encode.induct) (auto dest: sym [of "CHR ''.''"])

lemma length_encode: "length (b64url_encode bs) mod 4 = (if length bs mod 3 = 0 then 0 else Suc (length bs mod 3))"
  by (induction bs rule: b64url_encode.induct) (auto simp: mod_Suc)

text \<open>One digit, and the end of a padded group.\<close>

lemma read_digit:
  assumes "n < 64"
  shows "read_base64 0 l p (sextet_char n # cs) = read_base64 1 n 0 cs"
    "read_base64 1 l p (sextet_char n # cs) = map_option (Cons (word_of_nat (l * 4 + n div 16))) (read_base64 2 (n mod 16) 0 cs)"
    "read_base64 2 l p (sextet_char n # cs) = map_option (Cons (word_of_nat (l * 16 + n div 4))) (read_base64 3 (n mod 4) 0 cs)"
    "read_base64 3 l p (sextet_char n # cs) = map_option (Cons (word_of_nat (l * 64 + n))) (read_base64 0 0 0 cs)"
  using assms by simp_all

lemma read_padding: "read_base64 3 l p [CHR ''=''] = Some []" "read_base64 2 l 0 [CHR ''='', CHR ''=''] = Some []"
  by simp_all

text \<open>The reader over an encoded text and the padding that its length asks for.\<close>

lemma read_encode:
  "read_base64 0 0 0 (b64url_encode bs @ replicate ((4 - length (b64url_encode bs) mod 4) mod 4) (CHR ''='')) = Some bs"
proof (induction bs rule: b64url_encode.induct)
  case (1 a b c r)
  have "(4 - length (b64url_encode (a # b # c # r)) mod 4) mod 4 = (4 - length (b64url_encode r) mod 4) mod 4" by simp
  then show ?case
    by (simp only: b64url_encode.simps append_Cons read_digit byte_bounds three_bytes 1 option.map)
next
  case (2 a b)
  have "(4 - length (b64url_encode [a, b]) mod 4) mod 4 = 1" by simp
  then show ?case
    by (simp only: b64url_encode.simps append_Cons append_Nil replicate_Suc replicate_0 One_nat_def read_digit [unfolded One_nat_def]
      byte_bounds three_bytes read_padding option.map)
next
  case (3 a)
  have "(4 - length (b64url_encode [a]) mod 4) mod 4 = Suc (Suc 0)" by simp
  then show ?case
    by (simp only: b64url_encode.simps append_Cons append_Nil replicate_Suc replicate_0 read_digit
      byte_bounds three_bytes read_padding option.map)
qed simp

lemma decode_encode [simp]: "b64url_decode (b64url_encode bs) = Some bs"
  by (simp add: b64url_decode_def encode_ascii read_encode)

end
