(* ===== verification/Signed_Token.thy ===== *)
theory Signed_Token
  imports Restic Base64 Enterprise_Config
begin

text \<open>
  \<open>SignedToken\<close> and \<open>Identity\<close> of \<open>enterprise_auth.py\<close>, and the tickets of the event stream
  (\<open>enterprise_ops.py\<close>): a payload in canonical JSON and URL-safe base 64, a dot, and its HMAC-SHA-256.
  The lemmas show that a token gives back the identity it was issued for until it expires, and that
  nothing is accepted without the signature of its body.
\<close>

section \<open>Time and text\<close>

text \<open>\<open>int(time.time())\<close>: seconds since 1970.\<close>

definition epoch_seconds :: "instant \<Rightarrow> int" where
  "epoch_seconds t = t div second_us + 946684800"

definition time_now :: "int act" where
  "time_now = bind_act (call_db now_utc) (\<lambda>t. ret (epoch_seconds t))"

text \<open>\<open>s.encode()\<close>, and the text of UTF-8 bytes; code points beyond 255 are outside the model and are
  refused.\<close>

definition utf8 :: "string \<Rightarrow> byte list" where
  "utf8 s = map word_of_nat (concat (map utf8_bytes s))"

fun utf8_text :: "byte list \<Rightarrow> string option" where
  "utf8_text [] = Some []"
| "utf8_text (b # bs) =
     (if b < 0x80 then map_option (Cons (char_of (unat b))) (utf8_text bs)
      else if b = 0xC2 \<or> b = 0xC3 then
        (case bs of
           c # cs \<Rightarrow>
             if 0x80 \<le> c \<and> c < 0xC0
             then map_option (Cons (char_of ((unat b - 0xC0) * 64 + (unat c - 0x80)))) (utf8_text cs)
             else None
         | [] \<Rightarrow> None)
      else None)"

section \<open>Signed tokens\<close>

text \<open>The constructor: the key as bytes.\<close>

definition signed_token :: "string \<Rightarrow> byte list res" where
  "signed_token secret =
     check_res (32 \<le> length (utf8 secret)) (ValueError ''OIDC session secret must contain at least 32 bytes'')
       (Inr (utf8 secret))"

definition signer_from_env :: "env \<Rightarrow> string \<Rightarrow> byte list res" where
  "signer_from_env E name =
     (case getenv E name of
        None \<Rightarrow> Inl (RuntimeError (name @ '' is required when enterprise OIDC/session signing is enabled''))
      | Some secret \<Rightarrow>
          check_res (secret \<noteq> []) (RuntimeError (name @ '' is required when enterprise OIDC/session signing is enabled''))
            (signed_token secret))"

definition json_b64 :: "json \<Rightarrow> string" where
  "json_b64 v = b64url_encode (encode (dumps v))"

definition token_signature :: "byte list \<Rightarrow> string \<Rightarrow> string" where
  "token_signature key body = b64url_encode (hmac_sha256 key (utf8 body))"

definition token_encode :: "byte list \<Rightarrow> json \<Rightarrow> string" where
  "token_encode key payload = json_b64 payload @ ''.'' @ token_signature key (json_b64 payload)"

text \<open>\<open>token.split(".", 1)\<close> into two parts.\<close>

definition split_token :: "string \<Rightarrow> (string \<times> string) option" where
  "split_token token =
     (case dropWhile (\<lambda>c. c \<noteq> CHR ''.'') token of
        [] \<Rightarrow> None
      | _ # rest \<Rightarrow> Some (takeWhile (\<lambda>c. c \<noteq> CHR ''.'') token, rest))"

text \<open>The payload behind a valid signature; \<open>compare_digest\<close> refuses texts that are not ASCII.\<close>

definition open_token :: "byte list \<Rightarrow> string \<Rightarrow> (string \<times> json) list res" where
  "open_token key token =
     (case split_token token of
        None \<Rightarrow> Inl (PermissionError ''invalid signed token'')
      | Some (body, signature) \<Rightarrow>
          check_res (ascii_text signature) (TypeError ''comparing strings with non-ASCII characters is not supported'')
         (check_res (signature = token_signature key body) (PermissionError ''invalid signed token signature'')
         (case Option.bind (Option.bind (b64url_decode body) utf8_text) loads of
            None \<Rightarrow> Inl (PermissionError ''invalid signed token payload'')
          | Some v \<Rightarrow> attrs v)))"

definition token_decode :: "byte list \<Rightarrow> string \<Rightarrow> string \<Rightarrow> (string \<times> json) list act" where
  "token_decode key token expected_type =
     bind_act (lift_res (open_token key token)) (\<lambda>payload.
     bind_act (lift_res (py_int (get_or payload ''exp'' (JInt 0)))) (\<lambda>expiry.
     bind_act time_now (\<lambda>now.
     then_act (check (now \<le> expiry) (PermissionError ''signed token expired''))
    (then_act (check (map_of payload ''typ'' = Some (JStr expected_type)) (PermissionError ''signed token type mismatch''))
      (ret payload)))))"

section \<open>Identities\<close>

record identity =
  id_subject :: string
  id_name :: string
  id_role :: string
  id_tenants :: "string list"
  id_source :: string
  id_mfa :: bool
  id_tenant_id :: "string option"

definition allows :: "string list \<Rightarrow> string \<Rightarrow> bool" where
  "allows scopes tenant \<longleftrightarrow> List.member scopes ''*'' \<or> List.member scopes tenant"

definition identity_public :: "identity \<Rightarrow> (string \<times> json) list" where
  "identity_public i =
     [(''subject'', JStr (id_subject i)), (''name'', JStr (id_name i)), (''role'', JStr (id_role i)),
      (''tenants'', JList (map JStr (id_tenants i))), (''source'', JStr (id_source i)), (''mfa'', JBool (id_mfa i)),
      (''tenant_id'', opt_json (id_tenant_id i))]"

text \<open>The payload of a session and of a ticket, valid for \<open>ttl\<close> seconds.\<close>

definition identity_payload :: "string \<Rightarrow> int \<Rightarrow> int \<Rightarrow> identity \<Rightarrow> json" where
  "identity_payload typ now ttl i =
     JObj [(''typ'', JStr typ), (''iat'', JInt now), (''exp'', JInt (now + ttl)), (''sub'', JStr (id_subject i)),
       (''name'', JStr (id_name i)), (''role'', JStr (id_role i)), (''tenants'', JList (map JStr (id_tenants i))),
       (''source'', JStr (id_source i)), (''mfa'', JBool (id_mfa i)), (''tenant_id'', opt_json (id_tenant_id i))]"

definition identity_token :: "byte list \<Rightarrow> identity \<Rightarrow> int \<Rightarrow> string act" where
  "identity_token key i minutes =
     bind_act time_now (\<lambda>now. ret (token_encode key (identity_payload ''session'' now (minutes * 60) i)))"

definition identity_to_session_payload :: "identity \<Rightarrow> int \<Rightarrow> json act" where
  "identity_to_session_payload i minutes =
     bind_act time_now (\<lambda>now. ret (identity_payload ''session'' now (minutes * 60) i))"

definition issue_ws_ticket :: "enterprise_config \<Rightarrow> byte list \<Rightarrow> identity \<Rightarrow> string act" where
  "issue_ws_ticket cfg key i =
     bind_act time_now (\<lambda>now.
       ret (token_encode key (identity_payload ''ws'' now (ob_websocket_ticket_ttl_seconds (observability cfg)) i)))"

text \<open>\<open>str(value.get(k) or d)\<close> of the payload, and the tenants \<open>str(item) for item in ... or []\<close>.\<close>

definition payload_tenants :: "(string \<times> json) list \<Rightarrow> string list res" where
  "payload_tenants v = bind_res (items_of (or_else (map_of v ''tenants'') (JList []))) (\<lambda>xs. Inr (map py_str xs))"

definition payload_identity :: "(string \<times> json) list \<Rightarrow> string \<Rightarrow> string \<Rightarrow> string \<Rightarrow> string list \<Rightarrow> identity" where
  "payload_identity v role nobody source ts =
     \<lparr>id_subject = text_of v ''sub'' [],
      id_name = py_str (or_else (map_of v ''name'') (or_else (map_of v ''sub'') (JStr nobody))),
      id_role = role, id_tenants = ts, id_source = text_of v ''source'' source,
      id_mfa = bool_key v ''mfa'' False, id_tenant_id = opt_key v ''tenant_id''\<rparr>"

definition identity_from_token :: "byte list \<Rightarrow> string \<Rightarrow> identity act" where
  "identity_from_token key token =
     bind_act (token_decode key token ''session'') (\<lambda>v.
     let role = text_key v ''role'' ''viewer''
     in then_act (check (map_of role_order role \<noteq> None) (PermissionError ''invalid session role''))
       (bind_act (lift_res (payload_tenants v)) (\<lambda>ts.
        then_act (check (ts \<noteq> []) (PermissionError ''session has no tenant scope''))
          (ret (payload_identity v role ''OIDC user'' ''oidc'' ts)))))"

definition identity_from_ws_ticket :: "byte list \<Rightarrow> string \<Rightarrow> identity act" where
  "identity_from_ws_ticket key ticket =
     bind_act (token_decode key ticket ''ws'') (\<lambda>v.
     bind_act (lift_res (payload_tenants v)) (\<lambda>ts.
     then_act (check (ts \<noteq> []) (PermissionError ''WebSocket ticket has no tenant scope''))
       (ret (payload_identity v (text_of v ''role'' ''viewer'') ''operator'' ''session'' ts))))"

section \<open>Canonical texts are ASCII\<close>

fun no_floats :: "json \<Rightarrow> bool" where
  "no_floats (JFloat t) = False"
| "no_floats (JList xs) = list_all no_floats xs"
| "no_floats (JObj kvs) = list_all (\<lambda>(k, v). no_floats v) kvs"
| "no_floats v = True"

lemma ascii_simps [simp]:
  "ascii_text []" "ascii_text (c # s) \<longleftrightarrow> \<not> digit7 c \<and> ascii_text s" "ascii_text (s @ t) \<longleftrightarrow> ascii_text s \<and> ascii_text t"
  by (simp_all add: ascii_text_def)

lemma digit7_iff: "digit7 c \<longleftrightarrow> 128 \<le> (of_char c :: nat)"
proof (cases c)
  case (Char b0 b1 b2 b3 b4 b5 b6 b7)
  have "of_bool b \<le> (1 :: nat)" for b by simp
  from this [of b0] this [of b1] this [of b2] this [of b3] this [of b4] this [of b5] this [of b6] this [of b7]
  show ?thesis unfolding Char of_char_Char by (cases b7; simp; linarith?)
qed

lemma digit7_char_of: "n < 128 \<Longrightarrow> \<not> digit7 (char_of (n :: nat))"
  by (simp add: digit7_iff)

lemma ascii_hex: "n < 16 \<Longrightarrow> \<not> digit7 (hex_digit n)"
  by (auto simp: hex_digit_def intro!: digit7_char_of)

lemma ascii_esc: "ascii_text (esc c)"
proof (cases "map_of escape_dct c")
  case None
  have "of_char c div 16 < (16::nat)" by (simp add: div_less_iff_less_mult)
  moreover have "\<not> digit7 c" if "c \<le> CHR 0x7E" using that by (simp add: digit7_iff less_eq_char_def)
  ultimately show ?thesis using None by (simp add: esc_def ascii_hex)
next
  case (Some e)
  then have "\<not> digit7 e" by (auto simp: escape_dct_def split: if_splits)
  with Some show ?thesis by (simp add: esc_def)
qed

lemma ascii_dumps_str: "ascii_text (dumps_str s)"
proof -
  have "ascii_text (concat (map esc s))" by (induction s) (simp_all add: ascii_esc)
  then show ?thesis by (simp add: dumps_str_def)
qed

lemma ascii_show_nat: "ascii_text (show_nat n)"
proof (induction n rule: show_nat.induct)
  case (1 n)
  then show ?case by (subst show_nat.simps) (simp add: digit_char_def digit7_char_of)
qed

lemma ascii_join: "ascii_text sep \<Longrightarrow> list_all ascii_text xs \<Longrightarrow> ascii_text (join sep xs)"
  by (induction sep xs rule: join.induct) auto

lemma ascii_dumps: "no_floats v \<Longrightarrow> ascii_text (dumps v)"
proof (induction v)
  case (JInt i)
  then show ?case by (simp add: show_int_def ascii_show_nat)
next
  case (JList xs)
  then show ?case by (auto simp: list_all_iff intro!: ascii_join)
next
  case (JObj kvs)
  have "list_all ascii_text (map (\<lambda>(k, t). dumps_str k @ '':'' @ t) (sort_key fst (map (\<lambda>(k, v). (k, dumps v)) kvs)))"
    using JObj by (fastforce simp: list_all_iff ascii_dumps_str)
  then show ?case by (auto intro!: ascii_join)
qed (simp_all add: ascii_dumps_str)

lemma utf8_text_encode: "ascii_text s \<Longrightarrow> utf8_text (encode s) = Some s"
proof (induction s)
  case (Cons c s)
  then have lt: "(of_char c :: nat) < 128" by (simp add: digit7_iff)
  then have "unat (word_of_nat (of_char c) :: byte) = of_char c" by (simp add: unsigned_of_nat take_bit_nat_eq_self)
  moreover from this lt have "(word_of_nat (of_char c) :: byte) < 0x80" by (simp add: word_less_nat_alt)
  ultimately show ?case using Cons by (simp add: encode_def)
qed (simp add: encode_def)

section \<open>Tokens give back their payload\<close>

lemma split_token_dot: "CHR ''.'' \<notin> set body \<Longrightarrow> split_token (body @ ''.'' @ sig) = Some (body, sig)"
proof -
  assume "CHR ''.'' \<notin> set body"
  then have "dropWhile (\<lambda>c. c \<noteq> CHR ''.'') (body @ ''.'' @ sig) = ''.'' @ sig"
    "takeWhile (\<lambda>c. c \<noteq> CHR ''.'') (body @ ''.'' @ sig) = body"
    by (induction body) auto
  then show ?thesis by (simp add: split_token_def)
qed

lemma split_token_Some: "split_token token = Some (body, sig) \<Longrightarrow> token = body @ ''.'' @ sig"
proof (unfold split_token_def, goal_cases)
  case 1
  then obtain c where d: "dropWhile (\<lambda>c. c \<noteq> CHR ''.'') token = c # sig" "body = takeWhile (\<lambda>c. c \<noteq> CHR ''.'') token"
    by (auto split: list.splits)
  have "c = CHR ''.''" using d(1) by (auto simp: dropWhile_eq_Cons_conv)
  with d takeWhile_dropWhile_id [of "\<lambda>c. c \<noteq> CHR ''.''" token] show ?case by simp
qed

lemma open_encode:
  assumes "jwf (JObj kvs)" "no_floats (JObj kvs)"
  shows "open_token key (token_encode key (JObj kvs)) = attrs (canon (JObj kvs))"
proof -
  have "Option.bind (Option.bind (b64url_decode (json_b64 (JObj kvs))) utf8_text) loads = Some (canon (JObj kvs))"
    using assms by (simp only: json_b64_def decode_encode Option.bind.simps utf8_text_encode [OF ascii_dumps] loads_dumps)
  moreover have "split_token (token_encode key (JObj kvs)) = Some (json_b64 (JObj kvs), token_signature key (json_b64 (JObj kvs)))"
    unfolding token_encode_def by (rule split_token_dot) (simp add: json_b64_def encode_no_dot)
  ultimately show ?thesis by (simp add: open_token_def check_res_def token_signature_def encode_ascii)
qed

lemma map_of_sorted:
  assumes "distinct (map fst kvs)"
  shows "map_of (sort_key fst kvs) = map_of kvs"
proof -
  have "mset (map fst (sort_key fst kvs)) = mset (map fst kvs)" by simp
  then have "distinct (map fst (sort_key fst kvs))" using assms mset_eq_imp_distinct_iff by blast
  with assms show ?thesis by (simp add: map_of_inject_set)
qed

lemma map_of_canon:
  assumes "jwf (JObj kvs)" "canon (JObj kvs) = JObj cs"
  shows "map_of cs k = map_option canon (map_of kvs k)"
proof -
  have "distinct (map fst (map (\<lambda>(k, v). (k, canon v)) kvs))" using assms(1) by (simp add: comp_def case_prod_beta)
  with assms(2) show ?thesis by (auto simp: map_of_sorted map_of_map)
qed

text \<open>The fields of a payload after signing and opening.\<close>

lemma open_payload:
  assumes "identity_payload typ now ttl i = JObj kvs"
  shows "\<exists>cs. open_token key (token_encode key (JObj kvs)) = Inr cs \<and> (\<forall>k. map_of cs k = map_of kvs k)"
proof -
  have wf: "jwf (JObj kvs)" "no_floats (JObj kvs)"
    unfolding assms [symmetric] by (auto simp: identity_payload_def opt_json_def list_all_iff split: option.splits)
  obtain cs where cs: "canon (JObj kvs) = JObj cs" by simp
  have "map_option canon (map_of kvs k) = map_of kvs k" for k
    using assms by (auto simp: identity_payload_def opt_json_def comp_def split: option.splits)
  with map_of_canon [OF wf(1) cs] have "map_of cs k = map_of kvs k" for k by simp
  with open_encode [OF wf, of key] cs show ?thesis by (auto simp: attrs_def)
qed

lemma decode_payload:
  assumes "open_token key token = Inr cs" "map_of cs ''exp'' = Some (JInt e)" "map_of cs ''typ'' = Some (JStr typ)"
  shows "\<exists>u. token_decode key token expected s =
    (if epoch_seconds (fst (now_utc (database s))) \<le> e
     then if typ = expected then Inr cs else Inl (PermissionError ''signed token type mismatch'')
     else Inl (PermissionError ''signed token expired''), u)"
  using assms
  by (auto simp: token_decode_def lift_res_def bind_act_def get_or_def time_now_def call_db_def then_act_def check_def
      split: prod.split)

text \<open>An identity that the code can have issued.\<close>

definition identity_ok :: "identity \<Rightarrow> bool" where
  "identity_ok i \<longleftrightarrow> map_of role_order (id_role i) \<noteq> None \<and> id_tenants i \<noteq> [] \<and> id_name i \<noteq> [] \<and> id_source i \<noteq> [] \<and>
     id_tenant_id i \<noteq> Some []"

lemma payload_reads_back:
  assumes "identity_payload typ now ttl i = JObj kvs" "\<And>k. map_of cs k = map_of kvs k" "identity_ok i"
  shows "payload_tenants cs = Inr (id_tenants i)" "text_key cs ''role'' d = id_role i"
    "payload_identity cs (id_role i) nobody source (id_tenants i) = i"
proof -
  have c: "map_of cs ''tenants'' = Some (JList (map JStr (id_tenants i)))" "map_of cs ''role'' = Some (JStr (id_role i))"
    "map_of cs ''sub'' = Some (JStr (id_subject i))" "map_of cs ''name'' = Some (JStr (id_name i))"
    "map_of cs ''source'' = Some (JStr (id_source i))" "map_of cs ''mfa'' = Some (JBool (id_mfa i))"
    "map_of cs ''tenant_id'' = Some (opt_json (id_tenant_id i))"
    using assms(1) unfolding assms(2) identity_payload_def by auto
  show "payload_tenants cs = Inr (id_tenants i)"
    using assms(3) by (simp add: payload_tenants_def c or_else_def items_of_def comp_def identity_ok_def)
  show "text_key cs ''role'' d = id_role i" by (simp add: text_key_def get_or_def c)
  show "payload_identity cs (id_role i) nobody source (id_tenants i) = i"
    using assms(3) by (auto simp: payload_identity_def text_of_def bool_key_def get_or_def opt_key_def text_opt_def or_else_def c
        identity_ok_def opt_json_def split: option.splits)
qed

section \<open>Claims\<close>

text \<open>A session token gives back exactly the identity it was issued for as long as the clock has not passed
  the end of the session, and is refused as expired afterwards; presented as a ticket of the event stream
  it is refused as well.\<close>

lemma session_round_trip:
  assumes "identity_token key i minutes s = (Inr token, t)" "identity_ok i"
  shows "fst (identity_from_token key token u) =
      (if epoch_seconds (fst (now_utc (database u))) \<le> epoch_seconds (fst (now_utc (database s))) + minutes * 60
       then Inr i else Inl (PermissionError ''signed token expired'')) \<and>
    (\<exists>m. fst (identity_from_ws_ticket key token u) = Inl (PermissionError m))"
proof -
  let ?now = "epoch_seconds (fst (now_utc (database s)))"
  obtain kvs where p: "identity_payload ''session'' ?now (minutes * 60) i = JObj kvs" by (simp add: identity_payload_def)
  have token: "token = token_encode key (JObj kvs)"
    using assms(1) p by (auto simp: identity_token_def time_now_def bind_act_def call_db_def split: prod.splits)
  obtain cs where o: "open_token key token = Inr cs" "\<And>k. map_of cs k = map_of kvs k"
    using open_payload [OF p, of key] token by auto
  have "map_of cs ''exp'' = Some (JInt (?now + minutes * 60))" "map_of cs ''typ'' = Some (JStr ''session'')"
    using p o(2) by (auto simp: identity_payload_def)
  note d = decode_payload [OF o(1) this, of _ u]
  note r = payload_reads_back [OF p o(2) assms(2)]
  from assms(2) have known: "map_of role_order (id_role i) \<noteq> None" "id_tenants i \<noteq> []" by (simp_all add: identity_ok_def)
  obtain v w where v: "token_decode key token ''session'' u = (if epoch_seconds (fst (now_utc (database u))) \<le> ?now + minutes * 60
       then Inr cs else Inl (PermissionError ''signed token expired''), v)"
    "token_decode key token ''ws'' u = (if epoch_seconds (fst (now_utc (database u))) \<le> ?now + minutes * 60
       then Inl (PermissionError ''signed token type mismatch'') else Inl (PermissionError ''signed token expired''), w)"
    using d [of "''session''"] d [of "''ws''"] by auto
  then show ?thesis
    using known r by (auto simp: identity_from_token_def identity_from_ws_ticket_def bind_act_def Let_def then_act_def check_def lift_res_def)
qed

definition sample_identity :: identity where
  "sample_identity = \<lparr>id_subject = ''oidc:t:1'', id_name = ''Ada'', id_role = ''approver'', id_tenants = [''x''],
     id_source = ''oidc'', id_mfa = True, id_tenant_id = Some ''t''\<rparr>"

text \<open>C26. No session is accepted without the key: the part of an accepted token after its first dot is the
  HMAC-SHA-256 under the key of the part before it, the payload is read from that part, says it is a session
  that has not expired, and names a known role and at least one tenant.\<close>

theorem accepted_session_is_signed:
  assumes "identity_from_token key token s = (Inr i, t)"
  shows "\<exists>body bytes written kvs. token = body @ ''.'' @ b64url_encode (hmac_sha256 key (utf8 body)) \<and>
     b64url_decode body = Some bytes \<and> utf8_text bytes = Some written \<and> loads written = Some (JObj kvs) \<and>
     map_of kvs ''typ'' = Some (JStr ''session'') \<and>
     (\<exists>e. py_int (get_or kvs ''exp'' (JInt 0)) = Inr e \<and> epoch_seconds (fst (now_utc (database s))) \<le> e) \<and>
     map_of role_order (id_role i) \<noteq> None \<and> id_tenants i \<noteq> []"
proof -
  from assms obtain kvs u where d: "token_decode key token ''session'' s = (Inr kvs, u)" and
    i: "map_of role_order (id_role i) \<noteq> None" "id_tenants i \<noteq> []"
    by (auto simp: identity_from_token_def bind_Inr Let_def payload_identity_def lift_res_def split: if_splits)
  from d obtain e where o: "open_token key token = Inr kvs" "py_int (get_or kvs ''exp'' (JInt 0)) = Inr e"
    "epoch_seconds (fst (now_utc (database s))) \<le> e" "map_of kvs ''typ'' = Some (JStr ''session'')"
    by (auto simp: token_decode_def bind_Inr lift_res_def time_now_def call_db_def split: if_splits prod.splits)
  from o(1) obtain body sig where s: "split_token token = Some (body, sig)" "sig = token_signature key body"
    "Option.bind (Option.bind (b64url_decode body) utf8_text) loads = Some (JObj kvs)"
    by (auto simp: open_token_def check_res_def attrs_def split: option.splits if_splits json.splits prod.splits)
  from s(3) obtain bytes written where "b64url_decode body = Some bytes" "utf8_text bytes = Some written" "loads written = Some (JObj kvs)"
    by (auto simp: bind_eq_Some_conv)
  moreover have "token = body @ ''.'' @ b64url_encode (hmac_sha256 key (utf8 body))"
    using split_token_Some [OF s(1)] s(2) by (simp add: token_signature_def)
  ultimately show ?thesis using o i by blast
qed

lemma accepted_session_is_signed_witness:
  "\<exists>token body. fst (identity_from_token [1, 2, 3] token sample_sys) = Inr sample_identity \<and>
     token = body @ ''.'' @ b64url_encode (hmac_sha256 [1, 2, 3] (utf8 body))"
proof -
  obtain kvs where p: "identity_payload ''session'' (epoch_seconds 0) 60 sample_identity = JObj kvs" by (simp add: identity_payload_def)
  have ok: "identity_ok sample_identity" by (simp add: identity_ok_def sample_identity_def role_order_def)
  obtain cs where o: "open_token [1, 2, 3] (token_encode [1, 2, 3] (JObj kvs)) = Inr cs" "\<And>k. map_of cs k = map_of kvs k"
    using open_payload [OF p] by blast
  have "map_of cs ''exp'' = Some (JInt (epoch_seconds 0 + 60))" "map_of cs ''typ'' = Some (JStr ''session'')"
    using p o(2) by (auto simp: identity_payload_def)
  from decode_payload [OF o(1) this, of "''session''" sample_sys] obtain u where
    "token_decode [1, 2, 3] (token_encode [1, 2, 3] (JObj kvs)) ''session'' sample_sys = (Inr cs, u)"
    by (auto simp: now_utc_def sample_sys_def create_schema_def)
  with payload_reads_back [OF p o(2) ok] ok
  have r: "identity_from_token [1, 2, 3] (token_encode [1, 2, 3] (JObj kvs)) sample_sys = (Inr sample_identity, u)"
    by (auto simp: identity_from_token_def bind_act_def Let_def then_act_def check_def lift_res_def identity_ok_def)
  with accepted_session_is_signed [OF r] show ?thesis by force
qed

end
