(* ===== verification/Oidc.thy ===== *)
theory Oidc
  imports Signed_Token Effects
begin

text \<open>
  \<open>OIDCClient\<close> of \<open>enterprise_auth.py\<close>: discovery, the login redirect and its completion, the validation
  of ID tokens and the mapping of claims to an identity. The HTTP endpoints, \<open>openssl\<close> and the random
  generator are calls outside; the client's caches are in the memory of the process. The lemmas show
  what an accepted login has proved.
\<close>

section \<open>Endpoints\<close>

definition fetch_json :: "env \<Rightarrow> string \<Rightarrow> string option \<Rightarrow> (string \<times> json) list act" where
  "fetch_json E url data =
     then_act (check (starts_with ''https://'' url) (RuntimeError ''OIDC metadata/token/JWKS endpoints must use https''))
    (bind_act (ask (run_reply E) (HttpFetch url data)) (\<lambda>(status, body, _).
     then_act (check (200 \<le> status \<and> status < 300) (RuntimeError (''OIDC endpoint returned HTTP '' @ show_int status)))
    (bind_act (need (loads (take (4 * 1024 * 1024) body)) (ValueError ''invalid JSON'')) (\<lambda>v.
       case v of JObj kvs \<Rightarrow> ret kvs
       | _ \<Rightarrow> throw (RuntimeError ''OIDC endpoint returned a non-object JSON value'')))))"

definition cached_object :: "json option \<Rightarrow> (string \<times> json) list option" where
  "cached_object v = (case v of Some (JObj kvs) \<Rightarrow> Some kvs | _ \<Rightarrow> None)"

definition endpoint_keys :: "string list" where
  "endpoint_keys = [''authorization_endpoint'', ''token_endpoint'', ''jwks_uri'']"

definition oidc_metadata :: "env \<Rightarrow> oidc_config \<Rightarrow> (string \<times> json) list act" where
  "oidc_metadata E c =
     bind_act (recall ''oidc.metadata'') (\<lambda>known.
     case cached_object known of
       Some kvs \<Rightarrow> ret kvs
     | None \<Rightarrow>
         bind_act (fetch_json E (rstrip ''/'' (oi_issuer c) @ ''/.well-known/openid-configuration'') None) (\<lambda>kvs.
         then_act (check (rstrip ''/'' (text_of kvs ''issuer'' []) = rstrip ''/'' (oi_issuer c))
           (RuntimeError ''OIDC discovery issuer does not match configured issuer''))
        (then_act (each (\<lambda>k. check (starts_with ''https://'' (text_of kvs k []))
           (RuntimeError (''OIDC discovery is missing a secure '' @ k))) endpoint_keys)
        (then_act (memorize ''oidc.metadata'' (JObj kvs)) (ret kvs)))))"

definition endpoint :: "env \<Rightarrow> oidc_config \<Rightarrow> string \<Rightarrow> string act" where
  "endpoint E c key =
     bind_act (oidc_metadata E c) (\<lambda>kvs. bind_act (need (map_of kvs key) (KeyError key)) (\<lambda>v. ret (py_str v)))"

text \<open>The signing keys, fetched again after an hour or when asked to.\<close>

definition jwks_value :: "env \<Rightarrow> oidc_config \<Rightarrow> bool \<Rightarrow> (string \<times> json) list act" where
  "jwks_value E c force =
     bind_act (recall ''oidc.jwks'') (\<lambda>known.
     bind_act (recall ''oidc.jwks_loaded_at'') (\<lambda>loaded.
     bind_act (case if force then None else cached_object known of
         Some kvs \<Rightarrow> bind_act (call_db now_utc) (\<lambda>now.
           ret (if 3600 * second_us < now - (case loaded of Some (JInt t) \<Rightarrow> t | _ \<Rightarrow> 0) then None else Some kvs))
       | None \<Rightarrow> ret None) (\<lambda>usable.
     case usable of
       Some kvs \<Rightarrow> ret kvs
     | None \<Rightarrow>
         bind_act (endpoint E c ''jwks_uri'') (\<lambda>url.
         bind_act (fetch_json E url None) (\<lambda>kvs.
         then_act (memorize ''oidc.jwks'' (JObj kvs))
        (bind_act (call_db now_utc) (\<lambda>now.
         then_act (memorize ''oidc.jwks_loaded_at'' (JInt now)) (ret kvs))))))))"

section \<open>Login\<close>

text \<open>\<open>urlencode\<close>: \<open>quote_plus\<close> of keys and values.\<close>

definition quote_plus :: "string \<Rightarrow> string" where
  "quote_plus s = join ''+'' (map url_quote (split_on (CHR '' '') s))"

definition urlencode :: "(string \<times> string) list \<Rightarrow> string" where
  "urlencode kvs = join ''&'' (map (\<lambda>(k, v). quote_plus k @ ''='' @ quote_plus v) kvs)"

definition token_bytes :: "env \<Rightarrow> nat \<Rightarrow> string act" where
  "token_bytes E n = bind_act (ask (text_reply E) (RandomBytes n)) (\<lambda>s. ret (b64url_encode (encode s)))"

definition safe_return :: "string \<Rightarrow> string" where
  "safe_return target = (if starts_with ''/'' target \<and> \<not> starts_with ''//'' target then target else ''/'')"

definition begin_login :: "env \<Rightarrow> oidc_config \<Rightarrow> byte list \<Rightarrow> string \<Rightarrow> (string \<times> string) act" where
  "begin_login E c key return_to =
     bind_act (token_bytes E 48) (\<lambda>verifier.
     let challenge = b64url_encode (sha256 (utf8 verifier))
     in bind_act (token_bytes E 24) (\<lambda>state.
        bind_act (token_bytes E 24) (\<lambda>nonce.
        bind_act time_now (\<lambda>now.
        let state_token = token_encode key (JObj [(''typ'', JStr ''oidc_state''), (''iat'', JInt now), (''exp'', JInt (now + 600)),
              (''state'', JStr state), (''nonce'', JStr nonce), (''verifier'', JStr verifier),
              (''return_to'', JStr (safe_return return_to))]);
            query = [(''client_id'', oi_client_id c), (''response_type'', ''code''), (''redirect_uri'', oi_redirect_uri c),
              (''response_mode'', ''query''), (''scope'', ''openid profile email''), (''state'', state), (''nonce'', nonce),
              (''code_challenge'', challenge), (''code_challenge_method'', ''S256'')]
        in bind_act (endpoint E c ''authorization_endpoint'') (\<lambda>url. ret (url @ ''?'' @ urlencode query, state_token))))))"

text \<open>\<open>hmac.compare_digest(a, b)\<close> on texts.\<close>

definition compare_digest :: "string \<Rightarrow> string \<Rightarrow> bool res" where
  "compare_digest a b =
     check_res (ascii_text a \<and> ascii_text b) (TypeError ''comparing strings with non-ASCII characters is not supported'')
       (Inr (a = b))"

section \<open>Keys\<close>

text \<open>The length of a number in bytes.\<close>

fun byte_length :: "nat \<Rightarrow> nat" where
  "byte_length n = (if n = 0 then 0 else Suc (byte_length (n div 256)))"

declare byte_length.simps [simp del]

definition der_length :: "nat \<Rightarrow> byte list" where
  "der_length n =
     (if n < 128 then [word_of_nat n]
      else word_of_nat (128 + byte_length n) # be_bytes (byte_length n) n)"

definition der_integer :: "byte list \<Rightarrow> byte list" where
  "der_integer raw =
     (let body = dropWhile (\<lambda>b. b = 0) raw;
          body' = (if body = [] then [0] else body);
          padded = (if 0x80 \<le> hd body' then 0 # body' else body')
      in [0x02] @ der_length (length padded) @ padded)"

definition der_sequence :: "byte \<Rightarrow> byte list \<Rightarrow> byte list" where
  "der_sequence tag body = [tag] @ der_length (length body) @ body"

text \<open>\<open>base64.encodebytes\<close>: the standard alphabet, padded, in lines of 57 bytes.\<close>

definition base64_line :: "byte list \<Rightarrow> string" where
  "base64_line bs =
     (let s = map (\<lambda>c. if c = CHR ''-'' then CHR ''+'' else if c = CHR ''_'' then CHR ''/'' else c) (b64url_encode bs)
      in s @ replicate ((4 - length s mod 4) mod 4) (CHR ''=''))"

definition encodebytes :: "byte list \<Rightarrow> string" where
  "encodebytes bs = concat (map (\<lambda>l. base64_line l @ [CHR 0x0A]) (chunks ((length bs + 56) div 57) 57 bs))"

definition rsa_algorithm :: "byte list" where
  "rsa_algorithm = [0x30, 0x0D, 0x06, 0x09, 0x2A, 0x86, 0x48, 0x86, 0xF7, 0x0D, 0x01, 0x01, 0x01, 0x05, 0x00]"

definition rsa_pem :: "byte list \<Rightarrow> byte list \<Rightarrow> string" where
  "rsa_pem n e =
     (let rsa = der_sequence 0x30 (der_integer n @ der_integer e);
          spki = der_sequence 0x30 (rsa_algorithm @ der_sequence 0x03 (0 # rsa))
      in ''-----BEGIN PUBLIC KEY-----'' @ [CHR 0x0A] @ encodebytes spki @ ''-----END PUBLIC KEY-----'' @ [CHR 0x0A])"

definition jwk_bytes :: "(string \<times> json) list \<Rightarrow> string \<Rightarrow> byte list act" where
  "jwk_bytes jwk k =
     bind_act (need (map_of jwk k) (KeyError k)) (\<lambda>v. need (b64url_decode (py_str v)) (ValueError ''Incorrect padding''))"

definition verify_rs256 :: "env \<Rightarrow> string \<Rightarrow> byte list \<Rightarrow> (string \<times> json) list \<Rightarrow> unit act" where
  "verify_rs256 E signing_input signature jwk =
     bind_act (jwk_bytes jwk ''n'') (\<lambda>n.
     bind_act (jwk_bytes jwk ''e'') (\<lambda>e.
     bind_act (ask (text_reply E) (TempFile (rsa_pem n e))) (\<lambda>key_file.
     bind_act (ask (text_reply E) (TempFile (map (\<lambda>b. char_of (unat b)) signature))) (\<lambda>sig_file.
     bind_act (ask (run_reply E) (RunInput [''openssl'', ''dgst'', ''-sha256'', ''-verify'', key_file, ''-signature'', sig_file]
         [] signing_input)) (\<lambda>(code, out, err).
       check (code = 0 \<and> contains ''Verified OK'' out) (PermissionError ''OIDC ID token signature validation failed''))))))"

text \<open>\<open>find_key\<close>: the first RSA key with the given id.\<close>

fun find_key :: "string \<Rightarrow> json list \<Rightarrow> (string \<times> json) list option res" where
  "find_key kid [] = Inr None"
| "find_key kid (item # items) =
     bind_res (attrs item) (\<lambda>kvs.
       if text_of kvs ''kid'' [] = kid \<and> map_of kvs ''kty'' = Some (JStr ''RSA'') then Inr (Some kvs) else find_key kid items)"

definition key_in :: "string \<Rightarrow> (string \<times> json) list \<Rightarrow> (string \<times> json) list option act" where
  "key_in kid jwks = lift_res (bind_res (items_of (or_else (map_of jwks ''keys'') (JList []))) (find_key kid))"

section \<open>ID tokens\<close>

text \<open>The three parts of a token: header, claims and signature as far as they can be read.\<close>

definition json_of_part :: "string \<Rightarrow> json option" where
  "json_of_part s = Option.bind (Option.bind (b64url_decode s) utf8_text) loads"

definition read_id_token :: "string \<Rightarrow> (string \<times> json \<times> json \<times> byte list) option" where
  "read_id_token token =
     (case split_on (CHR ''.'') token of
        [h, p, s] \<Rightarrow>
          (case (json_of_part h, json_of_part p, b64url_decode s) of
             (Some header, Some claims, Some signature) \<Rightarrow> Some (h @ ''.'' @ p, header, claims, signature)
           | _ \<Rightarrow> None)
      | _ \<Rightarrow> None)"

definition signing_key :: "env \<Rightarrow> oidc_config \<Rightarrow> string \<Rightarrow> (string \<times> json) list act" where
  "signing_key E c kid =
     bind_act (jwks_value E c False) (\<lambda>jwks.
     bind_act (key_in kid jwks) (\<lambda>found.
     bind_act (case found of Some k \<Rightarrow> ret (Some k) | None \<Rightarrow> bind_act (jwks_value E c True) (key_in kid)) (\<lambda>found'.
       need found' (PermissionError ''OIDC signing key is unknown''))))"

definition audiences_of :: "(string \<times> json) list \<Rightarrow> string list res" where
  "audiences_of claims =
     (case map_of claims ''aud'' of
        Some (JStr a) \<Rightarrow> Inr [a]
      | v \<Rightarrow> bind_res (items_of (or_else v (JList []))) (\<lambda>xs. Inr (map py_str xs)))"

text \<open>The checks after the signature, in the order of the code.\<close>

definition check_claims :: "env \<Rightarrow> oidc_config \<Rightarrow> (string \<times> json) list \<Rightarrow> string \<Rightarrow> unit act" where
  "check_claims E c claims nonce =
     bind_act time_now (\<lambda>now.
     bind_act (endpoint E c ''issuer'') (\<lambda>issuer.
     then_act (check (rstrip ''/'' (text_of claims ''iss'' []) = rstrip ''/'' issuer) (PermissionError ''OIDC issuer mismatch''))
    (bind_act (lift_res (audiences_of claims)) (\<lambda>audiences.
     then_act (check (List.member audiences (oi_client_id c)) (PermissionError ''OIDC audience mismatch''))
    (bind_act (lift_res (py_int (get_or claims ''exp'' (JInt 0)))) (\<lambda>expiry.
     then_act (check (now - 90 \<le> expiry) (PermissionError ''OIDC ID token expired''))
    (bind_act (lift_res (py_int (or_else (map_of claims ''nbf'') (JInt 0)))) (\<lambda>start.
     then_act (check (start \<le> now + 90) (PermissionError ''OIDC ID token is not active yet''))
    (bind_act (lift_res (compare_digest (text_of claims ''nonce'' []) nonce)) (\<lambda>same.
     then_act (check same (PermissionError ''OIDC nonce mismatch''))
       (check (oi_allowed_tenant_ids c = [] \<or> List.member (oi_allowed_tenant_ids c) (text_of claims ''tid'' []))
         (PermissionError ''OIDC tenant is not authorized''))))))))))))"

definition validate_id_token :: "env \<Rightarrow> oidc_config \<Rightarrow> string \<Rightarrow> string \<Rightarrow> (string \<times> json) list act" where
  "validate_id_token E c token nonce =
     bind_act (need (read_id_token token) (PermissionError ''malformed OIDC ID token'')) (\<lambda>(covered, header, payload, signature).
     bind_act (lift_res (attrs header)) (\<lambda>hd_kvs.
     then_act (check (map_of hd_kvs ''alg'' = Some (JStr ''RS256'')) (PermissionError ''only RS256 OIDC ID tokens are accepted''))
    (let kid = text_of hd_kvs ''kid'' []
     in then_act (check (kid \<noteq> []) (PermissionError ''OIDC ID token is missing kid''))
       (bind_act (signing_key E c kid) (\<lambda>jwk.
        then_act (verify_rs256 E covered signature jwk)
       (bind_act (lift_res (attrs payload)) (\<lambda>claims.
        then_act (check_claims E c claims nonce) (ret claims))))))))"

section \<open>From claims to an identity\<close>

text \<open>The distinct texts of a claim.\<close>

definition claim_texts :: "(string \<times> json) list \<Rightarrow> string \<Rightarrow> string list res" where
  "claim_texts claims k =
     bind_res (items_of (or_else (map_of claims k) (JList []))) (\<lambda>xs. Inr (remdups (map py_str xs)))"

definition role_rank :: "string \<Rightarrow> nat" where
  "role_rank r = (case map_of role_order r of Some n \<Rightarrow> n | None \<Rightarrow> 0)"

text \<open>\<open>max\<close> with a key keeps the first of equal ones.\<close>

fun highest :: "string \<Rightarrow> string list \<Rightarrow> string" where
  "highest r [] = r"
| "highest r (x # xs) = highest (if role_rank r < role_rank x then x else r) xs"

definition highest_role :: "string list \<Rightarrow> string \<Rightarrow> string res" where
  "highest_role roles default_role =
     check_res (map_of role_order default_role \<noteq> None) (KeyError default_role)
       (Inr (highest default_role (filter (\<lambda>r. map_of role_order r \<noteq> None) roles)))"

definition mapped :: "(string \<times> 'a) list \<Rightarrow> string list \<Rightarrow> 'a list" where
  "mapped m ks = List.map_filter (map_of m) ks"

definition mfa_evidence :: "oidc_config \<Rightarrow> string list \<Rightarrow> string list \<Rightarrow> bool" where
  "mfa_evidence c amr acrs \<longleftrightarrow>
     list_ex (\<lambda>a. a = ''mfa'' \<or> a = ''ngcmfa'') amr \<or> list_ex (List.member (oi_required_acrs c)) acrs"

definition claims_scopes :: "oidc_config \<Rightarrow> string list \<Rightarrow> string list \<Rightarrow> string list" where
  "claims_scopes c groups app_roles =
     sort (remdups (oi_default_tenants c @ concat (mapped (oi_group_tenant_map c) groups)
       @ concat (mapped (oi_app_role_tenant_map c) app_roles)))"

definition identity_from_claims :: "enterprise_config \<Rightarrow> (string \<times> json) list \<Rightarrow> identity res" where
  "identity_from_claims cfg claims =
     (let c = oidc cfg
      in bind_res (claim_texts claims ''groups'') (\<lambda>groups.
         bind_res (claim_texts claims ''roles'') (\<lambda>app_roles.
         bind_res (highest_role (mapped (oi_group_role_map c) groups @ mapped (oi_app_role_map c) app_roles)
             (oi_default_role c)) (\<lambda>role.
         let scopes = claims_scopes c groups app_roles
         in check_res (scopes \<noteq> []) (PermissionError ''OIDC identity has no Immutavault tenant scope'')
           (check_res (unknown_scopes (tenants cfg) scopes = [])
              (PermissionError ''OIDC identity resolved an unknown tenant scope'')
           (bind_res (claim_texts claims ''amr'') (\<lambda>amr.
            bind_res (claim_texts claims ''acrs'') (\<lambda>acrs.
            let mfa = mfa_evidence c (map lower amr) acrs;
                tid = opt_key claims ''tid'';
                oid = (case map_of claims ''oid'' of
                    Some v \<Rightarrow> if jtruthy v then py_str v else text_of claims ''sub'' []
                  | None \<Rightarrow> text_of claims ''sub'' [])
            in check_res (\<not> oi_require_mfa c \<or> mfa) (PermissionError
                 ''MFA evidence is required; configure Entra to emit amr (mfa/ngcmfa) or a required authentication-context ID'')
              (check_res (oid \<noteq> []) (PermissionError ''OIDC token has no stable subject identifier'')
                (Inr \<lparr>id_subject = ''oidc:'' @ (case tid of Some t \<Rightarrow> t | None \<Rightarrow> ''tenant'') @ '':'' @ oid,
                  id_name = py_str (or_else (map_of claims ''name'') (or_else (map_of claims ''preferred_username'') (JStr oid))),
                  id_role = role, id_tenants = scopes, id_source = ''oidc'', id_mfa = mfa, id_tenant_id = tid\<rparr>))))))))))"

section \<open>Completing a login\<close>

definition login_form :: "env \<Rightarrow> oidc_config \<Rightarrow> string \<Rightarrow> string \<Rightarrow> (string \<times> string) list res" where
  "login_form E c code verifier =
     (let form = [(''grant_type'', ''authorization_code''), (''client_id'', oi_client_id c), (''code'', code),
            (''redirect_uri'', oi_redirect_uri c), (''code_verifier'', verifier)]
      in case oi_client_secret_env c of
           None \<Rightarrow> Inr form
         | Some name \<Rightarrow>
             if name = [] then Inr form
             else case getenv E name of
                 None \<Rightarrow> Inl (RuntimeError (name @ '' is required for OIDC token exchange''))
               | Some secret \<Rightarrow> check_res (secret \<noteq> []) (RuntimeError (name @ '' is required for OIDC token exchange''))
                   (Inr (form @ [(''client_secret'', secret)])))"

definition complete_login ::
  "env \<Rightarrow> enterprise_config \<Rightarrow> byte list \<Rightarrow> string \<Rightarrow> string \<Rightarrow> string \<Rightarrow> (identity \<times> string) act" where
  "complete_login E cfg key code state state_token =
     (let c = oidc cfg
      in bind_act (token_decode key state_token ''oidc_state'') (\<lambda>saved.
         bind_act (if state = [] then ret False else lift_res (compare_digest state (text_of saved ''state'' []))) (\<lambda>same.
         then_act (check same (PermissionError ''OIDC state mismatch''))
        (then_act (check (code \<noteq> []) (PermissionError ''OIDC authorization code is missing''))
        (bind_act (need (map_of saved ''verifier'') (KeyError ''verifier'')) (\<lambda>verifier.
         bind_act (lift_res (login_form E c code (py_str verifier))) (\<lambda>form.
         bind_act (endpoint E c ''token_endpoint'') (\<lambda>url.
         bind_act (fetch_json E url (Some (urlencode form))) (\<lambda>answer.
         let id_token = text_of answer ''id_token'' []
         in then_act (check (id_token \<noteq> []) (PermissionError ''OIDC provider did not return an ID token''))
           (bind_act (need (map_of saved ''nonce'') (KeyError ''nonce'')) (\<lambda>nonce.
            bind_act (validate_id_token E c id_token (py_str nonce)) (\<lambda>claims.
            bind_act (lift_res (identity_from_claims cfg claims)) (\<lambda>i.
              ret (i, text_of saved ''return_to'' ''/''))))))))))))))"

section \<open>What an accepted login has proved\<close>

lemma service_time: "steps service time_now"
  unfolding time_now_def by (intro service_rules)

lemma service_fetch: "steps service (fetch_json E url data)"
proof -
  have "steps service (case v of JObj kvs \<Rightarrow> ret kvs | _ \<Rightarrow> throw e)" for v :: json and e
    by (cases v) (auto intro: service.steps_ret service.steps_throw)
  then show ?thesis
    unfolding fetch_json_def by (intro service_rules) (simp_all add: service_call_def)
qed

lemma service_endpoint: "steps service (endpoint E c k)" "steps service (oidc_metadata E c)"
proof -
  show m: "steps service (oidc_metadata E c)"
    unfolding oidc_metadata_def by (intro service_rules service_fetch)
  show "steps service (endpoint E c k)"
    unfolding endpoint_def by (intro service_rules m)
qed

lemma service_jwks: "steps service (jwks_value E c force)"
  unfolding jwks_value_def by (intro service_rules service_fetch service_endpoint)

lemma service_check_claims: "steps service (check_claims E c claims nonce)"
  unfolding check_claims_def by (intro service_rules service_time service_endpoint)

lemma service_signing_key: "steps service (signing_key E c kid)"
  unfolding signing_key_def key_in_def by (intro service_rules service_jwks)

lemma service_verify: "steps service (verify_rs256 E covered signature jwk)"
  unfolding verify_rs256_def jwk_bytes_def by (intro service_rules) (simp_all add: service_call_def)

lemma service_decode: "steps service (token_decode key token ty)"
  unfolding token_decode_def by (intro service_rules service_time)

lemma service_validate: "steps service (validate_id_token E c token nonce)"
  unfolding validate_id_token_def by (intro service_rules service_signing_key service_verify service_check_claims)

text \<open>
  Where the metadata of the process comes from: what is in the memory was there before, or was fetched and
  names the configured issuer.
\<close>

definition from_issuer :: "oidc_config \<Rightarrow> sys \<Rightarrow> sys \<Rightarrow> bool" where
  "from_issuer c s t \<longleftrightarrow>
     (\<forall>md. cached_object (map_of (memory t) ''oidc.metadata'') = Some md \<longrightarrow>
        cached_object (map_of (memory s) ''oidc.metadata'') = Some md \<or>
        rstrip ''/'' (text_of md ''issuer'' []) = rstrip ''/'' (oi_issuer c))"

interpretation issued: step_relation "from_issuer c" for c
  by unfold_locales (auto simp: from_issuer_def)

lemma issued_same: "(\<And>s. memory (snd (m s)) = memory s) \<Longrightarrow> steps (from_issuer c) m"
  by (simp add: steps_def from_issuer_def)

lemma issued_prims:
  "steps (from_issuer c) (ask f x)" "steps (from_issuer c) (call_db g)" "steps (from_issuer c) (lift_res r)"
  by (rule issued_same, simp add: ask_def call_db_def lift_res_def split: prod.split)+

lemma issued_memorize: "k \<noteq> ''oidc.metadata'' \<Longrightarrow> steps (from_issuer c) (memorize k v)"
  by (simp add: steps_def from_issuer_def memorize_def)

lemma steps_check_then: "(b \<Longrightarrow> steps R n) \<Longrightarrow> steps R (then_act (check b e) n)" if "\<And>s. R s s"
  using that by (simp add: steps_def)

lemmas issued_rules =
  issued.steps_bind issued.steps_then issued.steps_check issued.steps_each issued.steps_need issued.steps_if
  issued.steps_option issued.steps_let issued.steps_prod issued.steps_ret issued.steps_throw issued.steps_recall issued_prims

lemma issued_fetch: "steps (from_issuer c) (fetch_json E url data)"
proof -
  have "steps (from_issuer c) (case v of JObj kvs \<Rightarrow> ret kvs | _ \<Rightarrow> throw e)" for v :: json and e
    by (cases v) (auto intro: issued.steps_throw issued.steps_ret)
  then show ?thesis unfolding fetch_json_def by (intro issued_rules)
qed

lemma issued_metadata: "steps (from_issuer c) (oidc_metadata E c)"
proof -
  have new: "steps (from_issuer c) (memorize ''oidc.metadata'' (JObj kvs))"
    if "rstrip ''/'' (text_of kvs ''issuer'' []) = rstrip ''/'' (oi_issuer c)" for kvs
    using that by (simp add: steps_def from_issuer_def memorize_def cached_object_def)
  show ?thesis
    unfolding oidc_metadata_def
    by (intro issued.steps_bind issued.steps_recall issued.steps_option issued.steps_ret issued_fetch
        steps_check_then [OF issued.R_refl] issued.steps_then [OF new] issued.steps_then [OF issued.steps_each] issued.steps_check)
qed

lemma issued_endpoint: "steps (from_issuer c) (endpoint E c k)"
  unfolding endpoint_def by (intro issued_rules issued_metadata)

lemma issued_login: "steps (from_issuer (oidc cfg)) (complete_login E cfg key code state state_token)"
  unfolding complete_login_def token_decode_def time_now_def validate_id_token_def signing_key_def key_in_def jwks_value_def
    verify_rs256_def jwk_bytes_def check_claims_def
  by (intro issued_rules issued_fetch issued_memorize) (simp_all add: issued_endpoint)

text \<open>The call of \<open>openssl\<close> that answered that the signature is good.\<close>

definition verified_by_openssl :: "env \<Rightarrow> string \<Rightarrow> call list \<Rightarrow> bool" where
  "verified_by_openssl E covered h \<longleftrightarrow>
     (\<exists>before key_file sig_file after out err.
        h = before @ RunInput [''openssl'', ''dgst'', ''-sha256'', ''-verify'', key_file, ''-signature'', sig_file] [] covered # after \<and>
        run_reply E before (RunInput [''openssl'', ''dgst'', ''-sha256'', ''-verify'', key_file, ''-signature'', sig_file] [] covered)
          = Inr (0, out, err) \<and> contains ''Verified OK'' out)"

lemma verified_here:
  "run_reply E h (RunInput [''openssl'', ''dgst'', ''-sha256'', ''-verify'', kf, ''-signature'', sf] [] covered) = Inr (0, out, err) \<Longrightarrow>
   contains ''Verified OK'' out \<Longrightarrow>
   verified_by_openssl E covered (h @ [RunInput [''openssl'', ''dgst'', ''-sha256'', ''-verify'', kf, ''-signature'', sf] [] covered])"
  unfolding verified_by_openssl_def by blast

lemma verify_Inr:
  "verify_rs256 E covered signature jwk s = (Inr u, t) \<Longrightarrow> verified_by_openssl E covered (trace t)"
  unfolding verify_rs256_def bind_Inr
proof (elim exE conjE, goal_cases)
  case (1 n s1 e s2 kf s3 sf s4 out s5)
  obtain code written err where out: "out = (code, written, err)" by (cases out)
  with 1(6) have "code = 0" "contains ''Verified OK'' written" "t = s5"
    by (auto simp: check_def split: if_splits)
  moreover have "run_reply E (trace s4) (RunInput [''openssl'', ''dgst'', ''-sha256'', ''-verify'', kf, ''-signature'', sf] [] covered) = Inr out"
    "trace s5 = trace s4 @ [RunInput [''openssl'', ''dgst'', ''-sha256'', ''-verify'', kf, ''-signature'', sf] [] covered]"
    using 1(5) by (auto simp: ask_def)
  ultimately show ?case using verified_here [of E "trace s4" kf sf covered written err] out by simp
qed

lemma verified_later: "verified_by_openssl E covered h \<Longrightarrow> verified_by_openssl E covered (h @ cs)"
  unfolding verified_by_openssl_def by (metis append.assoc append_Cons)

lemma time_now_Inr:
  "time_now s = (Inr now, t) \<longleftrightarrow> now = epoch_seconds (clock (database s) (reads (database s))) \<and> t = s\<lparr>database := snd (now_utc (database s))\<rparr>"
  by (auto simp: time_now_def bind_act_def call_db_def now_utc_def)

lemma endpoint_Inr:
  assumes "endpoint E c k s = (Inr v, t)"
  shows "\<exists>md found. cached_object (map_of (memory t) ''oidc.metadata'') = Some md \<and> map_of md k = Some found \<and> v = py_str found"
proof -
  obtain md u found where md: "oidc_metadata E c s = (Inr md, u)" "map_of md k = Some found" "v = py_str found" "t = u"
    using assms unfolding endpoint_def run_Inr by blast
  have "cached_object (map_of (memory u) ''oidc.metadata'') = Some md"
  proof (cases "cached_object (map_of (memory s) ''oidc.metadata'')")
    case None
    have "\<exists>w y. memorize ''oidc.metadata'' (JObj md) w = (Inr y, u)"
      using md(1) unfolding oidc_metadata_def bind_Inr recall_def prod.inject sum.inject
      by (elim exE conjE, hypsubst) (simp only: None option.case run_Inr, blast)
    then show ?thesis by (auto simp: memorize_def cached_object_def)
  qed (use md(1) in \<open>auto simp: oidc_metadata_def recall_def run_Inr\<close>)
  with md show ?thesis by blast
qed

text \<open>Within its time: not expired and already active at that second, with a tolerance of 90 seconds.\<close>

definition timely :: "(string \<times> json) list \<Rightarrow> int \<Rightarrow> bool" where
  "timely claims now \<longleftrightarrow>
     (\<exists>expiry start. py_int (get_or claims ''exp'' (JInt 0)) = Inr expiry \<and> now \<le> expiry + 90 \<and>
        py_int (or_else (map_of claims ''nbf'') (JInt 0)) = Inr start \<and> start \<le> now + 90)"

lemma check_claims_Inr:
  assumes "check_claims E c claims nonce s = (Inr u, t)"
  shows "timely claims (epoch_seconds (clock (database s) (reads (database s))))" "reads (database s) < reads (database t)"
    "\<exists>md issuer. cached_object (map_of (memory t) ''oidc.metadata'') = Some md \<and> map_of md ''issuer'' = Some issuer \<and>
       rstrip ''/'' (text_of claims ''iss'' []) = rstrip ''/'' (py_str issuer)"
    "\<exists>auds. audiences_of claims = Inr auds \<and> oi_client_id c \<in> set auds" "text_of claims ''nonce'' [] = nonce"
    "oi_allowed_tenant_ids c = [] \<or> text_of claims ''tid'' [] \<in> set (oi_allowed_tenant_ids c)"
proof -
  obtain now v issuer auds same expiry begins where *: "time_now s = (Inr now, v)" "endpoint E c ''issuer'' v = (Inr issuer, t)"
    "rstrip ''/'' (text_of claims ''iss'' []) = rstrip ''/'' issuer" "audiences_of claims = Inr auds" "List.member auds (oi_client_id c)"
    "py_int (get_or claims ''exp'' (JInt 0)) = Inr expiry" "now - 90 \<le> expiry"
    "py_int (or_else (map_of claims ''nbf'') (JInt 0)) = Inr begins" "begins \<le> now + 90"
    "compare_digest (text_of claims ''nonce'' []) nonce = Inr same" same
    "oi_allowed_tenant_ids c = [] \<or> List.member (oi_allowed_tenant_ids c) (text_of claims ''tid'' [])"
    using assms unfolding check_claims_def run_Inr by blast
  have "service v t" using stepsD [OF service_endpoint(1) *(2)] .
  then show "reads (database s) < reads (database t)"
    using *(1) by (auto simp: time_now_Inr service_def now_utc_def)
  show "timely claims (epoch_seconds (clock (database s) (reads (database s))))"
    using * by (auto simp: timely_def time_now_Inr)
  show "\<exists>md issuer. cached_object (map_of (memory t) ''oidc.metadata'') = Some md \<and> map_of md ''issuer'' = Some issuer \<and>
       rstrip ''/'' (text_of claims ''iss'' []) = rstrip ''/'' (py_str issuer)"
    using endpoint_Inr [OF *(2)] *(3) by auto
qed (use assms in \<open>auto simp: check_claims_def run_Inr compare_digest_def split: if_splits\<close>)

lemma validate_Inr:
  assumes "validate_id_token E c token nonce s = (Inr claims, t)"
  shows "\<exists>covered header signature u v. read_id_token token = Some (covered, JObj header, JObj claims, signature) \<and>
    map_of header ''alg'' = Some (JStr ''RS256'') \<and> verified_by_openssl E covered (trace t) \<and>
    service s u \<and> check_claims E c claims nonce u = (Inr v, t)"
proof -
  obtain covered header payload signature hd_kvs jwk u v x y where
    r: "read_id_token token = Some (covered, header, payload, signature)" and
    h: "attrs header = Inr hd_kvs" "map_of hd_kvs ''alg'' = Some (JStr ''RS256'')" and
    k: "signing_key E c (text_of hd_kvs ''kid'' []) s = (Inr jwk, u)" and
    *: "verify_rs256 E covered signature jwk u = (Inr v, x)" "attrs payload = Inr claims" "check_claims E c claims nonce x = (Inr y, t)"
    using assms by (auto simp only: validate_id_token_def Let_def run_Inr split_paired_Ex case_prod_conv)
  have "payload = JObj claims" "header = JObj hd_kvs" using *(2) h(1) by (auto simp: attrs_def split: json.splits)
  moreover have "service x t" using stepsD [OF service_check_claims *(3)] .
  then have "verified_by_openssl E covered (trace t)"
    using verified_later [OF verify_Inr [OF *(1)]] by (auto simp: service_def)
  moreover have "service s x"
    using service.R_trans [OF stepsD [OF service_signing_key k] stepsD [OF service_verify *(1)]] .
  ultimately show ?thesis using r h *(3) by blast
qed

lemma claims_need_mfa:
  assumes "identity_from_claims cfg claims = Inr i"
  shows "(oi_require_mfa (oidc cfg) \<longrightarrow> id_mfa i) \<and> id_tenants i \<noteq> [] \<and> set (id_tenants i) \<subseteq> insert ''*'' (tenant_ids cfg)"
  using assms
  by (auto simp: identity_from_claims_def Let_def unknown_scopes_def filter_empty_conv tenant_ids_def)

lemma complete_login_Inr:
  assumes "complete_login E cfg key code state state_token s = (Inr (i, target), t)"
  shows "\<exists>saved u same url data x answer nonce token claims v. token_decode key state_token ''oidc_state'' s = (Inr saved, u) \<and>
    (if state = [] then ret False else lift_res (compare_digest state (text_of saved ''state'' []))) u = (Inr same, u) \<and> same \<and>
    endpoint E (oidc cfg) ''token_endpoint'' u = (Inr url, x) \<and> fetch_json E url data x = (Inr answer, v) \<and>
    map_of saved ''nonce'' = Some nonce \<and> validate_id_token E (oidc cfg) token (py_str nonce) v = (Inr claims, t) \<and>
    identity_from_claims cfg claims = Inr i"
proof -
  obtain saved u same u' url form x answer v nonce claims t' where
    "token_decode key state_token ''oidc_state'' s = (Inr saved, u)"
    "(if state = [] then ret False else lift_res (compare_digest state (text_of saved ''state'' []))) u = (Inr same, u')" same
    "endpoint E (oidc cfg) ''token_endpoint'' u' = (Inr url, x)" "fetch_json E url (Some (urlencode form)) x = (Inr answer, v)"
    "map_of saved ''nonce'' = Some nonce"
    "validate_id_token E (oidc cfg) (text_of answer ''id_token'' []) (py_str nonce) v = (Inr claims, t')"
    "identity_from_claims cfg claims = Inr i" "t = t'"
    using assms unfolding complete_login_def Let_def run_Inr prod.inject by blast
  moreover from this(2) have "u' = u" by (auto simp: run_Inr split: if_splits)
  ultimately show ?thesis by blast
qed

text \<open>C13. A login that completes has presented the state of a login begun with the same signing key. The ID
  token whose claims give the identity is an RS256 token that \<open>openssl\<close> was asked about, over exactly its
  header and payload, and found good. Its issuer is that of the metadata in use, which was in the memory of
  the process before or names the configured issuer; at a second that the login read from the clock it was
  neither expired nor not yet active, with a tolerance of 90 seconds; it names this client as an audience,
  carries the nonce of that login and comes from a permitted directory tenant. The identity has tenants, all
  configured, and evidence of a second factor where the configuration requires it.\<close>

theorem login_is_verified:
  assumes "complete_login E cfg key code state state_token s = (Inr (i, target), t)"
  shows "\<exists>saved token covered header claims signature nonce n md issuer auds.
     open_token key state_token = Inr saved \<and> map_of saved ''typ'' = Some (JStr ''oidc_state'') \<and>
     state \<noteq> [] \<and> text_of saved ''state'' [] = state \<and> map_of saved ''nonce'' = Some nonce \<and>
     read_id_token token = Some (covered, JObj header, JObj claims, signature) \<and>
     map_of header ''alg'' = Some (JStr ''RS256'') \<and> verified_by_openssl E covered (trace t) \<and>
     cached_object (map_of (memory t) ''oidc.metadata'') = Some md \<and> map_of md ''issuer'' = Some issuer \<and>
     rstrip ''/'' (text_of claims ''iss'' []) = rstrip ''/'' (py_str issuer) \<and>
     (cached_object (map_of (memory s) ''oidc.metadata'') = Some md \<or>
      rstrip ''/'' (text_of md ''issuer'' []) = rstrip ''/'' (oi_issuer (oidc cfg))) \<and>
     reads (database s) \<le> n \<and> n < reads (database t) \<and> timely claims (epoch_seconds (clock (database s) n)) \<and>
     audiences_of claims = Inr auds \<and> oi_client_id (oidc cfg) \<in> set auds \<and> text_of claims ''nonce'' [] = py_str nonce \<and>
     (oi_allowed_tenant_ids (oidc cfg) = [] \<or> text_of claims ''tid'' [] \<in> set (oi_allowed_tenant_ids (oidc cfg))) \<and>
     identity_from_claims cfg claims = Inr i \<and> id_tenants i \<noteq> [] \<and> set (id_tenants i) \<subseteq> insert ''*'' (tenant_ids cfg) \<and>
     (oi_require_mfa (oidc cfg) \<longrightarrow> id_mfa i)"
proof -
  obtain saved u same url data x answer nonce token claims v where
    d: "token_decode key state_token ''oidc_state'' s = (Inr saved, u)" and
    st: "(if state = [] then ret False else lift_res (compare_digest state (text_of saved ''state'' []))) u = (Inr same, u)" same and
    fetch: "endpoint E (oidc cfg) ''token_endpoint'' u = (Inr url, x)" "fetch_json E url data x = (Inr answer, v)" and
    n: "map_of saved ''nonce'' = Some nonce" and
    val: "validate_id_token E (oidc cfg) token (py_str nonce) v = (Inr claims, t)" and
    i: "identity_from_claims cfg claims = Inr i"
    using complete_login_Inr [OF assms] by blast
  have o: "open_token key state_token = Inr saved" "map_of saved ''typ'' = Some (JStr ''oidc_state'')"
    using d unfolding token_decode_def run_Inr by blast+
  have state: "state \<noteq> []" "text_of saved ''state'' [] = state"
    using st by (auto simp: compare_digest_def run_Inr split: if_splits)
  obtain covered header signature a b where v: "read_id_token token = Some (covered, JObj header, JObj claims, signature)"
    "map_of header ''alg'' = Some (JStr ''RS256'')" "verified_by_openssl E covered (trace t)" "service v a"
    "check_claims E (oidc cfg) claims (py_str nonce) a = (Inr b, t)"
    using validate_Inr [OF val] by blast
  note cl = check_claims_Inr [OF v(5)]
  obtain md issuer auds where md: "cached_object (map_of (memory t) ''oidc.metadata'') = Some md" "map_of md ''issuer'' = Some issuer"
    "rstrip ''/'' (text_of claims ''iss'' []) = rstrip ''/'' (py_str issuer)"
    and auds: "audiences_of claims = Inr auds" "oi_client_id (oidc cfg) \<in> set auds"
    using cl(3,4) by blast
  have from_md: "cached_object (map_of (memory s) ''oidc.metadata'') = Some md \<or>
      rstrip ''/'' (text_of md ''issuer'' []) = rstrip ''/'' (oi_issuer (oidc cfg))"
    using stepsD [OF issued_login assms] md(1) by (auto simp: from_issuer_def)
  have "service s a"
    by (intro service.R_trans [OF stepsD [OF service_decode d]] service.R_trans [OF stepsD [OF service_endpoint(1) fetch(1)]]
        service.R_trans [OF stepsD [OF service_fetch fetch(2)]] v(4))
  then have time: "reads (database s) \<le> reads (database a)" "clock (database a) = clock (database s)"
    by (auto simp: service_def)
  show ?thesis
    by (intro exI conjI, rule o(1), rule o(2), rule state(1), rule state(2), rule n, rule v(1), rule v(2), rule v(3), rule md(1),
        rule md(2), rule md(3), rule from_md, rule time(1), rule cl(2), rule cl(1) [unfolded time(2)], rule auds(1), rule auds(2),
        rule cl(5), rule cl(6), rule i) (use claims_need_mfa [OF i] in simp_all)
qed

section \<open>A login that completes\<close>

text \<open>The token \<open>{"alg":"RS256","kid":"k"}.{"aud":"c","exp":9999999999,"iss":"https://idp","nonce":"n","sub":"u"}\<close> with a signature
  that the environment's \<open>openssl\<close> accepts.\<close>

definition login_token :: string where
  "login_token = ''eyJhbGciOiJSUzI1NiIsImtpZCI6ImsifQ.eyJhdWQiOiJjIiwiZXhwIjo5OTk5OTk5OTk5LCJpc3MiOiJodHRwczovL2lkcCIsIm5vbmNlIjoibiIsInN1YiI6InUifQ.AA''"

definition login_claims :: "(string \<times> json) list" where
  "login_claims = [(''aud'', JStr ''c''), (''exp'', JInt 9999999999), (''iss'', JStr ''https://idp''), (''nonce'', JStr ''n''),
     (''sub'', JStr ''u'')]"

definition login_env :: env where
  "login_env = sample_env\<lparr>run_reply := (\<lambda>h c. case c of
       HttpFetch _ _ \<Rightarrow> Inr (200, ''{'' @ dumps_str ''id_token'' @ '':'' @ dumps_str login_token @ ''}'', [])
     | _ \<Rightarrow> Inr (0, ''Verified OK'', []))\<rparr>"

definition login_sys :: sys where
  "login_sys = sample_sys\<lparr>memory := [
     (''oidc.metadata'', JObj [(''issuer'', JStr ''https://idp/''), (''token_endpoint'', JStr ''https://idp/token'')]),
     (''oidc.jwks'', JObj [(''keys'', JList [JObj [(''kid'', JStr ''k''), (''kty'', JStr ''RSA''), (''n'', JStr ''AQAB''), (''e'', JStr ''AQAB'')]])]),
     (''oidc.jwks_loaded_at'', JInt 0)]\<rparr>"

definition login_state :: "(string \<times> json) list" where
  "login_state = [(''exp'', JInt 9999999999), (''nonce'', JStr ''n''), (''state'', JStr ''s''), (''typ'', JStr ''oidc_state''),
     (''verifier'', JStr ''v'')]"

lemma login_token_reads:
  "read_id_token login_token = Some (''eyJhbGciOiJSUzI1NiIsImtpZCI6ImsifQ.eyJhdWQiOiJjIiwiZXhwIjo5OTk5OTk5OTk5LCJpc3MiOiJodHRwczovL2lkcCIsIm5vbmNlIjoibiIsInN1YiI6InUifQ'',
     JObj [(''alg'', JStr ''RS256''), (''kid'', JStr ''k'')], JObj login_claims, [0])"
  by code_simp

lemma login_answer:
  "loads (take (4 * 1024 * 1024) (''{'' @ dumps_str ''id_token'' @ '':'' @ dumps_str login_token @ ''}'')) =
     Some (JObj [(''id_token'', JStr login_token)])"
  by code_simp

lemma login_exponent: "b64url_decode ''AQAB'' = Some [1, 0, 1]"
  by code_simp

lemma login_state_opens: "open_token key (token_encode key (JObj login_state)) = Inr login_state"
proof -
  have "canon (JObj login_state) = JObj login_state" by (simp add: login_state_def)
  then show ?thesis by (subst open_encode) (simp_all add: login_state_def attrs_def)
qed

lemma login_fields:
  "map_of login_state ''exp'' = Some (JInt 9999999999)" "map_of login_state ''typ'' = Some (JStr ''oidc_state'')"
  "map_of login_state ''state'' = Some (JStr ''s'')" "map_of login_state ''nonce'' = Some (JStr ''n'')"
  "map_of login_state ''verifier'' = Some (JStr ''v'')" "map_of login_state ''return_to'' = None"
  by (simp_all add: login_state_def)

lemma login_decodes:
  "token_decode [1] (token_encode [1] (JObj login_state)) ''oidc_state'' login_sys =
     (Inr login_state, login_sys\<lparr>database := snd (now_utc (database login_sys))\<rparr>)"
  by (simp add: token_decode_def lift_res_def bind_act_def login_state_opens time_now_def call_db_def now_utc_def login_sys_def
      sample_sys_def create_schema_def epoch_seconds_def second_us_def get_or_def login_fields)

lemma login_validates:
  assumes "\<And>n. clock d n = int n" "reads d < 1000"
  shows "\<exists>t. validate_id_token login_env (oidc plain_enterprise) login_token ''n''
     (login_sys\<lparr>database := d, trace := h\<rparr>) = (Inr login_claims, t)"
  using assms
  by (simp add: validate_id_token_def login_token_reads lift_res_def attrs_def Let_def then_act_def text_of_def or_else_def
      signing_key_def jwks_value_def recall_def login_sys_def cached_object_def call_db_def now_utc_def key_in_def
      verify_rs256_def jwk_bytes_def login_exponent check_claims_def time_now_def endpoint_def oidc_metadata_def
      bind_act_def ask_def login_env_def sample_env_def check_def items_of_def login_claims_def
      epoch_seconds_def second_us_def audiences_of_def plain_enterprise_def compare_digest_def check_res_def rstrip_def lstrip_def
      get_or_def need_def)

lemma login_identity: "case identity_from_claims plain_enterprise login_claims of Inl e \<Rightarrow> False | Inr i \<Rightarrow> True"
  by code_simp

lemma login_completes:
  "\<exists>i target t. complete_login login_env plain_enterprise [1] ''code'' ''s'' (token_encode [1] (JObj login_state)) login_sys =
     (Inr (i, target), t)"
proof -
  let ?d = "snd (now_utc (database login_sys))"
  let ?h = "[HttpFetch ''https://idp/token'' (Some (urlencode [(''grant_type'', ''authorization_code''), (''client_id'', ''c''),
      (''code'', ''code''), (''redirect_uri'', ''https://vault/callback''), (''code_verifier'', ''v'')]))]"
  obtain t where v: "validate_id_token login_env (oidc plain_enterprise) login_token ''n''
      (login_sys\<lparr>database := ?d, trace := ?h\<rparr>) = (Inr login_claims, t)"
    using login_validates [of ?d ?h] by (auto simp: now_utc_def login_sys_def sample_sys_def create_schema_def)
  obtain i where i: "identity_from_claims plain_enterprise login_claims = Inr i" using login_identity by (auto split: sum.splits)
  have f: "fetch_json login_env ''https://idp/token'' x (login_sys\<lparr>database := ?d\<rparr>) =
      (Inr [(''id_token'', JStr login_token)], login_sys\<lparr>database := ?d, trace := [HttpFetch ''https://idp/token'' x]\<rparr>)" for x
    using login_answer
    by (simp add: fetch_json_def bind_act_def ask_def need_def login_env_def login_sys_def sample_sys_def)
  have e: "endpoint login_env (oidc plain_enterprise) ''token_endpoint'' (login_sys\<lparr>database := ?d\<rparr>) =
      (Inr ''https://idp/token'', login_sys\<lparr>database := ?d\<rparr>)"
    by (simp add: endpoint_def oidc_metadata_def recall_def login_sys_def cached_object_def bind_act_def need_def)
  have lf: "login_form login_env (oidc plain_enterprise) ''code'' ''v'' = Inr [(''grant_type'', ''authorization_code''), (''client_id'', ''c''),
      (''code'', ''code''), (''redirect_uri'', ''https://vault/callback''), (''code_verifier'', ''v'')]"
    by (simp add: login_form_def plain_enterprise_def)
  have "login_token \<noteq> []" by (simp add: login_token_def)
  then have "complete_login login_env plain_enterprise [1] ''code'' ''s'' (token_encode [1] (JObj login_state)) login_sys =
     (Inr (i, ''/''), t)"
    using v by (simp add: complete_login_def Let_def bind_act_def login_decodes login_fields text_of_def or_else_def lift_res_def
        compare_digest_def check_res_def f e lf i need_def ascii_text_def)
  then show ?thesis by blast
qed

lemma login_is_verified_witness:
  "\<exists>i target t covered claims n. complete_login login_env plain_enterprise [1] ''code'' ''s'' (token_encode [1] (JObj login_state)) login_sys =
     (Inr (i, target), t) \<and> id_tenants i \<noteq> [] \<and> verified_by_openssl login_env covered (trace t) \<and>
     timely claims (epoch_seconds (clock (database login_sys) n)) \<and> n < reads (database t)"
proof -
  obtain i target t where "complete_login login_env plain_enterprise [1] ''code'' ''s'' (token_encode [1] (JObj login_state)) login_sys =
     (Inr (i, target), t)" using login_completes by blast
  with login_is_verified [OF this] show ?thesis by blast
qed

end
