(* ===== verification/Enterprise_Ops.thy ===== *)
theory Enterprise_Ops
  imports Signed_Token Effects Dr_State Naming
begin

text \<open>
  \<open>enterprise_ops.py\<close>: the operations view of one tenant scope (jobs with estimated progress, the
  summary), the Prometheus text and the frames of the event stream. Ratios are exact rationals. The
  lemmas show that the view contains exactly the jobs of the tenants in scope, and that a reader of RFC
  6455 frames gets each payload back. The socket server around them is not modelled.
\<close>

section \<open>Helpers\<close>

definition parse_time :: "string option \<Rightarrow> instant option" where
  "parse_time v = (case v of None \<Rightarrow> None | Some t \<Rightarrow> if t = [] then None else map_option as_utc (fromisoformat t))"

text \<open>\<open>int(timedelta.total_seconds())\<close>.\<close>

definition whole_seconds :: "int \<Rightarrow> int" where
  "whole_seconds d = (if d < 0 then - ((- d) div second_us) else d div second_us)"

definition prom_char :: "char \<Rightarrow> string" where
  "prom_char c =
     (if c = CHR 0x5C then [CHR 0x5C, CHR 0x5C] else if c = CHR 0x0A then [CHR 0x5C, CHR ''n'']
      else if c = CHR 0x22 then [CHR 0x5C, CHR 0x22] else [c])"

definition prom_label :: "string \<Rightarrow> string" where
  "prom_label s = concat (map prom_char s)"

definition prom_labels :: "(string \<times> string) list \<Rightarrow> string" where
  "prom_labels kvs = ''{'' @ join '','' (map (\<lambda>(k, v). k @ ''='' @ [CHR 0x22] @ prom_label v @ [CHR 0x22]) kvs) @ ''}''"

section \<open>Progress of a running job\<close>

definition progress_key :: "nat \<Rightarrow> string" where
  "progress_key i = ''progress.'' @ show_nat i"

definition cached_progress :: "json option \<Rightarrow> (int \<times> int \<times> int) option" where
  "cached_progress v = (case v of Some (JList [JInt t, JInt p, JInt b]) \<Rightarrow> Some (t, p, b) | _ \<Rightarrow> None)"

text \<open>A listing, or nothing when the directory cannot be read.\<close>

definition listing_or_empty :: "env \<Rightarrow> string \<Rightarrow> string \<Rightarrow> (string \<times> int) list act" where
  "listing_or_empty E path pattern =
     catch (ask (listing_reply E) (Glob path pattern)) (\<lambda>e. if os_error e then ret [] else throw e)"

fun newest_dir :: "(string \<times> int) list \<Rightarrow> (string \<times> int) option" where
  "newest_dir [] = None"
| "newest_dir (d # ds) =
     (case newest_dir ds of None \<Rightarrow> Some d | Some e \<Rightarrow> Some (if snd d < snd e then e else d))"

text \<open>The bytes of at most 50000 files.\<close>

definition walked_bytes :: "(string \<times> int) list \<Rightarrow> int" where
  "walked_bytes files = sum_list (map snd (take 50000 files))"

definition progress_percent :: "int \<Rightarrow> int \<Rightarrow> int" where
  "progress_percent expected current =
     (if 0 < expected \<and> 0 < current then min 85 (max 8 (8 + min current expected * 77 div expected))
      else if 0 < current then 25 else 5)"

text \<open>The cached estimate, where it is younger than the polling interval.\<close>

definition recent_progress :: "enterprise_config \<Rightarrow> int \<Rightarrow> json option \<Rightarrow> (int \<times> int) option" where
  "recent_progress cfg now known =
     (case cached_progress known of
        Some (t, p, b) \<Rightarrow>
          if now - t < max 1 (ob_websocket_poll_seconds (observability cfg)) * second_us then Some (p, b) else None
      | None \<Rightarrow> None)"

definition estimate_progress :: "env \<Rightarrow> enterprise_config \<Rightarrow> job \<Rightarrow> (int \<times> int) act" where
  "estimate_progress E cfg j =
     bind_act (recall (progress_key (j_id j))) (\<lambda>known.
     bind_act (ask (int_reply E) Monotonic) (\<lambda>now.
     case recent_progress cfg now known of
       Some r \<Rightarrow> ret r
     | None \<Rightarrow>
         (let base = path_div (path_div (norm_path (staging_path (repository (core cfg))))
                (safe_component unnamed (j_platform j))) (safe_component unnamed (j_vm_name j))
          in bind_act (listing_or_empty E base ''*/'') (\<lambda>dirs.
             bind_act (case newest_dir dirs of
                 None \<Rightarrow> ret 0
               | Some d \<Rightarrow> bind_act (listing_or_empty E (fst d) ''**'') (\<lambda>files. ret (walked_bytes files))) (\<lambda>current.
             bind_act (query (latest_point (j_platform j) (j_vm_id j))) (\<lambda>previous.
             let p = progress_percent (case previous of Some q \<Rightarrow> p_backup_bytes q | None \<Rightarrow> 0) current
             in then_act (memorize (progress_key (j_id j)) (JList [JInt now, JInt p, JInt current])) (ret (p, current))))))))"

section \<open>Jobs and summary of a scope\<close>

definition int_opt_json :: "int option \<Rightarrow> json" where
  "int_opt_json v = (case v of Some i \<Rightarrow> JInt i | None \<Rightarrow> JNull)"

definition job_columns :: "job \<Rightarrow> (string \<times> json) list" where
  "job_columns j =
     [(''id'', JInt (int (j_id j))), (''started_at'', JStr (j_started_at j)), (''finished_at'', opt_json (j_finished_at j)),
      (''platform'', JStr (j_platform j)), (''vm_id'', JStr (j_vm_id j)), (''vm_name'', JStr (j_vm_name j)),
      (''status'', JStr (j_status j)), (''snapshot_id'', opt_json (j_snapshot_id j)), (''error'', opt_json (j_error j))]"

definition job_row :: "env \<Rightarrow> enterprise_config \<Rightarrow> instant \<Rightarrow> string \<Rightarrow> job \<Rightarrow> (string \<times> json) list act" where
  "job_row E cfg now tenant j =
     bind_act (if j_status j = ''running''
               then bind_act (estimate_progress E cfg j) (\<lambda>(p, b). ret (p, Some b, ''exporting''))
               else ret (100, None, if j_status j = ''success'' then ''complete'' else ''failed'')) (\<lambda>(p, seen, stage).
       ret (job_columns j @
         [(''tenant'', JStr tenant), (''tenant_name'', JStr (tenant_name cfg tenant)), (''progress_percent'', JInt p),
          (''progress_estimated'', JBool (j_status j = ''running'')), (''stage'', JStr stage),
          (''staging_bytes_seen'', int_opt_json seen),
          (''elapsed_seconds'', int_opt_json (case parse_time (Some (j_started_at j)) of
             None \<Rightarrow> None
           | Some started \<Rightarrow> Some (whole_seconds ((case parse_time (j_finished_at j) of Some f \<Rightarrow> f | None \<Rightarrow> now) - started))))]))"

text \<open>The row of one job, or nothing when its tenant is outside the scope.\<close>

definition scoped_row ::
  "env \<Rightarrow> enterprise_config \<Rightarrow> instant \<Rightarrow> string list \<Rightarrow> job \<Rightarrow> (string \<times> json) list option act" where
  "scoped_row E cfg now scopes j =
     bind_act (lift_res (tenant_for_platform cfg (j_platform j))) (\<lambda>tenant.
       if allows scopes tenant then bind_act (job_row E cfg now tenant j) (\<lambda>r. ret (Some r)) else ret None)"

definition newest_jobs :: "int \<Rightarrow> db \<Rightarrow> job list" where
  "newest_jobs limit d = take (nat (max 1 (min limit 500))) (sort_desc j_id (jobs d))"

definition ops_jobs :: "env \<Rightarrow> enterprise_config \<Rightarrow> string list \<Rightarrow> int \<Rightarrow> (string \<times> json) list list act" where
  "ops_jobs E cfg scopes limit =
     bind_act (query (newest_jobs limit)) (\<lambda>rows.
     bind_act (call_db now_utc) (\<lambda>now.
     bind_act (each (scoped_row E cfg now scopes) rows) (\<lambda>found. ret (List.map_filter id found))))"

text \<open>The platforms of the scope with their tenants; the tenant is looked up twice, as in the source.\<close>

definition scoped_platforms :: "enterprise_config \<Rightarrow> string list \<Rightarrow> (string \<times> string) list res" where
  "scoped_platforms cfg scopes =
     bind_res (map_res (\<lambda>p. bind_res (tenant_for_platform cfg (pl_name p)) (\<lambda>t. Inr (pl_name p, t)))
         (filter pl_enabled (platforms (core cfg)))) (\<lambda>rows.
       Inr (dict_of (filter (\<lambda>(n, t). allows scopes t) rows)))"

definition active_states :: "string list" where
  "active_states = [''pending_approval'', ''approved'', ''ready'', ''running'']"

definition ops_summary :: "enterprise_config \<Rightarrow> string list \<Rightarrow> db \<Rightarrow> (string \<times> json) list res" where
  "ops_summary cfg scopes d =
     bind_res (scoped_platforms cfg scopes) (\<lambda>ps.
     let names = map fst ps;
         points = filter (\<lambda>p. List.member names (p_platform p)) (live_points d)
     in Inr (if ps = [] then
         [(''tenants'', JList []), (''platforms'', JInt 0), (''recovery_points'', JInt 0), (''verified'', JInt 0),
          (''suspicious'', JInt 0), (''running_jobs'', JInt 0)]
       else
         [(''tenants'', JList (map JStr (sort (remdups (map snd ps))))), (''platforms'', JInt (int (length ps))),
          (''recovery_points'', JInt (int (length points))), (''verified'', JInt (int (length (filter p_verified points)))),
          (''suspicious'', JInt (int (length (filter p_suspicious points)))),
          (''running_jobs'', JInt (int (length (filter (\<lambda>j. j_status j = ''running'' \<and> List.member names (j_platform j)) (jobs d))))),
          (''active_restore_requests'', JInt (int (length (filter (\<lambda>q. List.member active_states (q_status q) \<and>
             List.member names (q_source_platform q)) (restore_requests d)))))]))"

definition ops_snapshot ::
  "env \<Rightarrow> enterprise_config \<Rightarrow> identity \<Rightarrow> ((string \<times> json) list list \<times> (string \<times> json) list) act" where
  "ops_snapshot E cfg i =
     bind_act (ops_jobs E cfg (id_tenants i) 100) (\<lambda>js.
     bind_act (query (ops_summary cfg (id_tenants i))) (\<lambda>r.
     bind_act (lift_res r) (\<lambda>s. ret (js, s))))"

section \<open>Prometheus text\<close>

text \<open>\<open>GROUP BY\<close>: the groups in the order of their key, which is a list of columns.\<close>

definition group_rows :: "('r \<Rightarrow> string list) \<Rightarrow> 'r list \<Rightarrow> (string list \<times> 'r list) list" where
  "group_rows key rows = map (\<lambda>k. (k, filter (\<lambda>r. key r = k) rows)) (sort (remdups (map key rows)))"

definition count_if :: "('r \<Rightarrow> bool) \<Rightarrow> 'r list \<Rightarrow> string" where
  "count_if p rows = show_nat (length (filter p rows))"

definition sample :: "string \<Rightarrow> (string \<times> string) list \<Rightarrow> string \<Rightarrow> string" where
  "sample name ls v = name @ prom_labels ls @ '' '' @ v"

text \<open>The labels of a platform's series: the platform itself only where the configuration asks for it.\<close>

definition platform_label :: "enterprise_config \<Rightarrow> string \<Rightarrow> (string \<times> string) list" where
  "platform_label cfg platform =
     (if ob_include_platform_labels (observability cfg) then [(''platform'', platform)] else [])"

definition series :: "enterprise_config \<Rightarrow> string \<Rightarrow> (string \<Rightarrow> string list) \<Rightarrow> string list res" where
  "series cfg platform f = bind_res (tenant_for_platform cfg platform) (\<lambda>t. Inr (f t))"

definition all_series :: "('g \<Rightarrow> string list res) \<Rightarrow> 'g list \<Rightarrow> string list res" where
  "all_series f gs = bind_res (map_res f gs) (\<lambda>ls. Inr (concat ls))"

definition point_series :: "enterprise_config \<Rightarrow> string list \<times> point list \<Rightarrow> string list res" where
  "point_series cfg g =
     (let p = hd (fst g) in series cfg p (\<lambda>t.
        let ls = (''tenant'', t) # platform_label cfg p
        in [sample ''immutavault_recovery_points'' ls (count_if (\<lambda>_. True) (snd g)),
            sample ''immutavault_recovery_points_verified'' ls (count_if p_verified (snd g)),
            sample ''immutavault_recovery_points_suspicious'' ls (count_if p_suspicious (snd g))]))"

definition status_series :: "enterprise_config \<Rightarrow> string \<Rightarrow> string list \<times> 'r list \<Rightarrow> string list res" where
  "status_series cfg name g =
     (let p = hd (fst g) in series cfg p (\<lambda>t.
        [sample name ([(''tenant'', t), (''status'', fst g ! 1)] @ platform_label cfg p)
           (show_nat (length (snd g)))]))"

definition copy_series :: "enterprise_config \<Rightarrow> string list \<times> (point \<times> copy) list \<Rightarrow> string list res" where
  "copy_series cfg g =
     (let p = hd (fst g) in series cfg p (\<lambda>t.
        let ls = [(''tenant'', t), (''target'', fst g ! 1), (''status'', fst g ! 2)] @ platform_label cfg p
        in [sample ''immutavault_recovery_copies'' ls (show_nat (length (snd g))),
            sample ''immutavault_recovery_copies_verified'' ls (count_if (\<lambda>(_, c). c_verified c) (snd g))]))"

definition newest_finish :: "job list \<Rightarrow> string option" where
  "newest_finish rows = foldr (\<lambda>j m. max (j_finished_at j) m) rows None"

definition rpo_series :: "enterprise_config \<Rightarrow> instant \<Rightarrow> job list \<Rightarrow> platform_config \<Rightarrow> string list res" where
  "rpo_series cfg now rows p =
     series cfg (pl_name p) (\<lambda>t.
       let stamp = parse_time (newest_finish
             (filter (\<lambda>j. j_status j = ''success'' \<and> j_platform j = pl_name p) rows));
           age = (case stamp of Some s \<Rightarrow> whole_seconds (now - s) | None \<Rightarrow> -1);
           compliant = (stamp \<noteq> None \<and> age \<le> rpo_target_minutes (protection (core cfg)) * 60);
           ls = (''tenant'', t) # platform_label cfg (pl_name p)
       in [sample ''immutavault_last_successful_backup_age_seconds'' ls (show_int age),
           sample ''immutavault_rpo_compliant'' ls (if compliant then ''1'' else ''0'')])"

definition live_copies :: "db \<Rightarrow> (point \<times> copy) list" where
  "live_copies d = concat (map (\<lambda>c. map (\<lambda>p. (p, c)) (filter (\<lambda>p. p_snapshot_id p = c_snapshot_id c) (live_points d)))
     (recovery_copies d))"

definition dr_series :: "string list \<times> dr_run list \<Rightarrow> string" where
  "dr_series g = sample ''immutavault_dr_runs_total'' [(''direction'', hd (fst g)), (''status'', fst g ! 1)]
     (show_nat (length (snd g)))"

definition heading :: "string \<Rightarrow> string \<Rightarrow> string \<Rightarrow> string list" where
  "heading name kind help = [''# HELP '' @ name @ '' '' @ help, ''# TYPE '' @ name @ '' '' @ kind]"

definition render_prometheus :: "enterprise_config \<Rightarrow> instant \<Rightarrow> db \<Rightarrow> string res" where
  "render_prometheus cfg now d =
     (let ok = fst (verify_audit_chain d)
      in bind_res (all_series (point_series cfg) (group_rows (\<lambda>p. [p_platform p]) (live_points d))) (\<lambda>points.
         bind_res (all_series (status_series cfg ''immutavault_backup_jobs_total'')
           (group_rows (\<lambda>j. [j_platform j, j_status j]) (jobs d))) (\<lambda>js.
         bind_res (all_series (status_series cfg ''immutavault_restore_requests'')
           (group_rows (\<lambda>q. [q_source_platform q, q_status q]) (restore_requests d))) (\<lambda>requests.
         bind_res (all_series (rpo_series cfg now (jobs d)) (filter pl_enabled (platforms (core cfg)))) (\<lambda>rpo.
         bind_res (all_series (copy_series cfg)
           (group_rows (\<lambda>(p, c). [p_platform p, c_target_name c, c_status c]) (live_copies d))) (\<lambda>copies.
         Inr (join [CHR 0x0A] (
           heading ''immutavault_build_info'' ''gauge'' ''Immutavault build information.'' @
           [sample ''immutavault_build_info'' [(''version'', ''1.1.0'')] ''1''] @
           heading ''immutavault_audit_chain_valid'' ''gauge'' ''Whether the tamper-evident audit chain validates.'' @
           [''immutavault_audit_chain_valid '' @ (if ok then ''1'' else ''0'')] @
           heading ''immutavault_recovery_points'' ''gauge'' ''Current non-expired recovery points.'' @
           heading ''immutavault_recovery_points_verified'' ''gauge'' ''Current verified recovery points.'' @
           heading ''immutavault_recovery_points_suspicious'' ''gauge'' ''Current suspicious recovery points.'' @
           points @
           heading ''immutavault_backup_jobs_total'' ''counter'' ''Backup jobs by result.'' @ js @
           heading ''immutavault_restore_requests'' ''gauge'' ''Restore requests by current state.'' @ requests @
           heading ''immutavault_last_successful_backup_age_seconds'' ''gauge''
             ''Age of the newest successful backup for a platform.'' @
           heading ''immutavault_rpo_compliant'' ''gauge''
             ''Whether the latest successful platform backup is within the configured RPO target.'' @ rpo @
           heading ''immutavault_recovery_copies'' ''gauge'' ''Recovery-point copies by target and status.'' @
           heading ''immutavault_recovery_copies_verified'' ''gauge'' ''Verified recovery-point copies.'' @ copies @
           heading ''immutavault_dr_runs_total'' ''counter'' ''Disaster-recovery orchestration runs.'' @
           map dr_series (group_rows (\<lambda>r. [d_direction r, d_status r]) (dr_runs d))) @ [CHR 0x0A])))))))"

section \<open>Frames of the event stream\<close>

text \<open>\<open>_frame\<close>: an unmasked text frame with its length in 7, 16 or 64 bits; a payload of \<open>2 ^ 64\<close> bytes
  or more overflows \<open>to_bytes\<close>.\<close>

definition big_endian :: "nat \<Rightarrow> nat \<Rightarrow> byte list" where
  "big_endian w n = map (\<lambda>i. of_nat (n div 256 ^ i)) (rev [0..<w])"

definition frame :: "byte list \<Rightarrow> byte list res" where
  "frame payload =
     (let n = length payload
      in if n < 126 then Inr ([0x81, of_nat n] @ payload)
         else if n \<le> 0xFFFF then Inr ([0x81, 126] @ big_endian 2 n @ payload)
         else if n < 2 ^ 64 then Inr ([0x81, 127] @ big_endian 8 n @ payload)
         else Inl (OtherError ''int too big to convert''))"

text \<open>A reader of unmasked text frames, after RFC 6455, section 5.2: the payload and what follows it.\<close>

fun from_big_endian :: "byte list \<Rightarrow> nat" where
  "from_big_endian bs = foldl (\<lambda>acc b. acc * 256 + unat b) 0 bs"

definition cut :: "nat \<Rightarrow> byte list \<Rightarrow> (byte list \<times> byte list) option" where
  "cut n bs = (if length bs < n then None else Some (take n bs, drop n bs))"

definition read_frame :: "byte list \<Rightarrow> (byte list \<times> byte list) option" where
  "read_frame bs =
     (case bs of
        b0 # b1 # rest \<Rightarrow>
          if b0 \<noteq> 0x81 \<or> b1 \<ge> 128 then None
          else if b1 < 126 then cut (unat b1) rest
          else (case cut (if b1 = 126 then 2 else 8) rest of
              None \<Rightarrow> None | Some (n, r) \<Rightarrow> cut (from_big_endian n) r)
      | _ \<Rightarrow> None)"

lemma cut_append [simp]: "n = length xs \<Longrightarrow> cut n (xs @ ys) = Some (xs, ys)"
  by (simp add: cut_def)

lemma big_endian_Suc: "big_endian (Suc w) n = of_nat (n div 256 ^ w) # big_endian w n"
  by (simp add: big_endian_def)

lemma length_big_endian [simp]: "length (big_endian w n) = w"
  by (simp add: big_endian_def)

lemma foldl_big_endian:
  "foldl (\<lambda>acc b. acc * 256 + unat b) a (big_endian w n) = a * 256 ^ w + n mod 256 ^ w"
proof (induction w arbitrary: a)
  case 0
  then show ?case by (simp add: big_endian_def)
next
  case (Suc w)
  have "n mod 256 ^ Suc w = 256 ^ w * (n div 256 ^ w mod 256) + n mod 256 ^ w"
    by (metis mod_mult2_eq mult.commute power_Suc)
  moreover have "unat (of_nat (n div 256 ^ w) :: byte) = n div 256 ^ w mod 256"
    by (simp add: unat_of_nat)
  ultimately show ?case by (simp only: big_endian_Suc foldl.simps Suc.IH) (simp add: algebra_simps)
qed

lemma from_big_endian_of: "n < 256 ^ w \<Longrightarrow> from_big_endian (big_endian w n) = n"
  by (simp add: foldl_big_endian)

lemma read_frame_of: "frame payload = Inr bs \<Longrightarrow> read_frame (bs @ rest) = Some (payload, rest)"
proof -
  assume f: "frame payload = Inr bs"
  let ?n = "length payload"
  consider "?n < 126" | "126 \<le> ?n" "?n \<le> 0xFFFF" | "0xFFFF < ?n" "?n < 2 ^ 64"
    using f by (auto simp: frame_def Let_def split: if_splits) 
  then show ?thesis
  proof cases
    case 1
    then have u: "unat (of_nat ?n :: byte) = ?n" by (simp add: unat_of_nat)
    have "(of_nat ?n :: byte) < 126" using 1 u by (simp add: word_less_nat_alt)
    then show ?thesis using f 1 u by (auto simp: frame_def read_frame_def word_le_nat_alt word_less_nat_alt)
  next
    case 2
    then have "from_big_endian (big_endian 2 ?n) = ?n" by (intro from_big_endian_of) simp
    then show ?thesis using f 2 by (auto simp: frame_def read_frame_def simp del: from_big_endian.simps)
  next
    case 3
    then have "from_big_endian (big_endian 8 ?n) = ?n" by (intro from_big_endian_of) simp
    then show ?thesis using f 3 by (auto simp: frame_def read_frame_def simp del: from_big_endian.simps)
  qed
qed

text \<open>The whole stream; every frame takes at least one byte, so its length is enough fuel.\<close>

fun read_frames :: "nat \<Rightarrow> byte list \<Rightarrow> byte list list option" where
  "read_frames fuel [] = Some []"
| "read_frames 0 (b # bs) = None"
| "read_frames (Suc fuel) (b # bs) =
     (case read_frame (b # bs) of None \<Rightarrow> None | Some (p, r) \<Rightarrow> map_option ((#) p) (read_frames fuel r))"

lemma frame_starts: "frame p = Inr bs \<Longrightarrow> \<exists>r. bs = 0x81 # r"
  by (auto simp: frame_def Let_def split: if_splits)

lemma read_frames_of:
  "map_res frame ps = Inr fs \<Longrightarrow> length (concat fs) \<le> fuel \<Longrightarrow> read_frames fuel (concat fs) = Some ps"
proof (induction ps arbitrary: fs fuel)
  case Nil
  then show ?case by simp
next
  case (Cons p ps)
  from Cons.prems(1) obtain b gs where f: "frame p = Inr b" "map_res frame ps = Inr gs" "fs = b # gs"
    by (auto simp: bind_res_def split: sum.splits)
  obtain r where b: "b = 0x81 # r" using frame_starts [OF f(1)] by blast
  obtain n where n: "fuel = Suc n" using Cons.prems(2) f(3) b by (cases fuel) auto
  have "read_frames n (concat gs) = Some ps"
    using Cons.IH [OF f(2)] Cons.prems(2) f(3) b n by simp
  then show ?case using read_frame_of [OF f(1), of "concat gs"] f(3) b n by simp
qed

section \<open>What a scope sees\<close>

definition in_scope :: "enterprise_config \<Rightarrow> string list \<Rightarrow> string \<Rightarrow> bool" where
  "in_scope cfg scopes platform \<longleftrightarrow>
     (case tenant_for_platform cfg platform of Inl e \<Rightarrow> False | Inr t \<Rightarrow> allows scopes t)"

lemma service_listing: "steps service (listing_or_empty E base pattern)"
  unfolding listing_or_empty_def by (intro service_rules) (simp_all add: service_call_def)

lemma service_estimate: "steps service (estimate_progress E cfg j)"
  unfolding estimate_progress_def
  by (intro service_rules service_listing) (simp_all add: service_call_def split: option.split)

lemma service_scoped_row: "steps service (scoped_row E cfg now scopes j)"
  unfolding scoped_row_def job_row_def by (intro service_rules service_estimate)

lemma service_jobs: "steps service (ops_jobs E cfg scopes limit)"
  unfolding ops_jobs_def by (intro service_rules service_scoped_row)

text \<open>What the row of a job shows.\<close>

definition shows_job :: "enterprise_config \<Rightarrow> string list \<Rightarrow> job \<Rightarrow> (string \<times> json) list \<Rightarrow> bool" where
  "shows_job cfg scopes j row \<longleftrightarrow>
     map_of row ''id'' = Some (JInt (int (j_id j))) \<and> map_of row ''platform'' = Some (JStr (j_platform j)) \<and>
     map_of row ''vm_id'' = Some (JStr (j_vm_id j)) \<and> map_of row ''vm_name'' = Some (JStr (j_vm_name j)) \<and>
     map_of row ''started_at'' = Some (JStr (j_started_at j)) \<and> map_of row ''finished_at'' = Some (opt_json (j_finished_at j)) \<and>
     map_of row ''status'' = Some (JStr (j_status j)) \<and> map_of row ''snapshot_id'' = Some (opt_json (j_snapshot_id j)) \<and>
     map_of row ''error'' = Some (opt_json (j_error j)) \<and>
     map_of row ''progress_estimated'' = Some (JBool (j_status j = ''running'')) \<and>
     (j_status j \<noteq> ''running'' \<longrightarrow> map_of row ''progress_percent'' = Some (JInt 100)) \<and>
     map_of row ''stage'' = Some (JStr (if j_status j = ''running'' then ''exporting''
       else if j_status j = ''success'' then ''complete'' else ''failed'')) \<and>
     (\<exists>tenant. tenant_for_platform cfg (j_platform j) = Inr tenant \<and> allows scopes tenant \<and>
        map_of row ''tenant'' = Some (JStr tenant))"

lemma scoped_row_Inr:
  assumes "scoped_row E cfg now scopes j s = (Inr r, t)"
  shows "if in_scope cfg scopes (j_platform j) then \<exists>row. r = Some row \<and> shows_job cfg scopes j row else r = None"
  using assms
  by (auto simp: scoped_row_def job_row_def run_Inr in_scope_def job_columns_def shows_job_def split: if_splits prod.splits)

lemma scoped_rows:
  assumes "list_all2 (\<lambda>j r. if p j then \<exists>row. r = Some row \<and> q j row else r = None) js found"
  shows "list_all2 q (filter p js) (List.map_filter id found)"
  using assms by (induction js found) (auto simp: map_filter_simps split: if_splits)

lemma jobs_of_scope:
  assumes "ops_jobs E cfg scopes limit s = (Inr rows, t)"
  shows "list_all2 (shows_job cfg scopes)
     (filter (\<lambda>j. in_scope cfg scopes (j_platform j)) (newest_jobs limit (database s))) rows"
proof -
  obtain now u found where f: "each (scoped_row E cfg now scopes) (newest_jobs limit (database s)) u = (Inr found, t)"
    "rows = List.map_filter id found"
    using assms by (auto simp: ops_jobs_def run_Inr)
  show ?thesis
    unfolding f(2)
    by (rule scoped_rows, rule service.each_results [OF f(1) service_scoped_row]) (rule scoped_row_Inr)
qed

text \<open>The newest rows, by counting those above.\<close>

lemma take_newest:
  assumes "sorted_wrt (\<lambda>x y. f y < f x) xs"
  shows "set (take n xs) = {x \<in> set xs. card {y \<in> set xs. (f x :: 'b :: linorder) < f y} < n}"
proof -
  have less: "f (xs ! i) < f (xs ! j) \<longleftrightarrow> j < i" if "i < length xs" "j < length xs" for i j
    using that sorted_wrt_nth_less [OF assms, of i j] sorted_wrt_nth_less [OF assms, of j i]
    by (cases i j rule: linorder_cases) auto
  then have "distinct xs" by (metis distinct_conv_nth less_irrefl nat_neq_iff)
  have above: "card {y \<in> set xs. f (xs ! i) < f y} = i" if "i < length xs" for i
  proof -
    have "{y \<in> set xs. f (xs ! i) < f y} = (!) xs ` {0..<i}"
    proof (intro set_eqI iffI)
      fix y assume "y \<in> {y \<in> set xs. f (xs ! i) < f y}"
      then obtain j where "j < length xs" "y = xs ! j" "f (xs ! i) < f (xs ! j)" by (auto simp: in_set_conv_nth)
      then show "y \<in> (!) xs ` {0..<i}" using less [OF that] by auto
    next
      fix y assume "y \<in> (!) xs ` {0..<i}"
      then obtain j where "j < i" "y = xs ! j" by auto
      then show "y \<in> {y \<in> set xs. f (xs ! i) < f y}" using less [OF that, of j] that by auto
    qed
    then have "{y \<in> set xs. f (xs ! i) < f y} = set (take i xs)" using that nth_image [of i xs] by simp
    with that \<open>distinct xs\<close> show ?thesis by (simp add: distinct_card)
  qed
  show ?thesis
  proof (intro set_eqI iffI)
    fix x assume "x \<in> set (take n xs)"
    then obtain i where "i < n" "i < length xs" "x = xs ! i" by (auto simp: in_set_conv_nth)
    with above show "x \<in> {x \<in> set xs. card {y \<in> set xs. f x < f y} < n}" by simp
  next
    fix x assume "x \<in> {x \<in> set xs. card {y \<in> set xs. f x < f y} < n}"
    then obtain i where "i < length xs" "x = xs ! i" "card {y \<in> set xs. f (xs ! i) < f y} < n" by (auto simp: in_set_conv_nth)
    with above have "i < n" by simp
    with \<open>i < length xs\<close> \<open>x = xs ! i\<close> show "x \<in> set (take n xs)" using nth_mem [of i "take n xs"] by simp
  qed
qed

lemma newest_jobs_of:
  assumes "distinct (map j_id (jobs d))"
  shows "sorted_wrt (\<lambda>j k. j_id k < j_id j) (newest_jobs limit d)"
    "set (newest_jobs limit d) =
      {j \<in> set (jobs d). card {k \<in> set (jobs d). j_id j < j_id k} < nat (max 1 (min limit 500))}"
proof -
  have "sorted_wrt (\<lambda>x y. j_id x < j_id y) (sort_key j_id (rev (jobs d)))"
    using assms strict_sorted_iff [of "map j_id (sort_key j_id (rev (jobs d)))"] sorted_sort_key [of j_id "rev (jobs d)"]
    by (simp add: sorted_wrt_map distinct_map)
  then have sorted: "sorted_wrt (\<lambda>x y. j_id y < j_id x) (sort_desc j_id (jobs d))"
    by (simp add: sort_desc_def sorted_wrt_rev)
  then show "sorted_wrt (\<lambda>j k. j_id k < j_id j) (newest_jobs limit d)"
    unfolding newest_jobs_def by (rule sorted_wrt_take)
  show "set (newest_jobs limit d) =
      {j \<in> set (jobs d). card {k \<in> set (jobs d). j_id j < j_id k} < nat (max 1 (min limit 500))}"
    unfolding newest_jobs_def take_newest [OF sorted] by simp
qed

section \<open>Estimated progress stays an estimate\<close>

text \<open>Every remembered estimate lies between 5 and 85.\<close>

definition estimates_ok :: "sys \<Rightarrow> bool" where
  "estimates_ok s \<longleftrightarrow>
     (\<forall>i t p b. cached_progress (map_of (memory s) (progress_key i)) = Some (t, p, b) \<longrightarrow> 5 \<le> p \<and> p \<le> 85)"

definition keeps_estimates :: "sys \<Rightarrow> sys \<Rightarrow> bool" where
  "keeps_estimates s t \<longleftrightarrow> (estimates_ok s \<longrightarrow> estimates_ok t)"

interpretation estimates: step_relation keeps_estimates
  by unfold_locales (simp_all add: keeps_estimates_def)

lemma estimates_prims [intro]:
  "steps keeps_estimates (ask f c)" "steps keeps_estimates (call_db h)" "steps keeps_estimates (lift_res r)"
  by (auto simp: steps_def keeps_estimates_def estimates_ok_def ask_def call_db_def lift_res_def split: prod.split)

lemma progress_percent_bounds: "5 \<le> progress_percent e c \<and> progress_percent e c \<le> 85"
  by (simp add: progress_percent_def le_max_iff_disj)

lemma progress_percent_mono:
  assumes "0 < e" "0 < c" "c \<le> c'"
  shows "progress_percent e c \<le> progress_percent e c'"
proof -
  have "min c e * 77 div e \<le> min c' e * 77 div e" using assms by (intro zdiv_mono1) auto
  with assms show ?thesis unfolding progress_percent_def by (auto intro!: min.mono max.mono)
qed

lemma estimates_memorize:
  "5 \<le> p \<Longrightarrow> p \<le> 85 \<Longrightarrow> steps keeps_estimates (memorize (progress_key i) (JList [JInt t, JInt p, JInt b]))"
  by (auto simp: steps_def keeps_estimates_def estimates_ok_def memorize_def progress_key_def cached_progress_def)

lemma estimates_listing: "steps keeps_estimates (listing_or_empty E base pattern)"
  unfolding listing_or_empty_def by (intro estimates.steps_catch estimates.steps_if) blast+

lemma estimate_keeps: "steps keeps_estimates (estimate_progress E cfg j)"
  unfolding estimate_progress_def
  by (intro estimates.steps_bind estimates.steps_option estimates.steps_let estimates.steps_then
      estimates.steps_recall estimates.steps_query estimates.steps_ret estimates_listing estimates_memorize
      estimates_prims) (simp_all add: progress_percent_bounds)

lemma recent_progress_Some:
  "recent_progress cfg now known = Some (p, b) \<Longrightarrow> \<exists>t. cached_progress known = Some (t, p, b)"
  by (auto simp: recent_progress_def split: option.splits if_splits)

lemma estimate_Inr:
  assumes "estimate_progress E cfg j s = (Inr (p, b), t)" "estimates_ok s"
  shows "5 \<le> p \<and> p \<le> 85"
proof (cases "\<exists>now. recent_progress cfg now (map_of (memory s) (progress_key (j_id j))) = Some (p, b)")
  case True
  then show ?thesis using assms(2) unfolding estimates_ok_def by (blast dest: recent_progress_Some)
next
  case False
  then obtain e c where "p = progress_percent e c"
    using assms(1) by (auto simp: estimate_progress_def run_Inr recall_def Let_def split: option.splits)
  then show ?thesis by (simp add: progress_percent_bounds)
qed

lemma keeps_scoped_row: "steps keeps_estimates (scoped_row E cfg now scopes j)"
  unfolding scoped_row_def job_row_def
  by (intro estimates.steps_bind estimates.steps_if estimates.steps_prod estimates.steps_ret estimate_keeps estimates_prims)

definition honest_row :: "job \<Rightarrow> (string \<times> json) list \<Rightarrow> bool" where
  "honest_row j row \<longleftrightarrow>
     (\<exists>p. map_of row ''progress_percent'' = Some (JInt p) \<and>
        (if j_status j = ''running'' then 5 \<le> p \<and> p \<le> 85 else p = 100) \<and>
        map_of row ''progress_estimated'' = Some (JBool (j_status j = ''running'')))"

lemma scoped_row_honest:
  "scoped_row E cfg now scopes j s = (Inr (Some row), t) \<Longrightarrow> estimates_ok s \<Longrightarrow> honest_row j row"
  by (auto simp: scoped_row_def job_row_def run_Inr job_columns_def honest_row_def
      dest: estimate_Inr split: if_splits prod.splits)

lemma rows_honest:
  assumes "ops_jobs E cfg scopes limit s = (Inr rows, t)" "estimates_ok s"
  shows "list_all2 honest_row
     (filter (\<lambda>j. in_scope cfg scopes (j_platform j)) (newest_jobs limit (database s))) rows"
proof -
  obtain now found where f:
    "each (scoped_row E cfg now scopes) (newest_jobs limit (database s)) (s\<lparr>database := snd (now_utc (database s))\<rparr>)
       = (Inr found, t)" "rows = List.map_filter id found"
    using assms(1) by (auto simp: ops_jobs_def run_Inr call_db_def split: prod.splits)
  let ?P = "\<lambda>j r. if in_scope cfg scopes (j_platform j) then \<exists>row. r = Some row \<and> honest_row j row else r = None"
  have ok: "estimates_ok (s\<lparr>database := snd (now_utc (database s))\<rparr>)"
    using assms(2) by (simp add: estimates_ok_def)
  have "list_all2 ?P (newest_jobs limit (database s)) found"
  proof (rule estimates.each_results [OF f(1) keeps_scoped_row])
    fix j u r v
    assume k: "keeps_estimates (s\<lparr>database := snd (now_utc (database s))\<rparr>) u"
      and r: "scoped_row E cfg now scopes j u = (Inr r, v)"
    have "honest_row j row" if "r = Some row" for row
      using scoped_row_honest [of E cfg now scopes j u row v] r that k ok by (simp add: keeps_estimates_def)
    with scoped_row_Inr [OF r] show "?P j r" by (auto split: if_splits)
  qed
  then show ?thesis unfolding f(2) by (induction rule: list_all2_induct) (auto simp: map_filter_simps split: if_splits)
qed

section \<open>Properties\<close>

text \<open>
  C27. The operations view isolates tenants. Whatever the outside answers, the rows it returns show, newest
  first, exactly those of the \<open>limit\<close> newest jobs of the installation (at least one, at most 500) whose
  platform belongs to one tenant and that tenant is in the scopes of the caller: each with its columns, its
  tenant and its stage, and with 100 percent unless it runs. The limit counts the jobs of all tenants, so
  older jobs of the caller are missing when other tenants have had more than \<open>limit\<close> since. Producing the
  rows writes nothing to the state database and calls no hypervisor.
\<close>

theorem operations_view_scoped:
  assumes "ops_jobs E cfg scopes limit s = (Inr rows, t)" "distinct (map j_id (jobs (database s)))"
  shows "\<exists>shown. list_all2 (shows_job cfg scopes) shown rows \<and> sorted_wrt (\<lambda>j k. j_id k < j_id j) shown \<and>
      set shown = {j \<in> set (jobs (database s)). in_scope cfg scopes (j_platform j) \<and>
        card {k \<in> set (jobs (database s)). j_id j < j_id k} < nat (max 1 (min limit 500))} \<and>
    service s t"
  using jobs_of_scope [OF assms(1)] stepsD [OF service_jobs assms(1)] newest_jobs_of [OF assms(2), of limit]
  by (intro exI [of _ "filter (\<lambda>j. in_scope cfg scopes (j_platform j)) (newest_jobs limit (database s))"])
    (auto simp: sorted_wrt_filter)

text \<open>
  The view never reports an unfinished job as done: while every remembered estimate is at most 85
  percent, a running job shows between 5 and 85 percent, marked as an estimate, every other job shows
  100, and the estimates remembered afterwards are bounded again.
\<close>

lemma running_job_never_complete:
  assumes "ops_jobs E cfg scopes limit s = (Inr rows, t)" "estimates_ok s"
  shows "estimates_ok t \<and>
    list_all2 honest_row
      (filter (\<lambda>j. in_scope cfg scopes (j_platform j)) (newest_jobs limit (database s))) rows"
proof -
  have "steps keeps_estimates (ops_jobs E cfg scopes limit)"
    unfolding ops_jobs_def
    by (intro estimates.steps_bind estimates.steps_query estimates.steps_each estimates.steps_ret
        keeps_scoped_row estimates_prims)
  from stepsD [OF this assms(1)] assms(2) rows_honest [OF assms] show ?thesis by (simp add: keeps_estimates_def)
qed

text \<open>
  C37. The event stream loses nothing: whatever payloads are framed one after the other, a reader of
  RFC 6455 text frames takes the stream apart into exactly those payloads, however long each is.
\<close>

theorem event_stream_round_trip:
  assumes "map_res frame payloads = Inr frames"
  shows "read_frames (length (concat frames)) (concat frames) = Some payloads"
  by (rule read_frames_of [OF assms order.refl])

theorem event_stream_round_trip_witness:
  "read_frames (length (concat [[0x81, 2, 72, 105], [0x81, 0 :: byte]])) (concat [[0x81, 2, 72, 105], [0x81, 0]])
     = Some [[72, 105], []]"
  by (rule event_stream_round_trip) (simp add: frame_def)

text \<open>A database with a running job of one tenant and a finished one of another.\<close>

definition sample_job :: "nat \<Rightarrow> string \<Rightarrow> string \<Rightarrow> job" where
  "sample_job i platform status =
     \<lparr>j_id = i, j_started_at = ''2024-01-01T00:00:00+00:00'', j_finished_at = None, j_platform = platform,
      j_vm_id = ''1'', j_vm_name = ''vm'', j_status = status, j_snapshot_id = None, j_error = None\<rparr>"

definition ops_state :: sys where
  "ops_state = sample_sys\<lparr>database := (create_schema int)
     \<lparr>jobs := [sample_job 1 ''a'' ''running'', sample_job 2 ''b'' ''success'', sample_job 3 ''a'' ''success'']\<rparr>\<rparr>"

definition two_tenants :: enterprise_config where
  "two_tenants = plain_enterprise\<lparr>tenants := [\<lparr>tn_id = ''x'', tn_name = ''X'', tn_platforms = [''a*'']\<rparr>,
     \<lparr>tn_id = ''y'', tn_name = ''Y'', tn_platforms = [''b'']\<rparr>]\<rparr>"

lemma ops_run_returns:
  "case fst (ops_jobs sample_env two_tenants [''x''] 2 ops_state) of Inl e \<Rightarrow> False | Inr rows \<Rightarrow> True"
  by code_simp

lemma ops_run:
  obtains rows t where "ops_jobs sample_env two_tenants [''x''] 2 ops_state = (Inr rows, t)"
  using ops_run_returns by (cases "ops_jobs sample_env two_tenants [''x''] 2 ops_state") (auto split: sum.splits)

lemma sample_job_fields: "j_id (sample_job i p st) = i" "j_platform (sample_job i p st) = p"
  by (simp_all add: sample_job_def)

lemma only_element: "set xs = {x} \<Longrightarrow> sorted_wrt (\<lambda>a b. (f b :: nat) < f a) xs \<Longrightarrow> xs = [x]"
proof (cases xs)
  case (Cons y ys)
  assume "set xs = {x}" "sorted_wrt (\<lambda>a b. f b < f a) xs"
  then have "ys = []" "y = x" using Cons by (cases ys; auto)+
  then show ?thesis using Cons by simp
qed simp

theorem operations_view_scoped_witness:
  "\<exists>rows t. ops_jobs sample_env two_tenants [''x''] 2 ops_state = (Inr rows, t) \<and>
     list_all2 (shows_job two_tenants [''x'']) [sample_job 3 ''a'' ''success''] rows"
proof -
  let ?a = "sample_job 1 ''a'' ''running''" and ?b = "sample_job 2 ''b'' ''success''" and ?c = "sample_job 3 ''a'' ''success''"
  have js: "jobs (database ops_state) = [?a, ?b, ?c]" by (simp add: ops_state_def)
  then have ids: "distinct (map j_id (jobs (database ops_state)))" by (simp add: sample_job_fields)
  have ne: "?b \<noteq> ?c" by (simp add: sample_job_def)
  have scope: "in_scope two_tenants [''x''] ''a''" "\<not> in_scope two_tenants [''x''] ''b''" by code_simp+
  obtain rows t where r: "ops_jobs sample_env two_tenants [''x''] 2 ops_state = (Inr rows, t)" by (rule ops_run)
  obtain shown where shown: "list_all2 (shows_job two_tenants [''x'']) shown rows" "sorted_wrt (\<lambda>j k. j_id k < j_id j) shown"
    "set shown = {j \<in> set (jobs (database ops_state)). in_scope two_tenants [''x''] (j_platform j) \<and>
       card {k \<in> set (jobs (database ops_state)). j_id j < j_id k} < nat (max 1 (min 2 500))}"
    using operations_view_scoped [OF r ids] by blast
  have above: "{k \<in> {?a, ?b, ?c}. 1 < j_id k} = {?b, ?c}" "{k \<in> {?a, ?b, ?c}. 3 < j_id k} = {}"
    by (auto simp: sample_job_fields)
  then have counts: "card {k \<in> {?a, ?b, ?c}. 1 < j_id k} = 2" "card {k \<in> {?a, ?b, ?c}. 3 < j_id k} = 0"
    using ne by simp_all
  have "?a \<notin> set shown" unfolding shown(3) js list.set mem_Collect_eq sample_job_fields counts by simp
  moreover have "?b \<notin> set shown"
    unfolding shown(3) js list.set mem_Collect_eq sample_job_fields using scope(2) by blast
  moreover have "?c \<in> set shown"
    unfolding shown(3) js list.set mem_Collect_eq sample_job_fields counts by (simp add: scope)
  moreover have "set shown \<subseteq> {?a, ?b, ?c}" unfolding shown(3) js list.set by blast
  ultimately have "set shown = {?c}" by blast
  then have "shown = [?c]" using shown(2) by (rule only_element)
  with shown(1) r show ?thesis by blast
qed

end
