(* ===== verification/Spec2Isabelle.thy ===== *)
theory Spec2Isabelle
  imports Lifecycle Policy Xcpng Incremental Recovery_Test Config_File System_Reach V2v_Config Oidc Enterprise_Ops
begin

text \<open>
  ImmutaVault, a backup and recovery controller for VMware, Proxmox and XCP-ng machines: what its Python code
  under \<open>src/src/immutavault\<close> does, as definitions that compute, and the theorems that make it trustworthy.

  \<^bold>\<open>The program.\<close> A configuration (\<open>config.py\<close>, \<open>dr_config.py\<close>, \<open>v2v_config.py\<close>, \<open>enterprise_config.py\<close>,
  \<open>management_config.py\<close>) names platforms, replica targets, sites and policies. \<open>BackupEngine\<close> (\<open>engine.py\<close>)
  exports machines through the adapter of their platform (\<open>adapters/\<close>), writes a manifest of the exported
  files (\<open>integrity.py\<close>), stores them with restic (\<open>restic.py\<close>), copies them to replicas that the provider
  locks (\<open>storage.py\<close>) and records jobs, recovery points, copies, restore requests and a hash-chained audit log
  in SQLite (\<open>state.py\<close>). A restore is a request that someone else approves; it is executed from a staged copy
  whose manifest verified. On top of that: recovery across hypervisors (\<open>v2v.py\<close>, \<open>v2v_cert.py\<close>,
  \<open>v2v_engine.py\<close>), isolated recovery tests (\<open>recovery_test.py\<close>, \<open>managed_engine.py\<close>), failover to a second
  site (\<open>dr.py\<close>, \<open>dr_network.py\<close>, \<open>health.py\<close>), named policies (\<open>policy.py\<close>), and the enterprise layer with OIDC
  login, signed sessions and the operations view (\<open>enterprise_auth.py\<close>, \<open>enterprise_ops.py\<close>).

  \<^bold>\<open>How it is modelled.\<close> A Python function that may raise or talk to the outside is an action (\<open>World\<close>): it maps
  the state, which is the database, the calls made so far and what objects of the process remember, to a
  result or an exception and the state it left. A call is one interaction with the outside: a subprocess, a file
  operation, an adapter, an object store. The environment, the argument \<open>E\<close> of nearly every definition, answers a
  call from all calls before it, so the same call may answer differently every time; nothing is assumed of it in
  any theorem about safety. Exceptions are values of \<open>exc\<close>; \<open>try\<close>, \<open>except\<close> and \<open>finally\<close> are \<open>catch\<close>, \<open>attempt\<close>
  and \<open>finally_act\<close>. Tables are lists of records in rowid order, timestamps are the texts that the code stores and
  compares, JSON and parsed YAML are \<open>json\<close>. Of the standard library the development writes out what the code
  uses: JSON, base 64, SHA-256 and HMAC, ISO timestamps, IP addresses, \<open>fnmatch\<close>, \<open>shlex\<close>. Parameters are the YAML
  reader (the loaders start from its result), the XML parser (a field of the environment that may refuse a text;
  the tree functions applied to its result are written out), restic, openssl, virt-v2v, the capture helper, the hypervisors, boto3 and
  HTTP (all behind calls). The time limits of subprocesses are not modelled: running into one is an exception
  that the environment may answer with.

  \<^bold>\<open>Foundations.\<close> \<open>Prelude\<close> (texts, exceptions, orders), \<open>Tables\<close> (SQL statements; the locale \<open>keyed_table\<close>),
  \<open>Clock\<close> and \<open>Clock_Read\<close> (timestamps; their text order is their time order), \<open>Json\<close> and \<open>Json_Read\<close> (printing,
  reading, round trip), \<open>Sha256\<close>, \<open>Base64\<close>, \<open>Py_Values\<close> (conversions), \<open>Naming\<close> (\<open>util.py\<close> and paths), \<open>Fnmatch\<close>,
  \<open>Shlex\<close>, \<open>Ip_Address\<close>, \<open>World\<close> (actions; the locale \<open>step_relation\<close>), \<open>Effects\<close> and \<open>Phases\<close> (what actions may do:
  its relations are interpretations of \<open>step_relation\<close>, so a property of primitive calls lifts to every operation).

  \<^bold>\<open>State database\<close> (\<open>state.py\<close>). \<open>State_Db\<close> (one record per table), \<open>Audit_Log\<close> (the hash chain; the locale
  \<open>event_log\<close>), \<open>Catalog\<close> (points, copies, holds, expiry), \<open>Requests\<close> (jobs and restore requests), \<open>Dr_State\<close> (runs,
  probes, reports), \<open>State_Backup\<close>. The lemmas show the chain valid and tamper-evident, horizons never shortened
  and protection exact in time, guarded transitions, exact counters. SQLite itself is assumed to work: its own errors
  (a locked or full database) are not modelled.

  \<^bold>\<open>Backup and restore.\<close> \<open>Anomaly\<close>, \<open>Consistency\<close>, \<open>Integrity\<close>, \<open>Storage\<close>, \<open>Restic\<close>, \<open>Settings\<close> and \<open>Engine\<close> hold the
  definitions; \<open>Engine_Safety\<close> shows that retention spares protected snapshots and that only verified copies
  are imported, \<open>Storage\<close> until when a replica's objects are locked and that an answer that is an error does not
  stop a lock, \<open>Engine_Backup\<close> that every backup closes its job, \<open>Engine_Reach\<close> lifts invariants to every state
  reachable from an empty database, and \<open>Lifecycle\<close> proves that the engine refines the abstract life cycle of a
  request. \<open>Policy\<close> shows that a named policy exports exactly what it selects. \<open>System_Reach\<close> puts all operations that
  write the database together, those of failover, conversion, recovery tests and policies included, and shows
  that the audit chain and the keys of every table survive any sequence of them.

  \<^bold>\<open>Adapters.\<close> The engine calls an adapter as one operation of a named platform (the call \<open>Adapter\<close>), whatever it
  answers. \<open>Proxmox\<close>, \<open>Xcpng\<close> and \<open>Vmware\<close> model the three adapters themselves, as the commands they run, and
  show that a restore imports only after a lookup that found nothing to overwrite and that a hot backup removes
  its snapshot and its clone. \<open>Incremental\<close> models the incremental VMware adapter (\<open>incremental.py\<close>,
  \<open>adapters/vmware_incremental.py\<close>) and its exchange of JSON with an external capture helper: a failure of the helper
  becomes a full backup only when it is declared safe and known, the checkpoint advances last, and a rejected
  backup leaves no cache behind.

  \<^bold>\<open>Recovery across hypervisors.\<close> \<open>V2v_Config\<close>, \<open>V2v_Plan\<close> (which recoveries are certified; providers pinned by
  digest), \<open>V2v_Guest\<close> (conversion of the guest), \<open>V2v_Target\<close> (the new machine), \<open>V2v_Engine\<close> (requests and their
  execution); \<open>Recovery_Test\<close> adds the isolated tests: a machine is started only from a verified point and after each of
  its listed adapters was moved to a configured network, and is always powered off.

  \<^bold>\<open>Failover.\<close> \<open>Dr_Network\<close> (gateways), \<open>Dr_Plan\<close> (probes and plans), \<open>Dr_Failover\<close> (fencing, failover, failback, the
  watchdog) and \<open>Dr_Safety\<close>: a plan is ready only when the newest point of every workload is verified, unsuspicious,
  copied and recent, and nothing is restored or started before the primary site is fenced.

  \<^bold>\<open>Configuration and access.\<close> \<open>Config_Read\<close>, \<open>Config_Load\<close>, \<open>Dr_Config_Load\<close>, \<open>Config_File\<close>, \<open>Enterprise_Config\<close>,
  \<open>Management_Config\<close>: what every accepted document satisfies. \<open>Signed_Token\<close>, \<open>Oidc\<close>, \<open>Enterprise_Ops\<close>: sessions,
  logins and the scoped operations view with its event stream.

  \<^bold>\<open>Bounds.\<close> Recursion is structural or has a termination proof, with one exception: the reader of event-stream
  frames in \<open>Enterprise_Ops\<close>, a specification and not a part of the code, has fuel, and the length of the stream is
  enough because every frame has at least one byte. SHA-256 works on 32-bit words; everything else Python
  computes with unbounded integers, here \<open>int\<close> and \<open>nat\<close>, and floats are exact rationals or the texts they print as.

  \<^bold>\<open>Not modelled.\<close> File-level recovery (\<open>flr.py\<close>, \<open>flr_broker.py\<close>, \<open>enterprise_flr.py\<close>), the management broker
  and services (\<open>management_broker.py\<close>, \<open>management_service.py\<close>, \<open>management_service_final.py\<close>,
  \<open>management_runtime.py\<close>), the portals, the setup wizard and console, the hardware report and the command lines are
  servers, prompts and rendering around the modelled parts. The class \<open>RecoveryTestManager\<close>
  (\<open>recovery_test.py\<close>) is an earlier driver of the recovery test that no module uses. The thread that upgrades and
  serves event streams is not modelled, nor are several processes on one database: operations run one after the
  other, in any order.
\<close>

end
